(* ===== verification/Kubegres_Prelude.thy ===== *)
theory Kubegres_Prelude
  imports Main "HOL-Library.AList" "HOL-Library.Multiset" "HOL-Library.Sublist"
begin

text \<open>
  Shared vocabulary of the development: the Go results (errors, panics), fixed-width
  integers, the parts of the Go standard library the operator calls (\<open>strconv\<close>,
  \<open>strings\<close>, maps, \<open>sort\<close>) and the generic lemmas on lists and maps that the
  component theories use.
\<close>

section \<open>Collections of facts\<close>

named_theorems op_defs \<open>unfolding rules of the blocking-operation queries\<close>
named_theorems frame \<open>what an operation leaves unchanged\<close>
named_theorems active_simps \<open>the active operation after each operation of the component\<close>

section \<open>Errors and panics\<close>

text \<open>
  A Go \<open>error\<close> is a value. The code asks of an API error only whether it is
  \<open>apierrors.IsNotFound\<close>; \<open>OperationError\<close> carries the three fields of the
  struct \<open>BlockingOperationError\<close>.
\<close>

datatype go_error =
    ApiNotFound
  | ApiError string
  | TextError string
  | NumError string
  | OperationError bool bool string

text \<open>
  What a Go function of result type \<open>error\<close> does: it returns nil, it returns an
  error, or it panics (index out of range, nil dereference, write to a nil map,
  \<open>resource.MustParse\<close>).
\<close>

datatype outcome = Ok | Err go_error | Panic

text \<open>
  \<open>if err := f(); err != nil { return err }; return g()\<close>, over the state that both
  functions update.
\<close>

definition and_then :: "('s \<Rightarrow> outcome \<times> 's) \<Rightarrow> ('s \<Rightarrow> outcome \<times> 's) \<Rightarrow> 's \<Rightarrow> outcome \<times> 's" where
  "and_then f g s = (case f s of (Ok, s') \<Rightarrow> g s' | (r, s') \<Rightarrow> (r, s'))"

fun run_all :: "('s \<Rightarrow> outcome \<times> 's) list \<Rightarrow> 's \<Rightarrow> outcome \<times> 's" where
  "run_all [] s = (Ok, s)"
| "run_all (f # fs) s = and_then f (run_all fs) s"

lemma and_then_Ok [simp]: "f s = (Ok, s') \<Longrightarrow> and_then f g s = g s'"
  by (simp add: and_then_def)

lemma and_then_stop: "f s = (r, s') \<Longrightarrow> r \<noteq> Ok \<Longrightarrow> and_then f g s = (r, s')"
  by (cases r) (simp_all add: and_then_def)

lemma and_then_cases:
  assumes "and_then f g s = (r, t)"
  obtains (first) "r \<noteq> Ok" "f s = (r, t)"
  | (second) s' where "f s = (Ok, s')" "g s' = (r, t)"
  using assms by (auto simp: and_then_def split: prod.splits outcome.splits)

text \<open>A relation that is reflexive and transitive and holds of each part holds of the sequence.\<close>

lemma and_then_rel:
  assumes "\<And>s r t. f s = (r, t) \<Longrightarrow> R s t" "\<And>s r t. g s = (r, t) \<Longrightarrow> R s t"
    and "\<And>a b c. R a b \<Longrightarrow> R b c \<Longrightarrow> R a c" "and_then f g s = (r, t)"
  shows "R s t"
  using assms(4) by (rule and_then_cases) (blast intro: assms(1,2,3))+

lemma run_all_rel:
  assumes "\<And>f s r t. f \<in> set fs \<Longrightarrow> f s = (r, t) \<Longrightarrow> R s t"
    and "\<And>a. R a a" "\<And>a b c. R a b \<Longrightarrow> R b c \<Longrightarrow> R a c" "run_all fs s = (r, t)"
  shows "R s t"
  using assms(1,4)
proof (induction fs arbitrary: s)
  case Nil
  then show ?case by (simp add: assms(2))
next
  case (Cons f fs)
  from Cons.prems(2) have "and_then f (run_all fs) s = (r, t)" by simp
  then show ?case
  proof (cases rule: and_then_cases)
    case first
    then show ?thesis using Cons.prems(1) [of f] by auto
  next
    case (second s')
    then have "R s s'" using Cons.prems(1) [of f] by auto
    moreover have "R s' t" using second Cons.prems(1) by (intro Cons.IH) auto
    ultimately show ?thesis by (rule assms(3))
  qed
qed

text \<open>
  A Go function that returns a value and an error, where every caller drops the value
  when there is an error: a value, the error, or a panic.
\<close>

datatype 'a res = Val 'a | Fail go_error | Crash

definition res_bind :: "('s \<Rightarrow> 'a res \<times> 's) \<Rightarrow> ('a \<Rightarrow> 's \<Rightarrow> 'b res \<times> 's) \<Rightarrow> 's \<Rightarrow> 'b res \<times> 's" where
  "res_bind f g s =
     (case f s of (Val a, s') \<Rightarrow> g a s' | (Fail e, s') \<Rightarrow> (Fail e, s') | (Crash, s') \<Rightarrow> (Crash, s'))"

lemma res_bind_Val [simp]: "f s = (Val a, s') \<Longrightarrow> res_bind f g s = g a s'"
  by (simp add: res_bind_def)

lemma res_bind_eq_Val:
  "res_bind f g s = (Val b, t) \<longleftrightarrow> (\<exists>a s'. f s = (Val a, s') \<and> g a s' = (Val b, t))"
  by (auto simp: res_bind_def split: prod.splits res.splits)

lemma res_bind_no_crash:
  "fst (f s) \<noteq> Crash \<Longrightarrow> (\<And>a u. fst (g a u) \<noteq> Crash) \<Longrightarrow> fst (res_bind f g s) \<noteq> Crash"
  by (auto simp: res_bind_def split: prod.splits res.splits)

lemma res_bind_rel:
  assumes "\<And>r t. f s = (r, t) \<Longrightarrow> R s t" "\<And>a u r t. g a u = (r, t) \<Longrightarrow> R u t"
    and "\<And>a b c. R a b \<Longrightarrow> R b c \<Longrightarrow> R a c" "res_bind f g s = (r, t)"
  shows "R s t"
proof -
  obtain r' u where u: "f s = (r', u)" by fastforce
  then have "R s u" by (rule assms(1))
  with u assms(2-4) show ?thesis by (cases r') (auto simp: res_bind_def)
qed

section \<open>Fixed-width integers\<close>

text \<open>
  Go's \<open>int32\<close> and \<open>int64\<close> are kept as \<open>int\<close> with the wrap-around written
  out: the value of an arithmetic expression is reduced into the type's range.
\<close>

definition int32 :: "int \<Rightarrow> int" where
  "int32 x = (x + 2147483648) mod 4294967296 - 2147483648"

definition int64 :: "int \<Rightarrow> int" where
  "int64 x = (x + 9223372036854775808) mod 18446744073709551616 - 9223372036854775808"

definition in_int32 :: "int \<Rightarrow> bool" where
  "in_int32 x \<longleftrightarrow> - 2147483648 \<le> x \<and> x \<le> 2147483647"

definition in_int64 :: "int \<Rightarrow> bool" where
  "in_int64 x \<longleftrightarrow> - 9223372036854775808 \<le> x \<and> x \<le> 9223372036854775807"

lemma int32_range [simp]: "in_int32 (int32 x)"
  unfolding in_int32_def int32_def using pos_mod_bound [of 4294967296 "x + 2147483648"] by simp

lemma int32_id: "in_int32 x \<Longrightarrow> int32 x = x"
  by (simp add: in_int32_def int32_def mod_pos_pos_trivial)

lemma int64_range [simp]: "in_int64 (int64 x)"
  unfolding in_int64_def int64_def
  using pos_mod_bound [of 18446744073709551616 "x + 9223372036854775808"] by simp

lemma int64_id: "in_int64 x \<Longrightarrow> int64 x = x"
  by (simp add: in_int64_def int64_def mod_pos_pos_trivial)

lemma int32_add_idem: "int32 (int32 x + y) = int32 (x + y)" "int32 (y + int32 x) = int32 (y + x)"
  unfolding int32_def by (simp_all add: mod_simps algebra_simps)

lemma int32_0 [simp]: "int32 0 = 0"
  by (simp add: int32_def)

lemma int32_wraps: "int32 (2147483647 + 1) = - 2147483648"
  by (simp add: int32_def)

section \<open>strconv\<close>

subsection \<open>strconv.Itoa\<close>

definition digit_char :: "nat \<Rightarrow> char" where
  "digit_char d = char_of (48 + d)"

fun format_nat :: "nat \<Rightarrow> string" where
  "format_nat n = (if n < 10 then [digit_char n] else format_nat (n div 10) @ [digit_char (n mod 10)])"

declare format_nat.simps [simp del]

definition Itoa :: "int \<Rightarrow> string" where
  "Itoa i = (if i < 0 then ''-'' @ format_nat (nat (- i)) else format_nat (nat i))"

subsection \<open>strconv.ParseInt(s, 10, 32)\<close>

datatype num_err = ErrSyntax | ErrRange

definition is_digit :: "char \<Rightarrow> bool" where
  "is_digit c \<longleftrightarrow> 48 \<le> (of_char c :: nat) \<and> (of_char c :: nat) \<le> 57"

definition digit_val :: "char \<Rightarrow> int" where
  "digit_val c = int (of_char c) - 48"

text \<open>
  The loop of \<open>ParseUint\<close> with base 10 and 32 bits: it stops at the first character
  that is not a digit and at the first prefix whose value exceeds \<open>2 ^ 32 - 1\<close>.
\<close>

fun parse_uint_loop :: "int \<Rightarrow> string \<Rightarrow> num_err + int" where
  "parse_uint_loop n [] = Inr n"
| "parse_uint_loop n (c # cs) =
     (if \<not> is_digit c then Inl ErrSyntax
      else if 4294967295 < n * 10 + digit_val c then Inl ErrRange
      else parse_uint_loop (n * 10 + digit_val c) cs)"

definition ParseUint32 :: "string \<Rightarrow> num_err + int" where
  "ParseUint32 s = (if s = [] then Inl ErrSyntax else parse_uint_loop 0 s)"

text \<open>
  The value and the error: a syntax error comes with 0, a range error with the nearest
  representable value.
\<close>

definition ParseInt32 :: "string \<Rightarrow> int \<times> num_err option" where
  "ParseInt32 s0 =
     (if s0 = [] then (0, Some ErrSyntax)
      else
        let neg = (hd s0 = CHR ''-'');
            s = (if hd s0 = CHR ''+'' \<or> neg then tl s0 else s0)
        in case ParseUint32 s of
             Inl ErrSyntax \<Rightarrow> (0, Some ErrSyntax)
           | Inl ErrRange \<Rightarrow> (if neg then - 2147483648 else 2147483647, Some ErrRange)
           | Inr un \<Rightarrow>
               if \<not> neg \<and> 2147483648 \<le> un then (2147483647, Some ErrRange)
               else if neg \<and> 2147483648 < un then (- 2147483648, Some ErrRange)
               else (if neg then - un else un, None))"

lemma of_char_digit_char [simp]: "d < 10 \<Longrightarrow> (of_char (digit_char d) :: nat) = 48 + d"
  by (simp add: digit_char_def)

lemma is_digit_digit_char [simp]: "d < 10 \<Longrightarrow> is_digit (digit_char d)"
  by (simp add: is_digit_def)

lemma digit_val_digit_char [simp]: "d < 10 \<Longrightarrow> digit_val (digit_char d) = int d"
  by (simp add: digit_val_def)

lemma digit_val_nonneg: "is_digit c \<Longrightarrow> 0 \<le> digit_val c"
  by (simp add: is_digit_def digit_val_def)

lemma format_nat_nonempty [simp]: "format_nat n \<noteq> []"
  by (subst format_nat.simps) simp

lemma format_nat_digits: "\<forall>c \<in> set (format_nat n). is_digit c"
proof (induction n rule: format_nat.induct)
  case (1 n)
  then show ?case by (cases "n < 10") (auto simp: format_nat.simps [of n])
qed

lemma parse_uint_loop_snoc:
  "parse_uint_loop n cs = Inr m \<Longrightarrow> d < 10 \<Longrightarrow> m * 10 + int d \<le> 4294967295 \<Longrightarrow>
   parse_uint_loop n (cs @ [digit_char d]) = Inr (m * 10 + int d)"
  by (induction cs arbitrary: n) (auto split: if_splits)

lemma parse_uint_format_nat: "n \<le> 4294967295 \<Longrightarrow> parse_uint_loop 0 (format_nat n) = Inr (int n)"
proof (induction n rule: format_nat.induct)
  case (1 n)
  show ?case
  proof (cases "n < 10")
    case True
    then show ?thesis by (simp add: format_nat.simps [of n])
  next
    case False
    with 1 have IH: "parse_uint_loop 0 (format_nat (n div 10)) = Inr (int (n div 10))" by simp
    have "int (n div 10) * 10 + int (n mod 10) = int n"
      by (metis of_nat_add of_nat_mult of_nat_numeral div_mult_mod_eq)
    with False 1(2) parse_uint_loop_snoc [OF IH, of "n mod 10"] show ?thesis
      by (simp add: format_nat.simps [of n])
  qed
qed

lemma hd_format_nat: "is_digit (hd (format_nat n))"
  using format_nat_digits [of n] by simp

lemma ParseInt32_Itoa: "in_int32 i \<Longrightarrow> ParseInt32 (Itoa i) = (i, None)"
proof -
  assume r: "in_int32 i"
  have ns: "hd (format_nat n) \<noteq> CHR ''+''" "hd (format_nat n) \<noteq> CHR ''-''" for n
    using hd_format_nat [of n] by (auto simp: is_digit_def)
  have "nat \<bar>i\<bar> \<le> 4294967295" using r by (auto simp: in_int32_def)
  then have "ParseUint32 (format_nat (nat \<bar>i\<bar>)) = Inr \<bar>i\<bar>"
    by (simp add: parse_uint_format_nat ParseUint32_def)
  with r ns show ?thesis
    by (auto simp: ParseInt32_def Itoa_def in_int32_def Let_def)
qed

lemma Itoa_inject: "in_int32 i \<Longrightarrow> in_int32 j \<Longrightarrow> Itoa i = Itoa j \<Longrightarrow> i = j"
  by (metis ParseInt32_Itoa prod.inject)

lemma parse_uint_loop_nonneg: "0 \<le> n \<Longrightarrow> parse_uint_loop n cs = Inr m \<Longrightarrow> 0 \<le> m"
proof (induction cs arbitrary: n)
  case (Cons c cs)
  then have "0 \<le> n * 10 + digit_val c" and "parse_uint_loop (n * 10 + digit_val c) cs = Inr m"
    by (auto split: if_splits dest: digit_val_nonneg)
  then show ?case by (rule Cons.IH)
qed simp

lemma ParseInt32_range: "in_int32 (fst (ParseInt32 s))"
proof -
  have nonneg: "ParseUint32 t = Inr m \<Longrightarrow> 0 \<le> m" for t m
    using parse_uint_loop_nonneg [of 0 t m] by (simp add: ParseUint32_def split: if_splits)
  let ?t = "if hd s = CHR ''+'' \<or> hd s = CHR ''-'' then tl s else s"
  show ?thesis
  proof (cases "ParseUint32 ?t")
    case (Inl e)
    then show ?thesis by (cases e) (simp_all add: ParseInt32_def in_int32_def Let_def)
  next
    case (Inr un)
    then have "0 \<le> un" by (rule nonneg)
    with Inr show ?thesis by (simp add: ParseInt32_def in_int32_def Let_def)
  qed
qed

section \<open>Maps with string keys\<close>

text \<open>
  A Go map is an association list without duplicate keys; the list order stands for
  the iteration order, which Go leaves open. A map decoded from an API object is nil
  exactly when it is empty. Reading a missing key of a \<open>map[string]string\<close> gives
  the empty string; writing to a nil map panics (\<open>None\<close>).
\<close>

type_synonym str_map = "(string \<times> string) list"

definition map_get :: "str_map \<Rightarrow> string \<Rightarrow> string" where
  "map_get m k = (case map_of m k of None \<Rightarrow> '''' | Some v \<Rightarrow> v)"

definition map_set :: "str_map \<Rightarrow> string \<Rightarrow> string \<Rightarrow> str_map option" where
  "map_set m k v = (if m = [] then None else Some (AList.update k v m))"

lemma map_of_update [simp]: "map_of (AList.update k v m) = (map_of m)(k \<mapsto> v)"
  by (simp add: update_conv')

lemma map_get_update [simp]:
  "map_get (AList.update k v m) k' = (if k' = k then v else map_get m k')"
  by (simp add: map_get_def)

section \<open>Slices\<close>

text \<open>\<open>xs[i] = f(xs[i])\<close>: an index out of range panics (\<open>None\<close>), as does \<open>f\<close>.\<close>

definition upd_nth :: "nat \<Rightarrow> ('a \<Rightarrow> 'a option) \<Rightarrow> 'a list \<Rightarrow> 'a list option" where
  "upd_nth i f xs = (if i < length xs then map_option (\<lambda>y. xs[i := y]) (f (xs ! i)) else None)"

definition get_nth :: "nat \<Rightarrow> 'a list \<Rightarrow> 'a option" where
  "get_nth i xs = (if i < length xs then Some (xs ! i) else None)"

lemma upd_nth_0_Cons [simp]: "upd_nth 0 f (x # xs) = map_option (\<lambda>y. y # xs) (f x)"
  by (cases "f x") (simp_all add: upd_nth_def)

lemma upd_nth_Suc_Cons [simp]: "upd_nth (Suc i) f (x # xs) = map_option ((#) x) (upd_nth i f xs)"
  by (cases "f (xs ! i)") (simp_all add: upd_nth_def)

lemma upd_nth_Nil [simp]: "upd_nth i f [] = None"
  by (simp add: upd_nth_def)

lemma get_nth_simps [simp]:
  "get_nth 0 (x # xs) = Some x" "get_nth (Suc i) (x # xs) = get_nth i xs" "get_nth i [] = None"
  by (simp_all add: get_nth_def)

lemma upd_nth_SomeD: "upd_nth i f xs = Some ys \<Longrightarrow> i < length xs \<and> length ys = length xs"
  by (auto simp: upd_nth_def split: if_splits)

section \<open>Sorting by a key\<close>

text \<open>
  \<open>sort.Sort\<close> is not stable in general; the model uses the stable sort of the
  library. For pairwise different keys every sorted permutation is the same list.
\<close>

lemma sorted_perm_unique:
  assumes "mset xs = mset ys" "sorted (map f xs)" "sorted (map f ys)" "distinct (map f xs)"
  shows "xs = ys"
proof -
  have "inj_on f (set xs)" using assms(4) by (simp add: distinct_map)
  moreover have "set xs = set ys" using assms(1) by (metis set_mset_mset)
  moreover have "map f xs = map f ys"
  proof -
    have "mset (map f xs) = mset (map f ys)" using assms(1) by simp
    then have "sort (map f ys) = map f xs" using assms(2) by (rule properties_for_sort)
    with assms(3) show ?thesis by (simp add: sorted_sort_id)
  qed
  ultimately show ?thesis by (auto intro: inj_on_map_eq_map [THEN iffD1])
qed

lemma set_sort_key [simp]: "set (sort_key f xs) = set xs"
  by (rule set_sort)

end
