(* ===== verification/K8s_Types.thy ===== *)
theory K8s_Types
  imports Kubegres_Prelude
begin

text \<open>
  The Kubernetes objects the operator reads and writes, each with the fields that the
  code under \<open>src/controllers\<close> touches. The remaining fields of an object are kept
  in one opaque component, so that copying an object keeps them and equality of two
  objects (\<open>reflect.DeepEqual\<close>) compares them.
\<close>

section \<open>Opaque API values\<close>

text \<open>
  Structures the operator only copies and compares (affinity, tolerations, probes,
  security contexts, value sources): their decoded form as a tree of names and scalars.
\<close>

datatype k8s_value =
    KNull
  | KBool bool
  | KInt int
  | KStr string
  | KList "k8s_value list"
  | KObj "(string \<times> k8s_value) list"

text \<open>A \<open>resource.Quantity\<close>; parsing and printing are parameters of the model.\<close>

datatype quantity = Quantity string

section \<open>Pods and their parts\<close>

record VolumeMount =
  vm_Name :: string
  vm_MountPath :: string
  vm_SubPath :: string
  vm_rest :: k8s_value

record EnvVar =
  env_Name :: string
  env_Value :: string
  env_ValueFrom :: "k8s_value option"

record ResourceRequirements =
  rr_Limits :: "(string \<times> quantity) list"
  rr_Requests :: "(string \<times> quantity) list"

record Container =
  ctr_Name :: string
  ctr_Image :: string
  ctr_Command :: "string list"
  ctr_Ports :: "int list"
  ctr_Env :: "EnvVar list"
  ctr_Resources :: ResourceRequirements
  ctr_VolumeMounts :: "VolumeMount list"
  ctr_LivenessProbe :: "k8s_value option"
  ctr_ReadinessProbe :: "k8s_value option"
  ctr_rest :: k8s_value

record ConfigMapVolumeSource =
  cmv_Name :: string
  cmv_DefaultMode :: "int option"

record Volume =
  v_Name :: string
  v_ConfigMap :: "ConfigMapVolumeSource option"
  v_PersistentVolumeClaim :: "string option"
  v_rest :: k8s_value

record PodSpec =
  ps_Volumes :: "Volume list"
  ps_InitContainers :: "Container list"
  ps_Containers :: "Container list"
  ps_ServiceAccountName :: string
  ps_SecurityContext :: "k8s_value option"
  ps_Affinity :: "k8s_value option"
  ps_Tolerations :: "k8s_value list"
  ps_ImagePullSecrets :: "string list"
  ps_rest :: k8s_value

record ContainerStatus =
  cs_Ready :: bool
  cs_Waiting :: "string option"

record Pod =
  pod_Name :: string
  pod_Labels :: str_map
  pod_Spec :: PodSpec
  pod_ContainerStatuses :: "ContainerStatus list"

section \<open>StatefulSets, services, configuration, storage, jobs\<close>

record OwnerReference =
  own_APIVersion :: string
  own_Kind :: string
  own_Name :: string
  own_UID :: string
  own_Controller :: "bool option"
  own_BlockOwnerDeletion :: "bool option"

record ObjectMeta =
  md_Name :: string
  md_Namespace :: string
  md_Labels :: str_map
  md_Annotations :: str_map
  md_OwnerReferences :: "OwnerReference list"
  md_UID :: string

record PodTemplateSpec =
  pt_Labels :: str_map
  pt_Annotations :: str_map
  pt_Spec :: PodSpec

record PersistentVolumeClaimSpec =
  pvs_StorageClassName :: "string option"
  pvs_Resources :: ResourceRequirements
  pvs_rest :: k8s_value

record PersistentVolumeClaim =
  pvc_Name :: string
  pvc_Namespace :: string
  pvc_Spec :: PersistentVolumeClaimSpec

record StatefulSet =
  sts_meta :: ObjectMeta
  sts_ServiceName :: string
  sts_MatchLabels :: str_map
  sts_Template :: PodTemplateSpec
  sts_VolumeClaimTemplates :: "PersistentVolumeClaim list"
  sts_ReadyReplicas :: int
  sts_rest :: k8s_value

record Service =
  svc_meta :: ObjectMeta
  svc_Selector :: str_map
  svc_Ports :: "int list"
  svc_rest :: k8s_value

record ConfigMap =
  cm_Name :: string
  cm_Namespace :: string
  cm_Data :: str_map

record StorageClass =
  sc_Name :: string
  sc_Annotations :: str_map
  sc_AllowVolumeExpansion :: "bool option"

record CronJob =
  cj_meta :: ObjectMeta
  cj_Schedule :: string
  cj_TemplateAnnotations :: str_map
  cj_PodSpec :: PodSpec
  cj_LastScheduleTime :: "string option"
  cj_rest :: k8s_value

section \<open>Zero values\<close>

text \<open>The value of a struct that no decoder filled, as \<open>&core.ConfigMap{}\<close>.\<close>

definition zero_ResourceRequirements :: ResourceRequirements where
  "zero_ResourceRequirements = \<lparr>rr_Limits = [], rr_Requests = []\<rparr>"

definition zero_PodSpec :: PodSpec where
  "zero_PodSpec = \<lparr>ps_Volumes = [], ps_InitContainers = [], ps_Containers = [],
     ps_ServiceAccountName = '''', ps_SecurityContext = None, ps_Affinity = None,
     ps_Tolerations = [], ps_ImagePullSecrets = [], ps_rest = KNull\<rparr>"

definition zero_Pod :: Pod where
  "zero_Pod = \<lparr>pod_Name = '''', pod_Labels = [], pod_Spec = zero_PodSpec, pod_ContainerStatuses = []\<rparr>"

definition zero_ObjectMeta :: ObjectMeta where
  "zero_ObjectMeta = \<lparr>md_Name = '''', md_Namespace = '''', md_Labels = [], md_Annotations = [],
     md_OwnerReferences = [], md_UID = ''''\<rparr>"

definition zero_StatefulSet :: StatefulSet where
  "zero_StatefulSet = \<lparr>sts_meta = zero_ObjectMeta, sts_ServiceName = '''', sts_MatchLabels = [],
     sts_Template = \<lparr>pt_Labels = [], pt_Annotations = [], pt_Spec = zero_PodSpec\<rparr>,
     sts_VolumeClaimTemplates = [], sts_ReadyReplicas = 0, sts_rest = KNull\<rparr>"

definition zero_Service :: Service where
  "zero_Service = \<lparr>svc_meta = zero_ObjectMeta, svc_Selector = [], svc_Ports = [], svc_rest = KNull\<rparr>"

definition zero_ConfigMap :: ConfigMap where
  "zero_ConfigMap = \<lparr>cm_Name = '''', cm_Namespace = '''', cm_Data = []\<rparr>"

definition zero_StorageClass :: StorageClass where
  "zero_StorageClass = \<lparr>sc_Name = '''', sc_Annotations = [], sc_AllowVolumeExpansion = None\<rparr>"

definition zero_PersistentVolumeClaim :: PersistentVolumeClaim where
  "zero_PersistentVolumeClaim = \<lparr>pvc_Name = '''', pvc_Namespace = '''',
     pvc_Spec = \<lparr>pvs_StorageClassName = None, pvs_Resources = zero_ResourceRequirements,
       pvs_rest = KNull\<rparr>\<rparr>"

definition zero_CronJob :: CronJob where
  "zero_CronJob = \<lparr>cj_meta = zero_ObjectMeta, cj_Schedule = '''', cj_TemplateAnnotations = [],
     cj_PodSpec = zero_PodSpec, cj_LastScheduleTime = None, cj_rest = KNull\<rparr>"

section \<open>Nested accessors\<close>

abbreviation sts_Name :: "StatefulSet \<Rightarrow> string" where
  "sts_Name s \<equiv> md_Name (sts_meta s)"

abbreviation sts_TemplateLabels :: "StatefulSet \<Rightarrow> str_map" where
  "sts_TemplateLabels s \<equiv> pt_Labels (sts_Template s)"

abbreviation sts_PodSpec :: "StatefulSet \<Rightarrow> PodSpec" where
  "sts_PodSpec s \<equiv> pt_Spec (sts_Template s)"

text \<open>Replacing the pod spec of a StatefulSet's template.\<close>

definition upd_PodSpec :: "(PodSpec \<Rightarrow> PodSpec) \<Rightarrow> StatefulSet \<Rightarrow> StatefulSet" where
  "upd_PodSpec f s = s\<lparr>sts_Template := (sts_Template s)\<lparr>pt_Spec := f (pt_Spec (sts_Template s))\<rparr>\<rparr>"

lemma sts_PodSpec_upd [simp]: "sts_PodSpec (upd_PodSpec f s) = f (sts_PodSpec s)"
  by (simp add: upd_PodSpec_def)

lemma upd_PodSpec_frame [simp]:
  "sts_meta (upd_PodSpec f s) = sts_meta s"
  "sts_TemplateLabels (upd_PodSpec f s) = sts_TemplateLabels s"
  "pt_Annotations (sts_Template (upd_PodSpec f s)) = pt_Annotations (sts_Template s)"
  "sts_VolumeClaimTemplates (upd_PodSpec f s) = sts_VolumeClaimTemplates s"
  "sts_MatchLabels (upd_PodSpec f s) = sts_MatchLabels s"
  "sts_ServiceName (upd_PodSpec f s) = sts_ServiceName s"
  "sts_ReadyReplicas (upd_PodSpec f s) = sts_ReadyReplicas s"
  by (simp_all add: upd_PodSpec_def)

end
