(* ===== verification/Base_Config.thy ===== *)
theory Base_Config
  imports K8s_Types
begin

text \<open>
  The data of the base configuration map, the constant \<open>BaseConfigMapTemplate\<close> of
  \<open>src/controllers/spec/template/yaml/Templates.go\<close>: seven files, each as the text
  that the YAML block scalar denotes (indentation removed, one final newline).
\<close>

definition unlines :: "string list \<Rightarrow> string" where
  "unlines ls = concat (map (\<lambda>l. l @ [CHR 0x0A]) ls)"

definition base_postgres_conf :: string where
  "base_postgres_conf = unlines
     ['''',
      ''# Replication configs'',
      ''listen_addresses = '' @ [CHR 0x27] @ ''*'' @ [CHR 0x27],
      ''max_wal_senders = 10'',
      ''max_connections = 100'',
      ''shared_buffers = 128MB'',
      '''',
      ''# Logging'',
      ''#log_destination = '' @ [CHR 0x27] @ ''stderr,csvlog'' @ [CHR 0x27],
      ''#logging_collector = on'',
      ''#log_directory = '' @ [CHR 0x27] @ ''pg_log'' @ [CHR 0x27],
      ''#log_filename= '' @ [CHR 0x27] @ ''postgresql-%Y-%m-%d_%H%M%S.log'' @ [CHR 0x27]]"

definition base_primary_init_script :: string where
  "base_primary_init_script = unlines
     [''#!/bin/bash'',
      ''set -e'',
      '''',
      ''# This script assumes that the env-var $POSTGRES_MYAPP_PASSWORD contains the password of the custom user to create.'',
      ''# You can add any env-var in your Kubegres resource config YAML.'',
      '''',
      ''#dt=$(date '' @ [CHR 0x27] @ ''+%d/%m/%Y %H:%M:%S'' @ [CHR 0x27] @ '');'',
      ''#echo '' @ [CHR 0x22] @ ''$dt - Running init script the 1st time Primary PostgreSql container is created...'' @ [CHR 0x22] @ '';'',
      '''',
      ''#customDatabaseName='' @ [CHR 0x22] @ ''my_app'' @ [CHR 0x22],
      ''#customUserName='' @ [CHR 0x22] @ ''my_username'' @ [CHR 0x22],
      '''',
      ''#echo '' @ [CHR 0x22] @ ''$dt - Running: psql -v ON_ERROR_STOP=1 --username $POSTGRES_USER --dbname $POSTGRES_DB ...'' @ [CHR 0x22] @ '';'',
      '''',
      ''#psql -v ON_ERROR_STOP=1 --username '' @ [CHR 0x22] @ ''$POSTGRES_USER'' @ [CHR 0x22] @ '' --dbname '' @ [CHR 0x22] @ ''$POSTGRES_DB'' @ [CHR 0x22] @ '' <<-EOSQL'',
      ''#CREATE DATABASE $customDatabaseName;'',
      ''#CREATE USER $customUserName WITH PASSWORD '' @ [CHR 0x27] @ ''$POSTGRES_MYAPP_PASSWORD'' @ [CHR 0x27] @ '';'',
      ''#'' @ [CHR 0x5C] @ ''connect $customDatabaseName;'',
      ''#CREATE TABLE account(user_id serial PRIMARY KEY, username VARCHAR (50) NOT NULL);'',
      ''#INSERT INTO account VALUES (1, '' @ [CHR 0x27] @ ''username1'' @ [CHR 0x27] @ '');'',
      ''#INSERT INTO account VALUES (2, '' @ [CHR 0x27] @ ''username2'' @ [CHR 0x27] @ '');'',
      ''#GRANT ALL PRIVILEGES ON DATABASE '' @ [CHR 0x22] @ ''$customDatabaseName'' @ [CHR 0x22] @ '' to $customUserName;'',
      ''#GRANT ALL ON '' @ [CHR 0x22] @ ''account'' @ [CHR 0x22] @ '' to $customUserName;'',
      ''#EOSQL'',
      '''',
      ''#echo '' @ [CHR 0x22] @ ''$dt - Init script is completed'' @ [CHR 0x22] @ '';'']"

definition base_backup_database :: string where
  "base_backup_database = unlines
     [''#!/bin/bash'',
      ''set -e'',
      '''',
      ''dt=$(date '' @ [CHR 0x27] @ ''+%d/%m/%Y %H:%M:%S'' @ [CHR 0x27] @ '');'',
      ''fileDt=$(date '' @ [CHR 0x27] @ ''+%d_%m_%Y_%H_%M_%S'' @ [CHR 0x27] @ '');'',
      ''backUpFileName='' @ [CHR 0x22] @ ''$KUBEGRES_RESOURCE_NAME-backup-$fileDt.gz'' @ [CHR 0x22],
      ''backUpFilePath='' @ [CHR 0x22] @ ''$BACKUP_DESTINATION_FOLDER/$backUpFileName'' @ [CHR 0x22],
      '''',
      ''echo '' @ [CHR 0x22] @ ''$dt - Starting DB backup of Kubegres resource $KUBEGRES_RESOURCE_NAME into file: $backUpFilePath'' @ [CHR 0x22] @ '';'',
      ''echo '' @ [CHR 0x22] @ ''$dt - Running: pg_dumpall -h $BACKUP_SOURCE_DB_HOST_NAME -U postgres -c | gzip > $backUpFilePath'' @ [CHR 0x22],
      '''',
      ''pg_dumpall -h $BACKUP_SOURCE_DB_HOST_NAME -U postgres -c | gzip > $backUpFilePath'',
      '''',
      ''if [ $? -ne 0 ]; then'',
      ''  rm $backUpFilePath'',
      ''  echo '' @ [CHR 0x22] @ ''Unable to execute a BackUp. Please check DB connection settings'' @ [CHR 0x22],
      ''  exit 1'',
      ''fi'',
      '''',
      ''echo '' @ [CHR 0x22] @ ''$dt - DB backup completed for Kubegres resource $KUBEGRES_RESOURCE_NAME into file: $backUpFilePath'' @ [CHR 0x22] @ '';'']"

definition base_pg_hba_conf :: string where
  "base_pg_hba_conf = unlines
     [''# TYPE  DATABASE        USER            ADDRESS                 METHOD'',
      ''# Replication connections by a user with the replication privilege'',
      ''host    replication     replication     all                     md5'',
      ''# As long as it is authenticated, all connections allowed except from '' @ [CHR 0x22] @ ''0.0.0.0/0'' @ [CHR 0x22],
      ''local   all             all                                     md5'',
      ''host    all             all             all                     md5'',
      ''host    all             all             0.0.0.0/0               reject'']"

definition base_primary_create_replication_role :: string where
  "base_primary_create_replication_role = unlines
     [''#!/bin/bash'',
      ''set -e'',
      '''',
      ''dt=$(date '' @ [CHR 0x27] @ ''+%d/%m/%Y %H:%M:%S'' @ [CHR 0x27] @ '');'',
      ''echo '' @ [CHR 0x22] @ ''$dt - Creating replication role...'' @ [CHR 0x22] @ '';'',
      ''echo '' @ [CHR 0x22] @ ''$dt - Running: psql -v ON_ERROR_STOP=1 --username $POSTGRES_USER --dbname $POSTGRES_DB ... CREATE ROLE replication WITH REPLICATION PASSWORD ... GRANT EXECUTE ON FUNCTION pg_promote TO replication;'' @ [CHR 0x22] @ '';'',
      '''',
      ''psql -v ON_ERROR_STOP=1 --username '' @ [CHR 0x22] @ ''$POSTGRES_USER'' @ [CHR 0x22] @ '' --dbname '' @ [CHR 0x22] @ ''$POSTGRES_DB'' @ [CHR 0x22] @ '' <<-EOSQL'',
      ''CREATE ROLE replication WITH REPLICATION PASSWORD '' @ [CHR 0x27] @ ''$POSTGRES_REPLICATION_PASSWORD'' @ [CHR 0x27] @ '' LOGIN;'',
      ''GRANT EXECUTE ON FUNCTION pg_promote TO replication;'',
      ''EOSQL'',
      '''',
      ''echo '' @ [CHR 0x22] @ ''$dt - Replication role created'' @ [CHR 0x22] @ '';'']"

definition base_copy_primary_data_to_replica :: string where
  "base_copy_primary_data_to_replica = unlines
     [''#!/bin/bash'',
      ''set -e'',
      '''',
      ''dt=$(date '' @ [CHR 0x27] @ ''+%d/%m/%Y %H:%M:%S'' @ [CHR 0x27] @ '');'',
      ''echo '' @ [CHR 0x22] @ ''$dt - Attempting to copy Primary DB to Replica DB...'' @ [CHR 0x22] @ '';'',
      '''',
      ''if [ -z '' @ [CHR 0x22] @ ''$(ls -A $PGDATA)'' @ [CHR 0x22] @ '' ]; then'',
      '''',
      ''    echo '' @ [CHR 0x22] @ ''$dt - Copying Primary DB to Replica DB folder: $PGDATA'' @ [CHR 0x22] @ '';'',
      ''    echo '' @ [CHR 0x22] @ ''$dt - Running: pg_basebackup -R -h $PRIMARY_HOST_NAME -D $PGDATA -P -U replication;'' @ [CHR 0x22] @ '';'',
      '''',
      ''    pg_basebackup -R -h $PRIMARY_HOST_NAME -D $PGDATA -P -U replication;'',
      '''',
      ''    if [ $UID == 0 ]'',
      ''    then'',
      ''    chown -R postgres:postgres $PGDATA;'',
      ''    fi'',
      '''',
      ''    echo '' @ [CHR 0x22] @ ''$dt - Copy completed'' @ [CHR 0x22] @ '';'',
      '''',
      ''else'',
      ''    echo '' @ [CHR 0x22] @ ''$dt - Skipping copy from Primary DB because Replica DB already exists'' @ [CHR 0x22] @ '';'',
      ''fi'']"

definition base_promote_replica_to_primary :: string where
  "base_promote_replica_to_primary = unlines
     [''#!/bin/bash'',
      ''set -e'',
      '''',
      ''dt=$(date '' @ [CHR 0x27] @ ''+%d/%m/%Y %H:%M:%S'' @ [CHR 0x27] @ '');'',
      ''echo '' @ [CHR 0x22] @ ''$dt - Attempting to promote a Replica PostgreSql to Primary...'' @ [CHR 0x22] @ '';'',
      '''',
      ''standbyFilePath='' @ [CHR 0x22] @ ''$PGDATA/standby.signal'' @ [CHR 0x22],
      '''',
      ''if [ ! -f '' @ [CHR 0x22] @ ''$standbyFilePath'' @ [CHR 0x22] @ '' ]; then'',
      ''  echo '' @ [CHR 0x22] @ ''$dt - Skipping as this PostgreSql is already a Primary since the file '' @ [CHR 0x27] @ ''$standbyFilePath'' @ [CHR 0x27] @ '' does not exist.'' @ [CHR 0x22],
      ''  exit 0'',
      ''fi'',
      '''',
      ''promotionTriggerFilePath='' @ [CHR 0x22] @ ''$PGDATA/promote_replica_to_primary.log'' @ [CHR 0x22],
      '''',
      ''if [ -f '' @ [CHR 0x22] @ ''$promotionTriggerFilePath'' @ [CHR 0x22] @ '' ]; then'',
      ''  echo '' @ [CHR 0x22] @ ''$dt - Skipping as the promotion trigger file '' @ [CHR 0x27] @ ''$promotionTriggerFilePath'' @ [CHR 0x27] @ '' already exists'' @ [CHR 0x22],
      ''  exit 0'',
      ''fi'',
      '''',
      ''echo '' @ [CHR 0x22] @ ''$dt - Promoting by creating the promotion trigger file: '' @ [CHR 0x27] @ ''$promotionTriggerFilePath'' @ [CHR 0x27] @ [CHR 0x22],
      ''touch $promotionTriggerFilePath'']"

definition BaseConfigMapTemplate :: ConfigMap where
  "BaseConfigMapTemplate = \<lparr>cm_Name = ''base-kubegres-config'', cm_Namespace = ''default'',
     cm_Data = [(''postgres.conf'', base_postgres_conf),
       (''primary_init_script.sh'', base_primary_init_script),
       (''backup_database.sh'', base_backup_database),
       (''pg_hba.conf'', base_pg_hba_conf),
       (''primary_create_replication_role.sh'', base_primary_create_replication_role),
       (''copy_primary_data_to_replica.sh'', base_copy_primary_data_to_replica),
       (''promote_replica_to_primary.sh'', base_promote_replica_to_primary)]\<rparr>"

text \<open>Every file of the base configuration has contents.\<close>

lemma unlines_nonempty: "ls \<noteq> [] \<Longrightarrow> unlines ls \<noteq> ''''"
  by (cases ls) (simp_all add: unlines_def)

lemma base_texts_nonempty:
  "base_postgres_conf \<noteq> ''''"
  "base_primary_init_script \<noteq> ''''"
  "base_backup_database \<noteq> ''''"
  "base_pg_hba_conf \<noteq> ''''"
  "base_primary_create_replication_role \<noteq> ''''"
  "base_copy_primary_data_to_replica \<noteq> ''''"
  "base_promote_replica_to_primary \<noteq> ''''"
  unfolding base_postgres_conf_def base_primary_init_script_def base_backup_database_def base_pg_hba_conf_def base_primary_create_replication_role_def base_copy_primary_data_to_replica_def base_promote_replica_to_primary_def
  by (rule unlines_nonempty, rule list.distinct(2))+

lemma base_files_nonempty:
  "(key, contents) \<in> set (cm_Data BaseConfigMapTemplate) \<Longrightarrow> contents \<noteq> ''''"
  by (simp add: BaseConfigMapTemplate_def) (elim disjE conjE; simp add: base_texts_nonempty)

end
