(* ===== verification/Templates.thy ===== *)
theory Templates
  imports Base_Config
begin

text \<open>
  \<open>src/controllers/spec/template/yaml/Templates.go\<close> decoded: the values that
  \<open>ResourceTemplateLoader\<close> gets from the YAML texts. Decoding (the Kubernetes
  deserializer) is not modelled; each definition is the object its YAML text denotes, and
  decoding the fixed texts does not fail.
\<close>

section \<open>Shared parts\<close>

definition template_probe :: "int \<Rightarrow> int \<Rightarrow> int \<Rightarrow> int \<Rightarrow> k8s_value" where
  "template_probe failureThreshold initialDelay period timeout = KObj
     [(''exec'', KObj [(''command'', KList [KStr ''sh'', KStr ''-c'', KStr ''exec pg_isready -U postgres -h $POD_IP''])]),
      (''failureThreshold'', KInt failureThreshold), (''initialDelaySeconds'', KInt initialDelay),
      (''periodSeconds'', KInt period), (''successThreshold'', KInt 1), (''timeoutSeconds'', KInt timeout)]"

definition template_mount :: "string \<Rightarrow> string \<Rightarrow> string \<Rightarrow> VolumeMount" where
  "template_mount name path sub = \<lparr>vm_Name = name, vm_MountPath = path, vm_SubPath = sub, vm_rest = KNull\<rparr>"

definition template_config_volume :: "string \<Rightarrow> string \<Rightarrow> Volume" where
  "template_config_volume name cm = \<lparr>v_Name = name,
     v_ConfigMap = Some \<lparr>cmv_Name = cm, cmv_DefaultMode = Some 511\<rparr>,
     v_PersistentVolumeClaim = None, v_rest = KNull\<rparr>"

definition template_env :: "string \<Rightarrow> string \<Rightarrow> k8s_value option \<Rightarrow> EnvVar" where
  "template_env name val from = \<lparr>env_Name = name, env_Value = val, env_ValueFrom = from\<rparr>"

definition template_claim :: PersistentVolumeClaim where
  "template_claim = \<lparr>pvc_Name = ''postgres-db'', pvc_Namespace = '''',
     pvc_Spec = \<lparr>pvs_StorageClassName = Some ''standard'',
       pvs_Resources = \<lparr>rr_Limits = [], rr_Requests = [(''storage'', Quantity ''1Gi'')]\<rparr>,
       pvs_rest = KObj [(''accessModes'', KList [KStr ''ReadWriteOnce''])]\<rparr>\<rparr>"

definition template_meta :: "string \<Rightarrow> str_map \<Rightarrow> ObjectMeta" where
  "template_meta name labels = zero_ObjectMeta\<lparr>md_Name := name, md_Namespace := ''default'', md_Labels := labels\<rparr>"

definition postgres_container :: "string \<Rightarrow> string list \<Rightarrow> VolumeMount list \<Rightarrow> Container" where
  "postgres_container name args mounts = \<lparr>ctr_Name = name, ctr_Image = ''postgres:latest'', ctr_Command = [],
     ctr_Ports = [5432],
     ctr_Env = [template_env ''POD_IP'' '''' (Some (KObj [(''fieldRef'',
        KObj [(''apiVersion'', KStr ''v1''), (''fieldPath'', KStr ''status.podIP'')])]))],
     ctr_Resources = zero_ResourceRequirements, ctr_VolumeMounts = mounts,
     ctr_LivenessProbe = Some (template_probe 10 60 20 15),
     ctr_ReadinessProbe = Some (template_probe 3 5 10 3),
     ctr_rest = KObj [(''imagePullPolicy'', KStr ''IfNotPresent''), (''args'', KList (map KStr args))]\<rparr>"

definition template_PodSpec :: "Container list \<Rightarrow> Container \<Rightarrow> PodSpec" where
  "template_PodSpec inits c = zero_PodSpec\<lparr>
     ps_Volumes := [template_config_volume ''base-config'' ''base-kubegres-config'',
                    template_config_volume ''custom-config'' ''toBeReplaced''],
     ps_InitContainers := inits, ps_Containers := [c],
     ps_rest := KObj [(''terminationGracePeriodSeconds'', KInt 10)]\<rparr>"

section \<open>The templates\<close>

definition BackUpCronJobTemplate :: CronJob where
  "BackUpCronJobTemplate = \<lparr>cj_meta = zero_ObjectMeta\<lparr>md_Name := ''backup-job-postgres-name''\<rparr>,
     cj_Schedule = ''* */1 * * *'', cj_TemplateAnnotations = [],
     cj_PodSpec = zero_PodSpec\<lparr>
       ps_Volumes := [\<lparr>v_Name = ''backup-volume'', v_ConfigMap = None,
                        v_PersistentVolumeClaim = Some ''backup-pvc-postgres-name'', v_rest = KNull\<rparr>,
                      template_config_volume ''postgres-config'' ''base-kubegres-config''],
       ps_Containers := [\<lparr>ctr_Name = ''backup-postgres'', ctr_Image = ''postgres:latest'', ctr_Command = [],
         ctr_Ports = [],
         ctr_Env = [template_env ''PGPASSWORD'' '''' (Some (KObj [(''secretKeyRef'',
                       KObj [(''name'', KStr ''toBeReplaced''), (''key'', KStr ''superUserPassword'')])])),
                    template_env ''KUBEGRES_RESOURCE_NAME'' ''toBeReplaced'' None,
                    template_env ''BACKUP_DESTINATION_FOLDER'' ''toBeReplaced'' None,
                    template_env ''BACKUP_SOURCE_DB_HOST_NAME'' ''toBeReplaced'' None],
         ctr_Resources = zero_ResourceRequirements,
         ctr_VolumeMounts = [template_mount ''backup-volume'' ''toBeReplaced'' '''',
                             template_mount ''postgres-config'' ''/tmp/backup_database.sh'' ''backup_database.sh''],
         ctr_LivenessProbe = None, ctr_ReadinessProbe = None,
         ctr_rest = KObj [(''imagePullPolicy'', KStr ''IfNotPresent''),
           (''args'', KList [KStr ''sh'', KStr ''-c'', KStr ''/tmp/backup_database.sh''])]\<rparr>],
       ps_rest := KObj [(''restartPolicy'', KStr ''OnFailure'')]\<rparr>,
     cj_LastScheduleTime = None, cj_rest = KObj [(''concurrencyPolicy'', KStr ''Forbid'')]\<rparr>"

definition template_service :: "string \<Rightarrow> string \<Rightarrow> Service" where
  "template_service name role = \<lparr>
     svc_meta = template_meta name [(''app'', ''postgres-name''), (''replicationRole'', role)],
     svc_Selector = [(''app'', ''postgres-name''), (''replicationRole'', role)],
     svc_Ports = [5432],
     svc_rest = KObj [(''clusterIP'', KStr ''None''), (''protocol'', KStr ''TCP'')]\<rparr>"

definition PrimaryServiceTemplate :: Service where
  "PrimaryServiceTemplate = template_service ''postgres-name'' ''primary''"

definition ReplicaServiceTemplate :: Service where
  "ReplicaServiceTemplate = template_service ''postgres-name-replica'' ''replica''"

definition template_labels :: "string \<Rightarrow> string \<Rightarrow> str_map" where
  "template_labels i role = [(''app'', ''postgres-name''), (''index'', i), (''replicationRole'', role)]"

definition PrimaryStatefulSetTemplate :: StatefulSet where
  "PrimaryStatefulSetTemplate = \<lparr>sts_meta = template_meta ''postgres-name-0'' (template_labels ''1'' ''primary''),
     sts_ServiceName = ''postgres-name'',
     sts_MatchLabels = [(''app'', ''postgres-name''), (''index'', ''1'')],
     sts_Template = \<lparr>pt_Labels = template_labels ''1'' ''primary'', pt_Annotations = [],
       pt_Spec = template_PodSpec [] (postgres_container ''postgres-name-0''
         [''-c'', ''config_file=/etc/postgres.conf'', ''-c'', ''hba_file=/etc/pg_hba.conf'']
         [template_mount ''postgres-db'' ''toBeReplaced'' '''',
          template_mount ''base-config'' ''/docker-entrypoint-initdb.d/primary_create_replication_role.sh''
            ''primary_create_replication_role.sh'',
          template_mount ''base-config'' ''/etc/postgres.conf'' ''postgres.conf'',
          template_mount ''base-config'' ''/docker-entrypoint-initdb.d/primary_init_script.sh''
            ''primary_init_script.sh'',
          template_mount ''base-config'' ''/etc/pg_hba.conf'' ''pg_hba.conf''])\<rparr>,
     sts_VolumeClaimTemplates = [template_claim], sts_ReadyReplicas = 0,
     sts_rest = KObj [(''replicas'', KInt 1)]\<rparr>"

definition replica_init_container :: Container where
  "replica_init_container = \<lparr>ctr_Name = ''setup-replica-data-directory'', ctr_Image = ''postgres:latest'',
     ctr_Command = [''sh'', ''-c'', ''/tmp/copy_primary_data_to_replica.sh''], ctr_Ports = [],
     ctr_Env = [template_env ''PRIMARY_HOST_NAME'' '''' None, template_env ''PGPASSWORD'' '''' None,
                template_env ''PGDATA'' '''' None],
     ctr_Resources = zero_ResourceRequirements,
     ctr_VolumeMounts = [template_mount ''postgres-db'' ''toBeReplaced'' '''',
       template_mount ''base-config'' ''/tmp/copy_primary_data_to_replica.sh'' ''copy_primary_data_to_replica.sh''],
     ctr_LivenessProbe = None, ctr_ReadinessProbe = None,
     ctr_rest = KObj [(''imagePullPolicy'', KStr ''IfNotPresent'')]\<rparr>"

definition ReplicaStatefulSetTemplate :: StatefulSet where
  "ReplicaStatefulSetTemplate = \<lparr>sts_meta = template_meta ''postgres-name-1'' (template_labels ''2'' ''replica''),
     sts_ServiceName = ''postgres-replica-name'',
     sts_MatchLabels = [(''app'', ''postgres-name''), (''index'', ''2'')],
     sts_Template = \<lparr>pt_Labels = template_labels ''2'' ''replica'', pt_Annotations = [],
       pt_Spec = template_PodSpec [replica_init_container] (postgres_container ''postgres-name-1''
         [''-c'', ''config_file=/etc/postgres.conf'', ''-c'', ''hba_file=/etc/pg_hba.conf'', ''-c'',
          ''promote_trigger_file=$(PGDATA)/promote_replica_to_primary.log'']
         [template_mount ''postgres-db'' ''toBeReplaced'' '''',
          template_mount ''base-config'' ''/etc/postgres.conf'' ''postgres.conf'',
          template_mount ''base-config'' ''/etc/pg_hba.conf'' ''pg_hba.conf''])\<rparr>,
     sts_VolumeClaimTemplates = [template_claim], sts_ReadyReplicas = 0,
     sts_rest = KObj [(''replicas'', KInt 1)]\<rparr>"

lemmas template_part_defs = template_probe_def template_mount_def template_config_volume_def
  template_env_def template_claim_def template_meta_def postgres_container_def template_PodSpec_def
  template_labels_def replica_init_container_def template_service_def

section \<open>The loader\<close>

text \<open>\<open>src/controllers/spec/template/ResourceTemplateLoader.go\<close>\<close>

definition LoadBaseConfigMap :: ConfigMap where
  "LoadBaseConfigMap = BaseConfigMapTemplate"

definition LoadPrimaryService :: Service where
  "LoadPrimaryService = PrimaryServiceTemplate"

definition LoadReplicaService :: Service where
  "LoadReplicaService = ReplicaServiceTemplate"

definition LoadPrimaryStatefulSet :: StatefulSet where
  "LoadPrimaryStatefulSet = PrimaryStatefulSetTemplate"

definition LoadReplicaStatefulSet :: StatefulSet where
  "LoadReplicaStatefulSet = ReplicaStatefulSetTemplate"

definition LoadBackUpCronJob :: CronJob where
  "LoadBackUpCronJob = BackUpCronJobTemplate"

lemmas template_defs = template_part_defs LoadPrimaryService_def PrimaryServiceTemplate_def
  LoadReplicaService_def ReplicaServiceTemplate_def LoadPrimaryStatefulSet_def
  PrimaryStatefulSetTemplate_def LoadReplicaStatefulSet_def ReplicaStatefulSetTemplate_def
  LoadBackUpCronJob_def BackUpCronJobTemplate_def

end
