(* ===== verification/Kubegres_Types.thy ===== *)
theory Kubegres_Types
  imports K8s_Types
begin

text \<open>
  The custom resource of \<open>src/api/v1/kubegres_types.go\<close>, one record per struct with
  the struct's fields, and the naming functions of \<open>src/controllers/ctx/KubegresContext.go\<close>.
\<close>

section \<open>Spec\<close>

record KubegresDatabase =
  db_Size :: string
  db_VolumeMount :: string
  db_StorageClassName :: "string option"

record KubegresBackUp =
  backup_Schedule :: string
  backup_VolumeMount :: string
  backup_PvcName :: string

record KubegresFailover =
  failover_IsDisabled :: bool
  failover_PromotePod :: string

record KubegresScheduler =
  sched_Affinity :: "k8s_value option"
  sched_Tolerations :: "k8s_value list"

record VolumeClaimTemplate =
  vct_Name :: string
  vct_Spec :: PersistentVolumeClaimSpec

record VolumeSpec =
  vol_VolumeMounts :: "VolumeMount list"
  vol_Volumes :: "Volume list"
  vol_VolumeClaimTemplates :: "VolumeClaimTemplate list"

record ProbeSpec =
  probe_LivenessProbe :: "k8s_value option"
  probe_ReadinessProbe :: "k8s_value option"

record Standby =
  standby_Enabled :: bool
  standby_PrimaryEndpoint :: string

record KubegresSpec =
  spec_Replicas :: "int option"
  spec_Image :: string
  spec_Port :: int
  spec_ImagePullSecrets :: "string list"
  spec_CustomConfig :: string
  spec_Database :: KubegresDatabase
  spec_Failover :: KubegresFailover
  spec_Backup :: KubegresBackUp
  spec_Env :: "EnvVar list"
  spec_Scheduler :: KubegresScheduler
  spec_Resources :: ResourceRequirements
  spec_Volume :: VolumeSpec
  spec_SecurityContext :: "k8s_value option"
  spec_Probe :: ProbeSpec
  spec_ServiceAccountName :: string
  spec_Standby :: Standby

section \<open>Status\<close>

record KubegresStatefulSetOperation =
  sop_InstanceIndex :: int
  sop_Name :: string

record KubegresStatefulSetSpecUpdateOperation =
  suop_SpecDifferences :: string

record KubegresBlockingOperation =
  op_OperationId :: string
  op_StepId :: string
  op_TimeOutEpocInSeconds :: int
  op_HasTimedOut :: bool
  op_StatefulSetOperation :: KubegresStatefulSetOperation
  op_StatefulSetSpecUpdateOperation :: KubegresStatefulSetSpecUpdateOperation

record KubegresStatus =
  status_LastCreatedInstanceIndex :: int
  status_BlockingOperation :: KubegresBlockingOperation
  status_PreviousBlockingOperation :: KubegresBlockingOperation
  status_EnforcedReplicas :: int

section \<open>Resource\<close>

record Kubegres =
  kg_meta :: ObjectMeta
  kg_Spec :: KubegresSpec
  kg_Status :: KubegresStatus

abbreviation kg_Name :: "Kubegres \<Rightarrow> string" where
  "kg_Name k \<equiv> md_Name (kg_meta k)"

abbreviation kg_Namespace :: "Kubegres \<Rightarrow> string" where
  "kg_Namespace k \<equiv> md_Namespace (kg_meta k)"

definition zero_StatefulSetOperation :: KubegresStatefulSetOperation where
  "zero_StatefulSetOperation = \<lparr>sop_InstanceIndex = 0, sop_Name = ''''\<rparr>"

definition zero_SpecUpdateOperation :: KubegresStatefulSetSpecUpdateOperation where
  "zero_SpecUpdateOperation = \<lparr>suop_SpecDifferences = ''''\<rparr>"

definition zero_Operation :: KubegresBlockingOperation where
  "zero_Operation = \<lparr>op_OperationId = '''', op_StepId = '''', op_TimeOutEpocInSeconds = 0,
     op_HasTimedOut = False, op_StatefulSetOperation = zero_StatefulSetOperation,
     op_StatefulSetSpecUpdateOperation = zero_SpecUpdateOperation\<rparr>"

definition zero_Status :: KubegresStatus where
  "zero_Status = \<lparr>status_LastCreatedInstanceIndex = 0, status_BlockingOperation = zero_Operation,
     status_PreviousBlockingOperation = zero_Operation, status_EnforcedReplicas = 0\<rparr>"

lemma zero_Operation_simps [simp]:
  "op_OperationId zero_Operation = ''''" "op_StepId zero_Operation = ''''"
  "op_TimeOutEpocInSeconds zero_Operation = 0" "\<not> op_HasTimedOut zero_Operation"
  "op_StatefulSetOperation zero_Operation = zero_StatefulSetOperation"
  by (simp_all add: zero_Operation_def)

section \<open>Names (KubegresContext)\<close>

definition PrimaryRoleName :: string where
  "PrimaryRoleName = ''primary''"

definition KindKubegres :: string where
  "KindKubegres = ''Kubegres''"

definition DatabaseVolumeName :: string where
  "DatabaseVolumeName = ''postgres-db''"

definition BaseConfigMapVolumeName :: string where
  "BaseConfigMapVolumeName = ''base-config''"

definition CustomConfigMapVolumeName :: string where
  "CustomConfigMapVolumeName = ''custom-config''"

definition BaseConfigMapName :: string where
  "BaseConfigMapName = ''base-kubegres-config''"

definition CronJobNamePrefix :: string where
  "CronJobNamePrefix = ''backup-''"

definition DefaultContainerPortNumber :: int where
  "DefaultContainerPortNumber = 5432"

definition DefaultDatabaseVolumeMount :: string where
  "DefaultDatabaseVolumeMount = ''/var/lib/postgresql/data''"

definition DefaultDatabaseFolder :: string where
  "DefaultDatabaseFolder = ''pgdata''"

definition EnvVarNamePgData :: string where
  "EnvVarNamePgData = ''PGDATA''"

definition EnvVarNameOfPostgresSuperUserPsw :: string where
  "EnvVarNameOfPostgresSuperUserPsw = ''POSTGRES_PASSWORD''"

definition EnvVarNameOfPostgresReplicationUserPsw :: string where
  "EnvVarNameOfPostgresReplicationUserPsw = ''POSTGRES_REPLICATION_PASSWORD''"

definition GetServiceResourceName :: "Kubegres \<Rightarrow> bool \<Rightarrow> string" where
  "GetServiceResourceName k isPrimary = (if isPrimary then kg_Name k else kg_Name k @ ''-replica'')"

definition GetStatefulSetResourceName :: "Kubegres \<Rightarrow> int \<Rightarrow> string" where
  "GetStatefulSetResourceName k instanceIndex = kg_Name k @ ''-'' @ Itoa instanceIndex"

definition IsReservedVolumeName :: "string \<Rightarrow> bool" where
  "IsReservedVolumeName volumeName \<longleftrightarrow>
     volumeName = DatabaseVolumeName \<or> volumeName = BaseConfigMapVolumeName \<or>
     volumeName = CustomConfigMapVolumeName \<or> sublist ''kube-api'' volumeName"

text \<open>The primary and the replica service of a cluster never share a name.\<close>

lemma service_names_differ: "GetServiceResourceName k True \<noteq> GetServiceResourceName k False"
  by (simp add: GetServiceResourceName_def)

text \<open>StatefulSet names identify the instance.\<close>

lemma GetStatefulSetResourceName_inject:
  "in_int32 i \<Longrightarrow> in_int32 j \<Longrightarrow>
   GetStatefulSetResourceName k i = GetStatefulSetResourceName k j \<longleftrightarrow> i = j"
  by (auto simp: GetStatefulSetResourceName_def dest: Itoa_inject)

end
