(* ===== verification/States_Types.thy ===== *)
theory States_Types
  imports Kubegres_Types
begin

text \<open>
  The structs of \<open>src/controllers/states\<close> and
  \<open>src/controllers/states/statefulset\<close>: what the operator knows of the cluster
  during one reconciliation.
\<close>

section \<open>StatefulSets and Pods\<close>

record PodWrapper =
  pw_IsDeployed :: bool
  pw_IsReady :: bool
  pw_IsStuck :: bool
  pw_InstanceIndex :: int
  pw_Pod :: Pod

definition zero_PodWrapper :: PodWrapper where
  "zero_PodWrapper = \<lparr>pw_IsDeployed = False, pw_IsReady = False, pw_IsStuck = False,
     pw_InstanceIndex = 0, pw_Pod = zero_Pod\<rparr>"

record StatefulSetWrapper =
  sw_IsDeployed :: bool
  sw_IsReady :: bool
  sw_InstanceIndex :: int
  sw_StatefulSet :: StatefulSet
  sw_Pod :: PodWrapper

definition zero_StatefulSetWrapper :: StatefulSetWrapper where
  "zero_StatefulSetWrapper = \<lparr>sw_IsDeployed = False, sw_IsReady = False, sw_InstanceIndex = 0,
     sw_StatefulSet = zero_StatefulSet, sw_Pod = zero_PodWrapper\<rparr>"

record StatefulSetWrappers =
  statefulSetsSortedByInstanceIndex :: "StatefulSetWrapper list"
  statefulSetsReverseSortedByInstanceIndex :: "StatefulSetWrapper list"

definition zero_StatefulSetWrappers :: StatefulSetWrappers where
  "zero_StatefulSetWrappers = \<lparr>statefulSetsSortedByInstanceIndex = [],
     statefulSetsReverseSortedByInstanceIndex = []\<rparr>"

record Replicas =
  rep_All :: StatefulSetWrappers
  rep_NbreDeployed :: int
  rep_NbreReady :: int

record StatefulSetsStates =
  sss_NbreDeployed :: int
  sss_SpecExpectedNbreToDeploy :: int
  sss_Primary :: StatefulSetWrapper
  sss_Replicas :: Replicas
  sss_All :: StatefulSetWrappers

definition zero_StatefulSetsStates :: StatefulSetsStates where
  "zero_StatefulSetsStates = \<lparr>sss_NbreDeployed = 0, sss_SpecExpectedNbreToDeploy = 0,
     sss_Primary = zero_StatefulSetWrapper,
     sss_Replicas = \<lparr>rep_All = zero_StatefulSetWrappers, rep_NbreDeployed = 0, rep_NbreReady = 0\<rparr>,
     sss_All = zero_StatefulSetWrappers\<rparr>"

section \<open>Storage class, configuration, services, backup\<close>

record DbStorageClassStates =
  dsc_IsDeployed :: bool
  dsc_StorageClassName :: string

record ConfigLocations =
  loc_PostgreConf :: string
  loc_PrimaryInitScript :: string
  loc_BackUpScript :: string
  loc_PgHbaConf :: string
  loc_CopyPrimaryDataToReplica :: string
  loc_PrimaryCreateReplicaRole :: string
  loc_PromoteReplica :: string

record ConfigStates =
  cfs_IsBaseConfigDeployed :: bool
  cfs_BaseConfigName :: string
  cfs_IsCustomConfigDeployed :: bool
  cfs_CustomConfigName :: string
  cfs_ConfigLocations :: ConfigLocations

record ServiceWrapper =
  srw_Name :: string
  srw_IsDeployed :: bool
  srw_Service :: Service

definition zero_ServiceWrapper :: ServiceWrapper where
  "zero_ServiceWrapper = \<lparr>srw_Name = '''', srw_IsDeployed = False, srw_Service = zero_Service\<rparr>"

record ServicesStates =
  svs_Primary :: ServiceWrapper
  svs_Replica :: ServiceWrapper

record BackUpStates =
  bus_IsCronJobDeployed :: bool
  bus_IsPvcDeployed :: bool
  bus_ConfigMap :: string
  bus_CronJobLastScheduleTime :: string
  bus_DeployedCronJob :: CronJob

section \<open>All states\<close>

record ResourcesStates =
  rs_DbStorageClass :: DbStorageClassStates
  rs_StatefulSets :: StatefulSetsStates
  rs_Services :: ServicesStates
  rs_Config :: ConfigStates
  rs_BackUp :: BackUpStates

abbreviation rs_Primary :: "ResourcesStates \<Rightarrow> StatefulSetWrapper" where
  "rs_Primary rs \<equiv> sss_Primary (rs_StatefulSets rs)"

abbreviation rs_Replicas :: "ResourcesStates \<Rightarrow> Replicas" where
  "rs_Replicas rs \<equiv> sss_Replicas (rs_StatefulSets rs)"

definition zero_ResourcesStates :: ResourcesStates where
  "zero_ResourcesStates = \<lparr>rs_DbStorageClass = \<lparr>dsc_IsDeployed = False, dsc_StorageClassName = ''''\<rparr>,
     rs_StatefulSets = zero_StatefulSetsStates,
     rs_Services = \<lparr>svs_Primary = zero_ServiceWrapper, svs_Replica = zero_ServiceWrapper\<rparr>,
     rs_Config = \<lparr>cfs_IsBaseConfigDeployed = False, cfs_BaseConfigName = '''',
       cfs_IsCustomConfigDeployed = False, cfs_CustomConfigName = '''',
       cfs_ConfigLocations = \<lparr>loc_PostgreConf = '''', loc_PrimaryInitScript = '''', loc_BackUpScript = '''',
         loc_PgHbaConf = '''', loc_CopyPrimaryDataToReplica = '''', loc_PrimaryCreateReplicaRole = '''',
         loc_PromoteReplica = ''''\<rparr>\<rparr>,
     rs_BackUp = \<lparr>bus_IsCronJobDeployed = False, bus_IsPvcDeployed = False, bus_ConfigMap = '''',
       bus_CronJobLastScheduleTime = '''', bus_DeployedCronJob = zero_CronJob\<rparr>\<rparr>"

end
