(* ===== verification/Operator_State.thy ===== *)
theory Operator_State
  imports States_Types
begin

text \<open>
  The state one reconciliation works on: the Kubegres object shared by pointer
  (\<open>src/controllers/ctx/KubegresContext.go\<close>), the status wrapper
  (\<open>src/controllers/ctx/status/KubegresStatusWrapper.go\<close>), the fields of
  \<open>BlockingOperation\<close> (\<open>src/controllers/operation\<close>), and the two effects the
  operator has on the cluster: the requests sent to the API server and the recorded
  events. The API server is a parameter.
\<close>

section \<open>Effects\<close>

datatype event_type = EventTypeNormal | EventTypeWarning

text \<open>An event with its reason; the message text is not modelled.\<close>

datatype event = Event event_type string

datatype api_call =
    UpdateKubegres Kubegres
  | UpdateKubegresStatus Kubegres
  | CreateConfigMap ConfigMap
  | CreateStatefulSet StatefulSet
  | UpdateStatefulSet StatefulSet
  | DeleteStatefulSet StatefulSet
  | CreateService Service
  | DeleteService Service
  | CreateCronJob CronJob
  | DeleteCronJob CronJob
  | UpdatePersistentVolumeClaim PersistentVolumeClaim
  | DeletePod Pod

section \<open>The API server and the Kubernetes libraries (parameters)\<close>

text \<open>
  Every answer may depend on the requests sent so far in this reconciliation.
  \<open>srv_write\<close> is the error of a create, update or delete; the two updates of the
  Kubegres object also return the object the client decodes the response into.
  \<open>srv_parse_quantity\<close> is \<open>resource.MustParse\<close> (None: it panics) and
  \<open>srv_quantity_string\<close> is \<open>Quantity.String\<close>; \<open>srv_string\<close> and the three fields
  after it stand for the generated \<open>String()\<close> methods of the API types (None: a nil
  receiver).
\<close>

record server =
  srv_get_Kubegres :: "string \<Rightarrow> string \<Rightarrow> go_error + Kubegres"
  srv_write :: "api_call list \<Rightarrow> api_call \<Rightarrow> go_error option"
  srv_update_Kubegres :: "api_call list \<Rightarrow> Kubegres \<Rightarrow> go_error + Kubegres"
  srv_update_status :: "api_call list \<Rightarrow> Kubegres \<Rightarrow> go_error + Kubegres"
  srv_get_ConfigMap :: "api_call list \<Rightarrow> string \<Rightarrow> string \<Rightarrow> go_error + ConfigMap"
  srv_get_StorageClass :: "api_call list \<Rightarrow> string \<Rightarrow> go_error + StorageClass"
  srv_get_PersistentVolumeClaim :: "api_call list \<Rightarrow> string \<Rightarrow> string \<Rightarrow> go_error + PersistentVolumeClaim"
  srv_get_CronJob :: "api_call list \<Rightarrow> string \<Rightarrow> string \<Rightarrow> go_error + CronJob"
  srv_list_StatefulSets :: "api_call list \<Rightarrow> string \<Rightarrow> string \<Rightarrow> go_error + StatefulSet list"
  srv_list_Pods :: "api_call list \<Rightarrow> string \<Rightarrow> string \<Rightarrow> go_error + Pod list"
  srv_list_Services :: "api_call list \<Rightarrow> string \<Rightarrow> string \<Rightarrow> go_error + Service list"
  srv_list_StorageClasses :: "api_call list \<Rightarrow> go_error + StorageClass list"
  srv_parse_quantity :: "string \<Rightarrow> quantity option"
  srv_quantity_string :: "quantity \<Rightarrow> string"
  srv_string :: "k8s_value option \<Rightarrow> string"
  srv_resources_string :: "ResourceRequirements \<Rightarrow> string"
  srv_volume_string :: "Volume \<Rightarrow> string"
  srv_mount_string :: "VolumeMount \<Rightarrow> string"

section \<open>The state\<close>

text \<open>
  The configuration of a blocking operation. A \<open>CompletionChecker\<close> is a Go closure; it
  reads the state of \<open>BlockingOperation\<close> only through
  \<open>GetNbreSecondsSinceOperationHasStarted\<close>, whose value is its first argument here. It
  returns its verdict and the events it records.
\<close>

record BlockingOperationConfig =
  cfg_OperationId :: string
  cfg_StepId :: string
  cfg_TimeOutInSeconds :: int
  cfg_CompletionChecker :: "(int \<Rightarrow> KubegresBlockingOperation \<Rightarrow> bool \<times> event list) option"
  cfg_AfterCompletionMoveToTransitionStep :: bool

datatype status_value = IntField int | OperationField KubegresBlockingOperation

record world =
  w_kubegres :: Kubegres
  w_states :: ResourcesStates
  w_statusFieldsToUpdate :: "(string \<times> status_value) list option"
  w_configs :: "(string \<times> BlockingOperationConfig) list"
  w_activeOperation :: KubegresBlockingOperation
  w_previouslyActiveOperation :: KubegresBlockingOperation
  w_calls :: "api_call list"
  w_events :: "event list"

abbreviation w_spec :: "world \<Rightarrow> KubegresSpec" where
  "w_spec w \<equiv> kg_Spec (w_kubegres w)"

abbreviation w_status :: "world \<Rightarrow> KubegresStatus" where
  "w_status w \<equiv> kg_Status (w_kubegres w)"

section \<open>Events and requests\<close>

definition InfoEvent :: "string \<Rightarrow> world \<Rightarrow> world" where
  "InfoEvent eventReason w = w\<lparr>w_events := w_events w @ [Event EventTypeNormal eventReason]\<rparr>"

definition ErrorEvent :: "string \<Rightarrow> world \<Rightarrow> world" where
  "ErrorEvent eventReason w = w\<lparr>w_events := w_events w @ [Event EventTypeWarning eventReason]\<rparr>"

definition WarningEvent :: "string \<Rightarrow> world \<Rightarrow> world" where
  "WarningEvent eventReason w = w\<lparr>w_events := w_events w @ [Event EventTypeWarning eventReason]\<rparr>"

definition record_events :: "event list \<Rightarrow> world \<Rightarrow> world" where
  "record_events es w = w\<lparr>w_events := w_events w @ es\<rparr>"

text \<open>\<open>Client.Create\<close>, \<open>Client.Update\<close> and \<open>Client.Delete\<close> of an object other than Kubegres.\<close>

definition client_write :: "server \<Rightarrow> api_call \<Rightarrow> world \<Rightarrow> go_error option \<times> world" where
  "client_write srv c w = (srv_write srv (w_calls w) c, w\<lparr>w_calls := w_calls w @ [c]\<rparr>)"

text \<open>
  \<open>Client.Update(ctx, Kubegres)\<close>: a successful response is decoded into the shared
  Kubegres object.
\<close>

definition client_update_Kubegres :: "server \<Rightarrow> world \<Rightarrow> go_error option \<times> world" where
  "client_update_Kubegres srv w =
     (let w' = w\<lparr>w_calls := w_calls w @ [UpdateKubegres (w_kubegres w)]\<rparr> in
      case srv_update_Kubegres srv (w_calls w) (w_kubegres w) of
        Inl e \<Rightarrow> (Some e, w')
      | Inr k \<Rightarrow> (None, w'\<lparr>w_kubegres := k\<rparr>))"

text \<open>An in-memory change of the shared Kubegres object.\<close>

definition upd_spec :: "(KubegresSpec \<Rightarrow> KubegresSpec) \<Rightarrow> world \<Rightarrow> world" where
  "upd_spec f w = w\<lparr>w_kubegres := (w_kubegres w)\<lparr>kg_Spec := f (w_spec w)\<rparr>\<rparr>"

definition upd_status :: "(KubegresStatus \<Rightarrow> KubegresStatus) \<Rightarrow> world \<Rightarrow> world" where
  "upd_status f w = w\<lparr>w_kubegres := (w_kubegres w)\<lparr>kg_Status := f (w_status w)\<rparr>\<rparr>"

section \<open>KubegresStatusWrapper\<close>

definition GetLastCreatedInstanceIndex :: "world \<Rightarrow> int" where
  "GetLastCreatedInstanceIndex w = status_LastCreatedInstanceIndex (w_status w)"

definition GetBlockingOperation :: "world \<Rightarrow> KubegresBlockingOperation" where
  "GetBlockingOperation w = status_BlockingOperation (w_status w)"

definition GetPreviousBlockingOperation :: "world \<Rightarrow> KubegresBlockingOperation" where
  "GetPreviousBlockingOperation w = status_PreviousBlockingOperation (w_status w)"

definition GetEnforcedReplicas :: "world \<Rightarrow> int" where
  "GetEnforcedReplicas w = status_EnforcedReplicas (w_status w)"

definition addStatusFieldToUpdate :: "string \<Rightarrow> status_value \<Rightarrow> world \<Rightarrow> world" where
  "addStatusFieldToUpdate statusFieldName newValue w =
     w\<lparr>w_statusFieldsToUpdate :=
         Some (AList.update statusFieldName newValue
                 (case w_statusFieldsToUpdate w of None \<Rightarrow> [] | Some m \<Rightarrow> m))\<rparr>"

definition SetLastCreatedInstanceIndex :: "int \<Rightarrow> world \<Rightarrow> world" where
  "SetLastCreatedInstanceIndex value w =
     upd_status (\<lambda>s. s\<lparr>status_LastCreatedInstanceIndex := value\<rparr>)
       (addStatusFieldToUpdate ''LastCreatedInstanceIndex'' (IntField value) w)"

definition SetBlockingOperation :: "KubegresBlockingOperation \<Rightarrow> world \<Rightarrow> world" where
  "SetBlockingOperation value w =
     upd_status (\<lambda>s. s\<lparr>status_BlockingOperation := value\<rparr>)
       (addStatusFieldToUpdate ''BlockingOperation'' (OperationField value) w)"

definition SetEnforcedReplicas :: "int \<Rightarrow> world \<Rightarrow> world" where
  "SetEnforcedReplicas value w =
     upd_status (\<lambda>s. s\<lparr>status_EnforcedReplicas := value\<rparr>)
       (addStatusFieldToUpdate ''EnforcedReplicas'' (IntField value) w)"

definition SetPreviousBlockingOperation :: "KubegresBlockingOperation \<Rightarrow> world \<Rightarrow> world" where
  "SetPreviousBlockingOperation value w =
     upd_status (\<lambda>s. s\<lparr>status_PreviousBlockingOperation := value\<rparr>)
       (addStatusFieldToUpdate ''PreviousBlockingOperation'' (OperationField value) w)"

text \<open>
  The status is sent only when some setter ran. The response is decoded into the
  shared object.
\<close>

definition UpdateStatusIfChanged :: "server \<Rightarrow> world \<Rightarrow> go_error option \<times> world" where
  "UpdateStatusIfChanged srv w =
     (case w_statusFieldsToUpdate w of
        None \<Rightarrow> (None, w)
      | Some _ \<Rightarrow>
          (let w' = w\<lparr>w_calls := w_calls w @ [UpdateKubegresStatus (w_kubegres w)]\<rparr> in
           case srv_update_status srv (w_calls w) (w_kubegres w) of
             Inl e \<Rightarrow> (Some e, w')
           | Inr k \<Rightarrow> (None, w'\<lparr>w_kubegres := k\<rparr>)))"

lemmas status_defs = SetLastCreatedInstanceIndex_def SetBlockingOperation_def
  SetEnforcedReplicas_def SetPreviousBlockingOperation_def addStatusFieldToUpdate_def
  GetLastCreatedInstanceIndex_def GetBlockingOperation_def GetPreviousBlockingOperation_def
  GetEnforcedReplicas_def upd_status_def upd_spec_def

lemmas event_defs = InfoEvent_def ErrorEvent_def WarningEvent_def record_events_def

section \<open>What the setters and the effects leave alone\<close>

lemma upd_status_frame [simp, frame]:
  "w_spec (upd_status f w) = w_spec w" "kg_meta (w_kubegres (upd_status f w)) = kg_meta (w_kubegres w)"
  "w_status (upd_status f w) = f (w_status w)"
  "w_states (upd_status f w) = w_states w"
  "w_configs (upd_status f w) = w_configs w" "w_activeOperation (upd_status f w) = w_activeOperation w"
  "w_previouslyActiveOperation (upd_status f w) = w_previouslyActiveOperation w"
  "w_calls (upd_status f w) = w_calls w" "w_events (upd_status f w) = w_events w"
  "w_statusFieldsToUpdate (upd_status f w) = w_statusFieldsToUpdate w"
  by (simp_all add: upd_status_def)

lemma upd_spec_frame [simp, frame]:
  "w_spec (upd_spec f w) = f (w_spec w)" "kg_meta (w_kubegres (upd_spec f w)) = kg_meta (w_kubegres w)"
  "w_status (upd_spec f w) = w_status w"
  "w_states (upd_spec f w) = w_states w"
  "w_configs (upd_spec f w) = w_configs w" "w_activeOperation (upd_spec f w) = w_activeOperation w"
  "w_previouslyActiveOperation (upd_spec f w) = w_previouslyActiveOperation w"
  "w_calls (upd_spec f w) = w_calls w" "w_events (upd_spec f w) = w_events w"
  "w_statusFieldsToUpdate (upd_spec f w) = w_statusFieldsToUpdate w"
  by (simp_all add: upd_spec_def)

lemma addStatusField_frame [simp, frame]:
  "w_kubegres (addStatusFieldToUpdate n v w) = w_kubegres w"
  "w_states (addStatusFieldToUpdate n v w) = w_states w"
  "w_configs (addStatusFieldToUpdate n v w) = w_configs w"
  "w_activeOperation (addStatusFieldToUpdate n v w) = w_activeOperation w"
  "w_previouslyActiveOperation (addStatusFieldToUpdate n v w) = w_previouslyActiveOperation w"
  "w_calls (addStatusFieldToUpdate n v w) = w_calls w"
  "w_events (addStatusFieldToUpdate n v w) = w_events w"
  by (simp_all add: addStatusFieldToUpdate_def)

lemma event_frame [simp, frame]:
  "w_kubegres (InfoEvent r w) = w_kubegres w" "w_kubegres (ErrorEvent r w) = w_kubegres w"
  "w_kubegres (WarningEvent r w) = w_kubegres w" "w_kubegres (record_events es w) = w_kubegres w"
  "w_states (InfoEvent r w) = w_states w" "w_states (ErrorEvent r w) = w_states w"
  "w_states (WarningEvent r w) = w_states w" "w_states (record_events es w) = w_states w"
  "w_configs (InfoEvent r w) = w_configs w" "w_configs (ErrorEvent r w) = w_configs w"
  "w_configs (WarningEvent r w) = w_configs w" "w_configs (record_events es w) = w_configs w"
  "w_activeOperation (InfoEvent r w) = w_activeOperation w"
  "w_activeOperation (ErrorEvent r w) = w_activeOperation w"
  "w_activeOperation (WarningEvent r w) = w_activeOperation w"
  "w_activeOperation (record_events es w) = w_activeOperation w"
  "w_previouslyActiveOperation (InfoEvent r w) = w_previouslyActiveOperation w"
  "w_previouslyActiveOperation (ErrorEvent r w) = w_previouslyActiveOperation w"
  "w_previouslyActiveOperation (WarningEvent r w) = w_previouslyActiveOperation w"
  "w_previouslyActiveOperation (record_events es w) = w_previouslyActiveOperation w"
  "w_calls (InfoEvent r w) = w_calls w" "w_calls (ErrorEvent r w) = w_calls w"
  "w_calls (WarningEvent r w) = w_calls w" "w_calls (record_events es w) = w_calls w"
  "w_statusFieldsToUpdate (InfoEvent r w) = w_statusFieldsToUpdate w"
  "w_statusFieldsToUpdate (ErrorEvent r w) = w_statusFieldsToUpdate w"
  "w_statusFieldsToUpdate (WarningEvent r w) = w_statusFieldsToUpdate w"
  "w_statusFieldsToUpdate (record_events es w) = w_statusFieldsToUpdate w"
  by (simp_all add: event_defs)

lemma set_status_frame [simp, frame]:
  "w_spec (SetLastCreatedInstanceIndex i w) = w_spec w"
  "w_spec (SetBlockingOperation ope w) = w_spec w"
  "w_spec (SetPreviousBlockingOperation ope w) = w_spec w"
  "w_spec (SetEnforcedReplicas i w) = w_spec w"
  "kg_meta (w_kubegres (SetLastCreatedInstanceIndex i w)) = kg_meta (w_kubegres w)"
  "kg_meta (w_kubegres (SetBlockingOperation ope w)) = kg_meta (w_kubegres w)"
  "kg_meta (w_kubegres (SetPreviousBlockingOperation ope w)) = kg_meta (w_kubegres w)"
  "kg_meta (w_kubegres (SetEnforcedReplicas i w)) = kg_meta (w_kubegres w)"
  "w_states (SetLastCreatedInstanceIndex i w) = w_states w"
  "w_states (SetBlockingOperation ope w) = w_states w"
  "w_states (SetPreviousBlockingOperation ope w) = w_states w"
  "w_states (SetEnforcedReplicas i w) = w_states w"
  "w_configs (SetLastCreatedInstanceIndex i w) = w_configs w"
  "w_configs (SetBlockingOperation ope w) = w_configs w"
  "w_configs (SetPreviousBlockingOperation ope w) = w_configs w"
  "w_configs (SetEnforcedReplicas i w) = w_configs w"
  "w_calls (SetLastCreatedInstanceIndex i w) = w_calls w"
  "w_calls (SetBlockingOperation ope w) = w_calls w"
  "w_calls (SetPreviousBlockingOperation ope w) = w_calls w"
  "w_calls (SetEnforcedReplicas i w) = w_calls w"
  "w_events (SetLastCreatedInstanceIndex i w) = w_events w"
  "w_events (SetBlockingOperation ope w) = w_events w"
  "w_events (SetPreviousBlockingOperation ope w) = w_events w"
  "w_events (SetEnforcedReplicas i w) = w_events w"
  "w_activeOperation (SetLastCreatedInstanceIndex i w) = w_activeOperation w"
  "w_activeOperation (SetBlockingOperation ope w) = w_activeOperation w"
  "w_activeOperation (SetPreviousBlockingOperation ope w) = w_activeOperation w"
  "w_activeOperation (SetEnforcedReplicas i w) = w_activeOperation w"
  "w_previouslyActiveOperation (SetLastCreatedInstanceIndex i w) = w_previouslyActiveOperation w"
  "w_previouslyActiveOperation (SetBlockingOperation ope w) = w_previouslyActiveOperation w"
  "w_previouslyActiveOperation (SetPreviousBlockingOperation ope w) = w_previouslyActiveOperation w"
  "w_previouslyActiveOperation (SetEnforcedReplicas i w) = w_previouslyActiveOperation w"
  by (simp_all add: SetLastCreatedInstanceIndex_def SetBlockingOperation_def
      SetPreviousBlockingOperation_def SetEnforcedReplicas_def)

text \<open>The four status fields are independent: a setter changes its own and keeps the others.\<close>

lemma set_status_get [simp]:
  "w_status (SetLastCreatedInstanceIndex i w) = (w_status w)\<lparr>status_LastCreatedInstanceIndex := i\<rparr>"
  "w_status (SetBlockingOperation ope w) = (w_status w)\<lparr>status_BlockingOperation := ope\<rparr>"
  "w_status (SetPreviousBlockingOperation ope w) = (w_status w)\<lparr>status_PreviousBlockingOperation := ope\<rparr>"
  "w_status (SetEnforcedReplicas i w) = (w_status w)\<lparr>status_EnforcedReplicas := i\<rparr>"
  by (simp_all add: SetLastCreatedInstanceIndex_def SetBlockingOperation_def
      SetPreviousBlockingOperation_def SetEnforcedReplicas_def)

text \<open>Every setter marks the status as changed, so the next \<open>UpdateStatusIfChanged\<close> sends it.\<close>

lemma set_status_marks [simp]:
  "w_statusFieldsToUpdate (SetLastCreatedInstanceIndex i w) \<noteq> None"
  "w_statusFieldsToUpdate (SetBlockingOperation ope w) \<noteq> None"
  "w_statusFieldsToUpdate (SetPreviousBlockingOperation ope w) \<noteq> None"
  "w_statusFieldsToUpdate (SetEnforcedReplicas i w) \<noteq> None"
  by (simp_all add: SetLastCreatedInstanceIndex_def SetBlockingOperation_def
      SetPreviousBlockingOperation_def SetEnforcedReplicas_def addStatusFieldToUpdate_def)

lemma client_write_frame [simp, frame]:
  "w_kubegres (snd (client_write srv c w)) = w_kubegres w"
  "w_states (snd (client_write srv c w)) = w_states w"
  "w_configs (snd (client_write srv c w)) = w_configs w"
  "w_activeOperation (snd (client_write srv c w)) = w_activeOperation w"
  "w_previouslyActiveOperation (snd (client_write srv c w)) = w_previouslyActiveOperation w"
  "w_events (snd (client_write srv c w)) = w_events w"
  "w_statusFieldsToUpdate (snd (client_write srv c w)) = w_statusFieldsToUpdate w"
  "w_calls (snd (client_write srv c w)) = w_calls w @ [c]"
  by (simp_all add: client_write_def)

lemma fst_client_write [simp]: "fst (client_write srv c w) = srv_write srv (w_calls w) c"
  by (simp add: client_write_def)

section \<open>Changes of the event list only\<close>

definition same_but_events :: "world \<Rightarrow> world \<Rightarrow> bool" where
  "same_but_events w w' \<longleftrightarrow> w' = w\<lparr>w_events := w_events w'\<rparr>"

lemma same_but_events_refl [simp, intro]: "same_but_events w w"
  by (simp add: same_but_events_def)

lemma same_but_events_events [simp, intro]:
  "same_but_events w (InfoEvent r w)" "same_but_events w (ErrorEvent r w)"
  "same_but_events w (WarningEvent r w)" "same_but_events w (record_events es w)"
  by (simp_all add: same_but_events_def event_defs)

lemma same_but_events_trans: "same_but_events u v \<Longrightarrow> same_but_events v w \<Longrightarrow> same_but_events u w"
  unfolding same_but_events_def by (cases u; cases v; cases w) simp

lemma same_but_events_step:
  "same_but_events u v \<Longrightarrow> same_but_events u (InfoEvent r v)"
  "same_but_events u v \<Longrightarrow> same_but_events u (ErrorEvent r v)"
  "same_but_events u v \<Longrightarrow> same_but_events u (WarningEvent r v)"
  by (blast intro: same_but_events_trans)+

lemma same_but_events_fields:
  assumes "same_but_events w w'"
  shows "w_kubegres w' = w_kubegres w" "w_states w' = w_states w" "w_configs w' = w_configs w"
    "w_activeOperation w' = w_activeOperation w" "w_calls w' = w_calls w"
    "w_previouslyActiveOperation w' = w_previouslyActiveOperation w"
    "w_statusFieldsToUpdate w' = w_statusFieldsToUpdate w"
  using assms unfolding same_but_events_def by (cases w; cases w'; simp)+

end
