(* ===== verification/Sample_Cluster.thy ===== *)
theory Sample_Cluster
  imports Operator_State
begin

text \<open>
  A concrete Kubegres resource and a concrete API server, used where a theorem is applied
  to closed inputs.
\<close>

definition sample_Spec :: KubegresSpec where
  "sample_Spec = \<lparr>spec_Replicas = Some 3, spec_Image = ''postgres:14.1'', spec_Port = 5432,
     spec_ImagePullSecrets = [], spec_CustomConfig = ''base-kubegres-config'',
     spec_Database = \<lparr>db_Size = ''200Mi'', db_VolumeMount = ''/var/lib/postgresql/data'',
       db_StorageClassName = Some ''standard''\<rparr>,
     spec_Failover = \<lparr>failover_IsDisabled = False, failover_PromotePod = ''''\<rparr>,
     spec_Backup = \<lparr>backup_Schedule = '''', backup_VolumeMount = '''', backup_PvcName = ''''\<rparr>,
     spec_Env = [\<lparr>env_Name = ''POSTGRES_PASSWORD'', env_Value = '''', env_ValueFrom = Some KNull\<rparr>,
       \<lparr>env_Name = ''POSTGRES_REPLICATION_PASSWORD'', env_Value = '''', env_ValueFrom = Some KNull\<rparr>],
     spec_Scheduler = \<lparr>sched_Affinity = Some KNull, sched_Tolerations = []\<rparr>,
     spec_Resources = zero_ResourceRequirements,
     spec_Volume = \<lparr>vol_VolumeMounts = [], vol_Volumes = [], vol_VolumeClaimTemplates = []\<rparr>,
     spec_SecurityContext = None,
     spec_Probe = \<lparr>probe_LivenessProbe = None, probe_ReadinessProbe = None\<rparr>,
     spec_ServiceAccountName = '''',
     spec_Standby = \<lparr>standby_Enabled = False, standby_PrimaryEndpoint = ''''\<rparr>\<rparr>"

definition sample_Kubegres :: Kubegres where
  "sample_Kubegres = \<lparr>kg_meta = zero_ObjectMeta\<lparr>md_Name := ''mypostgres'', md_Namespace := ''default''\<rparr>,
     kg_Spec = sample_Spec, kg_Status = zero_Status\<rparr>"

text \<open>A server that accepts every write, echoes every update and has nothing deployed.\<close>

definition sample_server :: server where
  "sample_server = \<lparr>srv_get_Kubegres = (\<lambda>_ _. Inr sample_Kubegres),
     srv_write = (\<lambda>_ _. None), srv_update_Kubegres = (\<lambda>_ k. Inr k), srv_update_status = (\<lambda>_ k. Inr k),
     srv_get_ConfigMap = (\<lambda>_ _ _. Inl ApiNotFound), srv_get_StorageClass = (\<lambda>_ _. Inl ApiNotFound),
     srv_get_PersistentVolumeClaim = (\<lambda>_ _ _. Inl ApiNotFound), srv_get_CronJob = (\<lambda>_ _ _. Inl ApiNotFound),
     srv_list_StatefulSets = (\<lambda>_ _ _. Inr []), srv_list_Pods = (\<lambda>_ _ _. Inr []),
     srv_list_Services = (\<lambda>_ _ _. Inr []), srv_list_StorageClasses = (\<lambda>_. Inr []),
     srv_parse_quantity = (\<lambda>s. Some (Quantity s)), srv_quantity_string = (\<lambda>q. case q of Quantity s \<Rightarrow> s),
     srv_string = (\<lambda>_. ''''), srv_resources_string = (\<lambda>_. ''''), srv_volume_string = v_Name,
     srv_mount_string = vm_Name\<rparr>"

lemma sample_server_simps [simp]:
  "srv_write sample_server cs c = None" "srv_update_status sample_server cs k = Inr k"
  "srv_update_Kubegres sample_server cs k = Inr k" "srv_parse_quantity sample_server s = Some (Quantity s)"
  by (simp_all add: sample_server_def)

text \<open>A running cluster: primary 1 and the replicas 2 and 3, listed out of order.\<close>

definition sample_container :: Container where
  "sample_container = \<lparr>ctr_Name = ''mypostgres'', ctr_Image = ''postgres:14.1'', ctr_Command = [],
     ctr_Ports = [5432], ctr_Env = [], ctr_Resources = zero_ResourceRequirements, ctr_VolumeMounts = [],
     ctr_LivenessProbe = None, ctr_ReadinessProbe = None, ctr_rest = KNull\<rparr>"

definition sample_PodSpec :: PodSpec where
  "sample_PodSpec = zero_PodSpec\<lparr>ps_Containers := [sample_container]\<rparr>"

definition sample_StatefulSet :: "int \<Rightarrow> string \<Rightarrow> int \<Rightarrow> StatefulSet" where
  "sample_StatefulSet i role ready = zero_StatefulSet
     \<lparr>sts_meta := zero_ObjectMeta\<lparr>md_Name := GetStatefulSetResourceName sample_Kubegres i, md_Namespace := ''default''\<rparr>,
      sts_Template := \<lparr>pt_Labels = [(''app'', ''mypostgres''), (''index'', Itoa i), (''replicationRole'', role)],
        pt_Annotations = [], pt_Spec = sample_PodSpec\<rparr>,
      sts_ReadyReplicas := ready\<rparr>"

definition sample_Pod :: "int \<Rightarrow> bool \<Rightarrow> Pod" where
  "sample_Pod i ready = \<lparr>pod_Name = GetStatefulSetResourceName sample_Kubegres i @ ''-0'',
     pod_Labels = [(''app'', ''mypostgres''), (''index'', Itoa i)], pod_Spec = sample_PodSpec,
     pod_ContainerStatuses = [\<lparr>cs_Ready = ready, cs_Waiting = None\<rparr>]\<rparr>"

definition running_server :: "StatefulSet list \<Rightarrow> Pod list \<Rightarrow> server" where
  "running_server ss ps = sample_server
     \<lparr>srv_list_StatefulSets := \<lambda>_ _ _. Inr ss, srv_list_Pods := \<lambda>_ _ _. Inr ps\<rparr>"

definition sample_StatefulSets :: "StatefulSet list" where
  "sample_StatefulSets = [sample_StatefulSet 2 ''replica'' 1, sample_StatefulSet 1 ''primary'' 1,
     sample_StatefulSet 3 ''replica'' 0]"

definition sample_Pods :: "Pod list" where
  "sample_Pods = [sample_Pod 1 True, sample_Pod 2 True, sample_Pod 3 False]"

definition sample_world :: world where
  "sample_world = \<lparr>w_kubegres = sample_Kubegres, w_states = zero_ResourcesStates, w_statusFieldsToUpdate = None, w_configs = [],
     w_activeOperation = zero_Operation, w_previouslyActiveOperation = zero_Operation,
     w_calls = [], w_events = []\<rparr>"

lemma sample_StatefulSet_simps [simp]:
  "sts_Name (sample_StatefulSet i role ready) = GetStatefulSetResourceName sample_Kubegres i"
  "map_get (sts_TemplateLabels (sample_StatefulSet i role ready)) ''index'' = Itoa i"
  "map_get (sts_TemplateLabels (sample_StatefulSet i role ready)) ''replicationRole'' = role"
  "sts_ReadyReplicas (sample_StatefulSet i role ready) = ready"
  "sts_PodSpec (sample_StatefulSet i role ready) = sample_PodSpec"
  by (simp_all add: sample_StatefulSet_def map_get_def)

lemma running_server_simps [simp]:
  "srv_list_StatefulSets (running_server ss ps) cs n m = Inr ss"
  "srv_list_Pods (running_server ss ps) cs n m = Inr ps"
  "srv_write (running_server ss ps) = srv_write sample_server"
  by (simp_all add: running_server_def)

end
