(* ===== verification/StatefulSet_States.thy ===== *)
theory StatefulSet_States
  imports Sample_Cluster
begin

text \<open>
  \<open>src/controllers/states/statefulset\<close>: what the operator knows of the deployed
  StatefulSets and Pods. The collections sorted by instance index are an interface of
  their own (locale \<open>indexed_collection\<close>).
\<close>

section \<open>Pods\<close>

definition isPodReady :: "Pod \<Rightarrow> bool" where
  "isPodReady pod = (case pod_ContainerStatuses pod of [] \<Rightarrow> False | s # _ \<Rightarrow> cs_Ready s)"

definition isPodStuck :: "Pod \<Rightarrow> bool" where
  "isPodStuck pod =
     (case pod_ContainerStatuses pod of
        [] \<Rightarrow> False
      | s # _ \<Rightarrow> (case cs_Waiting s of
                    None \<Rightarrow> False
                  | Some waitingReason \<Rightarrow> waitingReason = ''CrashLoopBackOff'' \<or> waitingReason = ''Error''))"

definition pod_getInstanceIndex :: "Pod \<Rightarrow> int" where
  "pod_getInstanceIndex pod = fst (ParseInt32 (map_get (pod_Labels pod) ''index''))"

definition wrap_pod :: "Pod \<Rightarrow> PodWrapper" where
  "wrap_pod pod = \<lparr>pw_IsDeployed = True, pw_IsReady = isPodReady pod \<and> \<not> isPodStuck pod,
     pw_IsStuck = isPodStuck pod, pw_InstanceIndex = pod_getInstanceIndex pod, pw_Pod = pod\<rparr>"

definition getDeployedPods :: "server \<Rightarrow> world \<Rightarrow> Pod list res \<times> world" where
  "getDeployedPods srv w =
     (case srv_list_Pods srv (w_calls w) (kg_Namespace (w_kubegres w)) (kg_Name (w_kubegres w)) of
        Inr items \<Rightarrow> (Val items, w)
      | Inl ApiNotFound \<Rightarrow> (Val [], w)
      | Inl e \<Rightarrow> (Fail e, ErrorEvent ''PodLoadingErr'' w))"

definition loadPodsStates :: "server \<Rightarrow> world \<Rightarrow> PodWrapper list res \<times> world" where
  "loadPodsStates srv = res_bind (getDeployedPods srv) (\<lambda>items w. (Val (map wrap_pod items), w))"

section \<open>StatefulSet wrappers\<close>

definition getInstanceIndex :: "StatefulSetWrapper \<Rightarrow> int" where
  "getInstanceIndex s = fst (ParseInt32 (map_get (sts_TemplateLabels (sw_StatefulSet s)) ''index''))"

definition Add :: "StatefulSetWrapper \<Rightarrow> StatefulSetWrappers \<Rightarrow> StatefulSetWrappers" where
  "Add s r =
     \<lparr>statefulSetsSortedByInstanceIndex =
        sort_key getInstanceIndex (statefulSetsSortedByInstanceIndex r @ [s]),
      statefulSetsReverseSortedByInstanceIndex =
        sort_key (\<lambda>x. - getInstanceIndex x) (statefulSetsReverseSortedByInstanceIndex r @ [s])\<rparr>"

definition GetAllSortedByInstanceIndex :: "StatefulSetWrappers \<Rightarrow> StatefulSetWrapper list" where
  "GetAllSortedByInstanceIndex r = statefulSetsSortedByInstanceIndex r"

definition GetAllReverseSortedByInstanceIndex :: "StatefulSetWrappers \<Rightarrow> StatefulSetWrapper list" where
  "GetAllReverseSortedByInstanceIndex r = statefulSetsReverseSortedByInstanceIndex r"

definition GetByInstanceIndex :: "int \<Rightarrow> StatefulSetWrappers \<Rightarrow> StatefulSetWrapper \<times> go_error option" where
  "GetByInstanceIndex instanceIndex r =
     (case find (\<lambda>s. instanceIndex = sw_InstanceIndex s) (statefulSetsSortedByInstanceIndex r) of
        Some s \<Rightarrow> (s, None)
      | None \<Rightarrow> (zero_StatefulSetWrapper,
          Some (TextError (''Given StatefulSet's instanceIndex '' @ [CHR 0x27] @ Itoa instanceIndex @
            [CHR 0x27] @ '' does not exist.''))))"

definition GetByName :: "string \<Rightarrow> StatefulSetWrappers \<Rightarrow> StatefulSetWrapper \<times> go_error option" where
  "GetByName statefulSetName r =
     (case find (\<lambda>s. statefulSetName = sts_Name (sw_StatefulSet s)) (statefulSetsSortedByInstanceIndex r) of
        Some s \<Rightarrow> (s, None)
      | None \<Rightarrow> (zero_StatefulSetWrapper,
          Some (TextError (''Given StatefulSet's name '' @ [CHR 0x27] @ statefulSetName @
            [CHR 0x27] @ '' does not exist.''))))"

section \<open>The collection as an interface\<close>

locale indexed_collection =
  fixes empty :: 'c
    and add :: "'a \<Rightarrow> 'c \<Rightarrow> 'c"
    and ascending descending :: "'c \<Rightarrow> 'a list"
    and key :: "'a \<Rightarrow> int"
  assumes empty_asc: "ascending empty = []"
    and empty_desc: "descending empty = []"
    and add_asc: "mset (ascending (add x c)) = add_mset x (mset (ascending c))"
    and add_desc: "mset (descending (add x c)) = add_mset x (mset (descending c))"
    and asc_sorted: "sorted (map key (ascending (add x c)))"
    and desc_sorted: "sorted (map (\<lambda>y. - key y) (descending (add x c)))"
begin

definition build :: "'a list \<Rightarrow> 'c" where
  "build xs = fold add xs empty"

lemma build_snoc: "build (xs @ [x]) = add x (build xs)"
  by (simp add: build_def)

lemma build_mset: "mset (ascending (build xs)) = mset xs" "mset (descending (build xs)) = mset xs"
  by (induction xs rule: rev_induct)
     (simp_all add: build_def empty_asc empty_desc add_asc add_desc)

lemma build_set: "set (ascending (build xs)) = set xs" "set (descending (build xs)) = set xs"
  using build_mset [of xs] by (metis set_mset_mset)+

lemma build_asc: "sorted (map key (ascending (build xs)))"
  by (cases xs rule: rev_cases) (simp_all add: build_def empty_asc asc_sorted)

lemma build_desc: "sorted (map (\<lambda>y. - key y) (descending (build xs)))"
  by (cases xs rule: rev_cases) (simp_all add: build_def empty_desc desc_sorted)

lemma build_desc_rev:
  assumes "distinct (map key xs)"
  shows "descending (build xs) = rev (ascending (build xs))"
proof (rule sorted_perm_unique)
  show "mset (descending (build xs)) = mset (rev (ascending (build xs)))" by (simp add: build_mset)
  show "sorted (map (\<lambda>y. - key y) (descending (build xs)))" by (rule build_desc)
  show "sorted (map (\<lambda>y. - key y) (rev (ascending (build xs))))"
    using build_asc [of xs]
    by (simp add: sorted_map sorted_wrt_rev)
  have "distinct (map key (descending (build xs)))"
    using assms build_mset(2) [of xs] by (metis mset_map mset_eq_imp_distinct_iff)
  then show "distinct (map (\<lambda>y. - key y) (descending (build xs)))"
    by (auto simp: distinct_map inj_on_def)
qed

lemma first_least: "y \<in> set xs \<Longrightarrow> key (hd (ascending (build xs))) \<le> key y"
  using build_asc [of xs] unfolding build_set(1) [of xs, symmetric]
  by (cases "ascending (build xs)") (auto simp: sorted_map)

lemma first_greatest: "y \<in> set xs \<Longrightarrow> key y \<le> key (hd (descending (build xs)))"
  using build_desc [of xs] unfolding build_set(2) [of xs, symmetric]
  by (cases "descending (build xs)") (auto simp: sorted_map)

end

interpretation wrappers: indexed_collection zero_StatefulSetWrappers Add
  GetAllSortedByInstanceIndex GetAllReverseSortedByInstanceIndex getInstanceIndex
  by unfold_locales
     (simp_all add: zero_StatefulSetWrappers_def Add_def GetAllSortedByInstanceIndex_def
        GetAllReverseSortedByInstanceIndex_def)

section \<open>Loading the StatefulSets\<close>

definition isPrimary :: "StatefulSet \<Rightarrow> bool" where
  "isPrimary statefulSet \<longleftrightarrow> map_get (sts_TemplateLabels statefulSet) ''replicationRole'' = PrimaryRoleName"

definition getPodByInstanceIndex :: "int \<Rightarrow> PodWrapper list \<Rightarrow> PodWrapper" where
  "getPodByInstanceIndex instanceIndex pods =
     (case find (\<lambda>pod. pw_InstanceIndex pod = instanceIndex) pods of
        Some pod \<Rightarrow> pod
      | None \<Rightarrow> zero_PodWrapper)"

definition getInstanceIndexFromSpec :: "StatefulSet \<Rightarrow> world \<Rightarrow> int res \<times> world" where
  "getInstanceIndexFromSpec statefulSet w =
     (let instanceIndexStr = map_get (sts_TemplateLabels statefulSet) ''index'' in
      case ParseInt32 instanceIndexStr of
        (instanceIndex, None) \<Rightarrow> (Val instanceIndex, w)
      | (_, Some _) \<Rightarrow> (Fail (NumError instanceIndexStr), ErrorEvent ''StatefulSetLoadingErr'' w))"

definition setPrimaryStatefulSetStates ::
  "StatefulSetWrapper \<Rightarrow> StatefulSetsStates \<Rightarrow> world \<Rightarrow> StatefulSetsStates res \<times> world" where
  "setPrimaryStatefulSetStates s r w =
     (if sw_IsDeployed (sss_Primary r) then
        (Fail (TextError (''Identified 2 instances of statefulSet with Names: '' @ [CHR 0x27] @
           sts_Name (sw_StatefulSet (sss_Primary r)) @ [CHR 0x27] @ '' and '' @ [CHR 0x27] @
           sts_Name (sw_StatefulSet s) @ [CHR 0x27] @ '' which have label '' @ [CHR 0x27] @
           ''replicationRole'' @ [CHR 0x27] @ '' set to '' @ [CHR 0x27] @ ''primary'' @ [CHR 0x27] @
           ''. Only one instance should be primary for Kubegres resource '' @ [CHR 0x27] @
           kg_Name (w_kubegres w) @ [CHR 0x27] @ ''.'')),
         ErrorEvent ''StatefulSetLoadingErr'' w)
      else (Val (r\<lparr>sss_Primary := s\<rparr>), w))"

definition addReplicaStatefulSetStates :: "StatefulSetWrapper \<Rightarrow> StatefulSetsStates \<Rightarrow> StatefulSetsStates" where
  "addReplicaStatefulSetStates s r =
     (let reps = sss_Replicas r in
      r\<lparr>sss_Replicas :=
          \<lparr>rep_All = Add s (rep_All reps),
           rep_NbreDeployed = int32 (rep_NbreDeployed reps + 1),
           rep_NbreReady = (if sw_IsReady s then int32 (rep_NbreReady reps + 1) else rep_NbreReady reps)\<rparr>\<rparr>)"

definition createAndAppendStatefulSetStates ::
  "PodWrapper list \<Rightarrow> StatefulSet \<Rightarrow> StatefulSetsStates \<Rightarrow> world \<Rightarrow> StatefulSetsStates res \<times> world" where
  "createAndAppendStatefulSetStates pods statefulSet r =
     res_bind (getInstanceIndexFromSpec statefulSet) (\<lambda>instanceIndex w.
       let s = \<lparr>sw_IsDeployed = True, sw_IsReady = sts_ReadyReplicas statefulSet > 0,
                 sw_InstanceIndex = instanceIndex, sw_StatefulSet = statefulSet,
                 sw_Pod = getPodByInstanceIndex instanceIndex pods\<rparr>;
           r1 = r\<lparr>sss_All := Add s (sss_All r)\<rparr>
       in if isPrimary statefulSet then setPrimaryStatefulSetStates s r1 w
          else (Val (addReplicaStatefulSetStates s r1), w))"

fun append_all :: "PodWrapper list \<Rightarrow> StatefulSet list \<Rightarrow> StatefulSetsStates \<Rightarrow> world
    \<Rightarrow> StatefulSetsStates res \<times> world" where
  "append_all pods [] r = (\<lambda>w. (Val r, w))"
| "append_all pods (s # ss) r =
     res_bind (createAndAppendStatefulSetStates pods s r) (append_all pods ss)"

definition getDeployedStatefulSets :: "server \<Rightarrow> world \<Rightarrow> StatefulSet list res \<times> world" where
  "getDeployedStatefulSets srv w =
     (case srv_list_StatefulSets srv (w_calls w) (kg_Namespace (w_kubegres w)) (kg_Name (w_kubegres w)) of
        Inr items \<Rightarrow> (Val items, w)
      | Inl ApiNotFound \<Rightarrow> (Val [], w)
      | Inl e \<Rightarrow> (Fail e, ErrorEvent ''StatefulSetLoadingErr'' w))"

definition LoadStatefulSetsStates :: "server \<Rightarrow> world \<Rightarrow> StatefulSetsStates res \<times> world" where
  "LoadStatefulSetsStates srv =
     res_bind (getDeployedStatefulSets srv) (\<lambda>items w.
       case spec_Replicas (w_spec w) of
         None \<Rightarrow> (Crash, w)
       | Some n \<Rightarrow>
           let r = zero_StatefulSetsStates\<lparr>sss_NbreDeployed := int32 (int (length items)),
                     sss_SpecExpectedNbreToDeploy := n\<rparr>
           in res_bind (if sss_NbreDeployed r > 0 then loadPodsStates srv else (\<lambda>w. (Val [], w)))
                (\<lambda>pods. append_all pods items r) w)"

section \<open>What a load produces\<close>

definition wrap :: "PodWrapper list \<Rightarrow> StatefulSet \<Rightarrow> StatefulSetWrapper" where
  "wrap pods s =
     (let i = fst (ParseInt32 (map_get (sts_TemplateLabels s) ''index'')) in
      \<lparr>sw_IsDeployed = True, sw_IsReady = sts_ReadyReplicas s > 0, sw_InstanceIndex = i,
       sw_StatefulSet = s, sw_Pod = getPodByInstanceIndex i pods\<rparr>)"

definition has_index :: "StatefulSet \<Rightarrow> bool" where
  "has_index s \<longleftrightarrow> snd (ParseInt32 (map_get (sts_TemplateLabels s) ''index'')) = None"

lemma wrap_simps [simp]:
  "sw_StatefulSet (wrap pods s) = s" "sw_IsDeployed (wrap pods s)"
  "sw_IsReady (wrap pods s) \<longleftrightarrow> sts_ReadyReplicas s > 0"
  "getInstanceIndex (wrap pods s) = sw_InstanceIndex (wrap pods s)"
  by (simp_all add: wrap_def getInstanceIndex_def Let_def)

lemma createAndAppend_eq:
  "createAndAppendStatefulSetStates pods s r w =
     (if \<not> has_index s then
        (Fail (NumError (map_get (sts_TemplateLabels s) ''index'')), ErrorEvent ''StatefulSetLoadingErr'' w)
      else
        let r1 = r\<lparr>sss_All := Add (wrap pods s) (sss_All r)\<rparr> in
        if isPrimary s then setPrimaryStatefulSetStates (wrap pods s) r1 w
        else (Val (addReplicaStatefulSetStates (wrap pods s) r1), w))"
  by (auto simp: createAndAppendStatefulSetStates_def getInstanceIndexFromSpec_def res_bind_def
      has_index_def wrap_def Let_def split: prod.splits option.splits)

text \<open>The states after the items \<open>ss\<close>, as folds over the wrapped items.\<close>

definition loaded :: "int \<Rightarrow> int \<Rightarrow> PodWrapper list \<Rightarrow> StatefulSet list \<Rightarrow> StatefulSetsStates" where
  "loaded n e pods ss =
     (let reps = filter (\<lambda>s. \<not> isPrimary s) ss in
      \<lparr>sss_NbreDeployed = n, sss_SpecExpectedNbreToDeploy = e,
       sss_Primary = (case filter isPrimary ss of [] \<Rightarrow> zero_StatefulSetWrapper | s # _ \<Rightarrow> wrap pods s),
       sss_Replicas = \<lparr>rep_All = wrappers.build (map (wrap pods) reps),
         rep_NbreDeployed = int32 (int (length reps)),
         rep_NbreReady = int32 (int (length (filter (\<lambda>s. sts_ReadyReplicas s > 0) reps)))\<rparr>,
       sss_All = wrappers.build (map (wrap pods) ss)\<rparr>)"

lemma loaded_snoc_replica:
  "\<not> isPrimary s \<Longrightarrow>
   addReplicaStatefulSetStates (wrap pods s)
     ((loaded n e pods ss)\<lparr>sss_All := Add (wrap pods s) (sss_All (loaded n e pods ss))\<rparr>)
   = loaded n e pods (ss @ [s])"
  by (simp add: loaded_def addReplicaStatefulSetStates_def wrappers.build_snoc int32_add_idem
      Let_def algebra_simps)

lemma append_all_loaded:
  assumes "length (filter isPrimary ss0) \<le> 1"
  shows "append_all pods ss (loaded n e pods ss0) w = (Val r, w') \<longleftrightarrow>
    (\<forall>s \<in> set ss. has_index s) \<and> length (filter isPrimary (ss0 @ ss)) \<le> 1 \<and>
    r = loaded n e pods (ss0 @ ss) \<and> w' = w"
  using assms
proof (induction ss arbitrary: ss0 w)
  case Nil
  then show ?case by auto
next
  case (Cons s ss)
  let ?r0 = "loaded n e pods ss0"
  let ?r1 = "?r0\<lparr>sss_All := Add (wrap pods s) (sss_All ?r0)\<rparr>"
  have dep: "sw_IsDeployed (sss_Primary ?r0) \<longleftrightarrow> filter isPrimary ss0 \<noteq> []"
    by (simp add: loaded_def zero_StatefulSetWrapper_def Let_def split: list.splits)
  consider "\<not> has_index s" | "has_index s" "\<not> isPrimary s"
    | "has_index s" "isPrimary s" "filter isPrimary ss0 = []"
    | "has_index s" "isPrimary s" "filter isPrimary ss0 \<noteq> []" by blast
  then show ?case
  proof cases
    case 1
    then show ?thesis by (simp add: createAndAppend_eq res_bind_def)
  next
    case 2
    with Cons.prems have "length (filter isPrimary (ss0 @ [s])) \<le> 1" by simp
    from Cons.IH [OF this] 2 show ?thesis
      by (simp add: createAndAppend_eq res_bind_def loaded_snoc_replica)
  next
    case 3
    then have "?r1\<lparr>sss_Primary := wrap pods s\<rparr> = loaded n e pods (ss0 @ [s])"
      by (simp add: loaded_def wrappers.build_snoc Let_def)
    moreover have "length (filter isPrimary (ss0 @ [s])) \<le> 1" using 3 by simp
    ultimately show ?thesis
      using Cons.IH [of "ss0 @ [s]"] 3 dep
      by (simp add: createAndAppend_eq res_bind_def setPrimaryStatefulSetStates_def)
  next
    case 4
    then have "\<not> length (filter isPrimary (ss0 @ s # ss)) \<le> 1"
      by (cases "filter isPrimary ss0") simp_all
    with 4 dep show ?thesis
      by (simp add: createAndAppend_eq res_bind_def setPrimaryStatefulSetStates_def)
  qed
qed

lemma loaded_Nil: "loaded n e pods [] = zero_StatefulSetsStates\<lparr>sss_NbreDeployed := n, sss_SpecExpectedNbreToDeploy := e\<rparr>"
  by (simp add: loaded_def zero_StatefulSetsStates_def wrappers.build_def int32_id in_int32_def)

lemma LoadStatefulSetsStates_loaded:
  assumes "srv_list_StatefulSets srv (w_calls w) (kg_Namespace (w_kubegres w)) (kg_Name (w_kubegres w)) = Inr items"
    and "srv_list_Pods srv (w_calls w) (kg_Namespace (w_kubegres w)) (kg_Name (w_kubegres w)) = Inr pods"
    and "spec_Replicas (w_spec w) = Some e" "length items < 2147483648"
  shows "LoadStatefulSetsStates srv w = (Val r, w') \<longleftrightarrow>
    (\<forall>s \<in> set items. has_index s) \<and> length (filter isPrimary items) \<le> 1 \<and>
    r = loaded (int (length items)) e (map wrap_pod pods) items \<and> w' = w"
proof (cases "items = []")
  case True
  with assms(1,3) show ?thesis
    by (auto simp: LoadStatefulSetsStates_def getDeployedStatefulSets_def res_bind_def Let_def
        int32_id in_int32_def loaded_Nil)
next
  case False
  with assms(4) have "int32 (int (length items)) = int (length items)" "0 < length items"
    by (simp_all add: int32_id in_int32_def)
  then have "LoadStatefulSetsStates srv w =
      append_all (map wrap_pod pods) items (loaded (int (length items)) e (map wrap_pod pods) []) w"
    using assms(1-3)
    by (simp add: LoadStatefulSetsStates_def getDeployedStatefulSets_def loadPodsStates_def
        getDeployedPods_def res_bind_def Let_def loaded_Nil)
  then show ?thesis using append_all_loaded [of "[]"] by simp
qed

lemma LoadStatefulSetsStates_Crash_iff:
  assumes "srv_list_StatefulSets srv (w_calls w) (kg_Namespace (w_kubegres w)) (kg_Name (w_kubegres w)) = Inr items"
  shows "fst (LoadStatefulSetsStates srv w) = Crash \<longleftrightarrow> spec_Replicas (w_spec w) = None"
proof -
  have c: "fst (createAndAppendStatefulSetStates pods s r w) \<noteq> Crash" for pods s r w
    by (simp add: createAndAppend_eq setPrimaryStatefulSetStates_def Let_def)
  have a: "fst (append_all pods ss r w) \<noteq> Crash" for pods ss r w
    by (induction ss arbitrary: r w) (simp_all add: c res_bind_no_crash)
  have p: "fst (loadPodsStates srv w) \<noteq> Crash"
    unfolding loadPodsStates_def
    by (rule res_bind_no_crash) (simp_all add: getDeployedPods_def split: sum.splits go_error.splits)
  show ?thesis
    using assms p
    by (auto simp: LoadStatefulSetsStates_def getDeployedStatefulSets_def Let_def
        a res_bind_no_crash split: option.splits)
qed

section \<open>Consistent states\<close>

text \<open>What the enforcers may assume of loaded states.\<close>

definition states_wf :: "StatefulSetsStates \<Rightarrow> bool" where
  "states_wf r \<longleftrightarrow>
     (let alls = GetAllSortedByInstanceIndex (sss_All r);
          reps = GetAllSortedByInstanceIndex (rep_All (sss_Replicas r));
          down = GetAllReverseSortedByInstanceIndex (rep_All (sss_Replicas r))
      in sorted (map sw_InstanceIndex alls) \<and> sorted (map sw_InstanceIndex reps) \<and>
         sorted (map sw_InstanceIndex (rev down)) \<and> mset down = mset reps \<and>
         mset alls = mset reps + (if sw_IsDeployed (sss_Primary r) then {#sss_Primary r#} else {#}) \<and>
         (\<forall>s \<in> set alls. sw_IsDeployed s \<and> getInstanceIndex s = sw_InstanceIndex s) \<and>
         (\<forall>s \<in> set reps. \<not> isPrimary (sw_StatefulSet s)) \<and>
         (sw_IsDeployed (sss_Primary r) \<longrightarrow> isPrimary (sw_StatefulSet (sss_Primary r))) \<and>
         sss_NbreDeployed r = int (length alls) \<and>
         rep_NbreDeployed (sss_Replicas r) = int (length reps) \<and>
         rep_NbreReady (sss_Replicas r) = int (length (filter sw_IsReady reps)))"

lemma wrap_sorted:
  "set ws \<subseteq> range (wrap pods) \<Longrightarrow> sorted (map getInstanceIndex ws) = sorted (map sw_InstanceIndex ws)"
proof -
  assume a: "set ws \<subseteq> range (wrap pods)"
  have "map getInstanceIndex ws = map sw_InstanceIndex ws"
    by (rule map_cong) (use a in auto)
  then show ?thesis by (simp only:)
qed

lemma filter_primary_split:
  "mset ws = mset (filter (\<lambda>s. \<not> P s) ws) + mset (filter P ws)"
  by (metis mset_filter multiset_partition union_commute)

lemma build_wrap_orders:
  fixes pods :: "PodWrapper list" and ss :: "StatefulSet list"
  defines "c \<equiv> wrappers.build (map (wrap pods) ss)"
  shows "set (GetAllSortedByInstanceIndex c) = wrap pods ` set ss"
    and "mset (GetAllSortedByInstanceIndex c) = image_mset (wrap pods) (mset ss)"
    and "mset (GetAllReverseSortedByInstanceIndex c) = mset (GetAllSortedByInstanceIndex c)"
    and "sorted (map sw_InstanceIndex (GetAllSortedByInstanceIndex c))"
    and "sorted (map sw_InstanceIndex (rev (GetAllReverseSortedByInstanceIndex c)))"
    and "length (GetAllSortedByInstanceIndex c) = length ss"
    and "length (filter sw_IsReady (GetAllSortedByInstanceIndex c)) =
           length (filter (\<lambda>s. sts_ReadyReplicas s > 0) ss)"
proof -
  show m: "mset (GetAllSortedByInstanceIndex c) = image_mset (wrap pods) (mset ss)"
    by (simp add: c_def wrappers.build_mset)
  show s: "set (GetAllSortedByInstanceIndex c) = wrap pods ` set ss"
    by (simp add: c_def wrappers.build_set)
  show "mset (GetAllReverseSortedByInstanceIndex c) = mset (GetAllSortedByInstanceIndex c)"
    by (simp add: c_def wrappers.build_mset)
  show "sorted (map sw_InstanceIndex (GetAllSortedByInstanceIndex c))"
    using wrappers.build_asc [of "map (wrap pods) ss"] wrap_sorted [of "GetAllSortedByInstanceIndex c" pods] s
    by (auto simp: c_def)
  have d: "set (GetAllReverseSortedByInstanceIndex c) \<subseteq> range (wrap pods)"
    by (auto simp: c_def wrappers.build_set)
  have "sorted (map getInstanceIndex (rev (GetAllReverseSortedByInstanceIndex c)))"
    using wrappers.build_desc [of "map (wrap pods) ss"] by (simp add: c_def sorted_map sorted_wrt_rev)
  with d show "sorted (map sw_InstanceIndex (rev (GetAllReverseSortedByInstanceIndex c)))"
    using wrap_sorted [of "rev (GetAllReverseSortedByInstanceIndex c)" pods] by simp
  show "length (GetAllSortedByInstanceIndex c) = length ss"
    by (metis m size_mset size_image_mset)
  have "size (filter_mset sw_IsReady (mset (GetAllSortedByInstanceIndex c))) =
      size (filter_mset (\<lambda>s. sts_ReadyReplicas s > 0) (mset ss))"
    by (simp add: m filter_mset_image_mset)
  then show "length (filter sw_IsReady (GetAllSortedByInstanceIndex c)) =
      length (filter (\<lambda>s. sts_ReadyReplicas s > 0) ss)"
    by (metis mset_filter size_mset)
qed

lemma loaded_wf:
  assumes "length (filter isPrimary ss) \<le> 1" "length ss < 2147483648"
  shows "states_wf (loaded (int (length ss)) e pods ss)"
proof -
  let ?reps = "filter (\<lambda>s. \<not> isPrimary s) ss"
  have "length (filter (\<lambda>s. 0 < sts_ReadyReplicas s) ?reps) \<le> length ?reps" "length ?reps \<le> length ss"
    by (rule length_filter_le)+
  with assms(2) have small: "int32 (int (length ?reps)) = int (length ?reps)"
    "int32 (int (length (filter (\<lambda>s. 0 < sts_ReadyReplicas s) ?reps))) =
       int (length (filter (\<lambda>s. 0 < sts_ReadyReplicas s) ?reps))"
    by (intro int32_id; unfold in_int32_def; linarith)+
  have prim: "mset (filter isPrimary ss) =
      (case filter isPrimary ss of [] \<Rightarrow> {#} | s # _ \<Rightarrow> {#s#})"
    using assms(1) by (cases "filter isPrimary ss") (auto simp: Suc_le_eq)
  have "s \<in> set ss \<and> isPrimary s" if "filter isPrimary ss = s # rs" for s rs
    using that by (auto simp: filter_eq_Cons_iff)
  moreover have "image_mset (wrap pods) (mset ss) = image_mset (wrap pods) (mset ?reps) +
      (case filter isPrimary ss of [] \<Rightarrow> {#} | s # _ \<Rightarrow> {#wrap pods s#})"
    by (subst filter_primary_split [of ss isPrimary]) (simp only: prim image_mset_union split: list.splits, simp)
  ultimately show ?thesis
    unfolding states_wf_def loaded_def Let_def
    by (cases "filter isPrimary ss")
       (simp_all add: build_wrap_orders small zero_StatefulSetWrapper_def del: filter_filter mset_map mset_filter)
qed

section \<open>Properties\<close>

text \<open>
  C25: loading succeeds exactly when every listed StatefulSet carries a 32-bit number in
  its \<open>index\<close> label and at most one is labelled as primary; in particular two
  primaries are always reported as an error.
\<close>

theorem LoadStatefulSetsStates_succeeds_iff:
  assumes "srv_list_StatefulSets srv (w_calls w) (kg_Namespace (w_kubegres w)) (kg_Name (w_kubegres w)) = Inr items"
    and "srv_list_Pods srv (w_calls w) (kg_Namespace (w_kubegres w)) (kg_Name (w_kubegres w)) = Inr pods"
    and "spec_Replicas (w_spec w) = Some e" "length items < 2147483648"
  shows "((\<exists>r. LoadStatefulSetsStates srv w = (Val r, w)) \<longleftrightarrow>
      (\<forall>s \<in> set items. \<exists>i. ParseInt32 (map_get (sts_TemplateLabels s) ''index'') = (i, None)) \<and>
      length (filter isPrimary items) \<le> 1)
    \<and> fst (LoadStatefulSetsStates srv w) \<noteq> Crash"
  using LoadStatefulSetsStates_loaded [OF assms] LoadStatefulSetsStates_Crash_iff [OF assms(1)] assms(3)
  by (auto simp: has_index_def prod_eq_iff)

theorem LoadStatefulSetsStates_succeeds_iff_witness:
  "(\<exists>r. LoadStatefulSetsStates (running_server sample_StatefulSets sample_Pods) sample_world = (Val r, sample_world))
   \<and> \<not> (\<exists>r. LoadStatefulSetsStates
          (running_server (sample_StatefulSet 4 ''primary'' 1 # sample_StatefulSets) sample_Pods) sample_world
          = (Val r, sample_world))"
proof -
  have spec: "spec_Replicas (w_spec sample_world) = Some 3"
    by (simp add: sample_world_def sample_Kubegres_def sample_Spec_def)
  have small: "length sample_StatefulSets < 2147483648"
    "length (sample_StatefulSet 4 ''primary'' 1 # sample_StatefulSets) < 2147483648"
    by (simp_all add: sample_StatefulSets_def)
  show ?thesis
    using LoadStatefulSetsStates_succeeds_iff [OF running_server_simps(1,2) spec small(1)]
      LoadStatefulSetsStates_succeeds_iff [OF running_server_simps(1,2) spec small(2)]
    by (simp add: sample_StatefulSets_def isPrimary_def PrimaryRoleName_def ParseInt32_Itoa in_int32_def)
qed

text \<open>
  C23: a successful load gives consistent states. Every listed StatefulSet is in the
  collection of all, sorted by index; the primary is the one labelled as such, the rest
  are the replicas, in ascending and descending order; the counters count.
\<close>

theorem LoadStatefulSetsStates_consistent:
  assumes "srv_list_StatefulSets srv (w_calls w) (kg_Namespace (w_kubegres w)) (kg_Name (w_kubegres w)) = Inr items"
    and "srv_list_Pods srv (w_calls w) (kg_Namespace (w_kubegres w)) (kg_Name (w_kubegres w)) = Inr pods"
    and "spec_Replicas (w_spec w) = Some e" "length items < 2147483648"
    and "LoadStatefulSetsStates srv w = (Val r, w')"
  shows "states_wf r \<and> sss_SpecExpectedNbreToDeploy r = e \<and> w' = w \<and>
    image_mset sw_StatefulSet (mset (GetAllSortedByInstanceIndex (sss_All r))) = mset items"
proof -
  have "length (filter isPrimary items) \<le> 1" "w' = w"
    and r: "r = loaded (int (length items)) e (map wrap_pod pods) items"
    using LoadStatefulSetsStates_loaded [OF assms(1-4)] assms(5) by auto
  moreover have "image_mset sw_StatefulSet (mset (GetAllSortedByInstanceIndex (sss_All r))) = mset items"
    by (simp add: r loaded_def wrappers.build_mset multiset.map_comp o_def Let_def)
  moreover have "sss_SpecExpectedNbreToDeploy r = e" by (simp add: r loaded_def Let_def)
  ultimately show ?thesis using assms(4) by (simp add: loaded_wf)
qed

theorem LoadStatefulSetsStates_consistent_witness:
  "\<exists>r. LoadStatefulSetsStates (running_server sample_StatefulSets sample_Pods) sample_world = (Val r, sample_world)
     \<and> states_wf r \<and> sss_SpecExpectedNbreToDeploy r = 3"
proof -
  let ?srv = "running_server sample_StatefulSets sample_Pods"
  have spec: "spec_Replicas (w_spec sample_world) = Some 3"
    by (simp add: sample_world_def sample_Kubegres_def sample_Spec_def)
  have small: "length sample_StatefulSets < 2147483648" by (simp add: sample_StatefulSets_def)
  obtain r where "LoadStatefulSetsStates ?srv sample_world = (Val r, sample_world)"
    using LoadStatefulSetsStates_loaded [OF running_server_simps(1,2) spec small]
    by (simp add: sample_StatefulSets_def isPrimary_def PrimaryRoleName_def ParseInt32_Itoa in_int32_def has_index_def)
  then show ?thesis
    using LoadStatefulSetsStates_consistent [OF running_server_simps(1,2) spec small] by blast
qed

end
