(* ===== verification/Resources_States.thy ===== *)
theory Resources_States
  imports StatefulSet_States
begin

text \<open>
  \<open>src/controllers/states\<close>: what the operator knows of the cluster at the start of a
  reconciliation. Each part is loaded in the order of \<open>ResourcesStates.loadStates\<close>; a
  resource that does not exist is not an error.
\<close>

section \<open>Storage class\<close>

definition GetStorageClass :: "server \<Rightarrow> world \<Rightarrow> StorageClass res \<times> world" where
  "GetStorageClass srv w =
     (case db_StorageClassName (spec_Database (w_spec w)) of
        None \<Rightarrow> (Crash, w)
      | Some resourceName \<Rightarrow>
          (case srv_get_StorageClass srv (w_calls w) resourceName of
             Inr sc \<Rightarrow> (Val sc, w)
           | Inl ApiNotFound \<Rightarrow> (Val zero_StorageClass, w)
           | Inl e \<Rightarrow> (Fail e, ErrorEvent ''DatabaseStorageClassLoadingErr'' w)))"

definition loadDbStorageClass :: "server \<Rightarrow> world \<Rightarrow> DbStorageClassStates res \<times> world" where
  "loadDbStorageClass srv =
     res_bind (GetStorageClass srv) (\<lambda>sc w.
       (Val (if sc_Name sc \<noteq> '''' then \<lparr>dsc_IsDeployed = True, dsc_StorageClassName = sc_Name sc\<rparr>
             else \<lparr>dsc_IsDeployed = False, dsc_StorageClassName = ''''\<rparr>), w))"

section \<open>Configuration maps\<close>

definition ConfigMapDataKeyPostgresConf :: string where
  "ConfigMapDataKeyPostgresConf = ''postgres.conf''"

definition ConfigMapDataKeyPrimaryInitScript :: string where
  "ConfigMapDataKeyPrimaryInitScript = ''primary_init_script.sh''"

definition ConfigMapDataKeyPgHbaConf :: string where
  "ConfigMapDataKeyPgHbaConf = ''pg_hba.conf''"

definition ConfigMapDataKeyBackUpScript :: string where
  "ConfigMapDataKeyBackUpScript = ''backup_database.sh''"

definition ConfigMapDataKeyCopyPrimaryDataToReplica :: string where
  "ConfigMapDataKeyCopyPrimaryDataToReplica = ''copy_primary_data_to_replica.sh''"

definition ConfigMapDataKeyPrimaryCreateReplicaRole :: string where
  "ConfigMapDataKeyPrimaryCreateReplicaRole = ''primary_create_replication_role.sh''"

definition ConfigMapDataKeyPromoteReplica :: string where
  "ConfigMapDataKeyPromoteReplica = ''promote_replica_to_primary.sh''"

lemmas config_key_defs = ConfigMapDataKeyPostgresConf_def ConfigMapDataKeyPrimaryInitScript_def
  ConfigMapDataKeyPgHbaConf_def ConfigMapDataKeyBackUpScript_def
  ConfigMapDataKeyCopyPrimaryDataToReplica_def ConfigMapDataKeyPrimaryCreateReplicaRole_def
  ConfigMapDataKeyPromoteReplica_def

definition base_locations :: ConfigLocations where
  "base_locations = \<lparr>loc_PostgreConf = BaseConfigMapVolumeName, loc_PrimaryInitScript = BaseConfigMapVolumeName,
     loc_BackUpScript = BaseConfigMapVolumeName, loc_PgHbaConf = BaseConfigMapVolumeName,
     loc_CopyPrimaryDataToReplica = BaseConfigMapVolumeName,
     loc_PrimaryCreateReplicaRole = BaseConfigMapVolumeName, loc_PromoteReplica = BaseConfigMapVolumeName\<rparr>"

definition getDeployedConfigMap :: "server \<Rightarrow> string \<Rightarrow> world \<Rightarrow> ConfigMap res \<times> world" where
  "getDeployedConfigMap srv resourceName w =
     (case srv_get_ConfigMap srv (w_calls w) (kg_Namespace (w_kubegres w)) resourceName of
        Inr cm \<Rightarrow> (Val cm, w)
      | Inl ApiNotFound \<Rightarrow> (Val zero_ConfigMap, w)
      | Inl e \<Rightarrow> (Fail e, ErrorEvent ''ConfigMapLoadingErr'' w))"

definition getBaseDeployedConfigMap :: "server \<Rightarrow> ConfigStates \<Rightarrow> world \<Rightarrow> ConfigMap res \<times> world" where
  "getBaseDeployedConfigMap srv r = getDeployedConfigMap srv (cfs_BaseConfigName r)"

definition getDeployedCustomCustomConfigMap :: "server \<Rightarrow> ConfigStates \<Rightarrow> world \<Rightarrow> ConfigMap res \<times> world" where
  "getDeployedCustomCustomConfigMap srv r = getDeployedConfigMap srv (cfs_CustomConfigName r)"

lemmas config_map_defs = getBaseDeployedConfigMap_def getDeployedCustomCustomConfigMap_def

definition isBaseConfigAlsoCustomConfig :: "ConfigStates \<Rightarrow> bool" where
  "isBaseConfigAlsoCustomConfig r \<longleftrightarrow> cfs_CustomConfigName r = cfs_BaseConfigName r"

definition isBaseConfigMap :: "ConfigMap \<Rightarrow> ConfigStates \<Rightarrow> bool" where
  "isBaseConfigMap configMap r \<longleftrightarrow> cm_Name configMap = cfs_BaseConfigName r"

definition isCustomConfigDeployed :: "ConfigMap \<Rightarrow> ConfigStates \<Rightarrow> bool" where
  "isCustomConfigDeployed configMap r \<longleftrightarrow> cm_Name configMap \<noteq> '''' \<and> cm_Name configMap \<noteq> cfs_BaseConfigName r"

definition overlay :: "ConfigMap \<Rightarrow> string \<Rightarrow> string \<Rightarrow> string" where
  "overlay cm key loc = (if map_get (cm_Data cm) key \<noteq> '''' then CustomConfigMapVolumeName else loc)"

definition custom_locations :: "ConfigMap \<Rightarrow> ConfigLocations \<Rightarrow> ConfigLocations" where
  "custom_locations cm l =
     \<lparr>loc_PostgreConf = overlay cm ConfigMapDataKeyPostgresConf (loc_PostgreConf l),
      loc_PrimaryInitScript = overlay cm ConfigMapDataKeyPrimaryInitScript (loc_PrimaryInitScript l),
      loc_BackUpScript = overlay cm ConfigMapDataKeyBackUpScript (loc_BackUpScript l),
      loc_PgHbaConf = overlay cm ConfigMapDataKeyPgHbaConf (loc_PgHbaConf l),
      loc_CopyPrimaryDataToReplica =
        overlay cm ConfigMapDataKeyCopyPrimaryDataToReplica (loc_CopyPrimaryDataToReplica l),
      loc_PrimaryCreateReplicaRole =
        overlay cm ConfigMapDataKeyPrimaryCreateReplicaRole (loc_PrimaryCreateReplicaRole l),
      loc_PromoteReplica = overlay cm ConfigMapDataKeyPromoteReplica (loc_PromoteReplica l)\<rparr>"

text \<open>\<open>ConfigStates.loadStates\<close> from the test of the two names on.\<close>

definition loadCustomConfigStates :: "server \<Rightarrow> ConfigStates \<Rightarrow> world \<Rightarrow> ConfigStates res \<times> world" where
  "loadCustomConfigStates srv r =
     (if isBaseConfigAlsoCustomConfig r then (\<lambda>w. (Val r, w))
      else res_bind (getDeployedCustomCustomConfigMap srv r) (\<lambda>customConfigMap w.
        (Val (if isCustomConfigDeployed customConfigMap r then
                r\<lparr>cfs_IsCustomConfigDeployed := True,
                  cfs_ConfigLocations := custom_locations customConfigMap (cfs_ConfigLocations r)\<rparr>
              else r), w)))"

definition loadConfigStates :: "server \<Rightarrow> world \<Rightarrow> ConfigStates res \<times> world" where
  "loadConfigStates srv w0 =
     (let r = \<lparr>cfs_IsBaseConfigDeployed = False, cfs_BaseConfigName = BaseConfigMapName,
               cfs_IsCustomConfigDeployed = False, cfs_CustomConfigName = spec_CustomConfig (w_spec w0),
               cfs_ConfigLocations = base_locations\<rparr>
      in res_bind (getBaseDeployedConfigMap srv r) (\<lambda>baseConfigMap.
           loadCustomConfigStates srv
             (if isBaseConfigMap baseConfigMap r then r\<lparr>cfs_IsBaseConfigDeployed := True\<rparr> else r)) w0)"

section \<open>Services\<close>

definition service_isPrimary :: "Service \<Rightarrow> bool" where
  "service_isPrimary service \<longleftrightarrow> map_get (md_Labels (svc_meta service)) ''replicationRole'' = PrimaryRoleName"

definition getDeployedServices :: "server \<Rightarrow> world \<Rightarrow> Service list res \<times> world" where
  "getDeployedServices srv w =
     (case srv_list_Services srv (w_calls w) (kg_Namespace (w_kubegres w)) (kg_Name (w_kubegres w)) of
        Inr items \<Rightarrow> (Val items, w)
      | Inl ApiNotFound \<Rightarrow> (Val [], w)
      | Inl e \<Rightarrow> (Fail e, ErrorEvent ''ServiceLoadingErr'' w))"

definition add_service :: "Kubegres \<Rightarrow> Service \<Rightarrow> ServicesStates \<Rightarrow> ServicesStates" where
  "add_service k service r =
     (if service_isPrimary service then
        r\<lparr>svs_Primary := \<lparr>srw_Name = GetServiceResourceName k True, srw_IsDeployed = True, srw_Service = service\<rparr>\<rparr>
      else
        r\<lparr>svs_Replica := \<lparr>srw_Name = GetServiceResourceName k False, srw_IsDeployed = True, srw_Service = service\<rparr>\<rparr>)"

definition loadServicesStates :: "server \<Rightarrow> world \<Rightarrow> ServicesStates res \<times> world" where
  "loadServicesStates srv =
     res_bind (getDeployedServices srv) (\<lambda>items w.
       (Val (fold (add_service (w_kubegres w)) items
               \<lparr>svs_Primary = zero_ServiceWrapper, svs_Replica = zero_ServiceWrapper\<rparr>), w))"

section \<open>Backup\<close>

definition getDeployedCronJob :: "server \<Rightarrow> world \<Rightarrow> CronJob res \<times> world" where
  "getDeployedCronJob srv w =
     (case srv_get_CronJob srv (w_calls w) (kg_Namespace (w_kubegres w)) (CronJobNamePrefix @ kg_Name (w_kubegres w)) of
        Inr cj \<Rightarrow> (Val cj, w)
      | Inl ApiNotFound \<Rightarrow> (Val zero_CronJob, w)
      | Inl e \<Rightarrow> (Fail e, ErrorEvent ''BackUpCronJobLoadingErr'' w))"

definition getDeployedPvc :: "server \<Rightarrow> world \<Rightarrow> PersistentVolumeClaim res \<times> world" where
  "getDeployedPvc srv w =
     (case srv_get_PersistentVolumeClaim srv (w_calls w) (kg_Namespace (w_kubegres w))
             (backup_PvcName (spec_Backup (w_spec w))) of
        Inr pvc \<Rightarrow> (Val pvc, w)
      | Inl ApiNotFound \<Rightarrow> (Val zero_PersistentVolumeClaim, w)
      | Inl e \<Rightarrow> (Fail e, ErrorEvent ''BackUpPersistentVolumeClaimLoadingErr'' w))"

text \<open>
  The name of the configuration map is read from the second volume; a second volume that
  is not a configuration map is a nil dereference (\<open>None\<close>).
\<close>

definition cronjob_ConfigMap :: "CronJob \<Rightarrow> string option" where
  "cronjob_ConfigMap cj =
     (let vs = ps_Volumes (cj_PodSpec cj) in
      if length vs \<ge> 2 then map_option cmv_Name (v_ConfigMap (vs ! 1)) else Some '''')"

definition loadBackUpStates :: "server \<Rightarrow> world \<Rightarrow> BackUpStates res \<times> world" where
  "loadBackUpStates srv =
     res_bind (getDeployedCronJob srv) (\<lambda>cj w.
       case (if md_Name (cj_meta cj) \<noteq> '''' then
               (case cronjob_ConfigMap cj of
                  None \<Rightarrow> None
                | Some cm \<Rightarrow> Some (True, cm, case cj_LastScheduleTime cj of None \<Rightarrow> '''' | Some t \<Rightarrow> t))
             else Some (False, '''', '''')) of
         None \<Rightarrow> (Crash, w)
       | Some (dep, cm, lst) \<Rightarrow>
           res_bind (getDeployedPvc srv) (\<lambda>pvc w.
             (Val \<lparr>bus_IsCronJobDeployed = dep, bus_IsPvcDeployed = pvc_Name pvc \<noteq> '''',
                   bus_ConfigMap = cm, bus_CronJobLastScheduleTime = lst, bus_DeployedCronJob = cj\<rparr>, w)) w)"

section \<open>All states\<close>

definition LoadResourcesStates :: "server \<Rightarrow> world \<Rightarrow> ResourcesStates res \<times> world" where
  "LoadResourcesStates srv =
     res_bind (loadDbStorageClass srv) (\<lambda>dsc.
     res_bind (loadConfigStates srv) (\<lambda>cfs.
     res_bind (LoadStatefulSetsStates srv) (\<lambda>sss.
     res_bind (loadServicesStates srv) (\<lambda>svs.
     res_bind (loadBackUpStates srv) (\<lambda>bus w.
       (Val \<lparr>rs_DbStorageClass = dsc, rs_StatefulSets = sss, rs_Services = svs, rs_Config = cfs,
             rs_BackUp = bus\<rparr>, w))))))"

section \<open>Loading has no effect but events\<close>

text \<open>A loader sends no request, and it reports exactly one event, when it fails.\<close>

definition failed_event :: "'a res \<Rightarrow> world \<Rightarrow> world \<Rightarrow> bool" where
  "failed_event r w w' \<longleftrightarrow>
     (case r of
        Fail e \<Rightarrow> e \<noteq> ApiNotFound \<and> w_kubegres w' = w_kubegres w \<and>
          (\<exists>reason. w' = ErrorEvent reason w)
      | _ \<Rightarrow> w' = w)"

definition load_effect :: "(world \<Rightarrow> 'a res \<times> world) \<Rightarrow> world \<Rightarrow> bool" where
  "load_effect f w \<longleftrightarrow> failed_event (fst (f w)) w (snd (f w))"

lemma load_effect_bind:
  assumes "load_effect f w" "\<And>a. load_effect (g a) w"
  shows "load_effect (res_bind f g) w"
proof -
  obtain r w' where f: "f w = (r, w')" by fastforce
  with assms show ?thesis
    by (cases r) (auto simp: res_bind_def failed_event_def load_effect_def)
qed

lemma failed_event_simps [simp]: "failed_event (Val a) w w" "failed_event Crash w w"
  by (simp_all add: failed_event_def)

lemma load_effect_Val [intro!, simp]: "load_effect (\<lambda>w. (Val (f w), w)) w"
  by (simp add: load_effect_def failed_event_def)

text \<open>The API reads.\<close>

lemma load_effect_reads [intro!]:
  "load_effect (GetStorageClass srv) w" "load_effect (getDeployedConfigMap srv n) w"
  "load_effect (getDeployedServices srv) w" "load_effect (getDeployedCronJob srv) w"
  "load_effect (getDeployedPvc srv) w" "load_effect (getDeployedPods srv) w"
  "load_effect (getDeployedStatefulSets srv) w"
  by (auto simp: load_effect_def failed_event_def GetStorageClass_def getDeployedConfigMap_def
      getDeployedServices_def getDeployedCronJob_def getDeployedPvc_def getDeployedPods_def
      getDeployedStatefulSets_def split: sum.splits go_error.splits option.splits)

lemma load_effect_append_all [intro!]: "load_effect (append_all pods ss r) w"
proof (induction ss arbitrary: r)
  case Nil
  show ?case by simp
next
  case (Cons s ss)
  have "load_effect (createAndAppendStatefulSetStates pods s r) w"
    by (auto simp: load_effect_def createAndAppend_eq failed_event_def setPrimaryStatefulSetStates_def Let_def)
  with Cons show ?case by (simp add: load_effect_bind)
qed

lemma load_effect_parts [intro!]:
  "load_effect (loadPodsStates srv) w" "load_effect (loadDbStorageClass srv) w"
  "load_effect (loadServicesStates srv) w"
  unfolding loadPodsStates_def loadDbStorageClass_def loadServicesStates_def
  by (auto intro!: load_effect_bind)

lemma load_effect_StatefulSets [intro!]: "load_effect (LoadStatefulSetsStates srv) w"
  unfolding LoadStatefulSetsStates_def
proof (rule load_effect_bind)
  fix items
  have "load_effect (res_bind (if b then loadPodsStates srv else (\<lambda>w. (Val [], w)))
      (\<lambda>pods. append_all pods items r)) w" for b r
    by (auto intro!: load_effect_bind)
  then show "load_effect (\<lambda>w. case spec_Replicas (w_spec w) of None \<Rightarrow> (Crash, w)
      | Some n \<Rightarrow> let r = zero_StatefulSetsStates\<lparr>sss_NbreDeployed := int32 (int (length items)),
                     sss_SpecExpectedNbreToDeploy := n\<rparr>
           in res_bind (if sss_NbreDeployed r > 0 then loadPodsStates srv else (\<lambda>w. (Val [], w)))
                (\<lambda>pods. append_all pods items r) w) w"
    unfolding load_effect_def Let_def by (cases "spec_Replicas (w_spec w)") simp_all
qed (rule load_effect_reads)

lemma load_effect_BackUp [intro!]: "load_effect (loadBackUpStates srv) w"
  unfolding loadBackUpStates_def
proof (rule load_effect_bind)
  fix cj
  have "load_effect (res_bind (getDeployedPvc srv) (\<lambda>pvc w. (Val (f pvc), w))) w"
    for f :: "PersistentVolumeClaim \<Rightarrow> BackUpStates"
    by (auto intro!: load_effect_bind)
  then show "load_effect (\<lambda>w. case (if md_Name (cj_meta cj) \<noteq> '''' then
               (case cronjob_ConfigMap cj of
                  None \<Rightarrow> None
                | Some cm \<Rightarrow> Some (True, cm, case cj_LastScheduleTime cj of None \<Rightarrow> '''' | Some t \<Rightarrow> t))
             else Some (False, '''', '''')) of
         None \<Rightarrow> (Crash, w)
       | Some (dep, cm, lst) \<Rightarrow>
           res_bind (getDeployedPvc srv) (\<lambda>pvc w.
             (Val \<lparr>bus_IsCronJobDeployed = dep, bus_IsPvcDeployed = pvc_Name pvc \<noteq> '''',
                   bus_ConfigMap = cm, bus_CronJobLastScheduleTime = lst, bus_DeployedCronJob = cj\<rparr>, w)) w) w"
    unfolding load_effect_def by (cases "cronjob_ConfigMap cj") simp_all
qed (rule load_effect_reads)

lemma load_effect_CustomConfig [intro!]: "load_effect (loadCustomConfigStates srv r) w"
  unfolding loadCustomConfigStates_def config_map_defs by (auto intro!: load_effect_bind)

lemma load_effect_Config [intro!]: "load_effect (loadConfigStates srv) w"
proof -
  have *: "load_effect (res_bind (getDeployedConfigMap srv n) (\<lambda>m. loadCustomConfigStates srv (r m))) w" for n r
    by (auto intro!: load_effect_bind)
  show ?thesis unfolding loadConfigStates_def config_map_defs load_effect_def Let_def by (rule * [unfolded load_effect_def])
qed

lemma LoadResourcesStates_load_effect: "load_effect (LoadResourcesStates srv) w"
  unfolding LoadResourcesStates_def by (auto intro!: load_effect_bind)

section \<open>Properties\<close>

text \<open>
  Loading the states sends no request and leaves the Kubegres object and the status
  alone. A resource that does not exist is never the reason of a failure, and a failure is
  reported by exactly one warning event.
\<close>

lemma LoadResourcesStates_effect:
  "case LoadResourcesStates srv w of
     (Val _, w') \<Rightarrow> w' = w
   | (Fail e, w') \<Rightarrow> e \<noteq> ApiNotFound \<and> (\<exists>reason. w' = w\<lparr>w_events := w_events w @ [Event EventTypeWarning reason]\<rparr>)
   | (Crash, w') \<Rightarrow> w' = w"
  using LoadResourcesStates_load_effect [of srv w]
  by (auto simp: load_effect_def failed_event_def ErrorEvent_def split: prod.splits res.splits)

end
