(* ===== verification/Custom_Config.thy ===== *)
theory Custom_Config
  imports Resources_States "HOL-Library.Monad_Syntax"
begin

text \<open>
  \<open>src/controllers/spec/template/CustomConfigSpecHelper.go\<close>: the volume mounts of a
  StatefulSet follow the configuration locations, and the volume of the custom
  configuration map is present exactly when that map is deployed.
\<close>

definition defaultMode :: int where
  "defaultMode = 511"

definition getSpecCustomConfig :: "world \<Rightarrow> string" where
  "getSpecCustomConfig w = spec_CustomConfig (w_spec w)"

definition rename_mounts :: "string \<Rightarrow> string \<Rightarrow> VolumeMount list \<Rightarrow> VolumeMount list" where
  "rename_mounts volumeName configMapDataKey =
     map (\<lambda>vm. if vm_SubPath vm = configMapDataKey \<and> vm_Name vm \<noteq> volumeName
               then vm\<lparr>vm_Name := volumeName\<rparr> else vm)"

definition some_mount_changes :: "string \<Rightarrow> string \<Rightarrow> VolumeMount list \<Rightarrow> bool" where
  "some_mount_changes volumeName configMapDataKey vms \<longleftrightarrow>
     list_ex (\<lambda>vm. vm_SubPath vm = configMapDataKey \<and> vm_Name vm \<noteq> volumeName) vms"

definition upd_mounts :: "(VolumeMount list \<Rightarrow> VolumeMount list) \<Rightarrow> Container \<Rightarrow> Container" where
  "upd_mounts f c = c\<lparr>ctr_VolumeMounts := f (ctr_VolumeMounts c)\<rparr>"

text \<open>The first container must exist; the first init container is treated when there is one.\<close>

definition updateVolumeMountNameIfChanged ::
  "string \<Rightarrow> string \<Rightarrow> StatefulSet \<Rightarrow> (bool \<times> StatefulSet) option" where
  "updateVolumeMountNameIfChanged volumeName configMapDataKey s =
     (case ps_Containers (sts_PodSpec s) of
        [] \<Rightarrow> None
      | c # cs \<Rightarrow>
          (let s1 = upd_PodSpec (\<lambda>p. p\<lparr>ps_Containers := upd_mounts (rename_mounts volumeName configMapDataKey) c # cs\<rparr>) s;
               u1 = some_mount_changes volumeName configMapDataKey (ctr_VolumeMounts c)
           in case ps_InitContainers (sts_PodSpec s) of
                [] \<Rightarrow> Some (u1, s1)
              | i # is \<Rightarrow>
                  Some (u1 \<or> some_mount_changes volumeName configMapDataKey (ctr_VolumeMounts i),
                        upd_PodSpec (\<lambda>p. p\<lparr>ps_InitContainers :=
                          upd_mounts (rename_mounts volumeName configMapDataKey) i # is\<rparr>) s1)))"

definition createDescriptionMsg :: "string \<Rightarrow> string \<Rightarrow> string" where
  "createDescriptionMsg volumeMountName configMapDataKey =
     ''VolumeMount with subPath: '' @ [CHR 0x27] @ configMapDataKey @ [CHR 0x27] @
     '' was updated to name: '' @ [CHR 0x27] @ volumeMountName @ [CHR 0x27] @ '' - ''"

definition getCustomConfigMapVolume :: "Volume list \<Rightarrow> Volume option" where
  "getCustomConfigMapVolume volumes = find (\<lambda>v. v_Name v = CustomConfigMapVolumeName) volumes"

definition deleteCustomConfigMapVolumeIfExist :: "Volume list \<Rightarrow> Volume list" where
  "deleteCustomConfigMapVolumeIfExist = filter (\<lambda>v. v_Name v \<noteq> CustomConfigMapVolumeName)"

definition createConfigMapVolume :: "world \<Rightarrow> Volume" where
  "createConfigMapVolume w =
     \<lparr>v_Name = CustomConfigMapVolumeName,
      v_ConfigMap = Some \<lparr>cmv_Name = getSpecCustomConfig w, cmv_DefaultMode = Some defaultMode\<rparr>,
      v_PersistentVolumeClaim = None, v_rest = KNull\<rparr>"

definition addNewConfigMapVolumeWithSpecValue :: "world \<Rightarrow> Volume list \<Rightarrow> Volume list" where
  "addNewConfigMapVolumeWithSpecValue w volumes = volumes @ [createConfigMapVolume w]"

text \<open>The five locations that \<open>ConfigureStatefulSet\<close> treats, in the order of the code.\<close>

definition config_mounts :: "ConfigLocations \<Rightarrow> (string \<times> string) list" where
  "config_mounts l =
     [(loc_PostgreConf l, ConfigMapDataKeyPostgresConf),
      (loc_PrimaryInitScript l, ConfigMapDataKeyPrimaryInitScript),
      (loc_PgHbaConf l, ConfigMapDataKeyPgHbaConf),
      (loc_CopyPrimaryDataToReplica l, ConfigMapDataKeyCopyPrimaryDataToReplica),
      (loc_PrimaryCreateReplicaRole l, ConfigMapDataKeyPrimaryCreateReplicaRole)]"

fun configure_mounts :: "(string \<times> string) list \<Rightarrow> bool \<times> string \<Rightarrow> StatefulSet
    \<Rightarrow> ((bool \<times> string) \<times> StatefulSet) option" where
  "configure_mounts [] acc s = Some (acc, s)"
| "configure_mounts ((loc, key) # ms) (changed, details) s =
     do {
       (u, s1) \<leftarrow> updateVolumeMountNameIfChanged loc key s;
       configure_mounts ms
         (if u then (True, details @ createDescriptionMsg loc key) else (changed, details)) s1
     }"

text \<open>The last part: a custom volume that is not a configuration map is a nil dereference.\<close>

definition configure_volume :: "world \<Rightarrow> bool \<times> string \<Rightarrow> StatefulSet \<Rightarrow> ((bool \<times> string) \<times> StatefulSet) option" where
  "configure_volume w acc s =
     (let volumes = ps_Volumes (sts_PodSpec s);
          set_volumes = (\<lambda>vs. upd_PodSpec (\<lambda>p. p\<lparr>ps_Volumes := vs\<rparr>) s)
      in if cfs_IsCustomConfigDeployed (rs_Config (w_states w)) then
           (case getCustomConfigMapVolume volumes of
              None \<Rightarrow> Some ((True, snd acc @ getSpecCustomConfig w),
                set_volumes (addNewConfigMapVolumeWithSpecValue w volumes))
            | Some v \<Rightarrow>
                (case v_ConfigMap v of
                   None \<Rightarrow> None
                 | Some cm \<Rightarrow>
                     if cmv_Name cm \<noteq> getSpecCustomConfig w then
                       Some ((True, snd acc @ getSpecCustomConfig w),
                         set_volumes (addNewConfigMapVolumeWithSpecValue w
                           (deleteCustomConfigMapVolumeIfExist volumes)))
                     else Some (acc, s)))
         else
           (case getCustomConfigMapVolume volumes of
              None \<Rightarrow> Some (acc, s)
            | Some v \<Rightarrow> Some ((True, snd acc @ ''Deleted from StatefulSet Spec, the volume configuration for customConfig as it is not used anymore''),
                set_volumes (deleteCustomConfigMapVolumeIfExist volumes))))"

definition ConfigureStatefulSet :: "world \<Rightarrow> StatefulSet \<Rightarrow> ((bool \<times> string) \<times> StatefulSet) option" where
  "ConfigureStatefulSet w s =
     do {
       (acc, s1) \<leftarrow> configure_mounts (config_mounts (cfs_ConfigLocations (rs_Config (w_states w)))) (False, '''') s;
       configure_volume w acc s1
     }"

section \<open>The mounts follow the locations\<close>

definition mounts_ok :: "string \<Rightarrow> string \<Rightarrow> StatefulSet \<Rightarrow> bool" where
  "mounts_ok loc key s \<longleftrightarrow>
     (\<forall>c \<in> set (take 1 (ps_Containers (sts_PodSpec s)) @ take 1 (ps_InitContainers (sts_PodSpec s))).
        \<forall>vm \<in> set (ctr_VolumeMounts c). vm_SubPath vm = key \<longrightarrow> vm_Name vm = loc)"

lemma rename_mounts_id: "\<not> some_mount_changes loc key vms \<Longrightarrow> rename_mounts loc key vms = vms"
  unfolding rename_mounts_def by (rule map_idI) (auto simp: some_mount_changes_def list_ex_iff)

lemma some_mount_changes_rename:
  "some_mount_changes loc' key' (rename_mounts loc key vms) \<longleftrightarrow>
     (if key' = key then loc' \<noteq> loc \<and> (\<exists>vm \<in> set vms. vm_SubPath vm = key) else some_mount_changes loc' key' vms)"
proof -
  let ?f = "\<lambda>vm. if vm_SubPath vm = key \<and> vm_Name vm \<noteq> loc then vm\<lparr>vm_Name := loc\<rparr> else vm"
  have f: "vm_SubPath (?f vm) = vm_SubPath vm" "vm_Name (?f vm) = (if vm_SubPath vm = key then loc else vm_Name vm)"
    for vm by simp_all
  have *: "some_mount_changes loc' key' (rename_mounts loc key vms) \<longleftrightarrow>
      (\<exists>vm \<in> set vms. vm_SubPath (?f vm) = key' \<and> vm_Name (?f vm) \<noteq> loc')"
    unfolding some_mount_changes_def rename_mounts_def list_ex_iff set_map bex_simps(7) ..
  show ?thesis unfolding * f by (auto simp: some_mount_changes_def list_ex_iff)
qed

definition first_mounts :: "StatefulSet \<Rightarrow> VolumeMount list" where
  "first_mounts s = concat (map ctr_VolumeMounts
     (take 1 (ps_Containers (sts_PodSpec s)) @ take 1 (ps_InitContainers (sts_PodSpec s))))"

lemma mounts_ok_iff: "mounts_ok loc key s \<longleftrightarrow> \<not> some_mount_changes loc key (first_mounts s)"
  by (auto simp: mounts_ok_def some_mount_changes_def first_mounts_def list_ex_iff)

lemma some_mount_changes_append [simp]:
  "some_mount_changes loc key (xs @ ys) \<longleftrightarrow> some_mount_changes loc key xs \<or> some_mount_changes loc key ys"
  "\<not> some_mount_changes loc key []"
  by (auto simp: some_mount_changes_def)

lemma rename_mounts_append [simp]:
  "rename_mounts loc key (xs @ ys) = rename_mounts loc key xs @ rename_mounts loc key ys"
  "rename_mounts loc key [] = []"
  by (simp_all add: rename_mounts_def)

lemma updateVolumeMount_first_mounts:
  assumes "updateVolumeMountNameIfChanged loc key s = Some (u, s')"
  shows "first_mounts s' = rename_mounts loc key (first_mounts s)"
    and "u \<longleftrightarrow> some_mount_changes loc key (first_mounts s)"
    and "ps_Containers (sts_PodSpec s') \<noteq> []"
  using assms
  by (cases "ps_Containers (sts_PodSpec s)"; cases "ps_InitContainers (sts_PodSpec s)";
      simp add: updateVolumeMountNameIfChanged_def first_mounts_def upd_mounts_def Let_def; force)+

lemma updateVolumeMount_same:
  assumes "updateVolumeMountNameIfChanged loc key s = Some (u, s')" "\<not> u"
  shows "s' = s"
proof -
  have e: "upd_PodSpec f s = s" if "f (sts_PodSpec s) = sts_PodSpec s" for f
    using that by (simp add: upd_PodSpec_def)
  show ?thesis
    using assms
    by (auto simp: updateVolumeMountNameIfChanged_def Let_def upd_mounts_def rename_mounts_id e split: list.splits)
qed

lemma updateVolumeMount_facts:
  assumes "updateVolumeMountNameIfChanged loc key s = Some (u, s')"
  shows "mounts_ok loc key s'" and "u \<longleftrightarrow> \<not> mounts_ok loc key s"
    and "key' \<noteq> key \<Longrightarrow> mounts_ok loc' key' s' \<longleftrightarrow> mounts_ok loc' key' s"
  using updateVolumeMount_first_mounts [OF assms] by (simp_all add: mounts_ok_iff some_mount_changes_rename)

lemma updateVolumeMount_total:
  "ps_Containers (sts_PodSpec s) \<noteq> [] \<Longrightarrow> \<exists>u s'. updateVolumeMountNameIfChanged loc key s = Some (u, s')"
  by (simp add: updateVolumeMountNameIfChanged_def Let_def split: list.splits)

lemma configure_mounts_ConsE:
  assumes "configure_mounts (m # ms) acc s = Some r"
  obtains u s1 acc1 where "updateVolumeMountNameIfChanged (fst m) (snd m) s = Some (u, s1)"
    and "configure_mounts ms acc1 s1 = Some r"
proof -
  obtain loc key changed details where m: "m = (loc, key)" "acc = (changed, details)"
    by (cases m; cases acc)
  show thesis
  proof (cases "updateVolumeMountNameIfChanged loc key s")
    case None
    with assms show ?thesis by (simp add: m)
  next
    case (Some p)
    obtain u s1 where p: "p = (u, s1)" by fastforce
    show ?thesis
      by (rule that) (use assms Some in \<open>simp_all add: m p\<close>)
  qed
qed

lemma configure_mounts_keeps:
  "configure_mounts ms acc s = Some (acc', s') \<Longrightarrow> key \<notin> snd ` set ms \<Longrightarrow>
   mounts_ok loc key s' \<longleftrightarrow> mounts_ok loc key s"
proof (induction ms arbitrary: acc s)
  case (Cons m ms)
  obtain u s1 acc1 where u: "updateVolumeMountNameIfChanged (fst m) (snd m) s = Some (u, s1)"
    and r: "configure_mounts ms acc1 s1 = Some (acc', s')"
    using Cons.prems(1) by (rule configure_mounts_ConsE)
  from Cons.IH [OF r] Cons.prems(2) show ?case by (simp add: updateVolumeMount_facts(3) [OF u])
qed simp

lemma configure_mounts_ok:
  "configure_mounts ms acc s = Some (acc', s') \<Longrightarrow> distinct (map snd ms) \<Longrightarrow> (loc, key) \<in> set ms \<Longrightarrow>
   mounts_ok loc key s'"
proof (induction ms arbitrary: acc s)
  case (Cons m ms)
  obtain u s1 acc1 where u: "updateVolumeMountNameIfChanged (fst m) (snd m) s = Some (u, s1)"
    and r: "configure_mounts ms acc1 s1 = Some (acc', s')"
    using Cons.prems(1) by (rule configure_mounts_ConsE)
  from Cons.IH [OF r] Cons.prems(2,3) configure_mounts_keeps [OF r, of key loc] show ?case
    using updateVolumeMount_facts(1) [OF u] by force
qed simp

lemma configure_mounts_same:
  "\<forall>(loc, key) \<in> set ms. mounts_ok loc key s \<Longrightarrow> ps_Containers (sts_PodSpec s) \<noteq> [] \<Longrightarrow>
   configure_mounts ms acc s = Some (acc, s)"
proof (induction ms)
  case (Cons m ms)
  obtain loc key where m: "m = (loc, key)" by fastforce
  obtain u s1 where u: "updateVolumeMountNameIfChanged loc key s = Some (u, s1)"
    using updateVolumeMount_total [OF Cons.prems(2)] by blast
  have "\<not> u" using updateVolumeMount_facts(2) [OF u] Cons.prems(1) by (simp add: m)
  then have "s1 = s" by (rule updateVolumeMount_same [OF u])
  with u \<open>\<not> u\<close> Cons show ?case by (cases acc) (simp add: m)
qed simp

lemma configure_mounts_containers:
  "configure_mounts ms acc s = Some (acc', s') \<Longrightarrow> ms \<noteq> [] \<Longrightarrow> ps_Containers (sts_PodSpec s') \<noteq> []"
proof (induction ms arbitrary: acc s)
  case (Cons m ms)
  obtain u s1 acc1 where u: "updateVolumeMountNameIfChanged (fst m) (snd m) s = Some (u, s1)"
    and r: "configure_mounts ms acc1 s1 = Some (acc', s')"
    using Cons.prems(1) by (rule configure_mounts_ConsE)
  from Cons.IH [OF r] r updateVolumeMount_first_mounts(3) [OF u] show ?case by (cases "ms = []") auto
qed simp

lemma config_mounts_distinct [simp]: "distinct (map snd (config_mounts l))" "config_mounts l \<noteq> []"
  by (simp_all add: config_mounts_def config_key_defs)

section \<open>The volume of the custom configuration map\<close>

definition volume_ok :: "world \<Rightarrow> StatefulSet \<Rightarrow> bool" where
  "volume_ok w s \<longleftrightarrow>
     (case getCustomConfigMapVolume (ps_Volumes (sts_PodSpec s)) of
        None \<Rightarrow> \<not> cfs_IsCustomConfigDeployed (rs_Config (w_states w))
      | Some v \<Rightarrow> cfs_IsCustomConfigDeployed (rs_Config (w_states w)) \<and>
          map_option cmv_Name (v_ConfigMap v) = Some (getSpecCustomConfig w))"

lemma find_append: "find P (xs @ ys) = (case find P xs of None \<Rightarrow> find P ys | Some x \<Rightarrow> Some x)"
  by (induction xs) simp_all

lemma getCustomConfigMapVolume_simps [simp]:
  "getCustomConfigMapVolume (deleteCustomConfigMapVolumeIfExist vs) = None"
  "getCustomConfigMapVolume vs = None \<Longrightarrow>
   getCustomConfigMapVolume (addNewConfigMapVolumeWithSpecValue w vs) = Some (createConfigMapVolume w)"
  by (simp add: getCustomConfigMapVolume_def deleteCustomConfigMapVolumeIfExist_def find_None_iff)
     (simp add: getCustomConfigMapVolume_def addNewConfigMapVolumeWithSpecValue_def
        createConfigMapVolume_def find_append)

lemma configure_volume_ok:
  assumes "configure_volume w acc s = Some (acc', s')"
  shows "volume_ok w s'" "ps_Containers (sts_PodSpec s') = ps_Containers (sts_PodSpec s)"
    "ps_InitContainers (sts_PodSpec s') = ps_InitContainers (sts_PodSpec s)"
  using assms
  by (auto simp: configure_volume_def volume_ok_def Let_def createConfigMapVolume_def
      split: option.splits if_splits)

lemma configure_volume_same: "volume_ok w s \<Longrightarrow> configure_volume w acc s = Some (acc, s)"
  by (auto simp: configure_volume_def volume_ok_def split: option.splits)

lemma ConfigureStatefulSet_ok:
  assumes "ConfigureStatefulSet w s = Some (r, s')"
  shows "ps_Containers (sts_PodSpec s') \<noteq> []" "volume_ok w s'"
    "\<forall>(loc, key) \<in> set (config_mounts (cfs_ConfigLocations (rs_Config (w_states w)))). mounts_ok loc key s'"
proof -
  obtain acc s1 where
    m: "configure_mounts (config_mounts (cfs_ConfigLocations (rs_Config (w_states w)))) (False, '''') s = Some (acc, s1)"
    and v: "configure_volume w acc s1 = Some (r, s')"
    using assms by (auto simp: ConfigureStatefulSet_def bind_eq_Some_conv)
  have "mounts_ok loc key s' = mounts_ok loc key s1" for loc key
    by (simp add: mounts_ok_def configure_volume_ok(2,3) [OF v])
  with configure_mounts_ok [OF m] show
    "\<forall>(loc, key) \<in> set (config_mounts (cfs_ConfigLocations (rs_Config (w_states w)))). mounts_ok loc key s'"
    by auto
  show "volume_ok w s'" by (rule configure_volume_ok(1) [OF v])
  show "ps_Containers (sts_PodSpec s') \<noteq> []"
    using configure_mounts_containers [OF m] by (simp add: configure_volume_ok(2) [OF v])
qed

lemma ConfigureStatefulSet_fixpoint:
  assumes "ps_Containers (sts_PodSpec s) \<noteq> []" "volume_ok w s"
    "\<forall>(loc, key) \<in> set (config_mounts (cfs_ConfigLocations (rs_Config (w_states w)))). mounts_ok loc key s"
  shows "ConfigureStatefulSet w s = Some ((False, ''''), s)"
  using assms by (simp add: ConfigureStatefulSet_def configure_mounts_same configure_volume_same)

text \<open>A run that reports no change has made none.\<close>

lemma configure_mounts_unchanged:
  "configure_mounts ms (ch, det) s = Some ((ch', det'), s') \<Longrightarrow> \<not> ch' \<Longrightarrow> \<not> ch \<and> s' = s"
proof (induction ms arbitrary: ch det s)
  case (Cons m ms)
  obtain loc key where m: "m = (loc, key)" by fastforce
  obtain u s1 where u: "updateVolumeMountNameIfChanged loc key s = Some (u, s1)"
    using Cons.prems(1) by (auto simp: m bind_eq_Some_conv)
  with Cons.prems(1) have r: "configure_mounts ms (u \<or> ch, if u then det @ createDescriptionMsg loc key else det) s1
      = Some ((ch', det'), s')" by (cases u) (simp_all add: m)
  from Cons.IH [OF r Cons.prems(2)] have "\<not> u" "\<not> ch" "s' = s1" by auto
  with updateVolumeMount_same [OF u] show ?case by simp
qed simp

lemma configure_volume_unchanged:
  "configure_volume w acc s = Some ((ch', det'), s') \<Longrightarrow> \<not> ch' \<Longrightarrow> \<not> fst acc \<and> s' = s"
  by (auto simp: configure_volume_def Let_def split: option.splits if_splits)

lemma ConfigureStatefulSet_unchanged:
  assumes "ConfigureStatefulSet w s = Some ((False, det), s')"
  shows "s' = s"
  using assms by (auto simp: ConfigureStatefulSet_def bind_eq_Some_conv
      dest!: configure_volume_unchanged configure_mounts_unchanged)

text \<open>The StatefulSets that need no configuration.\<close>

definition config_settled :: "world \<Rightarrow> StatefulSet \<Rightarrow> bool" where
  "config_settled w s \<longleftrightarrow> ps_Containers (sts_PodSpec s) \<noteq> [] \<and> volume_ok w s \<and>
     (\<forall>(loc, key) \<in> set (config_mounts (cfs_ConfigLocations (rs_Config (w_states w)))). mounts_ok loc key s)"

lemma ConfigureStatefulSet_settled_iff:
  "(\<exists>det s'. ConfigureStatefulSet w s = Some ((False, det), s')) \<longleftrightarrow> config_settled w s"
proof
  assume "\<exists>det s'. ConfigureStatefulSet w s = Some ((False, det), s')"
  then obtain det where "ConfigureStatefulSet w s = Some ((False, det), s)"
    using ConfigureStatefulSet_unchanged by blast
  from ConfigureStatefulSet_ok [OF this] show "config_settled w s" unfolding config_settled_def by blast
next
  assume "config_settled w s"
  then have "ConfigureStatefulSet w s = Some ((False, ''''), s)"
    unfolding config_settled_def by (intro ConfigureStatefulSet_fixpoint) blast+
  then show "\<exists>det s'. ConfigureStatefulSet w s = Some ((False, det), s')" by blast
qed

lemma configure_mounts_volumes:
  "configure_mounts ms acc s = Some (acc', s') \<Longrightarrow> ps_Volumes (sts_PodSpec s') = ps_Volumes (sts_PodSpec s)"
proof (induction ms arbitrary: acc s)
  case (Cons m ms)
  obtain u s1 acc1 where u: "updateVolumeMountNameIfChanged (fst m) (snd m) s = Some (u, s1)"
    and r: "configure_mounts ms acc1 s1 = Some (acc', s')"
    using Cons.prems by (rule configure_mounts_ConsE)
  have "ps_Volumes (sts_PodSpec s1) = ps_Volumes (sts_PodSpec s)"
    using u by (auto simp: updateVolumeMountNameIfChanged_def Let_def split: list.splits)
  with Cons.IH [OF r] show ?case by simp
qed simp

lemma ConfigureStatefulSet_total:
  assumes "ps_Containers (sts_PodSpec s) \<noteq> []"
    and "\<forall>v \<in> set (ps_Volumes (sts_PodSpec s)). v_Name v = CustomConfigMapVolumeName \<longrightarrow> v_ConfigMap v \<noteq> None"
  shows "\<exists>r s'. ConfigureStatefulSet w s = Some (r, s')"
proof -
  have m: "\<exists>acc' s'. configure_mounts ms acc t = Some (acc', s') \<and> ps_Volumes (sts_PodSpec s') = ps_Volumes (sts_PodSpec t)"
    if "ps_Containers (sts_PodSpec t) \<noteq> []" for ms acc t
    using that
  proof (induction ms arbitrary: acc t)
    case (Cons m ms)
    obtain loc key ch det where m: "m = (loc, key)" "acc = (ch, det)" by (cases m; cases acc)
    obtain u t1 where u: "updateVolumeMountNameIfChanged loc key t = Some (u, t1)"
      using updateVolumeMount_total [OF Cons.prems] by blast
    have "ps_Volumes (sts_PodSpec t1) = ps_Volumes (sts_PodSpec t)"
      using u by (auto simp: updateVolumeMountNameIfChanged_def Let_def split: list.splits)
    with Cons.IH [OF updateVolumeMount_first_mounts(3) [OF u]] u show ?case by (simp add: m)
  qed simp
  obtain acc' s1 where s1: "configure_mounts (config_mounts (cfs_ConfigLocations (rs_Config (w_states w)))) (False, '''') s = Some (acc', s1)"
    "ps_Volumes (sts_PodSpec s1) = ps_Volumes (sts_PodSpec s)" using m [OF assms(1)] by blast
  have "configure_volume w acc' s1 \<noteq> None"
  proof (cases "getCustomConfigMapVolume (ps_Volumes (sts_PodSpec s))")
    case None
    then show ?thesis by (auto simp: configure_volume_def s1(2) Let_def)
  next
    case (Some v)
    then have "v_ConfigMap v \<noteq> None" using assms(2) by (auto simp: getCustomConfigMapVolume_def find_Some_iff)
    then show ?thesis using Some by (auto simp: configure_volume_def s1(2) Let_def)
  qed
  then obtain r where "configure_volume w acc' s1 = Some r" by blast
  then show ?thesis using s1 by (cases r) (simp add: ConfigureStatefulSet_def)
qed

section \<open>Nothing else changes\<close>

text \<open>A pod spec without its volumes and the names of its mounts: what the configuration never touches.\<close>

definition no_mounts :: "Container \<Rightarrow> Container" where
  "no_mounts c = c\<lparr>ctr_VolumeMounts := map (\<lambda>m. m\<lparr>vm_Name := ''''\<rparr>) (ctr_VolumeMounts c)\<rparr>"

definition bare :: "PodSpec \<Rightarrow> PodSpec" where
  "bare p = p\<lparr>ps_Volumes := [], ps_Containers := map no_mounts (ps_Containers p),
     ps_InitContainers := map no_mounts (ps_InitContainers p)\<rparr>"

definition only_config :: "StatefulSet \<Rightarrow> StatefulSet \<Rightarrow> bool" where
  "only_config s s' \<longleftrightarrow> s' = upd_PodSpec (\<lambda>_. sts_PodSpec s') s \<and> bare (sts_PodSpec s') = bare (sts_PodSpec s)"

lemma only_config_trans:
  assumes "only_config s t" "only_config t u"
  shows "only_config s u"
proof -
  have "u = upd_PodSpec (\<lambda>_. sts_PodSpec u) (upd_PodSpec (\<lambda>_. sts_PodSpec t) s)"
    using assms unfolding only_config_def by metis
  then have "u = upd_PodSpec (\<lambda>_. sts_PodSpec u) s" by (simp add: upd_PodSpec_def)
  with assms show ?thesis unfolding only_config_def by metis
qed

lemma only_config_upd: "bare (f (sts_PodSpec s)) = bare (sts_PodSpec s) \<Longrightarrow> only_config s (upd_PodSpec f s)"
  by (simp add: only_config_def upd_PodSpec_def)

lemma only_config_refl [simp]: "only_config s s"
  by (simp add: only_config_def upd_PodSpec_def)

lemma only_config_fields:
  assumes "only_config s s'"
  shows "sts_meta s' = sts_meta s" "sts_VolumeClaimTemplates s' = sts_VolumeClaimTemplates s"
    "sts_MatchLabels s' = sts_MatchLabels s" "sts_ServiceName s' = sts_ServiceName s"
    "sts_TemplateLabels s' = sts_TemplateLabels s" "bare (sts_PodSpec s') = bare (sts_PodSpec s)"
  using assms unfolding only_config_def by (metis upd_PodSpec_frame)+

lemma updateVolumeMount_only_config:
  assumes "updateVolumeMountNameIfChanged loc key s = Some (u, s')"
  shows "only_config s s'"
  using assms
  by (auto simp: updateVolumeMountNameIfChanged_def Let_def upd_mounts_def bare_def no_mounts_def rename_mounts_def
      intro!: only_config_upd only_config_trans [OF only_config_upd only_config_upd] split: list.splits)

lemma configure_mounts_only_config: "configure_mounts ms acc s = Some (acc', s') \<Longrightarrow> only_config s s'"
proof (induction ms arbitrary: acc s)
  case (Cons m ms)
  obtain u s1 acc1 where u: "updateVolumeMountNameIfChanged (fst m) (snd m) s = Some (u, s1)"
    and r: "configure_mounts ms acc1 s1 = Some (acc', s')"
    using Cons.prems by (rule configure_mounts_ConsE)
  from updateVolumeMount_only_config [OF u] Cons.IH [OF r] show ?case by (rule only_config_trans)
qed simp

lemma configure_volume_only_config: "configure_volume w acc s = Some (acc', s') \<Longrightarrow> only_config s s'"
  by (auto simp: configure_volume_def Let_def bare_def intro!: only_config_upd split: option.splits if_splits)

lemma ConfigureStatefulSet_only_config: "ConfigureStatefulSet w s = Some (r, s') \<Longrightarrow> only_config s s'"
  by (auto simp: ConfigureStatefulSet_def bind_eq_Some_conv
      intro: only_config_trans [OF configure_mounts_only_config configure_volume_only_config])

section \<open>Properties\<close>

text \<open>
  C31: configuring is idempotent. After \<open>ConfigureStatefulSet\<close> a second run reports
  no change and leaves the StatefulSet as it is, so the operator does not update it again.
\<close>

theorem ConfigureStatefulSet_idempotent:
  assumes "ConfigureStatefulSet w s = Some (r, s')"
  shows "ConfigureStatefulSet w s' = Some ((False, ''''), s')"
  using ConfigureStatefulSet_ok [OF assms] by (rule ConfigureStatefulSet_fixpoint)

theorem ConfigureStatefulSet_idempotent_witness:
  "\<exists>r s'. ConfigureStatefulSet sample_world (sample_StatefulSet 1 ''primary'' 1) = Some (r, s') \<and>
     ConfigureStatefulSet sample_world s' = Some ((False, ''''), s')"
proof -
  let ?s = "sample_StatefulSet 1 ''primary'' 1"
  have "ConfigureStatefulSet sample_world ?s = Some ((False, ''''), ?s)"
    by (rule ConfigureStatefulSet_fixpoint)
       (simp_all add: sample_PodSpec_def sample_container_def volume_ok_def zero_PodSpec_def mounts_ok_def
          getCustomConfigMapVolume_def sample_world_def zero_ResourcesStates_def)
  then show ?thesis using ConfigureStatefulSet_idempotent by blast
qed

end
