(* ===== verification/Resources_Creator.thy ===== *)
theory Resources_Creator
  imports Templates Custom_Config
begin

text \<open>
  \<open>src/controllers/spec/template/ResourcesCreatorFromTemplate.go\<close>: the objects the
  operator deploys. Every function returns \<open>None\<close> where the code panics (an index
  out of range, a write to a nil map, \<open>resource.MustParse\<close> on a malformed size).
\<close>

section \<open>Shared parts\<close>

definition KubegresInternalAnnotationKey :: string where
  "KubegresInternalAnnotationKey = ''kubectl.kubernetes.io/last-applied-configuration''"

definition getCustomAnnotations :: "Kubegres \<Rightarrow> str_map" where
  "getCustomAnnotations k =
     filter (\<lambda>(key, value). key \<noteq> KubegresInternalAnnotationKey) (md_Annotations (kg_meta k))"

text \<open>\<open>metav1.NewControllerRef\<close> of the Kubegres resource.\<close>

definition getOwnerReference :: "Kubegres \<Rightarrow> OwnerReference list" where
  "getOwnerReference k =
     [\<lparr>own_APIVersion = ''kubegres.reactive-tech.io/v1'', own_Kind = KindKubegres, own_Name = kg_Name k,
       own_UID = md_UID (kg_meta k), own_Controller = Some True, own_BlockOwnerDeletion = Some True\<rparr>]"

definition getEnvVar :: "Kubegres \<Rightarrow> string \<Rightarrow> EnvVar" where
  "getEnvVar k envName =
     (case find (\<lambda>e. env_Name e = envName) (spec_Env (kg_Spec k)) of
        Some e \<Rightarrow> e
      | None \<Rightarrow> \<lparr>env_Name = '''', env_Value = '''', env_ValueFrom = None\<rparr>)"

section \<open>Configuration map and services\<close>

definition CreateBaseConfigMap :: "Kubegres \<Rightarrow> ConfigMap" where
  "CreateBaseConfigMap k = LoadBaseConfigMap\<lparr>cm_Namespace := kg_Namespace k\<rparr>"

definition initService :: "Kubegres \<Rightarrow> Service \<Rightarrow> Service option" where
  "initService k service =
     do {
       labels \<leftarrow> map_set (md_Labels (svc_meta service)) ''app'' (kg_Name k);
       selector \<leftarrow> map_set (svc_Selector service) ''app'' (kg_Name k);
       ports \<leftarrow> upd_nth 0 (\<lambda>_. Some (spec_Port (kg_Spec k))) (svc_Ports service);
       Some (service\<lparr>svc_meta := (svc_meta service)\<lparr>md_Namespace := kg_Namespace k,
                        md_OwnerReferences := getOwnerReference k, md_Labels := labels\<rparr>,
                      svc_Selector := selector, svc_Ports := ports\<rparr>)
     }"

definition set_service_name :: "string \<Rightarrow> Service \<Rightarrow> Service" where
  "set_service_name n service = service\<lparr>svc_meta := (svc_meta service)\<lparr>md_Name := n\<rparr>\<rparr>"

definition CreatePrimaryService :: "Kubegres \<Rightarrow> Service option" where
  "CreatePrimaryService k =
     map_option (set_service_name (GetServiceResourceName k True)) (initService k LoadPrimaryService)"

definition CreateReplicaService :: "Kubegres \<Rightarrow> Service option" where
  "CreateReplicaService k =
     map_option (set_service_name (GetServiceResourceName k False)) (initService k LoadReplicaService)"

section \<open>StatefulSets\<close>

definition set_app_index :: "string \<Rightarrow> string \<Rightarrow> str_map \<Rightarrow> str_map option" where
  "set_app_index app index m = do { m1 \<leftarrow> map_set m ''app'' app; map_set m1 ''index'' index }"

text \<open>The first container, without the later appends and overrides.\<close>

definition init_container :: "KubegresSpec \<Rightarrow> string \<Rightarrow> Container \<Rightarrow> Container option" where
  "init_container spec name c =
     do {
       ports \<leftarrow> upd_nth 0 (\<lambda>_. Some (spec_Port spec)) (ctr_Ports c);
       mounts \<leftarrow> upd_nth 0 (\<lambda>m. Some (m\<lparr>vm_MountPath := db_VolumeMount (spec_Database spec)\<rparr>)) (ctr_VolumeMounts c);
       Some (c\<lparr>ctr_Name := name, ctr_Image := spec_Image spec, ctr_Ports := ports, ctr_VolumeMounts := mounts,
               ctr_Env := (ctr_Env c @ [\<lparr>env_Name = EnvVarNamePgData,
                   env_Value = db_VolumeMount (spec_Database spec) @ ''/'' @ DefaultDatabaseFolder,
                   env_ValueFrom = None\<rparr>]) @ spec_Env spec\<rparr>)
     }"

definition init_container_options :: "KubegresSpec \<Rightarrow> Container \<Rightarrow> Container" where
  "init_container_options spec c =
     c\<lparr>ctr_Resources := (if rr_Requests (spec_Resources spec) \<noteq> [] \<or> rr_Limits (spec_Resources spec) \<noteq> []
                         then spec_Resources spec else ctr_Resources c),
       ctr_VolumeMounts := ctr_VolumeMounts c @ vol_VolumeMounts (spec_Volume spec),
       ctr_LivenessProbe := (case probe_LivenessProbe (spec_Probe spec) of
                               Some p \<Rightarrow> Some p | None \<Rightarrow> ctr_LivenessProbe c),
       ctr_ReadinessProbe := (case probe_ReadinessProbe (spec_Probe spec) of
                               Some p \<Rightarrow> Some p | None \<Rightarrow> ctr_ReadinessProbe c)\<rparr>"

definition init_pod :: "KubegresSpec \<Rightarrow> string \<Rightarrow> PodSpec \<Rightarrow> PodSpec option" where
  "init_pod spec name p =
     do {
       containers \<leftarrow> upd_nth 0 (\<lambda>c. map_option (init_container_options spec) (init_container spec name c)) (ps_Containers p);
       Some (p\<lparr>ps_ImagePullSecrets := ps_ImagePullSecrets p @ spec_ImagePullSecrets spec,
         ps_Containers := containers,
         ps_Affinity := (case sched_Affinity (spec_Scheduler spec) of Some a \<Rightarrow> Some a | None \<Rightarrow> ps_Affinity p),
         ps_Tolerations := (if sched_Tolerations (spec_Scheduler spec) \<noteq> [] then sched_Tolerations (spec_Scheduler spec)
                            else ps_Tolerations p),
         ps_Volumes := ps_Volumes p @ vol_Volumes (spec_Volume spec),
         ps_InitContainers := (case ps_InitContainers p of
             [] \<Rightarrow> []
           | i # is \<Rightarrow> i\<lparr>ctr_VolumeMounts := ctr_VolumeMounts i @ vol_VolumeMounts (spec_Volume spec)\<rparr> # is),
         ps_SecurityContext := (case spec_SecurityContext spec of Some c \<Rightarrow> Some c | None \<Rightarrow> ps_SecurityContext p),
         ps_ServiceAccountName := (if spec_ServiceAccountName spec \<noteq> '''' then spec_ServiceAccountName spec
                                   else ps_ServiceAccountName p)\<rparr>)
     }"

definition claim_of_template :: "Kubegres \<Rightarrow> VolumeClaimTemplate \<Rightarrow> PersistentVolumeClaim" where
  "claim_of_template k t = \<lparr>pvc_Name = vct_Name t, pvc_Namespace = kg_Namespace k, pvc_Spec = vct_Spec t\<rparr>"

definition init_claims :: "server \<Rightarrow> Kubegres \<Rightarrow> PersistentVolumeClaim list \<Rightarrow> PersistentVolumeClaim list option" where
  "init_claims srv k claims =
     do {
       size \<leftarrow> srv_parse_quantity srv (db_Size (spec_Database (kg_Spec k)));
       claims1 \<leftarrow> upd_nth 0 (\<lambda>c. Some (c\<lparr>pvc_Spec := (pvc_Spec c)\<lparr>
           pvs_StorageClassName := db_StorageClassName (spec_Database (kg_Spec k)),
           pvs_Resources := (pvs_Resources (pvc_Spec c))\<lparr>rr_Requests := [(''storage'', size)]\<rparr>\<rparr>\<rparr>)) claims;
       Some (claims1 @ map (claim_of_template k) (vol_VolumeClaimTemplates (spec_Volume (kg_Spec k))))
     }"

definition initStatefulSet :: "server \<Rightarrow> Kubegres \<Rightarrow> string \<Rightarrow> StatefulSet \<Rightarrow> int \<Rightarrow> StatefulSet option" where
  "initStatefulSet srv k serviceName s i =
     do {
       labels \<leftarrow> set_app_index (kg_Name k) (Itoa i) (md_Labels (sts_meta s));
       matchLabels \<leftarrow> set_app_index (kg_Name k) (Itoa i) (sts_MatchLabels s);
       templateLabels \<leftarrow> set_app_index (kg_Name k) (Itoa i) (sts_TemplateLabels s);
       pod \<leftarrow> init_pod (kg_Spec k) (GetStatefulSetResourceName k i) (sts_PodSpec s);
       claims \<leftarrow> init_claims srv k (sts_VolumeClaimTemplates s);
       Some (s\<lparr>sts_meta := (sts_meta s)\<lparr>md_Name := GetStatefulSetResourceName k i,
                 md_Namespace := kg_Namespace k, md_Annotations := getCustomAnnotations k,
                 md_Labels := labels, md_OwnerReferences := getOwnerReference k\<rparr>,
               sts_ServiceName := serviceName, sts_MatchLabels := matchLabels,
               sts_Template := \<lparr>pt_Labels = templateLabels, pt_Annotations = getCustomAnnotations k, pt_Spec = pod\<rparr>,
               sts_VolumeClaimTemplates := claims\<rparr>)
     }"

definition CreatePrimaryStatefulSet :: "server \<Rightarrow> int \<Rightarrow> world \<Rightarrow> StatefulSet option" where
  "CreatePrimaryStatefulSet srv i w =
     do {
       s \<leftarrow> initStatefulSet srv (w_kubegres w) (GetServiceResourceName (w_kubegres w) True) LoadPrimaryStatefulSet i;
       (_, s1) \<leftarrow> ConfigureStatefulSet w s;
       Some s1
     }"

definition replica_init :: "Kubegres \<Rightarrow> string \<Rightarrow> Container \<Rightarrow> Container option" where
  "replica_init k primaryServiceName c =
     do {
       env1 \<leftarrow> upd_nth 0 (\<lambda>e. Some (e\<lparr>env_Value := primaryServiceName\<rparr>)) (ctr_Env c);
       env2 \<leftarrow> upd_nth 1 (\<lambda>e. Some (e\<lparr>env_ValueFrom :=
                  env_ValueFrom (getEnvVar k EnvVarNameOfPostgresReplicationUserPsw)\<rparr>)) env1;
       env3 \<leftarrow> upd_nth 2 (\<lambda>e. Some (e\<lparr>env_Value :=
                  db_VolumeMount (spec_Database (kg_Spec k)) @ ''/'' @ DefaultDatabaseFolder\<rparr>)) env2;
       mounts \<leftarrow> upd_nth 0 (\<lambda>m. Some (m\<lparr>vm_MountPath := db_VolumeMount (spec_Database (kg_Spec k))\<rparr>)) (ctr_VolumeMounts c);
       Some (c\<lparr>ctr_Image := spec_Image (kg_Spec k), ctr_Env := env3, ctr_VolumeMounts := mounts\<rparr>)
     }"

definition CreateReplicaStatefulSet :: "server \<Rightarrow> int \<Rightarrow> world \<Rightarrow> StatefulSet option" where
  "CreateReplicaStatefulSet srv i w =
     (let k = w_kubegres w;
          primaryServiceName = (if standby_Enabled (spec_Standby (kg_Spec k))
                                then standby_PrimaryEndpoint (spec_Standby (kg_Spec k))
                                else GetServiceResourceName k True)
      in do {
           s \<leftarrow> initStatefulSet srv k (GetServiceResourceName k False) LoadReplicaStatefulSet i;
           (_, s1) \<leftarrow> ConfigureStatefulSet w s;
           inits \<leftarrow> upd_nth 0 (replica_init k primaryServiceName) (ps_InitContainers (sts_PodSpec s1));
           Some (upd_PodSpec (\<lambda>p. p\<lparr>ps_InitContainers := inits\<rparr>) s1)
         })"

section \<open>Backup job\<close>

definition backup_source :: "Kubegres \<Rightarrow> string option" where
  "backup_source k =
     (if standby_Enabled (spec_Standby (kg_Spec k)) then Some (GetServiceResourceName k False)
      else case spec_Replicas (kg_Spec k) of
             None \<Rightarrow> None
           | Some n \<Rightarrow> Some (GetServiceResourceName k (n = 1)))"

definition backup_container :: "Kubegres \<Rightarrow> string \<Rightarrow> Container \<Rightarrow> Container option" where
  "backup_container k source c =
     (let backup = spec_Backup (kg_Spec k) in
      do {
        mounts \<leftarrow> upd_nth 0 (\<lambda>m. Some (m\<lparr>vm_MountPath := backup_VolumeMount backup\<rparr>)) (ctr_VolumeMounts c);
        env1 \<leftarrow> upd_nth 0 (\<lambda>e. Some (e\<lparr>env_ValueFrom :=
                   env_ValueFrom (getEnvVar k EnvVarNameOfPostgresSuperUserPsw)\<rparr>)) (ctr_Env c);
        env2 \<leftarrow> upd_nth 1 (\<lambda>e. Some (e\<lparr>env_Value := kg_Name k\<rparr>)) env1;
        env3 \<leftarrow> upd_nth 2 (\<lambda>e. Some (e\<lparr>env_Value := backup_VolumeMount backup\<rparr>)) env2;
        env4 \<leftarrow> upd_nth 3 (\<lambda>e. Some (e\<lparr>env_Value := source\<rparr>)) (env3 @ spec_Env (kg_Spec k));
        Some (c\<lparr>ctr_Image := spec_Image (kg_Spec k), ctr_VolumeMounts := mounts, ctr_Env := env4\<rparr>)
      })"

definition CreateBackUpCronJob :: "Kubegres \<Rightarrow> string \<Rightarrow> CronJob option" where
  "CreateBackUpCronJob k configMapNameForBackUp =
     (let cj = LoadBackUpCronJob; backup = spec_Backup (kg_Spec k) in
      do {
        source \<leftarrow> backup_source k;
        volumes1 \<leftarrow> upd_nth 0 (\<lambda>v. map_option (\<lambda>_. v\<lparr>v_PersistentVolumeClaim := Some (backup_PvcName backup)\<rparr>)
                      (v_PersistentVolumeClaim v)) (ps_Volumes (cj_PodSpec cj));
        volumes2 \<leftarrow> upd_nth 1 (\<lambda>v. map_option (\<lambda>cm. v\<lparr>v_ConfigMap := Some (cm\<lparr>cmv_Name := configMapNameForBackUp\<rparr>)\<rparr>)
                      (v_ConfigMap v)) volumes1;
        containers \<leftarrow> upd_nth 0 (backup_container k source) (ps_Containers (cj_PodSpec cj));
        Some (cj\<lparr>cj_meta := (cj_meta cj)\<lparr>md_Name := CronJobNamePrefix @ kg_Name k,
                   md_Namespace := kg_Namespace k, md_OwnerReferences := getOwnerReference k\<rparr>,
                 cj_Schedule := backup_Schedule backup,
                 cj_TemplateAnnotations := getCustomAnnotations k,
                 cj_PodSpec := (cj_PodSpec cj)\<lparr>ps_Volumes := volumes2, ps_Containers := containers\<rparr>\<rparr>)
      })"

section \<open>Configuration touches the pod spec only\<close>

definition same_but_pod :: "StatefulSet \<Rightarrow> StatefulSet \<Rightarrow> bool" where
  "same_but_pod s s' \<longleftrightarrow> (\<exists>p. s' = upd_PodSpec (\<lambda>_. p) s)"

lemma same_but_pod_refl [simp]: "same_but_pod s s"
  by (auto simp: same_but_pod_def upd_PodSpec_def intro!: exI [of _ "sts_PodSpec s"])

lemma same_but_pod_upd [simp]: "same_but_pod s (upd_PodSpec f s)"
  by (auto simp: same_but_pod_def upd_PodSpec_def)

lemma same_but_pod_trans: "same_but_pod s t \<Longrightarrow> same_but_pod t u \<Longrightarrow> same_but_pod s u"
  by (auto simp: same_but_pod_def upd_PodSpec_def)

lemma same_but_pod_simps:
  assumes "same_but_pod s s'"
  shows "sts_meta s' = sts_meta s" "sts_TemplateLabels s' = sts_TemplateLabels s"
    "sts_MatchLabels s' = sts_MatchLabels s" "sts_VolumeClaimTemplates s' = sts_VolumeClaimTemplates s"
    "sts_ServiceName s' = sts_ServiceName s" "sts_ReadyReplicas s' = sts_ReadyReplicas s"
    "pt_Annotations (sts_Template s') = pt_Annotations (sts_Template s)"
  using assms by (auto simp: same_but_pod_def)

lemma updateVolumeMount_frame:
  "updateVolumeMountNameIfChanged loc key s = Some (u, s') \<Longrightarrow> same_but_pod s s'"
  by (auto simp: updateVolumeMountNameIfChanged_def Let_def split: list.splits
      intro: same_but_pod_trans [OF same_but_pod_upd same_but_pod_upd])

lemma configure_mounts_frame: "configure_mounts ms acc s = Some (acc', s') \<Longrightarrow> same_but_pod s s'"
proof (induction ms arbitrary: acc s)
  case (Cons m ms)
  obtain u s1 acc1 where u: "updateVolumeMountNameIfChanged (fst m) (snd m) s = Some (u, s1)"
    and r: "configure_mounts ms acc1 s1 = Some (acc', s')"
    using Cons.prems by (rule configure_mounts_ConsE)
  show ?case using updateVolumeMount_frame [OF u] Cons.IH [OF r] by (rule same_but_pod_trans)
qed simp

lemma configure_volume_frame: "configure_volume w acc s = Some (acc', s') \<Longrightarrow> same_but_pod s s'"
  by (auto simp: configure_volume_def Let_def split: if_splits option.splits)

lemma ConfigureStatefulSet_frame: "ConfigureStatefulSet w s = Some (r, s') \<Longrightarrow> same_but_pod s s'"
  by (auto simp: ConfigureStatefulSet_def bind_eq_Some_conv
      dest: configure_mounts_frame configure_volume_frame intro: same_but_pod_trans)

text \<open>Configuration keeps the containers but for the names of their mounts.\<close>

definition init_shape :: "PodSpec \<Rightarrow> (EnvVar list \<times> nat) list" where
  "init_shape p = map (\<lambda>c. (ctr_Env c, length (ctr_VolumeMounts c))) (ps_InitContainers p)"

lemma length_rename_mounts [simp]: "length (rename_mounts loc key vms) = length vms"
  by (simp add: rename_mounts_def)

lemma configure_mounts_total:
  "ps_Containers (sts_PodSpec s) \<noteq> [] \<Longrightarrow> \<exists>acc' s'. configure_mounts ms acc s = Some (acc', s') \<and>
     ps_Volumes (sts_PodSpec s') = ps_Volumes (sts_PodSpec s) \<and>
     init_shape (sts_PodSpec s') = init_shape (sts_PodSpec s)"
proof (induction ms arbitrary: acc s)
  case (Cons m ms)
  obtain loc key changed details where m: "m = (loc, key)" "acc = (changed, details)" by (cases m; cases acc)
  obtain u s1 where u: "updateVolumeMountNameIfChanged loc key s = Some (u, s1)"
    using updateVolumeMount_total [OF Cons.prems] by blast
  then have "ps_Containers (sts_PodSpec s1) \<noteq> []" "ps_Volumes (sts_PodSpec s1) = ps_Volumes (sts_PodSpec s)"
    "init_shape (sts_PodSpec s1) = init_shape (sts_PodSpec s)"
    by (auto simp: updateVolumeMountNameIfChanged_def init_shape_def upd_mounts_def Let_def split: list.splits)
  with Cons.IH [of s1] u show ?case by (simp add: m)
qed simp

lemma ConfigureStatefulSet_with_volume_total:
  assumes "ps_Containers (sts_PodSpec s) \<noteq> []"
    and "getCustomConfigMapVolume (ps_Volumes (sts_PodSpec s)) = Some v" "v_ConfigMap v \<noteq> None"
  shows "\<exists>r s'. ConfigureStatefulSet w s = Some (r, s') \<and>
    init_shape (sts_PodSpec s') = init_shape (sts_PodSpec s)"
proof -
  obtain acc s1 where m: "configure_mounts (config_mounts (cfs_ConfigLocations (rs_Config (w_states w)))) (False, '''') s
      = Some (acc, s1)" "ps_Volumes (sts_PodSpec s1) = ps_Volumes (sts_PodSpec s)"
      "init_shape (sts_PodSpec s1) = init_shape (sts_PodSpec s)"
    using configure_mounts_total [OF assms(1)] by blast
  obtain cm where "v_ConfigMap v = Some cm" using assms(3) by blast
  then have "\<exists>r s'. configure_volume w acc s1 = Some (r, s')"
    using assms(2) by (auto simp: configure_volume_def m(2) Let_def)
  then show ?thesis using m by (auto simp: ConfigureStatefulSet_def init_shape_def configure_volume_ok(3))
qed

section \<open>What a created StatefulSet looks like\<close>

lemma map_set_Some: "m \<noteq> [] \<Longrightarrow> map_set m key v = Some (AList.update key v m)"
  by (simp add: map_set_def)

lemma alist_update_nonempty [simp]: "AList.update key v m \<noteq> []"
  by (cases m) auto

lemma set_app_index_Some:
  "m \<noteq> [] \<Longrightarrow> set_app_index app index m = Some (AList.update ''index'' index (AList.update ''app'' app m))"
  by (simp add: set_app_index_def map_set_Some)

lemma init_pod_Some:
  assumes "ps_Containers p = [c]" "ctr_Ports c = [pt]" "ctr_VolumeMounts c \<noteq> []"
  shows "\<exists>p' c'. init_pod spec name p = Some p' \<and> ps_Containers p' = [c'] \<and>
    ps_Volumes p' = ps_Volumes p @ vol_Volumes (spec_Volume spec) \<and>
    (\<forall>i. init_shape p = [i] \<longrightarrow> init_shape p' = [(fst i, snd i + length (vol_VolumeMounts (spec_Volume spec)))])"
  using assms
  by (cases "ctr_VolumeMounts c") (auto simp: init_pod_def init_container_def init_shape_def)

text \<open>What \<open>initStatefulSet\<close> needs of a template.\<close>

definition template_ok :: "StatefulSet \<Rightarrow> bool" where
  "template_ok s \<longleftrightarrow> md_Labels (sts_meta s) \<noteq> [] \<and> sts_MatchLabels s \<noteq> [] \<and> sts_TemplateLabels s \<noteq> [] \<and>
     (\<exists>c pt. ps_Containers (sts_PodSpec s) = [c] \<and> ctr_Ports c = [pt] \<and> ctr_VolumeMounts c \<noteq> []) \<and>
     sts_VolumeClaimTemplates s = [template_claim]"

lemma templates_ok: "template_ok LoadPrimaryStatefulSet" "template_ok LoadReplicaStatefulSet"
  by (simp_all add: template_ok_def template_defs)

lemma init_claims_None: "init_claims srv k [c] = None \<longleftrightarrow> srv_parse_quantity srv (db_Size (spec_Database (kg_Spec k))) = None"
  by (simp add: init_claims_def split: bind_splits)

lemma initStatefulSet_None:
  assumes "template_ok s"
  shows "initStatefulSet srv k sn s i = None \<longleftrightarrow> srv_parse_quantity srv (db_Size (spec_Database (kg_Spec k))) = None"
proof -
  obtain p' where "init_pod (kg_Spec k) (GetStatefulSetResourceName k i) (sts_PodSpec s) = Some p'"
    using assms init_pod_Some [of "sts_PodSpec s"] unfolding template_ok_def by metis
  then show ?thesis
    using assms init_claims_None [of srv k template_claim]
    by (cases "init_claims srv k [template_claim]")
       (auto simp: initStatefulSet_def template_ok_def set_app_index_Some)
qed

lemma initStatefulSet_facts:
  assumes "template_ok s" "initStatefulSet srv k sn s i = Some s1"
  shows "sts_Name s1 = GetStatefulSetResourceName k i" "md_Namespace (sts_meta s1) = kg_Namespace k"
    "md_OwnerReferences (sts_meta s1) = getOwnerReference k" "sts_ServiceName s1 = sn"
    "map_get (sts_TemplateLabels s1) ''index'' = Itoa i" "map_get (sts_TemplateLabels s1) ''app'' = kg_Name k"
    "map_get (sts_MatchLabels s1) ''index'' = Itoa i"
    "map_get (sts_TemplateLabels s1) ''replicationRole'' = map_get (sts_TemplateLabels s) ''replicationRole''"
    "init_pod (kg_Spec k) (GetStatefulSetResourceName k i) (sts_PodSpec s) = Some (sts_PodSpec s1)"
    "init_claims srv k (sts_VolumeClaimTemplates s) = Some (sts_VolumeClaimTemplates s1)"
  using assms by (auto simp: initStatefulSet_def bind_eq_Some_conv template_ok_def set_app_index_Some)

lemma find_append_Some: "find P xs = Some x \<Longrightarrow> find P (xs @ ys) = Some x"
  by (simp add: find_append)

lemma templates_custom_volume:
  "getCustomConfigMapVolume (ps_Volumes (sts_PodSpec LoadPrimaryStatefulSet) @ vs)
     = Some (template_config_volume ''custom-config'' ''toBeReplaced'')"
  "getCustomConfigMapVolume (ps_Volumes (sts_PodSpec LoadReplicaStatefulSet) @ vs)
     = Some (template_config_volume ''custom-config'' ''toBeReplaced'')"
  by (simp_all add: getCustomConfigMapVolume_def template_defs CustomConfigMapVolumeName_def)

lemma created_configurable:
  assumes "template_ok s" "initStatefulSet srv k sn s i = Some s1"
    and "\<And>vs. getCustomConfigMapVolume (ps_Volumes (sts_PodSpec s) @ vs)
           = Some (template_config_volume ''custom-config'' ''toBeReplaced'')"
  shows "\<exists>r s2. ConfigureStatefulSet w s1 = Some (r, s2) \<and> init_shape (sts_PodSpec s2) = init_shape (sts_PodSpec s1)"
    and "init_shape (sts_PodSpec s) = [(env, n)] \<Longrightarrow>
      init_shape (sts_PodSpec s1) = [(env, n + length (vol_VolumeMounts (spec_Volume (kg_Spec k))))]"
proof -
  obtain c pt where c: "ps_Containers (sts_PodSpec s) = [c]" "ctr_Ports c = [pt]" "ctr_VolumeMounts c \<noteq> []"
    using assms(1) by (auto simp: template_ok_def)
  have s1: "(\<exists>c'. ps_Containers (sts_PodSpec s1) = [c']) \<and>
      ps_Volumes (sts_PodSpec s1) = ps_Volumes (sts_PodSpec s) @ vol_Volumes (spec_Volume (kg_Spec k)) \<and>
      (\<forall>i. init_shape (sts_PodSpec s) = [i] \<longrightarrow>
        init_shape (sts_PodSpec s1) = [(fst i, snd i + length (vol_VolumeMounts (spec_Volume (kg_Spec k))))])"
    using init_pod_Some [OF c, of "kg_Spec k" "GetStatefulSetResourceName k i"]
    by (auto simp: initStatefulSet_facts(9) [OF assms(1,2)])
  then show "\<exists>r s2. ConfigureStatefulSet w s1 = Some (r, s2) \<and> init_shape (sts_PodSpec s2) = init_shape (sts_PodSpec s1)"
    using ConfigureStatefulSet_with_volume_total [of s1 "template_config_volume ''custom-config'' ''toBeReplaced''" w]
    by (auto simp: assms(3) template_config_volume_def)
  from s1 show "init_shape (sts_PodSpec s) = [(env, n)] \<Longrightarrow>
      init_shape (sts_PodSpec s1) = [(env, n + length (vol_VolumeMounts (spec_Volume (kg_Spec k))))]"
    by simp
qed

lemma replica_init_Some:
  assumes "init_shape p = [([e0, e1, e2], Suc n)]"
  shows "upd_nth 0 (replica_init k h) (ps_InitContainers p) \<noteq> None"
proof -
  obtain c where "ps_InitContainers p = [c]" "ctr_Env c = [e0, e1, e2]" "length (ctr_VolumeMounts c) = Suc n"
    using assms by (auto simp: init_shape_def)
  then show ?thesis
    by (cases "ctr_VolumeMounts c") (simp_all add: replica_init_def numeral_2_eq_2)
qed

lemma CreateStatefulSet_None:
  "(CreatePrimaryStatefulSet srv i w = None \<longleftrightarrow> srv_parse_quantity srv (db_Size (spec_Database (w_spec w))) = None)
   \<and> (CreateReplicaStatefulSet srv i w = None \<longleftrightarrow> srv_parse_quantity srv (db_Size (spec_Database (w_spec w))) = None)"
proof (intro conjI)
  let ?k = "w_kubegres w"
  show "CreatePrimaryStatefulSet srv i w = None \<longleftrightarrow> srv_parse_quantity srv (db_Size (spec_Database (w_spec w))) = None"
  proof (cases "initStatefulSet srv ?k (GetServiceResourceName ?k True) LoadPrimaryStatefulSet i")
    case None
    then have "srv_parse_quantity srv (db_Size (spec_Database (w_spec w))) = None"
      by (simp only: initStatefulSet_None [OF templates_ok(1)])
    moreover have "CreatePrimaryStatefulSet srv i w = None"
      by (simp add: CreatePrimaryStatefulSet_def None)
    ultimately show ?thesis by simp
  next
    case (Some s1)
    with created_configurable(1) [OF templates_ok(1) Some templates_custom_volume(1), of w] show ?thesis
      using initStatefulSet_None [OF templates_ok(1), of srv ?k "GetServiceResourceName ?k True" i]
      by (auto simp: CreatePrimaryStatefulSet_def)
  qed
  show "CreateReplicaStatefulSet srv i w = None \<longleftrightarrow> srv_parse_quantity srv (db_Size (spec_Database (w_spec w))) = None"
  proof (cases "initStatefulSet srv ?k (GetServiceResourceName ?k False) LoadReplicaStatefulSet i")
    case None
    then have "srv_parse_quantity srv (db_Size (spec_Database (w_spec w))) = None"
      by (simp only: initStatefulSet_None [OF templates_ok(2)])
    moreover have "CreateReplicaStatefulSet srv i w = None"
      by (simp add: CreateReplicaStatefulSet_def None)
    ultimately show ?thesis by simp
  next
    case (Some s1)
    obtain r s2 where c: "ConfigureStatefulSet w s1 = Some (r, s2)" "init_shape (sts_PodSpec s2) = init_shape (sts_PodSpec s1)"
      using created_configurable(1) [OF templates_ok(2) Some templates_custom_volume(2)] by blast
    have "init_shape (sts_PodSpec LoadReplicaStatefulSet) = [(ctr_Env replica_init_container, 2)]"
      by (simp add: init_shape_def template_defs)
    from created_configurable(2) [OF templates_ok(2) Some templates_custom_volume(2) this] c(2)
    have "upd_nth 0 (replica_init ?k h) (ps_InitContainers (sts_PodSpec s2)) \<noteq> None" for h
      by (intro replica_init_Some) (simp add: template_defs)
    with Some c(1) show ?thesis
      using initStatefulSet_None [OF templates_ok(2), of srv ?k "GetServiceResourceName ?k False" i]
      by (simp del: not_None_eq add: CreateReplicaStatefulSet_def Let_def Option.bind_eq_None_conv)
  qed
qed

lemma CreatePrimary_facts:
  assumes "CreatePrimaryStatefulSet srv i w = Some p"
  shows "isPrimary p" "sts_Name p = GetStatefulSetResourceName (w_kubegres w) i"
    "md_Namespace (sts_meta p) = kg_Namespace (w_kubegres w)"
    "md_OwnerReferences (sts_meta p) = getOwnerReference (w_kubegres w)"
    "map_get (sts_TemplateLabels p) ''index'' = Itoa i"
proof -
  obtain p1 x where p: "initStatefulSet srv (w_kubegres w) (GetServiceResourceName (w_kubegres w) True) LoadPrimaryStatefulSet i
      = Some p1" "ConfigureStatefulSet w p1 = Some (x, p)"
    using assms by (auto simp: CreatePrimaryStatefulSet_def bind_eq_Some_conv)
  have role: "map_get (sts_TemplateLabels LoadPrimaryStatefulSet) ''replicationRole'' = ''primary''"
    by (simp add: template_defs map_get_def)
  show "isPrimary p" "sts_Name p = GetStatefulSetResourceName (w_kubegres w) i"
    "md_Namespace (sts_meta p) = kg_Namespace (w_kubegres w)"
    "md_OwnerReferences (sts_meta p) = getOwnerReference (w_kubegres w)"
    "map_get (sts_TemplateLabels p) ''index'' = Itoa i"
    using initStatefulSet_facts [OF templates_ok(1) p(1)] role
    by (simp_all add: isPrimary_def same_but_pod_simps [OF ConfigureStatefulSet_frame [OF p(2)]] PrimaryRoleName_def)
qed

lemma CreateReplica_facts:
  assumes "CreateReplicaStatefulSet srv i w = Some r"
  shows "\<not> isPrimary r" "sts_Name r = GetStatefulSetResourceName (w_kubegres w) i"
    "md_Namespace (sts_meta r) = kg_Namespace (w_kubegres w)"
    "md_OwnerReferences (sts_meta r) = getOwnerReference (w_kubegres w)"
    "map_get (sts_TemplateLabels r) ''index'' = Itoa i"
proof -
  obtain r1 r2 y h where r: "initStatefulSet srv (w_kubegres w) (GetServiceResourceName (w_kubegres w) False) LoadReplicaStatefulSet i
      = Some r1" "ConfigureStatefulSet w r1 = Some (y, r2)" "r = upd_PodSpec h r2"
    using assms by (auto simp: CreateReplicaStatefulSet_def bind_eq_Some_conv Let_def)
  have role: "map_get (sts_TemplateLabels LoadReplicaStatefulSet) ''replicationRole'' = ''replica''"
    by (simp add: template_defs map_get_def)
  show "\<not> isPrimary r" "sts_Name r = GetStatefulSetResourceName (w_kubegres w) i"
    "md_Namespace (sts_meta r) = kg_Namespace (w_kubegres w)"
    "md_OwnerReferences (sts_meta r) = getOwnerReference (w_kubegres w)"
    "map_get (sts_TemplateLabels r) ''index'' = Itoa i"
    using initStatefulSet_facts [OF templates_ok(2) r(1)] role
    by (simp_all add: r(3) isPrimary_def same_but_pod_simps [OF ConfigureStatefulSet_frame [OF r(2)]] PrimaryRoleName_def)
qed

section \<open>Properties\<close>

text \<open>
  C36: building a StatefulSet panics exactly when the database size of the spec does not
  parse as a quantity. In particular the indices into the templates are all in range,
  whatever the rest of the spec and the configuration of the cluster are.
\<close>

theorem CreateStatefulSet_panics_iff:
  "(CreatePrimaryStatefulSet srv i w = None \<longleftrightarrow> srv_parse_quantity srv (db_Size (spec_Database (w_spec w))) = None)
   \<and> (CreateReplicaStatefulSet srv i w = None \<longleftrightarrow> srv_parse_quantity srv (db_Size (spec_Database (w_spec w))) = None)"
  by (rule CreateStatefulSet_None)

text \<open>
  C32: a StatefulSet created for instance \<open>i\<close> is recognised by the loader. Its name is
  the one of the instance, its labels carry the index \<open>i\<close> and the right role, it
  belongs to the namespace of the Kubegres resource and is owned by it.
\<close>

theorem created_StatefulSet_recognised:
  assumes "in_int32 i"
    and "CreatePrimaryStatefulSet srv i w = Some p" "CreateReplicaStatefulSet srv i w = Some r"
  shows "sw_InstanceIndex (wrap pods p) = i \<and> sw_InstanceIndex (wrap pods r) = i \<and> has_index p \<and> has_index r \<and>
    isPrimary p \<and> \<not> isPrimary r \<and>
    sts_Name p = GetStatefulSetResourceName (w_kubegres w) i \<and> sts_Name r = GetStatefulSetResourceName (w_kubegres w) i \<and>
    md_Namespace (sts_meta p) = kg_Namespace (w_kubegres w) \<and> md_OwnerReferences (sts_meta r) = getOwnerReference (w_kubegres w) \<and>
    md_OwnerReferences (sts_meta p) = getOwnerReference (w_kubegres w) \<and> md_Namespace (sts_meta r) = kg_Namespace (w_kubegres w)"
  using CreatePrimary_facts [OF assms(2)] CreateReplica_facts [OF assms(3)]
  by (simp add: wrap_def has_index_def ParseInt32_Itoa [OF assms(1)] Let_def)

theorem created_StatefulSet_recognised_witness:
  "\<exists>p r. CreatePrimaryStatefulSet sample_server 4 sample_world = Some p \<and>
     CreateReplicaStatefulSet sample_server 4 sample_world = Some r \<and>
     isPrimary p \<and> \<not> isPrimary r \<and> sw_InstanceIndex (wrap [] p) = 4 \<and> sw_InstanceIndex (wrap [] r) = 4"
proof -
  have "srv_parse_quantity sample_server (db_Size (spec_Database (w_spec sample_world))) \<noteq> None"
    by (simp add: sample_server_def)
  then obtain p r where "CreatePrimaryStatefulSet sample_server 4 sample_world = Some p"
    and "CreateReplicaStatefulSet sample_server 4 sample_world = Some r"
    using CreateStatefulSet_None [of sample_server 4 sample_world] by auto
  then show ?thesis
    using created_StatefulSet_recognised [of 4 sample_server sample_world p r "[]"] by (simp add: in_int32_def)
qed

end
