(* ===== verification/Blocking_Operation.thy ===== *)
theory Blocking_Operation
  imports Operator_State
begin

text \<open>
  \<open>src/controllers/operation\<close>: the lock that makes the operator do one long-running
  thing at a time. The active operation is persisted in the status of the Kubegres
  resource; every enforcer asks it before it acts. The clock (\<open>time.Now().Unix()\<close>) is
  the argument \<open>now\<close>.
\<close>

section \<open>Operation and step identifiers\<close>

definition TransitionOperationStepId :: string where
  "TransitionOperationStepId = ''Transition step: waiting either for the next step to start or for the operation to be removed ...''"

definition OperationIdBaseConfigCountSpecEnforcement :: string where
  "OperationIdBaseConfigCountSpecEnforcement = ''Base config count spec enforcement''"

definition OperationStepIdBaseConfigDeploying :: string where
  "OperationStepIdBaseConfigDeploying = ''Base config is deploying''"

definition OperationIdPrimaryDbCountSpecEnforcement :: string where
  "OperationIdPrimaryDbCountSpecEnforcement = ''Primary DB count spec enforcement''"

definition OperationStepIdPrimaryDbDeploying :: string where
  "OperationStepIdPrimaryDbDeploying = ''Primary DB is deploying''"

definition OperationStepIdPrimaryDbWaitingBeforeFailingOver :: string where
  "OperationStepIdPrimaryDbWaitingBeforeFailingOver = ''Waiting few seconds before failing over by promoting a Replica DB as a Primary DB''"

definition OperationStepIdPrimaryDbFailingOver :: string where
  "OperationStepIdPrimaryDbFailingOver = ''Failing over by promoting a Replica DB as a Primary DB''"

definition OperationIdReplicaDbCountSpecEnforcement :: string where
  "OperationIdReplicaDbCountSpecEnforcement = ''Replica DB count spec enforcement''"

definition OperationStepIdReplicaDbDeploying :: string where
  "OperationStepIdReplicaDbDeploying = ''Replica DB is deploying''"

definition OperationStepIdReplicaDbUndeploying :: string where
  "OperationStepIdReplicaDbUndeploying = ''Replica DB is undeploying''"

definition OperationIdStatefulSetSpecEnforcing :: string where
  "OperationIdStatefulSetSpecEnforcing = ''Enforcing StatefulSet's Spec''"

definition OperationStepIdStatefulSetSpecUpdating :: string where
  "OperationStepIdStatefulSetSpecUpdating = ''StatefulSet's spec is updating''"

definition OperationStepIdStatefulSetPodSpecUpdating :: string where
  "OperationStepIdStatefulSetPodSpecUpdating = ''StatefulSet Pod's spec is updating''"

definition OperationStepIdStatefulSetWaitingOnStuckPod :: string where
  "OperationStepIdStatefulSetWaitingOnStuckPod = ''Attempting to fix a stuck Pod by recreating it''"

lemmas operation_id_defs = OperationIdBaseConfigCountSpecEnforcement_def
  OperationIdPrimaryDbCountSpecEnforcement_def OperationIdReplicaDbCountSpecEnforcement_def
  OperationIdStatefulSetSpecEnforcing_def

lemmas step_id_defs = TransitionOperationStepId_def OperationStepIdBaseConfigDeploying_def
  OperationStepIdPrimaryDbDeploying_def OperationStepIdPrimaryDbWaitingBeforeFailingOver_def
  OperationStepIdPrimaryDbFailingOver_def OperationStepIdReplicaDbDeploying_def
  OperationStepIdReplicaDbUndeploying_def OperationStepIdStatefulSetSpecUpdating_def
  OperationStepIdStatefulSetPodSpecUpdating_def OperationStepIdStatefulSetWaitingOnStuckPod_def

lemma operation_ids_distinct:
  "distinct ['''', OperationIdBaseConfigCountSpecEnforcement, OperationIdPrimaryDbCountSpecEnforcement,
     OperationIdReplicaDbCountSpecEnforcement, OperationIdStatefulSetSpecEnforcing]"
  by (simp add: operation_id_defs)

lemmas operation_id_neqs [simp] =
  operation_ids_distinct [simplified distinct.simps list.set insert_iff empty_iff, simplified]

lemma operation_ids_distinct_rev:
  "distinct [OperationIdStatefulSetSpecEnforcing, OperationIdReplicaDbCountSpecEnforcement,
     OperationIdPrimaryDbCountSpecEnforcement, OperationIdBaseConfigCountSpecEnforcement, '''']"
  by (simp add: operation_id_defs)

lemmas operation_id_neqs_rev [simp] =
  operation_ids_distinct_rev [simplified distinct.simps list.set insert_iff empty_iff, simplified]

lemma step_ids_distinct:
  "distinct ['''', TransitionOperationStepId, OperationStepIdBaseConfigDeploying,
     OperationStepIdPrimaryDbDeploying, OperationStepIdPrimaryDbWaitingBeforeFailingOver,
     OperationStepIdPrimaryDbFailingOver, OperationStepIdReplicaDbDeploying,
     OperationStepIdReplicaDbUndeploying, OperationStepIdStatefulSetSpecUpdating,
     OperationStepIdStatefulSetPodSpecUpdating, OperationStepIdStatefulSetWaitingOnStuckPod]"
  by (simp add: step_id_defs)

lemmas step_id_neqs [simp] =
  step_ids_distinct [simplified distinct.simps list.set insert_iff empty_iff, simplified]

lemma step_ids_distinct_rev:
  "distinct [OperationStepIdStatefulSetWaitingOnStuckPod, OperationStepIdStatefulSetPodSpecUpdating,
     OperationStepIdStatefulSetSpecUpdating, OperationStepIdReplicaDbUndeploying,
     OperationStepIdReplicaDbDeploying, OperationStepIdPrimaryDbFailingOver,
     OperationStepIdPrimaryDbWaitingBeforeFailingOver, OperationStepIdPrimaryDbDeploying,
     OperationStepIdBaseConfigDeploying, TransitionOperationStepId, '''']"
  by (simp add: step_id_defs)

lemmas step_id_neqs_rev [simp] =
  step_ids_distinct_rev [simplified distinct.simps list.set insert_iff empty_iff, simplified]

section \<open>Errors\<close>

definition errorTypeThereIsAlreadyAnActiveOperation :: string where
  "errorTypeThereIsAlreadyAnActiveOperation = ''There is already an active operation which is running. We cannot have more than 1 active operation running.''"

definition errorTypeOperationIdHasNoAssociatedConfig :: string where
  "errorTypeOperationIdHasNoAssociatedConfig = ''The given operationId has not an associated config. Please associate it by calling the method BlockingOperation.AddConfig().''"

definition CreateBlockingOperationError :: "string \<Rightarrow> string \<Rightarrow> go_error" where
  "CreateBlockingOperationError errorType operationId =
     OperationError (errorType = errorTypeThereIsAlreadyAnActiveOperation)
       (errorType = errorTypeOperationIdHasNoAssociatedConfig)
       (''OperationId: '' @ [CHR 0x27] @ operationId @ [CHR 0x27] @ '' - '' @ errorType)"

section \<open>Configurations\<close>

definition zero_Config :: BlockingOperationConfig where
  "zero_Config = \<lparr>cfg_OperationId = '''', cfg_StepId = '''', cfg_TimeOutInSeconds = 0,
     cfg_CompletionChecker = None, cfg_AfterCompletionMoveToTransitionStep = False\<rparr>"

definition generateConfigId :: "string \<Rightarrow> string \<Rightarrow> string" where
  "generateConfigId operationId stepId = operationId @ ''_'' @ stepId"

definition CreateBlockingOperation :: "Kubegres \<Rightarrow> world" where
  "CreateBlockingOperation k = \<lparr>w_kubegres = k, w_states = zero_ResourcesStates, w_statusFieldsToUpdate = None, w_configs = [],
     w_activeOperation = zero_Operation, w_previouslyActiveOperation = zero_Operation,
     w_calls = [], w_events = []\<rparr>"

definition AddConfig :: "BlockingOperationConfig \<Rightarrow> world \<Rightarrow> world" where
  "AddConfig config w =
     w\<lparr>w_configs := AList.update (generateConfigId (cfg_OperationId config) (cfg_StepId config))
         config (w_configs w)\<rparr>"

definition getConfig :: "KubegresBlockingOperation \<Rightarrow> world \<Rightarrow> BlockingOperationConfig" where
  "getConfig operation w =
     (case map_of (w_configs w) (generateConfigId (op_OperationId operation) (op_StepId operation)) of
        None \<Rightarrow> zero_Config
      | Some c \<Rightarrow> c)"

definition doesOperationHaveAssociatedConfig :: "KubegresBlockingOperation \<Rightarrow> world \<Rightarrow> bool" where
  "doesOperationHaveAssociatedConfig operation w \<longleftrightarrow>
     cfg_OperationId (getConfig operation w) = op_OperationId operation"

section \<open>Queries\<close>

definition GetActiveOperation :: "world \<Rightarrow> KubegresBlockingOperation" where
  [simp]: "GetActiveOperation w = w_activeOperation w"

definition GetPreviouslyActiveOperation :: "world \<Rightarrow> KubegresBlockingOperation" where
  [simp]: "GetPreviouslyActiveOperation w = w_previouslyActiveOperation w"

definition isThereActiveOperation :: "world \<Rightarrow> bool" where
  [op_defs]: "isThereActiveOperation w \<longleftrightarrow> op_OperationId (w_activeOperation w) \<noteq> ''''"

definition IsActiveOperationIdDifferentOf :: "string \<Rightarrow> world \<Rightarrow> bool" where
  [op_defs]: "IsActiveOperationIdDifferentOf operationId w \<longleftrightarrow>
     isThereActiveOperation w \<and> op_OperationId (w_activeOperation w) \<noteq> operationId"

definition IsActiveOperationInTransition :: "string \<Rightarrow> world \<Rightarrow> bool" where
  [op_defs]: "IsActiveOperationInTransition operationId w \<longleftrightarrow>
     op_OperationId (w_activeOperation w) = operationId \<and>
     op_StepId (w_activeOperation w) = TransitionOperationStepId"

definition HasActiveOperationIdTimedOut :: "string \<Rightarrow> world \<Rightarrow> bool" where
  [op_defs]: "HasActiveOperationIdTimedOut operationId w \<longleftrightarrow>
     op_OperationId (w_activeOperation w) = operationId \<and> op_HasTimedOut (w_activeOperation w)"

definition isOperationInTransition :: "world \<Rightarrow> bool" where
  "isOperationInTransition w \<longleftrightarrow> op_StepId (w_activeOperation w) = TransitionOperationStepId"

definition hasCompletionChecker :: "world \<Rightarrow> bool" where
  "hasCompletionChecker w \<longleftrightarrow> cfg_CompletionChecker (getConfig (w_activeOperation w) w) \<noteq> None"

definition shouldOperationBeInTransition :: "world \<Rightarrow> bool" where
  "shouldOperationBeInTransition w \<longleftrightarrow>
     cfg_AfterCompletionMoveToTransitionStep (getConfig (w_activeOperation w) w)"

definition hasOperationTimedOut :: "int \<Rightarrow> world \<Rightarrow> bool" where
  "hasOperationTimedOut now w \<longleftrightarrow> int64 (op_TimeOutEpocInSeconds (w_activeOperation w) - now) \<le> 0"

definition GetNbreSecondsLeftBeforeTimeOut :: "int \<Rightarrow> world \<Rightarrow> int" where
  "GetNbreSecondsLeftBeforeTimeOut now w =
     (if op_TimeOutEpocInSeconds (w_activeOperation w) = 0 then 0
      else
        let nbreSecondsLeftBeforeTimeOut = int64 (op_TimeOutEpocInSeconds (w_activeOperation w) - now)
        in if nbreSecondsLeftBeforeTimeOut < 0 then 0 else nbreSecondsLeftBeforeTimeOut)"

definition GetNbreSecondsSinceOperationHasStarted :: "int \<Rightarrow> world \<Rightarrow> int" where
  "GetNbreSecondsSinceOperationHasStarted now w =
     int64 (cfg_TimeOutInSeconds (getConfig (w_activeOperation w) w)
            - GetNbreSecondsLeftBeforeTimeOut now w)"

definition GetNbreSecondsSinceTimedOut :: "int \<Rightarrow> world \<Rightarrow> int" where
  "GetNbreSecondsSinceTimedOut now w = int64 (now - op_TimeOutEpocInSeconds (w_activeOperation w))"

definition calculateTimeOutInEpochSeconds :: "int \<Rightarrow> int \<Rightarrow> int" where
  "calculateTimeOutInEpochSeconds now timeOutInSeconds = int64 (now + timeOutInSeconds)"

section \<open>Activation\<close>

definition createOperationObj :: "string \<Rightarrow> string \<Rightarrow> KubegresBlockingOperation" where
  "createOperationObj operationId stepId =
     zero_Operation\<lparr>op_OperationId := operationId, op_StepId := stepId\<rparr>"

definition createStatefulSetOperationObj :: "world \<Rightarrow> int \<Rightarrow> KubegresStatefulSetOperation" where
  "createStatefulSetOperationObj w statefulSetInstanceIndex =
     \<lparr>sop_InstanceIndex = statefulSetInstanceIndex,
      sop_Name = GetStatefulSetResourceName (w_kubegres w) statefulSetInstanceIndex\<rparr>"

definition createStatefulSetSpecUpdateOperationObj :: "string \<Rightarrow> KubegresStatefulSetSpecUpdateOperation" where
  [simp]: "createStatefulSetSpecUpdateOperationObj specDifferences = \<lparr>suop_SpecDifferences = specDifferences\<rparr>"

definition activateOperation :: "int \<Rightarrow> KubegresBlockingOperation \<Rightarrow> world \<Rightarrow> outcome \<times> world" where
  "activateOperation now operation w =
     (if isThereActiveOperation w \<and> op_OperationId (w_activeOperation w) \<noteq> op_OperationId operation then
        (Err (CreateBlockingOperationError errorTypeThereIsAlreadyAnActiveOperation (op_OperationId operation)), w)
      else if \<not> doesOperationHaveAssociatedConfig operation w then
        (Err (CreateBlockingOperationError errorTypeOperationIdHasNoAssociatedConfig (op_OperationId operation)), w)
      else
        let config = getConfig operation w;
            operation' = operation\<lparr>op_TimeOutEpocInSeconds :=
              calculateTimeOutInEpochSeconds now (cfg_TimeOutInSeconds config)\<rparr>
        in (Ok, SetBlockingOperation operation' (w\<lparr>w_activeOperation := operation'\<rparr>)))"

definition ActivateOperation :: "int \<Rightarrow> string \<Rightarrow> string \<Rightarrow> world \<Rightarrow> outcome \<times> world" where
  "ActivateOperation now operationId stepId w =
     activateOperation now (createOperationObj operationId stepId) w"

definition ActivateOperationOnStatefulSet :: "int \<Rightarrow> string \<Rightarrow> string \<Rightarrow> int \<Rightarrow> world \<Rightarrow> outcome \<times> world" where
  "ActivateOperationOnStatefulSet now operationId stepId statefulSetInstanceIndex w =
     activateOperation now
       ((createOperationObj operationId stepId)
          \<lparr>op_StatefulSetOperation := createStatefulSetOperationObj w statefulSetInstanceIndex\<rparr>) w"

definition ActivateOperationOnStatefulSetSpecUpdate ::
  "int \<Rightarrow> string \<Rightarrow> string \<Rightarrow> int \<Rightarrow> string \<Rightarrow> world \<Rightarrow> outcome \<times> world" where
  "ActivateOperationOnStatefulSetSpecUpdate now operationId stepId statefulSetInstanceIndex specDifferences w =
     activateOperation now
       ((createOperationObj operationId stepId)
          \<lparr>op_StatefulSetOperation := createStatefulSetOperationObj w statefulSetInstanceIndex,
           op_StatefulSetSpecUpdateOperation := createStatefulSetSpecUpdateOperationObj specDifferences\<rparr>) w"

section \<open>Removal, transition, loading\<close>

definition removeActiveOperation :: "bool \<Rightarrow> world \<Rightarrow> world" where
  "removeActiveOperation hasTimedOut w =
     (let w1 = (if \<not> isOperationInTransition w then
                  let prev = (w_activeOperation w)\<lparr>op_HasTimedOut := hasTimedOut\<rparr>
                  in SetPreviousBlockingOperation prev (w\<lparr>w_previouslyActiveOperation := prev\<rparr>)
                else w)
      in SetBlockingOperation zero_Operation (w1\<lparr>w_activeOperation := zero_Operation\<rparr>))"

definition RemoveActiveOperation :: "world \<Rightarrow> world" where
  "RemoveActiveOperation w = removeActiveOperation False w"

definition setActiveOperationInTransition :: "bool \<Rightarrow> world \<Rightarrow> world" where
  "setActiveOperationInTransition hasTimedOut w =
     (let prev = (w_activeOperation w)\<lparr>op_HasTimedOut := hasTimedOut\<rparr>;
          w1 = SetPreviousBlockingOperation prev (w\<lparr>w_previouslyActiveOperation := prev\<rparr>);
          active = (w_activeOperation w1)\<lparr>op_StepId := TransitionOperationStepId,
                     op_HasTimedOut := False, op_TimeOutEpocInSeconds := 0\<rparr>
      in SetBlockingOperation active (w1\<lparr>w_activeOperation := active\<rparr>))"

definition isOperationCompletionConditionReached :: "int \<Rightarrow> world \<Rightarrow> bool \<times> world" where
  "isOperationCompletionConditionReached now w =
     (case cfg_CompletionChecker (getConfig (w_activeOperation w) w) of
        None \<Rightarrow> (False, w)
      | Some checker \<Rightarrow>
          let (completed, es) = checker (GetNbreSecondsSinceOperationHasStarted now w) (w_activeOperation w)
          in (completed, record_events es w))"

text \<open>
  \<open>t1\<close> is the clock when \<open>hasOperationTimedOut\<close> reads it, \<open>t2\<close> when the
  completion checker does.
\<close>

definition removeOperationIfNotActive :: "int \<Rightarrow> int \<Rightarrow> world \<Rightarrow> world" where
  "removeOperationIfNotActive t1 t2 w =
     (if \<not> isThereActiveOperation w \<or> isOperationInTransition w then w
      else if hasOperationTimedOut t1 w then
        let w1 = w\<lparr>w_activeOperation := (w_activeOperation w)\<lparr>op_HasTimedOut := True\<rparr>\<rparr> in
        if \<not> hasCompletionChecker w1 then
          (if shouldOperationBeInTransition w1 then setActiveOperationInTransition True w1
           else removeActiveOperation True w1)
        else InfoEvent ''BlockingOperationTimedOut'' w1
      else
        let (completed, w1) = isOperationCompletionConditionReached t2 w in
        if completed then
          let w2 = InfoEvent ''BlockingOperationCompleted'' w1 in
          (if shouldOperationBeInTransition w2 then setActiveOperationInTransition False w2
           else removeActiveOperation False w2)
        else w1)"

definition loadOperations :: "world \<Rightarrow> world" where
  "loadOperations w = w\<lparr>w_activeOperation := GetBlockingOperation w,
     w_previouslyActiveOperation := GetPreviousBlockingOperation w\<rparr>"

text \<open>\<open>t3\<close> is the clock when the remaining time is computed.\<close>

definition LoadActiveOperation :: "int \<Rightarrow> int \<Rightarrow> int \<Rightarrow> world \<Rightarrow> int \<times> world" where
  "LoadActiveOperation t1 t2 t3 w =
     (let w1 = removeOperationIfNotActive t1 t2 (loadOperations w);
          nbreSecondsLeftBeforeTimeOut = GetNbreSecondsLeftBeforeTimeOut t3 w1
      in (if nbreSecondsLeftBeforeTimeOut > 20 then 20 else nbreSecondsLeftBeforeTimeOut, w1))"

section \<open>The active operation after each step\<close>

lemma activateOperation_Ok_iff:
  "fst (activateOperation now ope w) = Ok \<longleftrightarrow>
     (op_OperationId (w_activeOperation w) = '''' \<or>
      op_OperationId (w_activeOperation w) = op_OperationId ope) \<and>
     doesOperationHaveAssociatedConfig ope w"
  by (simp add: activateOperation_def isThereActiveOperation_def Let_def)

lemma activateOperation_no_panic [simp]: "fst (activateOperation now ope w) \<noteq> Panic"
  by (simp add: activateOperation_def Let_def)

lemma activateOperation_fail: "activateOperation now ope w = (r, w') \<Longrightarrow> r \<noteq> Ok \<Longrightarrow> w' = w"
  by (auto simp: activateOperation_def Let_def split: if_splits)

lemma activateOperation_success:
  assumes "activateOperation now ope w = (Ok, w')"
  shows "w_activeOperation w' = ope\<lparr>op_TimeOutEpocInSeconds :=
           int64 (now + cfg_TimeOutInSeconds (getConfig ope w))\<rparr>"
    and "status_BlockingOperation (w_status w') = w_activeOperation w'"
  using assms
  by (auto simp: activateOperation_def calculateTimeOutInEpochSeconds_def Let_def split: if_splits)

lemma activateOperation_frame [frame]:
  assumes "activateOperation now ope w = (r, w')"
  shows "w_states w' = w_states w" "w_calls w' = w_calls w" "w_events w' = w_events w" "w_configs w' = w_configs w"
    "w_spec w' = w_spec w" "kg_meta (w_kubegres w') = kg_meta (w_kubegres w)"
    "w_previouslyActiveOperation w' = w_previouslyActiveOperation w"
    "status_PreviousBlockingOperation (w_status w') = status_PreviousBlockingOperation (w_status w)"
    "status_EnforcedReplicas (w_status w') = status_EnforcedReplicas (w_status w)"
    "status_LastCreatedInstanceIndex (w_status w') = status_LastCreatedInstanceIndex (w_status w)"
  using assms by (auto simp: activateOperation_def Let_def split: if_splits)

lemma removeActiveOperation_active [simp]:
  "w_activeOperation (removeActiveOperation b w) = zero_Operation"
  "status_BlockingOperation (w_status (removeActiveOperation b w)) = zero_Operation"
  by (simp_all add: removeActiveOperation_def Let_def)

lemma removeActiveOperation_frame [simp, frame]:
  "w_states (removeActiveOperation b w) = w_states w"
  "w_calls (removeActiveOperation b w) = w_calls w" "w_events (removeActiveOperation b w) = w_events w"
  "w_configs (removeActiveOperation b w) = w_configs w" "w_spec (removeActiveOperation b w) = w_spec w"
  "kg_meta (w_kubegres (removeActiveOperation b w)) = kg_meta (w_kubegres w)"
  "status_EnforcedReplicas (w_status (removeActiveOperation b w)) = status_EnforcedReplicas (w_status w)"
  "status_LastCreatedInstanceIndex (w_status (removeActiveOperation b w)) =
     status_LastCreatedInstanceIndex (w_status w)"
  by (simp_all add: removeActiveOperation_def Let_def)

lemma removeActiveOperation_previous:
  "w_previouslyActiveOperation (removeActiveOperation b w) =
     (if isOperationInTransition w then w_previouslyActiveOperation w
      else (w_activeOperation w)\<lparr>op_HasTimedOut := b\<rparr>)"
  "status_PreviousBlockingOperation (w_status (removeActiveOperation b w)) =
     (if isOperationInTransition w then status_PreviousBlockingOperation (w_status w)
      else (w_activeOperation w)\<lparr>op_HasTimedOut := b\<rparr>)"
  by (simp_all add: removeActiveOperation_def Let_def)

lemma RemoveActiveOperation_simps [simp]:
  "w_activeOperation (RemoveActiveOperation w) = zero_Operation"
  "status_BlockingOperation (w_status (RemoveActiveOperation w)) = zero_Operation"
  "w_states (RemoveActiveOperation w) = w_states w"
  "w_calls (RemoveActiveOperation w) = w_calls w" "w_events (RemoveActiveOperation w) = w_events w"
  "w_configs (RemoveActiveOperation w) = w_configs w" "w_spec (RemoveActiveOperation w) = w_spec w"
  "kg_meta (w_kubegres (RemoveActiveOperation w)) = kg_meta (w_kubegres w)"
  "status_EnforcedReplicas (w_status (RemoveActiveOperation w)) = status_EnforcedReplicas (w_status w)"
  "status_LastCreatedInstanceIndex (w_status (RemoveActiveOperation w)) =
     status_LastCreatedInstanceIndex (w_status w)"
  by (simp_all add: RemoveActiveOperation_def)

lemma setActiveOperationInTransition_active [simp]:
  "w_activeOperation (setActiveOperationInTransition b w) =
     (w_activeOperation w)\<lparr>op_StepId := TransitionOperationStepId, op_HasTimedOut := False,
        op_TimeOutEpocInSeconds := 0\<rparr>"
  "w_previouslyActiveOperation (setActiveOperationInTransition b w) =
     (w_activeOperation w)\<lparr>op_HasTimedOut := b\<rparr>"
  "status_BlockingOperation (w_status (setActiveOperationInTransition b w)) =
     (w_activeOperation w)\<lparr>op_StepId := TransitionOperationStepId, op_HasTimedOut := False,
        op_TimeOutEpocInSeconds := 0\<rparr>"
  "status_PreviousBlockingOperation (w_status (setActiveOperationInTransition b w)) =
     (w_activeOperation w)\<lparr>op_HasTimedOut := b\<rparr>"
  by (simp_all add: setActiveOperationInTransition_def Let_def)

lemma setActiveOperationInTransition_frame [simp, frame]:
  "w_states (setActiveOperationInTransition b w) = w_states w"
  "w_calls (setActiveOperationInTransition b w) = w_calls w"
  "w_configs (setActiveOperationInTransition b w) = w_configs w"
  "w_spec (setActiveOperationInTransition b w) = w_spec w"
  "w_events (setActiveOperationInTransition b w) = w_events w"
  by (simp_all add: setActiveOperationInTransition_def Let_def)

section \<open>The lock as an interface\<close>

text \<open>
  What the enforcers rely on: an identifier of the current holder (empty when idle), an
  acquisition that succeeds exactly when nobody else holds the lock and the request is
  registered, that changes nothing when it fails, and a release that always ends idle.
\<close>

locale operation_lock =
  fixes holder :: "'s \<Rightarrow> string"
    and acquire :: "'p \<Rightarrow> 's \<Rightarrow> outcome \<times> 's"
    and request_id :: "'p \<Rightarrow> string"
    and registered :: "'p \<Rightarrow> 's \<Rightarrow> bool"
    and release :: "'s \<Rightarrow> 's"
  assumes acquire_iff: "fst (acquire p s) = Ok \<longleftrightarrow>
      (holder s = '''' \<or> holder s = request_id p) \<and> registered p s"
    and acquire_total: "fst (acquire p s) \<noteq> Panic"
    and acquire_holds: "acquire p s = (Ok, t) \<Longrightarrow> holder t = request_id p"
    and acquire_fails: "acquire p s = (r, t) \<Longrightarrow> r \<noteq> Ok \<Longrightarrow> t = s"
    and release_idle: "holder (release s) = ''''"
begin

text \<open>Nobody takes the lock from another holder.\<close>

lemma no_takeover:
  assumes "holder s \<noteq> ''''" "holder s \<noteq> request_id p" "acquire p s = (r, t)"
  shows "r \<noteq> Ok \<and> t = s"
  using assms acquire_iff [of p s] acquire_fails [of p s r t] by auto

text \<open>
  The enforcers' protocol: acquire, then send a request; when it fails, release. If the
  request itself does not touch the lock, the outcome tells who holds it afterwards.
\<close>

definition guarded :: "'p \<Rightarrow> ('s \<Rightarrow> outcome \<times> 's) \<Rightarrow> 's \<Rightarrow> outcome \<times> 's" where
  "guarded p req s =
     (case acquire p s of
        (Ok, t) \<Rightarrow> (case req t of (Ok, u) \<Rightarrow> (Ok, u) | (r, u) \<Rightarrow> (r, release u))
      | (r, t) \<Rightarrow> (r, t))"

lemma guarded_outcome:
  assumes "\<And>t r u. req t = (r, u) \<Longrightarrow> holder u = holder t" "guarded p req s = (r, u)"
  shows "r = Ok \<and> holder u = request_id p \<or> r \<noteq> Ok \<and> (u = s \<or> holder u = '''')"
  using assms(2)
  by (auto simp: guarded_def release_idle acquire_holds dest: acquire_fails assms(1)
      split: prod.splits outcome.splits)

end

definition activeId :: "world \<Rightarrow> string" where
  "activeId w = op_OperationId (w_activeOperation w)"

interpretation blocking: operation_lock activeId "activateOperation now" op_OperationId
  doesOperationHaveAssociatedConfig RemoveActiveOperation
  for now
proof (unfold_locales, goal_cases)
  case (1 p s)
  show ?case by (simp add: activateOperation_Ok_iff activeId_def)
next
  case (3 p s t)
  then show ?case by (simp add: activateOperation_success(1) activeId_def)
next
  case (4 p s r t)
  then show ?case by (rule activateOperation_fail)
qed (simp_all add: activeId_def)

end
