(* ===== verification/Operation_Machine.thy ===== *)
theory Operation_Machine
  imports Blocking_Operation Sample_Cluster
begin

text \<open>
  The blocking operation as a state machine over many reconciliations: the invariant
  that ties the in-memory operation to the persisted one, who may replace whom, and
  what \<open>LoadActiveOperation\<close> does in each situation.
\<close>

section \<open>Well-formed operations\<close>

definition stored_ops_wf :: "KubegresStatus \<Rightarrow> bool" where
  "stored_ops_wf st \<longleftrightarrow>
     (let a = status_BlockingOperation st in
      (op_OperationId a = '''' \<longrightarrow> a = zero_Operation) \<and> \<not> op_HasTimedOut a \<and>
      (op_StepId a = TransitionOperationStepId \<longrightarrow> op_TimeOutEpocInSeconds a = 0))"

definition ops_wf :: "world \<Rightarrow> bool" where
  "ops_wf w \<longleftrightarrow> stored_ops_wf (w_status w) \<and>
     (w_activeOperation w)\<lparr>op_HasTimedOut := False\<rparr> = status_BlockingOperation (w_status w) \<and>
     w_previouslyActiveOperation w = status_PreviousBlockingOperation (w_status w) \<and>
     (op_HasTimedOut (w_activeOperation w) \<longrightarrow> isThereActiveOperation w \<and> \<not> isOperationInTransition w)"

lemma zero_not_transition [simp]: "op_StepId zero_Operation \<noteq> TransitionOperationStepId"
  by (simp add: TransitionOperationStepId_def)

lemma stored_ops_wf_zero [simp]: "stored_ops_wf zero_Status"
  by (simp add: stored_ops_wf_def zero_Status_def)

lemma op_clear_timedOut_id:
  "\<not> op_HasTimedOut ope \<Longrightarrow> ope\<lparr>op_HasTimedOut := False\<rparr> = ope"
  by (cases ope) simp

lemma ops_wf_stored:
  "ops_wf w \<Longrightarrow> status_BlockingOperation (w_status w) = (w_activeOperation w)\<lparr>op_HasTimedOut := False\<rparr>"
  by (simp add: ops_wf_def)

lemma ops_wf_active_id:
  "ops_wf w \<Longrightarrow> activeId w = op_OperationId (status_BlockingOperation (w_status w))"
  by (simp add: ops_wf_stored activeId_def)

lemma ops_wf_removeActiveOperation: "ops_wf w \<Longrightarrow> ops_wf (removeActiveOperation b w)"
  by (auto simp: ops_wf_def stored_ops_wf_def removeActiveOperation_previous
      op_clear_timedOut_id op_defs)

lemma ops_wf_setActiveOperationInTransition:
  "isThereActiveOperation w \<Longrightarrow> ops_wf (setActiveOperationInTransition b w)"
  by (simp add: ops_wf_def stored_ops_wf_def op_defs Let_def)

lemma ops_wf_activateOperation:
  assumes "ops_wf w" "activateOperation now ope w = (Ok, w')"
    and "op_OperationId ope \<noteq> ''''" "op_StepId ope \<noteq> TransitionOperationStepId" "\<not> op_HasTimedOut ope"
  shows "ops_wf w'"
  using assms activateOperation_frame [OF assms(2)]
  by (auto simp: ops_wf_def stored_ops_wf_def activateOperation_success [OF assms(2)]
      op_clear_timedOut_id Let_def)

lemma record_events_ops_wf [simp]: "ops_wf (record_events es w) = ops_wf w"
  "ops_wf (InfoEvent r w) = ops_wf w"
  by (simp_all add: ops_wf_def op_defs isOperationInTransition_def)

section \<open>Loading\<close>

lemma loadOperations_ops_wf: "stored_ops_wf (w_status w) \<Longrightarrow> ops_wf (loadOperations w)"
  by (auto simp: ops_wf_def loadOperations_def status_defs stored_ops_wf_def op_clear_timedOut_id Let_def)

lemma removeOperationIfNotActive_ops_wf:
  assumes "ops_wf w"
  shows "ops_wf (removeOperationIfNotActive t1 t2 w)"
proof -
  have timed: "ops_wf (w\<lparr>w_activeOperation := (w_activeOperation w)\<lparr>op_HasTimedOut := True\<rparr>\<rparr>)"
    if "isThereActiveOperation w" "\<not> isOperationInTransition w"
    using assms that by (simp add: ops_wf_def op_defs isOperationInTransition_def)
  obtain c w1 where "isOperationCompletionConditionReached t2 w = (c, w1)" by fastforce
  moreover from this have "w_activeOperation w1 = w_activeOperation w" "ops_wf w1"
    using assms by (auto simp: isOperationCompletionConditionReached_def
        split: option.splits prod.splits)
  ultimately show ?thesis
    using assms timed
    by (auto simp: removeOperationIfNotActive_def Let_def op_defs
        intro!: ops_wf_removeActiveOperation ops_wf_setActiveOperationInTransition)
qed

lemma LoadActiveOperation_ops_wf:
  "stored_ops_wf (w_status w) \<Longrightarrow> ops_wf (snd (LoadActiveOperation t1 t2 t3 w))"
  by (simp add: LoadActiveOperation_def Let_def removeOperationIfNotActive_ops_wf loadOperations_ops_wf)

text \<open>Loading keeps the identifier of the persisted operation or ends idle.\<close>

lemma removeOperationIfNotActive_id:
  "activeId (removeOperationIfNotActive t1 t2 w) \<in> {activeId w, ''''}"
proof -
  obtain c w1 where r: "isOperationCompletionConditionReached t2 w = (c, w1)" by fastforce
  then have "w_activeOperation w1 = w_activeOperation w"
    by (auto simp: isOperationCompletionConditionReached_def split: option.splits prod.splits)
  with r show ?thesis
    by (auto simp: removeOperationIfNotActive_def activeId_def Let_def)
qed

lemma LoadActiveOperation_id:
  "activeId (snd (LoadActiveOperation t1 t2 t3 w)) \<in>
     {op_OperationId (status_BlockingOperation (w_status w)), ''''}"
  using removeOperationIfNotActive_id [of t1 t2 "loadOperations w"]
  by (simp add: LoadActiveOperation_def Let_def activeId_def loadOperations_def status_defs)

text \<open>A loaded operation that still carries a deadline is the persisted one, untouched.\<close>

lemma removeOperationIfNotActive_kept:
  assumes "stored_ops_wf (w_status w)"
    and "op_TimeOutEpocInSeconds (w_activeOperation (removeOperationIfNotActive t1 t2 (loadOperations w))) \<noteq> 0"
  defines "r \<equiv> removeOperationIfNotActive t1 t2 (loadOperations w)"
  shows "isThereActiveOperation r \<and> \<not> isOperationInTransition r \<and>
    w_status r = w_status w \<and> w_statusFieldsToUpdate r = w_statusFieldsToUpdate w"
proof -
  let ?v = "loadOperations w"
  obtain c w1 where c: "isOperationCompletionConditionReached t2 ?v = (c, w1)" by fastforce
  then have "w_activeOperation w1 = w_activeOperation ?v" "w_kubegres w1 = w_kubegres ?v"
    "w_statusFieldsToUpdate w1 = w_statusFieldsToUpdate ?v"
    by (auto simp: isOperationCompletionConditionReached_def split: option.splits prod.splits)
  with c assms show ?thesis
    by (auto simp: r_def removeOperationIfNotActive_def Let_def loadOperations_def status_defs
        stored_ops_wf_def op_defs isOperationInTransition_def split: if_splits)
qed

section \<open>A concrete run\<close>

text \<open>
  A primary deployment: the configuration is registered, the fresh resource is loaded at
  time 1000, the operation is activated, then removed.
\<close>

definition demo_config :: BlockingOperationConfig where
  "demo_config = \<lparr>cfg_OperationId = OperationIdPrimaryDbCountSpecEnforcement,
     cfg_StepId = OperationStepIdPrimaryDbDeploying, cfg_TimeOutInSeconds = 300,
     cfg_CompletionChecker = Some (\<lambda>_ _. (False, [])), cfg_AfterCompletionMoveToTransitionStep = False\<rparr>"

definition demo_configs :: "(string \<times> BlockingOperationConfig) list" where
  "demo_configs =
     [(generateConfigId OperationIdPrimaryDbCountSpecEnforcement OperationStepIdPrimaryDbDeploying, demo_config)]"

definition demo_request :: KubegresBlockingOperation where
  "demo_request = createOperationObj OperationIdPrimaryDbCountSpecEnforcement OperationStepIdPrimaryDbDeploying"

definition demo_loaded :: world where
  "demo_loaded = snd (LoadActiveOperation 1000 1000 1000
     ((CreateBlockingOperation (w_kubegres (CreateBlockingOperation sample_Kubegres)))\<lparr>w_configs := demo_configs\<rparr>))"

definition demo_active :: world where
  "demo_active = snd (activateOperation 1000 demo_request demo_loaded)"

lemmas demo_defs = demo_config_def demo_configs_def demo_request_def

lemma demo_getConfig:
  "w_configs w = demo_configs \<Longrightarrow> op_OperationId ope = OperationIdPrimaryDbCountSpecEnforcement \<Longrightarrow>
    op_StepId ope = OperationStepIdPrimaryDbDeploying \<Longrightarrow> getConfig ope w = demo_config"
  by (simp add: getConfig_def demo_configs_def)

lemma demo_loaded_simps:
  "demo_loaded = (CreateBlockingOperation sample_Kubegres)\<lparr>w_configs := demo_configs\<rparr>"
  by (simp add: demo_loaded_def LoadActiveOperation_def removeOperationIfNotActive_def loadOperations_def
      status_defs CreateBlockingOperation_def isThereActiveOperation_def GetNbreSecondsLeftBeforeTimeOut_def
      sample_Kubegres_def zero_Status_def Let_def zero_Operation_def)

lemma demo_request_simps [simp]:
  "op_OperationId demo_request = OperationIdPrimaryDbCountSpecEnforcement"
  "op_StepId demo_request = OperationStepIdPrimaryDbDeploying" "\<not> op_HasTimedOut demo_request"
  by (simp_all add: demo_request_def createOperationObj_def zero_Operation_def)

lemma demo_activates: "activateOperation 1000 demo_request demo_loaded = (Ok, demo_active)"
proof -
  have "fst (activateOperation 1000 demo_request demo_loaded) = Ok"
    by (simp add: activateOperation_Ok_iff demo_loaded_simps CreateBlockingOperation_def
        doesOperationHaveAssociatedConfig_def demo_getConfig demo_config_def zero_Operation_def)
  then show ?thesis by (simp add: demo_active_def prod_eq_iff)
qed

lemma demo_active_simps:
  "w_activeOperation demo_active = demo_request\<lparr>op_TimeOutEpocInSeconds := 1300\<rparr>"
  "status_BlockingOperation (w_status demo_active) = demo_request\<lparr>op_TimeOutEpocInSeconds := 1300\<rparr>"
  using activateOperation_success [OF demo_activates]
  by (simp_all add: demo_loaded_simps demo_getConfig demo_config_def int64_id in_int64_def)

lemma demo_ops_wf: "ops_wf demo_loaded" "ops_wf demo_active"
proof -
  show l: "ops_wf demo_loaded"
    unfolding demo_loaded_def by (rule LoadActiveOperation_ops_wf) (simp add: CreateBlockingOperation_def sample_Kubegres_def)
  show "ops_wf demo_active"
    by (rule ops_wf_activateOperation [OF l demo_activates]) simp_all
qed

section \<open>Properties\<close>

text \<open>
  C26: the delay \<open>LoadActiveOperation\<close> returns is between 0 and 20 seconds. When it is
  positive, an operation is active and not in transition, and the persisted status is
  untouched and not marked for update.
\<close>

theorem LoadActiveOperation_delay:
  assumes "stored_ops_wf (w_status w)" "LoadActiveOperation t1 t2 t3 w = (n, w')"
  shows "0 \<le> n \<and> n \<le> 20 \<and>
    (0 < n \<longrightarrow> isThereActiveOperation w' \<and> \<not> isOperationInTransition w' \<and>
       w_status w' = w_status w \<and> w_statusFieldsToUpdate w' = w_statusFieldsToUpdate w)"
proof -
  let ?v = "loadOperations w"
  let ?r = "removeOperationIfNotActive t1 t2 ?v"
  have n: "n = (let l = GetNbreSecondsLeftBeforeTimeOut t3 ?r in if 20 < l then 20 else l)" and w': "w' = ?r"
    using assms(2) by (auto simp: LoadActiveOperation_def Let_def)
  have "0 \<le> GetNbreSecondsLeftBeforeTimeOut t3 ?r"
    by (simp add: GetNbreSecondsLeftBeforeTimeOut_def Let_def)
  moreover have "isThereActiveOperation ?r \<and> \<not> isOperationInTransition ?r \<and>
      w_status ?r = w_status w \<and> w_statusFieldsToUpdate ?r = w_statusFieldsToUpdate w"
    if "0 < n"
  proof -
    have "op_TimeOutEpocInSeconds (w_activeOperation ?r) \<noteq> 0"
      using that n by (auto simp: GetNbreSecondsLeftBeforeTimeOut_def)
    then show ?thesis using removeOperationIfNotActive_kept assms(1) by blast
  qed
  ultimately show ?thesis using n w' by (simp add: Let_def)
qed

theorem LoadActiveOperation_delay_witness:
  "0 \<le> fst (LoadActiveOperation 1001 1001 1001 demo_active) \<and>
   fst (LoadActiveOperation 1001 1001 1001 demo_active) \<le> 20"
proof -
  have "stored_ops_wf (w_status demo_active)"
    using demo_ops_wf(2) by (simp add: ops_wf_def)
  then show ?thesis
    using LoadActiveOperation_delay [of demo_active 1001 1001 1001] by (metis prod.collapse)
qed

text \<open>
  An activated operation holds its lease. Until its deadline passes, and unless its
  completion checker reports success, every later reconciliation finds it active and is
  told to come back after the remaining time, at most 20 seconds.
\<close>

lemma activated_operation_keeps_lease:
  assumes "activateOperation now ope w = (Ok, w1)"
    and "op_OperationId ope \<noteq> ''''" "op_StepId ope \<noteq> TransitionOperationStepId"
    and "deadline = now + cfg_TimeOutInSeconds (getConfig ope w)" "in_int64 deadline" "deadline \<noteq> 0"
    and "0 \<le> t1" "t1 < deadline" "0 \<le> t3" "t3 < deadline"
    and "\<forall>checker secs. cfg_CompletionChecker (getConfig ope w) = Some checker \<longrightarrow>
           checker secs (w_activeOperation w1) = (False, [])"
  shows "LoadActiveOperation t1 t2 t3 ((CreateBlockingOperation (w_kubegres w1))\<lparr>w_configs := w_configs w\<rparr>)
    = (min 20 (deadline - t3),
       (loadOperations (CreateBlockingOperation (w_kubegres w1)))\<lparr>w_configs := w_configs w\<rparr>)"
proof -
  let ?v = "(loadOperations (CreateBlockingOperation (w_kubegres w1)))\<lparr>w_configs := w_configs w\<rparr>"
  let ?a = "w_activeOperation w1"
  have a: "?a = ope\<lparr>op_TimeOutEpocInSeconds := deadline\<rparr>" "status_BlockingOperation (w_status w1) = ?a"
    using activateOperation_success [OF assms(1)] assms(4,5) by (simp_all add: int64_id)
  have load: "loadOperations ((CreateBlockingOperation (w_kubegres w1))\<lparr>w_configs := w_configs w\<rparr>) = ?v"
    by (simp add: loadOperations_def status_defs)
  have v: "w_activeOperation ?v = ?a"
    using a by (simp add: loadOperations_def CreateBlockingOperation_def status_defs)
  have cfg: "getConfig ?a ?v = getConfig ope w" using a(1) by (simp add: getConfig_def)
  have pos: "int64 (deadline - t) = deadline - t" if "0 \<le> t" "t < deadline" for t
    using that assms(5) by (intro int64_id) (simp add: in_int64_def)
  have "\<not> hasOperationTimedOut t1 ?v"
    using v a(1) assms(7,8) by (simp add: hasOperationTimedOut_def pos)
  moreover have "isOperationCompletionConditionReached t2 ?v = (False, ?v)"
    using assms(11) v cfg
    by (auto simp: isOperationCompletionConditionReached_def record_events_def split: option.splits)
  ultimately have "removeOperationIfNotActive t1 t2 ?v = ?v"
    using v a(1) assms(2,3) by (simp add: removeOperationIfNotActive_def op_defs isOperationInTransition_def)
  moreover have "GetNbreSecondsLeftBeforeTimeOut t3 ?v = deadline - t3"
    using v a(1) assms(6,9,10) by (simp add: GetNbreSecondsLeftBeforeTimeOut_def pos)
  ultimately show ?thesis by (simp add: LoadActiveOperation_def load Let_def)
qed

lemma activated_operation_keeps_lease_demo:
  "fst (LoadActiveOperation 1001 1001 1290
     ((CreateBlockingOperation (w_kubegres demo_active))\<lparr>w_configs := w_configs demo_loaded\<rparr>)) = 10"
  by (subst activated_operation_keeps_lease [OF demo_activates, of 1300])
     (simp_all add: demo_loaded_simps demo_getConfig demo_config_def in_int64_def)

text \<open>
  An operation whose deadline has passed and that has a completion checker stays
  active and is marked as timed out; the persisted status is not touched and the delay is
  0, so the enforcers run and decide whether to remove it.
\<close>

lemma timed_out_operation_stays_active:
  assumes "stored_ops_wf (w_status w)" "ope = status_BlockingOperation (w_status w)"
    and "op_OperationId ope \<noteq> ''''" "op_StepId ope \<noteq> TransitionOperationStepId"
    and "cfg_CompletionChecker (getConfig ope w) \<noteq> None"
    and "int64 (op_TimeOutEpocInSeconds ope - t1) \<le> 0" "int64 (op_TimeOutEpocInSeconds ope - t3) \<le> 0"
  shows "LoadActiveOperation t1 t2 t3 w =
    (0, InfoEvent ''BlockingOperationTimedOut''
          ((loadOperations w)\<lparr>w_activeOperation := ope\<lparr>op_HasTimedOut := True\<rparr>\<rparr>))"
proof -
  let ?m = "(loadOperations w)\<lparr>w_activeOperation := ope\<lparr>op_HasTimedOut := True\<rparr>\<rparr>"
  have a: "w_activeOperation (loadOperations w) = ope"
    by (simp add: loadOperations_def status_defs assms(2))
  have "getConfig (ope\<lparr>op_HasTimedOut := True\<rparr>) ?m = getConfig ope w"
    by (simp add: getConfig_def loadOperations_def)
  then have "hasCompletionChecker ?m" using assms(5) by (simp add: hasCompletionChecker_def)
  moreover have "hasOperationTimedOut t1 (loadOperations w)"
    using a assms(6) by (simp add: hasOperationTimedOut_def)
  ultimately have "removeOperationIfNotActive t1 t2 (loadOperations w) =
      InfoEvent ''BlockingOperationTimedOut'' ?m"
    using a assms(3,4)
    by (simp add: removeOperationIfNotActive_def Let_def isThereActiveOperation_def isOperationInTransition_def)
  moreover have "GetNbreSecondsLeftBeforeTimeOut t3 (InfoEvent ''BlockingOperationTimedOut'' ?m) = 0"
    using assms(7) by (simp add: GetNbreSecondsLeftBeforeTimeOut_def Let_def)
  ultimately show ?thesis by (simp add: LoadActiveOperation_def)
qed

lemma timed_out_operation_stays_active_demo:
  "LoadActiveOperation 1301 1301 1302 demo_active =
    (0, InfoEvent ''BlockingOperationTimedOut''
       ((loadOperations demo_active)\<lparr>w_activeOperation :=
          (w_activeOperation demo_active)\<lparr>op_HasTimedOut := True\<rparr>\<rparr>))"
proof -
  have wf: "stored_ops_wf (w_status demo_active)"
    using demo_ops_wf(2) by (simp add: ops_wf_def)
  have "w_configs demo_active = demo_configs"
    using activateOperation_frame(4) [OF demo_activates] by (simp add: demo_loaded_simps)
  then have "cfg_CompletionChecker (getConfig (w_activeOperation demo_active) demo_active) \<noteq> None"
    by (simp add: demo_getConfig demo_active_simps demo_config_def)
  then show ?thesis
    using timed_out_operation_stays_active [OF wf, of "w_activeOperation demo_active" 1301 1302 1301]
    by (simp add: demo_active_simps int64_def)
qed

end
