(* ===== verification/Failover.thy ===== *)
theory Failover
  imports Resources_Creator Operation_Machine
begin

text \<open>
  \<open>src/controllers/spec/enforcer/resources_count_spec/statefulset/failover\<close>: the
  promotion of a replica to primary, in two phases. First the failing primary is deleted
  and the operator waits; then, when the waiting step is over, a ready replica is promoted.
\<close>

section \<open>Operation configurations\<close>

definition CreateOperationConfigWaitingBeforeForFailingOver :: BlockingOperationConfig where
  "CreateOperationConfigWaitingBeforeForFailingOver =
     \<lparr>cfg_OperationId = OperationIdPrimaryDbCountSpecEnforcement,
      cfg_StepId = OperationStepIdPrimaryDbWaitingBeforeFailingOver, cfg_TimeOutInSeconds = 10,
      cfg_CompletionChecker = None, cfg_AfterCompletionMoveToTransitionStep = True\<rparr>"

definition isFailOverCompleted ::
  "ResourcesStates \<Rightarrow> int \<Rightarrow> KubegresBlockingOperation \<Rightarrow> bool \<times> event list" where
  "isFailOverCompleted rs nbreSecondsSinceOperationHasStarted operation =
     (if nbreSecondsSinceOperationHasStarted < 40 then (False, []) else (sw_IsReady (rs_Primary rs), []))"

definition CreateOperationConfigForFailingOver :: "ResourcesStates \<Rightarrow> BlockingOperationConfig" where
  "CreateOperationConfigForFailingOver rs =
     \<lparr>cfg_OperationId = OperationIdPrimaryDbCountSpecEnforcement,
      cfg_StepId = OperationStepIdPrimaryDbFailingOver, cfg_TimeOutInSeconds = 300,
      cfg_CompletionChecker = Some (isFailOverCompleted rs), cfg_AfterCompletionMoveToTransitionStep = False\<rparr>"

section \<open>Queries\<close>

abbreviation w_Primary :: "world \<Rightarrow> StatefulSetWrapper" where
  "w_Primary w \<equiv> rs_Primary (w_states w)"

abbreviation w_Replicas :: "world \<Rightarrow> Replicas" where
  "w_Replicas w \<equiv> rs_Replicas (w_states w)"

definition isPrimaryDbReady :: "world \<Rightarrow> bool" where
  "isPrimaryDbReady w \<longleftrightarrow> sw_IsReady (w_Primary w)"

definition isPrimaryDbDeployed :: "world \<Rightarrow> bool" where
  "isPrimaryDbDeployed w \<longleftrightarrow> sw_IsDeployed (w_Primary w)"

definition isNewPrimaryRequired :: "world \<Rightarrow> bool" where
  "isNewPrimaryRequired w \<longleftrightarrow> \<not> isPrimaryDbDeployed w \<or> \<not> isPrimaryDbReady w"

definition isThereReadyReplica :: "world \<Rightarrow> bool" where
  "isThereReadyReplica w \<longleftrightarrow> rep_NbreReady (w_Replicas w) > 0"

definition isAutomaticFailoverDisabled :: "world \<Rightarrow> bool" where
  "isAutomaticFailoverDisabled w \<longleftrightarrow> failover_IsDisabled (spec_Failover (w_spec w))"

definition hasPrimaryEverBeenDeployed :: "world \<Rightarrow> bool" where
  "hasPrimaryEverBeenDeployed w \<longleftrightarrow> status_EnforcedReplicas (w_status w) > 0"

definition hasLastFailOverAttemptTimedOut :: "world \<Rightarrow> bool" where
  "hasLastFailOverAttemptTimedOut w \<longleftrightarrow> HasActiveOperationIdTimedOut OperationIdPrimaryDbCountSpecEnforcement w"

definition getPodToManuallyPromote :: "world \<Rightarrow> string" where
  "getPodToManuallyPromote w = failover_PromotePod (spec_Failover (w_spec w))"

definition sw_PodName :: "StatefulSetWrapper \<Rightarrow> string" where
  "sw_PodName s = pod_Name (pw_Pod (sw_Pod s))"

definition getInstanceIndexToManuallyPromote :: "world \<Rightarrow> int \<times> world" where
  "getInstanceIndexToManuallyPromote w =
     (let podToPromote = getPodToManuallyPromote w in
      if podToPromote = '''' \<or> podToPromote = sw_PodName (w_Primary w) then (0, w)
      else case find (\<lambda>s. podToPromote = sw_PodName s) (GetAllSortedByInstanceIndex (rep_All (w_Replicas w))) of
             Some s \<Rightarrow> (sw_InstanceIndex s, w)
           | None \<Rightarrow> (0, WarningEvent ''ManualFailoverCannotHappenAsConfigErr'' w))"

definition isManualFailoverRequested :: "world \<Rightarrow> bool \<times> world" where
  "isManualFailoverRequested w =
     (let (i, w1) = getInstanceIndexToManuallyPromote w in
      if i > 0 then
        let (j, w2) = getInstanceIndexToManuallyPromote w1 in (j \<noteq> sw_InstanceIndex (w_Primary w2), w2)
      else (False, w1))"

definition isWaitingBeforeStartingFailOver :: "world \<Rightarrow> bool" where
  "isWaitingBeforeStartingFailOver w \<longleftrightarrow>
     IsActiveOperationInTransition OperationIdPrimaryDbCountSpecEnforcement w \<and>
     op_StepId (GetPreviouslyActiveOperation w) = OperationStepIdPrimaryDbWaitingBeforeFailingOver"

definition logFailoverCannotHappenAsNoReplicaDeployed :: "world \<Rightarrow> world" where
  "logFailoverCannotHappenAsNoReplicaDeployed w =
     (let (m, w1) = isManualFailoverRequested w in
      if m \<or> isNewPrimaryRequired w1 then InfoEvent ''FailoverCannotHappenAsNoReplicaDeployed'' w1 else w1)"

definition ShouldWeFailOver :: "world \<Rightarrow> bool \<times> world" where
  "ShouldWeFailOver w =
     (if \<not> hasPrimaryEverBeenDeployed w then (False, w)
      else if \<not> isThereReadyReplica w then (False, logFailoverCannotHappenAsNoReplicaDeployed w)
      else
        let (m, w1) = isManualFailoverRequested w in
        if m then (True, w1)
        else if isNewPrimaryRequired w1 then
          (if isAutomaticFailoverDisabled w1 then (False, InfoEvent ''AutomaticFailoverIsDisabled'' w1) else (True, w1))
        else (False, w1))"

section \<open>Selection of the replica\<close>

definition manuallySelectReplicaToPromote :: "world \<Rightarrow> StatefulSetWrapper res \<times> world" where
  "manuallySelectReplicaToPromote w =
     (let (i, w1) = getInstanceIndexToManuallyPromote w;
          w2 = InfoEvent ''ManualFailover'' w1
      in case find (\<lambda>s. sw_IsReady s \<and> sw_InstanceIndex s = i) (GetAllSortedByInstanceIndex (rep_All (w_Replicas w2))) of
           Some s \<Rightarrow> (Val s, w2)
         | None \<Rightarrow>
             (Fail (TextError (''The value of the field '' @ [CHR 0x27] @ ''failover.promotePod'' @ [CHR 0x27] @
                '' is set to '' @ [CHR 0x27] @ getPodToManuallyPromote w2 @ [CHR 0x27] @ ''. '' @
                ''That value is either the name of a Primary Pod OR a Replica Pod which is not ready OR a Pod which does not exist. '' @
                ''Please set the name of a Replica Pod that you would like to promote as a Primary Pod.'')),
              WarningEvent ''ManualFailoverCannotHappenAsConfigErr'' w2))"

definition selectReplicaToPromote :: "world \<Rightarrow> StatefulSetWrapper res \<times> world" where
  "selectReplicaToPromote w =
     (let (m, w1) = isManualFailoverRequested w in
      if m then manuallySelectReplicaToPromote w1
      else case find sw_IsReady (GetAllSortedByInstanceIndex (rep_All (w_Replicas w1))) of
             Some s \<Rightarrow> (Val s, w1)
           | None \<Rightarrow>
               (Fail (TextError (''We cannot Failover to a Replica because there are not any Replicas which are ready to serve requests. '' @
                  ''Primary has to be fixed manually.'')),
                ErrorEvent ''FailoverCannotHappenAsNotFoundHealthyReplicaErr'' w1))"

section \<open>The two phases\<close>

text \<open>
  The promoted StatefulSet. The code writes into the label maps and into the first init
  container of the loaded object, which the loaded states share; \<open>share\<close> applies the
  same change to every copy of the wrapper in the states.
\<close>

definition promoted :: "ConfigLocations \<Rightarrow> StatefulSet \<Rightarrow> StatefulSet option" where
  "promoted locs s =
     do {
       labels \<leftarrow> map_set (md_Labels (sts_meta s)) ''replicationRole'' PrimaryRoleName;
       templateLabels \<leftarrow> map_set (sts_TemplateLabels s) ''replicationRole'' PrimaryRoleName;
       inits \<leftarrow> upd_nth 0 (\<lambda>c. Some (c\<lparr>
           ctr_VolumeMounts := ctr_VolumeMounts c @ [\<lparr>vm_Name = loc_PromoteReplica locs,
             vm_MountPath = ''/tmp/promote_replica_to_primary.sh'',
             vm_SubPath = ConfigMapDataKeyPromoteReplica, vm_rest = KNull\<rparr>],
           ctr_Command := [''sh'', ''-c'', ''/tmp/promote_replica_to_primary.sh'']\<rparr>))
           (ps_InitContainers (sts_PodSpec s));
       Some (s\<lparr>sts_meta := (sts_meta s)\<lparr>md_Labels := labels\<rparr>,
               sts_Template := (sts_Template s)\<lparr>pt_Labels := templateLabels,
                 pt_Spec := (sts_PodSpec s)\<lparr>ps_InitContainers := inits\<rparr>\<rparr>\<rparr>)
     }"

definition map_wrappers :: "(StatefulSetWrapper \<Rightarrow> StatefulSetWrapper) \<Rightarrow> StatefulSetWrappers \<Rightarrow> StatefulSetWrappers" where
  "map_wrappers f r =
     \<lparr>statefulSetsSortedByInstanceIndex = map f (statefulSetsSortedByInstanceIndex r),
      statefulSetsReverseSortedByInstanceIndex = map f (statefulSetsReverseSortedByInstanceIndex r)\<rparr>"

definition share :: "StatefulSetWrapper \<Rightarrow> StatefulSetWrapper \<Rightarrow> ResourcesStates \<Rightarrow> ResourcesStates" where
  "share old new rs =
     (let f = (\<lambda>x. if x = old then new else x); sss = rs_StatefulSets rs in
      rs\<lparr>rs_StatefulSets := sss\<lparr>sss_All := map_wrappers f (sss_All sss),
           sss_Replicas := (sss_Replicas sss)\<lparr>rep_All := map_wrappers f (rep_All (sss_Replicas sss))\<rparr>\<rparr>\<rparr>)"

definition promoteReplicaToPrimary :: "int \<Rightarrow> server \<Rightarrow> StatefulSetWrapper \<Rightarrow> world \<Rightarrow> outcome \<times> world" where
  "promoteReplicaToPrimary now srv newPrimary w =
     (case promoted (cfs_ConfigLocations (rs_Config (w_states w))) (sw_StatefulSet newPrimary) of
        None \<Rightarrow> (Panic, w)
      | Some s \<Rightarrow>
          let w0 = w\<lparr>w_states := share newPrimary (newPrimary\<lparr>sw_StatefulSet := s\<rparr>) (w_states w)\<rparr> in
          (case ActivateOperationOnStatefulSet now OperationIdPrimaryDbCountSpecEnforcement
                  OperationStepIdPrimaryDbFailingOver (sw_InstanceIndex newPrimary) w0 of
             (Ok, w1) \<Rightarrow>
               (case client_write srv (UpdateStatefulSet s) (InfoEvent ''FailOver'' w1) of
                  (None, w2) \<Rightarrow> (Ok, w2)
                | (Some err2, w2) \<Rightarrow> (Ok, RemoveActiveOperation (ErrorEvent ''FailOverErr'' w2)))
           | (r, w1) \<Rightarrow> (r, ErrorEvent ''FailOverOperationActivationErr'' w1)))"

definition deletePrimaryStatefulSet :: "server \<Rightarrow> world \<Rightarrow> world" where
  "deletePrimaryStatefulSet srv w =
     (case client_write srv (DeleteStatefulSet (sw_StatefulSet (w_Primary w))) w of
        (None, w1) \<Rightarrow> InfoEvent ''FailOverPrimaryDeleted'' w1
      | (Some err, w1) \<Rightarrow> w1)"

definition waitBeforePromotingReplicaToPrimary ::
  "int \<Rightarrow> server \<Rightarrow> StatefulSetWrapper \<Rightarrow> world \<Rightarrow> outcome \<times> world" where
  "waitBeforePromotingReplicaToPrimary now srv newPrimary w =
     (case ActivateOperationOnStatefulSet now OperationIdPrimaryDbCountSpecEnforcement
             OperationStepIdPrimaryDbWaitingBeforeFailingOver (sw_InstanceIndex newPrimary)
             (deletePrimaryStatefulSet srv w) of
        (Ok, w1) \<Rightarrow> (Ok, w1)
      | (r, w1) \<Rightarrow> (r, ErrorEvent ''FailOverOperationActivationErr'' w1))"

definition FailOver :: "int \<Rightarrow> server \<Rightarrow> world \<Rightarrow> outcome \<times> world" where
  "FailOver now srv w =
     (if IsActiveOperationIdDifferentOf OperationIdPrimaryDbCountSpecEnforcement w then (Ok, w)
      else if hasLastFailOverAttemptTimedOut w then (Ok, ErrorEvent ''FailOverTimedOutErr'' w)
      else
        case selectReplicaToPromote w of
          (Val newPrimary, w1) \<Rightarrow>
            if \<not> isWaitingBeforeStartingFailOver w1 then waitBeforePromotingReplicaToPrimary now srv newPrimary w1
            else promoteReplicaToPrimary now srv newPrimary w1
        | (Fail err, w1) \<Rightarrow> (Err err, w1)
        | (Crash, w1) \<Rightarrow> (Panic, w1))"

section \<open>Queries and selection\<close>

lemma getInstanceIndex_events: "same_but_events w (snd (getInstanceIndexToManuallyPromote w))"
  by (simp add: getInstanceIndexToManuallyPromote_def Let_def split: option.splits)

lemma getInstanceIndex_pure:
  "same_but_events w w' \<Longrightarrow> fst (getInstanceIndexToManuallyPromote w') = fst (getInstanceIndexToManuallyPromote w)"
  by (simp add: getInstanceIndexToManuallyPromote_def getPodToManuallyPromote_def Let_def
      same_but_events_fields split: option.splits)

lemma isManual_events: "same_but_events w (snd (isManualFailoverRequested w))"
proof -
  obtain i w1 where i: "getInstanceIndexToManuallyPromote w = (i, w1)" by fastforce
  obtain j w2 where j: "getInstanceIndexToManuallyPromote w1 = (j, w2)" by fastforce
  have "same_but_events w w1" "same_but_events w1 w2"
    using getInstanceIndex_events [of w] getInstanceIndex_events [of w1] i j by simp_all
  with i j show ?thesis by (auto simp: isManualFailoverRequested_def intro: same_but_events_trans)
qed

lemma isManual_iff:
  "fst (isManualFailoverRequested w) \<longleftrightarrow>
     fst (getInstanceIndexToManuallyPromote w) > 0 \<and>
     fst (getInstanceIndexToManuallyPromote w) \<noteq> sw_InstanceIndex (w_Primary w)"
proof -
  obtain i w1 where i: "getInstanceIndexToManuallyPromote w = (i, w1)" by fastforce
  then have e: "same_but_events w w1" using getInstanceIndex_events [of w] by simp
  obtain j w2 where j: "getInstanceIndexToManuallyPromote w1 = (j, w2)" by fastforce
  then have "same_but_events w1 w2" using getInstanceIndex_events [of w1] by simp
  moreover have "j = i" using getInstanceIndex_pure [OF e] i j by simp
  ultimately show ?thesis
    using i j e by (simp add: isManualFailoverRequested_def same_but_events_fields)
qed

lemma isManual_pure:
  "same_but_events w w' \<Longrightarrow> fst (isManualFailoverRequested w') = fst (isManualFailoverRequested w)"
  by (simp add: isManual_iff getInstanceIndex_pure same_but_events_fields)

lemma ShouldWeFailOver_events: "same_but_events w (snd (ShouldWeFailOver w))"
  using isManual_events [of w]
  by (auto simp: ShouldWeFailOver_def logFailoverCannotHappenAsNoReplicaDeployed_def Let_def
      intro: same_but_events_step split: prod.splits)

lemma ShouldWeFailOver_iff:
  "fst (ShouldWeFailOver w) \<longleftrightarrow>
     hasPrimaryEverBeenDeployed w \<and> isThereReadyReplica w \<and>
     (fst (isManualFailoverRequested w) \<or> isNewPrimaryRequired w \<and> \<not> isAutomaticFailoverDisabled w)"
proof -
  obtain m w1 where m: "isManualFailoverRequested w = (m, w1)" by fastforce
  then have "same_but_events w w1" using isManual_events [of w] by simp
  then show ?thesis
    by (simp add: ShouldWeFailOver_def m isNewPrimaryRequired_def isPrimaryDbDeployed_def isPrimaryDbReady_def
        isAutomaticFailoverDisabled_def same_but_events_fields)
qed

lemma find_SomeD: "find P xs = Some x \<Longrightarrow> x \<in> set xs \<and> P x"
  by (auto simp: find_Some_iff)

lemma selectReplicaToPromote_Val:
  assumes "selectReplicaToPromote w = (Val s, w1)"
  shows "same_but_events w w1" "s \<in> set (GetAllSortedByInstanceIndex (rep_All (w_Replicas w)))" "sw_IsReady s"
    "fst (isManualFailoverRequested w) \<Longrightarrow> sw_InstanceIndex s = fst (getInstanceIndexToManuallyPromote w)"
    "\<not> fst (isManualFailoverRequested w) \<Longrightarrow>
       find sw_IsReady (GetAllSortedByInstanceIndex (rep_All (w_Replicas w))) = Some s"
proof -
  obtain m v where m: "isManualFailoverRequested w = (m, v)" by fastforce
  then have e: "same_but_events w v" using isManual_events [of w] by simp
  obtain i u where i: "getInstanceIndexToManuallyPromote v = (i, u)" by fastforce
  then have "same_but_events v u" using getInstanceIndex_events [of v] by simp
  with e have eu: "same_but_events w u" by (blast intro: same_but_events_trans)
  then have e2: "same_but_events w (InfoEvent r u)" for r by (rule same_but_events_step)
  have i': "i = fst (getInstanceIndexToManuallyPromote w)" using getInstanceIndex_pure [OF e] i by simp
  note * = assms [unfolded selectReplicaToPromote_def m Let_def prod.case manuallySelectReplicaToPromote_def i]
  show "same_but_events w w1" "s \<in> set (GetAllSortedByInstanceIndex (rep_All (w_Replicas w)))" "sw_IsReady s"
    "fst (isManualFailoverRequested w) \<Longrightarrow> sw_InstanceIndex s = fst (getInstanceIndexToManuallyPromote w)"
    "\<not> fst (isManualFailoverRequested w) \<Longrightarrow>
       find sw_IsReady (GetAllSortedByInstanceIndex (rep_All (w_Replicas w))) = Some s"
    using * e e2 [of "''ManualFailover''"] i'
    by (auto simp: m same_but_events_fields [OF eu] same_but_events_fields [OF e]
        split: if_splits option.splits dest!: find_SomeD)
qed

section \<open>Requests of a failover\<close>

lemma ActivateOnStatefulSet_frame:
  assumes "ActivateOperationOnStatefulSet now oid sid i w = (r, w')"
  shows "w_calls w' = w_calls w" "w_states w' = w_states w" "w_configs w' = w_configs w"
    "w_events w' = w_events w" "w_spec w' = w_spec w"
    "w_previouslyActiveOperation w' = w_previouslyActiveOperation w"
  using activateOperation_frame [OF assms [unfolded ActivateOperationOnStatefulSet_def]] by simp_all

lemma deletePrimary_simps [simp]:
  "w_calls (deletePrimaryStatefulSet srv w) = w_calls w @ [DeleteStatefulSet (sw_StatefulSet (w_Primary w))]"
  "w_states (deletePrimaryStatefulSet srv w) = w_states w"
  "w_configs (deletePrimaryStatefulSet srv w) = w_configs w"
  "w_kubegres (deletePrimaryStatefulSet srv w) = w_kubegres w"
  "w_activeOperation (deletePrimaryStatefulSet srv w) = w_activeOperation w"
  "w_previouslyActiveOperation (deletePrimaryStatefulSet srv w) = w_previouslyActiveOperation w"
  by (simp_all add: deletePrimaryStatefulSet_def client_write_def split: option.splits)

lemma waitBeforePromoting_calls:
  "waitBeforePromotingReplicaToPrimary now srv s w = (r, w') \<Longrightarrow>
   w_calls w' = w_calls w @ [DeleteStatefulSet (sw_StatefulSet (w_Primary w))]"
  by (auto simp: waitBeforePromotingReplicaToPrimary_def ActivateOnStatefulSet_frame
      split: prod.splits outcome.splits)

lemma promoteReplica_calls:
  assumes "promoteReplicaToPrimary now srv s w = (r, w')"
  shows "w_calls w' = w_calls w \<or>
    (\<exists>p. promoted (cfs_ConfigLocations (rs_Config (w_states w))) (sw_StatefulSet s) = Some p \<and>
       w_calls w' = w_calls w @ [UpdateStatefulSet p])"
  using assms
  by (auto simp: promoteReplicaToPrimary_def client_write_def Let_def
      dest: ActivateOnStatefulSet_frame split: option.splits prod.splits outcome.splits)

lemma promoted_isPrimary: "promoted locs s = Some p \<Longrightarrow> isPrimary p"
  by (auto simp: promoted_def bind_eq_Some_conv map_set_def isPrimary_def split: if_splits)

lemma promoted_names:
  "promoted locs s = Some p \<Longrightarrow> sts_Name p = sts_Name s \<and>
     map_get (sts_TemplateLabels p) ''index'' = map_get (sts_TemplateLabels s) ''index'' \<and>
     sts_MatchLabels p = sts_MatchLabels s \<and> ps_Containers (sts_PodSpec p) = ps_Containers (sts_PodSpec s)"
  by (auto simp: promoted_def bind_eq_Some_conv map_set_def split: if_splits)

lemma isWaiting_pure:
  "same_but_events w w' \<Longrightarrow> isWaitingBeforeStartingFailOver w' = isWaitingBeforeStartingFailOver w"
  by (simp add: isWaitingBeforeStartingFailOver_def IsActiveOperationInTransition_def same_but_events_fields)

lemma selectReplicaToPromote_events: "same_but_events w (snd (selectReplicaToPromote w))"
proof -
  obtain m v where m: "isManualFailoverRequested w = (m, v)" by fastforce
  then have e: "same_but_events w v" using isManual_events [of w] by simp
  obtain i u where i: "getInstanceIndexToManuallyPromote v = (i, u)" by fastforce
  then have "same_but_events v u" using getInstanceIndex_events [of v] by simp
  with e have "same_but_events w u" by (blast intro: same_but_events_trans)
  with e show ?thesis
    by (auto simp: selectReplicaToPromote_def m manuallySelectReplicaToPromote_def i Let_def
        intro: same_but_events_step split: option.splits)
qed

lemma first_ready_least:
  "find sw_IsReady xs = Some s \<Longrightarrow> sorted (map sw_InstanceIndex xs) \<Longrightarrow> t \<in> set xs \<Longrightarrow> sw_IsReady t \<Longrightarrow>
   sw_InstanceIndex s \<le> sw_InstanceIndex t"
  by (induction xs) (auto split: if_splits)

section \<open>The waiting step over time\<close>

definition waiting_request :: "world \<Rightarrow> int \<Rightarrow> KubegresBlockingOperation" where
  "waiting_request w i =
     (createOperationObj OperationIdPrimaryDbCountSpecEnforcement OperationStepIdPrimaryDbWaitingBeforeFailingOver)
       \<lparr>op_StatefulSetOperation := createStatefulSetOperationObj w i\<rparr>"

lemma waiting_request_simps [simp]:
  "op_OperationId (waiting_request w i) = OperationIdPrimaryDbCountSpecEnforcement"
  "op_StepId (waiting_request w i) = OperationStepIdPrimaryDbWaitingBeforeFailingOver"
  by (simp_all add: waiting_request_def createOperationObj_def)

definition waiting_registered :: "world \<Rightarrow> bool" where
  "waiting_registered w \<longleftrightarrow>
     map_of (w_configs w) (generateConfigId OperationIdPrimaryDbCountSpecEnforcement
       OperationStepIdPrimaryDbWaitingBeforeFailingOver) = Some CreateOperationConfigWaitingBeforeForFailingOver"

lemma waiting_getConfig:
  "waiting_registered w \<Longrightarrow> op_OperationId ope = OperationIdPrimaryDbCountSpecEnforcement \<Longrightarrow>
   op_StepId ope = OperationStepIdPrimaryDbWaitingBeforeFailingOver \<Longrightarrow>
   getConfig ope w = CreateOperationConfigWaitingBeforeForFailingOver"
  by (simp add: getConfig_def waiting_registered_def)

lemma waitBefore_Ok:
  assumes "\<not> IsActiveOperationIdDifferentOf OperationIdPrimaryDbCountSpecEnforcement w" "waiting_registered w"
    "in_int64 (now + 10)"
  shows "\<exists>w1. waitBeforePromotingReplicaToPrimary now srv s w = (Ok, w1) \<and>
    status_BlockingOperation (w_status w1) =
      (waiting_request w (sw_InstanceIndex s))\<lparr>op_TimeOutEpocInSeconds := now + 10\<rparr> \<and> w_configs w1 = w_configs w"
proof -
  let ?d = "deletePrimaryStatefulSet srv w" and ?q = "waiting_request w (sw_InstanceIndex s)"
  have cfg: "getConfig ?q ?d = CreateOperationConfigWaitingBeforeForFailingOver"
    using assms(2) by (intro waiting_getConfig) (simp_all add: waiting_registered_def)
  have "fst (activateOperation now ?q ?d) = Ok"
    using assms(1) cfg
    by (auto simp: activateOperation_Ok_iff doesOperationHaveAssociatedConfig_def op_defs
        CreateOperationConfigWaitingBeforeForFailingOver_def)
  then obtain w1 where w1: "activateOperation now ?q ?d = (Ok, w1)" by (metis prod.collapse)
  have "ActivateOperationOnStatefulSet now OperationIdPrimaryDbCountSpecEnforcement
      OperationStepIdPrimaryDbWaitingBeforeFailingOver (sw_InstanceIndex s) ?d = (Ok, w1)"
    using w1 by (simp add: ActivateOperationOnStatefulSet_def waiting_request_def createStatefulSetOperationObj_def)
  moreover have "cfg_TimeOutInSeconds CreateOperationConfigWaitingBeforeForFailingOver = 10"
    by (simp add: CreateOperationConfigWaitingBeforeForFailingOver_def)
  ultimately show ?thesis
    using activateOperation_success [OF w1] activateOperation_frame(4) [OF w1] assms(3)
    by (simp add: waitBeforePromotingReplicaToPrimary_def cfg int64_id)
qed

lemma waiting_loaded:
  assumes "op_OperationId ope = OperationIdPrimaryDbCountSpecEnforcement"
    "op_StepId ope = OperationStepIdPrimaryDbWaitingBeforeFailingOver"
    "waiting_registered w" "status_BlockingOperation (w_status w) = ope"
    "op_TimeOutEpocInSeconds ope = d" "in_int64 d" "0 \<le> t1" "0 \<le> d" "in_int64 t1"
  shows "isWaitingBeforeStartingFailOver (snd (LoadActiveOperation t1 t2 t3 w)) \<longleftrightarrow> d \<le> t1"
proof -
  let ?v = "loadOperations w"
  have a: "w_activeOperation ?v = ope" by (simp add: loadOperations_def status_defs assms(4))
  have cfg: "getConfig ope' v = CreateOperationConfigWaitingBeforeForFailingOver"
    if "op_OperationId ope' = op_OperationId ope" "op_StepId ope' = op_StepId ope" "w_configs v = w_configs w" for ope' v
    using assms(1-3) that by (intro waiting_getConfig) (simp_all add: waiting_registered_def)
  have conf: "w_configs ?v = w_configs w" by (simp add: loadOperations_def)
  have "int64 (d - t1) = d - t1"
    using assms(6-9) by (intro int64_id) (auto simp: in_int64_def)
  then have timed: "hasOperationTimedOut t1 ?v \<longleftrightarrow> d \<le> t1"
    using a assms(5) by (simp add: hasOperationTimedOut_def)
  let ?m = "?v\<lparr>w_activeOperation := ope\<lparr>op_HasTimedOut := True\<rparr>\<rparr>"
  have "removeOperationIfNotActive t1 t2 ?v = (if d \<le> t1 then setActiveOperationInTransition True ?m else ?v)"
    using a timed assms(1,2) cfg [of "ope\<lparr>op_HasTimedOut := True\<rparr>" ?m] cfg [of ope ?v] conf
    by (simp add: removeOperationIfNotActive_def isThereActiveOperation_def isOperationInTransition_def
        hasCompletionChecker_def shouldOperationBeInTransition_def isOperationCompletionConditionReached_def
        CreateOperationConfigWaitingBeforeForFailingOver_def)
  with a assms(1,2) show ?thesis
    by (simp add: LoadActiveOperation_def isWaitingBeforeStartingFailOver_def IsActiveOperationInTransition_def Let_def)
qed

lemma FailOver_calls:
  assumes "FailOver now srv w = (r, w')"
  shows "w_calls w' = w_calls w \<or>
    \<not> IsActiveOperationIdDifferentOf OperationIdPrimaryDbCountSpecEnforcement w \<and>
    \<not> hasLastFailOverAttemptTimedOut w \<and>
    (if isWaitingBeforeStartingFailOver w then
       \<exists>s p. s \<in> set (GetAllSortedByInstanceIndex (rep_All (w_Replicas w))) \<and> sw_IsReady s \<and>
         promoted (cfs_ConfigLocations (rs_Config (w_states w))) (sw_StatefulSet s) = Some p \<and> isPrimary p \<and>
         sts_Name p = sts_Name (sw_StatefulSet s) \<and> w_calls w' = w_calls w @ [UpdateStatefulSet p]
     else w_calls w' = w_calls w @ [DeleteStatefulSet (sw_StatefulSet (w_Primary w))])"
proof -
  consider "IsActiveOperationIdDifferentOf OperationIdPrimaryDbCountSpecEnforcement w \<or> hasLastFailOverAttemptTimedOut w"
    | (no) "\<forall>s w1. selectReplicaToPromote w \<noteq> (Val s, w1)"
    | (go) s w1 where "\<not> IsActiveOperationIdDifferentOf OperationIdPrimaryDbCountSpecEnforcement w"
      "\<not> hasLastFailOverAttemptTimedOut w" "selectReplicaToPromote w = (Val s, w1)"
    by blast
  then show ?thesis
  proof cases
    case 1
    with assms show ?thesis by (auto simp: FailOver_def split: if_splits)
  next
    case no
    with assms selectReplicaToPromote_events [of w] show ?thesis
      by (auto simp: FailOver_def same_but_events_fields split: if_splits prod.splits res.splits)
  next
    case go
    note sel = selectReplicaToPromote_Val [OF go(3)]
    note ev = same_but_events_fields [OF sel(1)]
    show ?thesis
    proof (cases "isWaitingBeforeStartingFailOver w")
      case True
      with assms go have "promoteReplicaToPrimary now srv s w1 = (r, w')"
        by (simp add: FailOver_def isWaiting_pure [OF sel(1)])
      from promoteReplica_calls [OF this] sel(2,3) go(1,2) True show ?thesis
        by (auto simp: ev dest: promoted_isPrimary promoted_names intro!: exI [of _ s])
    next
      case False
      with assms go have "waitBeforePromotingReplicaToPrimary now srv s w1 = (r, w')"
        by (simp add: FailOver_def isWaiting_pure [OF sel(1)])
      from waitBeforePromoting_calls [OF this] go(1,2) False show ?thesis by (simp add: ev)
    qed
  qed
qed

section \<open>A failing cluster\<close>

text \<open>The primary 1 is not ready, the replicas 2 and 3 are.\<close>

definition failing_StatefulSets :: "StatefulSet list" where
  "failing_StatefulSets = [sample_StatefulSet 3 ''replica'' 1, sample_StatefulSet 1 ''primary'' 0,
     sample_StatefulSet 2 ''replica'' 1]"

definition failing_world :: world where
  "failing_world = sample_world
     \<lparr>w_states := zero_ResourcesStates\<lparr>rs_StatefulSets := loaded 3 3 [] failing_StatefulSets\<rparr>,
      w_kubegres := sample_Kubegres\<lparr>kg_Status := zero_Status\<lparr>status_EnforcedReplicas := 3\<rparr>\<rparr>,
      w_configs := [(generateConfigId OperationIdPrimaryDbCountSpecEnforcement
        OperationStepIdPrimaryDbWaitingBeforeFailingOver, CreateOperationConfigWaitingBeforeForFailingOver)]\<rparr>"

lemma sample_index [simp]: "in_int32 i \<Longrightarrow> sw_InstanceIndex (wrap pods (sample_StatefulSet i role n)) = i"
  by (simp add: wrap_def ParseInt32_Itoa Let_def)

lemma failing_states:
  "states_wf (rs_StatefulSets (w_states failing_world))"
  "GetAllSortedByInstanceIndex (rep_All (w_Replicas failing_world)) =
     [wrap [] (sample_StatefulSet 2 ''replica'' 1), wrap [] (sample_StatefulSet 3 ''replica'' 1)]"
  "isThereReadyReplica failing_world" "w_Primary failing_world = wrap [] (sample_StatefulSet 1 ''primary'' 0)"
proof -
  have "length (filter isPrimary failing_StatefulSets) \<le> 1"
    by (simp add: failing_StatefulSets_def isPrimary_def PrimaryRoleName_def)
  then show "states_wf (rs_StatefulSets (w_states failing_world))"
    using loaded_wf [of failing_StatefulSets 3 "[]"] by (simp add: failing_world_def failing_StatefulSets_def)
  show "GetAllSortedByInstanceIndex (rep_All (w_Replicas failing_world)) =
     [wrap [] (sample_StatefulSet 2 ''replica'' 1), wrap [] (sample_StatefulSet 3 ''replica'' 1)]"
    by (simp add: failing_world_def failing_StatefulSets_def loaded_def isPrimary_def PrimaryRoleName_def
          wrappers.build_def)
       (simp add: Add_def zero_StatefulSetWrappers_def GetAllSortedByInstanceIndex_def in_int32_def)
  show "isThereReadyReplica failing_world"
    by (simp add: failing_world_def failing_StatefulSets_def loaded_def isPrimary_def PrimaryRoleName_def
        isThereReadyReplica_def int32_id in_int32_def)
  show "w_Primary failing_world = wrap [] (sample_StatefulSet 1 ''primary'' 0)"
    by (simp add: failing_world_def failing_StatefulSets_def loaded_def isPrimary_def PrimaryRoleName_def)
qed

lemma failing_not_manual: "isManualFailoverRequested failing_world = (False, failing_world)"
  by (simp add: isManualFailoverRequested_def getInstanceIndexToManuallyPromote_def getPodToManuallyPromote_def
      failing_world_def sample_Kubegres_def sample_Spec_def)

lemma failing_selects:
  "selectReplicaToPromote failing_world = (Val (wrap [] (sample_StatefulSet 2 ''replica'' 1)), failing_world)"
  by (simp add: selectReplicaToPromote_def failing_not_manual failing_states)

lemma failing_free:
  "\<not> IsActiveOperationIdDifferentOf OperationIdPrimaryDbCountSpecEnforcement failing_world"
  "\<not> hasLastFailOverAttemptTimedOut failing_world" "\<not> isWaitingBeforeStartingFailOver failing_world"
  "waiting_registered failing_world"
  by (simp_all add: failing_world_def sample_world_def op_defs hasLastFailOverAttemptTimedOut_def
      isWaitingBeforeStartingFailOver_def waiting_registered_def)

section \<open>Properties\<close>

text \<open>
  C5: a failover sends at most one request. It deletes the failing primary only before the
  waiting step, and it promotes only after that step, only a replica that is ready, with the
  role of the primary. While another operation is active, or after a time-out, it sends nothing.
\<close>

theorem FailOver_requests:
  assumes "FailOver now srv w = (r, w')"
  shows "w_calls w' = w_calls w \<or>
    \<not> IsActiveOperationIdDifferentOf OperationIdPrimaryDbCountSpecEnforcement w \<and>
    \<not> hasLastFailOverAttemptTimedOut w \<and>
    (if isWaitingBeforeStartingFailOver w then
       \<exists>s p. s \<in> set (GetAllSortedByInstanceIndex (rep_All (w_Replicas w))) \<and> sw_IsReady s \<and>
         promoted (cfs_ConfigLocations (rs_Config (w_states w))) (sw_StatefulSet s) = Some p \<and> isPrimary p \<and>
         sts_Name p = sts_Name (sw_StatefulSet s) \<and> w_calls w' = w_calls w @ [UpdateStatefulSet p]
     else w_calls w' = w_calls w @ [DeleteStatefulSet (sw_StatefulSet (w_Primary w))])"
  using assms by (rule FailOver_calls)

theorem FailOver_requests_witness:
  "w_calls (snd (FailOver 1000 sample_server failing_world)) = w_calls failing_world \<or>
   w_calls (snd (FailOver 1000 sample_server failing_world)) =
     w_calls failing_world @ [DeleteStatefulSet (sample_StatefulSet 1 ''primary'' 0)]"
  using FailOver_requests [of 1000 sample_server failing_world "fst (FailOver 1000 sample_server failing_world)"
      "snd (FailOver 1000 sample_server failing_world)"]
  by (simp add: failing_free failing_states(4))

text \<open>
  C27: without a manual request the ready replica with the lowest index is chosen, and the
  choice succeeds as soon as one replica is ready; with a manual request the chosen replica
  is ready and has the index of the requested pod.
\<close>

theorem selectReplicaToPromote_choice:
  assumes "states_wf (rs_StatefulSets (w_states w))" "isThereReadyReplica w"
  shows "(\<not> fst (isManualFailoverRequested w) \<longrightarrow>
      (\<exists>s. fst (selectReplicaToPromote w) = Val s \<and> s \<in> set (GetAllSortedByInstanceIndex (rep_All (w_Replicas w))) \<and>
        sw_IsReady s \<and>
        (\<forall>t \<in> set (GetAllSortedByInstanceIndex (rep_All (w_Replicas w))).
           sw_IsReady t \<longrightarrow> sw_InstanceIndex s \<le> sw_InstanceIndex t)))
    \<and> (fst (isManualFailoverRequested w) \<longrightarrow> fst (selectReplicaToPromote w) = Val s \<longrightarrow>
        sw_IsReady s \<and> sw_InstanceIndex s = fst (getInstanceIndexToManuallyPromote w))"
proof (intro conjI impI)
  let ?reps = "GetAllSortedByInstanceIndex (rep_All (w_Replicas w))"
  have "0 < length (filter sw_IsReady ?reps)" and sorted: "sorted (map sw_InstanceIndex ?reps)"
    using assms by (auto simp: states_wf_def isThereReadyReplica_def Let_def)
  then have "\<exists>s \<in> set ?reps. sw_IsReady s" by (metis filter_False length_0_conv less_numeral_extra(3))
  then obtain s where s: "find sw_IsReady ?reps = Some s" by (metis find_None_iff option.exhaust)
  assume nm: "\<not> fst (isManualFailoverRequested w)"
  obtain m v where m: "isManualFailoverRequested w = (m, v)" by fastforce
  then have "same_but_events w v" using isManual_events [of w] by simp
  with nm m s have "selectReplicaToPromote w = (Val s, v)"
    by (simp add: selectReplicaToPromote_def same_but_events_fields)
  then show "\<exists>s. fst (selectReplicaToPromote w) = Val s \<and> s \<in> set ?reps \<and> sw_IsReady s \<and>
      (\<forall>t \<in> set ?reps. sw_IsReady t \<longrightarrow> sw_InstanceIndex s \<le> sw_InstanceIndex t)"
    using find_SomeD [OF s] first_ready_least [OF s sorted] by auto
next
  assume "fst (isManualFailoverRequested w)" "fst (selectReplicaToPromote w) = Val s"
  then show "sw_IsReady s" "sw_InstanceIndex s = fst (getInstanceIndexToManuallyPromote w)"
    using selectReplicaToPromote_Val [of w s "snd (selectReplicaToPromote w)"] by (metis prod.collapse)+
qed

theorem selectReplicaToPromote_choice_witness:
  "\<exists>s. fst (selectReplicaToPromote failing_world) = Val s \<and> sw_IsReady s \<and> sw_InstanceIndex s \<le> 3"
  using selectReplicaToPromote_choice [OF failing_states(1,3)]
  by (auto simp: failing_not_manual failing_states(2) in_int32_def)

text \<open>
  C20: the two phases. When a failover starts, the first phase succeeds and persists a
  waiting operation. Over the following reconciliations the second phase, the promotion,
  opens exactly when the clock has advanced by 10 seconds.
\<close>

theorem failover_waits_ten_seconds:
  assumes "\<not> IsActiveOperationIdDifferentOf OperationIdPrimaryDbCountSpecEnforcement w"
    and "\<not> hasLastFailOverAttemptTimedOut w" "\<not> isWaitingBeforeStartingFailOver w"
    and "selectReplicaToPromote w = (Val s, v)" "waiting_registered w"
    and "0 \<le> now" "in_int64 (now + 10)" "0 \<le> t1" "in_int64 t1"
  shows "\<exists>w1. FailOver now srv w = (Ok, w1) \<and>
    (isWaitingBeforeStartingFailOver (snd (LoadActiveOperation t1 t2 t3
       ((CreateBlockingOperation (w_kubegres w1))\<lparr>w_configs := w_configs w\<rparr>))) \<longleftrightarrow> now + 10 \<le> t1)"
proof -
  note sel = selectReplicaToPromote_Val(1) [OF assms(4)]
  note ev = same_but_events_fields [OF sel]
  have "\<not> IsActiveOperationIdDifferentOf OperationIdPrimaryDbCountSpecEnforcement v" "waiting_registered v"
    using assms(1,5) by (simp_all add: IsActiveOperationIdDifferentOf_def isThereActiveOperation_def
        waiting_registered_def ev)
  then obtain w1 where w1: "waitBeforePromotingReplicaToPrimary now srv s v = (Ok, w1)"
    "status_BlockingOperation (w_status w1) =
      (waiting_request v (sw_InstanceIndex s))\<lparr>op_TimeOutEpocInSeconds := now + 10\<rparr>"
    using waitBefore_Ok assms(7) by blast
  have "FailOver now srv w = (Ok, w1)"
    using assms(1-4) w1(1) by (simp add: FailOver_def isWaiting_pure [OF sel])
  moreover have "isWaitingBeforeStartingFailOver (snd (LoadActiveOperation t1 t2 t3
       ((CreateBlockingOperation (w_kubegres w1))\<lparr>w_configs := w_configs w\<rparr>))) \<longleftrightarrow> now + 10 \<le> t1"
    by (rule waiting_loaded
          [of "(waiting_request v (sw_InstanceIndex s))\<lparr>op_TimeOutEpocInSeconds := now + 10\<rparr>" _ "now + 10"])
       (use assms(5-9) w1(2) in \<open>simp_all add: waiting_registered_def CreateBlockingOperation_def\<close>)
  ultimately show ?thesis by blast
qed

theorem failover_waits_ten_seconds_witness:
  "\<exists>w1. FailOver 1000 sample_server failing_world = (Ok, w1) \<and>
     isWaitingBeforeStartingFailOver (snd (LoadActiveOperation 1010 1010 1010
       ((CreateBlockingOperation (w_kubegres w1))\<lparr>w_configs := w_configs failing_world\<rparr>)))"
  using failover_waits_ten_seconds [OF failing_free(1-3) failing_selects failing_free(4), of 1000 1010]
  by (simp add: in_int64_def)

text \<open>
  C37: when the API server rejects the promotion, the operation is released and the failure
  is reported as an event, but the caller is told that the failover succeeded.
\<close>

theorem rejected_promotion_returns_Ok:
  assumes "promoted (cfs_ConfigLocations (rs_Config (w_states w))) (sw_StatefulSet s) = Some p"
    and "\<forall>cs. srv_write srv cs (UpdateStatefulSet p) = Some e"
    and "\<not> IsActiveOperationIdDifferentOf OperationIdPrimaryDbCountSpecEnforcement w"
    and "map_of (w_configs w) (generateConfigId OperationIdPrimaryDbCountSpecEnforcement
           OperationStepIdPrimaryDbFailingOver) = Some (CreateOperationConfigForFailingOver rs)"
  shows "\<exists>w'. promoteReplicaToPrimary now srv s w = (Ok, w') \<and> w_calls w' = w_calls w @ [UpdateStatefulSet p] \<and>
    w_activeOperation w' = zero_Operation \<and> last (w_events w') = Event EventTypeWarning ''FailOverErr''"
proof -
  let ?w0 = "w\<lparr>w_states := share s (s\<lparr>sw_StatefulSet := p\<rparr>) (w_states w)\<rparr>"
  obtain r w1 where a: "ActivateOperationOnStatefulSet now OperationIdPrimaryDbCountSpecEnforcement
      OperationStepIdPrimaryDbFailingOver (sw_InstanceIndex s) ?w0 = (r, w1)" by fastforce
  have "fst (ActivateOperationOnStatefulSet now OperationIdPrimaryDbCountSpecEnforcement
      OperationStepIdPrimaryDbFailingOver (sw_InstanceIndex s) ?w0) = Ok"
    using assms(3,4)
    by (auto simp: ActivateOperationOnStatefulSet_def activateOperation_Ok_iff op_defs createOperationObj_def
        doesOperationHaveAssociatedConfig_def getConfig_def CreateOperationConfigForFailingOver_def)
  with a have "r = Ok" by simp
  with a assms(1,2) ActivateOnStatefulSet_frame [OF a] show ?thesis
    by (simp add: promoteReplicaToPrimary_def client_write_def ErrorEvent_def)
qed

definition labelled_replica :: StatefulSetWrapper where
  "labelled_replica = wrap [] ((sample_StatefulSet 2 ''replica'' 1)
     \<lparr>sts_meta := zero_ObjectMeta\<lparr>md_Name := ''mypostgres-2'', md_Labels := [(''app'', ''mypostgres'')]\<rparr>,
      sts_Template := \<lparr>pt_Labels = [(''index'', ''2'')], pt_Annotations = [],
        pt_Spec = sample_PodSpec\<lparr>ps_InitContainers := [replica_init_container]\<rparr>\<rparr>\<rparr>)"

theorem rejected_promotion_returns_Ok_witness:
  "\<exists>w'. promoteReplicaToPrimary 1000 (sample_server\<lparr>srv_write := \<lambda>_ _. Some (ApiError ''conflict'')\<rparr>) labelled_replica
     (failing_world\<lparr>w_configs := [(generateConfigId OperationIdPrimaryDbCountSpecEnforcement
        OperationStepIdPrimaryDbFailingOver, CreateOperationConfigForFailingOver zero_ResourcesStates)]\<rparr>) = (Ok, w')
     \<and> w_activeOperation w' = zero_Operation"
proof -
  let ?srv = "sample_server\<lparr>srv_write := \<lambda>_ _. Some (ApiError ''conflict'')\<rparr>"
  let ?w = "failing_world\<lparr>w_configs := [(generateConfigId OperationIdPrimaryDbCountSpecEnforcement
        OperationStepIdPrimaryDbFailingOver, CreateOperationConfigForFailingOver zero_ResourcesStates)]\<rparr>"
  obtain p where p: "promoted (cfs_ConfigLocations (rs_Config (w_states ?w))) (sw_StatefulSet labelled_replica) = Some p"
    by (simp add: promoted_def labelled_replica_def map_set_def)
  have "\<not> IsActiveOperationIdDifferentOf OperationIdPrimaryDbCountSpecEnforcement ?w"
    using failing_free(1) by (simp add: op_defs)
  then show ?thesis
    using rejected_promotion_returns_Ok [OF p, of ?srv "ApiError ''conflict''" zero_ResourcesStates 1000] by auto
qed

end
