(* ===== verification/Primary_Enforcer.thy ===== *)
theory Primary_Enforcer
  imports Failover
begin

text \<open>
  \<open>src/controllers/spec/enforcer/resources_count_spec/statefulset/PrimaryDbCountSpecEnforcer.go\<close>:
  a cluster has one primary. The enforcer fails over to a replica when it can, and deploys a
  new primary when nothing is deployed.
\<close>

section \<open>Definitions\<close>

definition CreateOperationConfigForPrimaryDbDeploying :: "ResourcesStates \<Rightarrow> BlockingOperationConfig" where
  "CreateOperationConfigForPrimaryDbDeploying rs =
     \<lparr>cfg_OperationId = OperationIdPrimaryDbCountSpecEnforcement,
      cfg_StepId = OperationStepIdPrimaryDbDeploying, cfg_TimeOutInSeconds = 300,
      cfg_CompletionChecker = Some (\<lambda>_ _. (sw_IsReady (rs_Primary rs), [])),
      cfg_AfterCompletionMoveToTransitionStep = False\<rparr>"

definition isStandbyEnabled :: "world \<Rightarrow> bool" where
  "isStandbyEnabled w \<longleftrightarrow> standby_Enabled (spec_Standby (w_spec w))"

definition initialiseStatusEnforcedReplicas :: "world \<Rightarrow> outcome \<times> world" where
  "initialiseStatusEnforcedReplicas w =
     (if status_EnforcedReplicas (w_status w) > 0 then (Ok, w)
      else case spec_Replicas (w_spec w) of
             None \<Rightarrow> (Panic, w)
           | Some specReplicas \<Rightarrow>
               if specReplicas \<ge> 1 \<and> specReplicas = sss_NbreDeployed (rs_StatefulSets (w_states w))
               then (Ok, SetEnforcedReplicas specReplicas w) else (Ok, w))"

definition hasLastPrimaryCountSpecEnforcementAttemptTimedOut :: "world \<Rightarrow> bool" where
  "hasLastPrimaryCountSpecEnforcementAttemptTimedOut w \<longleftrightarrow>
     HasActiveOperationIdTimedOut OperationIdPrimaryDbCountSpecEnforcement w"

text \<open>\<open>None\<close>: the nil dereference of \<open>Spec.Replicas\<close>.\<close>

definition shouldWeDeployNewPrimaryDb :: "world \<Rightarrow> bool option" where
  "shouldWeDeployNewPrimaryDb w =
     (if \<not> sw_IsDeployed (w_Primary w) \<and> rep_NbreDeployed (w_Replicas w) = 0 then
        map_option (\<lambda>n. n = 1 \<or> \<not> hasPrimaryEverBeenDeployed w) (spec_Replicas (w_spec w))
      else Some False)"

text \<open>The error of the \<open>Get\<close> is ignored: the claim is then the empty object.\<close>

definition getLastDeployedPrimaryPvc :: "server \<Rightarrow> world \<Rightarrow> PersistentVolumeClaim" where
  "getLastDeployedPrimaryPvc srv w =
     (case srv_get_PersistentVolumeClaim srv (w_calls w) (kg_Namespace (w_kubegres w))
             (''postgres-db-'' @ kg_Name (w_kubegres w) @ ''-'' @ Itoa (GetLastCreatedInstanceIndex w) @ ''-0'') of
        Inr pvc \<Rightarrow> pvc
      | Inl _ \<Rightarrow> zero_PersistentVolumeClaim)"

definition getInstanceIndexIfPrimaryNeedsToBeRecreatedAndThereIsNoReplicaSetUp ::
  "server \<Rightarrow> world \<Rightarrow> (int \<times> world) option" where
  "getInstanceIndexIfPrimaryNeedsToBeRecreatedAndThereIsNoReplicaSetUp srv w =
     (case spec_Replicas (w_spec w) of
        None \<Rightarrow> None
      | Some n \<Rightarrow>
          if n > 1 \<or> GetLastCreatedInstanceIndex w = 0 then Some (0, w)
          else
            let primaryPvc = getLastDeployedPrimaryPvc srv w;
                w1 = InfoEvent ''RecreatingPrimaryStatefulSet'' w
            in Some (if pvc_Name primaryPvc \<noteq> '''' then GetLastCreatedInstanceIndex w else 0, w1))"

definition deployNewPrimaryStatefulSet :: "int \<Rightarrow> server \<Rightarrow> world \<Rightarrow> outcome \<times> world" where
  "deployNewPrimaryStatefulSet now srv w =
     (if hasLastPrimaryCountSpecEnforcementAttemptTimedOut w then
        (Ok, ErrorEvent ''PrimaryStatefulSetDeploymentTimedOutErr'' w)
      else case getInstanceIndexIfPrimaryNeedsToBeRecreatedAndThereIsNoReplicaSetUp srv w of
        None \<Rightarrow> (Panic, w)
      | Some (i, w1) \<Rightarrow>
          let instanceIndex = (if i = 0 then int32 (GetLastCreatedInstanceIndex w1 + 1) else i) in
          (case ActivateOperationOnStatefulSet now OperationIdPrimaryDbCountSpecEnforcement
                  OperationStepIdPrimaryDbDeploying instanceIndex w1 of
             (Ok, w2) \<Rightarrow>
               (case CreatePrimaryStatefulSet srv instanceIndex w2 of
                  None \<Rightarrow> (Panic, w2)
                | Some primaryStatefulSet \<Rightarrow>
                    (case client_write srv (CreateStatefulSet primaryStatefulSet) w2 of
                       (Some err, w3) \<Rightarrow>
                         (Err err, RemoveActiveOperation (ErrorEvent ''PrimaryStatefulSetDeploymentErr'' w3))
                     | (None, w3) \<Rightarrow>
                         let w4 = SetEnforcedReplicas (int32 (status_EnforcedReplicas (w_status w3) + 1)) w3;
                             w5 = (if GetLastCreatedInstanceIndex w4 = 0 then SetLastCreatedInstanceIndex 1 w4 else w4)
                         in (Ok, InfoEvent ''PrimaryStatefulSetDeployment'' w5)))
           | (r, w2) \<Rightarrow> (r, ErrorEvent ''PrimaryStatefulSetOperationActivationErr'' w2)))"

text \<open>The part of \<open>Enforce\<close> after the initialisation of the status.\<close>

definition enforce_primary_count :: "int \<Rightarrow> server \<Rightarrow> world \<Rightarrow> outcome \<times> world" where
  "enforce_primary_count now srv w =
     (if IsActiveOperationIdDifferentOf OperationIdPrimaryDbCountSpecEnforcement w then (Ok, w)
      else
        let w1 = (if isPrimaryDbReady w \<and> hasLastPrimaryCountSpecEnforcementAttemptTimedOut w
                  then InfoEvent ''KubegresReEnabled'' (RemoveActiveOperation w) else w);
            (failOver, w2) = ShouldWeFailOver w1
        in if failOver then FailOver now srv w2
           else case shouldWeDeployNewPrimaryDb w2 of
                  None \<Rightarrow> (Panic, w2)
                | Some True \<Rightarrow> deployNewPrimaryStatefulSet now srv w2
                | Some False \<Rightarrow> (Ok, w2))"

definition PrimaryDbCountSpecEnforcer_Enforce :: "int \<Rightarrow> server \<Rightarrow> world \<Rightarrow> outcome \<times> world" where
  "PrimaryDbCountSpecEnforcer_Enforce now srv w =
     (if isStandbyEnabled w then (Ok, InfoEvent ''PrimaryDbCountSpecEnforcerDisabled'' w)
      else and_then initialiseStatusEnforcedReplicas (enforce_primary_count now srv) w)"

section \<open>Requests of the primary enforcer\<close>

lemma initialise_frame:
  assumes "initialiseStatusEnforcedReplicas w = (r, w')"
  shows "w_calls w' = w_calls w" "w_states w' = w_states w" "w_spec w' = w_spec w" "w_configs w' = w_configs w"
    "w_activeOperation w' = w_activeOperation w" "kg_meta (w_kubegres w') = kg_meta (w_kubegres w)"
    "w_previouslyActiveOperation w' = w_previouslyActiveOperation w"
  using assms by (auto simp: initialiseStatusEnforcedReplicas_def split: if_splits option.splits)

lemma GetStatefulSetResourceName_cong:
  "kg_meta k = kg_meta k' \<Longrightarrow> GetStatefulSetResourceName k i = GetStatefulSetResourceName k' i"
  by (simp add: GetStatefulSetResourceName_def)

lemma ActivateOnStatefulSet_meta:
  "ActivateOperationOnStatefulSet now oid sid i w = (r, w') \<Longrightarrow> kg_meta (w_kubegres w') = kg_meta (w_kubegres w)"
  unfolding ActivateOperationOnStatefulSet_def by (rule activateOperation_frame)

definition creates_primary :: "world \<Rightarrow> api_call \<Rightarrow> bool" where
  "creates_primary w c \<longleftrightarrow>
     (\<exists>s i. c = CreateStatefulSet s \<and> isPrimary s \<and> sts_Name s = GetStatefulSetResourceName (w_kubegres w) i \<and>
        md_Namespace (sts_meta s) = kg_Namespace (w_kubegres w))"

lemma deployNewPrimary_calls:
  assumes "deployNewPrimaryStatefulSet now srv w = (r, w')"
  shows "w_calls w' = w_calls w \<or> (\<exists>c. creates_primary w c \<and> w_calls w' = w_calls w @ [c])"
proof (cases "getInstanceIndexIfPrimaryNeedsToBeRecreatedAndThereIsNoReplicaSetUp srv w")
  case None
  with assms show ?thesis by (auto simp: deployNewPrimaryStatefulSet_def split: if_splits)
next
  case (Some p)
  obtain i w1 where p: "p = (i, w1)" by fastforce
  from Some have w1: "w_calls w1 = w_calls w" "kg_meta (w_kubegres w1) = kg_meta (w_kubegres w)"
    by (auto simp: p getInstanceIndexIfPrimaryNeedsToBeRecreatedAndThereIsNoReplicaSetUp_def Let_def
        split: option.splits if_splits)
  let ?i = "if i = 0 then int32 (GetLastCreatedInstanceIndex w1 + 1) else i"
  obtain ra w2 where a: "ActivateOperationOnStatefulSet now OperationIdPrimaryDbCountSpecEnforcement
      OperationStepIdPrimaryDbDeploying ?i w1 = (ra, w2)" by fastforce
  have w2: "w_calls w2 = w_calls w" "kg_meta (w_kubegres w2) = kg_meta (w_kubegres w)"
    using ActivateOnStatefulSet_frame(1) [OF a] ActivateOnStatefulSet_meta [OF a] w1 by simp_all
  show ?thesis
  proof (cases "ra = Ok")
    case False
    with assms Some a w2 show ?thesis
      by (cases ra) (auto simp: deployNewPrimaryStatefulSet_def p split: if_splits)
  next
    case True
    show ?thesis
    proof (cases "CreatePrimaryStatefulSet srv ?i w2")
      case None
      with assms Some a True w2 show ?thesis
        by (auto simp: deployNewPrimaryStatefulSet_def p Let_def split: if_splits)
    next
      case (Some s)
      have "creates_primary w (CreateStatefulSet s)"
        using CreatePrimary_facts [OF Some] GetStatefulSetResourceName_cong [OF w2(2)] w2(2)
        by (auto simp: creates_primary_def)
      with assms \<open>getInstanceIndexIfPrimaryNeedsToBeRecreatedAndThereIsNoReplicaSetUp srv w = Some p\<close> a True w2 Some
      show ?thesis
        by (auto simp: deployNewPrimaryStatefulSet_def p Let_def client_write_def split: if_splits option.splits)
    qed
  qed
qed

text \<open>When a failover is due, whoever asks for it.\<close>

definition failover_due :: "world \<Rightarrow> bool" where
  "failover_due w \<longleftrightarrow> isThereReadyReplica w \<and>
     (fst (isManualFailoverRequested w) \<or> isNewPrimaryRequired w \<and> \<not> isAutomaticFailoverDisabled w)"

definition promotes_replica :: "world \<Rightarrow> api_call \<Rightarrow> bool" where
  "promotes_replica w c \<longleftrightarrow>
     (\<exists>s p. c = UpdateStatefulSet p \<and> isPrimary p \<and> sts_Name p = sts_Name (sw_StatefulSet s) \<and>
        s \<in> set (GetAllSortedByInstanceIndex (rep_All (w_Replicas w))) \<and> sw_IsReady s)"

text \<open>What the primary enforcer reads besides the operation and the status.\<close>

definition same_inputs :: "world \<Rightarrow> world \<Rightarrow> bool" where
  "same_inputs w v \<longleftrightarrow> w_states v = w_states w \<and> w_spec v = w_spec w \<and>
     kg_meta (w_kubegres v) = kg_meta (w_kubegres w) \<and> w_calls v = w_calls w"

lemma same_inputs_fields:
  assumes "same_inputs w v"
  shows "w_states v = w_states w" "w_spec v = w_spec w" "kg_meta (w_kubegres v) = kg_meta (w_kubegres w)"
    "w_calls v = w_calls w"
  using assms by (simp_all add: same_inputs_def)

lemma same_inputs_failover_due: "same_inputs w v \<Longrightarrow> failover_due v = failover_due w"
  by (simp add: failover_due_def isThereReadyReplica_def isManual_iff isNewPrimaryRequired_def
      isPrimaryDbDeployed_def isPrimaryDbReady_def isAutomaticFailoverDisabled_def same_inputs_fields
      getInstanceIndexToManuallyPromote_def getPodToManuallyPromote_def Let_def split: option.splits)

lemma same_inputs_calls:
  assumes "same_inputs w v"
  shows "creates_primary v c = creates_primary w c" "promotes_replica v c = promotes_replica w c"
  using GetStatefulSetResourceName_cong [OF same_inputs_fields(3) [OF assms]] assms
  by (simp_all add: creates_primary_def promotes_replica_def same_inputs_fields)

lemma enforce_primary_count_calls:
  assumes "enforce_primary_count now srv w = (r, w')"
  shows "w_calls w' = w_calls w \<or>
    \<not> IsActiveOperationIdDifferentOf OperationIdPrimaryDbCountSpecEnforcement w \<and>
    (\<exists>c. w_calls w' = w_calls w @ [c] \<and>
      (creates_primary w c \<and> \<not> sw_IsDeployed (w_Primary w) \<and> rep_NbreDeployed (w_Replicas w) = 0 \<or>
       (c = DeleteStatefulSet (sw_StatefulSet (w_Primary w)) \<or> promotes_replica w c) \<and> failover_due w))"
proof (cases "IsActiveOperationIdDifferentOf OperationIdPrimaryDbCountSpecEnforcement w")
  case True
  with assms show ?thesis by (simp add: enforce_primary_count_def)
next
  case False
  let ?w1 = "if isPrimaryDbReady w \<and> hasLastPrimaryCountSpecEnforcementAttemptTimedOut w
    then InfoEvent ''KubegresReEnabled'' (RemoveActiveOperation w) else w"
  obtain f w2 where f: "ShouldWeFailOver ?w1 = (f, w2)" by fastforce
  have in1: "same_inputs w ?w1" by (simp add: same_inputs_def)
  have in2: "same_inputs w w2"
    using ShouldWeFailOver_events [of ?w1] f in1 by (simp add: same_inputs_def same_but_events_fields)
  note fields = same_inputs_fields [OF in2]
  note e = assms [unfolded enforce_primary_count_def Let_def f prod.case]
  show ?thesis
  proof (cases f)
    case True
    then have due: "failover_due w"
      using ShouldWeFailOver_iff [of ?w1] f same_inputs_failover_due [OF in1] by (simp add: failover_due_def)
    have "FailOver now srv w2 = (r, w')" using e True False by simp
    from FailOver_calls [OF this] False due show ?thesis
      by (auto simp: fields promotes_replica_def split: if_splits)
  next
    case notf: False
    show ?thesis
    proof (cases "shouldWeDeployNewPrimaryDb w2 = Some True")
      case True
      then have "\<not> sw_IsDeployed (w_Primary w)" "rep_NbreDeployed (w_Replicas w) = 0"
        by (simp_all add: shouldWeDeployNewPrimaryDb_def fields split: if_splits)
      moreover have "deployNewPrimaryStatefulSet now srv w2 = (r, w')" using e True False notf by simp
      ultimately show ?thesis
        using deployNewPrimary_calls [of now srv w2 r w'] False
        by (auto simp: fields same_inputs_calls [OF in2])
    next
      case no: False
      with e False notf have "w' = w2" by (auto split: option.splits bool.splits)
      then show ?thesis by (simp add: fields)
    qed
  qed
qed

section \<open>Properties\<close>

text \<open>
  C8: the primary enforcer sends at most one request, and only when no other operation is
  active and standby is off. It creates a primary only when neither a primary nor any
  replica is deployed; it deletes the current primary or promotes a replica, which is ready,
  only when a failover is due.
\<close>

theorem PrimaryDbCountSpecEnforcer_requests:
  assumes "PrimaryDbCountSpecEnforcer_Enforce now srv w = (r, w')"
  shows "w_calls w' = w_calls w \<or>
    \<not> isStandbyEnabled w \<and> \<not> IsActiveOperationIdDifferentOf OperationIdPrimaryDbCountSpecEnforcement w \<and>
    (\<exists>c. w_calls w' = w_calls w @ [c] \<and>
      (creates_primary w c \<and> \<not> sw_IsDeployed (w_Primary w) \<and> rep_NbreDeployed (w_Replicas w) = 0 \<or>
       (c = DeleteStatefulSet (sw_StatefulSet (w_Primary w)) \<or> promotes_replica w c) \<and> failover_due w))"
proof (cases "isStandbyEnabled w")
  case True
  with assms show ?thesis by (auto simp: PrimaryDbCountSpecEnforcer_Enforce_def)
next
  case False
  with assms have "and_then initialiseStatusEnforcedReplicas (enforce_primary_count now srv) w = (r, w')"
    by (simp add: PrimaryDbCountSpecEnforcer_Enforce_def)
  then show ?thesis
  proof (cases rule: and_then_cases)
    case first
    then show ?thesis by (simp add: initialise_frame)
  next
    case (second v)
    note fr = initialise_frame [OF second(1)]
    have in1: "same_inputs w v" by (simp add: same_inputs_def fr)
    show ?thesis
      using enforce_primary_count_calls [OF second(2)] False
      by (auto simp: fr same_inputs_calls [OF in1] same_inputs_failover_due [OF in1] op_defs)
  qed
qed

theorem PrimaryDbCountSpecEnforcer_requests_witness:
  "\<exists>r w' c. PrimaryDbCountSpecEnforcer_Enforce 1000 sample_server failing_world = (r, w') \<and>
     w_calls w' = [c] \<and> c = DeleteStatefulSet (sample_StatefulSet 1 ''primary'' 0) \<and> failover_due failing_world"
proof -
  let ?w = failing_world
  have init: "initialiseStatusEnforcedReplicas ?w = (Ok, ?w)"
    by (simp add: initialiseStatusEnforcedReplicas_def failing_world_def)
  have np: "isNewPrimaryRequired ?w"
    by (simp add: isNewPrimaryRequired_def isPrimaryDbReady_def failing_states(4))
  have s: "ShouldWeFailOver ?w = (True, ?w)"
    using failing_states(3) np
    by (simp add: ShouldWeFailOver_def failing_not_manual hasPrimaryEverBeenDeployed_def isAutomaticFailoverDisabled_def)
       (simp add: failing_world_def sample_Kubegres_def sample_Spec_def)
  have "hasLastPrimaryCountSpecEnforcementAttemptTimedOut ?w = hasLastFailOverAttemptTimedOut ?w"
    by (simp add: hasLastPrimaryCountSpecEnforcementAttemptTimedOut_def hasLastFailOverAttemptTimedOut_def)
  then have e: "PrimaryDbCountSpecEnforcer_Enforce 1000 sample_server ?w =
      waitBeforePromotingReplicaToPrimary 1000 sample_server (wrap [] (sample_StatefulSet 2 ''replica'' 1)) ?w"
    by (simp add: PrimaryDbCountSpecEnforcer_Enforce_def and_then_def init enforce_primary_count_def s FailOver_def
        failing_free failing_selects isStandbyEnabled_def)
       (simp add: failing_world_def sample_Kubegres_def sample_Spec_def)
  obtain r w' where rw: "PrimaryDbCountSpecEnforcer_Enforce 1000 sample_server ?w = (r, w')" by fastforce
  have "w_calls w' = [DeleteStatefulSet (sample_StatefulSet 1 ''primary'' 0)]"
    using waitBeforePromoting_calls [of 1000 sample_server _ ?w r w'] rw
    by (simp add: e failing_states(4)) (simp add: failing_world_def sample_world_def)
  moreover have "w_calls ?w = []" by (simp add: failing_world_def sample_world_def)
  ultimately show ?thesis
    using PrimaryDbCountSpecEnforcer_requests [OF rw] rw by (auto simp: creates_primary_def)
qed

end
