(* ===== verification/Replica_Enforcer.thy ===== *)
theory Replica_Enforcer
  imports Primary_Enforcer
begin

text \<open>
  \<open>src/controllers/spec/enforcer/resources_count_spec/statefulset/ReplicaDbCountSpecEnforcer.go\<close>:
  the number of replicas follows the spec, one replica per reconciliation.
\<close>

section \<open>Operation configurations\<close>

definition isReplicaDbReady :: "ResourcesStates \<Rightarrow> KubegresBlockingOperation \<Rightarrow> bool \<times> event list" where
  "isReplicaDbReady rs operation =
     (case GetByInstanceIndex (sop_InstanceIndex (op_StatefulSetOperation operation)) (rep_All (rs_Replicas rs)) of
        (_, Some _) \<Rightarrow>
          (False, [Event EventTypeNormal
             (''A replica StatefulSet's instanceIndex does not exist. As a result '' @
              ''we will return false inside a blocking operation completion checker '' @ [CHR 0x27] @
              ''isReplicaDbReady()'' @ [CHR 0x27])])
      | (s, None) \<Rightarrow> (sw_IsReady s, []))"

definition isReplicaDbUndeployed :: "ResourcesStates \<Rightarrow> KubegresBlockingOperation \<Rightarrow> bool \<times> event list" where
  "isReplicaDbUndeployed rs operation =
     (snd (GetByInstanceIndex (sop_InstanceIndex (op_StatefulSetOperation operation)) (rep_All (rs_Replicas rs)))
        \<noteq> None, [])"

definition CreateOperationConfigForReplicaDbDeploying :: "ResourcesStates \<Rightarrow> BlockingOperationConfig" where
  "CreateOperationConfigForReplicaDbDeploying rs =
     \<lparr>cfg_OperationId = OperationIdReplicaDbCountSpecEnforcement,
      cfg_StepId = OperationStepIdReplicaDbDeploying, cfg_TimeOutInSeconds = 300,
      cfg_CompletionChecker = Some (\<lambda>_. isReplicaDbReady rs), cfg_AfterCompletionMoveToTransitionStep = False\<rparr>"

definition CreateOperationConfigForReplicaDbUndeploying :: "ResourcesStates \<Rightarrow> BlockingOperationConfig" where
  "CreateOperationConfigForReplicaDbUndeploying rs =
     \<lparr>cfg_OperationId = OperationIdReplicaDbCountSpecEnforcement,
      cfg_StepId = OperationStepIdReplicaDbUndeploying, cfg_TimeOutInSeconds = 60,
      cfg_CompletionChecker = Some (\<lambda>_. isReplicaDbUndeployed rs), cfg_AfterCompletionMoveToTransitionStep = False\<rparr>"

section \<open>Queries\<close>

definition hasLastAttemptTimedOut :: "world \<Rightarrow> bool" where
  "hasLastAttemptTimedOut w \<longleftrightarrow> HasActiveOperationIdTimedOut OperationIdReplicaDbCountSpecEnforcement w"

definition isPreviouslyFailedAttemptOnReplicaDbFixed :: "world \<Rightarrow> bool" where
  "isPreviouslyFailedAttemptOnReplicaDbFixed w =
     (let (replica, err) = GetByInstanceIndex
            (sop_InstanceIndex (op_StatefulSetOperation (GetActiveOperation w))) (rep_All (w_Replicas w))
      in err \<noteq> None \<or> sw_IsReady replica)"

definition isReplicaOperationInProgress :: "world \<Rightarrow> bool" where
  "isReplicaOperationInProgress w \<longleftrightarrow>
     op_OperationId (GetActiveOperation w) = OperationIdReplicaDbCountSpecEnforcement"

definition getDeployedReplicas :: "world \<Rightarrow> StatefulSetWrapper list" where
  "getDeployedReplicas w = GetAllSortedByInstanceIndex (rep_All (w_Replicas w))"

definition getNbreDeployedReplicas :: "world \<Rightarrow> int" where
  "getNbreDeployedReplicas w = rep_NbreDeployed (w_Replicas w)"

definition getExpectedNbreReplicasToDeploy :: "world \<Rightarrow> int" where
  "getExpectedNbreReplicasToDeploy w =
     (let expectedNbreToDeploy = sss_SpecExpectedNbreToDeploy (rs_StatefulSets (w_states w)) in
      if isStandbyEnabled w then expectedNbreToDeploy
      else if expectedNbreToDeploy \<le> 1 then 0
      else int32 (expectedNbreToDeploy - 1))"

definition replica_isManualFailoverRequested :: "world \<Rightarrow> bool" where
  "replica_isManualFailoverRequested w \<longleftrightarrow> failover_PromotePod (spec_Failover (w_spec w)) \<noteq> ''''"

definition doesSpecRequireTheDeploymentOfAdditionalReplicas :: "world \<Rightarrow> bool option" where
  "doesSpecRequireTheDeploymentOfAdditionalReplicas w =
     map_option (\<lambda>n. n > status_EnforcedReplicas (w_status w)) (spec_Replicas (w_spec w))"

definition getReplicaToUndeploy :: "world \<Rightarrow> StatefulSetWrapper" where
  "getReplicaToUndeploy w =
     (case GetAllReverseSortedByInstanceIndex (rep_All (w_Replicas w)) of
        [] \<Rightarrow> zero_StatefulSetWrapper
      | s # _ \<Rightarrow> s)"

section \<open>Actions\<close>

definition logTimedOut :: "world \<Rightarrow> world" where
  "logTimedOut w = ErrorEvent ''ReplicaStatefulSetDeploymentTimedOutErr'' w"

text \<open>The error of the \<open>Update\<close> is returned, and the caller ignores it.\<close>

definition resetInSpecManualFailover :: "server \<Rightarrow> world \<Rightarrow> go_error option \<times> world" where
  "resetInSpecManualFailover srv w =
     client_update_Kubegres srv
       (upd_spec (\<lambda>s. s\<lparr>spec_Failover := (spec_Failover s)\<lparr>failover_PromotePod := ''''\<rparr>\<rparr>) w)"

definition deployReplicaStatefulSet :: "int \<Rightarrow> server \<Rightarrow> world \<Rightarrow> outcome \<times> world" where
  "deployReplicaStatefulSet now srv w =
     (let instanceIndex = int32 (GetLastCreatedInstanceIndex w + 1) in
      case ActivateOperationOnStatefulSet now OperationIdReplicaDbCountSpecEnforcement
             OperationStepIdReplicaDbDeploying instanceIndex w of
        (Ok, w1) \<Rightarrow>
          (case CreateReplicaStatefulSet srv instanceIndex w1 of
             None \<Rightarrow> (Panic, w1)
           | Some replicaStatefulSet \<Rightarrow>
               (case client_write srv (CreateStatefulSet replicaStatefulSet) w1 of
                  (Some err, w2) \<Rightarrow> (Err err, RemoveActiveOperation (ErrorEvent ''ReplicaStatefulSetDeploymentErr'' w2))
                | (None, w2) \<Rightarrow>
                    (Ok, InfoEvent ''ReplicaStatefulSetDeployment''
                       (SetLastCreatedInstanceIndex instanceIndex
                         (SetEnforcedReplicas (int32 (status_EnforcedReplicas (w_status w2) + 1)) w2)))))
      | (r, w1) \<Rightarrow> (r, ErrorEvent ''ReplicaStatefulSetOperationActivationErr'' w1))"

definition deleteStatefulSet :: "server \<Rightarrow> StatefulSet \<Rightarrow> world \<Rightarrow> outcome \<times> world" where
  "deleteStatefulSet srv statefulSetToDelete w =
     (case client_write srv (DeleteStatefulSet statefulSetToDelete) w of
        (Some err, w1) \<Rightarrow> (Err err, ErrorEvent ''ReplicaStatefulSetDeletionErr'' w1)
      | (None, w1) \<Rightarrow> (Ok, InfoEvent ''ReplicaStatefulSetDeletion'' w1))"

definition undeployReplicaStatefulSets :: "int \<Rightarrow> server \<Rightarrow> StatefulSetWrapper \<Rightarrow> world \<Rightarrow> outcome \<times> world" where
  "undeployReplicaStatefulSets now srv replicaToUndeploy w =
     (if sts_Name (sw_StatefulSet replicaToUndeploy) = '''' then (Ok, w)
      else case ActivateOperationOnStatefulSet now OperationIdReplicaDbCountSpecEnforcement
                  OperationStepIdReplicaDbUndeploying (sw_InstanceIndex replicaToUndeploy) w of
        (Ok, w1) \<Rightarrow>
          (case deleteStatefulSet srv (sw_StatefulSet replicaToUndeploy) w1 of
             (Ok, w2) \<Rightarrow> (Ok, SetEnforcedReplicas (int32 (status_EnforcedReplicas (w_status w2) - 1)) w2)
           | (r, w2) \<Rightarrow> (r, RemoveActiveOperation w2))
      | (r, w1) \<Rightarrow> (r, ErrorEvent ''ReplicaStatefulSetOperationActivationErr'' w1))"

section \<open>Enforce\<close>

text \<open>The last part of \<open>Enforce\<close>: one replica more, one less, or an unready one replaced.\<close>

definition adjust_replicas :: "int \<Rightarrow> server \<Rightarrow> bool \<Rightarrow> world \<Rightarrow> outcome \<times> world" where
  "adjust_replicas now srv manualRequested w =
     (let nbreNewReplicaToDeploy = int32 (getExpectedNbreReplicasToDeploy w - getNbreDeployedReplicas w) in
      if nbreNewReplicaToDeploy > 0 then
        (if isAutomaticFailoverDisabled w \<and> \<not> manualRequested then
           (case doesSpecRequireTheDeploymentOfAdditionalReplicas w of
              None \<Rightarrow> (Panic, w)
            | Some False \<Rightarrow> (Ok, InfoEvent ''AutomaticFailoverIsDisabled'' w)
            | Some True \<Rightarrow> deployReplicaStatefulSet now srv w)
         else deployReplicaStatefulSet now srv w)
      else if nbreNewReplicaToDeploy < 0 then undeployReplicaStatefulSets now srv (getReplicaToUndeploy w) w
      else case find (\<lambda>s. \<not> sw_IsReady s) (getDeployedReplicas w) of
             Some s \<Rightarrow> undeployReplicaStatefulSets now srv s w
           | None \<Rightarrow> (Ok, w))"

text \<open>The part from the check of the primary on.\<close>

definition enforce_replica_count :: "int \<Rightarrow> server \<Rightarrow> world \<Rightarrow> outcome \<times> world" where
  "enforce_replica_count now srv w =
     (if \<not> isStandbyEnabled w \<and> \<not> isPrimaryDbReady w then (Ok, w)
      else
        let manualRequested = replica_isManualFailoverRequested w;
            w1 = (if manualRequested then snd (resetInSpecManualFailover srv w) else w)
        in if isReplicaOperationInProgress w1 then (Ok, w1) else adjust_replicas now srv manualRequested w1)"

definition ReplicaDbCountSpecEnforcer_Enforce :: "int \<Rightarrow> server \<Rightarrow> world \<Rightarrow> outcome \<times> world" where
  "ReplicaDbCountSpecEnforcer_Enforce now srv w =
     (if IsActiveOperationIdDifferentOf OperationIdReplicaDbCountSpecEnforcement w then (Ok, w)
      else if hasLastAttemptTimedOut w then
        (if isPreviouslyFailedAttemptOnReplicaDbFixed w then
           enforce_replica_count now srv (InfoEvent ''KubegresReEnabled'' (RemoveActiveOperation w))
         else (Ok, logTimedOut w))
      else enforce_replica_count now srv w)"

section \<open>Requests of the replica enforcer\<close>

lemma deployReplica_calls:
  assumes "deployReplicaStatefulSet now srv w = (r, w')"
  shows "w_calls w' = w_calls w \<or> (\<exists>s. \<not> isPrimary s \<and> w_calls w' = w_calls w @ [CreateStatefulSet s])"
proof -
  let ?i = "int32 (GetLastCreatedInstanceIndex w + 1)"
  obtain ra w1 where a: "ActivateOperationOnStatefulSet now OperationIdReplicaDbCountSpecEnforcement
      OperationStepIdReplicaDbDeploying ?i w = (ra, w1)" by fastforce
  note fr = ActivateOnStatefulSet_frame(1) [OF a]
  show ?thesis
  proof (cases "CreateReplicaStatefulSet srv ?i w1")
    case None
    with assms a fr show ?thesis
      by (auto simp: deployReplicaStatefulSet_def Let_def split: outcome.splits)
  next
    case (Some s)
    with assms a fr CreateReplica_facts(1) [OF Some] show ?thesis
      by (auto simp: deployReplicaStatefulSet_def Let_def client_write_def split: outcome.splits option.splits)
  qed
qed

lemma undeployReplica_calls:
  assumes "undeployReplicaStatefulSets now srv s w = (r, w')"
  shows "w_calls w' = w_calls w \<or>
    sts_Name (sw_StatefulSet s) \<noteq> '''' \<and> w_calls w' = w_calls w @ [DeleteStatefulSet (sw_StatefulSet s)]"
  using assms
  by (auto simp: undeployReplicaStatefulSets_def deleteStatefulSet_def client_write_def
      dest!: ActivateOnStatefulSet_frame(1) split: if_splits prod.splits outcome.splits option.splits)

lemma ActivateOnStatefulSet_inputs:
  "ActivateOperationOnStatefulSet now oid sid i w = (r, w') \<Longrightarrow> w_states w' = w_states w \<and> w_spec w' = w_spec w"
  by (simp add: ActivateOnStatefulSet_frame)

lemma deployReplica_inputs:
  "deployReplicaStatefulSet now srv w = (r, w') \<Longrightarrow> w_states w' = w_states w \<and> w_spec w' = w_spec w"
  by (auto simp: deployReplicaStatefulSet_def Let_def client_write_def
      dest!: ActivateOnStatefulSet_inputs split: prod.splits outcome.splits option.splits)

lemma undeployReplica_inputs:
  "undeployReplicaStatefulSets now srv s w = (r, w') \<Longrightarrow> w_states w' = w_states w \<and> w_spec w' = w_spec w"
  by (auto simp: undeployReplicaStatefulSets_def deleteStatefulSet_def client_write_def
      dest!: ActivateOnStatefulSet_inputs split: if_splits prod.splits outcome.splits option.splits)

text \<open>One request that brings the number of replicas closer to the spec or replaces an unready replica.\<close>

definition replica_request :: "world \<Rightarrow> api_call \<Rightarrow> bool" where
  "replica_request w c \<longleftrightarrow>
     (let reps = getDeployedReplicas w; deployed = int (length reps); expected = getExpectedNbreReplicasToDeploy w in
      (\<exists>s. c = CreateStatefulSet s \<and> \<not> isPrimary s \<and> deployed < expected) \<or>
      (\<exists>s \<in> set reps. c = DeleteStatefulSet (sw_StatefulSet s) \<and> \<not> isPrimary (sw_StatefulSet s) \<and>
         (expected < deployed \<and> (\<forall>t \<in> set reps. sw_InstanceIndex t \<le> sw_InstanceIndex s) \<or>
          deployed = expected \<and> \<not> sw_IsReady s)))"

lemma getReplicaToUndeploy_greatest:
  assumes "states_wf (rs_StatefulSets (w_states w))" "getDeployedReplicas w \<noteq> []"
  shows "getReplicaToUndeploy w \<in> set (getDeployedReplicas w)"
    and "t \<in> set (getDeployedReplicas w) \<Longrightarrow> sw_InstanceIndex t \<le> sw_InstanceIndex (getReplicaToUndeploy w)"
proof -
  let ?down = "GetAllReverseSortedByInstanceIndex (rep_All (w_Replicas w))"
  have m: "mset ?down = mset (getDeployedReplicas w)" and so: "sorted (map sw_InstanceIndex (rev ?down))"
    using assms(1) by (simp_all add: states_wf_def getDeployedReplicas_def Let_def)
  have s: "set ?down = set (getDeployedReplicas w)" using m by (metis set_mset_mset)
  obtain d ds where d: "?down = d # ds" using s assms(2) by (cases ?down) auto
  show "getReplicaToUndeploy w \<in> set (getDeployedReplicas w)"
    using s d by (auto simp: getReplicaToUndeploy_def)
  show "t \<in> set (getDeployedReplicas w) \<Longrightarrow> sw_InstanceIndex t \<le> sw_InstanceIndex (getReplicaToUndeploy w)"
    using so unfolding s [symmetric] by (auto simp: d getReplicaToUndeploy_def sorted_append)
qed

lemma expected_range:
  assumes "0 \<le> sss_SpecExpectedNbreToDeploy (rs_StatefulSets (w_states w))"
    "in_int32 (sss_SpecExpectedNbreToDeploy (rs_StatefulSets (w_states w)))"
  shows "0 \<le> getExpectedNbreReplicasToDeploy w" "in_int32 (getExpectedNbreReplicasToDeploy w)"
  using assms by (auto simp: getExpectedNbreReplicasToDeploy_def Let_def int32_id in_int32_def)

lemma adjust_replicas_calls:
  assumes "adjust_replicas now srv m w = (r, w')" "states_wf (rs_StatefulSets (w_states w))"
    "0 \<le> sss_SpecExpectedNbreToDeploy (rs_StatefulSets (w_states w))"
    "in_int32 (sss_SpecExpectedNbreToDeploy (rs_StatefulSets (w_states w)))"
    "length (getDeployedReplicas w) < 2147483648"
  shows "w_calls w' = w_calls w \<or> (\<exists>c. replica_request w c \<and> w_calls w' = w_calls w @ [c])"
proof -
  let ?n = "int (length (getDeployedReplicas w))" and ?e = "getExpectedNbreReplicasToDeploy w"
  have n: "getNbreDeployedReplicas w = ?n" and
    reps: "\<And>s. s \<in> set (getDeployedReplicas w) \<Longrightarrow> \<not> isPrimary (sw_StatefulSet s)"
    using assms(2) by (auto simp: states_wf_def getNbreDeployedReplicas_def getDeployedReplicas_def Let_def)
  have d: "int32 (?e - ?n) = ?e - ?n"
    using expected_range [OF assms(3,4)] assms(5) by (intro int32_id) (auto simp: in_int32_def)
  consider (more) "?n < ?e" | (less) "?e < ?n" | (same) "?n = ?e" by linarith
  then show ?thesis
  proof cases
    case more
    with assms(1) consider "w' = w" | "w' = InfoEvent ''AutomaticFailoverIsDisabled'' w"
      | "deployReplicaStatefulSet now srv w = (r, w')"
      by (auto simp: adjust_replicas_def n d split: if_splits option.splits bool.splits)
    then show ?thesis
      using more deployReplica_calls [of now srv w r w'] by cases (auto simp: replica_request_def Let_def)
  next
    case less
    with assms(1) have u: "undeployReplicaStatefulSets now srv (getReplicaToUndeploy w) w = (r, w')"
      by (simp add: adjust_replicas_def n d)
    have "getDeployedReplicas w \<noteq> []" using less expected_range(1) [OF assms(3,4)] by auto
    note top = getReplicaToUndeploy_greatest [OF assms(2) this]
    have "replica_request w (DeleteStatefulSet (sw_StatefulSet (getReplicaToUndeploy w)))"
      unfolding replica_request_def Let_def using top reps [OF top(1)] less by blast
    with undeployReplica_calls [OF u] show ?thesis by blast
  next
    case same
    show ?thesis
    proof (cases "find (\<lambda>s. \<not> sw_IsReady s) (getDeployedReplicas w)")
      case None
      with same assms(1) show ?thesis by (simp add: adjust_replicas_def n d)
    next
      case (Some s)
      with same assms(1) have "undeployReplicaStatefulSets now srv s w = (r, w')"
        by (simp add: adjust_replicas_def n d)
      from undeployReplica_calls [OF this] find_SomeD [OF Some] same reps show ?thesis
        by (auto simp: replica_request_def Let_def)
    qed
  qed
qed

lemma adjust_replicas_inputs:
  "adjust_replicas now srv m w = (r, w') \<Longrightarrow> w_states w' = w_states w \<and> w_spec w' = w_spec w"
  by (auto simp: adjust_replicas_def Let_def dest: deployReplica_inputs undeployReplica_inputs
      split: if_splits option.splits bool.splits)

lemma replica_request_cong:
  "w_states w = w_states v \<Longrightarrow> w_spec w = w_spec v \<Longrightarrow> replica_request w c = replica_request v c"
  by (simp add: replica_request_def getDeployedReplicas_def getExpectedNbreReplicasToDeploy_def isStandbyEnabled_def)

section \<open>One replica at a time\<close>

lemma Activate_replica_active:
  assumes "ActivateOperationOnStatefulSet now OperationIdReplicaDbCountSpecEnforcement sid i w = (Ok, w1)"
  shows "op_OperationId (w_activeOperation w1) = OperationIdReplicaDbCountSpecEnforcement"
    "\<not> op_HasTimedOut (w_activeOperation w1)"
    "status_EnforcedReplicas (w_status w1) = status_EnforcedReplicas (w_status w)"
    "status_LastCreatedInstanceIndex (w_status w1) = status_LastCreatedInstanceIndex (w_status w)"
    "status_BlockingOperation (w_status w1) = w_activeOperation w1"
  using activateOperation_success [OF assms [unfolded ActivateOperationOnStatefulSet_def]]
    activateOperation_frame(9,10) [OF assms [unfolded ActivateOperationOnStatefulSet_def]]
  by (simp_all add: createOperationObj_def)

lemma deployReplica_Ok:
  assumes "deployReplicaStatefulSet now srv w = (Ok, w')"
  shows "isReplicaOperationInProgress w'" "\<not> hasLastAttemptTimedOut w'"
    "status_EnforcedReplicas (w_status w') = int32 (status_EnforcedReplicas (w_status w) + 1)"
    "GetLastCreatedInstanceIndex w' = int32 (GetLastCreatedInstanceIndex w + 1)"
    "status_BlockingOperation (w_status w') = w_activeOperation w'" "\<exists>s. w_calls w' = w_calls w @ [CreateStatefulSet s]"
  using assms
  by (auto simp: deployReplicaStatefulSet_def Let_def client_write_def isReplicaOperationInProgress_def
      hasLastAttemptTimedOut_def op_defs Activate_replica_active ActivateOnStatefulSet_frame GetLastCreatedInstanceIndex_def
      split: prod.splits outcome.splits option.splits)

lemma undeployReplica_Ok:
  assumes "undeployReplicaStatefulSets now srv s w = (Ok, w')" "sts_Name (sw_StatefulSet s) \<noteq> ''''"
  shows "isReplicaOperationInProgress w'" "\<not> hasLastAttemptTimedOut w'"
    "status_EnforcedReplicas (w_status w') = int32 (status_EnforcedReplicas (w_status w) - 1)"
    "GetLastCreatedInstanceIndex w' = GetLastCreatedInstanceIndex w"
    "status_BlockingOperation (w_status w') = w_activeOperation w'"
    "w_calls w' = w_calls w @ [DeleteStatefulSet (sw_StatefulSet s)]"
  using assms
  by (auto simp: undeployReplicaStatefulSets_def deleteStatefulSet_def client_write_def isReplicaOperationInProgress_def
      hasLastAttemptTimedOut_def op_defs Activate_replica_active ActivateOnStatefulSet_frame GetLastCreatedInstanceIndex_def
      split: prod.splits outcome.splits option.splits)

lemma adjust_replicas_Ok:
  assumes "adjust_replicas now srv m w = (Ok, w1)" "w_calls w1 \<noteq> w_calls w"
  shows "isReplicaOperationInProgress w1 \<and> \<not> hasLastAttemptTimedOut w1 \<and>
    status_BlockingOperation (w_status w1) = w_activeOperation w1 \<and>
    ((\<exists>s. w_calls w1 = w_calls w @ [CreateStatefulSet s]) \<and>
       status_EnforcedReplicas (w_status w1) = int32 (status_EnforcedReplicas (w_status w) + 1) \<and>
       GetLastCreatedInstanceIndex w1 = int32 (GetLastCreatedInstanceIndex w + 1) \<or>
     (\<exists>s. w_calls w1 = w_calls w @ [DeleteStatefulSet s]) \<and>
       status_EnforcedReplicas (w_status w1) = int32 (status_EnforcedReplicas (w_status w) - 1) \<and>
       GetLastCreatedInstanceIndex w1 = GetLastCreatedInstanceIndex w)"
proof -
  consider (up) "deployReplicaStatefulSet now srv w = (Ok, w1)"
    | (down) s where "undeployReplicaStatefulSets now srv s w = (Ok, w1)"
    using assms by (auto simp: adjust_replicas_def Let_def split: if_splits option.splits bool.splits)
  then show ?thesis
  proof cases
    case up
    then show ?thesis by (simp add: deployReplica_Ok)
  next
    case down
    moreover have "sts_Name (sw_StatefulSet s) \<noteq> ''''"
      using down assms(2) by (auto simp: undeployReplicaStatefulSets_def)
    ultimately show ?thesis by (simp add: undeployReplica_Ok)
  qed
qed

section \<open>A cluster to scale up\<close>

text \<open>Primary 1 and replica 2 are ready; three instances are expected.\<close>

definition scaling_StatefulSets :: "StatefulSet list" where
  "scaling_StatefulSets = [sample_StatefulSet 2 ''replica'' 1, sample_StatefulSet 1 ''primary'' 1]"

definition scaling_world :: world where
  "scaling_world = sample_world
     \<lparr>w_states := zero_ResourcesStates\<lparr>rs_StatefulSets := loaded 2 3 [] scaling_StatefulSets\<rparr>,
      w_kubegres := sample_Kubegres\<lparr>kg_Status := zero_Status\<lparr>status_EnforcedReplicas := 2, status_LastCreatedInstanceIndex := 2\<rparr>\<rparr>,
      w_configs := [(generateConfigId OperationIdReplicaDbCountSpecEnforcement OperationStepIdReplicaDbDeploying,
         CreateOperationConfigForReplicaDbDeploying zero_ResourcesStates)]\<rparr>"

lemma scaling_states:
  "states_wf (rs_StatefulSets (w_states scaling_world))"
  "getDeployedReplicas scaling_world = [wrap [] (sample_StatefulSet 2 ''replica'' 1)]"
  "sss_SpecExpectedNbreToDeploy (rs_StatefulSets (w_states scaling_world)) = 3"
  "getNbreDeployedReplicas scaling_world = 1" "isPrimaryDbReady scaling_world"
proof -
  have "length (filter isPrimary scaling_StatefulSets) \<le> 1"
    by (simp add: scaling_StatefulSets_def isPrimary_def PrimaryRoleName_def)
  then show "states_wf (rs_StatefulSets (w_states scaling_world))"
    using loaded_wf [of scaling_StatefulSets 3 "[]"] by (simp add: scaling_world_def scaling_StatefulSets_def)
  show "getDeployedReplicas scaling_world = [wrap [] (sample_StatefulSet 2 ''replica'' 1)]"
    by (simp add: getDeployedReplicas_def scaling_world_def scaling_StatefulSets_def loaded_def isPrimary_def
          PrimaryRoleName_def wrappers.build_def)
       (simp add: Add_def zero_StatefulSetWrappers_def GetAllSortedByInstanceIndex_def)
qed (simp_all add: scaling_world_def scaling_StatefulSets_def loaded_def getNbreDeployedReplicas_def
      isPrimary_def PrimaryRoleName_def int32_id in_int32_def isPrimaryDbReady_def)

lemma scaling_deploys: "\<exists>w1 s. adjust_replicas 1000 sample_server False scaling_world = (Ok, w1) \<and>
   w_calls w1 = w_calls scaling_world @ [CreateStatefulSet s]"
proof -
  let ?w = scaling_world
  let ?i = "int32 (GetLastCreatedInstanceIndex ?w + 1)"
  have e: "getExpectedNbreReplicasToDeploy ?w = 2"
    by (simp add: getExpectedNbreReplicasToDeploy_def scaling_states isStandbyEnabled_def int32_id in_int32_def)
       (simp add: scaling_world_def sample_Kubegres_def sample_Spec_def)
  have auto: "\<not> isAutomaticFailoverDisabled ?w"
    by (simp add: isAutomaticFailoverDisabled_def scaling_world_def sample_Kubegres_def sample_Spec_def)
  have adj: "adjust_replicas 1000 sample_server False ?w = deployReplicaStatefulSet 1000 sample_server ?w"
    using e auto by (simp add: adjust_replicas_def scaling_states int32_id in_int32_def)
  have "fst (ActivateOperationOnStatefulSet 1000 OperationIdReplicaDbCountSpecEnforcement
      OperationStepIdReplicaDbDeploying ?i ?w) = Ok"
    by (simp add: ActivateOperationOnStatefulSet_def activateOperation_Ok_iff createOperationObj_def
        doesOperationHaveAssociatedConfig_def getConfig_def CreateOperationConfigForReplicaDbDeploying_def
        scaling_world_def sample_world_def)
  then obtain w1 where a: "ActivateOperationOnStatefulSet 1000 OperationIdReplicaDbCountSpecEnforcement
      OperationStepIdReplicaDbDeploying ?i ?w = (Ok, w1)" by (metis prod.collapse)
  have "srv_parse_quantity sample_server x \<noteq> None" for x by (simp add: sample_server_def)
  then obtain s where "CreateReplicaStatefulSet sample_server ?i w1 = Some s"
    using CreateStatefulSet_None by blast
  with a ActivateOnStatefulSet_frame(1) [OF a] show ?thesis
    by (simp add: adj deployReplicaStatefulSet_def client_write_def)
qed

section \<open>Properties\<close>

text \<open>What the reset of the manual failover sends: the Kubegres resource without the request.\<close>

definition resets_promotion :: "api_call list \<Rightarrow> bool" where
  "resets_promotion cs \<longleftrightarrow>
     cs = [] \<or> (\<exists>k. cs = [UpdateKubegres k] \<and> failover_PromotePod (spec_Failover (kg_Spec k)) = '''')"

lemma reset_frame:
  "w_states (snd (resetInSpecManualFailover srv w)) = w_states w"
  "w_activeOperation (snd (resetInSpecManualFailover srv w)) = w_activeOperation w"
  "\<exists>k. w_calls (snd (resetInSpecManualFailover srv w)) = w_calls w @ [UpdateKubegres k] \<and>
     failover_PromotePod (spec_Failover (kg_Spec k)) = ''''"
  by (auto simp: resetInSpecManualFailover_def client_update_Kubegres_def Let_def upd_spec_def split: sum.splits)

lemma enforce_replica_count_calls:
  assumes "enforce_replica_count now srv w = (r, w')" "states_wf (rs_StatefulSets (w_states w))"
    "0 \<le> sss_SpecExpectedNbreToDeploy (rs_StatefulSets (w_states w))"
    "in_int32 (sss_SpecExpectedNbreToDeploy (rs_StatefulSets (w_states w)))"
    "length (getDeployedReplicas w) < 2147483648"
  shows "\<exists>pre cs. w_calls w' = w_calls w @ pre @ cs \<and> resets_promotion pre \<and> w_states w' = w_states w \<and>
    (cs = [] \<or> (isStandbyEnabled w \<or> isPrimaryDbReady w) \<and> (\<exists>c. cs = [c] \<and> replica_request w' c))"
proof (cases "isStandbyEnabled w \<or> isPrimaryDbReady w")
  case False
  with assms(1) show ?thesis by (auto simp: enforce_replica_count_def resets_promotion_def)
next
  case True
  let ?m = "replica_isManualFailoverRequested w"
  let ?v = "if ?m then snd (resetInSpecManualFailover srv w) else w"
  have "\<exists>pre. w_calls ?v = w_calls w @ pre \<and> resets_promotion pre"
    using reset_frame(3) [of srv w] by (cases ?m) (auto simp: resets_promotion_def)
  then obtain pre where pre: "w_calls ?v = w_calls w @ pre" "resets_promotion pre" by blast
  have st: "w_states ?v = w_states w" by (simp add: reset_frame)
  show ?thesis
  proof (cases "isReplicaOperationInProgress ?v")
    case in_progress: True
    with assms(1) True have "w' = ?v" by (auto simp: enforce_replica_count_def Let_def split: if_splits)
    with pre st show ?thesis by (metis append_Nil2)
  next
    case free: False
    with assms(1) True have a: "adjust_replicas now srv ?m ?v = (r, w')"
      by (auto simp: enforce_replica_count_def Let_def split: if_splits)
    from adjust_replicas_inputs [OF a] have i: "w_states w' = w_states ?v" "w_spec w' = w_spec ?v" by simp_all
    have "getDeployedReplicas ?v = getDeployedReplicas w" by (simp only: getDeployedReplicas_def st)
    from adjust_replicas_calls [OF a] assms(2-5) this
    have "w_calls w' = w_calls ?v \<or> (\<exists>c. replica_request ?v c \<and> w_calls w' = w_calls ?v @ [c])"
      by (simp only: st)
    then obtain cs where cs: "w_calls w' = w_calls ?v @ cs" "cs = [] \<or> (\<exists>c. cs = [c] \<and> replica_request w' c)"
      using replica_request_cong [OF i] by auto
    show ?thesis
      using cs pre True i st by (intro exI [of _ pre] exI [of _ cs]) (simp only: append_assoc, blast)
  qed
qed

lemma hasLast_release_frame:
  "w_states (InfoEvent x (RemoveActiveOperation w)) = w_states w"
  "w_calls (InfoEvent x (RemoveActiveOperation w)) = w_calls w"
  "isStandbyEnabled (InfoEvent x (RemoveActiveOperation w)) = isStandbyEnabled w"
  "isPrimaryDbReady (InfoEvent x (RemoveActiveOperation w)) = isPrimaryDbReady w"
  "getDeployedReplicas (InfoEvent x (RemoveActiveOperation w)) = getDeployedReplicas w"
  by (simp_all add: isStandbyEnabled_def isPrimaryDbReady_def getDeployedReplicas_def)

text \<open>
  C9: besides the reset of a manual failover request, the replica enforcer sends at most
  one request, and only when the primary is ready (or in standby mode) and no other
  operation is active. It creates a replica only when fewer than expected are deployed; it
  deletes the replica with the highest index only when more than expected are deployed, or
  a replica that is not ready; it never deletes a primary.
\<close>

theorem ReplicaDbCountSpecEnforcer_requests:
  assumes "ReplicaDbCountSpecEnforcer_Enforce now srv w = (r, w')" "states_wf (rs_StatefulSets (w_states w))"
    and "0 \<le> sss_SpecExpectedNbreToDeploy (rs_StatefulSets (w_states w))"
    and "in_int32 (sss_SpecExpectedNbreToDeploy (rs_StatefulSets (w_states w)))"
    and "length (getDeployedReplicas w) < 2147483648"
  shows "\<exists>pre cs. w_calls w' = w_calls w @ pre @ cs \<and> resets_promotion pre \<and>
    (pre @ cs = [] \<or> \<not> IsActiveOperationIdDifferentOf OperationIdReplicaDbCountSpecEnforcement w) \<and>
    (cs = [] \<or> (isStandbyEnabled w \<or> isPrimaryDbReady w) \<and> (\<exists>c. cs = [c] \<and> replica_request w' c))"
proof -
  let ?u = "InfoEvent ''KubegresReEnabled'' (RemoveActiveOperation w)"
  consider (stop) "w_calls w' = w_calls w"
    | (go) "\<not> IsActiveOperationIdDifferentOf OperationIdReplicaDbCountSpecEnforcement w" "enforce_replica_count now srv w = (r, w')"
    | (fixed) "\<not> IsActiveOperationIdDifferentOf OperationIdReplicaDbCountSpecEnforcement w" "enforce_replica_count now srv ?u = (r, w')"
    using assms(1) by (auto simp: ReplicaDbCountSpecEnforcer_Enforce_def logTimedOut_def split: if_splits)
  then show ?thesis
  proof cases
    case stop
    then show ?thesis by (auto simp: resets_promotion_def)
  next
    case go
    with enforce_replica_count_calls [OF go(2) assms(2-5)] show ?thesis by blast
  next
    case fixed
    with enforce_replica_count_calls [OF fixed(2)] assms(2-5) show ?thesis
      unfolding hasLast_release_frame by blast
  qed
qed

theorem ReplicaDbCountSpecEnforcer_requests_witness:
  "\<exists>r w' pre cs. ReplicaDbCountSpecEnforcer_Enforce 1000 sample_server scaling_world = (r, w') \<and>
     w_calls w' = w_calls scaling_world @ pre @ cs \<and> (cs = [] \<or> (\<exists>c. cs = [c] \<and> replica_request w' c))"
proof -
  obtain r w' where e: "ReplicaDbCountSpecEnforcer_Enforce 1000 sample_server scaling_world = (r, w')" by fastforce
  show ?thesis
    using ReplicaDbCountSpecEnforcer_requests [OF e scaling_states(1)] e
    by (auto simp: scaling_states in_int32_def)
qed

text \<open>
  C7: replicas are changed one at a time. After a successful change the replica operation is
  active, in memory and in the status to be persisted, and either one StatefulSet was created
  and both the number of enforced replicas and the last created index have grown by one, or
  one was deleted, the number of enforced replicas has dropped by one and the last created
  index is the same. In any later state in which this operation is still the active one (and
  has not been marked as timed out) the enforcer creates and deletes nothing.
\<close>

theorem replicas_change_one_at_a_time:
  assumes "adjust_replicas now srv m w = (Ok, w1)" "w_calls w1 \<noteq> w_calls w"
  shows "isReplicaOperationInProgress w1 \<and> status_BlockingOperation (w_status w1) = w_activeOperation w1 \<and>
    ((\<exists>s. w_calls w1 = w_calls w @ [CreateStatefulSet s]) \<and>
       status_EnforcedReplicas (w_status w1) = int32 (status_EnforcedReplicas (w_status w) + 1) \<and>
       GetLastCreatedInstanceIndex w1 = int32 (GetLastCreatedInstanceIndex w + 1) \<or>
     (\<exists>s. w_calls w1 = w_calls w @ [DeleteStatefulSet s]) \<and>
       status_EnforcedReplicas (w_status w1) = int32 (status_EnforcedReplicas (w_status w) - 1) \<and>
       GetLastCreatedInstanceIndex w1 = GetLastCreatedInstanceIndex w) \<and>
    (\<forall>v now' srv'. w_activeOperation v = w_activeOperation w1 \<longrightarrow>
       (\<exists>pre. w_calls (snd (ReplicaDbCountSpecEnforcer_Enforce now' srv' v)) = w_calls v @ pre \<and> resets_promotion pre))"
proof -
  note w1 = adjust_replicas_Ok [OF assms]
  have "\<exists>pre. w_calls (snd (ReplicaDbCountSpecEnforcer_Enforce now' srv' v)) = w_calls v @ pre \<and> resets_promotion pre"
    if v: "w_activeOperation v = w_activeOperation w1" for v now' srv'
  proof -
    let ?v = "snd (resetInSpecManualFailover srv' v)"
    have p: "isReplicaOperationInProgress v" "\<not> hasLastAttemptTimedOut v" "isReplicaOperationInProgress ?v"
      using w1 v by (simp_all add: isReplicaOperationInProgress_def hasLastAttemptTimedOut_def op_defs reset_frame)
    then have "\<not> IsActiveOperationIdDifferentOf OperationIdReplicaDbCountSpecEnforcement v"
      by (simp add: isReplicaOperationInProgress_def op_defs)
    with p have "snd (ReplicaDbCountSpecEnforcer_Enforce now' srv' v) \<in> {v, ?v}"
      by (auto simp: ReplicaDbCountSpecEnforcer_Enforce_def enforce_replica_count_def Let_def)
    then show ?thesis using reset_frame(3) [of srv' v] by (auto simp: resets_promotion_def)
  qed
  with w1 show ?thesis by blast
qed

theorem replicas_change_one_at_a_time_witness:
  "\<exists>w1. adjust_replicas 1000 sample_server False scaling_world = (Ok, w1) \<and> isReplicaOperationInProgress w1 \<and>
     (\<exists>s. w_calls w1 = w_calls scaling_world @ [CreateStatefulSet s]) \<and>
     status_EnforcedReplicas (w_status w1) = 3 \<and> GetLastCreatedInstanceIndex w1 = 3"
proof -
  obtain w1 s where w1: "adjust_replicas 1000 sample_server False scaling_world = (Ok, w1)"
    "w_calls w1 = w_calls scaling_world @ [CreateStatefulSet s]"
    using scaling_deploys by blast
  then have "w_calls w1 \<noteq> w_calls scaling_world" by simp
  with w1 replicas_change_one_at_a_time [OF w1(1)] show ?thesis
    by (auto simp: scaling_world_def GetLastCreatedInstanceIndex_def int32_id in_int32_def)
qed

end
