(* ===== verification/Count_Enforcers.thy ===== *)
theory Count_Enforcers
  imports Replica_Enforcer
begin

text \<open>
  \<open>src/controllers/spec/enforcer/resources_count_spec\<close>: the enforcers that create and
  delete the resources of a cluster, the contract they share with respect to the blocking
  operation (locale \<open>count_enforcer\<close>), and the registry that runs them in order.
\<close>

section \<open>Base configuration map\<close>

definition CreateOperationConfig :: "ResourcesStates \<Rightarrow> BlockingOperationConfig" where
  "CreateOperationConfig rs =
     \<lparr>cfg_OperationId = OperationIdBaseConfigCountSpecEnforcement,
      cfg_StepId = OperationStepIdBaseConfigDeploying, cfg_TimeOutInSeconds = 10,
      cfg_CompletionChecker = Some (\<lambda>_ _. (cfs_IsBaseConfigDeployed (rs_Config rs), [])),
      cfg_AfterCompletionMoveToTransitionStep = False\<rparr>"

definition isBaseConfigDeployed :: "world \<Rightarrow> bool" where
  "isBaseConfigDeployed w \<longleftrightarrow> cfs_IsBaseConfigDeployed (rs_Config (w_states w))"

definition deployBaseConfigMap :: "int \<Rightarrow> server \<Rightarrow> ConfigMap \<Rightarrow> world \<Rightarrow> outcome \<times> world" where
  "deployBaseConfigMap now srv configMap w =
     (case ActivateOperation now OperationIdBaseConfigCountSpecEnforcement OperationStepIdBaseConfigDeploying w of
        (Ok, w1) \<Rightarrow>
          (case client_write srv (CreateConfigMap configMap) w1 of
             (Some err, w2) \<Rightarrow> (Err err, RemoveActiveOperation (ErrorEvent ''BaseConfigMapDeploymentErr'' w2))
           | (None, w2) \<Rightarrow> (Ok, InfoEvent ''BaseConfigMapDeployment'' w2))
      | (r, w1) \<Rightarrow> (r, ErrorEvent ''BaseConfigMapDeploymentOperationActivationErr'' w1))"

definition BaseConfigMap_EnforceSpec :: "int \<Rightarrow> server \<Rightarrow> world \<Rightarrow> outcome \<times> world" where
  "BaseConfigMap_EnforceSpec now srv w =
     (if IsActiveOperationIdDifferentOf OperationIdBaseConfigCountSpecEnforcement w then (Ok, w)
      else if HasActiveOperationIdTimedOut OperationIdBaseConfigCountSpecEnforcement w then
        (if isBaseConfigDeployed w then (Ok, InfoEvent ''KubegresReEnabled'' (RemoveActiveOperation w))
         else (Ok, ErrorEvent ''BaseConfigMapDeploymentTimedOutErr'' w))
      else if isBaseConfigDeployed w then (Ok, w)
      else deployBaseConfigMap now srv (CreateBaseConfigMap (w_kubegres w)) w)"

section \<open>StatefulSets\<close>

definition StatefulSetCount_EnforceSpec :: "int \<Rightarrow> server \<Rightarrow> world \<Rightarrow> outcome \<times> world" where
  "StatefulSetCount_EnforceSpec now srv =
     and_then (PrimaryDbCountSpecEnforcer_Enforce now srv) (ReplicaDbCountSpecEnforcer_Enforce now srv)"

section \<open>Services\<close>

definition deployService :: "server \<Rightarrow> bool \<Rightarrow> world \<Rightarrow> outcome \<times> world" where
  "deployService srv primary w =
     (case (if primary then CreatePrimaryService (w_kubegres w) else CreateReplicaService (w_kubegres w)) of
        None \<Rightarrow> (Panic, w)
      | Some service \<Rightarrow>
          (case client_write srv (CreateService service) w of
             (Some err, w1) \<Rightarrow> (Err err, ErrorEvent ''ServiceDeploymentErr'' w1)
           | (None, w1) \<Rightarrow> (Ok, InfoEvent ''ServiceDeployment'' w1)))"

definition Services_EnforceSpec :: "server \<Rightarrow> world \<Rightarrow> outcome \<times> world" where
  "Services_EnforceSpec srv =
     and_then
       (\<lambda>w. if \<not> srw_IsDeployed (svs_Primary (rs_Services (w_states w))) \<and> isPrimaryDbReady w
            then deployService srv True w else (Ok, w))
       (\<lambda>w. if \<not> srw_IsDeployed (svs_Replica (rs_Services (w_states w))) \<and> isThereReadyReplica w
            then deployService srv False w else (Ok, w))"

section \<open>Backup job\<close>

definition getConfigMapNameForBackUp :: "ConfigStates \<Rightarrow> string" where
  "getConfigMapNameForBackUp configStates =
     (if loc_BackUpScript (cfs_ConfigLocations configStates) = BaseConfigMapVolumeName
      then cfs_BaseConfigName configStates else cfs_CustomConfigName configStates)"

definition isBackUpConfigured :: "world \<Rightarrow> bool" where
  "isBackUpConfigured w \<longleftrightarrow> backup_Schedule (spec_Backup (w_spec w)) \<noteq> ''''"

definition isCronJobDeployed :: "world \<Rightarrow> bool" where
  "isCronJobDeployed w \<longleftrightarrow> bus_IsCronJobDeployed (rs_BackUp (w_states w))"

text \<open>\<open>None\<close>: an index out of range or a nil dereference.\<close>

definition backup_hasSpecChanged :: "world \<Rightarrow> bool option" where
  "backup_hasSpecChanged w =
     (let cronJob = bus_DeployedCronJob (rs_BackUp (w_states w));
          backup = spec_Backup (w_spec w)
      in do {
           container \<leftarrow> get_nth 0 (ps_Containers (cj_PodSpec cronJob));
           mount \<leftarrow> get_nth 0 (ctr_VolumeMounts container);
           volume0 \<leftarrow> get_nth 0 (ps_Volumes (cj_PodSpec cronJob));
           currentPvcName \<leftarrow> v_PersistentVolumeClaim volume0;
           volume1 \<leftarrow> get_nth 1 (ps_Volumes (cj_PodSpec cronJob));
           currentCustomConfig \<leftarrow> v_ConfigMap volume1;
           env3 \<leftarrow> get_nth 3 (ctr_Env container);
           expectedDBSource \<leftarrow> backup_source (w_kubegres w);
           Some (cj_Schedule cronJob \<noteq> backup_Schedule backup \<or>
                 vm_MountPath mount \<noteq> backup_VolumeMount backup \<or>
                 currentPvcName \<noteq> backup_PvcName backup \<or>
                 cmv_Name currentCustomConfig \<noteq> getConfigMapNameForBackUp (rs_Config (w_states w)) \<or>
                 env_Value env3 \<noteq> expectedDBSource)
         })"

definition deployCronJob :: "server \<Rightarrow> CronJob \<Rightarrow> world \<Rightarrow> outcome \<times> world" where
  "deployCronJob srv cronJob w =
     (case client_write srv (CreateCronJob cronJob) w of
        (Some err, w1) \<Rightarrow> (Err err, ErrorEvent ''BackUpCronJobDeploymentErr'' w1)
      | (None, w1) \<Rightarrow> (Ok, InfoEvent ''BackUpCronJobDeployment'' w1))"

definition deleteCronJob :: "server \<Rightarrow> world \<Rightarrow> outcome \<times> world" where
  "deleteCronJob srv w =
     (case client_write srv (DeleteCronJob (bus_DeployedCronJob (rs_BackUp (w_states w)))) w of
        (Some err, w1) \<Rightarrow> (Err err, ErrorEvent ''PodSpecEnforcementErr'' w1)
      | (None, w1) \<Rightarrow> (Ok, InfoEvent ''BackUpCronJobDeletion'' w1))"

text \<open>The part of \<open>EnforceSpec\<close> that creates the job.\<close>

definition create_backup :: "server \<Rightarrow> world \<Rightarrow> outcome \<times> world" where
  "create_backup srv w =
     (if \<not> isBackUpConfigured w then (Ok, w)
      else case CreateBackUpCronJob (w_kubegres w) (getConfigMapNameForBackUp (rs_Config (w_states w))) of
             None \<Rightarrow> (Panic, w)
           | Some cronJob \<Rightarrow> deployCronJob srv cronJob w)"

definition BackUpCronJob_EnforceSpec :: "server \<Rightarrow> world \<Rightarrow> outcome \<times> world" where
  "BackUpCronJob_EnforceSpec srv w =
     (if isCronJobDeployed w then
        (case backup_hasSpecChanged w of
           None \<Rightarrow> (Panic, w)
         | Some False \<Rightarrow> (Ok, w)
         | Some True \<Rightarrow> and_then (deleteCronJob srv) (create_backup srv) w)
      else create_backup srv w)"

section \<open>The registry\<close>

text \<open>\<open>ResourcesCountSpecEnforcer\<close>: a list of enforcers, run until one returns an error.\<close>

definition AddSpecEnforcer :: "(world \<Rightarrow> outcome \<times> world) \<Rightarrow> (world \<Rightarrow> outcome \<times> world) list
    \<Rightarrow> (world \<Rightarrow> outcome \<times> world) list" where
  "AddSpecEnforcer specEnforcer registry = registry @ [specEnforcer]"

definition ResourcesCount_EnforceSpec :: "(world \<Rightarrow> outcome \<times> world) list \<Rightarrow> world \<Rightarrow> outcome \<times> world" where
  "ResourcesCount_EnforceSpec registry = run_all registry"

definition addResourcesCountSpecEnforcers :: "int \<Rightarrow> server \<Rightarrow> (world \<Rightarrow> outcome \<times> world) list" where
  "addResourcesCountSpecEnforcers now srv =
     AddSpecEnforcer (BackUpCronJob_EnforceSpec srv)
       (AddSpecEnforcer (Services_EnforceSpec srv)
         (AddSpecEnforcer (StatefulSetCount_EnforceSpec now srv)
           (AddSpecEnforcer (BaseConfigMap_EnforceSpec now srv) [])))"

section \<open>The contract of a count enforcer\<close>

text \<open>The requests that change what a blocking operation protects.\<close>

fun locked_call :: "api_call \<Rightarrow> bool" where
  "locked_call (CreateConfigMap _) = True"
| "locked_call (CreateStatefulSet _) = True"
| "locked_call (UpdateStatefulSet _) = True"
| "locked_call (DeleteStatefulSet _) = True"
| "locked_call (DeletePod _) = True"
| "locked_call (UpdatePersistentVolumeClaim _) = True"
| "locked_call _ = False"

definition appends :: "(api_call \<Rightarrow> bool) \<Rightarrow> world \<Rightarrow> world \<Rightarrow> bool" where
  "appends P w w' \<longleftrightarrow> (\<exists>cs. w_calls w' = w_calls w @ cs \<and> (\<forall>c \<in> set cs. P c))"

lemma appends_refl [simp]: "appends P w w" and appends_same: "w_calls w' = w_calls w \<Longrightarrow> appends P w w'"
  by (auto simp: appends_def)

lemma appends_trans: "appends P u v \<Longrightarrow> appends P v w \<Longrightarrow> appends P u w"
  by (fastforce simp: appends_def)

lemma appends_one: "w_calls w' = w_calls w @ [c] \<Longrightarrow> P c \<Longrightarrow> appends P w w'"
  by (auto simp: appends_def)

text \<open>While an operation it does not own is active, an enforcer leaves it alone.\<close>

definition blocked_step :: "world \<Rightarrow> world \<Rightarrow> bool" where
  "blocked_step w w' \<longleftrightarrow> w_activeOperation w' = w_activeOperation w \<and> appends (\<lambda>c. \<not> locked_call c) w w'"

lemma blocked_step_refl [simp]: "blocked_step w w"
  by (simp add: blocked_step_def)

lemma blocked_step_trans: "blocked_step u v \<Longrightarrow> blocked_step v w \<Longrightarrow> blocked_step u w"
  by (auto simp: blocked_step_def intro: appends_trans)

locale count_enforcer =
  fixes enforce :: "world \<Rightarrow> outcome \<times> world"
    and owned :: "string set"
  assumes blocked: "activeId w \<noteq> '''' \<Longrightarrow> activeId w \<notin> owned \<Longrightarrow> enforce w = (r, w') \<Longrightarrow> blocked_step w w'"
begin

text \<open>The operation survives any number of runs of an enforcer that does not own it.\<close>

lemma survives:
  assumes "activeId w \<noteq> ''''" "activeId w \<notin> owned"
  shows "blocked_step w (((\<lambda>v. snd (enforce v)) ^^ n) w)"
proof (induction n)
  case (Suc n)
  let ?v = "((\<lambda>v. snd (enforce v)) ^^ n) w"
  have "activeId ?v = activeId w" using Suc by (simp add: blocked_step_def activeId_def)
  then have "blocked_step ?v (snd (enforce ?v))" using assms blocked [of ?v] by (metis prod.collapse)
  with Suc show ?case by (simp add: blocked_step_trans)
qed simp

end

text \<open>Two enforcers in sequence own what each of them owns.\<close>

lemma count_enforcer_and_then:
  assumes "count_enforcer f A" "count_enforcer g B"
  shows "count_enforcer (and_then f g) (A \<union> B)"
proof
  fix w r w'
  assume a: "activeId w \<noteq> ''''" "activeId w \<notin> A \<union> B" "and_then f g w = (r, w')"
  from a(3) show "blocked_step w w'"
  proof (cases rule: and_then_cases)
    case first
    then show ?thesis using a count_enforcer.blocked [OF assms(1)] by blast
  next
    case (second v)
    then have v: "blocked_step w v" using a count_enforcer.blocked [OF assms(1)] by blast
    then have "activeId v = activeId w" by (simp add: blocked_step_def activeId_def)
    then have "blocked_step v w'" using a second count_enforcer.blocked [OF assms(2)] by (metis UnI2)
    with v show ?thesis by (rule blocked_step_trans)
  qed
qed

lemma count_enforcer_run_all:
  "(\<And>f. f \<in> set fs \<Longrightarrow> count_enforcer f A) \<Longrightarrow> count_enforcer (run_all fs) A"
proof (induction fs)
  case Nil
  show ?case by unfold_locales simp
next
  case (Cons f fs)
  then have "count_enforcer (and_then f (run_all fs)) (A \<union> A)" by (intro count_enforcer_and_then) auto
  then show ?case by (simp add: count_enforcer_def)
qed

lemma count_enforcer_mono: "count_enforcer f A \<Longrightarrow> A \<subseteq> B \<Longrightarrow> count_enforcer f B"
  by (auto simp: count_enforcer_def)

section \<open>The enforcers keep the contract\<close>

lemma blocked_different: "activeId w \<noteq> '''' \<Longrightarrow> activeId w \<noteq> oid \<Longrightarrow> IsActiveOperationIdDifferentOf oid w"
  by (simp add: op_defs activeId_def)

lemma deployService_step: "deployService srv b w = (r, w') \<Longrightarrow> blocked_step w w'"
  by (auto simp: deployService_def client_write_def blocked_step_def split: option.splits
      intro: appends_one appends_same)

lemma backup_steps:
  "deleteCronJob srv w = (r, w') \<Longrightarrow> blocked_step w w'"
  "deployCronJob srv cj w = (r, w') \<Longrightarrow> blocked_step w w'"
  "create_backup srv w = (r, w') \<Longrightarrow> blocked_step w w'"
proof -
  show "deleteCronJob srv w = (r, w') \<Longrightarrow> blocked_step w w'"
    by (auto simp: deleteCronJob_def client_write_def blocked_step_def split: option.splits intro: appends_one)
  have d: "deployCronJob srv cj w = (r, w') \<Longrightarrow> blocked_step w w'" for cj
    by (auto simp: deployCronJob_def client_write_def blocked_step_def split: option.splits intro: appends_one)
  then show "deployCronJob srv cj w = (r, w') \<Longrightarrow> blocked_step w w'" .
  show "create_backup srv w = (r, w') \<Longrightarrow> blocked_step w w'"
    by (auto simp: create_backup_def d split: option.splits if_splits)
qed

interpretation base_config: count_enforcer "BaseConfigMap_EnforceSpec now srv"
  "{OperationIdBaseConfigCountSpecEnforcement}" for now srv
  by unfold_locales (auto simp: BaseConfigMap_EnforceSpec_def blocked_different)

interpretation primary_count: count_enforcer "PrimaryDbCountSpecEnforcer_Enforce now srv"
  "{OperationIdPrimaryDbCountSpecEnforcement}" for now srv
proof
  fix w r w'
  assume a: "activeId w \<noteq> ''''" "activeId w \<notin> {OperationIdPrimaryDbCountSpecEnforcement}"
    "PrimaryDbCountSpecEnforcer_Enforce now srv w = (r, w')"
  show "blocked_step w w'"
  proof (cases "isStandbyEnabled w")
    case True
    with a show ?thesis
      by (auto simp: PrimaryDbCountSpecEnforcer_Enforce_def blocked_step_def intro: appends_same)
  next
    case False
    obtain ri v where i: "initialiseStatusEnforcedReplicas w = (ri, v)" by fastforce
    have "IsActiveOperationIdDifferentOf OperationIdPrimaryDbCountSpecEnforcement v"
      using a initialise_frame(5) [OF i] by (simp add: op_defs activeId_def)
    with a False i have "w' = v"
      by (auto simp: PrimaryDbCountSpecEnforcer_Enforce_def and_then_def enforce_primary_count_def
          split: outcome.splits)
    then show ?thesis using initialise_frame [OF i] by (simp add: blocked_step_def appends_same)
  qed
qed

interpretation replica_count: count_enforcer "ReplicaDbCountSpecEnforcer_Enforce now srv"
  "{OperationIdReplicaDbCountSpecEnforcement}" for now srv
  by unfold_locales (auto simp: ReplicaDbCountSpecEnforcer_Enforce_def blocked_different)

lemma Services_EnforceSpec_step:
  assumes "Services_EnforceSpec srv w = (r, w')"
  shows "blocked_step w w'"
  by (rule and_then_rel [OF _ _ blocked_step_trans assms [unfolded Services_EnforceSpec_def]])
     (auto split: if_splits dest: deployService_step)

lemma BackUpCronJob_EnforceSpec_step:
  assumes "BackUpCronJob_EnforceSpec srv w = (r, w')"
  shows "blocked_step w w'"
proof -
  have "and_then (deleteCronJob srv) (create_backup srv) w = (r, w') \<Longrightarrow> blocked_step w w'"
    by (erule and_then_rel [rotated 3]) (auto intro: backup_steps blocked_step_trans)
  with assms show ?thesis
    by (auto simp: BackUpCronJob_EnforceSpec_def intro: backup_steps split: if_splits option.splits bool.splits)
qed

interpretation services_count: count_enforcer "Services_EnforceSpec srv" "{}" for srv
  by unfold_locales (rule Services_EnforceSpec_step)

interpretation backup_count: count_enforcer "BackUpCronJob_EnforceSpec srv" "{}" for srv
  by unfold_locales (rule BackUpCronJob_EnforceSpec_step)

lemma statefulset_count_enforcer:
  "count_enforcer (StatefulSetCount_EnforceSpec now srv)
     {OperationIdPrimaryDbCountSpecEnforcement, OperationIdReplicaDbCountSpecEnforcement}"
  using count_enforcer_and_then [OF primary_count.count_enforcer_axioms replica_count.count_enforcer_axioms]
  by (simp add: StatefulSetCount_EnforceSpec_def insert_commute)

interpretation all_counts: count_enforcer
  "ResourcesCount_EnforceSpec (addResourcesCountSpecEnforcers now srv)"
  "{OperationIdBaseConfigCountSpecEnforcement, OperationIdPrimaryDbCountSpecEnforcement,
    OperationIdReplicaDbCountSpecEnforcement}" for now srv
  unfolding ResourcesCount_EnforceSpec_def
proof (rule count_enforcer_run_all)
  fix f
  assume "f \<in> set (addResourcesCountSpecEnforcers now srv)"
  then show "count_enforcer f {OperationIdBaseConfigCountSpecEnforcement, OperationIdPrimaryDbCountSpecEnforcement,
      OperationIdReplicaDbCountSpecEnforcement}"
    by (auto simp: addResourcesCountSpecEnforcers_def AddSpecEnforcer_def
        intro: count_enforcer_mono [OF base_config.count_enforcer_axioms]
          count_enforcer_mono [OF statefulset_count_enforcer]
          count_enforcer_mono [OF services_count.count_enforcer_axioms]
          count_enforcer_mono [OF backup_count.count_enforcer_axioms])
qed

lemma CreateBackUpCronJob_None:
  "CreateBackUpCronJob k n = None \<longleftrightarrow> \<not> standby_Enabled (spec_Standby (kg_Spec k)) \<and> spec_Replicas (kg_Spec k) = None"
  by (cases "backup_source k")
     (auto simp: CreateBackUpCronJob_def backup_container_def template_defs Let_def backup_source_def
        numeral_2_eq_2 numeral_3_eq_3 split: if_splits option.splits)

lemma CreateService_Some:
  "\<exists>s. CreatePrimaryService k = Some s \<and> service_isPrimary s \<and> md_Name (svc_meta s) = GetServiceResourceName k True \<and>
     svc_Ports s = [spec_Port (kg_Spec k)] \<and> map_get (svc_Selector s) ''replicationRole'' = PrimaryRoleName"
  "\<exists>s. CreateReplicaService k = Some s \<and> \<not> service_isPrimary s \<and> md_Name (svc_meta s) = GetServiceResourceName k False \<and>
     svc_Ports s = [spec_Port (kg_Spec k)] \<and> map_get (svc_Selector s) ''replicationRole'' \<noteq> PrimaryRoleName"
  by (simp_all add: CreatePrimaryService_def CreateReplicaService_def initService_def template_defs map_set_def
      set_service_name_def service_isPrimary_def PrimaryRoleName_def map_get_def zero_ObjectMeta_def)

text \<open>The outcome of a list of answers: the first error, if there is one.\<close>

definition first_error :: "go_error option list \<Rightarrow> outcome" where
  "first_error answers = (case List.map_filter id answers of [] \<Rightarrow> Ok | e # _ \<Rightarrow> Err e)"

lemma first_error_simps [simp]:
  "first_error [] = Ok" "first_error (None # as) = first_error as" "first_error (Some e # as) = Err e"
  "first_error as \<noteq> Panic" "first_error as = Ok \<longleftrightarrow> (\<forall>a \<in> set as. a = None)"
  "first_error as = Ok \<Longrightarrow> first_error (as @ bs) = first_error bs"
proof -
  show ok: "first_error as = Ok \<longleftrightarrow> (\<forall>a \<in> set as. a = None)"
    by (induction as) (auto simp: first_error_def map_filter_def split: list.splits)
  show "first_error as = Ok \<Longrightarrow> first_error (as @ bs) = first_error bs"
    unfolding ok by (simp add: first_error_def map_filter_def)
qed (simp_all add: first_error_def map_filter_def split: list.splits)

lemma deployService_if:
  obtains r v ss where "(if c then deployService srv b w else (Ok, w)) = (r, v)" "w_calls v = w_calls w @ map CreateService ss"
    "length ss = (if c then 1 else 0)" "w_kubegres v = w_kubegres w" "w_states v = w_states w"
    "\<forall>s \<in> set ss. (service_isPrimary s \<longleftrightarrow> b) \<and> md_Name (svc_meta s) = GetServiceResourceName (w_kubegres w) b \<and>
       svc_Ports s = [spec_Port (w_spec w)]"
    "r = first_error (map (\<lambda>s. srv_write srv (w_calls w) (CreateService s)) ss)"
proof (cases c)
  case True
  obtain s where s: "(if b then CreatePrimaryService (w_kubegres w) else CreateReplicaService (w_kubegres w)) = Some s"
    "service_isPrimary s \<longleftrightarrow> b" "md_Name (svc_meta s) = GetServiceResourceName (w_kubegres w) b" "svc_Ports s = [spec_Port (w_spec w)]"
    using CreateService_Some [of "w_kubegres w"] by (cases b) auto
  with True show ?thesis
    by (intro that [of "fst (deployService srv b w)" "snd (deployService srv b w)" "[s]"])
      (auto simp: deployService_def client_write_def split: option.splits)
qed (auto intro: that [of Ok w "[]"])

section \<open>Properties\<close>

text \<open>
  C28: while the specs of the StatefulSets are being enforced, no run of the count
  enforcers, however often it is repeated, touches that operation, creates, updates or
  deletes a StatefulSet, or creates a configuration map.
\<close>

theorem count_enforcers_wait_for_spec_enforcement:
  assumes "activeId w = OperationIdStatefulSetSpecEnforcing"
    and "w' = ((\<lambda>v. snd (ResourcesCount_EnforceSpec (addResourcesCountSpecEnforcers now srv) v)) ^^ n) w"
  shows "w_activeOperation w' = w_activeOperation w \<and>
    (\<exists>cs. w_calls w' = w_calls w @ cs \<and> (\<forall>c \<in> set cs. \<not> locked_call c))"
  using all_counts.survives [where w = w and n = n and now = now and srv = srv] assms
  by (simp add: blocked_step_def appends_def)

theorem count_enforcers_wait_for_spec_enforcement_witness:
  "w_activeOperation (((\<lambda>v. snd (ResourcesCount_EnforceSpec (addResourcesCountSpecEnforcers 1000 sample_server) v)) ^^ 2)
     (failing_world\<lparr>w_activeOperation := zero_Operation\<lparr>op_OperationId := OperationIdStatefulSetSpecEnforcing\<rparr>\<rparr>))
   = zero_Operation\<lparr>op_OperationId := OperationIdStatefulSetSpecEnforcing\<rparr>"
proof -
  let ?w = "failing_world\<lparr>w_activeOperation := zero_Operation\<lparr>op_OperationId := OperationIdStatefulSetSpecEnforcing\<rparr>\<rparr>"
  have "activeId ?w = OperationIdStatefulSetSpecEnforcing" by (simp add: activeId_def)
  from count_enforcers_wait_for_spec_enforcement [OF this refl, of 2 1000 sample_server] show ?thesis by simp
qed

text \<open>
  C35: the backup job the operator creates is the one it expects. When the deployed job is
  the created one, no change is found and the next run sends no request, so the job is
  not deleted and created over and over.
\<close>

theorem created_backup_is_stable:
  assumes "CreateBackUpCronJob (w_kubegres w) (getConfigMapNameForBackUp (rs_Config (w_states w))) = Some cj"
    and "bus_DeployedCronJob (rs_BackUp (w_states w)) = cj" "isCronJobDeployed w"
  shows "backup_hasSpecChanged w = Some False \<and> BackUpCronJob_EnforceSpec srv w = (Ok, w)"
proof -
  obtain source where s: "backup_source (w_kubegres w) = Some source"
    using assms(1) by (auto simp: CreateBackUpCronJob_def bind_eq_Some_conv Let_def)
  have "backup_hasSpecChanged w = Some False"
    using assms(1) unfolding backup_hasSpecChanged_def assms(2) s
    by (simp add: CreateBackUpCronJob_def backup_container_def template_defs s Let_def numeral_2_eq_2
        numeral_3_eq_3) (erule subst, simp add: numeral_3_eq_3)
  with assms(3) show ?thesis by (simp add: BackUpCronJob_EnforceSpec_def)
qed

definition backup_world :: world where
  "backup_world = sample_world\<lparr>w_states := zero_ResourcesStates
     \<lparr>rs_BackUp := \<lparr>bus_IsCronJobDeployed = True, bus_IsPvcDeployed = True, bus_ConfigMap = '''',
        bus_CronJobLastScheduleTime = '''',
        bus_DeployedCronJob = the (CreateBackUpCronJob sample_Kubegres (getConfigMapNameForBackUp (rs_Config zero_ResourcesStates)))\<rparr>\<rparr>\<rparr>"

theorem created_backup_is_stable_witness:
  "BackUpCronJob_EnforceSpec sample_server backup_world = (Ok, backup_world)"
proof -
  have "CreateBackUpCronJob sample_Kubegres (getConfigMapNameForBackUp (rs_Config zero_ResourcesStates)) \<noteq> None"
    by (simp only: CreateBackUpCronJob_None) (simp add: sample_Kubegres_def sample_Spec_def)
  then have "CreateBackUpCronJob (w_kubegres backup_world) (getConfigMapNameForBackUp (rs_Config (w_states backup_world)))
      = Some (bus_DeployedCronJob (rs_BackUp (w_states backup_world)))"
    by (auto simp: backup_world_def sample_world_def)
  from created_backup_is_stable [OF this refl, of sample_server] show ?thesis
    by (simp add: isCronJobDeployed_def backup_world_def)
qed

text \<open>
  C34: whatever the server answers, the services enforcer never panics. It asks for the
  primary service exactly when the primary is ready and has no service; it asks for the replica
  service exactly when a replica is ready, there is none, and the request for the primary
  service, if it was sent, was accepted; and it sends nothing else. Each service has the name,
  the role and the port of the spec. The outcome is the error of the request that was rejected,
  and success when none was.
\<close>

theorem Services_EnforceSpec_creates_missing:
  fixes w :: world and srv :: server
  defines "p \<equiv> \<not> srw_IsDeployed (svs_Primary (rs_Services (w_states w))) \<and> isPrimaryDbReady w"
    and "q \<equiv> \<not> srw_IsDeployed (svs_Replica (rs_Services (w_states w))) \<and> isThereReadyReplica w"
  shows "\<exists>r w' ps rs. Services_EnforceSpec srv w = (r, w') \<and> w_calls w' = w_calls w @ map CreateService (ps @ rs) \<and>
    length ps = (if p then 1 else 0) \<and>
    length rs = (if q \<and> (\<forall>s \<in> set ps. srv_write srv (w_calls w) (CreateService s) = None) then 1 else 0) \<and>
    (\<forall>s \<in> set ps. service_isPrimary s \<and> md_Name (svc_meta s) = GetServiceResourceName (w_kubegres w) True) \<and>
    (\<forall>s \<in> set rs. \<not> service_isPrimary s \<and> md_Name (svc_meta s) = GetServiceResourceName (w_kubegres w) False) \<and>
    (\<forall>s \<in> set (ps @ rs). svc_Ports s = [spec_Port (w_spec w)]) \<and>
    r = first_error (map (\<lambda>s. srv_write srv (w_calls w) (CreateService s)) ps @
      map (\<lambda>s. srv_write srv (w_calls w @ map CreateService ps) (CreateService s)) rs)"
proof -
  obtain r v ps where v: "(if p then deployService srv True w else (Ok, w)) = (r, v)" "w_calls v = w_calls w @ map CreateService ps"
    "length ps = (if p then 1 else 0)" "w_kubegres v = w_kubegres w" "w_states v = w_states w"
    "\<forall>s \<in> set ps. service_isPrimary s \<and> md_Name (svc_meta s) = GetServiceResourceName (w_kubegres w) True \<and> svc_Ports s = [spec_Port (w_spec w)]"
    "r = first_error (map (\<lambda>s. srv_write srv (w_calls w) (CreateService s)) ps)"
    by (rule deployService_if [of p srv True w]) simp
  have ok: "r = Ok \<longleftrightarrow> (\<forall>s \<in> set ps. srv_write srv (w_calls w) (CreateService s) = None)" by (simp add: v(7))
  have e: "Services_EnforceSpec srv w = (if r = Ok then if q then deployService srv False v else (Ok, v) else (r, v))"
    unfolding Services_EnforceSpec_def and_then_def using v(1,5) unfolding p_def q_def
    by (simp only:) (simp add: isThereReadyReplica_def split: outcome.splits)
  obtain r' u rs where u: "(if q then deployService srv False v else (Ok, v)) = (r', u)" "w_calls u = w_calls v @ map CreateService rs"
    "length rs = (if q then 1 else 0)"
    "\<forall>s \<in> set rs. \<not> service_isPrimary s \<and> md_Name (svc_meta s) = GetServiceResourceName (w_kubegres w) False \<and> svc_Ports s = [spec_Port (w_spec w)]"
    "r' = first_error (map (\<lambda>s. srv_write srv (w_calls v) (CreateService s)) rs)"
    by (rule deployService_if [of q srv False v]) (simp add: v(4))
  show ?thesis
  proof (cases "r = Ok")
    case True
    then show ?thesis using u v(2,3,6,7) ok
      by (intro exI [of _ r'] exI [of _ u] exI [of _ ps] exI [of _ rs]) (auto simp: e)
  next
    case False
    then show ?thesis using v ok
      by (intro exI [of _ r] exI [of _ v] exI [of _ ps] exI [of _ "[]"]) (auto simp: e)
  qed
qed

theorem Services_EnforceSpec_creates_missing_witness:
  "\<exists>w' s. Services_EnforceSpec sample_server scaling_world = (Ok, w') \<and>
     CreateService s \<in> set (w_calls w') \<and> service_isPrimary s"
proof -
  have "\<not> srw_IsDeployed (svs_Primary (rs_Services (w_states scaling_world))) \<and> isPrimaryDbReady scaling_world"
    using scaling_states(5) by (simp add: scaling_world_def zero_ResourcesStates_def zero_ServiceWrapper_def)
  moreover have "srv_write sample_server cs c = None" for cs c by (simp add: sample_server_def)
  ultimately obtain w' ps rs where "Services_EnforceSpec sample_server scaling_world = (Ok, w')"
    "w_calls w' = w_calls scaling_world @ map CreateService (ps @ rs)" "length ps = 1" "\<forall>s \<in> set ps. service_isPrimary s"
    using Services_EnforceSpec_creates_missing [of sample_server scaling_world] by auto
  then show ?thesis by (cases ps) auto
qed

end
