(* ===== verification/Default_Spec.thy ===== *)
theory Default_Spec
  imports Sample_Cluster
begin

text \<open>
  \<open>src/controllers/spec/defaultspec\<close>: the values the operator fills in when the user
  left a field of the Kubegres spec undefined. The shared object is changed in memory field
  by field and sent once at the end.
\<close>

section \<open>Default storage class\<close>

definition IsDefaultClassAnnotation :: string where
  "IsDefaultClassAnnotation = ''storageclass.kubernetes.io/is-default-class''"

text \<open>A list request that fails leaves the list empty.\<close>

definition GetDefaultStorageClassName :: "server \<Rightarrow> world \<Rightarrow> string res \<times> world" where
  "GetDefaultStorageClassName srv w =
     (let (items, w1) = (case srv_list_StorageClasses srv (w_calls w) of
            Inr scs \<Rightarrow> (scs, w)
          | Inl ApiNotFound \<Rightarrow> ([], w)
          | Inl err \<Rightarrow> ([], ErrorEvent ''DefaultStorageClassNameErr'' w))
      in case find (\<lambda>sc. map_get (sc_Annotations sc) IsDefaultClassAnnotation = ''true'') items of
           Some storageClass \<Rightarrow> (Val (sc_Name storageClass), w1)
         | None \<Rightarrow>
             (Fail (TextError (''Unable to retrieve the name of the default storage class in the Kubernetes cluster. Namespace: ''
                @ kg_Namespace (w_kubegres w))),
              ErrorEvent ''DefaultStorageClassNameErr'' w1))"

section \<open>Undefined values\<close>

definition createLog :: "world \<Rightarrow> world" where
  "createLog = InfoEvent ''DefaultSpecValue''"

definition isStorageClassNameUndefinedInSpec :: "KubegresSpec \<Rightarrow> bool" where
  "isStorageClassNameUndefinedInSpec spec \<longleftrightarrow>
     (case db_StorageClassName (spec_Database spec) of None \<Rightarrow> True | Some storageClassName \<Rightarrow> storageClassName = '''')"

definition createDefaultAffinity :: "string \<Rightarrow> k8s_value" where
  "createDefaultAffinity resourceName = KObj [(''podAntiAffinity'',
     KObj [(''preferredDuringSchedulingIgnoredDuringExecution'', KList [KObj
       [(''weight'', KInt 100),
        (''podAffinityTerm'', KObj
          [(''labelSelector'', KObj [(''matchExpressions'', KList [KObj
              [(''key'', KStr ''app''), (''operator'', KStr ''In''), (''values'', KList [KStr resourceName])]])]),
           (''topologyKey'', KStr ''kubernetes.io/hostname'')])]])])]"

definition updateSpec :: "server \<Rightarrow> world \<Rightarrow> outcome \<times> world" where
  "updateSpec srv w =
     (case client_update_Kubegres srv w of (None, w1) \<Rightarrow> (Ok, w1) | (Some err, w1) \<Rightarrow> (Err err, w1))"

text \<open>One \<open>if\<close> of \<open>apply\<close>: the flag \<open>wasSpecChanged\<close> and the state.\<close>

definition set_default :: "(KubegresSpec \<Rightarrow> bool) \<Rightarrow> (KubegresSpec \<Rightarrow> KubegresSpec) \<Rightarrow> bool \<times> world \<Rightarrow> bool \<times> world" where
  "set_default undefd upd s =
     (if undefd (w_spec (snd s)) then (True, createLog (upd_spec upd (snd s))) else s)"

text \<open>The three fields whose default is a constant.\<close>

definition constant_defaults :: "world \<Rightarrow> bool \<times> world" where
  "constant_defaults w =
     set_default (\<lambda>s. spec_CustomConfig s = '''') (\<lambda>s. s\<lparr>spec_CustomConfig := BaseConfigMapName\<rparr>)
      (set_default (\<lambda>s. db_VolumeMount (spec_Database s) = '''')
         (\<lambda>s. s\<lparr>spec_Database := (spec_Database s)\<lparr>db_VolumeMount := DefaultDatabaseVolumeMount\<rparr>\<rparr>)
       (set_default (\<lambda>s. spec_Port s \<le> 0) (\<lambda>s. s\<lparr>spec_Port := DefaultContainerPortNumber\<rparr>) (False, w)))"

definition storage_class_default :: "server \<Rightarrow> bool \<times> world \<Rightarrow> bool res \<times> world" where
  "storage_class_default srv s =
     (if isStorageClassNameUndefinedInSpec (w_spec (snd s)) then
        res_bind (GetDefaultStorageClassName srv) (\<lambda>defaultStorageClassName w.
          (Val True, createLog (upd_spec (\<lambda>sp. sp\<lparr>spec_Database :=
             (spec_Database sp)\<lparr>db_StorageClassName := Some defaultStorageClassName\<rparr>\<rparr>) w))) (snd s)
      else (Val (fst s), snd s))"

definition affinity_default :: "bool \<times> world \<Rightarrow> bool \<times> world" where
  "affinity_default s =
     set_default (\<lambda>sp. sched_Affinity (spec_Scheduler sp) = None)
       (\<lambda>sp. sp\<lparr>spec_Scheduler := (spec_Scheduler sp)
          \<lparr>sched_Affinity := Some (createDefaultAffinity (kg_Name (w_kubegres (snd s))))\<rparr>\<rparr>) s"

definition apply_defaults :: "server \<Rightarrow> world \<Rightarrow> outcome \<times> world" where
  "apply_defaults srv w =
     (case storage_class_default srv (constant_defaults w) of
        (Fail err, w1) \<Rightarrow> (Err err, w1)
      | (Crash, w1) \<Rightarrow> (Panic, w1)
      | (Val ch, w1) \<Rightarrow>
          (let (wasSpecChanged, w2) = affinity_default (ch, w1)
           in if wasSpecChanged then updateSpec srv w2 else (Ok, w2)))"

definition SetDefaultForUndefinedSpecValues :: "server \<Rightarrow> world \<Rightarrow> outcome \<times> world" where
  "SetDefaultForUndefinedSpecValues srv w = apply_defaults srv w"

section \<open>What the defaults do\<close>

definition defaults_set :: "KubegresSpec \<Rightarrow> bool" where
  "defaults_set s \<longleftrightarrow> 0 < spec_Port s \<and> db_VolumeMount (spec_Database s) \<noteq> '''' \<and> spec_CustomConfig s \<noteq> '''' \<and>
     \<not> isStorageClassNameUndefinedInSpec s \<and> sched_Affinity (spec_Scheduler s) \<noteq> None"

text \<open>The spec with every undefined field filled, for a given default storage class.\<close>

definition with_defaults :: "string \<Rightarrow> string \<Rightarrow> KubegresSpec \<Rightarrow> KubegresSpec" where
  "with_defaults name sc s = s
     \<lparr>spec_Port := (if spec_Port s \<le> 0 then 5432 else spec_Port s),
      spec_CustomConfig := (if spec_CustomConfig s = '''' then ''base-kubegres-config'' else spec_CustomConfig s),
      spec_Database := (spec_Database s)
        \<lparr>db_VolumeMount := (if db_VolumeMount (spec_Database s) = '''' then ''/var/lib/postgresql/data''
                            else db_VolumeMount (spec_Database s)),
         db_StorageClassName := (if isStorageClassNameUndefinedInSpec s then Some sc
                                 else db_StorageClassName (spec_Database s))\<rparr>,
      spec_Scheduler := (spec_Scheduler s)
        \<lparr>sched_Affinity := (case sched_Affinity (spec_Scheduler s) of
           None \<Rightarrow> Some (createDefaultAffinity name) | Some a \<Rightarrow> Some a)\<rparr>\<rparr>"

text \<open>
  What an API server documents of the two requests: an accepted update returns the spec it
  was sent, and the objects of a list have names.
\<close>

definition keeps_spec :: "server \<Rightarrow> bool" where
  "keeps_spec srv \<longleftrightarrow> (\<forall>cs k k'. srv_update_Kubegres srv cs k = Inr k' \<longrightarrow> kg_Spec k' = kg_Spec k)"

definition names_classes :: "server \<Rightarrow> bool" where
  "names_classes srv \<longleftrightarrow>
     (\<forall>cs scs. srv_list_StorageClasses srv cs = Inr scs \<longrightarrow> (\<forall>sc \<in> set scs. sc_Name sc \<noteq> ''''))"

lemma createLog_frame [simp, frame]:
  "w_kubegres (createLog w) = w_kubegres w" "w_calls (createLog w) = w_calls w" "w_states (createLog w) = w_states w"
  "w_configs (createLog w) = w_configs w" "w_activeOperation (createLog w) = w_activeOperation w"
  "w_previouslyActiveOperation (createLog w) = w_previouslyActiveOperation w"
  "w_statusFieldsToUpdate (createLog w) = w_statusFieldsToUpdate w"
  by (simp_all add: createLog_def)

lemma set_default_simps:
  "w_spec (snd (set_default u f s)) = (if u (w_spec (snd s)) then f (w_spec (snd s)) else w_spec (snd s))"
  "fst (set_default u f s) \<longleftrightarrow> u (w_spec (snd s)) \<or> fst s"
  "w_calls (snd (set_default u f s)) = w_calls (snd s)"
  "kg_meta (w_kubegres (snd (set_default u f s))) = kg_meta (w_kubegres (snd s))"
  "\<not> u (w_spec (snd s)) \<Longrightarrow> set_default u f s = s"
  by (auto simp: set_default_def)

lemma GetDefaultStorageClassName_frame:
  assumes "GetDefaultStorageClassName srv w = (r, w')"
  shows "same_but_events w w'" and "r \<noteq> Crash"
    and "r = Val sc \<Longrightarrow> \<exists>scs c. srv_list_StorageClasses srv (w_calls w) = Inr scs \<and> c \<in> set scs \<and> sc_Name c = sc
           \<and> map_get (sc_Annotations c) IsDefaultClassAnnotation = ''true''"
  using assms by (auto simp: GetDefaultStorageClassName_def find_Some_iff in_set_conv_nth Let_def
      intro!: same_but_events_step split: sum.splits go_error.splits option.splits)

lemma constant_defaults_spec:
  "w_spec (snd (constant_defaults w)) = (w_spec w)
     \<lparr>spec_Port := (if spec_Port (w_spec w) \<le> 0 then 5432 else spec_Port (w_spec w)),
      spec_CustomConfig := (if spec_CustomConfig (w_spec w) = '''' then ''base-kubegres-config'' else spec_CustomConfig (w_spec w)),
      spec_Database := (spec_Database (w_spec w))
        \<lparr>db_VolumeMount := (if db_VolumeMount (spec_Database (w_spec w)) = '''' then ''/var/lib/postgresql/data''
                            else db_VolumeMount (spec_Database (w_spec w)))\<rparr>\<rparr>"
  "fst (constant_defaults w) \<longleftrightarrow> spec_Port (w_spec w) \<le> 0 \<or> db_VolumeMount (spec_Database (w_spec w)) = '''' \<or> spec_CustomConfig (w_spec w) = ''''"
  "w_calls (snd (constant_defaults w)) = w_calls w"
  "kg_meta (w_kubegres (snd (constant_defaults w))) = kg_meta (w_kubegres w)"
  by (auto simp: constant_defaults_def set_default_simps DefaultContainerPortNumber_def
      BaseConfigMapName_def DefaultDatabaseVolumeMount_def)

lemma storage_class_default_Val:
  assumes "storage_class_default srv s = (Val ch, w')"
  obtains (undefd) sc where "isStorageClassNameUndefinedInSpec (w_spec (snd s))" "ch"
      "w_spec w' = (w_spec (snd s))\<lparr>spec_Database := (spec_Database (w_spec (snd s)))\<lparr>db_StorageClassName := Some sc\<rparr>\<rparr>"
      "kg_meta (w_kubegres w') = kg_meta (w_kubegres (snd s))" "w_calls w' = w_calls (snd s)"
      "\<exists>scs c. srv_list_StorageClasses srv (w_calls (snd s)) = Inr scs \<and> c \<in> set scs \<and> sc_Name c = sc"
  | (same) "\<not> isStorageClassNameUndefinedInSpec (w_spec (snd s))" "ch = fst s" "w' = snd s"
proof (cases "isStorageClassNameUndefinedInSpec (w_spec (snd s))")
  case True
  then obtain sc u where u: "GetDefaultStorageClassName srv (snd s) = (Val sc, u)"
    and w': "ch" "w' = createLog (upd_spec (\<lambda>sp. sp\<lparr>spec_Database := (spec_Database sp)\<lparr>db_StorageClassName := Some sc\<rparr>\<rparr>) u)"
    using assms by (auto simp: storage_class_default_def res_bind_eq_Val)
  note fr = same_but_events_fields [OF GetDefaultStorageClassName_frame(1) [OF u]]
  show ?thesis
    using GetDefaultStorageClassName_frame(3) [OF u refl] by (intro undefd [of sc]) (auto simp: w' fr True)
next
  case False
  with assms show ?thesis by (intro same) (auto simp: storage_class_default_def)
qed

lemma not_undefined_name: "\<not> isStorageClassNameUndefinedInSpec s \<longleftrightarrow>
    (\<exists>n. db_StorageClassName (spec_Database s) = Some n \<and> n \<noteq> '''')"
  by (auto simp: isStorageClassNameUndefinedInSpec_def split: option.splits)

lemma defaults_set_stable:
  assumes "defaults_set (w_spec w)"
  shows "apply_defaults srv w = (Ok, w)"
proof -
  have "constant_defaults w = (False, w)"
    using assms by (simp add: constant_defaults_def set_default_def defaults_set_def)
  with assms show ?thesis
    by (auto simp: apply_defaults_def storage_class_default_def affinity_default_def set_default_def defaults_set_def)
qed

lemma updateSpec_Ok:
  assumes "updateSpec srv w = (Ok, w')" "keeps_spec srv"
  shows "w_spec w' = w_spec w" "w_calls w' = w_calls w @ [UpdateKubegres (w_kubegres w)]"
  using assms by (auto simp: updateSpec_def client_update_Kubegres_def keeps_spec_def Let_def split: sum.splits)

text \<open>The last two steps, for the state that the constant defaults leave.\<close>

lemma finish_defaults:
  assumes "(let (wasSpecChanged, w2) = affinity_default (ch, w1)
            in if wasSpecChanged then updateSpec srv w2 else (Ok, w2)) = (Ok, w')" "keeps_spec srv"
  shows "w_spec w' = (w_spec w1)\<lparr>spec_Scheduler := (spec_Scheduler (w_spec w1))
           \<lparr>sched_Affinity := (case sched_Affinity (spec_Scheduler (w_spec w1)) of
              None \<Rightarrow> Some (createDefaultAffinity (kg_Name (w_kubegres w1))) | Some a \<Rightarrow> Some a)\<rparr>\<rparr>"
    and "w_calls w' = w_calls w1 \<longleftrightarrow> \<not> ch \<and> sched_Affinity (spec_Scheduler (w_spec w1)) \<noteq> None"
  using assms(1) updateSpec_Ok [OF _ assms(2)]
  by (auto simp: affinity_default_def set_default_def Let_def split: if_splits option.splits)

lemma apply_defaults_Ok:
  assumes "keeps_spec srv" "names_classes srv" "apply_defaults srv w = (Ok, w')"
  shows "\<exists>sc. sc \<noteq> '''' \<and> w_spec w' = with_defaults (kg_Name (w_kubegres w)) sc (w_spec w) \<and>
           (w_calls w' = w_calls w \<longleftrightarrow> defaults_set (w_spec w))"
proof -
  let ?s = "constant_defaults w"
  obtain ch w1 where s: "storage_class_default srv ?s = (Val ch, w1)"
    and f: "(let (wasSpecChanged, w2) = affinity_default (ch, w1)
       in if wasSpecChanged then updateSpec srv w2 else (Ok, w2)) = (Ok, w')"
    using assms(3) by (auto simp: apply_defaults_def split: prod.splits res.splits)
  note fin = finish_defaults [OF f assms(1)]
  from s show ?thesis
  proof (cases rule: storage_class_default_Val)
    case (undefd sc)
    then have "sc \<noteq> ''''" using assms(2) by (auto simp: names_classes_def)
    moreover have "isStorageClassNameUndefinedInSpec (w_spec w)"
      using undefd(1) by (simp add: isStorageClassNameUndefinedInSpec_def constant_defaults_spec)
    ultimately show ?thesis
      using undefd fin by (intro exI [of _ sc])
        (simp add: with_defaults_def constant_defaults_spec defaults_set_def cong: option.case_cong)
  next
    case same
    moreover have "\<not> isStorageClassNameUndefinedInSpec (w_spec w)"
      using same(1) by (simp add: isStorageClassNameUndefinedInSpec_def constant_defaults_spec)
    ultimately show ?thesis
      using fin by (intro exI [of _ "''x''"])
        (auto simp: with_defaults_def constant_defaults_spec defaults_set_def cong: option.case_cong)
  qed
qed

text \<open>
  C16: a run of the defaults that returns without error fills exactly the undefined fields
  (port, volume mount, configuration map, storage class, affinity) and keeps every value the
  user gave; it sends an update exactly when a field was undefined; and a second run finds
  nothing to do.
\<close>

theorem SetDefaultForUndefinedSpecValues_completes:
  assumes "keeps_spec srv" "names_classes srv" "SetDefaultForUndefinedSpecValues srv w = (Ok, w')"
  shows "(\<exists>sc. w_spec w' = with_defaults (kg_Name (w_kubegres w)) sc (w_spec w)) \<and> defaults_set (w_spec w') \<and>
         (w_calls w' = w_calls w \<longleftrightarrow> defaults_set (w_spec w)) \<and>
         SetDefaultForUndefinedSpecValues srv w' = (Ok, w')"
proof -
  obtain sc where sc: "sc \<noteq> ''''" "w_spec w' = with_defaults (kg_Name (w_kubegres w)) sc (w_spec w)"
    "w_calls w' = w_calls w \<longleftrightarrow> defaults_set (w_spec w)"
    using apply_defaults_Ok [OF assms(1,2)] assms(3) unfolding SetDefaultForUndefinedSpecValues_def by blast
  have "defaults_set (with_defaults n sc s)" for n s
    using sc(1) unfolding defaults_set_def not_undefined_name [of s] not_undefined_name [of "with_defaults n sc s"]
    by (auto simp: with_defaults_def isStorageClassNameUndefinedInSpec_def split: option.splits)
  then have "defaults_set (w_spec w')" by (simp add: sc(2))
  with sc defaults_set_stable show ?thesis by (auto simp: SetDefaultForUndefinedSpecValues_def)
qed

text \<open>A resource that leaves everything undefined, in a cluster with a default storage class.\<close>

definition class_server :: server where
  "class_server = sample_server\<lparr>srv_list_StorageClasses := \<lambda>_.
     Inr [\<lparr>sc_Name = ''slow'', sc_Annotations = [], sc_AllowVolumeExpansion = None\<rparr>,
          \<lparr>sc_Name = ''standard'', sc_Annotations = [(IsDefaultClassAnnotation, ''true'')], sc_AllowVolumeExpansion = None\<rparr>]\<rparr>"

definition bare_world :: world where
  "bare_world = upd_spec (\<lambda>s. s\<lparr>spec_Port := 0, spec_CustomConfig := '''',
     spec_Database := \<lparr>db_Size = ''200Mi'', db_VolumeMount = '''', db_StorageClassName = None\<rparr>,
     spec_Scheduler := \<lparr>sched_Affinity = None, sched_Tolerations = []\<rparr>\<rparr>) sample_world"

theorem SetDefaultForUndefinedSpecValues_completes_witness:
  "\<exists>w'. SetDefaultForUndefinedSpecValues class_server bare_world = (Ok, w') \<and> defaults_set (w_spec w') \<and>
     w_calls w' \<noteq> w_calls bare_world \<and> SetDefaultForUndefinedSpecValues class_server w' = (Ok, w')"
proof -
  have k: "keeps_spec class_server" "names_classes class_server"
    by (simp_all add: class_server_def keeps_spec_def names_classes_def)
  have nd: "\<not> defaults_set (w_spec bare_world)" by (simp add: bare_world_def defaults_set_def)
  have "fst (SetDefaultForUndefinedSpecValues class_server bare_world) = Ok"
    by (simp add: bare_world_def class_server_def SetDefaultForUndefinedSpecValues_def apply_defaults_def
        storage_class_default_def constant_defaults_def set_default_def isStorageClassNameUndefinedInSpec_def
        GetDefaultStorageClassName_def res_bind_def map_get_def IsDefaultClassAnnotation_def affinity_default_def
        updateSpec_def client_update_Kubegres_def Let_def)
  then obtain w' where w': "SetDefaultForUndefinedSpecValues class_server bare_world = (Ok, w')"
    by (cases "SetDefaultForUndefinedSpecValues class_server bare_world") auto
  from SetDefaultForUndefinedSpecValues_completes [OF k w'] w' nd show ?thesis by blast
qed

end
