(* ===== verification/Spec_Checker.thy ===== *)
theory Spec_Checker
  imports Resources_States Default_Spec
begin

text \<open>
  \<open>src/controllers/spec/checker/SpecChecker.go\<close>: the validation of the Kubegres spec
  that precedes every enforcement. Fields that cannot change once the primary runs are
  rolled back to the values of the primary StatefulSet.
\<close>

section \<open>Results and messages\<close>

record SpecCheckResult =
  HasSpecFatalError :: bool
  FatalErrorMessage :: string

definition quoted :: "string \<Rightarrow> string" where
  "quoted s = [CHR 0x27] @ s @ [CHR 0x27]"

definition createErrMsgSpecUndefined :: "string \<Rightarrow> string" where
  "createErrMsgSpecUndefined specName =
     ''In the Resources Spec the value of '' @ quoted specName @
     '' is undefined. Please set a value otherwise this operator cannot work correctly.''"

definition createErrMsgSpecCannotBeChanged :: "string \<Rightarrow> string \<Rightarrow> string \<Rightarrow> string \<Rightarrow> string" where
  "createErrMsgSpecCannotBeChanged specName currentValue newValue reason =
     ''In the Resources Spec the value of '' @ quoted specName @ '' cannot be changed from '' @ quoted currentValue @
     '' to '' @ quoted newValue @ '' after Pods were created. '' @ reason @ '' '' @
     ''We roll-backed Kubegres spec to the currently working value '' @ quoted currentValue @ ''. '' @
     ''If you know what you are doing, you can manually update that spec in every StatefulSet of your PostgreSql cluster and then Kubegres will automatically update itself.''"

definition logSpecErrMsg :: "world \<Rightarrow> world" where
  "logSpecErrMsg = ErrorEvent ''SpecCheckErr''"

definition fatal :: "string \<Rightarrow> SpecCheckResult \<Rightarrow> SpecCheckResult" where
  "fatal msg r = r\<lparr>HasSpecFatalError := True, FatalErrorMessage := msg\<rparr>"

definition updateKubegresSpec :: "server \<Rightarrow> world \<Rightarrow> world" where
  "updateKubegresSpec srv w = snd (client_update_Kubegres srv w)"

section \<open>Questions about the spec\<close>

definition check_isBackUpConfigured :: "KubegresSpec \<Rightarrow> bool" where
  "check_isBackUpConfigured spec \<longleftrightarrow> backup_Schedule (spec_Backup spec) \<noteq> ''''"

definition dbStorageClassDeployed :: "world \<Rightarrow> bool" where
  "dbStorageClassDeployed w \<longleftrightarrow> dsc_IsDeployed (rs_DbStorageClass (w_states w))"

definition isBackUpPvcDeployed :: "world \<Rightarrow> bool" where
  "isBackUpPvcDeployed w \<longleftrightarrow> bus_IsPvcDeployed (rs_BackUp (w_states w))"

definition isCustomConfigNotDeployed :: "world \<Rightarrow> bool" where
  "isCustomConfigNotDeployed w \<longleftrightarrow>
     spec_CustomConfig (w_spec w) \<noteq> '''' \<and> spec_CustomConfig (w_spec w) \<noteq> BaseConfigMapName \<and>
     \<not> cfs_IsCustomConfigDeployed (rs_Config (w_states w))"

definition doesEnvVarExist :: "string \<Rightarrow> KubegresSpec \<Rightarrow> bool" where
  "doesEnvVarExist envName spec \<longleftrightarrow> list_ex (\<lambda>envVar. env_Name envVar = envName) (spec_Env spec)"

definition getPrimaryStatefulSet :: "world \<Rightarrow> StatefulSetWrapper" where
  "getPrimaryStatefulSet w = rs_Primary (w_states w)"

definition doesStorageClassAllowVolumeExpansion :: "server \<Rightarrow> world \<Rightarrow> bool res \<times> world" where
  "doesStorageClassAllowVolumeExpansion srv w =
     (case GetStorageClass srv w of
        (Val storageClass, w1) \<Rightarrow> (Val (sc_AllowVolumeExpansion storageClass = Some True), w1)
      | (Fail err, w1) \<Rightarrow> (Val False, w1)
      | (Crash, w1) \<Rightarrow> (Crash, w1))"

text \<open>The first reserved name of a list, or the empty string.\<close>

definition first_reserved :: "string list \<Rightarrow> string" where
  "first_reserved names = (case find IsReservedVolumeName names of None \<Rightarrow> '''' | Some n \<Rightarrow> n)"

definition doCustomVolumeClaimTemplatesHaveReservedName :: "KubegresSpec \<Rightarrow> string" where
  "doCustomVolumeClaimTemplatesHaveReservedName spec =
     first_reserved (map vct_Name (vol_VolumeClaimTemplates (spec_Volume spec)))"

definition doCustomVolumesHaveReservedName :: "KubegresSpec \<Rightarrow> string" where
  "doCustomVolumesHaveReservedName spec = first_reserved (map v_Name (vol_Volumes (spec_Volume spec)))"

definition doCustomVolumeMountsHaveReservedName :: "KubegresSpec \<Rightarrow> string" where
  "doCustomVolumeMountsHaveReservedName spec = first_reserved (map vm_Name (vol_VolumeMounts (spec_Volume spec)))"

definition doCustomVolumeMountsHaveReservedPath :: "KubegresSpec \<Rightarrow> bool" where
  "doCustomVolumeMountsHaveReservedPath spec \<longleftrightarrow>
     list_ex (\<lambda>m. vm_MountPath m = db_VolumeMount (spec_Database spec)) (vol_VolumeMounts (spec_Volume spec))"

text \<open>
  \<open>reflect.DeepEqual\<close> on two resource requirements: the maps have the same keys with the same
  values, in whatever order the association lists hold them.
\<close>

definition maps_DeepEqual :: "(string \<times> 'a) list \<Rightarrow> (string \<times> 'a) list \<Rightarrow> bool" where
  "maps_DeepEqual a b \<longleftrightarrow> list_all (\<lambda>k. map_of a k = map_of b k) (map fst a @ map fst b)"

definition resources_DeepEqual :: "ResourceRequirements \<Rightarrow> ResourceRequirements \<Rightarrow> bool" where
  "resources_DeepEqual a b \<longleftrightarrow>
     maps_DeepEqual (rr_Limits a) (rr_Limits b) \<and> maps_DeepEqual (rr_Requests a) (rr_Requests b)"

lemma maps_DeepEqual_iff: "maps_DeepEqual a b \<longleftrightarrow> map_of a = map_of b"
proof
  assume e: "maps_DeepEqual a b"
  show "map_of a = map_of b"
  proof
    fix k
    show "map_of a k = map_of b k"
    proof (cases "k \<in> fst ` set a \<union> fst ` set b")
      case True
      with e show ?thesis by (auto simp: maps_DeepEqual_def list_all_iff)
    next
      case False
      then have "map_of a k = None" "map_of b k = None" by (auto simp: map_of_eq_None_iff)
      then show ?thesis by simp
    qed
  qed
qed (simp add: maps_DeepEqual_def list_all_iff)

lemma resources_DeepEqual_refl [simp]: "resources_DeepEqual a a"
  by (simp add: resources_DeepEqual_def maps_DeepEqual_iff)

definition doesCurrentVolumeClaimTemplateExistInExpectedSpec :: "KubegresSpec \<Rightarrow> PersistentVolumeClaim \<Rightarrow> bool" where
  "doesCurrentVolumeClaimTemplateExistInExpectedSpec spec current \<longleftrightarrow>
     list_ex (\<lambda>expected. vct_Name expected = pvc_Name current \<and>
        pvs_StorageClassName (vct_Spec expected) = pvs_StorageClassName (pvc_Spec current) \<and>
        resources_DeepEqual (pvs_Resources (vct_Spec expected)) (pvs_Resources (pvc_Spec current)))
       (vol_VolumeClaimTemplates (spec_Volume spec))"

text \<open>The loop of \<open>hasCustomVolumeClaimTemplatesChanged\<close>: None when it returns early.\<close>

fun count_custom_claims :: "KubegresSpec \<Rightarrow> nat \<Rightarrow> PersistentVolumeClaim list \<Rightarrow> nat option" where
  "count_custom_claims spec n [] = Some n"
| "count_custom_claims spec n (c # cs) =
     (if IsReservedVolumeName (pvc_Name c) then count_custom_claims spec n cs
      else if doesCurrentVolumeClaimTemplateExistInExpectedSpec spec c then count_custom_claims spec (Suc n) cs
      else None)"

definition hasCustomVolumeClaimTemplatesChanged :: "KubegresSpec \<Rightarrow> StatefulSet \<Rightarrow> bool" where
  "hasCustomVolumeClaimTemplatesChanged spec primaryStatefulSet =
     (case count_custom_claims spec 0 (sts_VolumeClaimTemplates primaryStatefulSet) of
        None \<Rightarrow> True
      | Some n \<Rightarrow> n \<noteq> length (vol_VolumeClaimTemplates (spec_Volume spec)))"

section \<open>CheckSpec: fields fixed by the primary\<close>

text \<open>
  \<open>None\<close>: an index out of range. A missing \<open>storage\<close> request is the zero quantity.
\<close>

definition primary_VolumeMount :: "StatefulSet \<Rightarrow> string option" where
  "primary_VolumeMount s =
     Option.bind (get_nth 0 (ps_Containers (sts_PodSpec s))) (\<lambda>c.
     map_option vm_MountPath (get_nth 0 (ctr_VolumeMounts c)))"

definition primary_ClaimSpec :: "StatefulSet \<Rightarrow> PersistentVolumeClaimSpec option" where
  "primary_ClaimSpec s = map_option pvc_Spec (get_nth 0 (sts_VolumeClaimTemplates s))"

definition storage_request :: "PersistentVolumeClaimSpec \<Rightarrow> quantity" where
  "storage_request p = (case map_of (rr_Requests (pvs_Resources p)) ''storage'' of None \<Rightarrow> Quantity ''0'' | Some q \<Rightarrow> q)"

definition upd_Database :: "(KubegresDatabase \<Rightarrow> KubegresDatabase) \<Rightarrow> KubegresSpec \<Rightarrow> KubegresSpec" where
  "upd_Database f s = s\<lparr>spec_Database := f (spec_Database s)\<rparr>"

definition roll_back :: "server \<Rightarrow> string \<Rightarrow> (KubegresDatabase \<Rightarrow> KubegresDatabase) \<Rightarrow>
    SpecCheckResult \<Rightarrow> world \<Rightarrow> SpecCheckResult res \<times> world" where
  "roll_back srv msg f r w =
     (Val (fatal msg r), updateKubegresSpec srv (upd_spec (upd_Database f) (logSpecErrMsg w)))"

definition check_volumeMount :: "server \<Rightarrow> SpecCheckResult \<Rightarrow> world \<Rightarrow> SpecCheckResult res \<times> world" where
  "check_volumeMount srv r w =
     (case primary_VolumeMount (sw_StatefulSet (getPrimaryStatefulSet w)) of
        None \<Rightarrow> (Crash, w)
      | Some primaryVolumeMount \<Rightarrow>
          let new = db_VolumeMount (spec_Database (w_spec w)) in
          if new \<noteq> primaryVolumeMount then
            roll_back srv (createErrMsgSpecCannotBeChanged ''spec.database.volumeMount'' primaryVolumeMount new
                ''Otherwise, the cluster of PostgreSql servers risk of being inconsistent.'')
              (\<lambda>d. d\<lparr>db_VolumeMount := primaryVolumeMount\<rparr>) r w
          else (Val r, w))"

definition check_storageClassName :: "server \<Rightarrow> SpecCheckResult \<Rightarrow> world \<Rightarrow> SpecCheckResult res \<times> world" where
  "check_storageClassName srv r w =
     (case (Option.bind (primary_ClaimSpec (sw_StatefulSet (getPrimaryStatefulSet w))) pvs_StorageClassName,
            db_StorageClassName (spec_Database (w_spec w))) of
        (Some primaryStorageClassName, Some new) \<Rightarrow>
          if new \<noteq> primaryStorageClassName then
            roll_back srv (createErrMsgSpecCannotBeChanged ''spec.database.storageClassName'' primaryStorageClassName new
                ''Otherwise, the cluster of PostgreSql servers risk of being inconsistent.'')
              (\<lambda>d. d\<lparr>db_StorageClassName := Some primaryStorageClassName\<rparr>) r w
          else (Val r, w)
      | _ \<Rightarrow> (Crash, w))"

definition check_size :: "server \<Rightarrow> SpecCheckResult \<Rightarrow> world \<Rightarrow> SpecCheckResult res \<times> world" where
  "check_size srv r w =
     (case primary_ClaimSpec (sw_StatefulSet (getPrimaryStatefulSet w)) of
        None \<Rightarrow> (Crash, w)
      | Some claim \<Rightarrow>
          let primaryStorageSize = srv_quantity_string srv (storage_request claim);
              new = db_Size (spec_Database (w_spec w))
          in if new \<noteq> primaryStorageSize then
               res_bind (doesStorageClassAllowVolumeExpansion srv) (\<lambda>allowed.
                 roll_back srv (createErrMsgSpecCannotBeChanged ''spec.database.size'' primaryStorageSize new
                     (if allowed then ''The database size cannot be modified after the creation of the Postgres cluster. We are rolling back that value to its previous value.''
                      else ''The StorageClass does not allow volume expansion. The option AllowVolumeExpansion is set to false.''))
                   (\<lambda>d. d\<lparr>db_Size := primaryStorageSize\<rparr>) r) w
             else (Val r, w))"

definition check_claimTemplates :: "SpecCheckResult \<Rightarrow> world \<Rightarrow> SpecCheckResult res \<times> world" where
  "check_claimTemplates r w =
     (if hasCustomVolumeClaimTemplatesChanged (w_spec w) (sw_StatefulSet (getPrimaryStatefulSet w)) then
        (Val (fatal (''In the Resources Spec, the array '' @ quoted ''spec.Volume.VolumeClaimTemplates'' @
            '' has changed. Kubernetes does not allow to update that field in StatefulSet specification. Please rollback your changes in the YAML.'') r),
         logSpecErrMsg w)
      else (Val r, w))"

definition check_primary :: "server \<Rightarrow> SpecCheckResult \<Rightarrow> world \<Rightarrow> SpecCheckResult res \<times> world" where
  "check_primary srv r =
     res_bind (check_volumeMount srv r) (\<lambda>r.
     res_bind (check_storageClassName srv r) (\<lambda>r.
     res_bind (check_size srv r) check_claimTemplates))"

section \<open>CheckSpec: well-formedness\<close>

definition flag :: "bool \<Rightarrow> string \<Rightarrow> SpecCheckResult \<times> world \<Rightarrow> SpecCheckResult \<times> world" where
  "flag c msg s = (if c then (fatal msg (fst s), logSpecErrMsg (snd s)) else s)"

definition not_deployed_msg :: "string \<Rightarrow> string \<Rightarrow> string \<Rightarrow> string" where
  "not_deployed_msg field what again = ''In the Resources Spec the value of '' @ quoted field @ '' has a '' @ what @
     '' name which is not deployed. Please deploy this '' @ again @ ''otherwise this operator cannot work correctly.''"

definition reserved_msg :: "string \<Rightarrow> string \<Rightarrow> string" where
  "reserved_msg field name = ''In the Resources Spec the value of '' @ quoted field @
     '' has an entry with a volume name which is a reserved name: '' @ name @ '' . '' @
     ''That name cannot be used and it is reserved for Kubegres internal usages. Please change that name in the YAML.''"

definition check_environment :: "SpecCheckResult \<times> world \<Rightarrow> SpecCheckResult \<times> world" where
  "check_environment s =
     (let w = snd s; spec = w_spec w in
      flag (\<not> doesEnvVarExist EnvVarNameOfPostgresReplicationUserPsw spec)
        (createErrMsgSpecUndefined ''spec.env.POSTGRES_REPLICATION_PASSWORD'')
      (flag (\<not> doesEnvVarExist EnvVarNameOfPostgresSuperUserPsw spec)
        (createErrMsgSpecUndefined ''spec.env.POSTGRES_PASSWORD'')
      (flag (isCustomConfigNotDeployed w) (not_deployed_msg ''spec.customConfig'' ''configMap'' ''configMap '')
      (flag (db_Size (spec_Database spec) = '''') (createErrMsgSpecUndefined ''spec.database.size'')
      (flag (\<not> dbStorageClassDeployed w)
        (not_deployed_msg ''spec.database.storageClassName'' ''StorageClass'' ''StorageClass, '') s)))))"

definition check_backup :: "SpecCheckResult \<times> world \<Rightarrow> SpecCheckResult \<times> world" where
  "check_backup s =
     (let w = snd s; backup = spec_Backup (w_spec w) in
      if check_isBackUpConfigured (w_spec w) then
        flag (backup_PvcName backup \<noteq> '''' \<and> \<not> isBackUpPvcDeployed w)
          (not_deployed_msg ''spec.Backup.PvcName'' ''PersistentVolumeClaim'' ''PersistentVolumeClaim, '')
        (flag (backup_PvcName backup = '''') (createErrMsgSpecUndefined ''spec.Backup.PvcName'')
        (flag (backup_VolumeMount backup = '''') (createErrMsgSpecUndefined ''spec.Backup.VolumeMount'') s))
      else s)"

definition check_volumes :: "SpecCheckResult \<times> world \<Rightarrow> SpecCheckResult \<times> world" where
  "check_volumes s =
     (let spec = w_spec (snd s);
          claims = doCustomVolumeClaimTemplatesHaveReservedName spec;
          volumes = doCustomVolumesHaveReservedName spec;
          mounts = doCustomVolumeMountsHaveReservedName spec
      in flag (doCustomVolumeMountsHaveReservedPath spec)
           (''In the Resources Spec the value of '' @ quoted ''spec.Volume.VolumeMounts'' @ '' has an entry with a '' @
            quoted ''mountPath'' @ '' value which is reserved for the Postgres database: '' @
            db_VolumeMount (spec_Database spec) @ '' . '' @
            ''That value cannot be used and it is reserved for Kubegres internal usages. Please change that value in the YAML.'')
         (flag (mounts \<noteq> '''') (reserved_msg ''spec.Volume.VolumeMounts'' mounts)
         (flag (volumes \<noteq> '''') (reserved_msg ''spec.Volume.Volumes'' volumes)
         (flag (claims \<noteq> '''') (reserved_msg ''spec.Volume.VolumeClaimTemplates'' claims) s))))"

definition check_instances :: "int \<Rightarrow> SpecCheckResult \<times> world \<Rightarrow> SpecCheckResult \<times> world" where
  "check_instances replicas s =
     (let spec = w_spec (snd s) in
      flag (standby_Enabled (spec_Standby spec) \<and> standby_PrimaryEndpoint (spec_Standby spec) = '''')
        (createErrMsgSpecUndefined ''spec.standby.primaryEndpoint'')
      (flag (spec_Image spec = '''') (createErrMsgSpecUndefined ''spec.image'')
      (flag (replicas \<le> 0) (createErrMsgSpecUndefined ''spec.replicas'') s)))"

definition check_wellformed :: "SpecCheckResult \<Rightarrow> world \<Rightarrow> SpecCheckResult res \<times> world" where
  "check_wellformed r w =
     (let s = check_environment (r, w) in
      case spec_Replicas (w_spec w) of
        None \<Rightarrow> (Crash, snd s)
      | Some replicas \<Rightarrow>
          let (r', w') = check_volumes (check_backup (check_instances replicas s)) in (Val r', w'))"

definition CheckSpec :: "server \<Rightarrow> world \<Rightarrow> SpecCheckResult res \<times> world" where
  "CheckSpec srv w =
     (let specCheckResult = \<lparr>HasSpecFatalError = False, FatalErrorMessage = ''''\<rparr> in
      res_bind
        (if pw_IsReady (sw_Pod (getPrimaryStatefulSet w)) then check_primary srv specCheckResult
         else (\<lambda>w. (Val specCheckResult, w)))
        (\<lambda>r. if HasSpecFatalError r then (\<lambda>w. (Val r, w)) else check_wellformed r) w)"

section \<open>What the checks decide\<close>

text \<open>The claim templates of the spec are those of the StatefulSet, up to the operator's own.\<close>

definition claims_match :: "KubegresSpec \<Rightarrow> StatefulSet \<Rightarrow> bool" where
  "claims_match spec s \<longleftrightarrow>
     (let custom = filter (\<lambda>c. \<not> IsReservedVolumeName (pvc_Name c)) (sts_VolumeClaimTemplates s) in
      length custom = length (vol_VolumeClaimTemplates (spec_Volume spec)) \<and>
      (\<forall>c \<in> set custom. \<exists>t \<in> set (vol_VolumeClaimTemplates (spec_Volume spec)).
         vct_Name t = pvc_Name c \<and> pvs_StorageClassName (vct_Spec t) = pvs_StorageClassName (pvc_Spec c) \<and>
         resources_DeepEqual (pvs_Resources (vct_Spec t)) (pvs_Resources (pvc_Spec c))))"

text \<open>The spec agrees with the running primary on the fields that cannot change.\<close>

definition matches_primary :: "server \<Rightarrow> KubegresSpec \<Rightarrow> StatefulSet \<Rightarrow> bool" where
  "matches_primary srv spec s \<longleftrightarrow>
     primary_VolumeMount s = Some (db_VolumeMount (spec_Database spec)) \<and>
     (\<exists>claim. primary_ClaimSpec s = Some claim \<and>
        pvs_StorageClassName claim = db_StorageClassName (spec_Database spec) \<and>
        srv_quantity_string srv (storage_request claim) = db_Size (spec_Database spec)) \<and>
     claims_match spec s"

definition environment_ok :: "world \<Rightarrow> bool" where
  "environment_ok w \<longleftrightarrow> dsc_IsDeployed (rs_DbStorageClass (w_states w)) \<and> db_Size (spec_Database (w_spec w)) \<noteq> '''' \<and>
     (spec_CustomConfig (w_spec w) \<in> {'''', BaseConfigMapName} \<or> cfs_IsCustomConfigDeployed (rs_Config (w_states w))) \<and>
     {EnvVarNameOfPostgresSuperUserPsw, EnvVarNameOfPostgresReplicationUserPsw} \<subseteq> env_Name ` set (spec_Env (w_spec w))"

definition backup_ok :: "world \<Rightarrow> bool" where
  "backup_ok w \<longleftrightarrow> backup_Schedule (spec_Backup (w_spec w)) = '''' \<or>
     backup_VolumeMount (spec_Backup (w_spec w)) \<noteq> '''' \<and> backup_PvcName (spec_Backup (w_spec w)) \<noteq> '''' \<and>
     bus_IsPvcDeployed (rs_BackUp (w_states w))"

definition volumes_ok :: "KubegresSpec \<Rightarrow> bool" where
  "volumes_ok spec \<longleftrightarrow>
     (\<forall>n \<in> vct_Name ` set (vol_VolumeClaimTemplates (spec_Volume spec)) \<union> v_Name ` set (vol_Volumes (spec_Volume spec)) \<union>
        vm_Name ` set (vol_VolumeMounts (spec_Volume spec)). \<not> IsReservedVolumeName n) \<and>
     db_VolumeMount (spec_Database spec) \<notin> vm_MountPath ` set (vol_VolumeMounts (spec_Volume spec))"

definition instances_ok :: "KubegresSpec \<Rightarrow> bool" where
  "instances_ok spec \<longleftrightarrow> (\<exists>n > 0. spec_Replicas spec = Some n) \<and> spec_Image spec \<noteq> '''' \<and>
     (standby_Enabled (spec_Standby spec) \<longrightarrow> standby_PrimaryEndpoint (spec_Standby spec) \<noteq> '''')"

text \<open>A chain of flags: the events grow, the result turns fatal exactly under the condition.\<close>

definition flagged :: "bool \<Rightarrow> SpecCheckResult \<times> world \<Rightarrow> SpecCheckResult \<times> world \<Rightarrow> bool" where
  "flagged c s s' \<longleftrightarrow> same_but_events (snd s) (snd s') \<and>
     (HasSpecFatalError (fst s') \<longleftrightarrow> c \<or> HasSpecFatalError (fst s)) \<and> (\<not> c \<longrightarrow> s' = s)"

lemma flagged_flag: "flagged c s s1 \<Longrightarrow> flagged (c \<or> d) s (flag d msg s1)"
  by (auto simp: flagged_def flag_def fatal_def logSpecErrMsg_def intro: same_but_events_step)

lemma flagged_refl: "flagged False s s"
  by (simp add: flagged_def)

lemma flagged_trans: "flagged c s s1 \<Longrightarrow> flagged d s1 s2 \<Longrightarrow> flagged (c \<or> d) s s2"
  by (auto simp: flagged_def intro: same_but_events_trans)

lemma flagged_spec: "flagged c s s' \<Longrightarrow> w_spec (snd s') = w_spec (snd s) \<and> w_states (snd s') = w_states (snd s)"
  by (auto simp: flagged_def dest: same_but_events_fields(1,2))

lemma flagged_cong: "flagged c s s' \<Longrightarrow> c = d \<Longrightarrow> flagged d s s'"
  by simp

lemmas flagged_intros = flagged_flag flagged_refl

lemma first_reserved_iff: "first_reserved names \<noteq> '''' \<longleftrightarrow> (\<exists>n \<in> set names. IsReservedVolumeName n)"
proof (cases "find IsReservedVolumeName names")
  case None
  then have "\<not> (\<exists>n \<in> set names. IsReservedVolumeName n)" by (auto simp: find_None_iff)
  then show ?thesis by (simp add: first_reserved_def None)
next
  case (Some n)
  then have "IsReservedVolumeName n" "n \<in> set names" by (auto simp: find_Some_iff)
  moreover from this have "n \<noteq> ''''"
    by (auto simp: IsReservedVolumeName_def DatabaseVolumeName_def BaseConfigMapVolumeName_def CustomConfigMapVolumeName_def)
  ultimately show ?thesis using Some by (auto simp: first_reserved_def)
qed

lemma count_custom_claims_eq:
  "count_custom_claims spec n cs =
     (let custom = filter (\<lambda>c. \<not> IsReservedVolumeName (pvc_Name c)) cs in
      if list_all (doesCurrentVolumeClaimTemplateExistInExpectedSpec spec) custom then Some (n + length custom) else None)"
  by (induction cs arbitrary: n) (auto simp: Let_def)

lemma check_environment_flagged: "flagged (\<not> environment_ok (snd s)) s (check_environment s)"
proof -
  let ?w = "snd s"
  have "flagged ((((False \<or> \<not> dbStorageClassDeployed ?w) \<or> db_Size (spec_Database (w_spec ?w)) = '''') \<or>
        isCustomConfigNotDeployed ?w) \<or> \<not> doesEnvVarExist EnvVarNameOfPostgresSuperUserPsw (w_spec ?w) \<or>
        \<not> doesEnvVarExist EnvVarNameOfPostgresReplicationUserPsw (w_spec ?w)) s (check_environment s)"
    unfolding check_environment_def Let_def disj_assoc [symmetric] by (intro flagged_intros)
  moreover have "doesEnvVarExist n sp \<longleftrightarrow> n \<in> env_Name ` set (spec_Env sp)" for n sp
    by (auto simp: doesEnvVarExist_def list_ex_iff)
  ultimately show ?thesis
    by (elim flagged_cong) (auto simp: environment_ok_def dbStorageClassDeployed_def isCustomConfigNotDeployed_def)
qed

lemma check_backup_flagged: "flagged (\<not> backup_ok (snd s)) s (check_backup s)"
proof (cases "check_isBackUpConfigured (w_spec (snd s))")
  case True
  have "flagged (((False \<or> backup_VolumeMount (spec_Backup (w_spec (snd s))) = '''') \<or>
       backup_PvcName (spec_Backup (w_spec (snd s))) = '''') \<or>
       backup_PvcName (spec_Backup (w_spec (snd s))) \<noteq> '''' \<and> \<not> isBackUpPvcDeployed (snd s)) s (check_backup s)"
    unfolding check_backup_def Let_def if_P [OF True] by (intro flagged_intros)
  with True show ?thesis
    by (elim flagged_cong) (auto simp: backup_ok_def check_isBackUpConfigured_def isBackUpPvcDeployed_def)
next
  case False
  then show ?thesis by (simp add: check_backup_def backup_ok_def check_isBackUpConfigured_def flagged_refl)
qed

lemma check_volumes_flagged: "flagged (\<not> volumes_ok (w_spec (snd s))) s (check_volumes s)"
proof -
  let ?sp = "w_spec (snd s)"
  have "flagged ((((False \<or> doCustomVolumeClaimTemplatesHaveReservedName ?sp \<noteq> '''') \<or>
       doCustomVolumesHaveReservedName ?sp \<noteq> '''') \<or> doCustomVolumeMountsHaveReservedName ?sp \<noteq> '''') \<or>
       doCustomVolumeMountsHaveReservedPath ?sp) s (check_volumes s)"
    unfolding check_volumes_def Let_def by (intro flagged_intros)
  moreover have "doCustomVolumeMountsHaveReservedPath ?sp \<longleftrightarrow>
      db_VolumeMount (spec_Database ?sp) \<in> vm_MountPath ` set (vol_VolumeMounts (spec_Volume ?sp))"
    unfolding doCustomVolumeMountsHaveReservedPath_def list_ex_iff image_iff by metis
  ultimately show ?thesis
    by (elim flagged_cong)
      (auto simp: volumes_ok_def doCustomVolumeClaimTemplatesHaveReservedName_def doCustomVolumesHaveReservedName_def
        doCustomVolumeMountsHaveReservedName_def first_reserved_iff [simplified])
qed

lemma check_instances_flagged:
  assumes "spec_Replicas (w_spec (snd s)) = Some n"
  shows "flagged (\<not> instances_ok (w_spec (snd s))) s (check_instances n s)"
proof -
  let ?sp = "w_spec (snd s)"
  have "flagged (((False \<or> n \<le> 0) \<or> spec_Image ?sp = '''') \<or>
       standby_Enabled (spec_Standby ?sp) \<and> standby_PrimaryEndpoint (spec_Standby ?sp) = '''') s (check_instances n s)"
    unfolding check_instances_def Let_def by (intro flagged_intros)
  then show ?thesis by (rule flagged_cong) (auto simp: instances_ok_def assms)
qed

definition spec_ok :: "world \<Rightarrow> bool" where
  "spec_ok w \<longleftrightarrow> environment_ok w \<and> instances_ok (w_spec w) \<and> backup_ok w \<and> volumes_ok (w_spec w)"

lemma check_wellformed_flagged:
  assumes "spec_Replicas (w_spec w) = Some n"
  shows "\<exists>r' w'. check_wellformed r w = (Val r', w') \<and> flagged (\<not> spec_ok w) (r, w) (r', w')"
proof -
  let ?s1 = "check_environment (r, w)" and ?s2 = "check_instances n (check_environment (r, w))"
  let ?s4 = "check_volumes (check_backup ?s2)"
  have 1: "flagged (\<not> environment_ok w) (r, w) ?s1" using check_environment_flagged [of "(r, w)"] by simp
  have f1: "w_spec (snd ?s1) = w_spec w" "w_states (snd ?s1) = w_states w" using flagged_spec [OF 1] by simp_all
  have 2: "flagged (\<not> instances_ok (w_spec w)) ?s1 ?s2" using check_instances_flagged [of ?s1 n] assms f1 by simp
  have f2: "w_spec (snd ?s2) = w_spec w" "w_states (snd ?s2) = w_states w" using flagged_spec [OF 2] f1 by simp_all
  have 3: "flagged (\<not> backup_ok w) ?s2 (check_backup ?s2)"
    using check_backup_flagged [of ?s2] f2 by (simp add: backup_ok_def)
  have 4: "flagged (\<not> volumes_ok (w_spec w)) (check_backup ?s2) ?s4"
    using check_volumes_flagged [of "check_backup ?s2"] flagged_spec [OF 3] f2 by simp
  from flagged_trans [OF flagged_trans [OF flagged_trans [OF 1 2] 3] 4]
  have "flagged (\<not> spec_ok w) (r, w) ?s4" by (rule flagged_cong) (auto simp: spec_ok_def)
  then show ?thesis by (cases ?s4) (simp add: check_wellformed_def assms)
qed

section \<open>What the roll-backs do\<close>

text \<open>
  A step of the first part: it changes the database section as \<open>g\<close> does, it is fatal under
  \<open>c\<close>, and it sends one update of the Kubegres resource for each change of \<open>hs\<close>, with the spec
  that this change makes of the one before the step.
\<close>

definition rolled :: "(KubegresDatabase \<Rightarrow> KubegresDatabase) \<Rightarrow> (KubegresDatabase \<Rightarrow> KubegresDatabase) list \<Rightarrow> bool \<Rightarrow>
    SpecCheckResult \<times> world \<Rightarrow> SpecCheckResult \<times> world \<Rightarrow> bool" where
  "rolled g hs c s s' \<longleftrightarrow> w_spec (snd s') = upd_Database g (w_spec (snd s)) \<and> w_states (snd s') = w_states (snd s) \<and>
     (\<exists>ks. w_calls (snd s') = w_calls (snd s) @ map UpdateKubegres ks \<and>
        map kg_Spec ks = map (\<lambda>h. upd_Database h (w_spec (snd s))) hs) \<and>
     (HasSpecFatalError (fst s') \<longleftrightarrow> c \<or> HasSpecFatalError (fst s)) \<and> (\<not> c \<longrightarrow> s' = s)"

lemma upd_Database_simps [simp]:
  "spec_Database (upd_Database g s) = g (spec_Database s)" "spec_Volume (upd_Database g s) = spec_Volume s"
  "spec_Replicas (upd_Database g s) = spec_Replicas s" "upd_Database (\<lambda>d. d) s = s"
  "upd_Database f (upd_Database g s) = upd_Database (\<lambda>d. f (g d)) s"
  by (simp_all add: upd_Database_def)

lemma rolled_trans:
  assumes "rolled g hs c s s1" "rolled h ks d s1 s2"
  shows "rolled (\<lambda>x. h (g x)) (hs @ map (\<lambda>k x. k (g x)) ks) (c \<or> d) s s2"
proof -
  obtain us vs where "w_calls (snd s1) = w_calls (snd s) @ map UpdateKubegres us"
    "map kg_Spec us = map (\<lambda>h. upd_Database h (w_spec (snd s))) hs"
    "w_calls (snd s2) = w_calls (snd s1) @ map UpdateKubegres vs"
    "map kg_Spec vs = map (\<lambda>h. upd_Database h (w_spec (snd s1))) ks"
    using assms unfolding rolled_def by blast
  moreover have "w_spec (snd s1) = upd_Database g (w_spec (snd s))" using assms(1) by (simp add: rolled_def)
  ultimately show ?thesis using assms unfolding rolled_def by (auto intro!: exI [of _ "us @ vs"])
qed

lemma rolled_roll_back:
  assumes "keeps_spec srv" "same_but_events w u"
  shows "rolled g [g] True (r, w) (fatal msg r, updateKubegresSpec srv (upd_spec (upd_Database g) (logSpecErrMsg u)))"
  using assms same_but_events_fields [OF assms(2)]
  by (auto simp: rolled_def updateKubegresSpec_def client_update_Kubegres_def Let_def keeps_spec_def fatal_def
      logSpecErrMsg_def upd_spec_def intro!: exI [of _ "[x]" for x] split: sum.splits)

lemma rolled_same: "g (spec_Database (w_spec w)) = spec_Database (w_spec w) \<Longrightarrow> rolled g [] False (r, w) (r, w)"
  by (simp add: rolled_def upd_Database_def)

lemma check_volumeMount_rolled:
  assumes "keeps_spec srv" "primary_VolumeMount (sw_StatefulSet (getPrimaryStatefulSet w)) = Some m"
  defines "g \<equiv> \<lambda>d. d\<lparr>db_VolumeMount := m\<rparr>" and "c \<equiv> db_VolumeMount (spec_Database (w_spec w)) \<noteq> m"
  shows "\<exists>r' w'. check_volumeMount srv r w = (Val r', w') \<and> rolled g (if c then [g] else []) c (r, w) (r', w')"
  using rolled_roll_back [OF assms(1) same_but_events_refl] rolled_same [of g w r]
  by (auto simp: check_volumeMount_def assms(2) roll_back_def g_def c_def Let_def)

lemma check_storageClassName_rolled:
  assumes "keeps_spec srv" "primary_ClaimSpec (sw_StatefulSet (getPrimaryStatefulSet w)) = Some claim"
    and "pvs_StorageClassName claim = Some c" "db_StorageClassName (spec_Database (w_spec w)) = Some c'"
  defines "g \<equiv> \<lambda>d. d\<lparr>db_StorageClassName := Some c\<rparr>"
  shows "\<exists>r' w'. check_storageClassName srv r w = (Val r', w') \<and> rolled g (if c' \<noteq> c then [g] else []) (c' \<noteq> c) (r, w) (r', w')"
  using rolled_roll_back [OF assms(1) same_but_events_refl] rolled_same [of g w r]
  by (auto simp: check_storageClassName_def assms(2-4) roll_back_def g_def)

lemma GetStorageClass_total:
  assumes "db_StorageClassName (spec_Database (w_spec w)) = Some c"
  shows "\<exists>b u. doesStorageClassAllowVolumeExpansion srv w = (Val b, u) \<and> same_but_events w u"
  by (auto simp: doesStorageClassAllowVolumeExpansion_def GetStorageClass_def assms split: sum.splits go_error.splits)

lemma check_size_rolled:
  assumes "keeps_spec srv" "primary_ClaimSpec (sw_StatefulSet (getPrimaryStatefulSet w)) = Some claim"
    and "db_StorageClassName (spec_Database (w_spec w)) = Some c"
  defines "q \<equiv> srv_quantity_string srv (storage_request claim)"
  defines "g \<equiv> \<lambda>d. d\<lparr>db_Size := q\<rparr>" and "b \<equiv> db_Size (spec_Database (w_spec w)) \<noteq> q"
  shows "\<exists>r' w'. check_size srv r w = (Val r', w') \<and> rolled g (if b then [g] else []) b (r, w) (r', w')"
proof -
  obtain a u where u: "doesStorageClassAllowVolumeExpansion srv w = (Val a, u)" "same_but_events w u"
    using GetStorageClass_total [OF assms(3)] by blast
  show ?thesis
    using rolled_roll_back [OF assms(1) u(2)] u(1) rolled_same [of g w r]
    by (auto simp: check_size_def assms(2) roll_back_def Let_def q_def g_def b_def)
qed

lemma hasCustomVolumeClaimTemplatesChanged_iff: "hasCustomVolumeClaimTemplatesChanged spec s \<longleftrightarrow> \<not> claims_match spec s"
  unfolding hasCustomVolumeClaimTemplatesChanged_def claims_match_def count_custom_claims_eq
  by (simp add: list_all_iff doesCurrentVolumeClaimTemplateExistInExpectedSpec_def list_ex_iff Let_def) blast

lemma check_claimTemplates_rolled:
  "\<exists>r' w'. check_claimTemplates r w = (Val r', w') \<and>
    rolled (\<lambda>d. d) [] (\<not> claims_match (w_spec w) (sw_StatefulSet (getPrimaryStatefulSet w))) (r, w) (r', w')"
  by (auto simp: check_claimTemplates_def hasCustomVolumeClaimTemplatesChanged_iff rolled_def fatal_def logSpecErrMsg_def)

text \<open>The shape of a primary that the operator created: no access of \<open>CheckSpec\<close> is out of range.\<close>

definition primary_shape :: "StatefulSet \<Rightarrow> string \<Rightarrow> PersistentVolumeClaimSpec \<Rightarrow> string \<Rightarrow> bool" where
  "primary_shape s mount claim cls \<longleftrightarrow>
     primary_VolumeMount s = Some mount \<and> primary_ClaimSpec s = Some claim \<and> pvs_StorageClassName claim = Some cls"

text \<open>
  The database sections that are sent: one for each field that differs from the primary, with
  the fields before it already put back.
\<close>

definition rolled_back_databases :: "string \<Rightarrow> string \<Rightarrow> string \<Rightarrow> KubegresDatabase \<Rightarrow> KubegresDatabase list" where
  "rolled_back_databases mount cls sz d =
     (let d1 = d\<lparr>db_VolumeMount := mount\<rparr>; d2 = d1\<lparr>db_StorageClassName := Some cls\<rparr>; d3 = d2\<lparr>db_Size := sz\<rparr> in
      (if db_VolumeMount d \<noteq> mount then [d1] else []) @
      (if db_StorageClassName d \<noteq> Some cls then [d2] else []) @
      (if db_Size d \<noteq> sz then [d3] else []))"

lemma check_primary_rolled:
  assumes "keeps_spec srv" "primary_shape (sw_StatefulSet (getPrimaryStatefulSet w)) m claim cls"
    and "db_StorageClassName (spec_Database (w_spec w)) = Some c"
  defines "q \<equiv> srv_quantity_string srv (storage_request claim)" and "d \<equiv> spec_Database (w_spec w)"
  shows "\<exists>r' w' hs. check_primary srv r w = (Val r', w') \<and> map (\<lambda>h. h d) hs = rolled_back_databases m cls q d \<and>
    rolled (\<lambda>d. d\<lparr>db_VolumeMount := m, db_StorageClassName := Some cls, db_Size := q\<rparr>) hs
      (\<not> matches_primary srv (w_spec w) (sw_StatefulSet (getPrimaryStatefulSet w))) (r, w) (r', w')"
proof -
  let ?P = "sw_StatefulSet (getPrimaryStatefulSet w)"
  let ?g1 = "\<lambda>d. d\<lparr>db_VolumeMount := m\<rparr>" and ?g2 = "\<lambda>d. d\<lparr>db_StorageClassName := Some cls\<rparr>" and ?g3 = "\<lambda>d. d\<lparr>db_Size := q\<rparr>"
  note shape = assms(2) [unfolded primary_shape_def]
  obtain r1 w1 where 1: "check_volumeMount srv r w = (Val r1, w1)"
    "rolled ?g1 (if db_VolumeMount d \<noteq> m then [?g1] else []) (db_VolumeMount d \<noteq> m) (r, w) (r1, w1)"
    using check_volumeMount_rolled [OF assms(1)] shape unfolding d_def by blast
  then have w1: "getPrimaryStatefulSet w1 = getPrimaryStatefulSet w" "w_spec w1 = upd_Database ?g1 (w_spec w)"
    by (auto simp: rolled_def getPrimaryStatefulSet_def)
  obtain r2 w2 where 2: "check_storageClassName srv r1 w1 = (Val r2, w2)"
    "rolled ?g2 (if c \<noteq> cls then [?g2] else []) (c \<noteq> cls) (r1, w1) (r2, w2)"
    using check_storageClassName_rolled [OF assms(1), of w1 claim cls c r1] shape w1 assms(3) by auto
  then have w2: "getPrimaryStatefulSet w2 = getPrimaryStatefulSet w" "w_spec w2 = upd_Database (\<lambda>d. ?g2 (?g1 d)) (w_spec w)"
    using w1 by (auto simp: rolled_def getPrimaryStatefulSet_def)
  obtain r3 w3 where 3: "check_size srv r2 w2 = (Val r3, w3)"
    "rolled ?g3 (if db_Size d \<noteq> q then [?g3] else []) (db_Size d \<noteq> q) (r2, w2) (r3, w3)"
    using check_size_rolled [OF assms(1), of w2 claim cls r2] shape w2 unfolding q_def d_def by auto
  then have w3: "getPrimaryStatefulSet w3 = getPrimaryStatefulSet w" "spec_Volume (w_spec w3) = spec_Volume (w_spec w)"
    using w2 by (auto simp: rolled_def getPrimaryStatefulSet_def)
  obtain r4 w4 where 4: "check_claimTemplates r3 w3 = (Val r4, w4)"
    "rolled (\<lambda>d. d) [] (\<not> claims_match (w_spec w) ?P) (r3, w3) (r4, w4)"
    using check_claimTemplates_rolled [of r3 w3] w3 by (auto simp: claims_match_def)
  have "check_primary srv r w = (Val r4, w4)" by (simp add: check_primary_def 1 2 3 4)
  moreover have "(((db_VolumeMount d \<noteq> m \<or> c \<noteq> cls) \<or> db_Size d \<noteq> q) \<or> \<not> claims_match (w_spec w) ?P) \<longleftrightarrow>
      \<not> matches_primary srv (w_spec w) ?P"
    using shape assms(3) by (auto simp: matches_primary_def claims_match_def Let_def q_def d_def)
  with rolled_trans [OF rolled_trans [OF rolled_trans [OF 1(2) 2(2)] 3(2)] 4(2)]
  obtain hs where "rolled (\<lambda>d. d\<lparr>db_VolumeMount := m, db_StorageClassName := Some cls, db_Size := q\<rparr>) hs
      (\<not> matches_primary srv (w_spec w) ?P) (r, w) (r4, w4)" "map (\<lambda>h. h d) hs = rolled_back_databases m cls q d"
    using assms(3) by (auto simp: rolled_back_databases_def Let_def d_def simp del: de_Morgan_disj)
  ultimately show ?thesis by blast
qed

section \<open>Properties\<close>

abbreviation primary_ready :: "world \<Rightarrow> bool" where
  "primary_ready w \<equiv> pw_IsReady (sw_Pod (getPrimaryStatefulSet w))"

lemma CheckSpec_cases:
  assumes "keeps_spec srv" "spec_Replicas (w_spec w) = Some n" "db_StorageClassName (spec_Database (w_spec w)) = Some c"
    and "primary_ready w \<Longrightarrow> primary_shape (sw_StatefulSet (getPrimaryStatefulSet w)) m claim cls"
  obtains (rolled_back) r w' hs where "CheckSpec srv w = (Val r, w')" "HasSpecFatalError r" "primary_ready w"
      "\<not> matches_primary srv (w_spec w) (sw_StatefulSet (getPrimaryStatefulSet w))"
      "map (\<lambda>h. h (spec_Database (w_spec w))) hs =
         rolled_back_databases m cls (srv_quantity_string srv (storage_request claim)) (spec_Database (w_spec w))"
      "rolled (\<lambda>d. d\<lparr>db_VolumeMount := m, db_StorageClassName := Some cls,
                   db_Size := srv_quantity_string srv (storage_request claim)\<rparr>) hs True
         (\<lparr>HasSpecFatalError = False, FatalErrorMessage = ''''\<rparr>, w) (r, w')"
  | (flags) r w' where "CheckSpec srv w = (Val r, w')" "same_but_events w w'"
      "HasSpecFatalError r \<longleftrightarrow> \<not> spec_ok w" "spec_ok w \<longrightarrow> w' = w"
      "primary_ready w \<longrightarrow> matches_primary srv (w_spec w) (sw_StatefulSet (getPrimaryStatefulSet w))"
proof -
  let ?r = "\<lparr>HasSpecFatalError = False, FatalErrorMessage = ''''\<rparr>"
  let ?P = "sw_StatefulSet (getPrimaryStatefulSet w)"
  obtain r' w' where wf: "check_wellformed ?r w = (Val r', w')" "flagged (\<not> spec_ok w) (?r, w) (r', w')"
    using check_wellformed_flagged [OF assms(2)] by blast
  show ?thesis
  proof (cases "primary_ready w")
    case False
    then have "CheckSpec srv w = (Val r', w')" by (simp add: CheckSpec_def wf Let_def)
    with wf(2) False show ?thesis by (intro flags) (auto simp: flagged_def)
  next
    case True
    obtain r1 w1 hs where p: "check_primary srv ?r w = (Val r1, w1)"
      "rolled (\<lambda>d. d\<lparr>db_VolumeMount := m, db_StorageClassName := Some cls,
                   db_Size := srv_quantity_string srv (storage_request claim)\<rparr>) hs
        (\<not> matches_primary srv (w_spec w) ?P) (?r, w) (r1, w1)"
      "map (\<lambda>h. h (spec_Database (w_spec w))) hs =
         rolled_back_databases m cls (srv_quantity_string srv (storage_request claim)) (spec_Database (w_spec w))"
      using check_primary_rolled [OF assms(1) assms(4) [OF True] assms(3)] by blast
    show ?thesis
    proof (cases "matches_primary srv (w_spec w) ?P")
      case m: True
      with p have "r1 = ?r" "w1 = w" by (auto simp: rolled_def)
      with p(1) True have "CheckSpec srv w = (Val r', w')" by (simp add: CheckSpec_def wf Let_def)
      with wf(2) m show ?thesis by (intro flags) (auto simp: flagged_def)
    next
      case m: False
      with p have h: "HasSpecFatalError r1" by (simp add: rolled_def)
      with p(1) True have "CheckSpec srv w = (Val r1, w1)" by (simp add: CheckSpec_def Let_def)
      with h True m p(2,3) show ?thesis by (intro rolled_back) auto
    qed
  qed
qed

text \<open>
  C14: the check always returns a verdict, never an error, and it accepts a spec exactly
  when it is well formed (storage class and configuration deployed, passwords, size, image
  and a positive number of replicas given, back-up and stand-by settings complete, no
  reserved volume name or path) and agrees with a running primary on volume mount, storage
  class, size and volume claim templates. Accepting changes nothing.
\<close>

theorem CheckSpec_decides:
  assumes "keeps_spec srv" "spec_Replicas (w_spec w) = Some n" "db_StorageClassName (spec_Database (w_spec w)) = Some c"
    and "primary_ready w \<longrightarrow> primary_shape (sw_StatefulSet (getPrimaryStatefulSet w)) m claim cls"
  shows "\<exists>r w'. CheckSpec srv w = (Val r, w') \<and>
    (\<not> HasSpecFatalError r \<longleftrightarrow>
       spec_ok w \<and> (primary_ready w \<longrightarrow> matches_primary srv (w_spec w) (sw_StatefulSet (getPrimaryStatefulSet w)))) \<and>
    (\<not> HasSpecFatalError r \<longrightarrow> w' = w)"
  by (rule CheckSpec_cases [OF assms(1-3), of m claim cls]) (use assms(4) in auto)

text \<open>A cluster with a running primary of 200Mi whose resource asks for the given size.\<close>

definition running_claim :: PersistentVolumeClaimSpec where
  "running_claim = \<lparr>pvs_StorageClassName = Some ''standard'',
     pvs_Resources = \<lparr>rr_Limits = [], rr_Requests = [(''storage'', Quantity ''200Mi'')]\<rparr>, pvs_rest = KNull\<rparr>"

definition running_primary :: StatefulSet where
  "running_primary = (sample_StatefulSet 1 ''primary'' 1)
     \<lparr>sts_Template := \<lparr>pt_Labels = [], pt_Annotations = [],
        pt_Spec = zero_PodSpec\<lparr>ps_Containers := [sample_container\<lparr>ctr_VolumeMounts :=
          [\<lparr>vm_Name = ''postgres-db'', vm_MountPath = ''/var/lib/postgresql/data'', vm_SubPath = '''', vm_rest = KNull\<rparr>]\<rparr>]\<rparr>\<rparr>,
      sts_VolumeClaimTemplates := [\<lparr>pvc_Name = ''postgres-db'', pvc_Namespace = '''', pvc_Spec = running_claim\<rparr>]\<rparr>"

definition checked_world :: "string \<Rightarrow> world" where
  "checked_world sz = (upd_spec (upd_Database (\<lambda>d. d\<lparr>db_Size := sz\<rparr>)) sample_world)
     \<lparr>w_states := zero_ResourcesStates
        \<lparr>rs_DbStorageClass := \<lparr>dsc_IsDeployed = True, dsc_StorageClassName = ''standard''\<rparr>,
         rs_StatefulSets := zero_StatefulSetsStates\<lparr>sss_Primary := zero_StatefulSetWrapper
           \<lparr>sw_StatefulSet := running_primary, sw_Pod := zero_PodWrapper\<lparr>pw_IsReady := True\<rparr>\<rparr>\<rparr>\<rparr>\<rparr>"

lemma checked_world_simps:
  "primary_ready (checked_world sz)"
  "sw_StatefulSet (getPrimaryStatefulSet (checked_world sz)) = running_primary"
  "spec_Database (w_spec (checked_world sz)) =
     \<lparr>db_Size = sz, db_VolumeMount = ''/var/lib/postgresql/data'', db_StorageClassName = Some ''standard''\<rparr>"
  "spec_Replicas (w_spec (checked_world sz)) = Some 3"
  "primary_shape running_primary ''/var/lib/postgresql/data'' running_claim ''standard''"
  "storage_request running_claim = Quantity ''200Mi''" "srv_quantity_string sample_server (Quantity s) = s"
  "keeps_spec sample_server" "claims_match (w_spec (checked_world sz)) running_primary"
  by (simp_all add: checked_world_def getPrimaryStatefulSet_def running_primary_def running_claim_def primary_shape_def
      primary_VolumeMount_def primary_ClaimSpec_def storage_request_def sample_server_def keeps_spec_def claims_match_def
      IsReservedVolumeName_def DatabaseVolumeName_def sample_world_def sample_Kubegres_def sample_Spec_def upd_spec_def)

theorem CheckSpec_decides_witness:
  "\<exists>r. CheckSpec sample_server (checked_world ''200Mi'') = (Val r, checked_world ''200Mi'') \<and> \<not> HasSpecFatalError r"
proof -
  let ?w = "checked_world ''200Mi''"
  have "spec_ok ?w"
    by (simp add: spec_ok_def environment_ok_def instances_ok_def backup_ok_def volumes_ok_def checked_world_def
        sample_world_def sample_Kubegres_def sample_Spec_def upd_spec_def upd_Database_def BaseConfigMapName_def
        EnvVarNameOfPostgresSuperUserPsw_def EnvVarNameOfPostgresReplicationUserPsw_def)
  moreover have "matches_primary sample_server (w_spec ?w) running_primary"
    using checked_world_simps(5) checked_world_simps(9) [of "''200Mi''"]
    by (simp add: matches_primary_def checked_world_simps primary_shape_def)
  ultimately show ?thesis
    using CheckSpec_decides [OF checked_world_simps(8) checked_world_simps(4), of "''200Mi''" "''standard''"
        "''/var/lib/postgresql/data''" running_claim "''standard''"]
    by (auto simp: checked_world_simps)
qed

text \<open>
  C15: while the primary runs (a primary of the shape the operator creates, a server that
  answers an update with the spec it was sent), the check puts back the volume mount, the
  storage class and the size of the primary and nothing else in the spec. It sends exactly one
  update of the Kubegres resource for each of the three fields that differs, in this order,
  each with the fields put back so far, and none when they agree. If the volume claim templates
  agree, the next check has no objection to these fields.
\<close>

theorem CheckSpec_rolls_back:
  assumes "keeps_spec srv" "spec_Replicas (w_spec w) = Some n" "db_StorageClassName (spec_Database (w_spec w)) = Some c"
    and "primary_ready w" "primary_shape (sw_StatefulSet (getPrimaryStatefulSet w)) m claim cls"
  shows "\<exists>r w' ks. CheckSpec srv w = (Val r, w') \<and> w_calls w' = w_calls w @ map UpdateKubegres ks \<and>
    map kg_Spec ks = map (\<lambda>d. (w_spec w)\<lparr>spec_Database := d\<rparr>)
      (rolled_back_databases m cls (srv_quantity_string srv (storage_request claim)) (spec_Database (w_spec w))) \<and>
    w_spec w' = (w_spec w)\<lparr>spec_Database := \<lparr>db_Size = srv_quantity_string srv (storage_request claim),
       db_VolumeMount = m, db_StorageClassName = Some cls\<rparr>\<rparr> \<and>
    (claims_match (w_spec w) (sw_StatefulSet (getPrimaryStatefulSet w)) \<longrightarrow>
       matches_primary srv (w_spec w') (sw_StatefulSet (getPrimaryStatefulSet w')))"
  using assms(1-3,5)
proof (cases rule: CheckSpec_cases)
  case (rolled_back r w' hs)
  have "map (\<lambda>h. upd_Database h (w_spec w)) hs = map (\<lambda>d. (w_spec w)\<lparr>spec_Database := d\<rparr>)
      (rolled_back_databases m cls (srv_quantity_string srv (storage_request claim)) (spec_Database (w_spec w)))"
    by (simp add: rolled_back(5) [symmetric] upd_Database_def)
  with rolled_back(1,6) assms(5) show ?thesis
    by (auto simp: rolled_def upd_Database_def matches_primary_def claims_match_def primary_shape_def
        getPrimaryStatefulSet_def Let_def)
next
  case (flags r w')
  note same = same_but_events_fields [OF flags(2)]
  from flags(5) assms(4,5) have d: "spec_Database (w_spec w) = \<lparr>db_Size = srv_quantity_string srv (storage_request claim),
       db_VolumeMount = m, db_StorageClassName = Some cls\<rparr>"
    by (auto simp: matches_primary_def primary_shape_def)
  then have "w_spec w' = (w_spec w)\<lparr>spec_Database := \<lparr>db_Size = srv_quantity_string srv (storage_request claim),
       db_VolumeMount = m, db_StorageClassName = Some cls\<rparr>\<rparr>" using same by (metis KubegresSpec.surjective KubegresSpec.update_convs(6) KubegresSpec.select_convs(6))
  moreover have "rolled_back_databases m cls (srv_quantity_string srv (storage_request claim)) (spec_Database (w_spec w)) = []"
    by (simp add: d rolled_back_databases_def)
  ultimately show ?thesis using flags same assms(4) by (auto simp: getPrimaryStatefulSet_def intro: exI [of _ "[]"])
qed

theorem CheckSpec_rolls_back_witness:
  "\<exists>r w' k. CheckSpec sample_server (checked_world ''500Mi'') = (Val r, w') \<and> w_calls w' = [UpdateKubegres k] \<and>
     db_Size (spec_Database (kg_Spec k)) = ''200Mi'' \<and> db_Size (spec_Database (w_spec w')) = ''200Mi'' \<and>
     matches_primary sample_server (w_spec w') (sw_StatefulSet (getPrimaryStatefulSet w'))"
proof -
  have "w_calls (checked_world ''500Mi'') = []" by (simp add: checked_world_def sample_world_def)
  with CheckSpec_rolls_back [OF checked_world_simps(8) checked_world_simps(4) _ checked_world_simps(1), of "''500Mi''"
      "''standard''" "''/var/lib/postgresql/data''" running_claim "''standard''"]
  show ?thesis by (auto simp: checked_world_simps rolled_back_databases_def)
qed

end
