(* ===== verification/Spec_Enforcers.thy ===== *)
theory Spec_Enforcers
  imports Spec_Checker Custom_Config
begin

text \<open>
  \<open>src/controllers/spec/enforcer/statefulset_spec\<close>: the fourteen enforcers that compare
  one aspect of a StatefulSet with the Kubegres spec and write the expected value. The
  theory states the contract that the registry relies on (locale \<open>spec_enforcer\<close>) and
  interprets it for the enforcers. \<open>None\<close> is a panic (an index out of range).
\<close>

section \<open>Differences\<close>

record StatefulSetSpecDifference =
  SpecName :: string
  Current :: string
  Expected :: string

definition no_difference :: StatefulSetSpecDifference where
  "no_difference = \<lparr>SpecName = '''', Current = '''', Expected = ''''\<rparr>"

definition IsThereDifference :: "StatefulSetSpecDifference \<Rightarrow> bool" where
  "IsThereDifference d \<longleftrightarrow> SpecName d \<noteq> ''''"

definition differ :: "bool \<Rightarrow> string \<Rightarrow> string \<Rightarrow> string \<Rightarrow> StatefulSetSpecDifference" where
  "differ c name current expected =
     (if c then \<lparr>SpecName = name, Current = current, Expected = expected\<rparr> else no_difference)"

section \<open>The first container and the first init container\<close>

definition container0 :: "StatefulSet \<Rightarrow> Container option" where
  "container0 s = get_nth 0 (ps_Containers (sts_PodSpec s))"

definition init0 :: "StatefulSet \<Rightarrow> Container option" where
  "init0 s = get_nth 0 (ps_InitContainers (sts_PodSpec s))"

definition upd_container0 :: "(Container \<Rightarrow> Container option) \<Rightarrow> StatefulSet \<Rightarrow> StatefulSet option" where
  "upd_container0 f s =
     map_option (\<lambda>cs. upd_PodSpec (\<lambda>p. p\<lparr>ps_Containers := cs\<rparr>) s) (upd_nth 0 f (ps_Containers (sts_PodSpec s)))"

definition upd_init0 :: "(Container \<Rightarrow> Container option) \<Rightarrow> StatefulSet \<Rightarrow> StatefulSet option" where
  "upd_init0 f s =
     map_option (\<lambda>cs. upd_PodSpec (\<lambda>p. p\<lparr>ps_InitContainers := cs\<rparr>) s) (upd_nth 0 f (ps_InitContainers (sts_PodSpec s)))"

text \<open>The update of the first init container where the code tests that there is one.\<close>

definition upd_init0_if_any :: "(Container \<Rightarrow> Container) \<Rightarrow> StatefulSet \<Rightarrow> StatefulSet" where
  "upd_init0_if_any f s = (case upd_init0 (\<lambda>c. Some (f c)) s of None \<Rightarrow> s | Some s' \<Rightarrow> s')"

section \<open>Image, port\<close>

definition Image_CheckForSpecDifference :: "server \<Rightarrow> world \<Rightarrow> StatefulSet \<Rightarrow> StatefulSetSpecDifference option" where
  "Image_CheckForSpecDifference srv w s =
     do {
       c \<leftarrow> container0 s;
       let expected = spec_Image (w_spec w);
       Some (differ (ctr_Image c \<noteq> expected) ''Image'' (ctr_Image c) expected)
     }"

definition Image_EnforceSpec :: "world \<Rightarrow> StatefulSet \<Rightarrow> (bool \<times> StatefulSet) option" where
  "Image_EnforceSpec w s =
     do {
       s1 \<leftarrow> upd_container0 (\<lambda>c. Some (c\<lparr>ctr_Image := spec_Image (w_spec w)\<rparr>)) s;
       Some (True, upd_init0_if_any (\<lambda>c. c\<lparr>ctr_Image := spec_Image (w_spec w)\<rparr>) s1)
     }"

definition Port_CheckForSpecDifference :: "server \<Rightarrow> world \<Rightarrow> StatefulSet \<Rightarrow> StatefulSetSpecDifference option" where
  "Port_CheckForSpecDifference srv w s =
     do {
       c \<leftarrow> container0 s;
       current \<leftarrow> get_nth 0 (ctr_Ports c);
       let expected = spec_Port (w_spec w);
       Some (differ (current \<noteq> expected) ''Port'' (Itoa current) (Itoa expected))
     }"

definition Port_EnforceSpec :: "world \<Rightarrow> StatefulSet \<Rightarrow> (bool \<times> StatefulSet) option" where
  "Port_EnforceSpec w s =
     map_option (\<lambda>s'. (True, s'))
       (upd_container0 (\<lambda>c. map_option (\<lambda>ports. c\<lparr>ctr_Ports := ports\<rparr>)
          (upd_nth 0 (\<lambda>_. Some (spec_Port (w_spec w))) (ctr_Ports c))) s)"

definition isPrimaryStatefulSet :: "world \<Rightarrow> StatefulSet \<Rightarrow> bool" where
  "isPrimaryStatefulSet w s \<longleftrightarrow> sts_Name s = sts_Name (sw_StatefulSet (rs_Primary (w_states w)))"

text \<open>None: the deployed service has no port.\<close>

definition servicePortNotUpToDate :: "world \<Rightarrow> ServiceWrapper \<Rightarrow> bool option" where
  "servicePortNotUpToDate w srvw =
     (if \<not> srw_IsDeployed srvw then Some False
      else map_option (\<lambda>servicePort. spec_Port (w_spec w) \<noteq> servicePort) (get_nth 0 (svc_Ports (srw_Service srvw))))"

definition port_deleteService :: "server \<Rightarrow> Service \<Rightarrow> world \<Rightarrow> outcome \<times> world" where
  "port_deleteService srv serviceToDelete w =
     (case client_write srv (DeleteService serviceToDelete) w of
        (Some err, w1) \<Rightarrow> (Err err, ErrorEvent ''ServiceDeletionErr'' w1)
      | (None, w1) \<Rightarrow> (Ok, InfoEvent ''ServiceDeletion'' w1))"

definition Port_OnSpecEnforcedSuccessfully :: "server \<Rightarrow> StatefulSet \<Rightarrow> world \<Rightarrow> outcome \<times> world" where
  "Port_OnSpecEnforcedSuccessfully srv s w =
     (let services = rs_Services (w_states w);
          srvw = (if isPrimaryStatefulSet w s then svs_Primary services else svs_Replica services)
      in case servicePortNotUpToDate w srvw of
           None \<Rightarrow> (Panic, w)
         | Some True \<Rightarrow> port_deleteService srv (srw_Service srvw) w
         | Some False \<Rightarrow> (Ok, w))"

section \<open>Storage size\<close>

text \<open>The comparison is commented out in the code: the enforcer never reports a difference.\<close>

definition StorageClassSize_CheckForSpecDifference ::
  "server \<Rightarrow> world \<Rightarrow> StatefulSet \<Rightarrow> StatefulSetSpecDifference option" where
  "StorageClassSize_CheckForSpecDifference srv w s = Some no_difference"

definition getStatefulSetWrapper :: "world \<Rightarrow> StatefulSet \<Rightarrow> StatefulSetWrapper res" where
  "getStatefulSetWrapper w s =
     (case GetByName (sts_Name s) (sss_All (rs_StatefulSets (w_states w))) of
        (sw, None) \<Rightarrow> Val sw
      | (_, Some _) \<Rightarrow> Fail (TextError (''Cannot find statefulSet inside ResourcesStates. StatefulSet name: '' @ sts_Name s)))"

definition getPersistentVolumeClaimName :: "world \<Rightarrow> StatefulSet \<Rightarrow> string res" where
  "getPersistentVolumeClaimName w s =
     (case getStatefulSetWrapper w s of
        Val sw \<Rightarrow>
          (case ps_Volumes (pod_Spec (pw_Pod (sw_Pod sw))) of
             [] \<Rightarrow> Fail (TextError (''The pod does not have a volume. Pod name: '' @ pod_Name (pw_Pod (sw_Pod sw))))
           | v # _ \<Rightarrow> (case v_PersistentVolumeClaim v of None \<Rightarrow> Crash | Some n \<Rightarrow> Val n))
      | Fail e \<Rightarrow> Fail e
      | Crash \<Rightarrow> Crash)"

text \<open>\<open>strconv.Atoi\<close> with its error ignored: a syntax error gives 0, a range error the nearest bound.\<close>

fun atoi_loop :: "int \<Rightarrow> string \<Rightarrow> num_err + int" where
  "atoi_loop n [] = Inr n"
| "atoi_loop n (c # cs) =
     (if \<not> is_digit c then Inl ErrSyntax
      else if 18446744073709551615 < n * 10 + digit_val c then Inl ErrRange
      else atoi_loop (n * 10 + digit_val c) cs)"

definition Atoi_value :: "string \<Rightarrow> int" where
  "Atoi_value s0 =
     (let neg = (s0 \<noteq> [] \<and> hd s0 = CHR ''-'');
          s = (if s0 \<noteq> [] \<and> (hd s0 = CHR ''+'' \<or> neg) then tl s0 else s0)
      in if s = [] then 0
         else case atoi_loop 0 s of
                Inl ErrSyntax \<Rightarrow> 0
              | Inl ErrRange \<Rightarrow> (if neg then - 9223372036854775808 else 9223372036854775807)
              | Inr un \<Rightarrow> (if neg then max (- un) (- 9223372036854775808) else min un 9223372036854775807))"

definition updateStatefulSetToForceToRestart :: "StatefulSet \<Rightarrow> StatefulSet option" where
  "updateStatefulSetToForceToRestart s =
     (let labels = sts_TemplateLabels s;
          sizeChangedCounter = map_get labels ''sizeChangedCounter'';
          index = (if sizeChangedCounter \<noteq> '''' then Atoi_value sizeChangedCounter else 0)
      in map_option (\<lambda>ls. s\<lparr>sts_Template := (sts_Template s)\<lparr>pt_Labels := ls\<rparr>\<rparr>)
           (map_set labels ''sizeChangedCounter'' (Itoa (int64 (index + 1)))))"

definition resize_claim :: "server \<Rightarrow> StatefulSet \<Rightarrow> PersistentVolumeClaim \<Rightarrow> world \<Rightarrow> (bool \<times> StatefulSet) res \<times> world" where
  "resize_claim srv s claim w =
     (case srv_parse_quantity srv (db_Size (spec_Database (w_spec w))) of
        None \<Rightarrow> (Crash, w)
      | Some q \<Rightarrow>
          let resized = claim\<lparr>pvc_Spec := (pvc_Spec claim)
                \<lparr>pvs_Resources := (pvs_Resources (pvc_Spec claim))\<lparr>rr_Requests := [(''storage'', q)]\<rparr>\<rparr>\<rparr>
          in case client_write srv (UpdatePersistentVolumeClaim resized) w of
               (Some err, w1) \<Rightarrow> (Fail err, w1)
             | (None, w1) \<Rightarrow>
                 (case updateStatefulSetToForceToRestart s of
                    None \<Rightarrow> (Crash, w1)
                  | Some s' \<Rightarrow> (Val (True, s'), w1)))"

definition StorageClassSize_EnforceSpec :: "server \<Rightarrow> StatefulSet \<Rightarrow> world \<Rightarrow> (bool \<times> StatefulSet) res \<times> world" where
  "StorageClassSize_EnforceSpec srv s w =
     (case getPersistentVolumeClaimName w s of
        Crash \<Rightarrow> (Crash, w)
      | Fail err \<Rightarrow> (Fail err, w)
      | Val persistentVolumeClaimName \<Rightarrow>
          (case srv_get_PersistentVolumeClaim srv (w_calls w) (kg_Namespace (w_kubegres w)) persistentVolumeClaimName of
             Inl err \<Rightarrow> (Fail err, w)
           | Inr claim \<Rightarrow> resize_claim srv s claim w))"

section \<open>Custom configuration\<close>

definition CustomConfig_CheckForSpecDifference ::
  "server \<Rightarrow> world \<Rightarrow> StatefulSet \<Rightarrow> StatefulSetSpecDifference option" where
  "CustomConfig_CheckForSpecDifference srv w s =
     do {
       ((hasStatefulSetChanged, changesDetails), statefulSetCopy) \<leftarrow> ConfigureStatefulSet w s;
       Some (differ hasStatefulSetChanged ''CustomConfig'' '' '' changesDetails)
     }"

definition CustomConfig_EnforceSpec :: "world \<Rightarrow> StatefulSet \<Rightarrow> (bool \<times> StatefulSet) option" where
  "CustomConfig_EnforceSpec w s =
     do {
       ((wasSpecUpdated, changesDetails), s') \<leftarrow> ConfigureStatefulSet w s;
       Some (wasSpecUpdated, s')
     }"

section \<open>Scheduling and resources\<close>

definition Affinity_CheckForSpecDifference ::
  "server \<Rightarrow> world \<Rightarrow> StatefulSet \<Rightarrow> StatefulSetSpecDifference option" where
  "Affinity_CheckForSpecDifference srv w s =
     (let current = ps_Affinity (sts_PodSpec s); expected = sched_Affinity (spec_Scheduler (w_spec w)) in
      Some (differ (current \<noteq> expected) ''Affinity'' (srv_string srv current) (srv_string srv expected)))"

definition Affinity_EnforceSpec :: "world \<Rightarrow> StatefulSet \<Rightarrow> (bool \<times> StatefulSet) option" where
  "Affinity_EnforceSpec w s =
     Some (True, upd_PodSpec (\<lambda>p. p\<lparr>ps_Affinity := sched_Affinity (spec_Scheduler (w_spec w))\<rparr>) s)"

definition tolerations_toString :: "server \<Rightarrow> k8s_value list \<Rightarrow> string" where
  "tolerations_toString srv ts = concat (map (\<lambda>t. srv_string srv (Some t) @ '' - '') ts)"

fun tolerations_compare :: "k8s_value list \<Rightarrow> k8s_value list \<Rightarrow> bool" where
  "tolerations_compare [] [] = True"
| "tolerations_compare (c # cs) (e # es) = (e = c \<and> tolerations_compare cs es)"
| "tolerations_compare _ _ = False"

definition Tolerations_CheckForSpecDifference ::
  "server \<Rightarrow> world \<Rightarrow> StatefulSet \<Rightarrow> StatefulSetSpecDifference option" where
  "Tolerations_CheckForSpecDifference srv w s =
     (let current = ps_Tolerations (sts_PodSpec s); expected = sched_Tolerations (spec_Scheduler (w_spec w)) in
      Some (differ (\<not> tolerations_compare current expected) ''Tolerations''
        (tolerations_toString srv current) (tolerations_toString srv expected)))"

definition Tolerations_EnforceSpec :: "world \<Rightarrow> StatefulSet \<Rightarrow> (bool \<times> StatefulSet) option" where
  "Tolerations_EnforceSpec w s =
     Some (True, upd_PodSpec (\<lambda>p. p\<lparr>ps_Tolerations := sched_Tolerations (spec_Scheduler (w_spec w))\<rparr>) s)"

text \<open>
  \<open>None\<close>: \<open>resource.MustParse\<close> panics. A missing key reads as \<open>Quantity{}\<close>, which differs from
  every parsed quantity, also from that of ``0'', in its format or its cached text.
\<close>

fun compare_resources_loop :: "server \<Rightarrow> (string \<times> quantity) list \<Rightarrow> (string \<times> quantity) list \<Rightarrow> bool option" where
  "compare_resources_loop srv current [] = Some True"
| "compare_resources_loop srv current ((key, expectedElement) # es) =
     do {
       expectedElementParsed \<leftarrow> srv_parse_quantity srv (srv_quantity_string srv expectedElement);
       if Some expectedElementParsed \<noteq> map_of current key then Some False
       else compare_resources_loop srv current es
     }"

definition compareResourceLists :: "server \<Rightarrow> (string \<times> quantity) list \<Rightarrow> (string \<times> quantity) list \<Rightarrow> bool option" where
  "compareResourceLists srv current expected =
     (if length current \<noteq> length expected then Some False else compare_resources_loop srv current expected)"

definition compareResources :: "server \<Rightarrow> ResourceRequirements \<Rightarrow> ResourceRequirements \<Rightarrow> bool option" where
  "compareResources srv current expected =
     do {
       limits \<leftarrow> compareResourceLists srv (rr_Limits current) (rr_Limits expected);
       if \<not> limits then Some False else compareResourceLists srv (rr_Requests current) (rr_Requests expected)
     }"

definition Resources_CheckForSpecDifference ::
  "server \<Rightarrow> world \<Rightarrow> StatefulSet \<Rightarrow> StatefulSetSpecDifference option" where
  "Resources_CheckForSpecDifference srv w s =
     do {
       c \<leftarrow> container0 s;
       let expected = spec_Resources (w_spec w);
       same \<leftarrow> compareResources srv (ctr_Resources c) expected;
       Some (differ (\<not> same) ''Resources'' (srv_resources_string srv (ctr_Resources c)) (srv_resources_string srv expected))
     }"

definition Resources_EnforceSpec :: "world \<Rightarrow> StatefulSet \<Rightarrow> (bool \<times> StatefulSet) option" where
  "Resources_EnforceSpec w s =
     map_option (\<lambda>s'. (True, s')) (upd_container0 (\<lambda>c. Some (c\<lparr>ctr_Resources := spec_Resources (w_spec w)\<rparr>)) s)"

section \<open>Volumes\<close>

definition getCurrentCustomVolumes :: "StatefulSet \<Rightarrow> Volume list" where
  "getCurrentCustomVolumes s = filter (\<lambda>v. \<not> IsReservedVolumeName (v_Name v)) (ps_Volumes (sts_PodSpec s))"

definition custom_mounts :: "Container \<Rightarrow> VolumeMount list" where
  "custom_mounts c = filter (\<lambda>m. \<not> IsReservedVolumeName (vm_Name m)) (ctr_VolumeMounts c)"

definition getCurrentCustomVolumeMounts :: "StatefulSet \<Rightarrow> VolumeMount list option" where
  "getCurrentCustomVolumeMounts s = map_option custom_mounts (container0 s)"

definition getVolumeMountsFromInitContainer :: "StatefulSet \<Rightarrow> VolumeMount list \<times> bool" where
  "getVolumeMountsFromInitContainer s =
     (case init0 s of None \<Rightarrow> ([], False) | Some c \<Rightarrow> (custom_mounts c, True))"

text \<open>\<open>compareVolumes\<close> and \<open>compareVolumeMounts\<close> are the same loop over different types.\<close>

definition compare_items :: "'a list \<Rightarrow> 'a list \<Rightarrow> bool" where
  "compare_items current expected \<longleftrightarrow>
     length expected = length current \<and> list_all (\<lambda>e. list_ex (\<lambda>c. e = c) current) expected"

definition compareVolumes :: "Volume list \<Rightarrow> Volume list \<Rightarrow> bool" where
  "compareVolumes = compare_items"

definition compareVolumeMounts :: "VolumeMount list \<Rightarrow> VolumeMount list \<Rightarrow> bool" where
  "compareVolumeMounts = compare_items"

definition volumesToString :: "server \<Rightarrow> Volume list \<Rightarrow> string" where
  "volumesToString srv vs = concat (map (\<lambda>v. srv_volume_string srv v @ '' - '') vs)"

definition volumeMountsToString :: "server \<Rightarrow> VolumeMount list \<Rightarrow> string" where
  "volumeMountsToString srv ms = concat (map (\<lambda>m. srv_mount_string srv m @ '' - '') ms)"

definition Volume_CheckForSpecDifference ::
  "server \<Rightarrow> world \<Rightarrow> StatefulSet \<Rightarrow> StatefulSetSpecDifference option" where
  "Volume_CheckForSpecDifference srv w s =
     (let volumes = getCurrentCustomVolumes s;
          expectedVolumes = vol_Volumes (spec_Volume (w_spec w));
          expectedMounts = vol_VolumeMounts (spec_Volume (w_spec w))
      in if \<not> compareVolumes volumes expectedVolumes then
           Some \<lparr>SpecName = ''Volume.Volumes'', Current = volumesToString srv volumes,
             Expected = volumesToString srv expectedVolumes\<rparr>
         else do {
           let (initMounts, hasInitContainer) = getVolumeMountsFromInitContainer s;
           mounts \<leftarrow> getCurrentCustomVolumeMounts s;
           Some (if hasInitContainer \<and> \<not> compareVolumeMounts initMounts expectedMounts then
                   \<lparr>SpecName = ''Volume.VolumeMounts[initContainer]'', Current = volumeMountsToString srv initMounts,
                    Expected = volumeMountsToString srv expectedMounts\<rparr>
                 else differ (\<not> compareVolumeMounts mounts expectedMounts) ''Volume.VolumeMounts[container]''
                        (volumeMountsToString srv mounts) (volumeMountsToString srv expectedMounts))
         })"

text \<open>Each custom item is removed at the first position where an equal item stands.\<close>

definition remove_items :: "'a list \<Rightarrow> 'a list \<Rightarrow> 'a list" where
  "remove_items = foldl (\<lambda>xs x. remove1 x xs)"

definition removeCustomVolumes :: "StatefulSet \<Rightarrow> StatefulSet" where
  "removeCustomVolumes s = upd_PodSpec (\<lambda>p. p\<lparr>ps_Volumes := remove_items (ps_Volumes p) (getCurrentCustomVolumes s)\<rparr>) s"

definition remove_custom_mounts :: "Container \<Rightarrow> Container" where
  "remove_custom_mounts c = c\<lparr>ctr_VolumeMounts := remove_items (ctr_VolumeMounts c) (custom_mounts c)\<rparr>"

definition removeCustomVolumeMounts :: "StatefulSet \<Rightarrow> StatefulSet option" where
  "removeCustomVolumeMounts = upd_container0 (\<lambda>c. Some (remove_custom_mounts c))"

definition removeCustomVolumeMountsFromInitContainer :: "StatefulSet \<Rightarrow> StatefulSet" where
  "removeCustomVolumeMountsFromInitContainer = upd_init0_if_any remove_custom_mounts"

text \<open>
  \<open>if VolumeMounts != nil { append(...) }\<close>. The slice is nil exactly when the decoded
  container had no mount; removing entries from a slice does not make it nil, so the test is
  on the container as it was decoded.
\<close>

definition append_mounts :: "Container option \<Rightarrow> VolumeMount list \<Rightarrow> Container \<Rightarrow> Container" where
  "append_mounts decoded ms c =
     (if map_option ctr_VolumeMounts decoded = Some [] then c
      else c\<lparr>ctr_VolumeMounts := ctr_VolumeMounts c @ ms\<rparr>)"

definition Volume_EnforceSpec :: "world \<Rightarrow> StatefulSet \<Rightarrow> (bool \<times> StatefulSet) option" where
  "Volume_EnforceSpec w s =
     do {
       s1 \<leftarrow> removeCustomVolumeMounts (removeCustomVolumes s);
       let s2 = removeCustomVolumeMountsFromInitContainer s1;
       let s3 = upd_PodSpec (\<lambda>p. p\<lparr>ps_Volumes := ps_Volumes p @ vol_Volumes (spec_Volume (w_spec w))\<rparr>) s2;
       let ms = vol_VolumeMounts (spec_Volume (w_spec w));
       s4 \<leftarrow> upd_container0 (\<lambda>c. Some (append_mounts (container0 s) ms c)) s3;
       Some (True, upd_init0_if_any (append_mounts (init0 s) ms) s4)
     }"

section \<open>Security context, probes, service account\<close>

definition SecurityContext_CheckForSpecDifference ::
  "server \<Rightarrow> world \<Rightarrow> StatefulSet \<Rightarrow> StatefulSetSpecDifference option" where
  "SecurityContext_CheckForSpecDifference srv w s =
     (let current = ps_SecurityContext (sts_PodSpec s); expected = spec_SecurityContext (w_spec w);
          emptySecurityContext = Some (KObj [])
      in if expected = None \<and> current = emptySecurityContext then Some no_difference
         else Some (differ (current \<noteq> expected) ''SecurityContext'' (srv_string srv current) (srv_string srv expected)))"

definition SecurityContext_EnforceSpec :: "world \<Rightarrow> StatefulSet \<Rightarrow> (bool \<times> StatefulSet) option" where
  "SecurityContext_EnforceSpec w s =
     Some (True, upd_PodSpec (\<lambda>p. p\<lparr>ps_SecurityContext := spec_SecurityContext (w_spec w)\<rparr>) s)"

definition LivenessProbe_CheckForSpecDifference ::
  "server \<Rightarrow> world \<Rightarrow> StatefulSet \<Rightarrow> StatefulSetSpecDifference option" where
  "LivenessProbe_CheckForSpecDifference srv w s =
     do {
       c \<leftarrow> container0 s;
       let expected = probe_LivenessProbe (spec_Probe (w_spec w));
       Some (if expected = None then no_difference
             else differ (ctr_LivenessProbe c \<noteq> expected) ''LivenessProbe''
                    (srv_string srv (ctr_LivenessProbe c)) (srv_string srv expected))
     }"

definition LivenessProbe_EnforceSpec :: "world \<Rightarrow> StatefulSet \<Rightarrow> (bool \<times> StatefulSet) option" where
  "LivenessProbe_EnforceSpec w s =
     map_option (\<lambda>s'. (True, s'))
       (upd_container0 (\<lambda>c. Some (c\<lparr>ctr_LivenessProbe := probe_LivenessProbe (spec_Probe (w_spec w))\<rparr>)) s)"

definition ReadinessProbe_CheckForSpecDifference ::
  "server \<Rightarrow> world \<Rightarrow> StatefulSet \<Rightarrow> StatefulSetSpecDifference option" where
  "ReadinessProbe_CheckForSpecDifference srv w s =
     do {
       c \<leftarrow> container0 s;
       let expected = probe_ReadinessProbe (spec_Probe (w_spec w));
       Some (if expected = None then no_difference
             else differ (ctr_ReadinessProbe c \<noteq> expected) ''ReadinessProbe''
                    (srv_string srv (ctr_ReadinessProbe c)) (srv_string srv expected))
     }"

definition ReadinessProbe_EnforceSpec :: "world \<Rightarrow> StatefulSet \<Rightarrow> (bool \<times> StatefulSet) option" where
  "ReadinessProbe_EnforceSpec w s =
     map_option (\<lambda>s'. (True, s'))
       (upd_container0 (\<lambda>c. Some (c\<lparr>ctr_ReadinessProbe := probe_ReadinessProbe (spec_Probe (w_spec w))\<rparr>)) s)"

definition ServiceAccountName_CheckForSpecDifference ::
  "server \<Rightarrow> world \<Rightarrow> StatefulSet \<Rightarrow> StatefulSetSpecDifference option" where
  "ServiceAccountName_CheckForSpecDifference srv w s =
     (let current = ps_ServiceAccountName (sts_PodSpec s); expected = spec_ServiceAccountName (w_spec w) in
      Some (differ (current \<noteq> expected) ''ServiceAccountName'' current expected))"

definition ServiceAccountName_EnforceSpec :: "world \<Rightarrow> StatefulSet \<Rightarrow> (bool \<times> StatefulSet) option" where
  "ServiceAccountName_EnforceSpec w s =
     Some (True, upd_PodSpec (\<lambda>p. p\<lparr>ps_ServiceAccountName := spec_ServiceAccountName (w_spec w)\<rparr>) s)"

section \<open>Custom metadata\<close>

definition annotationPrefix :: string where
  "annotationPrefix = ''kubegres.reactive-tech.io/''"

record customMetadata =
  cmd_Labels :: str_map
  cmd_Annotations :: str_map

definition extractCustom :: "str_map \<Rightarrow> str_map" where
  "extractCustom = filter (\<lambda>(key, value). prefix annotationPrefix key)"

definition getCustomMetadata :: "ObjectMeta \<Rightarrow> customMetadata" where
  "getCustomMetadata m = \<lparr>cmd_Labels = extractCustom (md_Labels m), cmd_Annotations = extractCustom (md_Annotations m)\<rparr>"

text \<open>\<open>maps.Equal\<close>\<close>

definition maps_Equal :: "str_map \<Rightarrow> str_map \<Rightarrow> bool" where
  "maps_Equal a b \<longleftrightarrow> length a = length b \<and> list_all (\<lambda>(k, v). map_of b k = Some v) a"

definition metadata_equals :: "customMetadata \<Rightarrow> customMetadata \<Rightarrow> bool" where
  "metadata_equals current expected \<longleftrightarrow>
     maps_Equal (cmd_Labels current) (cmd_Labels expected) \<and> maps_Equal (cmd_Annotations current) (cmd_Annotations expected)"

text \<open>\<open>strings.Join\<close>\<close>

fun strings_Join :: "string list \<Rightarrow> string \<Rightarrow> string" where
  "strings_Join [] sep = ''''"
| "strings_Join [x] sep = x"
| "strings_Join (x # y # ys) sep = x @ sep @ strings_Join (y # ys) sep"

definition metadata_toString :: "customMetadata \<Rightarrow> string" where
  "metadata_toString md =
     (let pairs = map (\<lambda>(key, value). key @ ''='' @ value) in
      ''Labels: '' @ strings_Join (pairs (cmd_Labels md)) '', '' @
      '' - Annotations: '' @ strings_Join (pairs (cmd_Annotations md)) '', '')"

definition merge :: "str_map \<Rightarrow> str_map \<Rightarrow> str_map" where
  "merge a b = foldl (\<lambda>r (key, value). AList.update key value r) (foldl (\<lambda>r (key, value). AList.update key value r) [] a) b"

definition CustomMetadata_CheckForSpecDifference ::
  "server \<Rightarrow> world \<Rightarrow> StatefulSet \<Rightarrow> StatefulSetSpecDifference option" where
  "CustomMetadata_CheckForSpecDifference srv w s =
     (let current = getCustomMetadata (sts_meta s); expected = getCustomMetadata (kg_meta (w_kubegres w)) in
      Some (differ (\<not> metadata_equals current expected) ''CustomMetadata''
        (metadata_toString current) (metadata_toString expected)))"

definition CustomMetadata_EnforceSpec :: "world \<Rightarrow> StatefulSet \<Rightarrow> (bool \<times> StatefulSet) option" where
  "CustomMetadata_EnforceSpec w s =
     (let md = getCustomMetadata (kg_meta (w_kubegres w)) in
      Some (True, s
        \<lparr>sts_meta := (sts_meta s)\<lparr>md_Labels := merge (md_Labels (sts_meta s)) (cmd_Labels md),
                                  md_Annotations := merge (md_Annotations (sts_meta s)) (cmd_Annotations md)\<rparr>,
         sts_Template := (sts_Template s)\<lparr>pt_Labels := merge (sts_TemplateLabels s) (cmd_Labels md),
                                  pt_Annotations := merge (pt_Annotations (sts_Template s)) (cmd_Annotations md)\<rparr>\<rparr>))"

section \<open>Endpoint of the primary\<close>

definition getExpectedPrimaryServiceName :: "world \<Rightarrow> string" where
  "getExpectedPrimaryServiceName w =
     (if standby_Enabled (spec_Standby (w_spec w)) then standby_PrimaryEndpoint (spec_Standby (w_spec w))
      else GetServiceResourceName (w_kubegres w) True)"

definition StandbyPrimaryEndpoint_CheckForSpecDifference ::
  "server \<Rightarrow> world \<Rightarrow> StatefulSet \<Rightarrow> StatefulSetSpecDifference option" where
  "StandbyPrimaryEndpoint_CheckForSpecDifference srv w s =
     (case init0 s of
        None \<Rightarrow> Some no_difference
      | Some c \<Rightarrow>
          do {
            e \<leftarrow> get_nth 0 (ctr_Env c);
            let expected = getExpectedPrimaryServiceName w;
            Some (differ (env_Value e \<noteq> expected) ''StandbyPrimaryEndpoint'' (env_Value e) expected)
          })"

definition StandbyPrimaryEndpoint_EnforceSpec :: "world \<Rightarrow> StatefulSet \<Rightarrow> (bool \<times> StatefulSet) option" where
  "StandbyPrimaryEndpoint_EnforceSpec w s =
     map_option (\<lambda>s'. (True, s'))
       (upd_init0 (\<lambda>c. map_option (\<lambda>es. c\<lparr>ctr_Env := es\<rparr>)
          (upd_nth 0 (\<lambda>e. Some (e\<lparr>env_Value := getExpectedPrimaryServiceName w\<rparr>)) (ctr_Env c))) s)"

section \<open>Views of a StatefulSet\<close>

text \<open>
  What the comparisons read, up to the configuration of the mounts: an update of one
  component leaves the others alone.
\<close>

lemma container0_upd [simp]:
  "container0 (upd_PodSpec f s) = get_nth 0 (ps_Containers (f (sts_PodSpec s)))"
  "init0 (upd_PodSpec f s) = get_nth 0 (ps_InitContainers (f (sts_PodSpec s)))"
  by (simp_all add: container0_def init0_def)

lemma get_nth_0_upd_nth: "upd_nth 0 f xs = Some ys \<Longrightarrow> get_nth 0 ys = Option.bind (get_nth 0 xs) f"
  by (cases xs) auto

lemma upd_container0_Some:
  assumes "upd_container0 f s = Some s'"
  obtains c c' where "container0 s = Some c" "f c = Some c'" "container0 s' = Some c'" "init0 s' = init0 s"
    "sts_PodSpec s' = (sts_PodSpec s)\<lparr>ps_Containers := c' # tl (ps_Containers (sts_PodSpec s))\<rparr>"
    "sts_meta s' = sts_meta s" "s' = upd_PodSpec (\<lambda>p. p\<lparr>ps_Containers := c' # tl (ps_Containers (sts_PodSpec s))\<rparr>) s"
  using assms that
  by (cases "ps_Containers (sts_PodSpec s)") (auto simp: upd_container0_def container0_def init0_def)

lemma upd_container0_total: "container0 s = Some c \<Longrightarrow> f c = Some c' \<Longrightarrow> \<exists>s'. upd_container0 f s = Some s'"
  by (cases "ps_Containers (sts_PodSpec s)") (auto simp: upd_container0_def container0_def)

lemma upd_init0_Some:
  assumes "upd_init0 f s = Some s'"
  obtains c c' where "init0 s = Some c" "f c = Some c'" "init0 s' = Some c'" "container0 s' = container0 s"
    "sts_PodSpec s' = (sts_PodSpec s)\<lparr>ps_InitContainers := c' # tl (ps_InitContainers (sts_PodSpec s))\<rparr>"
    "sts_meta s' = sts_meta s" "s' = upd_PodSpec (\<lambda>p. p\<lparr>ps_InitContainers := c' # tl (ps_InitContainers (sts_PodSpec s))\<rparr>) s"
  using assms that
  by (cases "ps_InitContainers (sts_PodSpec s)") (auto simp: upd_init0_def container0_def init0_def)

lemma upd_init0_total: "init0 s = Some c \<Longrightarrow> f c = Some c' \<Longrightarrow> \<exists>s'. upd_init0 f s = Some s'"
  by (cases "ps_InitContainers (sts_PodSpec s)") (auto simp: upd_init0_def init0_def)

lemma upd_init0_if_any_simps [simp]:
  "init0 (upd_init0_if_any f s) = map_option f (init0 s)"
  "container0 (upd_init0_if_any f s) = container0 s"
  "ps_Volumes (sts_PodSpec (upd_init0_if_any f s)) = ps_Volumes (sts_PodSpec s)"
  "ps_Affinity (sts_PodSpec (upd_init0_if_any f s)) = ps_Affinity (sts_PodSpec s)"
  "ps_Tolerations (sts_PodSpec (upd_init0_if_any f s)) = ps_Tolerations (sts_PodSpec s)"
  "ps_SecurityContext (sts_PodSpec (upd_init0_if_any f s)) = ps_SecurityContext (sts_PodSpec s)"
  "ps_ServiceAccountName (sts_PodSpec (upd_init0_if_any f s)) = ps_ServiceAccountName (sts_PodSpec s)"
  "sts_meta (upd_init0_if_any f s) = sts_meta s"
  "sts_VolumeClaimTemplates (upd_init0_if_any f s) = sts_VolumeClaimTemplates s"
  "sts_MatchLabels (upd_init0_if_any f s) = sts_MatchLabels s"
  "sts_ServiceName (upd_init0_if_any f s) = sts_ServiceName s"
  by (cases "ps_InitContainers (sts_PodSpec s)"; simp add: upd_init0_if_any_def upd_init0_def init0_def container0_def)+

section \<open>The contract of an enforcer\<close>

text \<open>
  Kubernetes rejects an update of a StatefulSet that touches anything but the replicas, the
  template and the update strategy; the name identifies the object.
\<close>

definition same_identity :: "StatefulSet \<Rightarrow> StatefulSet \<Rightarrow> bool" where
  "same_identity s s' \<longleftrightarrow> sts_Name s' = sts_Name s \<and> sts_VolumeClaimTemplates s' = sts_VolumeClaimTemplates s \<and>
     sts_MatchLabels s' = sts_MatchLabels s \<and> sts_ServiceName s' = sts_ServiceName s"

text \<open>One round of the loop of \<open>StatefulSetsSpecsEnforcer.EnforceSpec\<close>, for an enforcer without API calls.\<close>

definition enforce_if_different ::
  "(server \<Rightarrow> world \<Rightarrow> StatefulSet \<Rightarrow> StatefulSetSpecDifference option) \<Rightarrow>
   (world \<Rightarrow> StatefulSet \<Rightarrow> (bool \<times> StatefulSet) option) \<Rightarrow>
   server \<Rightarrow> world \<Rightarrow> StatefulSet \<Rightarrow> (bool \<times> StatefulSet) option" where
  "enforce_if_different check enforce srv w s =
     do { d \<leftarrow> check srv w s; if IsThereDifference d then enforce w s else Some (False, s) }"

locale spec_enforcer =
  fixes check :: "server \<Rightarrow> world \<Rightarrow> StatefulSet \<Rightarrow> StatefulSetSpecDifference option"
    and enforce :: "world \<Rightarrow> StatefulSet \<Rightarrow> (bool \<times> StatefulSet) option"
    and ready :: "server \<Rightarrow> world \<Rightarrow> StatefulSet \<Rightarrow> bool"
  assumes named: "check srv w s = Some d \<Longrightarrow> IsThereDifference d \<or> d = no_difference"
    and clears: "check srv w s = Some d \<Longrightarrow> IsThereDifference d \<Longrightarrow> ready srv w s \<Longrightarrow>
      \<exists>s'. enforce w s = Some (True, s') \<and> check srv w s' = Some no_difference"
    and keeps_identity: "enforce w s = Some (b, s') \<Longrightarrow> same_identity s s'"
begin

lemma settles:
  assumes "check srv w s \<noteq> None" "ready srv w s"
  shows "\<exists>b s'. enforce_if_different check enforce srv w s = Some (b, s') \<and>
    check srv w s' = Some no_difference \<and> same_identity s s'"
proof -
  obtain d where d: "check srv w s = Some d" using assms(1) by blast
  show ?thesis
  proof (cases "IsThereDifference d")
    case True
    with clears [OF d True assms(2)] keeps_identity d show ?thesis by (fastforce simp: enforce_if_different_def)
  next
    case False
    with named [OF d] d show ?thesis by (auto simp: enforce_if_different_def same_identity_def)
  qed
qed

lemma settled_stays: "check srv w s = Some no_difference \<Longrightarrow> enforce_if_different check enforce srv w s = Some (False, s)"
  by (simp add: enforce_if_different_def IsThereDifference_def no_difference_def)

lemma updates_only_differences:
  "enforce_if_different check enforce srv w s = Some (True, s') \<Longrightarrow> \<exists>d. check srv w s = Some d \<and> IsThereDifference d"
  by (auto simp: enforce_if_different_def bind_eq_Some_conv split: if_splits)

end

lemma differ_simps [simp]:
  "n \<noteq> '''' \<Longrightarrow> IsThereDifference (differ c n x y) \<longleftrightarrow> c" "differ False n x y = no_difference"
  "n \<noteq> '''' \<Longrightarrow> differ c n x y = no_difference \<longleftrightarrow> \<not> c" "\<not> IsThereDifference no_difference"
  by (auto simp: differ_def IsThereDifference_def no_difference_def)

lemma same_identity_upd [simp]: "same_identity s (upd_PodSpec f s)"
  "same_identity s (upd_init0_if_any h t) \<longleftrightarrow> same_identity s t"
  "same_identity s (upd_PodSpec g t) \<longleftrightarrow> same_identity s t"
  by (simp_all add: same_identity_def)

lemma same_identity_upd0:
  "upd_container0 g t = Some t' \<Longrightarrow> same_identity s t' \<longleftrightarrow> same_identity s t"
  "upd_init0 g t = Some t' \<Longrightarrow> same_identity s t' \<longleftrightarrow> same_identity s t"
  by (auto simp: upd_container0_def upd_init0_def)

lemma same_identity_refl [simp]: "same_identity s s"
  by (simp add: same_identity_def)

definition always :: "server \<Rightarrow> world \<Rightarrow> StatefulSet \<Rightarrow> bool" where
  "always srv w s \<longleftrightarrow> True"

lemmas enforcer_defs = Image_CheckForSpecDifference_def Image_EnforceSpec_def Port_CheckForSpecDifference_def
  Port_EnforceSpec_def Affinity_CheckForSpecDifference_def Affinity_EnforceSpec_def
  Tolerations_CheckForSpecDifference_def Tolerations_EnforceSpec_def Resources_CheckForSpecDifference_def
  Resources_EnforceSpec_def SecurityContext_CheckForSpecDifference_def SecurityContext_EnforceSpec_def
  LivenessProbe_CheckForSpecDifference_def LivenessProbe_EnforceSpec_def ReadinessProbe_CheckForSpecDifference_def
  ReadinessProbe_EnforceSpec_def ServiceAccountName_CheckForSpecDifference_def ServiceAccountName_EnforceSpec_def
  StandbyPrimaryEndpoint_CheckForSpecDifference_def StandbyPrimaryEndpoint_EnforceSpec_def

lemma container0_simps: "container0 s = Some c \<Longrightarrow> upd_container0 f s =
    map_option (\<lambda>c'. upd_PodSpec (\<lambda>p. p\<lparr>ps_Containers := c' # tl (ps_Containers (sts_PodSpec s))\<rparr>) s) (f c)"
  by (cases "ps_Containers (sts_PodSpec s)"; cases "f c") (auto simp: upd_container0_def container0_def)

lemma init0_simps: "init0 s = Some c \<Longrightarrow> upd_init0 f s =
    map_option (\<lambda>c'. upd_PodSpec (\<lambda>p. p\<lparr>ps_InitContainers := c' # tl (ps_InitContainers (sts_PodSpec s))\<rparr>) s) (f c)"
  by (cases "ps_InitContainers (sts_PodSpec s)"; cases "f c") (auto simp: upd_init0_def init0_def)

lemma get_nth_0_Some: "get_nth 0 xs = Some x \<Longrightarrow> upd_nth 0 f xs = map_option (\<lambda>y. y # tl xs) (f x)"
  by (cases xs) auto

lemma tolerations_compare_iff [simp]: "tolerations_compare a b \<longleftrightarrow> a = b"
  by (induction a b rule: tolerations_compare.induct) auto

interpretation image: spec_enforcer Image_CheckForSpecDifference Image_EnforceSpec always
  by unfold_locales (auto simp: enforcer_defs Let_def bind_eq_Some_conv container0_simps same_identity_upd0)

interpretation port: spec_enforcer Port_CheckForSpecDifference Port_EnforceSpec always
  by unfold_locales (auto simp: enforcer_defs Let_def bind_eq_Some_conv container0_simps get_nth_0_Some same_identity_upd0)

interpretation affinity: spec_enforcer Affinity_CheckForSpecDifference Affinity_EnforceSpec always
  by unfold_locales (auto simp: enforcer_defs Let_def)

interpretation tolerations: spec_enforcer Tolerations_CheckForSpecDifference Tolerations_EnforceSpec always
  by unfold_locales (auto simp: enforcer_defs Let_def)

interpretation security_context: spec_enforcer SecurityContext_CheckForSpecDifference SecurityContext_EnforceSpec always
  by unfold_locales (auto simp: enforcer_defs Let_def split: if_splits)

interpretation liveness: spec_enforcer LivenessProbe_CheckForSpecDifference LivenessProbe_EnforceSpec always
  by unfold_locales (auto simp: enforcer_defs Let_def bind_eq_Some_conv container0_simps same_identity_upd0 split: if_splits)

interpretation readiness: spec_enforcer ReadinessProbe_CheckForSpecDifference ReadinessProbe_EnforceSpec always
  by unfold_locales (auto simp: enforcer_defs Let_def bind_eq_Some_conv container0_simps same_identity_upd0 split: if_splits)

interpretation service_account: spec_enforcer ServiceAccountName_CheckForSpecDifference ServiceAccountName_EnforceSpec always
  by unfold_locales (auto simp: enforcer_defs Let_def)

interpretation endpoint: spec_enforcer StandbyPrimaryEndpoint_CheckForSpecDifference StandbyPrimaryEndpoint_EnforceSpec always
proof
  fix srv w s d
  assume c: "StandbyPrimaryEndpoint_CheckForSpecDifference srv w s = Some d" "IsThereDifference d"
  then obtain i e where "init0 s = Some i" "get_nth 0 (ctr_Env i) = Some e"
    by (auto simp: enforcer_defs Let_def bind_eq_Some_conv split: option.splits)
  then show "\<exists>s'. StandbyPrimaryEndpoint_EnforceSpec w s = Some (True, s') \<and>
      StandbyPrimaryEndpoint_CheckForSpecDifference srv w s' = Some no_difference"
    by (simp add: enforcer_defs init0_simps get_nth_0_Some)
qed (auto simp: enforcer_defs Let_def bind_eq_Some_conv same_identity_upd0 split: option.splits)

interpretation config: spec_enforcer CustomConfig_CheckForSpecDifference CustomConfig_EnforceSpec always
proof
  fix srv w s d
  assume c: "CustomConfig_CheckForSpecDifference srv w s = Some d" "IsThereDifference d"
  then obtain det s' where s': "ConfigureStatefulSet w s = Some ((True, det), s')"
    by (auto simp: CustomConfig_CheckForSpecDifference_def bind_eq_Some_conv)
  then show "\<exists>s'. CustomConfig_EnforceSpec w s = Some (True, s') \<and> CustomConfig_CheckForSpecDifference srv w s' = Some no_difference"
    using ConfigureStatefulSet_fixpoint [OF ConfigureStatefulSet_ok [OF s']]
    by (simp add: CustomConfig_EnforceSpec_def CustomConfig_CheckForSpecDifference_def)
next
  show "CustomConfig_CheckForSpecDifference srv w s = Some d \<Longrightarrow> IsThereDifference d \<or> d = no_difference" for srv w s d
    by (auto simp: CustomConfig_CheckForSpecDifference_def bind_eq_Some_conv)
next
  show "CustomConfig_EnforceSpec w s = Some (b, s') \<Longrightarrow> same_identity s s'" for w s b s'
    by (auto simp: CustomConfig_EnforceSpec_def bind_eq_Some_conv same_identity_def only_config_fields
        dest!: ConfigureStatefulSet_only_config)
qed

section \<open>Resources\<close>

text \<open>
  Parsing what \<open>Quantity.String\<close> prints gives the quantity back, and the two resource
  maps have no duplicate key.
\<close>

definition quantities_ok :: "server \<Rightarrow> world \<Rightarrow> StatefulSet \<Rightarrow> bool" where
  "quantities_ok srv w s \<longleftrightarrow> (\<forall>q. srv_parse_quantity srv (srv_quantity_string srv q) = Some q) \<and>
     distinct (map fst (rr_Limits (spec_Resources (w_spec w)))) \<and> distinct (map fst (rr_Requests (spec_Resources (w_spec w))))"

lemma compare_resources_loop_same:
  assumes "\<forall>q. srv_parse_quantity srv (srv_quantity_string srv q) = Some q" "distinct (map fst xs)" "set es \<subseteq> set xs"
  shows "compare_resources_loop srv xs es = Some True"
  using assms(3)
proof (induction es)
  case (Cons e es)
  then show ?case using assms(1,2) map_of_is_SomeI [OF assms(2)] by (cases e) fastforce
qed simp

lemma compareResources_same: "quantities_ok srv w s \<Longrightarrow> compareResources srv (spec_Resources (w_spec w)) (spec_Resources (w_spec w)) = Some True"
  by (simp add: quantities_ok_def compareResources_def compareResourceLists_def compare_resources_loop_same)

interpretation resources: spec_enforcer Resources_CheckForSpecDifference Resources_EnforceSpec quantities_ok
  by unfold_locales (auto simp: enforcer_defs Let_def bind_eq_Some_conv container0_simps same_identity_upd0
      intro!: exI [of _ True] compareResources_same)

section \<open>Volumes: what the enforcement leaves\<close>

lemma remove_items_skip: "x \<notin> set ys \<Longrightarrow> remove_items (x # xs) ys = x # remove_items xs ys"
  unfolding remove_items_def by (induction ys arbitrary: xs) auto

lemma remove_items_filter: "remove_items xs (filter P xs) = filter (\<lambda>x. \<not> P x) xs"
proof (induction xs)
  case (Cons x xs)
  show ?case
  proof (cases "P x")
    case True
    with Cons show ?thesis by (simp add: remove_items_def)
  next
    case False
    with Cons show ?thesis by (simp add: remove_items_skip)
  qed
qed (simp add: remove_items_def)

definition new_mounts :: "VolumeMount list \<Rightarrow> VolumeMount list \<Rightarrow> VolumeMount list" where
  "new_mounts ms old = (if old = [] then [] else filter (\<lambda>m. IsReservedVolumeName (vm_Name m)) old @ ms)"

lemma remove_append_mounts:
  "append_mounts (Some c) ms (remove_custom_mounts c) = c\<lparr>ctr_VolumeMounts := new_mounts ms (ctr_VolumeMounts c)\<rparr>"
  by (simp add: append_mounts_def remove_custom_mounts_def custom_mounts_def remove_items_filter new_mounts_def)

lemma Volume_EnforceSpec_effect:
  fixes w :: world
  assumes "container0 s = Some c"
  defines "ms \<equiv> vol_VolumeMounts (spec_Volume (w_spec w))"
  shows "\<exists>s'. Volume_EnforceSpec w s = Some (True, s') \<and>
    container0 s' = Some (c\<lparr>ctr_VolumeMounts := new_mounts ms (ctr_VolumeMounts c)\<rparr>) \<and>
    init0 s' = map_option (\<lambda>i. i\<lparr>ctr_VolumeMounts := new_mounts ms (ctr_VolumeMounts i)\<rparr>) (init0 s) \<and>
    ps_Volumes (sts_PodSpec s') = filter (\<lambda>v. IsReservedVolumeName (v_Name v)) (ps_Volumes (sts_PodSpec s)) @
      vol_Volumes (spec_Volume (w_spec w)) \<and>
    ps_Affinity (sts_PodSpec s') = ps_Affinity (sts_PodSpec s) \<and>
    ps_Tolerations (sts_PodSpec s') = ps_Tolerations (sts_PodSpec s) \<and>
    ps_SecurityContext (sts_PodSpec s') = ps_SecurityContext (sts_PodSpec s) \<and>
    ps_ServiceAccountName (sts_PodSpec s') = ps_ServiceAccountName (sts_PodSpec s) \<and> sts_meta s' = sts_meta s \<and> same_identity s s'"
proof -
  have i: "map_option (append_mounts (init0 s) ms) (map_option remove_custom_mounts (init0 s)) =
      map_option (\<lambda>i. i\<lparr>ctr_VolumeMounts := new_mounts ms (ctr_VolumeMounts i)\<rparr>) (init0 s)"
    by (cases "init0 s") (simp_all add: remove_append_mounts)
  let ?s0 = "removeCustomVolumes s"
  have c0: "container0 ?s0 = Some c" "init0 ?s0 = init0 s"
    using assms(1) by (simp_all add: removeCustomVolumes_def container0_def init0_def)
  define s1 where "s1 = upd_PodSpec (\<lambda>p. p\<lparr>ps_Containers := remove_custom_mounts c # tl (ps_Containers (sts_PodSpec ?s0))\<rparr>) ?s0"
  have r1: "removeCustomVolumeMounts ?s0 = Some s1"
    by (simp add: removeCustomVolumeMounts_def container0_simps [OF c0(1)] s1_def)
  have s1: "container0 s1 = Some (remove_custom_mounts c)" "init0 s1 = get_nth 0 (ps_InitContainers (sts_PodSpec s))"
    "sts_PodSpec s1 = (sts_PodSpec ?s0)\<lparr>ps_Containers := remove_custom_mounts c # tl (ps_Containers (sts_PodSpec ?s0))\<rparr>"
    "sts_meta s1 = sts_meta s" "same_identity s s1"
    by (simp_all add: s1_def removeCustomVolumes_def)
  let ?s2 = "removeCustomVolumeMountsFromInitContainer s1"
  let ?s3 = "upd_PodSpec (\<lambda>p. p\<lparr>ps_Volumes := ps_Volumes p @ vol_Volumes (spec_Volume (w_spec w))\<rparr>) ?s2"
  have c3: "container0 ?s3 = Some (remove_custom_mounts c)" "init0 ?s3 = map_option remove_custom_mounts (init0 s)"
    using s1 by (simp_all add: removeCustomVolumeMountsFromInitContainer_def flip: container0_def init0_def)
  define s4 where "s4 = upd_PodSpec (\<lambda>p. p\<lparr>ps_Containers :=
      append_mounts (Some c) ms (remove_custom_mounts c) # tl (ps_Containers (sts_PodSpec ?s3))\<rparr>) ?s3"
  have "upd_container0 (\<lambda>c'. Some (append_mounts (Some c) ms c')) ?s3 = Some s4"
    by (simp add: container0_simps [OF c3(1)] s4_def)
  then have r: "Volume_EnforceSpec w s = Some (True, upd_init0_if_any (append_mounts (init0 s) ms) s4)"
    by (simp add: Volume_EnforceSpec_def r1 assms(1) Let_def flip: ms_def)
  have "container0 s4 = Some (append_mounts (Some c) ms (remove_custom_mounts c))"
    "init0 s4 = map_option remove_custom_mounts (init0 s)" "sts_meta s4 = sts_meta s" "same_identity s s4"
    "ps_Affinity (sts_PodSpec s4) = ps_Affinity (sts_PodSpec s)" "ps_Tolerations (sts_PodSpec s4) = ps_Tolerations (sts_PodSpec s)"
    "ps_SecurityContext (sts_PodSpec s4) = ps_SecurityContext (sts_PodSpec s)"
    "ps_ServiceAccountName (sts_PodSpec s4) = ps_ServiceAccountName (sts_PodSpec s)"
    "ps_Volumes (sts_PodSpec s4) = filter (\<lambda>v. IsReservedVolumeName (v_Name v)) (ps_Volumes (sts_PodSpec s)) @
      vol_Volumes (spec_Volume (w_spec w))"
    using c3(2) s1 by (simp_all add: s4_def removeCustomVolumeMountsFromInitContainer_def removeCustomVolumes_def
        getCurrentCustomVolumes_def remove_items_filter)
  then show ?thesis by (simp add: r i remove_append_mounts)
qed

lemma compare_items_same [simp]: "compare_items xs xs"
  by (auto simp: compare_items_def list_all_iff list_ex_iff)

text \<open>
  The custom volumes have no reserved name (the spec checker sees to it), and a container
  that gets a mount had one before (every created container mounts the database).
\<close>

definition volumes_ready :: "server \<Rightarrow> world \<Rightarrow> StatefulSet \<Rightarrow> bool" where
  "volumes_ready srv w s \<longleftrightarrow> volumes_ok (w_spec w) \<and>
     (\<forall>c. container0 s = Some c \<or> init0 s = Some c \<longrightarrow>
        ctr_VolumeMounts c \<noteq> [] \<or> vol_VolumeMounts (spec_Volume (w_spec w)) = [])"

lemma custom_of_spec:
  assumes "volumes_ok spec"
  shows "filter (\<lambda>v. \<not> IsReservedVolumeName (v_Name v)) (filter (\<lambda>v. IsReservedVolumeName (v_Name v)) vs @ vol_Volumes (spec_Volume spec))
      = vol_Volumes (spec_Volume spec)"
    and "old \<noteq> [] \<or> vol_VolumeMounts (spec_Volume spec) = [] \<Longrightarrow>
      filter (\<lambda>m. \<not> IsReservedVolumeName (vm_Name m)) (new_mounts (vol_VolumeMounts (spec_Volume spec)) old)
      = vol_VolumeMounts (spec_Volume spec)"
  using assms by (auto simp: volumes_ok_def new_mounts_def filter_id_conv filter_empty_conv)

lemma Volume_check_cleared:
  assumes "volumes_ready srv w s" "container0 s = Some c" "Volume_EnforceSpec w s = Some (b, s')"
  shows "Volume_CheckForSpecDifference srv w s' = Some no_difference"
proof -
  let ?ms = "vol_VolumeMounts (spec_Volume (w_spec w))"
  note e = Volume_EnforceSpec_effect [OF assms(2), of w, unfolded assms(3), simplified]
  have vols: "getCurrentCustomVolumes s' = vol_Volumes (spec_Volume (w_spec w))"
    using e custom_of_spec(1) [of "w_spec w"] assms(1) by (simp add: getCurrentCustomVolumes_def volumes_ready_def)
  have cm: "custom_mounts (x\<lparr>ctr_VolumeMounts := new_mounts ?ms (ctr_VolumeMounts x)\<rparr>) = ?ms"
    if "container0 s = Some x \<or> init0 s = Some x" for x
    using that custom_of_spec(2) [of "w_spec w"] assms(1) by (auto simp: custom_mounts_def volumes_ready_def)
  have "getCurrentCustomVolumeMounts s' = Some ?ms" using e cm assms(2) by (simp add: getCurrentCustomVolumeMounts_def)
  moreover have "getVolumeMountsFromInitContainer s' = (if init0 s = None then ([], False) else (?ms, True))"
    using e cm by (auto simp: getVolumeMountsFromInitContainer_def split: option.splits)
  ultimately show ?thesis
    by (simp add: Volume_CheckForSpecDifference_def vols compareVolumes_def compareVolumeMounts_def Let_def)
qed

lemma Volume_check_named:
  "Volume_CheckForSpecDifference srv w s = Some d \<Longrightarrow> IsThereDifference d \<or> d = no_difference"
  by (auto simp: Volume_CheckForSpecDifference_def Let_def bind_eq_Some_conv IsThereDifference_def differ_def
      split: if_splits prod.splits)

lemma Volume_EnforceSpec_container:
  "Volume_EnforceSpec w s = Some (b, s') \<Longrightarrow> \<exists>c. container0 s = Some c"
  by (cases "ps_Containers (sts_PodSpec s)")
    (auto simp: Volume_EnforceSpec_def removeCustomVolumeMounts_def removeCustomVolumes_def upd_container0_def container0_def)

text \<open>
  The volumes are compared before the container is read, so the comparison can answer for a
  StatefulSet without containers; the enforcement panics there.
\<close>

definition volumes_contract :: "server \<Rightarrow> world \<Rightarrow> StatefulSet \<Rightarrow> bool" where
  "volumes_contract srv w s \<longleftrightarrow> volumes_ready srv w s \<and> container0 s \<noteq> None"

interpretation volume: spec_enforcer Volume_CheckForSpecDifference Volume_EnforceSpec volumes_contract
proof
  fix srv w s d
  assume "volumes_contract srv w s"
  then obtain c where c: "container0 s = Some c" "volumes_ready srv w s" by (auto simp: volumes_contract_def)
  then obtain s' where "Volume_EnforceSpec w s = Some (True, s')" using Volume_EnforceSpec_effect by blast
  with Volume_check_cleared [OF c(2,1)] show
    "\<exists>s'. Volume_EnforceSpec w s = Some (True, s') \<and> Volume_CheckForSpecDifference srv w s' = Some no_difference"
    by blast
next
  fix w s b s'
  assume e: "Volume_EnforceSpec w s = Some (b, s')"
  then obtain c where "container0 s = Some c" using Volume_EnforceSpec_container by blast
  from Volume_EnforceSpec_effect [OF this, of w] show "same_identity s s'" by (auto simp: e)
qed (rule Volume_check_named)

section \<open>Metadata: what the merge leaves\<close>

lemma map_of_foldl_update:
  "distinct (map fst xs) \<Longrightarrow> map_of (foldl (\<lambda>r (key, value). AList.update key value r) r xs) = map_of r ++ map_of xs"
proof (induction xs arbitrary: r)
  case (Cons x xs)
  obtain k v where x: "x = (k, v)" by fastforce
  from Cons have "map_of xs k = None" by (auto simp: x map_of_eq_None_iff)
  with Cons show ?case by (simp add: x fun_eq_iff map_add_def split: option.split)
qed simp

lemma distinct_foldl_update:
  "distinct (map fst r) \<Longrightarrow> distinct (map fst (foldl (\<lambda>r (key, value). AList.update key value r) r xs))"
proof (induction xs arbitrary: r)
  case (Cons x xs)
  then show ?case by (cases x) (simp add: distinct_update)
qed simp

lemma merge_facts:
  assumes "distinct (map fst a)" "distinct (map fst b)"
  shows "map_of (merge a b) = map_of a ++ map_of b" "distinct (map fst (merge a b))"
  using assms by (simp_all add: merge_def map_of_foldl_update distinct_foldl_update)

lemma map_of_extractCustom: "map_of (extractCustom m) k = (if prefix annotationPrefix k then map_of m k else None)"
  unfolding extractCustom_def by (induction m) auto

lemma distinct_extractCustom: "distinct (map fst m) \<Longrightarrow> distinct (map fst (extractCustom m))"
  unfolding extractCustom_def by (simp add: distinct_map_filter)

lemma maps_Equal_iff:
  assumes "distinct (map fst a)" "distinct (map fst b)"
  shows "maps_Equal a b \<longleftrightarrow> map_of a = map_of b"
proof
  assume e: "maps_Equal a b"
  then have "map_of a \<subseteq>\<^sub>m map_of b"
    using assms(1) by (force simp: maps_Equal_def map_le_def list_all_iff dom_map_of_conv_image_fst)
  moreover have "card (dom (map_of b)) = card (dom (map_of a))"
    using e assms by (simp add: maps_Equal_def dom_map_of_conv_image_fst distinct_card [of "map fst _", simplified])
  ultimately show "map_of a = map_of b"
    by (metis card_subset_eq finite_dom_map_of map_le_antisym map_le_def map_le_implies_dom_le)
next
  assume e: "map_of a = map_of b"
  then have s: "set a = set b" using assms by (simp add: map_of_inject_set)
  then have "length a = length b" using assms by (metis distinct_card length_map set_map)
  with s assms show "maps_Equal a b" by (auto simp: maps_Equal_def list_all_iff)
qed

text \<open>
  The maps have no duplicate key, and every custom label and annotation of the StatefulSet is
  one of the resource: nothing has been taken away from the resource.
\<close>

definition covers :: "str_map \<Rightarrow> str_map \<Rightarrow> bool" where
  "covers k m \<longleftrightarrow> distinct (map fst k) \<and> distinct (map fst m) \<and>
     fst ` set (extractCustom m) \<subseteq> fst ` set (extractCustom k)"

definition metadata_ready :: "server \<Rightarrow> world \<Rightarrow> StatefulSet \<Rightarrow> bool" where
  "metadata_ready srv w s \<longleftrightarrow> covers (md_Labels (kg_meta (w_kubegres w))) (md_Labels (sts_meta s)) \<and>
     covers (md_Annotations (kg_meta (w_kubegres w))) (md_Annotations (sts_meta s))"

lemma merge_covers:
  assumes "covers k m"
  shows "maps_Equal (extractCustom (merge m (extractCustom k))) (extractCustom k)"
proof -
  have d: "distinct (map fst k)" "distinct (map fst m)" "distinct (map fst (extractCustom k))"
    using assms by (simp_all add: covers_def distinct_extractCustom)
  have sub: "dom (map_of (extractCustom m)) \<subseteq> dom (map_of (extractCustom k))"
    using assms by (simp add: covers_def dom_map_of_conv_image_fst)
  have "map_of (extractCustom (merge m (extractCustom k))) x = map_of (extractCustom k) x" for x
  proof -
    have "prefix annotationPrefix x \<Longrightarrow> map_of k x = None \<Longrightarrow> map_of m x = None"
      using sub [THEN subsetD, of x] by (cases "map_of m x") (simp_all add: domIff map_of_extractCustom)
    then show ?thesis by (simp add: map_of_extractCustom merge_facts d map_add_def split: option.split)
  qed
  with d show ?thesis by (subst maps_Equal_iff) (auto simp: merge_facts distinct_extractCustom)
qed

interpretation metadata: spec_enforcer CustomMetadata_CheckForSpecDifference CustomMetadata_EnforceSpec metadata_ready
proof
  fix srv w s d
  assume r: "metadata_ready srv w s"
  then show "\<exists>s'. CustomMetadata_EnforceSpec w s = Some (True, s') \<and>
      CustomMetadata_CheckForSpecDifference srv w s' = Some no_difference"
    by (simp add: CustomMetadata_EnforceSpec_def CustomMetadata_CheckForSpecDifference_def Let_def
        metadata_equals_def getCustomMetadata_def metadata_ready_def merge_covers)
qed (auto simp: CustomMetadata_EnforceSpec_def CustomMetadata_CheckForSpecDifference_def Let_def same_identity_def)

text \<open>
  A custom label with its value that the StatefulSet has and the resource has not: the merge
  keeps it, so the comparison reports a difference after every enforcement. (The labels are a
  Go map: no key occurs twice.)
\<close>

definition stale_label :: "world \<Rightarrow> StatefulSet \<Rightarrow> string \<Rightarrow> string \<Rightarrow> bool" where
  "stale_label w s k v \<longleftrightarrow> prefix annotationPrefix k \<and> distinct (map fst (md_Labels (sts_meta s))) \<and>
     map_of (md_Labels (sts_meta s)) k = Some v \<and> k \<notin> fst ` set (md_Labels (kg_meta (w_kubegres w)))"

lemma foldl_update_keys:
  "fst ` set (foldl (\<lambda>r (key, value). AList.update key value r) r xs) = fst ` set r \<union> fst ` set xs"
proof (induction xs arbitrary: r)
  case (Cons x xs)
  then show ?case by (cases x) (simp add: dom_update)
qed simp

lemma merge_keys: "fst ` set (merge a b) = fst ` set a \<union> fst ` set b"
  by (simp add: merge_def foldl_update_keys)

lemma foldl_update_other:
  "k \<notin> fst ` set xs \<Longrightarrow> map_of (foldl (\<lambda>r (key, value). AList.update key value r) r xs) k = map_of r k"
proof (induction xs arbitrary: r)
  case (Cons x xs)
  then show ?case by (cases x) (simp add: update_conv)
qed simp

lemma stale_label_kept:
  assumes "stale_label w s k v" "CustomMetadata_EnforceSpec w s = Some (b, s')"
  shows "stale_label w s' k v"
proof -
  let ?a = "md_Labels (sts_meta s)" and ?b = "cmd_Labels (getCustomMetadata (kg_meta (w_kubegres w)))"
  have s': "md_Labels (sts_meta s') = merge ?a ?b" using assms(2) by (auto simp: CustomMetadata_EnforceSpec_def Let_def)
  have d: "distinct (map fst ?a)" using assms(1) by (simp add: stale_label_def)
  have "k \<notin> fst ` set ?b" using assms(1) by (auto simp: stale_label_def getCustomMetadata_def extractCustom_def)
  then have "map_of (merge ?a ?b) k = map_of ?a k"
    using d by (simp add: merge_def foldl_update_other map_of_foldl_update)
  with assms(1) d show ?thesis by (simp add: stale_label_def s' merge_def distinct_foldl_update)
qed

lemma stale_label_differs:
  assumes "stale_label w s k v"
  shows "\<exists>d. CustomMetadata_CheckForSpecDifference srv w s = Some d \<and> IsThereDifference d"
proof -
  let ?a = "extractCustom (md_Labels (sts_meta s))" and ?b = "extractCustom (md_Labels (kg_meta (w_kubegres w)))"
  have "map_of ?a k = Some v" using assms by (simp add: stale_label_def map_of_extractCustom)
  then have v: "(k, v) \<in> set ?a" by (rule map_of_SomeD)
  have "map_of ?b k = None" using assms by (simp add: stale_label_def map_of_extractCustom map_of_eq_None_iff)
  with v have "\<not> maps_Equal ?a ?b" by (fastforce simp: maps_Equal_def list_all_iff)
  then show ?thesis
    by (simp add: CustomMetadata_CheckForSpecDifference_def metadata_equals_def getCustomMetadata_def)
qed

lemma stale_label_meta: "sts_meta s' = sts_meta s \<Longrightarrow> stale_label w s' k v = stale_label w s k v"
  by (simp add: stale_label_def)

end
