(* ===== verification/Spec_Registry.thy ===== *)
theory Spec_Registry
  imports Spec_Enforcers
begin

text \<open>
  \<open>StatefulSetsSpecEnforcer.go\<close> and \<open>StatefulSetSpecDifferences.go\<close>: the registry
  that asks every enforcer for differences and lets those that report one write their part
  of the StatefulSet, and the registry that \<open>ResourcesContext.go\<close> builds.
\<close>

section \<open>Differences as text\<close>

definition AreThereDifferences :: "StatefulSetSpecDifference list \<Rightarrow> bool" where
  "AreThereDifferences differences \<longleftrightarrow> 0 < length differences"

fun differences_loop :: "string \<Rightarrow> string \<Rightarrow> StatefulSetSpecDifference list \<Rightarrow> string" where
  "differences_loop acc separator [] = acc"
| "differences_loop acc separator (d # ds) =
     differences_loop (acc @ separator @ SpecName d @ '': '' @ Expected d) '', '' ds"

definition GetSpecDifferencesAsString :: "StatefulSetSpecDifference list \<Rightarrow> string" where
  "GetSpecDifferencesAsString differences =
     (if \<not> AreThereDifferences differences then '''' else differences_loop '''' '''' differences)"

section \<open>The registry\<close>

record StatefulSetSpecEnforcer =
  GetSpecName :: string
  CheckForSpecDifference :: "server \<Rightarrow> world \<Rightarrow> StatefulSet \<Rightarrow> StatefulSetSpecDifference option"
  EnforceSpec :: "server \<Rightarrow> StatefulSet \<Rightarrow> world \<Rightarrow> (bool \<times> StatefulSet) res \<times> world"
  OnSpecEnforcedSuccessfully :: "server \<Rightarrow> StatefulSet \<Rightarrow> world \<Rightarrow> outcome \<times> world"

text \<open>An enforcer that only writes the StatefulSet and has nothing to do afterwards.\<close>

definition no_api :: "(world \<Rightarrow> StatefulSet \<Rightarrow> (bool \<times> StatefulSet) option) \<Rightarrow>
    server \<Rightarrow> StatefulSet \<Rightarrow> world \<Rightarrow> (bool \<times> StatefulSet) res \<times> world" where
  "no_api f srv s w = (case f w s of None \<Rightarrow> (Crash, w) | Some r \<Rightarrow> (Val r, w))"

definition nothing :: "server \<Rightarrow> StatefulSet \<Rightarrow> world \<Rightarrow> outcome \<times> world" where
  "nothing srv s w = (Ok, w)"

definition simple_enforcer where
  "simple_enforcer name check f =
     \<lparr>GetSpecName = name, CheckForSpecDifference = check, EnforceSpec = no_api f, OnSpecEnforcedSuccessfully = nothing\<rparr>"

definition addStatefulSetSpecEnforcers :: "StatefulSetSpecEnforcer list" where
  "addStatefulSetSpecEnforcers =
     [simple_enforcer ''Image'' Image_CheckForSpecDifference Image_EnforceSpec,
      (simple_enforcer ''Port'' Port_CheckForSpecDifference Port_EnforceSpec)
        \<lparr>OnSpecEnforcedSuccessfully := Port_OnSpecEnforcedSuccessfully\<rparr>,
      \<lparr>GetSpecName = ''StorageClassSize'', CheckForSpecDifference = StorageClassSize_CheckForSpecDifference,
       EnforceSpec = StorageClassSize_EnforceSpec, OnSpecEnforcedSuccessfully = nothing\<rparr>,
      simple_enforcer ''CustomConfig'' CustomConfig_CheckForSpecDifference CustomConfig_EnforceSpec,
      simple_enforcer ''Affinity'' Affinity_CheckForSpecDifference Affinity_EnforceSpec,
      simple_enforcer ''Tolerations'' Tolerations_CheckForSpecDifference Tolerations_EnforceSpec,
      simple_enforcer ''Resources'' Resources_CheckForSpecDifference Resources_EnforceSpec,
      simple_enforcer ''Volume'' Volume_CheckForSpecDifference Volume_EnforceSpec,
      simple_enforcer ''SecurityContext'' SecurityContext_CheckForSpecDifference SecurityContext_EnforceSpec,
      simple_enforcer ''LivenessProbe'' LivenessProbe_CheckForSpecDifference LivenessProbe_EnforceSpec,
      simple_enforcer ''ReadinessProbe'' ReadinessProbe_CheckForSpecDifference ReadinessProbe_EnforceSpec,
      simple_enforcer ''ServiceAccountName'' ServiceAccountName_CheckForSpecDifference ServiceAccountName_EnforceSpec,
      simple_enforcer ''CustomMetadata'' CustomMetadata_CheckForSpecDifference CustomMetadata_EnforceSpec,
      simple_enforcer ''StandbyPrimaryEndpoint'' StandbyPrimaryEndpoint_CheckForSpecDifference
        StandbyPrimaryEndpoint_EnforceSpec]"

fun collect_differences ::
  "StatefulSetSpecEnforcer list \<Rightarrow> server \<Rightarrow> world \<Rightarrow> StatefulSet \<Rightarrow> StatefulSetSpecDifference list option" where
  "collect_differences [] srv w s = Some []"
| "collect_differences (e # es) srv w s =
     do {
       d \<leftarrow> CheckForSpecDifference e srv w s;
       ds \<leftarrow> collect_differences es srv w s;
       Some (if IsThereDifference d then d # ds else ds)
     }"

text \<open>One event per difference.\<close>

definition logSpecDifferences :: "StatefulSetSpecDifference list \<Rightarrow> world \<Rightarrow> world" where
  "logSpecDifferences specDifferences = record_events (map (\<lambda>_. Event EventTypeNormal ''StatefulSetOperation'') specDifferences)"

definition logUpdatedSpecDifferences :: "StatefulSetSpecDifference list \<Rightarrow> world \<Rightarrow> world" where
  "logUpdatedSpecDifferences specDifferences = record_events (map (\<lambda>_. Event EventTypeNormal ''StatefulSetOperation'') specDifferences)"

definition CheckForSpecDifferences ::
  "StatefulSetSpecEnforcer list \<Rightarrow> server \<Rightarrow> StatefulSet \<Rightarrow> world \<Rightarrow> StatefulSetSpecDifference list res \<times> world" where
  "CheckForSpecDifferences registry srv s w =
     (case collect_differences registry srv w s of
        None \<Rightarrow> (Crash, w)
      | Some specDifferences \<Rightarrow> (Val specDifferences, logSpecDifferences specDifferences w))"

fun enforce_loop :: "StatefulSetSpecEnforcer list \<Rightarrow> server \<Rightarrow> StatefulSetSpecDifference list \<times> StatefulSet \<Rightarrow> world
    \<Rightarrow> (StatefulSetSpecDifference list \<times> StatefulSet) res \<times> world" where
  "enforce_loop [] srv (updated, s) w = (Val (updated, s), w)"
| "enforce_loop (e # es) srv (updated, s) w =
     (case CheckForSpecDifference e srv w s of
        None \<Rightarrow> (Crash, w)
      | Some specDifference \<Rightarrow>
          if \<not> IsThereDifference specDifference then enforce_loop es srv (updated, s) w
          else res_bind (EnforceSpec e srv s) (\<lambda>(wasSpecUpdated, s').
                 enforce_loop es srv (if wasSpecUpdated then updated @ [specDifference] else updated, s')) w)"

definition StatefulSets_EnforceSpec :: "StatefulSetSpecEnforcer list \<Rightarrow> server \<Rightarrow> StatefulSet \<Rightarrow> world \<Rightarrow> outcome \<times> world" where
  "StatefulSets_EnforceSpec registry srv s w =
     (case enforce_loop registry srv ([], s) w of
        (Fail err, w1) \<Rightarrow> (Err err, w1)
      | (Crash, w1) \<Rightarrow> (Panic, w1)
      | (Val (updatedSpecDifferences, s'), w1) \<Rightarrow>
          if 0 < length updatedSpecDifferences then
            (case client_write srv (UpdateStatefulSet s') w1 of
               (Some err, w2) \<Rightarrow> (Err err, w2)
             | (None, w2) \<Rightarrow> (Ok, logUpdatedSpecDifferences updatedSpecDifferences w2))
          else (Ok, w1))"

definition OnSpecUpdatedSuccessfully :: "StatefulSetSpecEnforcer list \<Rightarrow> server \<Rightarrow> StatefulSet \<Rightarrow> world \<Rightarrow> outcome \<times> world" where
  "OnSpecUpdatedSuccessfully registry srv s = run_all (map (\<lambda>e. OnSpecEnforcedSuccessfully e srv s) registry)"

section \<open>When an enforcer reports no difference\<close>

lemma container0_iff: "container0 s \<noteq> None \<longleftrightarrow> ps_Containers (sts_PodSpec s) \<noteq> []"
  by (cases "ps_Containers (sts_PodSpec s)") (simp_all add: container0_def)

named_theorems settled_iff \<open>no difference, in terms of the parts of the StatefulSet\<close>

lemma simple_settled [settled_iff]:
  "Image_CheckForSpecDifference srv w s = Some no_difference \<longleftrightarrow>
     (\<exists>c. container0 s = Some c \<and> ctr_Image c = spec_Image (w_spec w))"
  "Port_CheckForSpecDifference srv w s = Some no_difference \<longleftrightarrow>
     (\<exists>c. container0 s = Some c \<and> get_nth 0 (ctr_Ports c) = Some (spec_Port (w_spec w)))"
  "StorageClassSize_CheckForSpecDifference srv w s = Some no_difference"
  "Affinity_CheckForSpecDifference srv w s = Some no_difference \<longleftrightarrow>
     ps_Affinity (sts_PodSpec s) = sched_Affinity (spec_Scheduler (w_spec w))"
  "Tolerations_CheckForSpecDifference srv w s = Some no_difference \<longleftrightarrow>
     ps_Tolerations (sts_PodSpec s) = sched_Tolerations (spec_Scheduler (w_spec w))"
  "Resources_CheckForSpecDifference srv w s = Some no_difference \<longleftrightarrow>
     (\<exists>c. container0 s = Some c \<and> compareResources srv (ctr_Resources c) (spec_Resources (w_spec w)) = Some True)"
  "SecurityContext_CheckForSpecDifference srv w s = Some no_difference \<longleftrightarrow>
     spec_SecurityContext (w_spec w) = None \<and> ps_SecurityContext (sts_PodSpec s) = Some (KObj []) \<or>
     ps_SecurityContext (sts_PodSpec s) = spec_SecurityContext (w_spec w)"
  "ServiceAccountName_CheckForSpecDifference srv w s = Some no_difference \<longleftrightarrow>
     ps_ServiceAccountName (sts_PodSpec s) = spec_ServiceAccountName (w_spec w)"
  "CustomMetadata_CheckForSpecDifference srv w s = Some no_difference \<longleftrightarrow>
     metadata_equals (getCustomMetadata (sts_meta s)) (getCustomMetadata (kg_meta (w_kubegres w)))"
  by (auto simp: enforcer_defs CustomMetadata_CheckForSpecDifference_def StorageClassSize_CheckForSpecDifference_def
      Let_def bind_eq_Some_conv)

lemma probe_settled [settled_iff]:
  "LivenessProbe_CheckForSpecDifference srv w s = Some no_difference \<longleftrightarrow>
     (\<exists>c. container0 s = Some c \<and>
        probe_LivenessProbe (spec_Probe (w_spec w)) \<in> {None, ctr_LivenessProbe c})"
  "ReadinessProbe_CheckForSpecDifference srv w s = Some no_difference \<longleftrightarrow>
     (\<exists>c. container0 s = Some c \<and>
        probe_ReadinessProbe (spec_Probe (w_spec w)) \<in> {None, ctr_ReadinessProbe c})"
  by (auto simp: enforcer_defs Let_def bind_eq_Some_conv)

lemma endpoint_settled [settled_iff]:
  "StandbyPrimaryEndpoint_CheckForSpecDifference srv w s = Some no_difference \<longleftrightarrow>
     (\<forall>i. init0 s = Some i \<longrightarrow>
        (\<exists>e. get_nth 0 (ctr_Env i) = Some e \<and> env_Value e = getExpectedPrimaryServiceName w))"
  by (auto simp: enforcer_defs Let_def bind_eq_Some_conv split: option.splits)

lemma config_settled_iff [settled_iff]:
  "CustomConfig_CheckForSpecDifference srv w s = Some no_difference \<longleftrightarrow> config_settled w s"
  unfolding ConfigureStatefulSet_settled_iff [symmetric] CustomConfig_CheckForSpecDifference_def
  by (auto simp: bind_eq_Some_conv)

lemma volume_settled [settled_iff]:
  "Volume_CheckForSpecDifference srv w s = Some no_difference \<longleftrightarrow>
     compare_items (getCurrentCustomVolumes s) (vol_Volumes (spec_Volume (w_spec w))) \<and>
     (\<exists>c. container0 s = Some c \<and> compare_items (custom_mounts c) (vol_VolumeMounts (spec_Volume (w_spec w)))) \<and>
     (\<forall>i. init0 s = Some i \<longrightarrow> compare_items (custom_mounts i) (vol_VolumeMounts (spec_Volume (w_spec w))))"
  by (auto simp: Volume_CheckForSpecDifference_def getCurrentCustomVolumeMounts_def getVolumeMountsFromInitContainer_def
      compareVolumes_def compareVolumeMounts_def Let_def bind_eq_Some_conv no_difference_def differ_def split: option.splits)
section \<open>StatefulSets that the registry can bring up to date\<close>

definition settled :: "StatefulSetSpecEnforcer \<Rightarrow> server \<Rightarrow> world \<Rightarrow> StatefulSet \<Rightarrow> bool" where
  "settled e srv w s \<longleftrightarrow> CheckForSpecDifference e srv w s = Some no_difference"

text \<open>
  The first container has a port and the first init container an environment (no panic); the
  hypotheses of the single enforcers; the custom configuration volume is a configuration map;
  and no custom mount uses the sub-path of a configuration file, which the configuration
  would rename.
\<close>

definition enforceable :: "server \<Rightarrow> world \<Rightarrow> StatefulSet \<Rightarrow> bool" where
  "enforceable srv w s \<longleftrightarrow> (\<exists>c. container0 s = Some c \<and> ctr_Ports c \<noteq> []) \<and> (\<forall>i. init0 s = Some i \<longrightarrow> ctr_Env i \<noteq> []) \<and>
     volumes_ready srv w s \<and> quantities_ok srv w s \<and> metadata_ready srv w s \<and>
     (\<forall>v \<in> set (ps_Volumes (sts_PodSpec s)). v_Name v = CustomConfigMapVolumeName \<longrightarrow> v_ConfigMap v \<noteq> None) \<and>
     (\<forall>m \<in> set (vol_VolumeMounts (spec_Volume (w_spec w))). vm_SubPath m \<notin> snd ` set (config_mounts base_locations))"

text \<open>Two StatefulSets with the same mounts and volumes.\<close>

definition same_mounts :: "StatefulSet \<Rightarrow> StatefulSet \<Rightarrow> bool" where
  "same_mounts s s' \<longleftrightarrow>
     map_option ctr_VolumeMounts (container0 s') = map_option ctr_VolumeMounts (container0 s) \<and>
     map_option ctr_VolumeMounts (init0 s') = map_option ctr_VolumeMounts (init0 s) \<and>
     ps_Volumes (sts_PodSpec s') = ps_Volumes (sts_PodSpec s)"

lemma mounts_ok_view:
  "mounts_ok loc key s \<longleftrightarrow> (\<forall>ms. map_option ctr_VolumeMounts (container0 s) = Some ms \<or> map_option ctr_VolumeMounts (init0 s) = Some ms
     \<longrightarrow> (\<forall>vm \<in> set ms. vm_SubPath vm = key \<longrightarrow> vm_Name vm = loc))"
  by (cases "ps_Containers (sts_PodSpec s)"; cases "ps_InitContainers (sts_PodSpec s)")
    (auto simp: mounts_ok_def container0_def init0_def)

lemma config_settled_cong:
  assumes "same_mounts s s'"
  shows "config_settled w s' \<longleftrightarrow> config_settled w s"
proof -
  note m = assms [unfolded same_mounts_def]
  have "container0 s' \<noteq> None \<longleftrightarrow> container0 s \<noteq> None"
    using m [THEN conjunct1] by (cases "container0 s"; cases "container0 s'") simp_all
  then show ?thesis
    unfolding config_settled_def mounts_ok_view volume_ok_def container0_iff [symmetric] by (simp only: m)
qed

lemma custom_mounts_cong: "ctr_VolumeMounts c = ctr_VolumeMounts c' \<Longrightarrow> custom_mounts c = custom_mounts c'"
  by (simp add: custom_mounts_def)

lemma volume_settled_cong:
  assumes "same_mounts s s'"
  shows "Volume_CheckForSpecDifference srv w s' = Some no_difference \<longleftrightarrow> Volume_CheckForSpecDifference srv w s = Some no_difference"
proof -
  have c: "map_option custom_mounts (container0 s') = map_option custom_mounts (container0 s)"
    "map_option custom_mounts (init0 s') = map_option custom_mounts (init0 s)"
    using assms unfolding same_mounts_def
    by (cases "container0 s"; cases "container0 s'"; cases "init0 s"; cases "init0 s'"; auto simp: custom_mounts_def)+
  have v: "Volume_CheckForSpecDifference srv w t = Some no_difference \<longleftrightarrow>
     compare_items (getCurrentCustomVolumes t) (vol_Volumes (spec_Volume (w_spec w))) \<and>
     (\<exists>ms. map_option custom_mounts (container0 t) = Some ms \<and> compare_items ms (vol_VolumeMounts (spec_Volume (w_spec w)))) \<and>
     (\<forall>ms. map_option custom_mounts (init0 t) = Some ms \<longrightarrow> compare_items ms (vol_VolumeMounts (spec_Volume (w_spec w))))" for t
    unfolding volume_settled by auto
  show ?thesis using assms unfolding v c by (simp add: getCurrentCustomVolumes_def same_mounts_def)
qed

lemma volumes_ready_view:
  "volumes_ready srv w t \<longleftrightarrow> volumes_ok (w_spec w) \<and>
     (\<forall>ms. map_option ctr_VolumeMounts (container0 t) = Some ms \<or> map_option ctr_VolumeMounts (init0 t) = Some ms \<longrightarrow>
        ms \<noteq> [] \<or> vol_VolumeMounts (spec_Volume (w_spec w)) = [])"
  unfolding volumes_ready_def by auto

lemma volumes_ready_cong: "same_mounts s s' \<Longrightarrow> volumes_ready srv w s' \<longleftrightarrow> volumes_ready srv w s"
  by (simp add: volumes_ready_view same_mounts_def)

text \<open>What an enforcement that writes neither mounts nor volumes must leave of a StatefulSet.\<close>

definition keeps_rest :: "StatefulSet \<Rightarrow> StatefulSet \<Rightarrow> bool" where
  "keeps_rest s s' \<longleftrightarrow> same_mounts s s' \<and> sts_meta s' = sts_meta s \<and>
     (\<exists>c c'. container0 s = Some c \<and> container0 s' = Some c' \<and> (ctr_Ports c \<noteq> [] \<longrightarrow> ctr_Ports c' \<noteq> [])) \<and>
     (\<forall>i'. init0 s' = Some i' \<longrightarrow> (\<exists>i. init0 s = Some i \<and> (ctr_Env i \<noteq> [] \<longrightarrow> ctr_Env i' \<noteq> [])))"

lemma enforceable_kept: "keeps_rest s s' \<Longrightarrow> enforceable srv w s \<Longrightarrow> enforceable srv w s'"
  unfolding enforceable_def keeps_rest_def
  by (auto simp: volumes_ready_cong quantities_ok_def metadata_ready_def) (simp add: same_mounts_def)

lemma enforceable_metadata:
  "enforceable srv w s \<Longrightarrow> sts_PodSpec s' = sts_PodSpec s \<Longrightarrow> metadata_ready srv w s' \<Longrightarrow> enforceable srv w s'"
  unfolding enforceable_def by (simp add: container0_def init0_def volumes_ready_def quantities_ok_def)

section \<open>Every enforcement keeps what the earlier ones achieved\<close>

definition kept :: "StatefulSetSpecEnforcer list \<Rightarrow> server \<Rightarrow> world \<Rightarrow> StatefulSet \<Rightarrow> StatefulSet \<Rightarrow> bool" where
  "kept es srv w s s' \<longleftrightarrow> enforceable srv w s' \<and> (\<forall>e \<in> set es. settled e srv w s \<longrightarrow> settled e srv w s')"

lemmas registry_defs = addStatefulSetSpecEnforcers_def simple_enforcer_def settled_def

lemma keptI:
  assumes "enforceable srv w s" "keeps_rest s s'"
    and "\<And>c. container0 s = Some c \<Longrightarrow> \<exists>c'. container0 s' = Some c' \<and> ctr_Image c' \<in> {ctr_Image c, spec_Image (w_spec w)} \<and>
          get_nth 0 (ctr_Ports c') \<in> {get_nth 0 (ctr_Ports c), Some (spec_Port (w_spec w))} \<and>
          ctr_Resources c' \<in> {ctr_Resources c, spec_Resources (w_spec w)} \<and>
          ctr_LivenessProbe c' \<in> {ctr_LivenessProbe c, probe_LivenessProbe (spec_Probe (w_spec w))} \<and>
          ctr_ReadinessProbe c' \<in> {ctr_ReadinessProbe c, probe_ReadinessProbe (spec_Probe (w_spec w))}"
    and "ps_Affinity (sts_PodSpec s') \<in> {ps_Affinity (sts_PodSpec s), sched_Affinity (spec_Scheduler (w_spec w))}"
    and "ps_Tolerations (sts_PodSpec s') \<in> {ps_Tolerations (sts_PodSpec s), sched_Tolerations (spec_Scheduler (w_spec w))}"
    and "ps_SecurityContext (sts_PodSpec s') \<in> {ps_SecurityContext (sts_PodSpec s), spec_SecurityContext (w_spec w)}"
    and "ps_ServiceAccountName (sts_PodSpec s') \<in> {ps_ServiceAccountName (sts_PodSpec s), spec_ServiceAccountName (w_spec w)}"
    and "StandbyPrimaryEndpoint_CheckForSpecDifference srv w s = Some no_difference \<Longrightarrow>
         StandbyPrimaryEndpoint_CheckForSpecDifference srv w s' = Some no_difference"
  shows "kept addStatefulSetSpecEnforcers srv w s s'"
proof -
  obtain c0 where c0: "container0 s = Some c0" using assms(1) by (auto simp: enforceable_def)
  have q: "compareResources srv (spec_Resources (w_spec w)) (spec_Resources (w_spec w)) = Some True"
    using assms(1) by (auto simp: enforceable_def intro: compareResources_same)
  have m: "same_mounts s s'" "sts_meta s' = sts_meta s" using assms(2) by (simp_all add: keeps_rest_def)
  obtain c' where c': "container0 s' = Some c'" "ctr_Image c' \<in> {ctr_Image c0, spec_Image (w_spec w)}"
    "get_nth 0 (ctr_Ports c') \<in> {get_nth 0 (ctr_Ports c0), Some (spec_Port (w_spec w))}"
    "ctr_Resources c' \<in> {ctr_Resources c0, spec_Resources (w_spec w)}"
    "ctr_LivenessProbe c' \<in> {ctr_LivenessProbe c0, probe_LivenessProbe (spec_Probe (w_spec w))}"
    "ctr_ReadinessProbe c' \<in> {ctr_ReadinessProbe c0, probe_ReadinessProbe (spec_Probe (w_spec w))}"
    using assms(3) [OF c0] by blast
  have "Image_CheckForSpecDifference srv w s = Some no_difference \<Longrightarrow> Image_CheckForSpecDifference srv w s' = Some no_difference"
    "Port_CheckForSpecDifference srv w s = Some no_difference \<Longrightarrow> Port_CheckForSpecDifference srv w s' = Some no_difference"
    "Resources_CheckForSpecDifference srv w s = Some no_difference \<Longrightarrow> Resources_CheckForSpecDifference srv w s' = Some no_difference"
    "LivenessProbe_CheckForSpecDifference srv w s = Some no_difference \<Longrightarrow> LivenessProbe_CheckForSpecDifference srv w s' = Some no_difference"
    "ReadinessProbe_CheckForSpecDifference srv w s = Some no_difference \<Longrightarrow> ReadinessProbe_CheckForSpecDifference srv w s' = Some no_difference"
    using c' q by (auto simp: simple_settled probe_settled c0)
  moreover have "Affinity_CheckForSpecDifference srv w s = Some no_difference \<Longrightarrow> Affinity_CheckForSpecDifference srv w s' = Some no_difference"
    "Tolerations_CheckForSpecDifference srv w s = Some no_difference \<Longrightarrow> Tolerations_CheckForSpecDifference srv w s' = Some no_difference"
    "SecurityContext_CheckForSpecDifference srv w s = Some no_difference \<Longrightarrow> SecurityContext_CheckForSpecDifference srv w s' = Some no_difference"
    "ServiceAccountName_CheckForSpecDifference srv w s = Some no_difference \<Longrightarrow> ServiceAccountName_CheckForSpecDifference srv w s' = Some no_difference"
    "CustomMetadata_CheckForSpecDifference srv w s = Some no_difference \<Longrightarrow> CustomMetadata_CheckForSpecDifference srv w s' = Some no_difference"
    using assms(4-7) by (auto simp: simple_settled m(2))
  ultimately show ?thesis
    using enforceable_kept [OF assms(2,1)] assms(8)
    by (simp add: kept_def registry_defs simple_settled(3) volume_settled_cong [OF m(1)] config_settled_iff config_settled_cong [OF m(1)])
qed

text \<open>An update of the first container that keeps its mounts.\<close>

lemma kept_container0:
  assumes "enforceable srv w s" "upd_container0 f s = Some s'"
    and f: "\<And>c c'. f c = Some c' \<Longrightarrow> ctr_VolumeMounts c' = ctr_VolumeMounts c \<and> (ctr_Ports c \<noteq> [] \<longrightarrow> ctr_Ports c' \<noteq> []) \<and>
          ctr_Image c' \<in> {ctr_Image c, spec_Image (w_spec w)} \<and>
          get_nth 0 (ctr_Ports c') \<in> {get_nth 0 (ctr_Ports c), Some (spec_Port (w_spec w))} \<and>
          ctr_Resources c' \<in> {ctr_Resources c, spec_Resources (w_spec w)} \<and>
          ctr_LivenessProbe c' \<in> {ctr_LivenessProbe c, probe_LivenessProbe (spec_Probe (w_spec w))} \<and>
          ctr_ReadinessProbe c' \<in> {ctr_ReadinessProbe c, probe_ReadinessProbe (spec_Probe (w_spec w))}"
  shows "kept addStatefulSetSpecEnforcers srv w s s'"
proof -
  obtain c c' where c: "container0 s = Some c" "f c = Some c'" "container0 s' = Some c'" "init0 s' = init0 s"
    "sts_PodSpec s' = (sts_PodSpec s)\<lparr>ps_Containers := c' # tl (ps_Containers (sts_PodSpec s))\<rparr>" "sts_meta s' = sts_meta s"
    using assms(2) by (rule upd_container0_Some)
  show ?thesis
    by (rule keptI [OF assms(1)])
      (use c f [OF c(2)] in \<open>simp_all add: keeps_rest_def same_mounts_def endpoint_settled\<close>)
qed

lemma kept_pod:
  assumes "enforceable srv w s"
    and "\<And>p. ps_Containers (f p) = ps_Containers p" "\<And>p. ps_InitContainers (f p) = ps_InitContainers p"
    and "\<And>p. ps_Volumes (f p) = ps_Volumes p"
    and "\<And>p. ps_Affinity (f p) \<in> {ps_Affinity p, sched_Affinity (spec_Scheduler (w_spec w))}"
    and "\<And>p. ps_Tolerations (f p) \<in> {ps_Tolerations p, sched_Tolerations (spec_Scheduler (w_spec w))}"
    and "\<And>p. ps_SecurityContext (f p) \<in> {ps_SecurityContext p, spec_SecurityContext (w_spec w)}"
    and "\<And>p. ps_ServiceAccountName (f p) \<in> {ps_ServiceAccountName p, spec_ServiceAccountName (w_spec w)}"
  shows "kept addStatefulSetSpecEnforcers srv w s (upd_PodSpec f s)"
proof -
  have v: "container0 (upd_PodSpec f s) = container0 s" "init0 (upd_PodSpec f s) = init0 s"
    by (simp_all add: container0_def init0_def assms)
  obtain c where "container0 s = Some c" using assms(1) by (auto simp: enforceable_def)
  then show ?thesis
    by (intro keptI [OF assms(1)])
      (use assms(5-8) in \<open>simp_all add: keeps_rest_def same_mounts_def endpoint_settled v assms(4) del: container0_upd\<close>)
qed

lemma kept_pod_fields:
  assumes "enforceable srv w s"
  shows "Affinity_EnforceSpec w s = Some (b, s') \<Longrightarrow> kept addStatefulSetSpecEnforcers srv w s s'"
    and "Tolerations_EnforceSpec w s = Some (b, s') \<Longrightarrow> kept addStatefulSetSpecEnforcers srv w s s'"
    and "SecurityContext_EnforceSpec w s = Some (b, s') \<Longrightarrow> kept addStatefulSetSpecEnforcers srv w s s'"
    and "ServiceAccountName_EnforceSpec w s = Some (b, s') \<Longrightarrow> kept addStatefulSetSpecEnforcers srv w s s'"
  using assms by (auto simp: enforcer_defs intro!: kept_pod)

lemma kept_container_fields:
  assumes "enforceable srv w s"
  shows "Resources_EnforceSpec w s = Some (b, s') \<Longrightarrow> kept addStatefulSetSpecEnforcers srv w s s'"
    and "LivenessProbe_EnforceSpec w s = Some (b, s') \<Longrightarrow> kept addStatefulSetSpecEnforcers srv w s s'"
    and "ReadinessProbe_EnforceSpec w s = Some (b, s') \<Longrightarrow> kept addStatefulSetSpecEnforcers srv w s s'"
  using assms by (auto simp: enforcer_defs elim!: kept_container0 [OF assms])

lemma kept_Port:
  assumes "enforceable srv w s" "Port_EnforceSpec w s = Some (b, s')"
  shows "kept addStatefulSetSpecEnforcers srv w s s'"
proof -
  have "upd_container0 (\<lambda>c. map_option (\<lambda>ports. c\<lparr>ctr_Ports := ports\<rparr>)
          (upd_nth 0 (\<lambda>_. Some (spec_Port (w_spec w))) (ctr_Ports c))) s = Some s'"
    using assms(2) by (auto simp: Port_EnforceSpec_def)
  then show ?thesis
    by (rule kept_container0 [OF assms(1)]) (auto simp: upd_nth_def get_nth_def split: if_splits)
qed

lemma kept_Image:
  assumes e: "enforceable srv w s" and i: "Image_EnforceSpec w s = Some (b, s')"
  shows "kept addStatefulSetSpecEnforcers srv w s s'"
proof -
  let ?set = "\<lambda>c. c\<lparr>ctr_Image := spec_Image (w_spec w)\<rparr>"
  obtain s1 where s1: "upd_container0 (\<lambda>c. Some (?set c)) s = Some s1" "s' = upd_init0_if_any ?set s1"
    using i by (auto simp: Image_EnforceSpec_def bind_eq_Some_conv)
  obtain c where c: "container0 s = Some c" "container0 s1 = Some (?set c)" "init0 s1 = init0 s"
    "sts_PodSpec s1 = (sts_PodSpec s)\<lparr>ps_Containers := ?set c # tl (ps_Containers (sts_PodSpec s))\<rparr>" "sts_meta s1 = sts_meta s"
    using s1(1) by (elim upd_container0_Some) auto
  show ?thesis
    by (rule keptI [OF e])
      (use c in \<open>auto simp: s1(2) keeps_rest_def same_mounts_def endpoint_settled option.map_comp comp_def\<close>)
qed

lemma kept_Endpoint:
  assumes e: "enforceable srv w s" and i: "StandbyPrimaryEndpoint_EnforceSpec w s = Some (b, s')"
  shows "kept addStatefulSetSpecEnforcers srv w s s'"
proof -
  obtain c c' where c: "init0 s = Some c" "init0 s' = Some c'" "container0 s' = container0 s" "sts_meta s' = sts_meta s"
    "sts_PodSpec s' = (sts_PodSpec s)\<lparr>ps_InitContainers := c' # tl (ps_InitContainers (sts_PodSpec s))\<rparr>"
    and c': "map_option (\<lambda>es. c\<lparr>ctr_Env := es\<rparr>)
          (upd_nth 0 (\<lambda>e. Some (e\<lparr>env_Value := getExpectedPrimaryServiceName w\<rparr>)) (ctr_Env c)) = Some c'"
    using i by (auto simp: StandbyPrimaryEndpoint_EnforceSpec_def elim!: upd_init0_Some)
  from c' obtain es where es: "upd_nth 0 (\<lambda>e. Some (e\<lparr>env_Value := getExpectedPrimaryServiceName w\<rparr>)) (ctr_Env c) = Some es"
    "c' = c\<lparr>ctr_Env := es\<rparr>" by auto
  obtain k where k: "container0 s = Some k" using e by (auto simp: enforceable_def)
  show ?thesis
    by (rule keptI [OF e])
      (use c k es get_nth_0_upd_nth [OF es(1)] upd_nth_SomeD [OF es(1)] in
        \<open>auto simp: keeps_rest_def same_mounts_def endpoint_settled\<close>)
qed

lemma covers_merge: "covers k m \<Longrightarrow> covers k (merge m (extractCustom k))"
proof -
  assume c: "covers k m"
  have "fst ` set (extractCustom a) = {x \<in> fst ` set a. prefix annotationPrefix x}" for a
    by (force simp: extractCustom_def)
  with c show ?thesis unfolding covers_def merge_keys by (auto simp: merge_facts distinct_extractCustom merge_keys)
qed

lemma kept_Metadata:
  assumes e: "enforceable srv w s" and i: "CustomMetadata_EnforceSpec w s = Some (b, s')"
  shows "kept addStatefulSetSpecEnforcers srv w s s'"
proof -
  have p: "sts_PodSpec s' = sts_PodSpec s" using i by (auto simp: CustomMetadata_EnforceSpec_def Let_def)
  then have v: "container0 s' = container0 s" "init0 s' = init0 s" by (simp_all add: container0_def init0_def)
  have m: "metadata_ready srv w s" using e by (simp add: enforceable_def)
  then have r: "metadata_ready srv w s'"
    using i by (auto simp: CustomMetadata_EnforceSpec_def Let_def metadata_ready_def getCustomMetadata_def covers_merge)
  have "CustomMetadata_CheckForSpecDifference srv w s' = Some no_difference"
    using i m by (auto simp: CustomMetadata_EnforceSpec_def CustomMetadata_CheckForSpecDifference_def Let_def
        metadata_equals_def getCustomMetadata_def metadata_ready_def merge_covers)
  moreover have "same_mounts s s'" by (simp add: same_mounts_def v p)
  ultimately show ?thesis
    using enforceable_metadata [OF e p r]
    by (simp add: kept_def registry_defs simple_settled(1-8) probe_settled endpoint_settled config_settled_iff
        volume_settled_cong config_settled_cong v p)
qed

lemma config_keys: "snd ` set (config_mounts l) = snd ` set (config_mounts l')"
  by (simp add: config_mounts_def)

lemma reserved_custom_config [simp]: "IsReservedVolumeName CustomConfigMapVolumeName"
  by (simp add: IsReservedVolumeName_def)

lemma find_filter: "(\<And>x. Q x \<Longrightarrow> P x) \<Longrightarrow> find Q (filter P xs) = find Q xs"
  by (induction xs) auto

lemma volume_ok_new_volumes:
  assumes "volumes_ok (w_spec w)" "ps_Volumes (sts_PodSpec s') = filter (\<lambda>v. IsReservedVolumeName (v_Name v)) (ps_Volumes (sts_PodSpec s)) @
      vol_Volumes (spec_Volume (w_spec w))"
  shows "volume_ok w s' \<longleftrightarrow> volume_ok w s"
proof -
  have "find (\<lambda>v. v_Name v = CustomConfigMapVolumeName) (vol_Volumes (spec_Volume (w_spec w))) = None"
    using assms(1) by (force simp: find_None_iff volumes_ok_def)
  moreover have "find (\<lambda>v. v_Name v = CustomConfigMapVolumeName) (filter (\<lambda>v. IsReservedVolumeName (v_Name v)) (ps_Volumes (sts_PodSpec s)))
      = find (\<lambda>v. v_Name v = CustomConfigMapVolumeName) (ps_Volumes (sts_PodSpec s))"
    by (rule find_filter) simp
  ultimately have "getCustomConfigMapVolume (ps_Volumes (sts_PodSpec s')) = getCustomConfigMapVolume (ps_Volumes (sts_PodSpec s))"
    unfolding getCustomConfigMapVolume_def assms(2) find_append by (simp split: option.split)
  then show ?thesis by (simp add: volume_ok_def)
qed

lemma mounts_ok_new_mounts:
  assumes "\<forall>m \<in> set ms. vm_SubPath m \<noteq> key" "mounts_ok loc key s"
    and "map_option ctr_VolumeMounts (container0 s') = map_option (\<lambda>c. new_mounts ms (ctr_VolumeMounts c)) (container0 s)"
    and "map_option ctr_VolumeMounts (init0 s') = map_option (\<lambda>c. new_mounts ms (ctr_VolumeMounts c)) (init0 s)"
  shows "mounts_ok loc key s'"
  using assms(1,2) unfolding mounts_ok_view assms(3,4) by (fastforce simp: new_mounts_def split: if_splits)

lemma kept_Volume:
  assumes e: "enforceable srv w s" and i: "Volume_EnforceSpec w s = Some (b, s')"
  shows "kept addStatefulSetSpecEnforcers srv w s s'"
proof -
  let ?ms = "vol_VolumeMounts (spec_Volume (w_spec w))"
  obtain c where c: "container0 s = Some c" "ctr_Ports c \<noteq> []" using e by (auto simp: enforceable_def)
  have vr: "volumes_ready srv w s" and vo: "volumes_ok (w_spec w)" using e by (simp_all add: enforceable_def volumes_ready_def)
  note f = Volume_EnforceSpec_effect [OF c(1), of w, unfolded i, simplified]
  have pod: "ps_SecurityContext (sts_PodSpec s') = ps_SecurityContext (sts_PodSpec s)"
    "ps_ServiceAccountName (sts_PodSpec s') = ps_ServiceAccountName (sts_PodSpec s)"
    using f by auto
  have mo: "mounts_ok loc key s \<Longrightarrow> mounts_ok loc key s'"
    if "(loc, key) \<in> set (config_mounts (cfs_ConfigLocations (rs_Config (w_states w))))" for loc key
  proof -
    have "key \<in> snd ` set (config_mounts base_locations)" using that config_keys by (metis image_eqI snd_conv)
    then have "\<forall>m \<in> set ?ms. vm_SubPath m \<noteq> key" using e by (auto simp: enforceable_def)
    then show "mounts_ok loc key s \<Longrightarrow> mounts_ok loc key s'"
      by (rule mounts_ok_new_mounts) (use f c in \<open>simp_all add: option.map_comp comp_def\<close>)
  qed
  have "config_settled w s \<Longrightarrow> config_settled w s'"
    using mo volume_ok_new_volumes [OF vo] f by (auto simp: config_settled_def simp flip: container0_iff)
  moreover have "Volume_CheckForSpecDifference srv w s' = Some no_difference" by (rule Volume_check_cleared [OF vr c(1) i])
  moreover have "enforceable srv w s'"
  proof -
    have "volumes_ready srv w s'"
      unfolding volumes_ready_view
    proof (intro conjI allI impI)
      fix ms
      assume "map_option ctr_VolumeMounts (container0 s') = Some ms \<or> map_option ctr_VolumeMounts (init0 s') = Some ms"
      then obtain x where "container0 s = Some x \<or> init0 s = Some x" "ms = new_mounts ?ms (ctr_VolumeMounts x)"
        using f c(1) by (cases "init0 s") auto
      then show "ms \<noteq> [] \<or> ?ms = []" using vr by (auto simp: volumes_ready_def new_mounts_def)
    qed (rule vo)
    moreover have "\<forall>v \<in> set (ps_Volumes (sts_PodSpec s')). v_Name v = CustomConfigMapVolumeName \<longrightarrow> v_ConfigMap v \<noteq> None"
    proof -
      have "\<forall>v \<in> set (vol_Volumes (spec_Volume (w_spec w))). v_Name v \<noteq> CustomConfigMapVolumeName"
        using vo by (force simp: volumes_ok_def)
      moreover have "\<forall>v \<in> set (ps_Volumes (sts_PodSpec s)). v_Name v = CustomConfigMapVolumeName \<longrightarrow> v_ConfigMap v \<noteq> None"
        using e by (simp add: enforceable_def)
      moreover have "set (ps_Volumes (sts_PodSpec s')) \<subseteq> set (ps_Volumes (sts_PodSpec s)) \<union> set (vol_Volumes (spec_Volume (w_spec w)))"
        using f by auto
      ultimately show ?thesis by blast
    qed
    moreover have "metadata_ready srv w s'" using e f by (simp add: enforceable_def metadata_ready_def)
    moreover have "\<forall>i. init0 s' = Some i \<longrightarrow> ctr_Env i \<noteq> []" using e f by (auto simp: enforceable_def)
    ultimately show ?thesis using e f c by (simp add: enforceable_def quantities_ok_def)
  qed
  moreover have "StandbyPrimaryEndpoint_CheckForSpecDifference srv w s = Some no_difference \<Longrightarrow>
      StandbyPrimaryEndpoint_CheckForSpecDifference srv w s' = Some no_difference"
    using f by (auto simp: endpoint_settled)
  moreover have "container0 s' = Some (c\<lparr>ctr_VolumeMounts := new_mounts ?ms (ctr_VolumeMounts c)\<rparr>)" "sts_meta s' = sts_meta s"
    "ps_Affinity (sts_PodSpec s') = ps_Affinity (sts_PodSpec s)" "ps_Tolerations (sts_PodSpec s') = ps_Tolerations (sts_PodSpec s)"
    using f by simp_all
  ultimately show ?thesis
    by (simp add: kept_def registry_defs simple_settled probe_settled config_settled_iff c(1) pod)
qed

text \<open>The configuration may rename custom mounts, which the volumes enforcer compares afterwards.\<close>

lemma only_config_containers:
  assumes "only_config s s'"
  shows "map_option no_mounts (container0 s') = map_option no_mounts (container0 s)"
    "map_option no_mounts (init0 s') = map_option no_mounts (init0 s)"
proof -
  have "map no_mounts (ps_Containers (sts_PodSpec s')) = map no_mounts (ps_Containers (sts_PodSpec s))"
    "map no_mounts (ps_InitContainers (sts_PodSpec s')) = map no_mounts (ps_InitContainers (sts_PodSpec s))"
    using arg_cong [OF only_config_fields(6) [OF assms], of ps_Containers]
      arg_cong [OF only_config_fields(6) [OF assms], of ps_InitContainers] by (simp_all add: bare_def)
  moreover have "map_option g (get_nth 0 xs) = get_nth 0 (map g xs)" for g :: "Container \<Rightarrow> Container" and xs
    by (cases xs) simp_all
  ultimately show "map_option no_mounts (container0 s') = map_option no_mounts (container0 s)"
    "map_option no_mounts (init0 s') = map_option no_mounts (init0 s)"
    by (simp_all add: container0_def init0_def)
qed

lemma no_mounts_fields:
  assumes "no_mounts c' = no_mounts c"
  shows "ctr_Image c' = ctr_Image c" "ctr_Ports c' = ctr_Ports c" "ctr_Env c' = ctr_Env c"
    "ctr_VolumeMounts c' = [] \<longleftrightarrow> ctr_VolumeMounts c = []"
proof -
  have "ctr_Image (no_mounts c') = ctr_Image (no_mounts c)" "ctr_Ports (no_mounts c') = ctr_Ports (no_mounts c)"
    "ctr_Env (no_mounts c') = ctr_Env (no_mounts c)"
    "length (ctr_VolumeMounts (no_mounts c')) = length (ctr_VolumeMounts (no_mounts c))"
    using assms by simp_all
  then show "ctr_Image c' = ctr_Image c" "ctr_Ports c' = ctr_Ports c" "ctr_Env c' = ctr_Env c"
    "ctr_VolumeMounts c' = [] \<longleftrightarrow> ctr_VolumeMounts c = []"
    by (auto simp: no_mounts_def)
qed

lemma map_option_eqE:
  assumes "map_option g x' = map_option g x" "x' = Some c'"
  obtains c where "x = Some c" "g c' = g c"
  using assms by (cases x) auto

lemma configure_volumes:
  assumes "ConfigureStatefulSet w s = Some (r, s')"
    and "\<forall>v \<in> set (ps_Volumes (sts_PodSpec s)). v_Name v = CustomConfigMapVolumeName \<longrightarrow> v_ConfigMap v \<noteq> None"
  shows "\<forall>v \<in> set (ps_Volumes (sts_PodSpec s')). v_Name v = CustomConfigMapVolumeName \<longrightarrow> v_ConfigMap v \<noteq> None"
proof -
  obtain acc s1 where
    m: "configure_mounts (config_mounts (cfs_ConfigLocations (rs_Config (w_states w)))) (False, '''') s = Some (acc, s1)"
    and v: "configure_volume w acc s1 = Some (r, s')"
    using assms(1) by (auto simp: ConfigureStatefulSet_def bind_eq_Some_conv)
  have "ps_Volumes (sts_PodSpec s1) = ps_Volumes (sts_PodSpec s)" using m by (rule configure_mounts_volumes)
  then have "set (ps_Volumes (sts_PodSpec s')) \<subseteq> set (ps_Volumes (sts_PodSpec s)) \<union> {createConfigMapVolume w}"
    using v by (auto simp: configure_volume_def Let_def addNewConfigMapVolumeWithSpecValue_def
        deleteCustomConfigMapVolumeIfExist_def split: option.splits if_splits)
  moreover have "v_ConfigMap (createConfigMapVolume w) \<noteq> None" by (simp add: createConfigMapVolume_def)
  ultimately show ?thesis using assms(2) by blast
qed

lemma kept_Config:
  assumes e: "enforceable srv w s" and i: "CustomConfig_EnforceSpec w s = Some (b, s')"
  shows "kept (take 3 addStatefulSetSpecEnforcers) srv w s s'"
proof -
  obtain r where r: "ConfigureStatefulSet w s = Some (r, s')"
    using i by (auto simp: CustomConfig_EnforceSpec_def bind_eq_Some_conv)
  note oc = ConfigureStatefulSet_only_config [OF r]
  note cs = only_config_containers [OF oc]
  obtain c where c: "container0 s = Some c" "ctr_Ports c \<noteq> []" using e by (auto simp: enforceable_def)
  obtain c' where c': "container0 s' = Some c'" "no_mounts c' = no_mounts c"
    using cs(1) c(1) by (cases "container0 s'") auto
  note cf = no_mounts_fields [OF c'(2)]
  have i0: "\<exists>x. init0 s = Some x \<and> no_mounts x' = no_mounts x" if "init0 s' = Some x'" for x'
    using map_option_eqE [OF cs(2) that] by metis
  have vr: "volumes_ready srv w s'"
    unfolding volumes_ready_def
  proof (intro conjI allI impI)
    show "volumes_ok (w_spec w)" using e by (simp add: enforceable_def volumes_ready_def)
    fix x'
    assume "container0 s' = Some x' \<or> init0 s' = Some x'"
    then obtain x where "container0 s = Some x \<or> init0 s = Some x" "no_mounts x' = no_mounts x"
      using c' c(1) i0 by auto
    moreover have "volumes_ready srv w s" using e by (simp add: enforceable_def)
    ultimately show "ctr_VolumeMounts x' \<noteq> [] \<or> vol_VolumeMounts (spec_Volume (w_spec w)) = []"
      using no_mounts_fields(4) [of x' x] unfolding volumes_ready_def by blast
  qed
  have "\<forall>x'. init0 s' = Some x' \<longrightarrow> ctr_Env x' \<noteq> []"
    using i0 e no_mounts_fields(3) unfolding enforceable_def by metis
  moreover have "metadata_ready srv w s'" using e only_config_fields(1) [OF oc] by (simp add: enforceable_def metadata_ready_def)
  ultimately have "enforceable srv w s'"
    using e vr c c' cf configure_volumes [OF r] by (simp add: enforceable_def quantities_ok_def)
  then show ?thesis
    by (simp add: kept_def registry_defs simple_settled c(1) c'(1) cf numeral_3_eq_3)
qed

section \<open>The registry converges in one pass\<close>

definition advances :: "StatefulSetSpecEnforcer list \<Rightarrow> server \<Rightarrow> world \<Rightarrow> StatefulSetSpecEnforcer \<Rightarrow> bool" where
  "advances es srv w e \<longleftrightarrow> (\<forall>s. enforceable srv w s \<longrightarrow>
     (\<exists>d. CheckForSpecDifference e srv w s = Some d \<and> (\<not> IsThereDifference d \<longrightarrow> settled e srv w s) \<and>
        (IsThereDifference d \<longrightarrow> (\<exists>s'. EnforceSpec e srv s w = (Val (True, s'), w) \<and> settled e srv w s' \<and>
           same_identity s s' \<and> kept es srv w s s'))))"

lemma advances_mono: "advances es srv w e \<Longrightarrow> set es' \<subseteq> set es \<Longrightarrow> advances es' srv w e"
  unfolding advances_def kept_def by (meson subsetD)

text \<open>An enforcer that honours the contract advances, whatever the locale's hypothesis, when a usable StatefulSet gives it.\<close>

lemma advances_simple:
  assumes "spec_enforcer check f ready"
    and "\<And>s. enforceable srv w s \<Longrightarrow> check srv w s \<noteq> None \<and> ready srv w s"
    and "\<And>s b s'. enforceable srv w s \<Longrightarrow> f w s = Some (b, s') \<Longrightarrow> kept es srv w s s'"
  shows "advances es srv w (simple_enforcer n check f\<lparr>OnSpecEnforcedSuccessfully := g\<rparr>)"
  unfolding advances_def
proof (intro allI impI)
  fix s
  assume e: "enforceable srv w s"
  then obtain d where d: "check srv w s = Some d" using assms(2) by blast
  have "\<exists>s'. f w s = Some (True, s') \<and> check srv w s' = Some no_difference" if "IsThereDifference d"
    using spec_enforcer.clears [OF assms(1) d that] assms(2) [OF e] by blast
  then show "\<exists>d. CheckForSpecDifference (simple_enforcer n check f\<lparr>OnSpecEnforcedSuccessfully := g\<rparr>) srv w s = Some d \<and>
      (\<not> IsThereDifference d \<longrightarrow> settled (simple_enforcer n check f\<lparr>OnSpecEnforcedSuccessfully := g\<rparr>) srv w s) \<and>
      (IsThereDifference d \<longrightarrow> (\<exists>s'. EnforceSpec (simple_enforcer n check f\<lparr>OnSpecEnforcedSuccessfully := g\<rparr>) srv s w = (Val (True, s'), w) \<and>
         settled (simple_enforcer n check f\<lparr>OnSpecEnforcedSuccessfully := g\<rparr>) srv w s' \<and> same_identity s s' \<and> kept es srv w s s'))"
    using spec_enforcer.named [OF assms(1) d] assms(3) [OF e] spec_enforcer.keeps_identity [OF assms(1), of w s] d
    by (auto simp: simple_enforcer_def settled_def no_api_def)
qed

lemmas advances_plain = advances_simple [where g = nothing]

lemma simple_enforcer_nothing: "simple_enforcer n check f\<lparr>OnSpecEnforcedSuccessfully := nothing\<rparr> = simple_enforcer n check f"
  by (simp add: simple_enforcer_def)

text \<open>No comparison panics on a usable StatefulSet.\<close>

lemma compare_resources_loop_total:
  "\<forall>q. srv_parse_quantity srv (srv_quantity_string srv q) = Some q \<Longrightarrow> compare_resources_loop srv xs es \<noteq> None"
  by (induction srv xs es rule: compare_resources_loop.induct) auto

lemma compareResources_total: "quantities_ok srv w s \<Longrightarrow> compareResources srv a b \<noteq> None"
  by (auto simp: quantities_ok_def compareResources_def compareResourceLists_def bind_eq_None_conv
      dest: compare_resources_loop_total)

lemma checks_total:
  assumes "enforceable srv w s"
  shows "Image_CheckForSpecDifference srv w s \<noteq> None" "Port_CheckForSpecDifference srv w s \<noteq> None"
    "Affinity_CheckForSpecDifference srv w s \<noteq> None" "Tolerations_CheckForSpecDifference srv w s \<noteq> None"
    "SecurityContext_CheckForSpecDifference srv w s \<noteq> None" "LivenessProbe_CheckForSpecDifference srv w s \<noteq> None"
    "ReadinessProbe_CheckForSpecDifference srv w s \<noteq> None" "ServiceAccountName_CheckForSpecDifference srv w s \<noteq> None"
    "CustomMetadata_CheckForSpecDifference srv w s \<noteq> None" "Volume_CheckForSpecDifference srv w s \<noteq> None"
    "Resources_CheckForSpecDifference srv w s \<noteq> None" "CustomConfig_CheckForSpecDifference srv w s \<noteq> None"
    "StandbyPrimaryEndpoint_CheckForSpecDifference srv w s \<noteq> None"
proof -
  obtain c p ps where c: "container0 s = Some c" "ctr_Ports c = p # ps"
    using assms by (auto simp: enforceable_def neq_Nil_conv)
  have q: "quantities_ok srv w s" using assms by (simp add: enforceable_def)
  show "Image_CheckForSpecDifference srv w s \<noteq> None" "Port_CheckForSpecDifference srv w s \<noteq> None"
    "Affinity_CheckForSpecDifference srv w s \<noteq> None" "Tolerations_CheckForSpecDifference srv w s \<noteq> None"
    "SecurityContext_CheckForSpecDifference srv w s \<noteq> None" "LivenessProbe_CheckForSpecDifference srv w s \<noteq> None"
    "ReadinessProbe_CheckForSpecDifference srv w s \<noteq> None" "ServiceAccountName_CheckForSpecDifference srv w s \<noteq> None"
    using c by (simp_all add: enforcer_defs Let_def)
  show "CustomMetadata_CheckForSpecDifference srv w s \<noteq> None"
    by (simp add: CustomMetadata_CheckForSpecDifference_def Let_def)
  show "Volume_CheckForSpecDifference srv w s \<noteq> None"
    using c by (simp add: Volume_CheckForSpecDifference_def getCurrentCustomVolumeMounts_def Let_def split: prod.split)
  show "Resources_CheckForSpecDifference srv w s \<noteq> None"
    using c compareResources_total [OF q, of "ctr_Resources c" "spec_Resources (w_spec w)"]
    by (auto simp: Resources_CheckForSpecDifference_def)
  obtain r s' where "ConfigureStatefulSet w s = Some (r, s')"
    using ConfigureStatefulSet_total [of s w] assms c container0_iff [of s] by (auto simp: enforceable_def)
  then show "CustomConfig_CheckForSpecDifference srv w s \<noteq> None"
    by (cases r) (simp add: CustomConfig_CheckForSpecDifference_def)
  show "StandbyPrimaryEndpoint_CheckForSpecDifference srv w s \<noteq> None"
    using assms by (cases "init0 s") (auto simp: enforcer_defs enforceable_def Let_def neq_Nil_conv)
qed

lemma registry_advances:
  "\<forall>i < length addStatefulSetSpecEnforcers.
     advances (take i addStatefulSetSpecEnforcers) srv w (addStatefulSetSpecEnforcers ! i)"
proof -
  let ?R = addStatefulSetSpecEnforcers
  have ready: "quantities_ok srv w s" "metadata_ready srv w s" "volumes_contract srv w s" "always srv w s"
    if "enforceable srv w s" for s
    using that by (auto simp: enforceable_def volumes_contract_def always_def)
  have size: "advances ?R srv w \<lparr>GetSpecName = n, CheckForSpecDifference = StorageClassSize_CheckForSpecDifference,
       EnforceSpec = h, OnSpecEnforcedSuccessfully = g\<rparr>" for n h g
    by (simp add: advances_def settled_def StorageClassSize_CheckForSpecDifference_def)
  note plain = advances_plain [unfolded simple_enforcer_nothing]
  have f1: "advances ?R srv w (simple_enforcer n Image_CheckForSpecDifference Image_EnforceSpec)" for n
    by (rule plain [OF image.spec_enforcer_axioms]) (use ready(4) checks_total(1) kept_Image in blast)+
  have f2: "advances ?R srv w (simple_enforcer n Affinity_CheckForSpecDifference Affinity_EnforceSpec)" for n
    by (rule plain [OF affinity.spec_enforcer_axioms]) (use ready(4) checks_total(3) kept_pod_fields(1) in blast)+
  have f3: "advances ?R srv w (simple_enforcer n Tolerations_CheckForSpecDifference Tolerations_EnforceSpec)" for n
    by (rule plain [OF tolerations.spec_enforcer_axioms]) (use ready(4) checks_total(4) kept_pod_fields(2) in blast)+
  have f4: "advances ?R srv w (simple_enforcer n Resources_CheckForSpecDifference Resources_EnforceSpec)" for n
    by (rule plain [OF resources.spec_enforcer_axioms]) (use ready(1) checks_total(11) kept_container_fields(1) in blast)+
  have f5: "advances ?R srv w (simple_enforcer n Volume_CheckForSpecDifference Volume_EnforceSpec)" for n
    by (rule plain [OF volume.spec_enforcer_axioms]) (use ready(3) checks_total(10) kept_Volume in blast)+
  have f6: "advances ?R srv w (simple_enforcer n SecurityContext_CheckForSpecDifference SecurityContext_EnforceSpec)" for n
    by (rule plain [OF security_context.spec_enforcer_axioms]) (use ready(4) checks_total(5) kept_pod_fields(3) in blast)+
  have f7: "advances ?R srv w (simple_enforcer n LivenessProbe_CheckForSpecDifference LivenessProbe_EnforceSpec)" for n
    by (rule plain [OF liveness.spec_enforcer_axioms]) (use ready(4) checks_total(6) kept_container_fields(2) in blast)+
  have f8: "advances ?R srv w (simple_enforcer n ReadinessProbe_CheckForSpecDifference ReadinessProbe_EnforceSpec)" for n
    by (rule plain [OF readiness.spec_enforcer_axioms]) (use ready(4) checks_total(7) kept_container_fields(3) in blast)+
  have f9: "advances ?R srv w (simple_enforcer n ServiceAccountName_CheckForSpecDifference ServiceAccountName_EnforceSpec)" for n
    by (rule plain [OF service_account.spec_enforcer_axioms]) (use ready(4) checks_total(8) kept_pod_fields(4) in blast)+
  have f10: "advances ?R srv w (simple_enforcer n CustomMetadata_CheckForSpecDifference CustomMetadata_EnforceSpec)" for n
    by (rule plain [OF metadata.spec_enforcer_axioms]) (use ready(2) checks_total(9) kept_Metadata in blast)+
  have f11: "advances ?R srv w (simple_enforcer n StandbyPrimaryEndpoint_CheckForSpecDifference StandbyPrimaryEndpoint_EnforceSpec)" for n
    by (rule plain [OF endpoint.spec_enforcer_axioms]) (use ready(4) checks_total(13) kept_Endpoint in blast)+
  have f12: "advances ?R srv w ((simple_enforcer n Port_CheckForSpecDifference Port_EnforceSpec)\<lparr>OnSpecEnforcedSuccessfully := g\<rparr>)" for n g
    by (rule advances_simple [OF port.spec_enforcer_axioms]) (use ready(4) checks_total(2) kept_Port in blast)+
  have "list_all (advances S srv w) (take 3 ?R @ drop 4 ?R)" if S: "S = ?R" for S
    unfolding addStatefulSetSpecEnforcers_def by (simp add: S size f1 f2 f3 f4 f5 f6 f7 f8 f9 f10 f11 f12)
  then have "\<forall>e \<in> set (take 3 ?R @ drop 4 ?R). advances ?R srv w e" by (simp add: list_all_iff)
  then have others: "advances (take i ?R) srv w e" if "e \<in> set (take 3 ?R @ drop 4 ?R)" for i e
    using that advances_mono [OF _ set_take_subset] by metis
  have config: "advances (take 3 ?R) srv w (?R ! 3)"
  proof -
    have "?R ! 3 = simple_enforcer ''CustomConfig'' CustomConfig_CheckForSpecDifference CustomConfig_EnforceSpec"
      by (simp add: addStatefulSetSpecEnforcers_def)
    moreover have "advances (take 3 ?R) srv w (simple_enforcer n CustomConfig_CheckForSpecDifference CustomConfig_EnforceSpec)" for n
      by (rule plain [OF config.spec_enforcer_axioms]) (use ready(4) checks_total(12) kept_Config in blast)+
    ultimately show ?thesis by simp
  qed
  show ?thesis
  proof (intro allI impI)
    fix i
    assume i: "i < length ?R"
    consider "i = 3" | "i < 3" | "3 < i" by linarith
    then show "advances (take i ?R) srv w (?R ! i)"
    proof cases
      case 2
      then have "?R ! i \<in> set (take 3 ?R)" using i by (auto simp: in_set_conv_nth intro!: exI [of _ i])
      then show ?thesis using others by simp
    next
      case 3
      then have "?R ! i \<in> set (drop 4 ?R)" using i by (auto simp: in_set_conv_nth intro!: exI [of _ "i - 4"])
      then show ?thesis using others by simp
    qed (use config in simp)
  qed
qed

lemma enforce_loop_advances:
  assumes "\<forall>i < length es. advances (pre @ take i es) srv w (es ! i)" "enforceable srv w s" "\<forall>e \<in> set pre. settled e srv w s"
  shows "\<exists>upd' s'. enforce_loop es srv (upd, s) w = (Val (upd', s'), w) \<and> same_identity s s' \<and>
    (\<forall>e \<in> set (pre @ es). settled e srv w s') \<and> (upd' = upd \<and> s' = s \<or> length upd < length upd')"
  using assms
proof (induction es arbitrary: pre s upd)
  case (Cons e es)
  have "advances pre srv w e" using Cons.prems(1) by force
  then obtain d where d: "CheckForSpecDifference e srv w s = Some d" "\<not> IsThereDifference d \<longrightarrow> settled e srv w s"
    "IsThereDifference d \<longrightarrow> (\<exists>s'. EnforceSpec e srv s w = (Val (True, s'), w) \<and> settled e srv w s' \<and>
       same_identity s s' \<and> kept pre srv w s s')"
    using Cons.prems(2) unfolding advances_def by blast
  have tail: "\<forall>i < length es. advances ((pre @ [e]) @ take i es) srv w (es ! i)"
    using Cons.prems(1) by (auto dest: spec [of _ "Suc i" for i])
  show ?case
  proof (cases "IsThereDifference d")
    case False
    with d Cons.prems(3) have "\<forall>x \<in> set (pre @ [e]). settled x srv w s" by auto
    from Cons.IH [OF tail Cons.prems(2) this, of upd] False d(1) show ?thesis by simp
  next
    case True
    with d(3) obtain s1 where s1: "EnforceSpec e srv s w = (Val (True, s1), w)" "settled e srv w s1" "same_identity s s1"
      "kept pre srv w s s1" by blast
    then have "enforceable srv w s1" "\<forall>x \<in> set (pre @ [e]). settled x srv w s1"
      using Cons.prems(3) by (auto simp: kept_def)
    from Cons.IH [OF tail this, of "upd @ [d]"] obtain upd' s' where
      "enforce_loop es srv (upd @ [d], s1) w = (Val (upd', s'), w)" "same_identity s1 s'"
      "\<forall>x \<in> set ((pre @ [e]) @ es). settled x srv w s'" "length upd < length upd'" by auto
    with s1 True d(1) show ?thesis by (auto simp: same_identity_def)
  qed
qed (auto simp: same_identity_def)

lemma enforce_loop_registry:
  assumes "enforceable srv w s"
  shows "\<exists>upd s'. enforce_loop addStatefulSetSpecEnforcers srv ([], s) w = (Val (upd, s'), w) \<and> same_identity s s' \<and>
    (\<forall>e \<in> set addStatefulSetSpecEnforcers. settled e srv w s') \<and> (upd = [] \<longrightarrow> s' = s)"
  using enforce_loop_advances [of addStatefulSetSpecEnforcers "[]" srv w s "[]"] registry_advances assms by fastforce

lemma collect_differences_none:
  "\<forall>e \<in> set es. settled e srv w s \<Longrightarrow> collect_differences es srv w s = Some []"
  by (induction es) (auto simp: settled_def)

lemma enforce_loop_idle:
  "collect_differences es srv w s = Some [] \<Longrightarrow> enforce_loop es srv (upd, s) w = (Val (upd, s), w)"
  by (induction es arbitrary: upd) (auto simp: bind_eq_Some_conv split: if_splits)

lemma StatefulSets_EnforceSpec_registry:
  assumes "enforceable srv w s"
  shows "\<exists>s'. same_identity s s' \<and> collect_differences addStatefulSetSpecEnforcers srv w s' = Some [] \<and>
    (let up_to_date = (collect_differences addStatefulSetSpecEnforcers srv w s = Some []);
         r = StatefulSets_EnforceSpec addStatefulSetSpecEnforcers srv s w
     in fst r = (if up_to_date then Ok else case srv_write srv (w_calls w) (UpdateStatefulSet s') of None \<Rightarrow> Ok | Some e \<Rightarrow> Err e) \<and>
        w_calls (snd r) = w_calls w @ (if up_to_date then [] else [UpdateStatefulSet s']))"
proof -
  obtain upd s' where l: "enforce_loop addStatefulSetSpecEnforcers srv ([], s) w = (Val (upd, s'), w)" "same_identity s s'"
    "\<forall>e \<in> set addStatefulSetSpecEnforcers. settled e srv w s'" "upd = [] \<longrightarrow> s' = s"
    using enforce_loop_registry [OF assms] by blast
  have c: "collect_differences addStatefulSetSpecEnforcers srv w s' = Some []" using l(3) by (rule collect_differences_none)
  have u: "upd = [] \<longleftrightarrow> collect_differences addStatefulSetSpecEnforcers srv w s = Some []"
    using c l(1,4) enforce_loop_idle [of addStatefulSetSpecEnforcers srv w s "[]"] by auto
  show ?thesis
    using l(2) c u by (intro exI [of _ s'])
      (auto simp: StatefulSets_EnforceSpec_def l(1) client_write_def logUpdatedSpecDifferences_def Let_def split: option.split)
qed

section \<open>Properties\<close>

text \<open>
  C10: one pass of the registry brings an enforceable StatefulSet up to date. Enforceable means:
  its first container has a port and its init container, if any, an environment variable; a
  container that gets a custom mount has one already, and the custom volumes pass the check of
  the spec; the custom configuration volume is a configuration map and no custom mount uses the
  sub-path of a configuration file; parsing a printed quantity gives it back; and every custom
  label and annotation of the StatefulSet is one of the Kubegres resource (none was removed).
  Then the pass neither panics nor fails in an enforcer; when a difference was found it sends
  exactly one update, of a StatefulSet with the same name, selector, service and volume claims
  in which no enforcer finds a difference any more, and its outcome is the answer of the server;
  when none was found it sends nothing. So an accepted update is not repeated.
\<close>

theorem spec_enforcement_converges:
  assumes "enforceable srv w s"
  shows "\<exists>s'. same_identity s s' \<and> collect_differences addStatefulSetSpecEnforcers srv w s' = Some [] \<and>
    (let up_to_date = (collect_differences addStatefulSetSpecEnforcers srv w s = Some []);
         r = StatefulSets_EnforceSpec addStatefulSetSpecEnforcers srv s w
     in fst r = (if up_to_date then Ok else case srv_write srv (w_calls w) (UpdateStatefulSet s') of None \<Rightarrow> Ok | Some e \<Rightarrow> Err e) \<and>
        w_calls (snd r) = w_calls w @ (if up_to_date then [] else [UpdateStatefulSet s']))"
  by (rule StatefulSets_EnforceSpec_registry [OF assms])

text \<open>A running StatefulSet with an old image.\<close>

definition outdated_StatefulSet :: StatefulSet where
  "outdated_StatefulSet = (sample_StatefulSet 2 ''replica'' 1)\<lparr>sts_Template := \<lparr>pt_Labels = [], pt_Annotations = [],
     pt_Spec = zero_PodSpec\<lparr>ps_Containers := [sample_container\<lparr>ctr_Image := ''postgres:13.0''\<rparr>]\<rparr>\<rparr>\<rparr>"

lemma outdated_enforceable: "enforceable sample_server sample_world outdated_StatefulSet"
  by (auto simp: enforceable_def outdated_StatefulSet_def container0_def init0_def sample_container_def volumes_ready_def
      volumes_ok_def quantities_ok_def metadata_ready_def covers_def extractCustom_def sample_world_def sample_Kubegres_def sample_Spec_def
      zero_PodSpec_def zero_ObjectMeta_def zero_ResourceRequirements_def sample_server_def sample_StatefulSet_def split: quantity.splits)

theorem spec_enforcement_converges_witness:
  "\<exists>s'. same_identity outdated_StatefulSet s' \<and>
     collect_differences addStatefulSetSpecEnforcers sample_server sample_world s' = Some [] \<and>
     w_calls (snd (StatefulSets_EnforceSpec addStatefulSetSpecEnforcers sample_server outdated_StatefulSet sample_world))
       = [UpdateStatefulSet s']"
proof -
  have "collect_differences addStatefulSetSpecEnforcers sample_server sample_world outdated_StatefulSet \<noteq> Some []"
    by (simp add: addStatefulSetSpecEnforcers_def simple_enforcer_def Image_CheckForSpecDifference_def outdated_StatefulSet_def
        container0_def sample_world_def sample_Kubegres_def sample_Spec_def bind_eq_Some_conv)
  with spec_enforcement_converges [OF outdated_enforceable] show ?thesis
    by (auto simp: Let_def sample_world_def)
qed

end
