(* ===== verification/All_StatefulSets_Enforcer.thy ===== *)
theory All_StatefulSets_Enforcer
  imports Count_Enforcers Spec_Registry
begin

text \<open>
  \<open>AllStatefulSetsSpecEnforcer.go\<close> and \<open>comparator/PodSpecComparator.go\<close>: the rolling
  enforcement of the spec, one StatefulSet after the other, the replicas with the greatest
  index first and the primary last. A StatefulSet is followed until its Pod runs the new
  spec before the next one is touched.
\<close>

section \<open>PodSpecComparator\<close>

text \<open>None: an index out of range, a panic.\<close>

definition isImageUpToDate :: "Pod \<Rightarrow> KubegresSpec \<Rightarrow> bool" where
  "isImageUpToDate pod spec =
     (case ps_Containers (pod_Spec pod) of [] \<Rightarrow> False | c # _ \<Rightarrow> ctr_Image c = spec_Image spec)"

definition isPortUpToDate :: "Pod \<Rightarrow> KubegresSpec \<Rightarrow> bool option" where
  "isPortUpToDate pod spec =
     (case ps_Containers (pod_Spec pod) of
        [] \<Rightarrow> Some False
      | c # _ \<Rightarrow> map_option (\<lambda>port. port = spec_Port spec) (get_nth 0 (ctr_Ports c)))"

definition IsSpecUpToDate :: "Pod \<Rightarrow> KubegresSpec \<Rightarrow> bool option" where
  "IsSpecUpToDate pod spec = (if isImageUpToDate pod spec then isPortUpToDate pod spec else Some False)"

section \<open>Operation configurations and their completion checkers\<close>

text \<open>
  A checker reads the resource states and, through the shared Kubegres object, the spec; both
  are those of the world \<open>w\<close> in which the configuration is built, because nothing changes
  them before \<open>LoadActiveOperation\<close> calls the checker. A checker whose evaluation panics
  counts here as not completed; \<open>completion_checker_panics\<close> says when that happens.
\<close>

definition getUpdatingInstanceIndex :: "KubegresBlockingOperation \<Rightarrow> int" where
  "getUpdatingInstanceIndex operation = sop_InstanceIndex (op_StatefulSetOperation operation)"

definition updating_wrapper :: "world \<Rightarrow> KubegresBlockingOperation \<Rightarrow> StatefulSetWrapper \<times> go_error option" where
  "updating_wrapper w operation =
     GetByInstanceIndex (getUpdatingInstanceIndex operation) (sss_All (rs_StatefulSets (w_states w)))"

definition isStatefulSetSpecUpdated ::
  "StatefulSetSpecEnforcer list \<Rightarrow> server \<Rightarrow> world \<Rightarrow> int \<Rightarrow> KubegresBlockingOperation \<Rightarrow> bool \<times> event list" where
  "isStatefulSetSpecUpdated registry srv w nbreSecondsSinceOperationHasStarted operation =
     (if nbreSecondsSinceOperationHasStarted < 10 then (False, [])
      else case updating_wrapper w operation of
        (_, Some _) \<Rightarrow> (False, [Event EventTypeNormal ''Error''])
      | (s, None) \<Rightarrow>
          (case collect_differences registry srv w (sw_StatefulSet s) of
             None \<Rightarrow> (False, [])
           | Some specDifferences \<Rightarrow>
               (\<not> AreThereDifferences specDifferences,
                map (\<lambda>_. Event EventTypeNormal ''StatefulSetOperation'') specDifferences)))"

definition isStatefulSetPodSpecUpdated :: "world \<Rightarrow> KubegresBlockingOperation \<Rightarrow> bool \<times> event list" where
  "isStatefulSetPodSpecUpdated w operation =
     (case updating_wrapper w operation of
        (_, Some _) \<Rightarrow> (False, [Event EventTypeNormal ''Error''])
      | (s, None) \<Rightarrow>
          (pw_IsReady (sw_Pod s) \<and> IsSpecUpToDate (pw_Pod (sw_Pod s)) (w_spec w) = Some True, []))"

text \<open>Here the call of \<open>InfoEvent\<close> has no reason: its message takes that place.\<close>

definition isStatefulSetPodNotStuck :: "world \<Rightarrow> KubegresBlockingOperation \<Rightarrow> bool \<times> event list" where
  "isStatefulSetPodNotStuck w operation =
     (case updating_wrapper w operation of
        (_, Some _) \<Rightarrow>
          (False, [Event EventTypeNormal
             (''A StatefulSet's instanceIndex does not exist. As a result we will '' @
              ''return false inside a blocking operation completion checker '' @ [CHR 0x27] @
              ''isStatefulSetPodNotStuck()'' @ [CHR 0x27])])
      | (s, None) \<Rightarrow> (\<not> pw_IsStuck (sw_Pod s), []))"

definition completion_checker_panics ::
  "StatefulSetSpecEnforcer list \<Rightarrow> server \<Rightarrow> world \<Rightarrow> int \<Rightarrow> KubegresBlockingOperation \<Rightarrow> bool" where
  "completion_checker_panics registry srv w nbreSecondsSinceOperationHasStarted operation \<longleftrightarrow>
     op_OperationId operation = OperationIdStatefulSetSpecEnforcing \<and>
     (case updating_wrapper w operation of
        (_, Some _) \<Rightarrow> False
      | (s, None) \<Rightarrow>
          op_StepId operation = OperationStepIdStatefulSetSpecUpdating \<and>
            10 \<le> nbreSecondsSinceOperationHasStarted \<and>
            collect_differences registry srv w (sw_StatefulSet s) = None \<or>
          op_StepId operation = OperationStepIdStatefulSetPodSpecUpdating \<and>
            pw_IsReady (sw_Pod s) \<and> IsSpecUpToDate (pw_Pod (sw_Pod s)) (w_spec w) = None)"

definition CreateOperationConfigForStatefulSetSpecUpdating ::
  "StatefulSetSpecEnforcer list \<Rightarrow> server \<Rightarrow> world \<Rightarrow> BlockingOperationConfig" where
  "CreateOperationConfigForStatefulSetSpecUpdating registry srv w =
     \<lparr>cfg_OperationId = OperationIdStatefulSetSpecEnforcing,
      cfg_StepId = OperationStepIdStatefulSetSpecUpdating, cfg_TimeOutInSeconds = 300,
      cfg_CompletionChecker = Some (isStatefulSetSpecUpdated registry srv w),
      cfg_AfterCompletionMoveToTransitionStep = True\<rparr>"

definition CreateOperationConfigForStatefulSetSpecPodUpdating :: "world \<Rightarrow> BlockingOperationConfig" where
  "CreateOperationConfigForStatefulSetSpecPodUpdating w =
     \<lparr>cfg_OperationId = OperationIdStatefulSetSpecEnforcing,
      cfg_StepId = OperationStepIdStatefulSetPodSpecUpdating, cfg_TimeOutInSeconds = 300,
      cfg_CompletionChecker = Some (\<lambda>_. isStatefulSetPodSpecUpdated w),
      cfg_AfterCompletionMoveToTransitionStep = True\<rparr>"

definition CreateOperationConfigForStatefulSetWaitingOnStuckPod :: "world \<Rightarrow> BlockingOperationConfig" where
  "CreateOperationConfigForStatefulSetWaitingOnStuckPod w =
     \<lparr>cfg_OperationId = OperationIdStatefulSetSpecEnforcing,
      cfg_StepId = OperationStepIdStatefulSetWaitingOnStuckPod, cfg_TimeOutInSeconds = 300,
      cfg_CompletionChecker = Some (\<lambda>_. isStatefulSetPodNotStuck w),
      cfg_AfterCompletionMoveToTransitionStep = True\<rparr>"

section \<open>Queries\<close>

definition all_isPrimaryDbReady :: "world \<Rightarrow> bool" where
  "all_isPrimaryDbReady w = sw_IsReady (rs_Primary (w_states w))"

definition all_isStandbyEnabled :: "world \<Rightarrow> bool" where
  "all_isStandbyEnabled w = standby_Enabled (spec_Standby (w_spec w))"

definition getAllReverseSortedByInstanceIndex :: "world \<Rightarrow> StatefulSetWrapper list" where
  "getAllReverseSortedByInstanceIndex w =
     (let replicas = GetAllReverseSortedByInstanceIndex (rep_All (rs_Replicas (w_states w))) in
      if all_isStandbyEnabled w then replicas else replicas @ [rs_Primary (w_states w)])"

definition hasLastSpecUpdateAttemptTimedOut :: "int \<Rightarrow> world \<Rightarrow> bool" where
  "hasLastSpecUpdateAttemptTimedOut statefulSetInstanceIndex w \<longleftrightarrow>
     HasActiveOperationIdTimedOut OperationIdStatefulSetSpecEnforcing w \<and>
     sop_InstanceIndex (op_StatefulSetOperation (GetActiveOperation w)) = statefulSetInstanceIndex"

definition areNewSpecChangesSameAsFailingSpecChanges :: "StatefulSetSpecDifference list \<Rightarrow> world \<Rightarrow> bool" where
  "areNewSpecChangesSameAsFailingSpecChanges newSpecDiff w \<longleftrightarrow>
     suop_SpecDifferences (op_StatefulSetSpecUpdateOperation (GetActiveOperation w)) =
       GetSpecDifferencesAsString newSpecDiff"

definition isStatefulSetSpecUpdating :: "int \<Rightarrow> world \<Rightarrow> bool" where
  "isStatefulSetSpecUpdating statefulSetInstanceIndex w \<longleftrightarrow>
     IsActiveOperationInTransition OperationIdStatefulSetSpecEnforcing w \<and>
     sop_InstanceIndex (op_StatefulSetOperation (GetPreviouslyActiveOperation w)) = statefulSetInstanceIndex"

definition logKubegresFeaturesAreReEnabled :: "world \<Rightarrow> world" where
  "logKubegresFeaturesAreReEnabled = InfoEvent ''KubegresReEnabled''"

definition logSpecEnforcementTimedOut :: "world \<Rightarrow> world" where
  "logSpecEnforcementTimedOut = ErrorEvent ''StatefulSetSpecEnforcementTimedOutErr''"

section \<open>Activation\<close>

definition activateOperationStepStatefulSetSpecUpdating ::
  "int \<Rightarrow> int \<Rightarrow> StatefulSetSpecDifference list \<Rightarrow> world \<Rightarrow> outcome \<times> world" where
  "activateOperationStepStatefulSetSpecUpdating now statefulSetInstanceIndex specDifferences =
     ActivateOperationOnStatefulSetSpecUpdate now OperationIdStatefulSetSpecEnforcing
       OperationStepIdStatefulSetSpecUpdating statefulSetInstanceIndex (GetSpecDifferencesAsString specDifferences)"

definition activateOperationStepStatefulSetPodSpecUpdating ::
  "int \<Rightarrow> int \<Rightarrow> StatefulSetSpecDifference list \<Rightarrow> world \<Rightarrow> outcome \<times> world" where
  "activateOperationStepStatefulSetPodSpecUpdating now statefulSetInstanceIndex specDifferences =
     ActivateOperationOnStatefulSetSpecUpdate now OperationIdStatefulSetSpecEnforcing
       OperationStepIdStatefulSetPodSpecUpdating statefulSetInstanceIndex (GetSpecDifferencesAsString specDifferences)"

definition activateOperationStepWaitingUntilPodIsNotStuck ::
  "int \<Rightarrow> int \<Rightarrow> StatefulSetSpecDifference list \<Rightarrow> world \<Rightarrow> outcome \<times> world" where
  "activateOperationStepWaitingUntilPodIsNotStuck now statefulSetInstanceIndex specDifferences =
     ActivateOperationOnStatefulSetSpecUpdate now OperationIdStatefulSetSpecEnforcing
       OperationStepIdStatefulSetWaitingOnStuckPod statefulSetInstanceIndex (GetSpecDifferencesAsString specDifferences)"

section \<open>Actions\<close>

text \<open>The private method \<open>enforceSpec\<close>, apart from the public one.\<close>

definition enforceSpec_of ::
  "StatefulSetSpecEnforcer list \<Rightarrow> int \<Rightarrow> server \<Rightarrow> StatefulSet \<Rightarrow> int \<Rightarrow> StatefulSetSpecDifference list
   \<Rightarrow> world \<Rightarrow> outcome \<times> world" where
  "enforceSpec_of registry now srv s instanceIndex specDifferences w =
     (case activateOperationStepStatefulSetSpecUpdating now instanceIndex specDifferences w of
        (Ok, w1) \<Rightarrow>
          (case StatefulSets_EnforceSpec registry srv s w1 of
             (Ok, w2) \<Rightarrow> (Ok, InfoEvent ''StatefulSetOperation'' w2)
           | (Err err, w2) \<Rightarrow> (Err err, RemoveActiveOperation (ErrorEvent ''StatefulSetSpecEnforcementErr'' w2))
           | (Panic, w2) \<Rightarrow> (Panic, w2))
      | (r, w1) \<Rightarrow> (r, ErrorEvent ''StatefulSetSpecEnforcementOperationActivationErr'' w1))"

definition handleWhenStuckPod ::
  "int \<Rightarrow> server \<Rightarrow> PodWrapper \<Rightarrow> StatefulSetSpecDifference list \<Rightarrow> world \<Rightarrow> outcome \<times> world" where
  "handleWhenStuckPod now srv podWrapper specDifferences w =
     (case activateOperationStepWaitingUntilPodIsNotStuck now (pw_InstanceIndex podWrapper) specDifferences w of
        (Ok, w1) \<Rightarrow>
          (case client_write srv (DeletePod (pw_Pod podWrapper)) w1 of
             (None, w2) \<Rightarrow> (Ok, w2)
           | (Some err, w2) \<Rightarrow> (Err err, RemoveActiveOperation (ErrorEvent ''PodSpecEnforcementErr'' w2)))
      | (r, w1) \<Rightarrow> (r, ErrorEvent ''PodSpecEnforcementOperationActivationErr'' w1))"

definition handleWhenPodSpecNotUpToDateOrNotReady ::
  "int \<Rightarrow> PodWrapper \<Rightarrow> StatefulSetSpecDifference list \<Rightarrow> world \<Rightarrow> outcome \<times> world" where
  "handleWhenPodSpecNotUpToDateOrNotReady now podWrapper specDifferences w =
     (case activateOperationStepStatefulSetPodSpecUpdating now (pw_InstanceIndex podWrapper) specDifferences w of
        (Ok, w1) \<Rightarrow> (Ok, w1)
      | (r, w1) \<Rightarrow> (r, ErrorEvent ''PodSpecEnforcementOperationActivationErr'' w1))"

text \<open>The boolean result: the Pod is ready and runs the expected spec.\<close>

definition verifySpecEnforcementIsAppliedToPod ::
  "StatefulSetSpecEnforcer list \<Rightarrow> int \<Rightarrow> server \<Rightarrow> StatefulSetWrapper \<Rightarrow> StatefulSetSpecDifference list
   \<Rightarrow> world \<Rightarrow> (bool \<times> outcome) \<times> world" where
  "verifySpecEnforcementIsAppliedToPod registry now srv statefulSetWrapper specDifferences w =
     (let podWrapper = sw_Pod statefulSetWrapper in
      case IsSpecUpToDate (pw_Pod podWrapper) (w_spec w) of
        None \<Rightarrow> ((False, Panic), w)
      | Some isPodSpecUpToDate \<Rightarrow>
          if pw_IsStuck podWrapper then
            let (r, w1) = handleWhenStuckPod now srv podWrapper specDifferences w in ((False, r), w1)
          else if \<not> isPodSpecUpToDate \<or> \<not> pw_IsReady podWrapper then
            let (r, w1) = handleWhenPodSpecNotUpToDateOrNotReady now podWrapper specDifferences w in ((False, r), w1)
          else
            let (r, w1) = OnSpecUpdatedSuccessfully registry srv (sw_StatefulSet statefulSetWrapper)
                            (RemoveActiveOperation (InfoEvent ''PodSpecEnforcement'' w))
            in ((True, r), w1))"

section \<open>EnforceSpec\<close>

text \<open>One round of the loop. None: go on with the next StatefulSet; otherwise return.\<close>

definition visit ::
  "StatefulSetSpecEnforcer list \<Rightarrow> int \<Rightarrow> server \<Rightarrow> StatefulSetWrapper \<Rightarrow> world \<Rightarrow> outcome option \<times> world" where
  "visit registry now srv statefulSetWrapper w =
     (let s = sw_StatefulSet statefulSetWrapper; index = sw_InstanceIndex statefulSetWrapper in
      case CheckForSpecDifferences registry srv s w of
        (Crash, w1) \<Rightarrow> (Some Panic, w1)
      | (Fail err, w1) \<Rightarrow> (Some (Err err), w1)
      | (Val specDifferences, w1) \<Rightarrow>
          if hasLastSpecUpdateAttemptTimedOut index w1 \<and> areNewSpecChangesSameAsFailingSpecChanges specDifferences w1
          then (Some Ok, logSpecEnforcementTimedOut w1)
          else
            let w2 = (if hasLastSpecUpdateAttemptTimedOut index w1
                      then logKubegresFeaturesAreReEnabled (RemoveActiveOperation w1) else w1) in
            if AreThereDifferences specDifferences then
              let (r, w3) = enforceSpec_of registry now srv s index specDifferences w2 in (Some r, w3)
            else if isStatefulSetSpecUpdating index w2 then
              (case verifySpecEnforcementIsAppliedToPod registry now srv statefulSetWrapper specDifferences w2 of
                 ((True, Ok), w3) \<Rightarrow> (None, w3)
               | ((_, r), w3) \<Rightarrow> (Some r, w3))
            else (None, w2))"

fun visit_all ::
  "StatefulSetSpecEnforcer list \<Rightarrow> int \<Rightarrow> server \<Rightarrow> StatefulSetWrapper list \<Rightarrow> world \<Rightarrow> outcome \<times> world" where
  "visit_all registry now srv [] w = (Ok, w)"
| "visit_all registry now srv (s # ss) w =
     (case visit registry now srv s w of
        (None, w1) \<Rightarrow> visit_all registry now srv ss w1
      | (Some r, w1) \<Rightarrow> (r, w1))"

definition AllStatefulSets_EnforceSpec ::
  "StatefulSetSpecEnforcer list \<Rightarrow> int \<Rightarrow> server \<Rightarrow> world \<Rightarrow> outcome \<times> world" where
  "AllStatefulSets_EnforceSpec registry now srv w =
     (if \<not> all_isStandbyEnabled w \<and> \<not> all_isPrimaryDbReady w then (Ok, w)
      else if IsActiveOperationIdDifferentOf OperationIdStatefulSetSpecEnforcing w then (Ok, w)
      else visit_all registry now srv (getAllReverseSortedByInstanceIndex w) w)"

section \<open>What the registry reads and writes\<close>

text \<open>The spec, the metadata and the resource states are the same.\<close>

definition same_context :: "world \<Rightarrow> world \<Rightarrow> bool" where
  "same_context w v \<longleftrightarrow> w_states v = w_states w \<and> w_spec v = w_spec w \<and>
     kg_meta (w_kubegres v) = kg_meta (w_kubegres w)"

lemma same_context_refl [simp]: "same_context w w"
  by (simp add: same_context_def)

lemma same_context_trans: "same_context u v \<Longrightarrow> same_context v w \<Longrightarrow> same_context u w"
  by (simp add: same_context_def)

lemma same_context_fields:
  assumes "same_context w v"
  shows "w_states v = w_states w" "w_spec v = w_spec w" "kg_meta (w_kubegres v) = kg_meta (w_kubegres w)"
  using assms by (simp_all add: same_context_def)

lemma ConfigureStatefulSet_cong: "same_context w v \<Longrightarrow> ConfigureStatefulSet v s = ConfigureStatefulSet w s"
proof -
  assume c: "same_context w v"
  have g: "getSpecCustomConfig v = getSpecCustomConfig w"
    by (simp add: getSpecCustomConfig_def same_context_fields [OF c])
  then have a: "addNewConfigMapVolumeWithSpecValue v = addNewConfigMapVolumeWithSpecValue w"
    by (simp add: fun_eq_iff addNewConfigMapVolumeWithSpecValue_def createConfigMapVolume_def)
  have "configure_volume v acc t = configure_volume w acc t" for acc t
    unfolding configure_volume_def g a same_context_fields(1) [OF c] by simp
  then show ?thesis by (simp add: ConfigureStatefulSet_def same_context_fields [OF c])
qed

lemma getExpectedPrimaryServiceName_cong:
  "same_context w v \<Longrightarrow> getExpectedPrimaryServiceName v = getExpectedPrimaryServiceName w"
  by (simp add: getExpectedPrimaryServiceName_def GetServiceResourceName_def same_context_fields)

lemma check_cong:
  assumes "same_context w v" "e \<in> set addStatefulSetSpecEnforcers"
  shows "CheckForSpecDifference e srv v s = CheckForSpecDifference e srv w s"
  using assms(2) same_context_fields [OF assms(1)] ConfigureStatefulSet_cong [OF assms(1)]
    getExpectedPrimaryServiceName_cong [OF assms(1)]
  by (auto simp: addStatefulSetSpecEnforcers_def simple_enforcer_def enforcer_defs
      Resources_CheckForSpecDifference_def Volume_CheckForSpecDifference_def CustomMetadata_CheckForSpecDifference_def
      StorageClassSize_CheckForSpecDifference_def CustomConfig_CheckForSpecDifference_def split: option.splits)

lemma collect_cong:
  assumes "same_context w v"
  shows "collect_differences addStatefulSetSpecEnforcers srv v s = collect_differences addStatefulSetSpecEnforcers srv w s"
proof -
  have "set es \<subseteq> set addStatefulSetSpecEnforcers \<Longrightarrow> collect_differences es srv v s = collect_differences es srv w s" for es
    by (induction es) (simp_all add: check_cong [OF assms])
  then show ?thesis by blast
qed

text \<open>No enforcer of the registry sends a request of its own, and none touches the identity of the StatefulSet.\<close>

definition quiet :: "StatefulSetSpecEnforcer \<Rightarrow> bool" where
  "quiet e \<longleftrightarrow> (\<forall>srv w s. CheckForSpecDifference e srv w s = Some no_difference) \<or>
     (\<exists>f. EnforceSpec e = no_api f \<and> (\<forall>w s b s'. f w s = Some (b, s') \<longrightarrow> same_identity s s'))"

lemma quiet_simple: "(\<And>w s b s'. f w s = Some (b, s') \<Longrightarrow> same_identity s s') \<Longrightarrow> quiet (simple_enforcer n c f)"
  by (auto simp: quiet_def simple_enforcer_def)

lemma quiet_port: "quiet e \<Longrightarrow> quiet (e\<lparr>OnSpecEnforcedSuccessfully := g\<rparr>)"
  by (simp add: quiet_def)

lemma registry_quiet: "e \<in> set addStatefulSetSpecEnforcers \<Longrightarrow> quiet e"
  unfolding addStatefulSetSpecEnforcers_def
  by (auto intro!: quiet_simple quiet_port
      intro: image.keeps_identity port.keeps_identity affinity.keeps_identity
        tolerations.keeps_identity security_context.keeps_identity liveness.keeps_identity readiness.keeps_identity
        service_account.keeps_identity endpoint.keeps_identity config.keeps_identity resources.keeps_identity
        volume.keeps_identity metadata.keeps_identity)
    (simp add: quiet_def StorageClassSize_CheckForSpecDifference_def)

lemma enforce_loop_quiet:
  assumes "\<forall>e \<in> set es. quiet e" "enforce_loop es srv (u, s) w = (x, w')"
  shows "w' = w \<and> (\<forall>err. x \<noteq> Fail err) \<and> (\<forall>u' s'. x = Val (u', s') \<longrightarrow> same_identity s s')"
  using assms
proof (induction es arbitrary: u s)
  case (Cons e es)
  show ?case
  proof (cases "CheckForSpecDifference e srv w s")
    case None
    then show ?thesis using Cons.prems by simp
  next
    case (Some d)
    show ?thesis
    proof (cases "IsThereDifference d")
      case True
      then obtain f where f: "EnforceSpec e = no_api f" "\<And>w s b s'. f w s = Some (b, s') \<Longrightarrow> same_identity s s'"
        using Cons.prems(1) Some by (fastforce simp: quiet_def)
      show ?thesis
      proof (cases "f w s")
        case None
        then show ?thesis using Cons.prems Some True by (auto simp: f no_api_def res_bind_def)
      next
        case (Some bs)
        obtain b s1 where "f w s = Some (b, s1)" using Some by (cases bs) simp
        then have "enforce_loop es srv (if b then u @ [d] else u, s1) w = (x, w')" "same_identity s s1"
          using Cons.prems(2) \<open>CheckForSpecDifference e srv w s = Some d\<close> True by (auto simp: f(1) no_api_def res_bind_def dest: f(2))
        with Cons.IH Cons.prems(1) show ?thesis by (fastforce simp: same_identity_def)
      qed
    next
      case False
      then show ?thesis using Cons.IH [of u s] Cons.prems Some by simp
    qed
  qed
qed auto

text \<open>A step that leaves the context and the operations alone.\<close>

definition op_frame :: "world \<Rightarrow> world \<Rightarrow> bool" where
  "op_frame w w' \<longleftrightarrow> same_context w w' \<and> w_activeOperation w' = w_activeOperation w \<and>
     w_previouslyActiveOperation w' = w_previouslyActiveOperation w \<and> w_configs w' = w_configs w \<and> w_status w' = w_status w \<and>
     w_statusFieldsToUpdate w' = w_statusFieldsToUpdate w"

lemma op_frame_refl [simp]: "op_frame w w"
  by (simp add: op_frame_def)

lemma op_frame_trans: "op_frame u v \<Longrightarrow> op_frame v w \<Longrightarrow> op_frame u w"
  by (auto simp: op_frame_def intro: same_context_trans)

lemma op_frame_events [simp]:
  "op_frame w (InfoEvent r v) \<longleftrightarrow> op_frame w v" "op_frame w (ErrorEvent r v) \<longleftrightarrow> op_frame w v"
  "op_frame w (record_events es v) \<longleftrightarrow> op_frame w v" "op_frame w (v\<lparr>w_calls := cs\<rparr>) \<longleftrightarrow> op_frame w v"
  by (simp_all add: op_frame_def same_context_def)

lemma StatefulSets_EnforceSpec_effect:
  assumes "StatefulSets_EnforceSpec addStatefulSetSpecEnforcers srv s w = (r, w')"
  shows "op_frame w w' \<and>
    (w_calls w' = w_calls w \<or> (\<exists>s'. same_identity s s' \<and> w_calls w' = w_calls w @ [UpdateStatefulSet s']))"
proof -
  obtain x w1 where x: "enforce_loop addStatefulSetSpecEnforcers srv ([], s) w = (x, w1)" by fastforce
  note q = enforce_loop_quiet [OF _ x]
  show ?thesis using assms x q registry_quiet
    by (cases x) (auto simp: StatefulSets_EnforceSpec_def client_write_def logUpdatedSpecDifferences_def
        simp del: not_ex split: if_splits option.splits)
qed

text \<open>What every enforcer that acts on a difference keeps, the whole pass keeps.\<close>

lemma enforce_loop_keeps:
  assumes "\<forall>e \<in> set es. \<forall>d s b s'. CheckForSpecDifference e srv w s = Some d \<longrightarrow> IsThereDifference d \<longrightarrow>
      EnforceSpec e srv s w = (Val (b, s'), w) \<longrightarrow> P s \<longrightarrow> P s'"
    and "\<forall>e \<in> set es. quiet e" "enforce_loop es srv (u, s) w = (Val (u', s'), w')" "P s"
  shows "P s'"
  using assms
proof (induction es arbitrary: u s)
  case (Cons e es)
  note p = Cons.prems(1,2) [unfolded list.set ball_simps(7)]
  note IH = Cons.IH [OF p(1) [THEN conjunct2] p(2) [THEN conjunct2]]
  obtain d where d: "CheckForSpecDifference e srv w s = Some d" using Cons.prems(3) by (auto split: option.splits)
  show ?case
  proof (cases "IsThereDifference d")
    case True
    then obtain f where f: "EnforceSpec e = no_api f" using Cons.prems(2) d by (fastforce simp: quiet_def)
    then obtain b s1 where s1: "f w s = Some (b, s1)" "enforce_loop es srv (if b then u @ [d] else u, s1) w = (Val (u', s'), w')"
      using Cons.prems(3) d True by (cases "f w s") (auto simp: no_api_def res_bind_def)
    have "EnforceSpec e srv s w = (Val (b, s1), w)" using f s1(1) by (simp add: no_api_def)
    then have "P s1" using Cons.prems(1,4) d True by simp
    then show ?thesis using IH [OF s1(2)] by simp
  next
    case False
    then show ?thesis using IH Cons.prems(3,4) d by simp
  qed
qed simp

lemma enforcers_keep_meta:
  "Image_EnforceSpec w s = Some (b, s') \<Longrightarrow> sts_meta s' = sts_meta s"
  "Port_EnforceSpec w s = Some (b, s') \<Longrightarrow> sts_meta s' = sts_meta s"
  "CustomConfig_EnforceSpec w s = Some (b, s') \<Longrightarrow> sts_meta s' = sts_meta s"
  "Affinity_EnforceSpec w s = Some (b, s') \<Longrightarrow> sts_meta s' = sts_meta s"
  "Tolerations_EnforceSpec w s = Some (b, s') \<Longrightarrow> sts_meta s' = sts_meta s"
  "Resources_EnforceSpec w s = Some (b, s') \<Longrightarrow> sts_meta s' = sts_meta s"
  "Volume_EnforceSpec w s = Some (b, s') \<Longrightarrow> sts_meta s' = sts_meta s"
  "SecurityContext_EnforceSpec w s = Some (b, s') \<Longrightarrow> sts_meta s' = sts_meta s"
  "LivenessProbe_EnforceSpec w s = Some (b, s') \<Longrightarrow> sts_meta s' = sts_meta s"
  "ReadinessProbe_EnforceSpec w s = Some (b, s') \<Longrightarrow> sts_meta s' = sts_meta s"
  "ServiceAccountName_EnforceSpec w s = Some (b, s') \<Longrightarrow> sts_meta s' = sts_meta s"
  "StandbyPrimaryEndpoint_EnforceSpec w s = Some (b, s') \<Longrightarrow> sts_meta s' = sts_meta s"
proof -
  show "Volume_EnforceSpec w s = Some (b, s') \<Longrightarrow> sts_meta s' = sts_meta s"
    using Volume_EnforceSpec_container [of w s b s'] Volume_EnforceSpec_effect [of s _ w] by fastforce
  show "CustomConfig_EnforceSpec w s = Some (b, s') \<Longrightarrow> sts_meta s' = sts_meta s"
    by (auto simp: CustomConfig_EnforceSpec_def bind_eq_Some_conv dest!: ConfigureStatefulSet_only_config only_config_fields(1))
qed (auto simp: Image_EnforceSpec_def Port_EnforceSpec_def Affinity_EnforceSpec_def Tolerations_EnforceSpec_def Resources_EnforceSpec_def
    SecurityContext_EnforceSpec_def LivenessProbe_EnforceSpec_def ReadinessProbe_EnforceSpec_def ServiceAccountName_EnforceSpec_def
    StandbyPrimaryEndpoint_EnforceSpec_def bind_eq_Some_conv elim!: upd_container0_Some upd_init0_Some)

lemma stale_label_enforced:
  assumes "e \<in> set addStatefulSetSpecEnforcers" "CheckForSpecDifference e srv w s = Some d" "IsThereDifference d"
    and "EnforceSpec e srv s w = (Val (b, s'), w)" "stale_label w s k v"
  shows "stale_label w s' k v"
proof -
  have m: "stale_label w s' k v" if "sts_meta s' = sts_meta s" using stale_label_meta [OF that] assms(5) by simp
  show ?thesis
    using assms(1-4) stale_label_kept [OF assms(5), of b s']
    by (auto simp: addStatefulSetSpecEnforcers_def simple_enforcer_def no_api_def StorageClassSize_CheckForSpecDifference_def
        dest!: enforcers_keep_meta intro: m split: option.splits)
qed

lemma stale_label_collect:
  assumes "stale_label w s k v"
  shows "collect_differences addStatefulSetSpecEnforcers srv w s \<noteq> Some []"
proof
  assume c: "collect_differences addStatefulSetSpecEnforcers srv w s = Some []"
  have "collect_differences es srv w s = Some [] \<Longrightarrow> \<forall>e \<in> set es. \<forall>d. CheckForSpecDifference e srv w s = Some d \<longrightarrow> \<not> IsThereDifference d" for es
    by (induction es) (auto simp: bind_eq_Some_conv split: if_splits)
  from this [OF c] stale_label_differs [OF assms, of srv] show False
    by (auto simp: addStatefulSetSpecEnforcers_def simple_enforcer_def)
qed

fun deletes_service :: "api_call \<Rightarrow> bool" where
  "deletes_service (DeleteService _) = True"
| "deletes_service _ = False"

lemma OnSpecUpdatedSuccessfully_registry:
  "OnSpecUpdatedSuccessfully addStatefulSetSpecEnforcers srv s = Port_OnSpecEnforcedSuccessfully srv s"
proof
  fix w
  have n: "and_then (nothing srv s) g v = g v" for g :: "world \<Rightarrow> outcome \<times> world" and v
    by (simp add: nothing_def)
  obtain r w1 where r: "Port_OnSpecEnforcedSuccessfully srv s w = (r, w1)" by fastforce
  then show "OnSpecUpdatedSuccessfully addStatefulSetSpecEnforcers srv s w = Port_OnSpecEnforcedSuccessfully srv s w"
    by (cases r) (simp_all add: OnSpecUpdatedSuccessfully_def addStatefulSetSpecEnforcers_def simple_enforcer_def n
        and_then_stop nothing_def)
qed

lemma Port_OnSpecEnforcedSuccessfully_effect:
  "Port_OnSpecEnforcedSuccessfully srv s w = (r, w') \<Longrightarrow> op_frame w w' \<and> appends deletes_service w w'"
  by (auto simp: Port_OnSpecEnforcedSuccessfully_def port_deleteService_def client_write_def Let_def appends_def
      split: option.splits bool.splits if_splits)

lemma CheckForSpecDifferences_effect:
  "CheckForSpecDifferences registry srv s w = (r, w') \<Longrightarrow> op_frame w w' \<and> w_calls w' = w_calls w"
  by (auto simp: CheckForSpecDifferences_def logSpecDifferences_def split: option.splits)

section \<open>What one round of the loop does\<close>

text \<open>
  After a request: the operation is held for that instance when the request was accepted, and
  released when it was rejected.
\<close>

definition holds_after :: "int \<Rightarrow> outcome \<Rightarrow> world \<Rightarrow> bool" where
  "holds_after index r w \<longleftrightarrow>
     (if r = Ok then activeId w = OperationIdStatefulSetSpecEnforcing \<and> getUpdatingInstanceIndex (w_activeOperation w) = index
      else activeId w = '''')"

lemma zero_Operation_id [simp]: "op_OperationId zero_Operation = ''''"
  by (simp add: zero_Operation_def)

lemma ActivateOnSpecUpdate_effect:
  assumes "ActivateOperationOnStatefulSetSpecUpdate now oid step index d w = (r, w1)"
  shows "same_context w w1 \<and> w_calls w1 = w_calls w \<and> (r = Ok \<longrightarrow> activeId w1 = oid \<and> getUpdatingInstanceIndex (w_activeOperation w1) = index)"
  using activateOperation_frame [OF assms [unfolded ActivateOperationOnStatefulSetSpecUpdate_def]]
    activateOperation_success(1) [of now _ w w1] assms
  by (auto simp: ActivateOperationOnStatefulSetSpecUpdate_def same_context_def activeId_def getUpdatingInstanceIndex_def
      createOperationObj_def createStatefulSetOperationObj_def)

lemma same_context_simps [simp]:
  "same_context w (InfoEvent e v) \<longleftrightarrow> same_context w v" "same_context w (ErrorEvent e v) \<longleftrightarrow> same_context w v"
  "same_context w (RemoveActiveOperation v) \<longleftrightarrow> same_context w v" "same_context w (v\<lparr>w_calls := cs\<rparr>) \<longleftrightarrow> same_context w v"
  by (simp_all add: same_context_def)

lemma enforceSpec_of_effect:
  assumes "enforceSpec_of addStatefulSetSpecEnforcers now srv s index ds w = (r, w')"
  shows "same_context w w' \<and> (w_calls w' = w_calls w \<or>
    (\<exists>s'. same_identity s s' \<and> w_calls w' = w_calls w @ [UpdateStatefulSet s'] \<and> holds_after index r w'))"
proof -
  obtain r1 w1 where 1: "activateOperationStepStatefulSetSpecUpdating now index ds w = (r1, w1)" by fastforce
  note a = ActivateOnSpecUpdate_effect [OF 1 [unfolded activateOperationStepStatefulSetSpecUpdating_def]]
  show ?thesis
  proof (cases "r1 = Ok")
    case True
    obtain r2 w2 where 2: "StatefulSets_EnforceSpec addStatefulSetSpecEnforcers srv s w1 = (r2, w2)" by fastforce
    note e = StatefulSets_EnforceSpec_effect [OF 2]
    have f: "w_activeOperation w2 = w_activeOperation w1" "same_context w w2"
      using e a by (auto simp: op_frame_def intro: same_context_trans)
    have "r2 = Panic \<Longrightarrow> w_calls w2 = w_calls w1"
      using 2 enforce_loop_quiet [of addStatefulSetSpecEnforcers srv "[]" s w1] registry_quiet
      by (auto simp: StatefulSets_EnforceSpec_def client_write_def split: prod.splits res.splits if_splits option.splits)
    with a e f 1 2 True assms show ?thesis
      by (cases r2) (auto simp: enforceSpec_of_def holds_after_def activeId_def)
  next
    case False
    with a 1 assms show ?thesis by (cases r1) (auto simp: enforceSpec_of_def)
  qed
qed

lemma handleWhenStuckPod_effect:
  assumes "handleWhenStuckPod now srv p ds w = (r, w')"
  shows "same_context w w' \<and> (w_calls w' = w_calls w \<or>
    w_calls w' = w_calls w @ [DeletePod (pw_Pod p)] \<and> holds_after (pw_InstanceIndex p) r w')"
proof -
  obtain r1 w1 where 1: "activateOperationStepWaitingUntilPodIsNotStuck now (pw_InstanceIndex p) ds w = (r1, w1)" by fastforce
  with ActivateOnSpecUpdate_effect [OF 1 [unfolded activateOperationStepWaitingUntilPodIsNotStuck_def]] assms show ?thesis
    by (cases r1) (auto simp: handleWhenStuckPod_def client_write_def holds_after_def activeId_def split: option.splits)
qed

lemma handleWhenPodNotReady_effect:
  assumes "handleWhenPodSpecNotUpToDateOrNotReady now p ds w = (r, w')"
  shows "same_context w w' \<and> w_calls w' = w_calls w"
proof -
  obtain r1 w1 where 1: "activateOperationStepStatefulSetPodSpecUpdating now (pw_InstanceIndex p) ds w = (r1, w1)" by fastforce
  with ActivateOnSpecUpdate_effect [OF 1 [unfolded activateOperationStepStatefulSetPodSpecUpdating_def]] assms show ?thesis
    by (cases r1) (auto simp: handleWhenPodSpecNotUpToDateOrNotReady_def)
qed

text \<open>The Pod of a StatefulSet is ready, not stuck and runs the image and the port of the spec.\<close>

definition rolled_out :: "world \<Rightarrow> StatefulSetWrapper \<Rightarrow> bool" where
  "rolled_out w s \<longleftrightarrow> pw_IsReady (sw_Pod s) \<and> \<not> pw_IsStuck (sw_Pod s) \<and> IsSpecUpToDate (pw_Pod (sw_Pod s)) (w_spec w) = Some True"

lemma rolled_out_cong: "same_context w v \<Longrightarrow> rolled_out v s = rolled_out w s"
  by (simp add: rolled_out_def same_context_fields)

lemma verify_effect:
  assumes "verifySpecEnforcementIsAppliedToPod addStatefulSetSpecEnforcers now srv s ds w = ((b, r), w')"
  shows "same_context w w' \<and> (appends deletes_service w w' \<or>
    pw_IsStuck (sw_Pod s) \<and> w_calls w' = w_calls w @ [DeletePod (pw_Pod (sw_Pod s))] \<and>
    holds_after (pw_InstanceIndex (sw_Pod s)) r w' \<and> \<not> b) \<and>
    (b \<longrightarrow> rolled_out w s \<and> activeId w' = '''')"
proof (cases "IsSpecUpToDate (pw_Pod (sw_Pod s)) (w_spec w)")
  case None
  with assms show ?thesis by (simp add: verifySpecEnforcementIsAppliedToPod_def)
next
  case (Some u)
  consider "pw_IsStuck (sw_Pod s)" | "\<not> pw_IsStuck (sw_Pod s)" "\<not> u \<or> \<not> pw_IsReady (sw_Pod s)"
    | "\<not> pw_IsStuck (sw_Pod s)" "u" "pw_IsReady (sw_Pod s)" by blast
  then show ?thesis
  proof cases
    case 1
    then have "handleWhenStuckPod now srv (sw_Pod s) ds w = (r, w')" "\<not> b"
      using assms Some by (auto simp: verifySpecEnforcementIsAppliedToPod_def split: prod.splits)
    with handleWhenStuckPod_effect 1 show ?thesis by (blast intro: appends_same)
  next
    case 2
    then have "handleWhenPodSpecNotUpToDateOrNotReady now (sw_Pod s) ds w = (r, w')" "\<not> b"
      using assms Some by (auto simp: verifySpecEnforcementIsAppliedToPod_def split: prod.splits)
    with handleWhenPodNotReady_effect show ?thesis by (blast intro: appends_same)
  next
    case 3
    then have "Port_OnSpecEnforcedSuccessfully srv (sw_StatefulSet s) (RemoveActiveOperation (InfoEvent ''PodSpecEnforcement'' w)) = (r, w')"
      using assms Some by (auto simp: verifySpecEnforcementIsAppliedToPod_def OnSpecUpdatedSuccessfully_registry split: prod.splits)
    from Port_OnSpecEnforcedSuccessfully_effect [OF this] 3 Some show ?thesis
      by (auto simp: op_frame_def same_context_def appends_def rolled_out_def activeId_def)
  qed
qed

text \<open>The requests with which one round may end the loop.\<close>

definition sends_one :: "server \<Rightarrow> StatefulSetWrapper \<Rightarrow> world \<Rightarrow> outcome \<Rightarrow> world \<Rightarrow> bool" where
  "sends_one srv s w r w' \<longleftrightarrow>
     (\<exists>s'. same_identity (sw_StatefulSet s) s' \<and> w_calls w' = w_calls w @ [UpdateStatefulSet s'] \<and>
        holds_after (sw_InstanceIndex s) r w' \<and>
        (\<exists>d ds. collect_differences addStatefulSetSpecEnforcers srv w (sw_StatefulSet s) = Some (d # ds))) \<or>
     (pw_IsStuck (sw_Pod s) \<and> w_calls w' = w_calls w @ [DeletePod (pw_Pod (sw_Pod s))] \<and>
        holds_after (pw_InstanceIndex (sw_Pod s)) r w')"

lemma visit_cases:
  assumes "visit addStatefulSetSpecEnforcers now srv s w = (ro, w')"
  obtains (panics) "ro = Some Panic" "w' = w"
  | (refuses) "ro = Some Ok" "same_context w w'" "w_calls w' = w_calls w"
  | (enforces) r d ds v where "ro = Some r" "collect_differences addStatefulSetSpecEnforcers srv w (sw_StatefulSet s) = Some (d # ds)"
      "same_context w v" "w_calls v = w_calls w"
      "enforceSpec_of addStatefulSetSpecEnforcers now srv (sw_StatefulSet s) (sw_InstanceIndex s) (d # ds) v = (r, w')"
  | (verifies) b r v where "collect_differences addStatefulSetSpecEnforcers srv w (sw_StatefulSet s) = Some []"
      "op_frame w v" "w_calls v = w_calls w" "isStatefulSetSpecUpdating (sw_InstanceIndex s) w"
      "verifySpecEnforcementIsAppliedToPod addStatefulSetSpecEnforcers now srv s [] v = ((b, r), w')"
      "ro = (if b \<and> r = Ok then None else Some r)"
  | (passes) "ro = None" "collect_differences addStatefulSetSpecEnforcers srv w (sw_StatefulSet s) = Some []"
      "same_context w w'" "w_calls w' = w_calls w"
      "op_frame w w' \<and> \<not> isStatefulSetSpecUpdating (sw_InstanceIndex s) w \<or> activeId w' = '''' \<and> op_HasTimedOut (w_activeOperation w)"
proof (cases "collect_differences addStatefulSetSpecEnforcers srv w (sw_StatefulSet s)")
  case None
  with assms show ?thesis by (intro panics) (auto simp: visit_def CheckForSpecDifferences_def)
next
  case (Some ds)
  define w1 where "w1 = logSpecDifferences ds w"
  have w1: "CheckForSpecDifferences addStatefulSetSpecEnforcers srv (sw_StatefulSet s) w = (Val ds, w1)"
    "op_frame w w1" "w_calls w1 = w_calls w" "same_context w w1"
    using CheckForSpecDifferences_effect [of addStatefulSetSpecEnforcers srv "sw_StatefulSet s" w]
    by (auto simp: CheckForSpecDifferences_def Some w1_def op_frame_def)
  then have q: "hasLastSpecUpdateAttemptTimedOut i w1 = hasLastSpecUpdateAttemptTimedOut i w"
    "isStatefulSetSpecUpdating i w1 = isStatefulSetSpecUpdating i w" for i
    by (simp_all add: hasLastSpecUpdateAttemptTimedOut_def isStatefulSetSpecUpdating_def op_defs op_frame_def)
  note simps = visit_def Let_def w1(1) AreThereDifferences_def
  let ?i = "sw_InstanceIndex s"
  define t where "t = hasLastSpecUpdateAttemptTimedOut ?i w"
  define w2 where "w2 = (if t then logKubegresFeaturesAreReEnabled (RemoveActiveOperation w1) else w1)"
  have w2: "same_context w w2" "w_calls w2 = w_calls w" "t \<Longrightarrow> \<not> isStatefulSetSpecUpdating ?i w2"
    using w1 by (auto simp: w2_def logKubegresFeaturesAreReEnabled_def isStatefulSetSpecUpdating_def op_defs zero_Operation_def)
  consider (same) "t \<and> areNewSpecChangesSameAsFailingSpecChanges ds w1"
    | (ds) "\<not> (t \<and> areNewSpecChangesSameAsFailingSpecChanges ds w1)" "ds \<noteq> []"
    | (upd) "\<not> t" "ds = []" "isStatefulSetSpecUpdating ?i w"
    | (pass) "\<not> (t \<and> areNewSpecChangesSameAsFailingSpecChanges ds w1)" "ds = []" "t \<or> \<not> isStatefulSetSpecUpdating ?i w" by blast
  then show ?thesis
  proof cases
    case same
    then show ?thesis using assms w1 by (intro refuses) (auto simp: simps q t_def logSpecEnforcementTimedOut_def)
  next
    case ds
    then obtain d ds' where d: "ds = d # ds'" by (cases ds) auto
    with ds assms have "enforceSpec_of addStatefulSetSpecEnforcers now srv (sw_StatefulSet s) ?i (d # ds') w2 = (the ro, w')" "ro \<noteq> None"
      by (auto simp: simps q t_def [symmetric] w2_def split: if_splits prod.splits)
    then show ?thesis using Some d w2 by (intro enforces) auto
  next
    case upd
    obtain b r v where v: "verifySpecEnforcementIsAppliedToPod addStatefulSetSpecEnforcers now srv s [] w1 = ((b, r), v)" by (metis prod.exhaust)
    with upd assms have "w' = v" "ro = (if b \<and> r = Ok then None else Some r)"
      by (cases b; cases r; auto simp: simps q t_def)+
    then show ?thesis using Some upd w1 v by (intro verifies) auto
  next
    case pass
    then have "ro = None \<and> w' = w2" using assms w2(3) by (auto simp: simps q t_def [symmetric] w2_def split: if_splits)
    moreover have "op_frame w w2 \<and> \<not> isStatefulSetSpecUpdating ?i w \<or> activeId w2 = '''' \<and> op_HasTimedOut (w_activeOperation w)"
      using pass w1 by (cases t) (auto simp: w2_def t_def hasLastSpecUpdateAttemptTimedOut_def op_defs activeId_def logKubegresFeaturesAreReEnabled_def)
    ultimately show ?thesis using Some pass w2 by (intro passes) auto
  qed
qed

lemma sends_one_cong:
  assumes "same_context w v" "sends_one srv s v r w'" "w_calls v = w_calls w"
  shows "sends_one srv s w r w'"
  using assms collect_cong [OF assms(1)] by (simp add: sends_one_def)

lemma visit_Some:
  assumes "visit addStatefulSetSpecEnforcers now srv s w = (Some r, w')"
  shows "same_context w w' \<and> (appends deletes_service w w' \<or> sends_one srv s w r w')"
  using assms
proof (cases rule: visit_cases)
  case (enforces r' d ds v)
  then have "same_context w w'" "appends deletes_service v w' \<or> sends_one srv s v r w'"
    using enforceSpec_of_effect [OF enforces(5)] collect_cong [OF enforces(3)]
    by (auto simp: sends_one_def intro: same_context_trans appends_same)
  with enforces show ?thesis using sends_one_cong by (auto simp: appends_def)
next
  case (verifies b r' v)
  have c: "same_context w v" using verifies by (simp add: op_frame_def)
  have "same_context w w'" "appends deletes_service v w' \<or> sends_one srv s v r w'"
    using verify_effect [OF verifies(5)] verifies(6) c by (auto simp: sends_one_def intro: same_context_trans split: if_splits)
  with verifies c show ?thesis using sends_one_cong by (auto simp: appends_def)
qed (auto intro: appends_same)

lemma visit_None:
  assumes "visit addStatefulSetSpecEnforcers now srv s w = (None, w')"
  shows "same_context w w'" "appends deletes_service w w'"
    "collect_differences addStatefulSetSpecEnforcers srv w (sw_StatefulSet s) = Some []"
    "\<not> op_HasTimedOut (w_activeOperation w) \<Longrightarrow>
       (isStatefulSetSpecUpdating (sw_InstanceIndex s) w \<longrightarrow> rolled_out w s) \<and> \<not> op_HasTimedOut (w_activeOperation w') \<and>
       (i \<noteq> sw_InstanceIndex s \<longrightarrow> isStatefulSetSpecUpdating i w' = isStatefulSetSpecUpdating i w)"
proof -
  have "same_context w w' \<and> appends deletes_service w w' \<and>
    collect_differences addStatefulSetSpecEnforcers srv w (sw_StatefulSet s) = Some [] \<and>
    (\<not> op_HasTimedOut (w_activeOperation w) \<longrightarrow>
       (isStatefulSetSpecUpdating (sw_InstanceIndex s) w \<longrightarrow> rolled_out w s) \<and> \<not> op_HasTimedOut (w_activeOperation w') \<and>
       (i \<noteq> sw_InstanceIndex s \<longrightarrow> isStatefulSetSpecUpdating i w' = isStatefulSetSpecUpdating i w))"
    using assms
  proof (cases rule: visit_cases)
    case (verifies b r v)
    have c: "same_context w v" using verifies by (simp add: op_frame_def)
    have b: "b" "r = Ok" using verifies(6) by (auto split: if_splits)
    then have "Port_OnSpecEnforcedSuccessfully srv (sw_StatefulSet s) (RemoveActiveOperation (InfoEvent ''PodSpecEnforcement'' v)) = (Ok, w')"
      using verifies(5) by (auto simp: verifySpecEnforcementIsAppliedToPod_def OnSpecUpdatedSuccessfully_registry Let_def
          split: option.splits prod.splits if_splits)
    then have "w_activeOperation w' = zero_Operation"
      using Port_OnSpecEnforcedSuccessfully_effect by (fastforce simp: op_frame_def)
    with verify_effect [OF verifies(5)] verifies(1-4) b c show ?thesis
      by (auto simp: rolled_out_cong [OF c] isStatefulSetSpecUpdating_def op_defs zero_Operation_def appends_def intro: same_context_trans)
  next
    case passes
    then show ?thesis
      by (auto simp: op_frame_def isStatefulSetSpecUpdating_def op_defs intro: appends_same)
  qed auto
  then show "same_context w w'" "appends deletes_service w w'"
    "collect_differences addStatefulSetSpecEnforcers srv w (sw_StatefulSet s) = Some []"
    "\<not> op_HasTimedOut (w_activeOperation w) \<Longrightarrow>
       (isStatefulSetSpecUpdating (sw_InstanceIndex s) w \<longrightarrow> rolled_out w s) \<and> \<not> op_HasTimedOut (w_activeOperation w') \<and>
       (i \<noteq> sw_InstanceIndex s \<longrightarrow> isStatefulSetSpecUpdating i w' = isStatefulSetSpecUpdating i w)"
    by blast+
qed

section \<open>The whole loop\<close>

text \<open>A StatefulSet that the loop has passed: nothing differs, and its own update has reached the Pod.\<close>

definition passed :: "server \<Rightarrow> world \<Rightarrow> StatefulSetWrapper \<Rightarrow> bool" where
  "passed srv w s \<longleftrightarrow> collect_differences addStatefulSetSpecEnforcers srv w (sw_StatefulSet s) = Some [] \<and>
     (isStatefulSetSpecUpdating (sw_InstanceIndex s) w \<longrightarrow> rolled_out w s)"

lemma visit_all_effect:
  assumes "visit_all addStatefulSetSpecEnforcers now srv ss w = (r, w')" "\<not> op_HasTimedOut (w_activeOperation w)"
    "distinct (map sw_InstanceIndex ss)"
  shows "same_context w w' \<and> (appends deletes_service w w' \<or>
    (\<exists>pre s post v. ss = pre @ s # post \<and> same_context w v \<and> appends deletes_service w v \<and> sends_one srv s v r w' \<and>
       (\<forall>p \<in> set pre. passed srv w p)))"
  using assms
proof (induction ss arbitrary: w)
  case (Cons s ss)
  obtain ro w1 where v: "visit addStatefulSetSpecEnforcers now srv s w = (ro, w1)" by fastforce
  show ?case
  proof (cases ro)
    case None
    note n = visit_None [OF v [unfolded None]]
    have s: "passed srv w s" "\<not> op_HasTimedOut (w_activeOperation w1)" using n(3) n(4) [of 0] Cons.prems(2) by (auto simp: passed_def)
    have p: "passed srv w p" if "passed srv w1 p" "p \<in> set ss" for p
    proof -
      have "sw_InstanceIndex p \<noteq> sw_InstanceIndex s" using that(2) Cons.prems(3) by (auto simp: image_iff)
      then show ?thesis using that(1) n(4) [of "sw_InstanceIndex p"] Cons.prems(2)
        by (simp add: passed_def rolled_out_cong [OF n(1)] collect_cong [OF n(1)])
    qed
    have "visit_all addStatefulSetSpecEnforcers now srv ss w1 = (r, w')" using Cons.prems(1) v None by simp
    from Cons.IH [OF this s(2)] Cons.prems(3) have c: "same_context w1 w'" and
      d: "appends deletes_service w1 w' \<or> (\<exists>pre t post v. ss = pre @ t # post \<and> same_context w1 v \<and> appends deletes_service w1 v \<and>
         sends_one srv t v r w' \<and> (\<forall>p \<in> set pre. passed srv w1 p))" by auto
    from d show ?thesis
    proof (elim disjE exE conjE)
      fix pre t post u
      assume a: "ss = pre @ t # post" "same_context w1 u" "appends deletes_service w1 u" "sends_one srv t u r w'"
        "\<forall>p \<in> set pre. passed srv w1 p"
      have "s # ss = (s # pre) @ t # post" "same_context w u" "appends deletes_service w u" "\<forall>x \<in> set (s # pre). passed srv w x"
        using a n(1,2) s p by (auto intro: same_context_trans appends_trans)
      with a(4) c n(1) show ?thesis by (blast intro: same_context_trans)
    qed (use c n in \<open>auto intro: same_context_trans appends_trans\<close>)
  next
    case (Some x)
    with v Cons.prems have "visit addStatefulSetSpecEnforcers now srv s w = (Some r, w')" by simp
    have "s # ss = [] @ s # ss" "same_context w w" "appends deletes_service w w" "\<forall>p \<in> set []. passed srv w p" by simp_all
    with visit_Some [OF \<open>visit _ _ _ _ _ = (Some r, w')\<close>] show ?thesis by blast
  qed
qed simp

section \<open>An outdated StatefulSet is updated\<close>

lemma collect_total: "enforceable srv w s \<Longrightarrow> collect_differences addStatefulSetSpecEnforcers srv w s \<noteq> None"
proof -
  assume e: "enforceable srv w s"
  have "CheckForSpecDifference x srv w s \<noteq> None" if "x \<in> set addStatefulSetSpecEnforcers" for x
    using that e registry_advances [of srv w] by (auto simp: in_set_conv_nth advances_def)
  then have "set es \<subseteq> set addStatefulSetSpecEnforcers \<Longrightarrow> collect_differences es srv w s \<noteq> None" for es
    by (induction es) fastforce+
  then show ?thesis by blast
qed

lemma enforceable_cong: "same_context w v \<Longrightarrow> enforceable srv v s = enforceable srv w s"
  by (simp add: enforceable_def volumes_ready_def quantities_ok_def metadata_ready_def same_context_fields)

definition update_registered :: "world \<Rightarrow> bool" where
  "update_registered w \<longleftrightarrow> doesOperationHaveAssociatedConfig
     (createOperationObj OperationIdStatefulSetSpecEnforcing OperationStepIdStatefulSetSpecUpdating) w"

text \<open>The outcome of a request that the server answers.\<close>

definition answer :: "go_error option \<Rightarrow> outcome" where
  "answer e = (case e of None \<Rightarrow> Ok | Some err \<Rightarrow> Err err)"

lemma answer_simps [simp]: "answer None = Ok" "answer (Some err) = Err err" "answer e = Ok \<longleftrightarrow> e = None"
  by (auto simp: answer_def split: option.splits)

lemma enforceSpec_of_sends:
  assumes "activeId w = ''''" "update_registered w" "enforceable srv w s"
    and "collect_differences addStatefulSetSpecEnforcers srv w s \<noteq> Some []"
  shows "\<exists>s' w'. enforceSpec_of addStatefulSetSpecEnforcers now srv s index ds w =
      (answer (srv_write srv (w_calls w) (UpdateStatefulSet s')), w') \<and>
    w_calls w' = w_calls w @ [UpdateStatefulSet s'] \<and> same_identity s s' \<and>
    collect_differences addStatefulSetSpecEnforcers srv w s' = Some []"
proof -
  have "fst (activateOperationStepStatefulSetSpecUpdating now index ds w) = Ok"
    using assms(1,2) by (simp add: activateOperationStepStatefulSetSpecUpdating_def ActivateOperationOnStatefulSetSpecUpdate_def
        activateOperation_Ok_iff activeId_def update_registered_def doesOperationHaveAssociatedConfig_def getConfig_def createOperationObj_def)
  then obtain w1 where 1: "activateOperationStepStatefulSetSpecUpdating now index ds w = (Ok, w1)" by (metis prod.collapse)
  then have c: "same_context w w1" "w_calls w1 = w_calls w"
    using ActivateOnSpecUpdate_effect [OF 1 [unfolded activateOperationStepStatefulSetSpecUpdating_def]] by auto
  note eq = collect_cong [OF c(1)]
  obtain r w2 where 2: "StatefulSets_EnforceSpec addStatefulSetSpecEnforcers srv s w1 = (r, w2)" by fastforce
  from StatefulSets_EnforceSpec_registry [of srv w1 s] assms(3) obtain s' where
    "same_identity s s'" "collect_differences addStatefulSetSpecEnforcers srv w s' = Some []"
    "r = answer (srv_write srv (w_calls w) (UpdateStatefulSet s'))" "w_calls w2 = w_calls w @ [UpdateStatefulSet s']"
    using assms(4) by (auto simp: enforceable_cong [OF c(1)] eq 2 c(2) Let_def answer_def)
  then show ?thesis
    by (cases "srv_write srv (w_calls w) (UpdateStatefulSet s')") (auto simp: enforceSpec_of_def 1 2 intro!: exI [of _ s'])
qed

lemma visit_up_to_date:
  assumes "activeId w = ''''" "collect_differences addStatefulSetSpecEnforcers srv w (sw_StatefulSet s) = Some []"
  shows "visit addStatefulSetSpecEnforcers now srv s w = (None, w)"
  using assms by (simp add: visit_def CheckForSpecDifferences_def logSpecDifferences_def record_events_def activeId_def
      hasLastSpecUpdateAttemptTimedOut_def isStatefulSetSpecUpdating_def op_defs AreThereDifferences_def OperationIdStatefulSetSpecEnforcing_def)

lemma visit_outdated:
  assumes "activeId w = ''''" "update_registered w" "enforceable srv w (sw_StatefulSet s)"
    and "collect_differences addStatefulSetSpecEnforcers srv w (sw_StatefulSet s) \<noteq> Some []"
  shows "\<exists>s' w'. visit addStatefulSetSpecEnforcers now srv s w = (Some (answer (srv_write srv (w_calls w) (UpdateStatefulSet s'))), w') \<and>
    w_calls w' = w_calls w @ [UpdateStatefulSet s'] \<and> same_identity (sw_StatefulSet s) s' \<and>
    collect_differences addStatefulSetSpecEnforcers srv w s' = Some []"
proof -
  obtain d ds where d: "collect_differences addStatefulSetSpecEnforcers srv w (sw_StatefulSet s) = Some (d # ds)"
    using assms(4) collect_total [OF assms(3)] by (metis neq_Nil_conv not_Some_eq)
  let ?w = "logSpecDifferences (d # ds) w"
  have c: "same_context w ?w" by (simp add: logSpecDifferences_def same_context_def)
  have "\<exists>s' w'. enforceSpec_of addStatefulSetSpecEnforcers now srv (sw_StatefulSet s) (sw_InstanceIndex s) (d # ds) ?w =
      (answer (srv_write srv (w_calls w) (UpdateStatefulSet s')), w') \<and>
    w_calls w' = w_calls w @ [UpdateStatefulSet s'] \<and> same_identity (sw_StatefulSet s) s' \<and>
    collect_differences addStatefulSetSpecEnforcers srv w s' = Some []"
    using enforceSpec_of_sends [of ?w srv "sw_StatefulSet s"] assms enforceable_cong [OF c] collect_cong [OF c]
    by (simp add: activeId_def update_registered_def doesOperationHaveAssociatedConfig_def getConfig_def logSpecDifferences_def)
  moreover have "\<not> hasLastSpecUpdateAttemptTimedOut i ?w" for i
    using assms(1) by (simp add: hasLastSpecUpdateAttemptTimedOut_def op_defs activeId_def logSpecDifferences_def
        OperationIdStatefulSetSpecEnforcing_def)
  ultimately show ?thesis by (auto simp: visit_def CheckForSpecDifferences_def d AreThereDifferences_def)
qed

lemma visit_all_outdated:
  assumes "activeId w = ''''" "update_registered w" "enforceable srv w (sw_StatefulSet s)"
    and "collect_differences addStatefulSetSpecEnforcers srv w (sw_StatefulSet s) \<noteq> Some []"
    and "\<forall>p \<in> set pre. collect_differences addStatefulSetSpecEnforcers srv w (sw_StatefulSet p) = Some []"
  shows "\<exists>s' w'. visit_all addStatefulSetSpecEnforcers now srv (pre @ s # post) w =
      (answer (srv_write srv (w_calls w) (UpdateStatefulSet s')), w') \<and>
    w_calls w' = w_calls w @ [UpdateStatefulSet s'] \<and> same_identity (sw_StatefulSet s) s' \<and>
    collect_differences addStatefulSetSpecEnforcers srv w s' = Some []"
  using assms(5)
proof (induction pre)
  case Nil
  then show ?case using visit_outdated [OF assms(1-4), of now] by auto
next
  case (Cons p pre)
  then show ?case using visit_up_to_date [OF assms(1)] by auto
qed

lemma AllStatefulSets_outdated:
  assumes "all_isStandbyEnabled w \<or> all_isPrimaryDbReady w" "activeId w = ''''" "update_registered w"
    and "getAllReverseSortedByInstanceIndex w = pre @ s # post"
    and "\<forall>p \<in> set pre. collect_differences addStatefulSetSpecEnforcers srv w (sw_StatefulSet p) = Some []"
    and "collect_differences addStatefulSetSpecEnforcers srv w (sw_StatefulSet s) \<noteq> Some []" "enforceable srv w (sw_StatefulSet s)"
  shows "\<exists>s' w'. AllStatefulSets_EnforceSpec addStatefulSetSpecEnforcers now srv w =
      (answer (srv_write srv (w_calls w) (UpdateStatefulSet s')), w') \<and>
    w_calls w' = w_calls w @ [UpdateStatefulSet s'] \<and> same_identity (sw_StatefulSet s) s' \<and>
    collect_differences addStatefulSetSpecEnforcers srv w s' = Some []"
  using assms(1,2) visit_all_outdated [OF assms(2,3,7,6,5), of now post]
  by (auto simp: AllStatefulSets_EnforceSpec_def op_defs activeId_def assms(4))

section \<open>After a time-out\<close>

text \<open>The last enforcement of the spec timed out on this instance.\<close>

definition timed_out_on :: "int \<Rightarrow> world \<Rightarrow> bool" where
  "timed_out_on index w \<longleftrightarrow> activeId w = OperationIdStatefulSetSpecEnforcing \<and> op_HasTimedOut (w_activeOperation w) \<and>
     op_StepId (w_activeOperation w) \<noteq> TransitionOperationStepId \<and> getUpdatingInstanceIndex (w_activeOperation w) = index"

definition failing_differences :: "world \<Rightarrow> string" where
  "failing_differences w = suop_SpecDifferences (op_StatefulSetSpecUpdateOperation (w_activeOperation w))"

lemma visit_other_timed_out:
  assumes "timed_out_on index w" "sw_InstanceIndex p \<noteq> index"
    and "collect_differences addStatefulSetSpecEnforcers srv w (sw_StatefulSet p) = Some []"
  shows "visit addStatefulSetSpecEnforcers now srv p w = (None, w)"
  using assms by (auto simp: visit_def CheckForSpecDifferences_def logSpecDifferences_def record_events_def timed_out_on_def
      hasLastSpecUpdateAttemptTimedOut_def isStatefulSetSpecUpdating_def op_defs AreThereDifferences_def getUpdatingInstanceIndex_def)

lemma visit_all_skips:
  assumes "\<forall>p \<in> set pre. visit addStatefulSetSpecEnforcers now srv p w = (None, w)"
  shows "visit_all addStatefulSetSpecEnforcers now srv (pre @ ss) w = visit_all addStatefulSetSpecEnforcers now srv ss w"
  using assms by (induction pre) auto

lemma visit_timed_out_same:
  assumes "timed_out_on (sw_InstanceIndex s) w"
    and "collect_differences addStatefulSetSpecEnforcers srv w (sw_StatefulSet s) = Some ds"
    and "GetSpecDifferencesAsString ds = failing_differences w"
  shows "visit addStatefulSetSpecEnforcers now srv s w = (Some Ok, logSpecEnforcementTimedOut (logSpecDifferences ds w))"
  using assms by (simp add: visit_def CheckForSpecDifferences_def timed_out_on_def hasLastSpecUpdateAttemptTimedOut_def op_defs
      getUpdatingInstanceIndex_def activeId_def areNewSpecChangesSameAsFailingSpecChanges_def failing_differences_def logSpecDifferences_def)

lemma visit_timed_out_changed:
  assumes "timed_out_on (sw_InstanceIndex s) w" "update_registered w" "enforceable srv w (sw_StatefulSet s)"
    and "collect_differences addStatefulSetSpecEnforcers srv w (sw_StatefulSet s) = Some ds" "ds \<noteq> []"
    and "GetSpecDifferencesAsString ds \<noteq> failing_differences w"
  shows "\<exists>s' w'. visit addStatefulSetSpecEnforcers now srv s w = (Some (answer (srv_write srv (w_calls w) (UpdateStatefulSet s'))), w') \<and>
    w_calls w' = w_calls w @ [UpdateStatefulSet s'] \<and> same_identity (sw_StatefulSet s) s'"
proof -
  let ?w = "logKubegresFeaturesAreReEnabled (RemoveActiveOperation (logSpecDifferences ds w))"
  have c: "same_context w ?w" by (simp add: same_context_def logKubegresFeaturesAreReEnabled_def logSpecDifferences_def)
  have o: "activeId ?w = ''''" "update_registered ?w" "w_calls ?w = w_calls w"
    using assms(2) by (simp_all add: activeId_def update_registered_def doesOperationHaveAssociatedConfig_def getConfig_def
        logKubegresFeaturesAreReEnabled_def logSpecDifferences_def)
  have "\<exists>s' w'. enforceSpec_of addStatefulSetSpecEnforcers now srv (sw_StatefulSet s) (sw_InstanceIndex s) ds ?w =
      (answer (srv_write srv (w_calls w) (UpdateStatefulSet s')), w') \<and>
    w_calls w' = w_calls w @ [UpdateStatefulSet s'] \<and> same_identity (sw_StatefulSet s) s'"
    using enforceSpec_of_sends [OF o(1,2), of srv "sw_StatefulSet s" now "sw_InstanceIndex s" ds] assms(3-5)
    unfolding enforceable_cong [OF c] collect_cong [OF c] o(3) by auto
  then show ?thesis
    using assms(1,4-6) by (auto simp: visit_def CheckForSpecDifferences_def timed_out_on_def hasLastSpecUpdateAttemptTimedOut_def op_defs
      getUpdatingInstanceIndex_def activeId_def areNewSpecChangesSameAsFailingSpecChanges_def failing_differences_def
      AreThereDifferences_def logSpecDifferences_def)
qed

section \<open>A cluster in the middle of a roll-out\<close>

definition up_to_date_StatefulSet :: StatefulSet where
  "up_to_date_StatefulSet = (sample_StatefulSet 3 ''replica'' 1)\<lparr>sts_Template := \<lparr>pt_Labels = [], pt_Annotations = [],
     pt_Spec = zero_PodSpec\<lparr>ps_Containers := [sample_container], ps_Affinity := Some KNull\<rparr>\<rparr>\<rparr>"

definition sample_wrapper :: "int \<Rightarrow> StatefulSet \<Rightarrow> StatefulSetWrapper" where
  "sample_wrapper i s = \<lparr>sw_IsDeployed = True, sw_IsReady = True, sw_InstanceIndex = i, sw_StatefulSet = s,
     sw_Pod = \<lparr>pw_IsDeployed = True, pw_IsReady = True, pw_IsStuck = False, pw_InstanceIndex = i, pw_Pod = sample_Pod i True\<rparr>\<rparr>"

definition rolling_states :: ResourcesStates where
  "rolling_states = zero_ResourcesStates\<lparr>rs_StatefulSets := zero_StatefulSetsStates\<lparr>
     sss_Primary := sample_wrapper 1 (sample_StatefulSet 1 ''primary'' 1),
     sss_Replicas := \<lparr>rep_All = \<lparr>statefulSetsSortedByInstanceIndex = [sample_wrapper 2 outdated_StatefulSet, sample_wrapper 3 up_to_date_StatefulSet],
         statefulSetsReverseSortedByInstanceIndex = [sample_wrapper 3 up_to_date_StatefulSet, sample_wrapper 2 outdated_StatefulSet]\<rparr>,
       rep_NbreDeployed = 2, rep_NbreReady = 2\<rparr>\<rparr>\<rparr>"

definition rolling_world :: world where
  "rolling_world = AddConfig (CreateOperationConfigForStatefulSetSpecUpdating addStatefulSetSpecEnforcers sample_server sample_world)
     (sample_world\<lparr>w_states := rolling_states\<rparr>)"

lemma rolling_world_fields:
  "w_spec rolling_world = sample_Spec" "w_kubegres rolling_world = sample_Kubegres" "w_states rolling_world = rolling_states"
  "w_calls rolling_world = []" "w_activeOperation rolling_world = zero_Operation" "rs_Config rolling_states = rs_Config zero_ResourcesStates"
  by (simp_all add: rolling_world_def AddConfig_def sample_world_def sample_Kubegres_def rolling_states_def)

lemma up_to_date_fields:
  "container0 up_to_date_StatefulSet = Some sample_container" "init0 up_to_date_StatefulSet = None"
  "sts_PodSpec up_to_date_StatefulSet = zero_PodSpec\<lparr>ps_Containers := [sample_container], ps_Affinity := Some KNull\<rparr>"
  "md_Labels (sts_meta up_to_date_StatefulSet) = []" "md_Annotations (sts_meta up_to_date_StatefulSet) = []"
  by (simp_all add: up_to_date_StatefulSet_def container0_def init0_def zero_PodSpec_def sample_StatefulSet_def zero_ObjectMeta_def)

lemma up_to_date_settled: "collect_differences addStatefulSetSpecEnforcers sample_server rolling_world up_to_date_StatefulSet = Some []"
  by (rule collect_differences_none, unfold addStatefulSetSpecEnforcers_def simple_enforcer_def)
    (simp add: settled_def settled_iff rolling_world_fields up_to_date_fields sample_Spec_def sample_container_def zero_PodSpec_def
      config_settled_def mounts_ok_def zero_ResourceRequirements_def compareResources_def compareResourceLists_def compare_items_def
      getCurrentCustomVolumes_def custom_mounts_def metadata_equals_def getCustomMetadata_def extractCustom_def maps_Equal_def
      sample_Kubegres_def zero_ObjectMeta_def zero_ResourcesStates_def getCustomConfigMapVolume_def volume_ok_def)

lemma outdated_in_rolling_world:
  "enforceable sample_server rolling_world outdated_StatefulSet"
  "collect_differences addStatefulSetSpecEnforcers sample_server rolling_world outdated_StatefulSet \<noteq> Some []"
proof -
  have k: "w_kubegres rolling_world = w_kubegres sample_world" by (simp add: rolling_world_def AddConfig_def)
  have "enforceable sample_server rolling_world outdated_StatefulSet \<longleftrightarrow> enforceable sample_server sample_world outdated_StatefulSet"
    unfolding enforceable_def volumes_ready_def quantities_ok_def metadata_ready_def k ..
  then show "enforceable sample_server rolling_world outdated_StatefulSet" using outdated_enforceable by simp
  show "collect_differences addStatefulSetSpecEnforcers sample_server rolling_world outdated_StatefulSet \<noteq> Some []"
    by (simp add: addStatefulSetSpecEnforcers_def simple_enforcer_def Image_CheckForSpecDifference_def outdated_StatefulSet_def
        container0_def rolling_world_fields sample_Kubegres_def sample_Spec_def bind_eq_Some_conv)
qed

lemma rolling_world_ready:
  "all_isStandbyEnabled rolling_world \<or> all_isPrimaryDbReady rolling_world" "activeId rolling_world = ''''"
  "update_registered rolling_world"
  "getAllReverseSortedByInstanceIndex rolling_world =
     [sample_wrapper 3 up_to_date_StatefulSet] @ sample_wrapper 2 outdated_StatefulSet # [sample_wrapper 1 (sample_StatefulSet 1 ''primary'' 1)]"
proof -
  show "all_isStandbyEnabled rolling_world \<or> all_isPrimaryDbReady rolling_world"
    by (simp add: all_isPrimaryDbReady_def rolling_world_fields rolling_states_def sample_wrapper_def)
  show "activeId rolling_world = ''''" by (simp add: activeId_def rolling_world_fields)
  show "update_registered rolling_world"
    by (simp add: update_registered_def doesOperationHaveAssociatedConfig_def getConfig_def createOperationObj_def
        rolling_world_def AddConfig_def CreateOperationConfigForStatefulSetSpecUpdating_def sample_world_def)
  show "getAllReverseSortedByInstanceIndex rolling_world =
     [sample_wrapper 3 up_to_date_StatefulSet] @ sample_wrapper 2 outdated_StatefulSet # [sample_wrapper 1 (sample_StatefulSet 1 ''primary'' 1)]"
    by (simp add: getAllReverseSortedByInstanceIndex_def GetAllReverseSortedByInstanceIndex_def all_isStandbyEnabled_def
        rolling_world_fields sample_Kubegres_def sample_Spec_def rolling_states_def)
qed

lemmas rolling_world_updates =
  AllStatefulSets_outdated [OF rolling_world_ready(1-4), of sample_server, unfolded sample_wrapper_def, simplified,
    OF up_to_date_settled outdated_in_rolling_world(2,1)]

section \<open>Properties\<close>

lemma AllStatefulSets_rolls:
  assumes "AllStatefulSets_EnforceSpec addStatefulSetSpecEnforcers now srv w = (r, w')"
    and "\<not> op_HasTimedOut (w_activeOperation w)" "distinct (map sw_InstanceIndex (getAllReverseSortedByInstanceIndex w))"
  obtains (services) "appends deletes_service w w'"
  | (one) pre s post v where "getAllReverseSortedByInstanceIndex w = pre @ s # post" "same_context w v" "appends deletes_service w v"
      "sends_one srv s v r w'" "\<forall>p \<in> set pre. passed srv w p"
  using visit_all_effect [of now srv "getAllReverseSortedByInstanceIndex w" w r w'] assms that
  by (auto simp: AllStatefulSets_EnforceSpec_def split: if_splits)



text \<open>
  C21: while no operation is active, an outdated StatefulSet is updated. If the primary is
  ready (or the cluster is a standby) and the configuration of the update operation is
  registered, the first StatefulSet in the order of the roll-out that differs from the spec,
  provided it is enforceable in the sense of \<open>spec_enforcement_converges\<close> (in particular no
  custom label or annotation of it was removed from the Kubegres resource), is sent once, in a
  form in which no enforcer finds a difference; the outcome is the answer of the server.
\<close>

theorem outdated_StatefulSet_is_updated:
  assumes "all_isStandbyEnabled w \<or> all_isPrimaryDbReady w" "activeId w = ''''" "update_registered w"
    and "getAllReverseSortedByInstanceIndex w = pre @ s # post"
    and "\<forall>p \<in> set pre. collect_differences addStatefulSetSpecEnforcers srv w (sw_StatefulSet p) = Some []"
    and "collect_differences addStatefulSetSpecEnforcers srv w (sw_StatefulSet s) \<noteq> Some []" "enforceable srv w (sw_StatefulSet s)"
  shows "\<exists>s' w'. AllStatefulSets_EnforceSpec addStatefulSetSpecEnforcers now srv w =
      (answer (srv_write srv (w_calls w) (UpdateStatefulSet s')), w') \<and>
    w_calls w' = w_calls w @ [UpdateStatefulSet s'] \<and> same_identity (sw_StatefulSet s) s' \<and>
    collect_differences addStatefulSetSpecEnforcers srv w s' = Some []"
  by (rule AllStatefulSets_outdated [OF assms])

theorem outdated_StatefulSet_is_updated_witness:
  "\<exists>s' w'. AllStatefulSets_EnforceSpec addStatefulSetSpecEnforcers 1000 sample_server rolling_world = (Ok, w') \<and>
     w_calls w' = [UpdateStatefulSet s'] \<and> same_identity outdated_StatefulSet s' \<and>
     collect_differences addStatefulSetSpecEnforcers sample_server rolling_world s' = Some []"
  using outdated_StatefulSet_is_updated [OF rolling_world_ready, of sample_server 1000] up_to_date_settled outdated_in_rolling_world
  by (auto simp: sample_wrapper_def rolling_world_fields)

text \<open>
  C22: an enforcement that timed out on a StatefulSet is not repeated. Suppose the primary is
  ready (or the cluster is a standby) and the StatefulSets before the timed-out one in the order
  of the roll-out have other indices and agree with the spec. As long as the text of the
  differences of that StatefulSet is the one recorded in the operation, nothing is sent, the
  operation stays and a warning is recorded. When the text is another one and not empty, the
  configuration of the update operation is registered and the StatefulSet is enforceable in the
  sense of \<open>spec_enforcement_converges\<close>, it is updated again and the outcome is the answer of the
  server. (The text lists custom labels and annotations in the order of the map, which is fixed
  here and random in Go.)
\<close>

theorem timed_out_spec_waits_for_a_change:
  assumes "all_isStandbyEnabled w \<or> all_isPrimaryDbReady w" "timed_out_on (sw_InstanceIndex s) w"
    and "getAllReverseSortedByInstanceIndex w = pre @ s # post"
    and "\<forall>p \<in> set pre. sw_InstanceIndex p \<noteq> sw_InstanceIndex s \<and>
      collect_differences addStatefulSetSpecEnforcers srv w (sw_StatefulSet p) = Some []"
    and "collect_differences addStatefulSetSpecEnforcers srv w (sw_StatefulSet s) = Some ds"
  shows "case AllStatefulSets_EnforceSpec addStatefulSetSpecEnforcers now srv w of (r, w') \<Rightarrow>
    if GetSpecDifferencesAsString ds = failing_differences w then
      r = Ok \<and> w_calls w' = w_calls w \<and> w_activeOperation w' = w_activeOperation w \<and>
      Event EventTypeWarning ''StatefulSetSpecEnforcementTimedOutErr'' \<in> set (w_events w')
    else ds \<noteq> [] \<and> update_registered w \<and> enforceable srv w (sw_StatefulSet s) \<longrightarrow>
      (\<exists>s'. r = answer (srv_write srv (w_calls w) (UpdateStatefulSet s')) \<and> same_identity (sw_StatefulSet s) s' \<and>
         w_calls w' = w_calls w @ [UpdateStatefulSet s'])"
proof -
  have "\<forall>p \<in> set pre. visit addStatefulSetSpecEnforcers now srv p w = (None, w)"
    using assms(2,4) visit_other_timed_out by blast
  then have r: "AllStatefulSets_EnforceSpec addStatefulSetSpecEnforcers now srv w = visit_all addStatefulSetSpecEnforcers now srv (s # post) w"
    using assms(1,2) by (auto simp: AllStatefulSets_EnforceSpec_def op_defs timed_out_on_def activeId_def assms(3) visit_all_skips)
  show ?thesis
  proof (cases "GetSpecDifferencesAsString ds = failing_differences w")
    case True
    then show ?thesis
      by (simp add: r visit_timed_out_same [OF assms(2,5)] logSpecEnforcementTimedOut_def logSpecDifferences_def)
        (simp add: ErrorEvent_def)
  next
    case False
    then show ?thesis using visit_timed_out_changed [OF assms(2) _ _ assms(5), of now] by (auto simp: r)
  qed
qed

text \<open>The cluster of the roll-out, after the update of replica 2 timed out.\<close>

definition stalled_world :: "string \<Rightarrow> world" where
  "stalled_world differences = rolling_world\<lparr>w_activeOperation := zero_Operation\<lparr>op_OperationId := OperationIdStatefulSetSpecEnforcing,
     op_StepId := OperationStepIdStatefulSetSpecUpdating, op_HasTimedOut := True,
     op_StatefulSetOperation := \<lparr>sop_InstanceIndex = 2, sop_Name = ''mypostgres-2''\<rparr>,
     op_StatefulSetSpecUpdateOperation := \<lparr>suop_SpecDifferences = differences\<rparr>\<rparr>\<rparr>"

lemma stalled_world_simps:
  "same_context rolling_world (stalled_world d)" "w_calls (stalled_world d) = []" "timed_out_on 2 (stalled_world d)"
  "failing_differences (stalled_world d) = d" "update_registered (stalled_world d)"
  "getAllReverseSortedByInstanceIndex (stalled_world d) = getAllReverseSortedByInstanceIndex rolling_world"
  "all_isStandbyEnabled (stalled_world d) \<or> all_isPrimaryDbReady (stalled_world d)"
  using rolling_world_ready(1,3)
  by (simp_all add: stalled_world_def same_context_def rolling_world_fields timed_out_on_def activeId_def getUpdatingInstanceIndex_def
      failing_differences_def update_registered_def doesOperationHaveAssociatedConfig_def getConfig_def
      getAllReverseSortedByInstanceIndex_def all_isStandbyEnabled_def all_isPrimaryDbReady_def sample_Kubegres_def sample_Spec_def)

theorem timed_out_spec_waits_for_a_change_witness:
  "\<exists>d. w_calls (snd (AllStatefulSets_EnforceSpec addStatefulSetSpecEnforcers 1000 sample_server (stalled_world d))) = [] \<and>
     (\<forall>d'. d' \<noteq> d \<longrightarrow>
       w_calls (snd (AllStatefulSets_EnforceSpec addStatefulSetSpecEnforcers 1000 sample_server (stalled_world d'))) \<noteq> [])"
proof -
  note c = stalled_world_simps(1)
  obtain ds where ds: "collect_differences addStatefulSetSpecEnforcers sample_server rolling_world outdated_StatefulSet = Some ds" "ds \<noteq> []"
    using collect_total [OF outdated_in_rolling_world(1)] outdated_in_rolling_world(2) by auto
  have "case AllStatefulSets_EnforceSpec addStatefulSetSpecEnforcers 1000 sample_server (stalled_world d) of (r, w') \<Rightarrow>
      if GetSpecDifferencesAsString ds = d then w_calls w' = [] else w_calls w' \<noteq> []" for d
    using timed_out_spec_waits_for_a_change [of "stalled_world d" "sample_wrapper 2 outdated_StatefulSet"
        "[sample_wrapper 3 up_to_date_StatefulSet]" "[sample_wrapper 1 (sample_StatefulSet 1 ''primary'' 1)]" sample_server ds 1000]
      up_to_date_settled ds outdated_in_rolling_world(1)
    by (auto simp: stalled_world_simps sample_wrapper_def rolling_world_ready(4) collect_cong [OF c] enforceable_cong [OF c] split: if_splits)
  then show ?thesis by (intro exI [of _ "GetSpecDifferencesAsString ds"]) (auto simp: split_beta split: if_splits)
qed

text \<open>
  C38: a custom label that is removed from the Kubegres resource is never removed from its
  StatefulSets. Every update that a pass of the registry sends for such a StatefulSet carries the
  label with its old value and still differs from the spec; and while a StatefulSet carries the
  label, the completion checker of the operation that updates it never reports completion,
  however long it has run.
\<close>

theorem stale_custom_label_is_never_enforced:
  assumes "prefix ''kubegres.reactive-tech.io/'' k" "map_of (md_Labels (sts_meta s)) k = Some v"
    and "distinct (map fst (md_Labels (sts_meta s)))" "k \<notin> fst ` set (md_Labels (kg_meta (w_kubegres w)))"
  shows "(\<forall>r w' s'. StatefulSets_EnforceSpec addStatefulSetSpecEnforcers srv s w = (r, w') \<longrightarrow>
      w_calls w' = w_calls w @ [UpdateStatefulSet s'] \<longrightarrow>
      map_of (md_Labels (sts_meta s')) k = Some v \<and> collect_differences addStatefulSetSpecEnforcers srv w s' \<noteq> Some []) \<and>
    (\<forall>x secs ope. updating_wrapper w ope = (x, None) \<longrightarrow> sw_StatefulSet x = s \<longrightarrow>
      \<not> fst (isStatefulSetSpecUpdated addStatefulSetSpecEnforcers srv w secs ope))"
proof (intro conjI allI impI)
  have st: "stale_label w s k v" using assms by (simp add: stale_label_def annotationPrefix_def)
  show "\<not> fst (isStatefulSetSpecUpdated addStatefulSetSpecEnforcers srv w secs ope)"
    if "updating_wrapper w ope = (x, None)" "sw_StatefulSet x = s" for x secs ope
    using that stale_label_collect [OF st, of srv] by (auto simp: isStatefulSetSpecUpdated_def AreThereDifferences_def split: option.splits)
  fix r w' s'
  assume e: "StatefulSets_EnforceSpec addStatefulSetSpecEnforcers srv s w = (r, w')" "w_calls w' = w_calls w @ [UpdateStatefulSet s']"
  obtain x w1 where x: "enforce_loop addStatefulSetSpecEnforcers srv ([], s) w = (x, w1)" by fastforce
  have "w1 = w" using enforce_loop_quiet [OF _ x] registry_quiet by blast
  with e x obtain u where u: "x = Val (u, s')"
    by (cases x) (auto simp: StatefulSets_EnforceSpec_def client_write_def logUpdatedSpecDifferences_def split: if_splits option.splits)
  have "stale_label w s' k v"
    by (rule enforce_loop_keeps [of addStatefulSetSpecEnforcers srv w "\<lambda>t. stale_label w t k v", OF _ _ x [unfolded u] st])
      (use registry_quiet stale_label_enforced in blast)+
  then show "map_of (md_Labels (sts_meta s')) k = Some v" "collect_differences addStatefulSetSpecEnforcers srv w s' \<noteq> Some []"
    using stale_label_collect by (auto simp: stale_label_def)
qed

text \<open>A StatefulSet that agrees with the spec, but for a custom label that the Kubegres resource no longer has.\<close>

definition labelled_StatefulSet :: StatefulSet where
  "labelled_StatefulSet = up_to_date_StatefulSet\<lparr>sts_meta := (sts_meta up_to_date_StatefulSet)\<lparr>md_Labels := [(''kubegres.reactive-tech.io/team'', ''a'')]\<rparr>\<rparr>"

lemma labelled_fields:
  "container0 labelled_StatefulSet = Some sample_container" "init0 labelled_StatefulSet = None"
  "sts_PodSpec labelled_StatefulSet = zero_PodSpec\<lparr>ps_Containers := [sample_container], ps_Affinity := Some KNull\<rparr>"
  "md_Labels (sts_meta labelled_StatefulSet) = [(''kubegres.reactive-tech.io/team'', ''a'')]"
  using up_to_date_fields by (simp_all add: labelled_StatefulSet_def container0_def init0_def)

lemma labelled_settled:
  "\<forall>e \<in> set addStatefulSetSpecEnforcers. GetSpecName e \<noteq> ''CustomMetadata'' \<longrightarrow>
     CheckForSpecDifference e sample_server rolling_world labelled_StatefulSet = Some no_difference"
  by (simp add: addStatefulSetSpecEnforcers_def simple_enforcer_def settled_iff rolling_world_fields labelled_fields sample_Kubegres_def
      sample_Spec_def sample_container_def zero_PodSpec_def
      config_settled_def mounts_ok_def zero_ResourceRequirements_def compareResources_def compareResourceLists_def compare_items_def
      getCurrentCustomVolumes_def custom_mounts_def zero_ResourcesStates_def getCustomConfigMapVolume_def volume_ok_def)

lemma labelled_enforced:
  "CustomMetadata_EnforceSpec rolling_world labelled_StatefulSet = Some (True, labelled_StatefulSet)"
  by (simp add: CustomMetadata_EnforceSpec_def rolling_world_fields sample_Kubegres_def zero_ObjectMeta_def getCustomMetadata_def
      extractCustom_def merge_def Let_def labelled_StatefulSet_def up_to_date_StatefulSet_def sample_StatefulSet_def)

theorem stale_custom_label_is_never_enforced_witness:
  "w_calls (snd (StatefulSets_EnforceSpec addStatefulSetSpecEnforcers sample_server labelled_StatefulSet rolling_world)) =
     [UpdateStatefulSet labelled_StatefulSet] \<and>
   map_of (md_Labels (sts_meta labelled_StatefulSet)) ''kubegres.reactive-tech.io/team'' = Some ''a'' \<and>
   collect_differences addStatefulSetSpecEnforcers sample_server rolling_world labelled_StatefulSet \<noteq> Some []"
proof -
  let ?k = "''kubegres.reactive-tech.io/team''"
  have "stale_label rolling_world labelled_StatefulSet ?k ''a''"
    by (simp add: stale_label_def annotationPrefix_def labelled_fields rolling_world_fields sample_Kubegres_def zero_ObjectMeta_def)
  then obtain d where d: "CustomMetadata_CheckForSpecDifference sample_server rolling_world labelled_StatefulSet = Some d" "IsThereDifference d"
    using stale_label_differs by blast
  have c: "w_calls (snd (StatefulSets_EnforceSpec addStatefulSetSpecEnforcers sample_server labelled_StatefulSet rolling_world)) =
      [UpdateStatefulSet labelled_StatefulSet]"
    using labelled_settled d
    by (simp add: StatefulSets_EnforceSpec_def addStatefulSetSpecEnforcers_def simple_enforcer_def no_api_def res_bind_def labelled_enforced
        client_write_def logUpdatedSpecDifferences_def rolling_world_fields)
  from stale_custom_label_is_never_enforced [of ?k labelled_StatefulSet "''a''" rolling_world sample_server] c show ?thesis
    by (auto simp: labelled_fields rolling_world_fields sample_Kubegres_def zero_ObjectMeta_def prod_eq_iff)
qed

end
