(* ===== verification/Resources_Context.thy ===== *)
theory Resources_Context
  imports All_StatefulSets_Enforcer Default_Spec Spec_Checker Operation_Machine
begin

text \<open>
  \<open>src/controllers/ctx/resources/ResourcesContext.go\<close>: how one reconciliation is set up.
  The defaults are filled in, the state of the cluster is loaded, and the configurations of
  the blocking operations are registered. The other objects the context holds are the
  definitions of the component theories, which take the shared state as an argument.
\<close>

definition setReplicaFieldToZeroIfNil :: "Kubegres \<Rightarrow> Kubegres" where
  "setReplicaFieldToZeroIfNil k =
     (if spec_Replicas (kg_Spec k) \<noteq> None then k
      else k\<lparr>kg_Spec := (kg_Spec k)\<lparr>spec_Replicas := Some 0\<rparr>\<rparr>)"

definition addBlockingOperationConfigs :: "server \<Rightarrow> world \<Rightarrow> world" where
  "addBlockingOperationConfigs srv w =
     (let rs = w_states w;
          w1 = AddConfig (CreateOperationConfig rs) w;
          w2 = AddConfig (CreateOperationConfigForPrimaryDbDeploying rs) w1;
          w3 = AddConfig CreateOperationConfigWaitingBeforeForFailingOver w2;
          w4 = AddConfig (CreateOperationConfigForFailingOver rs) w3;
          w5 = AddConfig (CreateOperationConfigForReplicaDbDeploying rs) w4;
          w6 = AddConfig (CreateOperationConfigForReplicaDbUndeploying rs) w5;
          w7 = AddConfig (CreateOperationConfigForStatefulSetSpecUpdating addStatefulSetSpecEnforcers srv w) w6;
          w8 = AddConfig (CreateOperationConfigForStatefulSetSpecPodUpdating w) w7
      in AddConfig (CreateOperationConfigForStatefulSetWaitingOnStuckPod w) w8)"

definition CreateResourcesContext :: "server \<Rightarrow> Kubegres \<Rightarrow> outcome \<times> world" where
  "CreateResourcesContext srv kubegres =
     and_then (SetDefaultForUndefinedSpecValues srv)
       (\<lambda>w. case LoadResourcesStates srv w of
               (Val rs, w1) \<Rightarrow> (Ok, addBlockingOperationConfigs srv (w1\<lparr>w_states := rs\<rparr>))
             | (Fail err, w1) \<Rightarrow> (Err err, w1)
             | (Crash, w1) \<Rightarrow> (Panic, w1))
       (CreateBlockingOperation (setReplicaFieldToZeroIfNil kubegres))"

section \<open>The registered operations\<close>

text \<open>Every operation and step that some enforcer activates, with its time-out in seconds and whether it ends in a transition.\<close>

definition operation_table :: "(string \<times> string \<times> int \<times> bool) list" where
  "operation_table =
     [(OperationIdBaseConfigCountSpecEnforcement, OperationStepIdBaseConfigDeploying, 10, False),
      (OperationIdPrimaryDbCountSpecEnforcement, OperationStepIdPrimaryDbDeploying, 300, False),
      (OperationIdPrimaryDbCountSpecEnforcement, OperationStepIdPrimaryDbWaitingBeforeFailingOver, 10, True),
      (OperationIdPrimaryDbCountSpecEnforcement, OperationStepIdPrimaryDbFailingOver, 300, False),
      (OperationIdReplicaDbCountSpecEnforcement, OperationStepIdReplicaDbDeploying, 300, False),
      (OperationIdReplicaDbCountSpecEnforcement, OperationStepIdReplicaDbUndeploying, 60, False),
      (OperationIdStatefulSetSpecEnforcing, OperationStepIdStatefulSetSpecUpdating, 300, True),
      (OperationIdStatefulSetSpecEnforcing, OperationStepIdStatefulSetPodSpecUpdating, 300, True),
      (OperationIdStatefulSetSpecEnforcing, OperationStepIdStatefulSetWaitingOnStuckPod, 300, True)]"

lemmas config_defs = CreateOperationConfig_def CreateOperationConfigForPrimaryDbDeploying_def
  CreateOperationConfigWaitingBeforeForFailingOver_def CreateOperationConfigForFailingOver_def
  CreateOperationConfigForReplicaDbDeploying_def CreateOperationConfigForReplicaDbUndeploying_def
  CreateOperationConfigForStatefulSetSpecUpdating_def CreateOperationConfigForStatefulSetSpecPodUpdating_def
  CreateOperationConfigForStatefulSetWaitingOnStuckPod_def

definition registered_as :: "world \<Rightarrow> string \<times> string \<times> int \<times> bool \<Rightarrow> bool" where
  "registered_as w e \<longleftrightarrow> (case e of (oid, step, secs, transition) \<Rightarrow>
     (\<forall>ope. op_OperationId ope = oid \<longrightarrow> op_StepId ope = step \<longrightarrow>
        doesOperationHaveAssociatedConfig ope w \<and> cfg_OperationId (getConfig ope w) = oid \<and> cfg_StepId (getConfig ope w) = step \<and>
        cfg_TimeOutInSeconds (getConfig ope w) = secs \<and> cfg_AfterCompletionMoveToTransitionStep (getConfig ope w) = transition))"

lemma w_configs_AddConfig:
  "map_of (w_configs (AddConfig c w)) = (map_of (w_configs w))(generateConfigId (cfg_OperationId c) (cfg_StepId c) \<mapsto> c)"
  by (simp add: AddConfig_def)

lemma config_ids_distinct: "distinct (map (\<lambda>(oid, step, _). generateConfigId oid step) operation_table)"
  by (simp add: operation_table_def generateConfigId_def operation_id_defs step_id_defs)

lemmas config_id_neqs = config_ids_distinct [unfolded operation_table_def, simplified distinct.simps list.map prod.case list.set insert_iff
  empty_iff, simplified]

lemma config_ids_distinct_rev: "distinct (map (\<lambda>(oid, step, _). generateConfigId oid step) (rev operation_table))"
  using config_ids_distinct by (simp only: rev_map [symmetric] distinct_rev)

lemmas config_id_neqs_rev = config_ids_distinct_rev [unfolded operation_table_def rev.simps append.simps, simplified distinct.simps list.map
  prod.case list.set insert_iff empty_iff, simplified]

lemma addBlockingOperationConfigs_registers:
  "e \<in> set operation_table \<Longrightarrow> registered_as (addBlockingOperationConfigs srv w) e"
  unfolding operation_table_def
  by (auto simp: registered_as_def doesOperationHaveAssociatedConfig_def getConfig_def addBlockingOperationConfigs_def Let_def
      w_configs_AddConfig config_defs config_id_neqs config_id_neqs_rev)

end
