(* ===== verification/Controller.thy ===== *)
theory Controller
  imports Resources_Context
begin

text \<open>
  \<open>src/controllers/kubegres_controller.go\<close>: one reconciliation from the request to the
  answer. The sleep of one second and the log lines have no effect here; the manager that
  delivers the requests is a library.
\<close>

section \<open>The reconciliation\<close>

text \<open>\<open>ctrl.Result\<close>; the delay is a \<open>time.Duration\<close>, in nanoseconds.\<close>

record Result =
  Requeue :: bool
  RequeueAfter :: int

definition zero_Result :: Result where
  "zero_Result = \<lparr>Requeue = False, RequeueAfter = 0\<rparr>"

text \<open>When the clock is read: three times while the operation is loaded, then by the enforcers.\<close>

record clock =
  clk_timed_out :: int
  clk_completed :: int
  clk_left :: int
  clk_enforce :: int

definition getDeployedKubegresResource :: "server \<Rightarrow> string \<Rightarrow> string \<Rightarrow> go_error + Kubegres" where
  "getDeployedKubegresResource srv namespace name = srv_get_Kubegres srv namespace name"

text \<open>The status is sent at the end; its error is returned unless there is another one.\<close>

definition returnn :: "server \<Rightarrow> Result \<Rightarrow> outcome \<Rightarrow> world \<Rightarrow> (Result \<times> outcome) \<times> world" where
  "returnn srv result err w =
     (case UpdateStatusIfChanged srv w of
        (Some errStatusUpt, w1) \<Rightarrow> ((result, if err = Ok then Err errStatusUpt else err), w1)
      | (None, w1) \<Rightarrow> ((result, err), w1))"

definition enforceResourcesCountSpec :: "clock \<Rightarrow> server \<Rightarrow> world \<Rightarrow> outcome \<times> world" where
  "enforceResourcesCountSpec clk srv =
     ResourcesCount_EnforceSpec (addResourcesCountSpecEnforcers (clk_enforce clk) srv)"

definition enforceAllStatefulSetsSpec :: "clock \<Rightarrow> server \<Rightarrow> world \<Rightarrow> outcome \<times> world" where
  "enforceAllStatefulSetsSpec clk srv =
     AllStatefulSets_EnforceSpec addStatefulSetSpecEnforcers (clk_enforce clk) srv"

definition controller_enforceSpec :: "clock \<Rightarrow> server \<Rightarrow> world \<Rightarrow> outcome \<times> world" where
  "controller_enforceSpec clk srv = and_then (enforceResourcesCountSpec clk srv) (enforceAllStatefulSetsSpec clk srv)"

text \<open>Loading the operation panics exactly when it calls a completion checker that does.\<close>

definition load_panics :: "clock \<Rightarrow> server \<Rightarrow> world \<Rightarrow> bool" where
  "load_panics clk srv w \<longleftrightarrow>
     (let v = loadOperations w in
      isThereActiveOperation v \<and> \<not> isOperationInTransition v \<and> \<not> hasOperationTimedOut (clk_timed_out clk) v \<and>
      completion_checker_panics addStatefulSetSpecEnforcers srv w
        (GetNbreSecondsSinceOperationHasStarted (clk_completed clk) v) (w_activeOperation v))"

text \<open>
  The part of \<open>Reconcile\<close> after the context is created. A panic is not recovered, so the
  status is not sent.
\<close>

definition reconcile_context :: "clock \<Rightarrow> server \<Rightarrow> world \<Rightarrow> (Result \<times> outcome) \<times> world" where
  "reconcile_context clk srv w =
     (if load_panics clk srv w then ((zero_Result, Panic), w)
      else
        let (nbreSecondsLeftBeforeTimeOut, w1) =
              LoadActiveOperation (clk_timed_out clk) (clk_completed clk) (clk_left clk) w
        in if nbreSecondsLeftBeforeTimeOut > 0 then
             returnn srv \<lparr>Requeue = True, RequeueAfter = int64 (nbreSecondsLeftBeforeTimeOut * 1000000000)\<rparr> Ok w1
           else
             (case CheckSpec srv w1 of
                (Crash, w2) \<Rightarrow> ((zero_Result, Panic), w2)
              | (Fail err, w2) \<Rightarrow> returnn srv zero_Result (Err err) w2
              | (Val specCheckResult, w2) \<Rightarrow>
                  if HasSpecFatalError specCheckResult then returnn srv zero_Result Ok w2
                  else (case controller_enforceSpec clk srv w2 of
                          (Panic, w3) \<Rightarrow> ((zero_Result, Panic), w3)
                        | (err, w3) \<Rightarrow> returnn srv zero_Result err w3)))"

text \<open>A failing \<open>Get\<close> ends the reconciliation without an error and without a context.\<close>

definition Reconcile :: "clock \<Rightarrow> server \<Rightarrow> string \<Rightarrow> string \<Rightarrow> (Result \<times> outcome) \<times> world option" where
  "Reconcile clk srv namespace name =
     (case getDeployedKubegresResource srv namespace name of
        Inl _ \<Rightarrow> ((zero_Result, Ok), None)
      | Inr kubegres \<Rightarrow>
          (case CreateResourcesContext srv kubegres of
             (Ok, w) \<Rightarrow> (let (r, w') = reconcile_context clk srv w in (r, Some w'))
           | (err, w) \<Rightarrow> ((zero_Result, err), Some w)))"

section \<open>Requests before the enforcers run\<close>

fun updates_Kubegres :: "api_call \<Rightarrow> bool" where
  "updates_Kubegres (UpdateKubegres _) = True"
| "updates_Kubegres (UpdateKubegresStatus _) = True"
| "updates_Kubegres _ = False"

fun updates_object :: "api_call \<Rightarrow> bool" where
  "updates_object (UpdateKubegres _) = True"
| "updates_object _ = False"

lemma updates_object_Kubegres: "updates_object c \<Longrightarrow> updates_Kubegres c"
  by (cases c) simp_all

lemma updates_object_appends: "appends updates_object w w' \<Longrightarrow> appends updates_Kubegres w w'"
  by (auto simp: appends_def updates_object_Kubegres)

text \<open>
  The status in memory is the one before, or the one in an answer to an update of the Kubegres object.
\<close>

definition status_from :: "server \<Rightarrow> world \<Rightarrow> world \<Rightarrow> bool" where
  "status_from srv w w' \<longleftrightarrow> w_status w' = w_status w \<or>
     (\<exists>cs k k'. srv_update_Kubegres srv cs k = Inr k' \<and> w_status w' = kg_Status k') \<and> list_ex updates_object (w_calls w')"

lemma status_from_same [simp]: "w_status w' = w_status w \<Longrightarrow> status_from srv w w'"
  by (simp add: status_from_def)

lemma status_from_trans:
  "status_from srv u v \<Longrightarrow> status_from srv v w \<Longrightarrow> appends P v w \<Longrightarrow> status_from srv u w"
  unfolding status_from_def appends_def by (elim disjE conjE exE) auto

text \<open>A step that at most updates the Kubegres object: neither the operation nor the loaded states change.\<close>

definition spec_step :: "server \<Rightarrow> world \<Rightarrow> world \<Rightarrow> bool" where
  "spec_step srv w w' \<longleftrightarrow> appends updates_object w w' \<and> w_activeOperation w' = w_activeOperation w \<and>
     w_previouslyActiveOperation w' = w_previouslyActiveOperation w \<and> status_from srv w w' \<and>
     w_states w' = w_states w \<and> w_configs w' = w_configs w \<and> w_statusFieldsToUpdate w' = w_statusFieldsToUpdate w"

lemma spec_step_refl [simp]: "spec_step srv w w"
  by (simp add: spec_step_def)

lemma spec_step_trans: "spec_step srv u v \<Longrightarrow> spec_step srv v w \<Longrightarrow> spec_step srv u w"
  by (auto simp: spec_step_def intro: appends_trans status_from_trans)

lemma spec_step_same: "same_but_events w w' \<Longrightarrow> spec_step srv w w'"
  by (simp add: spec_step_def same_but_events_fields appends_same)

lemma spec_step_event [simp]:
  "spec_step srv w (InfoEvent r v) \<longleftrightarrow> spec_step srv w v" "spec_step srv w (ErrorEvent r v) \<longleftrightarrow> spec_step srv w v"
  "spec_step srv w (upd_spec f v) \<longleftrightarrow> spec_step srv w v"
  by (simp_all add: spec_step_def appends_def status_from_def)

lemma client_update_step: "spec_step srv w v \<Longrightarrow> spec_step srv w (snd (client_update_Kubegres srv v))"
proof -
  have "spec_step srv v (snd (client_update_Kubegres srv v))"
    by (auto simp: client_update_Kubegres_def spec_step_def appends_def status_from_def Let_def split: sum.splits)
  then show "spec_step srv w v \<Longrightarrow> spec_step srv w (snd (client_update_Kubegres srv v))" by (blast intro: spec_step_trans)
qed

lemma set_default_step: "spec_step srv w (snd s) \<Longrightarrow> spec_step srv w (snd (set_default u f s))"
  by (simp add: set_default_def createLog_def)

lemma storage_class_step:
  assumes "storage_class_default srv s = (x, w1)"
  shows "spec_step srv (snd s) w1"
  using assms by (auto simp: storage_class_default_def res_bind_def GetDefaultStorageClassName_def createLog_def
      split: if_splits res.splits prod.splits option.splits sum.splits go_error.splits)

lemma SetDefault_step:
  assumes "SetDefaultForUndefinedSpecValues srv w = (r, w')"
  shows "spec_step srv w w'"
proof -
  obtain x w1 where x: "storage_class_default srv (constant_defaults w) = (x, w1)" by fastforce
  have "spec_step srv w (snd (constant_defaults w))" unfolding constant_defaults_def by (intro set_default_step) simp
  then have w1: "spec_step srv w w1" using storage_class_step [OF x] by (blast intro: spec_step_trans)
  have a: "spec_step srv w (snd (affinity_default (c, w1)))" for c
    unfolding affinity_default_def by (intro set_default_step) (simp add: w1)
  show ?thesis
  proof (cases x)
    case (Val c)
    obtain ch w2 where w2: "affinity_default (c, w1) = (ch, w2)" by fastforce
    have "spec_step srv w w2" using a [of c] w2 by simp
    moreover have "spec_step srv w (snd (updateSpec srv w2))"
      using client_update_step [OF \<open>spec_step srv w w2\<close>] by (auto simp: updateSpec_def split: prod.splits option.splits)
    ultimately show ?thesis using assms x Val w2
      by (auto simp: SetDefaultForUndefinedSpecValues_def apply_defaults_def split: if_splits)
  qed (use assms x w1 in \<open>auto simp: SetDefaultForUndefinedSpecValues_def apply_defaults_def\<close>)
qed

lemma roll_back_step: "roll_back srv msg f r w = (x, w') \<Longrightarrow> spec_step srv w w'"
  by (auto simp: roll_back_def updateKubegresSpec_def logSpecErrMsg_def intro!: client_update_step)

lemma expansion_step: "doesStorageClassAllowVolumeExpansion srv w = (x, w') \<Longrightarrow> spec_step srv w w'"
  by (auto simp: doesStorageClassAllowVolumeExpansion_def GetStorageClass_def Let_def
      split: prod.splits res.splits sum.splits go_error.splits option.splits)

lemma check_steps:
  "check_volumeMount srv r w = (x, w') \<Longrightarrow> spec_step srv w w'"
  "check_storageClassName srv r w = (x, w') \<Longrightarrow> spec_step srv w w'"
  "check_size srv r w = (x, w') \<Longrightarrow> spec_step srv w w'"
  "check_claimTemplates r w = (x, w') \<Longrightarrow> spec_step srv w w'"
proof -
  show "check_size srv r w = (x, w') \<Longrightarrow> spec_step srv w w'"
    by (auto simp: check_size_def Let_def split: option.splits if_splits
        elim!: res_bind_rel [where R = "spec_step srv", rotated 3] intro: expansion_step roll_back_step spec_step_trans)
qed (auto simp: check_volumeMount_def check_storageClassName_def check_claimTemplates_def logSpecErrMsg_def Let_def
    split: option.splits if_splits dest: roll_back_step)

lemma check_primary_step: "check_primary srv r w = (x, w') \<Longrightarrow> spec_step srv w w'"
  unfolding check_primary_def
  by (elim res_bind_rel [where R = "spec_step srv", rotated 3]) (blast intro: check_steps spec_step_trans res_bind_rel [where R = "spec_step srv"])+

lemma check_wellformed_step: "check_wellformed r w = (x, w') \<Longrightarrow> spec_step srv w w'"
proof (cases "spec_Replicas (w_spec w)")
  case None
  then show "check_wellformed r w = (x, w') \<Longrightarrow> ?thesis"
    using check_environment_flagged [of "(r, w)"] by (auto simp: check_wellformed_def flagged_def Let_def intro: spec_step_same)
next
  case (Some n)
  then show "check_wellformed r w = (x, w') \<Longrightarrow> ?thesis"
    using check_wellformed_flagged [OF Some, of r] by (auto simp: flagged_def intro: spec_step_same)
qed

lemma CheckSpec_step: "CheckSpec srv w = (x, w') \<Longrightarrow> spec_step srv w w'"
  unfolding CheckSpec_def Let_def
  by (erule res_bind_rel [where R = "spec_step srv", rotated 3])
    (auto split: if_splits intro: check_primary_step check_wellformed_step spec_step_trans)

end
