(* ===== verification/One_Change.thy ===== *)
theory One_Change
  imports Controller
begin

text \<open>
  The enforcers together: the requests that the blocking operation protects are sent one at
  a time. Locale \<open>exclusive_enforcer\<close> states what each enforcer contributes, and the
  sequence the controller runs inherits it.
\<close>

section \<open>Accepted changes\<close>

text \<open>
  The protected requests among the last ones that the server accepted; the first list are
  the requests sent before.
\<close>

fun accepted :: "server \<Rightarrow> api_call list \<Rightarrow> api_call list \<Rightarrow> api_call list" where
  "accepted srv sent [] = []"
| "accepted srv sent (c # cs) =
     (if locked_call c \<and> srv_write srv sent c = None then [c] else []) @ accepted srv (sent @ [c]) cs"

lemma accepted_append: "accepted srv sent (cs @ ds) = accepted srv sent cs @ accepted srv (sent @ cs) ds"
  by (induction cs arbitrary: sent) simp_all

lemma accepted_unlocked: "\<forall>c \<in> set cs. \<not> locked_call c \<Longrightarrow> accepted srv sent cs = []"
  by (induction cs arbitrary: sent) simp_all

definition one_change :: "server \<Rightarrow> string set \<Rightarrow> world \<Rightarrow> outcome \<Rightarrow> world \<Rightarrow> bool" where
  "one_change srv A w r w' \<longleftrightarrow>
     (\<exists>cs. w_calls w' = w_calls w @ cs \<and> length (accepted srv (w_calls w) cs) \<le> 1 \<and>
        (accepted srv (w_calls w) cs \<noteq> [] \<and> r = Ok \<longrightarrow> activeId w' \<in> A))"

lemma one_change_unlocked: "appends (\<lambda>c. \<not> locked_call c) w w' \<Longrightarrow> one_change srv A w r w'"
  by (auto simp: appends_def one_change_def accepted_unlocked)

lemma one_change_same: "w_calls w' = w_calls w \<Longrightarrow> one_change srv A w r w'"
  by (simp add: one_change_unlocked appends_same)

lemma one_change_single:
  assumes "w_calls w' = w_calls w @ [c]" "srv_write srv (w_calls w) c = None \<Longrightarrow> r = Ok \<Longrightarrow> activeId w' \<in> A"
  shows "one_change srv A w r w'"
  using assms by (auto simp: one_change_def intro!: exI [of _ "[c]"])

lemma one_change_after:
  assumes "appends (\<lambda>c. \<not> locked_call c) w v" "one_change srv A v r w'"
  shows "one_change srv A w r w'"
proof -
  obtain cs where cs: "w_calls v = w_calls w @ cs" "accepted srv (w_calls w) cs = []"
    using assms(1) by (auto simp: appends_def accepted_unlocked)
  obtain ds where "w_calls w' = w_calls v @ ds" "length (accepted srv (w_calls v) ds) \<le> 1"
    "accepted srv (w_calls v) ds \<noteq> [] \<and> r = Ok \<longrightarrow> activeId w' \<in> A"
    using assms(2) by (auto simp: one_change_def)
  with cs show ?thesis unfolding one_change_def by (intro exI [of _ "cs @ ds"]) (simp add: accepted_append)
qed

section \<open>The contract\<close>

locale exclusive_enforcer = count_enforcer enforce owned
  for enforce :: "world \<Rightarrow> outcome \<times> world" and owned :: "string set" +
  fixes srv :: server
  assumes not_idle: "'''' \<notin> owned"
    and changes: "enforce w = (r, w') \<Longrightarrow> one_change srv owned w r w'"
begin

text \<open>An enforcer that has changed the cluster keeps every other one from doing so.\<close>

lemma excludes:
  assumes "enforce w = (Ok, v)" "accepted srv (w_calls w) cs \<noteq> []" "w_calls v = w_calls w @ cs"
    and "count_enforcer g other" "owned \<inter> other = {}" "g v = (r, w')"
  shows "blocked_step v w'"
proof -
  have "activeId v \<in> owned" using changes [OF assms(1)] assms(2,3) by (auto simp: one_change_def)
  then show ?thesis using not_idle assms(5) count_enforcer.blocked [OF assms(4) _ _ assms(6)] by (metis disjoint_iff)
qed

end

lemma exclusive_count: "exclusive_enforcer f A srv \<Longrightarrow> count_enforcer f A"
  by (simp add: exclusive_enforcer_def)

lemma exclusive_and_then:
  assumes "exclusive_enforcer f A srv" "exclusive_enforcer g B srv" "A \<inter> B = {}"
  shows "exclusive_enforcer (and_then f g) (A \<union> B) srv"
proof -
  have "one_change srv (A \<union> B) w r w'" if "and_then f g w = (r, w')" for w r w'
    using that
  proof (cases rule: and_then_cases)
    case first
    then show ?thesis using exclusive_enforcer.changes [OF assms(1) first(2)] by (auto simp: one_change_def)
  next
    case (second v)
    obtain cs where cs: "w_calls v = w_calls w @ cs" "length (accepted srv (w_calls w) cs) \<le> 1"
      "accepted srv (w_calls w) cs \<noteq> [] \<longrightarrow> activeId v \<in> A"
      using exclusive_enforcer.changes [OF assms(1) second(1)] by (auto simp: one_change_def)
    obtain ds where ds: "w_calls w' = w_calls v @ ds" "length (accepted srv (w_calls v) ds) \<le> 1"
      "accepted srv (w_calls v) ds \<noteq> [] \<and> r = Ok \<longrightarrow> activeId w' \<in> B"
      using exclusive_enforcer.changes [OF assms(2) second(2)] by (auto simp: one_change_def)
    have b: "blocked_step v w'" if "accepted srv (w_calls w) cs \<noteq> []"
      using exclusive_enforcer.excludes [OF assms(1) second(1) that cs(1) exclusive_count [OF assms(2)] assms(3) second(2)] .
    have "accepted srv (w_calls v) ds = [] \<and> activeId w' = activeId v" if "accepted srv (w_calls w) cs \<noteq> []"
      using b [OF that] ds(1) by (auto simp: blocked_step_def appends_def activeId_def accepted_unlocked)
    with cs ds show ?thesis unfolding one_change_def
      by (intro exI [of _ "cs @ ds"]) (cases "accepted srv (w_calls w) cs = []", auto simp: accepted_append)
  qed
  moreover have "count_enforcer (and_then f g) (A \<union> B)"
    using assms by (intro count_enforcer_and_then exclusive_count)
  moreover have "'''' \<notin> A \<union> B" using assms(1,2) exclusive_enforcer.not_idle by blast
  ultimately show ?thesis by (simp add: exclusive_enforcer_def exclusive_enforcer_axioms_def)
qed

section \<open>The enforcers keep the contract\<close>

lemma operation_ids_not_idle:
  "'''' \<notin> {OperationIdBaseConfigCountSpecEnforcement}" "'''' \<notin> {OperationIdPrimaryDbCountSpecEnforcement}"
  "'''' \<notin> {OperationIdReplicaDbCountSpecEnforcement}" "'''' \<notin> {OperationIdStatefulSetSpecEnforcing}"
  by (simp_all add: operation_id_defs)

lemma ActivateOnStatefulSet_holds:
  "ActivateOperationOnStatefulSet now oid step i w = (Ok, w1) \<Longrightarrow> activeId w1 = oid"
  "ActivateOperation now oid step w = (Ok, w1) \<Longrightarrow> activeId w1 = oid"
  unfolding ActivateOperationOnStatefulSet_def ActivateOperation_def
  by (drule blocking.acquire_holds, simp add: createOperationObj_def)+

lemma BaseConfigMap_one_change:
  assumes "BaseConfigMap_EnforceSpec now srv w = (r, w')"
  shows "one_change srv {OperationIdBaseConfigCountSpecEnforcement} w r w'"
proof -
  have "one_change srv {OperationIdBaseConfigCountSpecEnforcement} w r w'" if "deployBaseConfigMap now srv c w = (r, w')" for c
  proof -
    obtain r1 w1 where a: "ActivateOperation now OperationIdBaseConfigCountSpecEnforcement OperationStepIdBaseConfigDeploying w = (r1, w1)"
      by fastforce
    have c: "w_calls w1 = w_calls w" using activateOperation_frame(2) a unfolding ActivateOperation_def by blast
    show ?thesis
    proof (cases "r1 = Ok")
      case True
      with that a c ActivateOnStatefulSet_holds(2) show ?thesis
        by (intro one_change_single [of _ _ "CreateConfigMap c"])
          (fastforce simp: deployBaseConfigMap_def client_write_def activeId_def split: option.splits)+
    next
      case False
      with that a c show ?thesis by (intro one_change_same) (auto simp: deployBaseConfigMap_def split: outcome.splits)
    qed
  qed
  with assms show ?thesis by (auto simp: BaseConfigMap_EnforceSpec_def intro: one_change_same split: if_splits)
qed

interpretation base_exclusive: exclusive_enforcer "BaseConfigMap_EnforceSpec now srv"
  "{OperationIdBaseConfigCountSpecEnforcement}" srv for now srv
  by unfold_locales (simp_all add: operation_ids_not_idle [simplified] BaseConfigMap_one_change)

lemma deployNewPrimary_one_change:
  assumes "deployNewPrimaryStatefulSet now srv w = (r, w')"
  shows "one_change srv {OperationIdPrimaryDbCountSpecEnforcement} w r w'"
proof (cases "hasLastPrimaryCountSpecEnforcementAttemptTimedOut w")
  case True
  with assms show ?thesis by (auto simp: deployNewPrimaryStatefulSet_def intro: one_change_same)
next
  case False
  show ?thesis
  proof (cases "getInstanceIndexIfPrimaryNeedsToBeRecreatedAndThereIsNoReplicaSetUp srv w")
    case None
    with False assms show ?thesis by (auto simp: deployNewPrimaryStatefulSet_def intro: one_change_same)
  next
    case (Some iw)
    obtain i v where iv: "iw = (i, v)" by fastforce
    have v: "w_calls v = w_calls w"
      using Some by (auto simp: iv getInstanceIndexIfPrimaryNeedsToBeRecreatedAndThereIsNoReplicaSetUp_def Let_def split: option.splits if_splits)
    define k where "k = (if i = 0 then int32 (GetLastCreatedInstanceIndex v + 1) else i)"
    obtain r1 w1 where a: "ActivateOperationOnStatefulSet now OperationIdPrimaryDbCountSpecEnforcement
        OperationStepIdPrimaryDbDeploying k v = (r1, w1)" by fastforce
    note c = ActivateOnStatefulSet_frame(1) [OF a]
    show ?thesis
    proof (cases "r1 = Ok \<and> CreatePrimaryStatefulSet srv k w1 \<noteq> None")
      case True
      then obtain s where "r1 = Ok" "CreatePrimaryStatefulSet srv k w1 = Some s" by blast
      with False assms Some iv a c v ActivateOnStatefulSet_holds(1) show ?thesis
        by (intro one_change_single [of _ _ "CreateStatefulSet s"])
          (fastforce simp: deployNewPrimaryStatefulSet_def k_def [symmetric] client_write_def activeId_def Let_def split: option.splits)+
    next
      case no: False
      have "w_calls w' = w_calls w"
        using no False assms Some iv a c v
        by (cases r1) (auto simp: deployNewPrimaryStatefulSet_def k_def [symmetric] Let_def split: option.splits)
      then show ?thesis by (rule one_change_same)
    qed
  qed
qed

lemma wait_one_change:
  assumes "waitBeforePromotingReplicaToPrimary now srv s w = (r, w')"
  shows "one_change srv {OperationIdPrimaryDbCountSpecEnforcement} w r w'"
  using waitBeforePromoting_calls [OF assms] assms
  by (auto intro!: one_change_single simp: waitBeforePromotingReplicaToPrimary_def dest: ActivateOnStatefulSet_holds(1)
      split: prod.splits outcome.splits)

lemma promote_one_change:
  assumes "promoteReplicaToPrimary now srv s w = (r, w')"
  shows "one_change srv {OperationIdPrimaryDbCountSpecEnforcement} w r w'"
proof (cases "promoted (cfs_ConfigLocations (rs_Config (w_states w))) (sw_StatefulSet s)")
  case None
  with assms show ?thesis by (auto simp: promoteReplicaToPrimary_def intro: one_change_same)
next
  case (Some p)
  define v where "v = w\<lparr>w_states := share s (s\<lparr>sw_StatefulSet := p\<rparr>) (w_states w)\<rparr>"
  obtain r1 w1 where a: "ActivateOperationOnStatefulSet now OperationIdPrimaryDbCountSpecEnforcement
      OperationStepIdPrimaryDbFailingOver (sw_InstanceIndex s) v = (r1, w1)" by fastforce
  have c: "w_calls w1 = w_calls w" using ActivateOnStatefulSet_frame(1) [OF a] by (simp add: v_def)
  show ?thesis
  proof (cases "r1 = Ok")
    case True
    with assms Some a c ActivateOnStatefulSet_holds(1) show ?thesis
      by (intro one_change_single [of _ _ "UpdateStatefulSet p"])
        (fastforce simp: promoteReplicaToPrimary_def v_def [symmetric] client_write_def activeId_def split: option.splits)+
  next
    case False
    with assms Some a c show ?thesis
      by (intro one_change_same) (auto simp: promoteReplicaToPrimary_def v_def [symmetric] split: outcome.splits)
  qed
qed

lemma FailOver_one_change:
  assumes "FailOver now srv w = (r, w')"
  shows "one_change srv {OperationIdPrimaryDbCountSpecEnforcement} w r w'"
proof -
  obtain x w1 where x: "selectReplicaToPromote w = (x, w1)" by fastforce
  have c: "appends (\<lambda>c. \<not> locked_call c) w w1"
    using selectReplicaToPromote_events [of w] x by (simp add: same_but_events_fields appends_same)
  consider "w_calls w' = w_calls w"
    | s where "x = Val s" "waitBeforePromotingReplicaToPrimary now srv s w1 = (r, w')"
    | s where "x = Val s" "promoteReplicaToPrimary now srv s w1 = (r, w')"
    using assms x selectReplicaToPromote_events [of w]
    by (cases x) (auto simp: FailOver_def same_but_events_fields split: if_splits)
  then show ?thesis
    by cases (auto intro: one_change_same one_change_after [OF c] wait_one_change promote_one_change)
qed

lemma enforce_primary_count_one_change:
  assumes "enforce_primary_count now srv w = (r, w')"
  shows "one_change srv {OperationIdPrimaryDbCountSpecEnforcement} w r w'"
proof -
  define w1 where "w1 = (if isPrimaryDbReady w \<and> hasLastPrimaryCountSpecEnforcementAttemptTimedOut w
                  then InfoEvent ''KubegresReEnabled'' (RemoveActiveOperation w) else w)"
  obtain b w2 where f: "ShouldWeFailOver w1 = (b, w2)" by fastforce
  have "w_calls w2 = w_calls w"
    using ShouldWeFailOver_events [of w1] f by (simp add: same_but_events_fields w1_def)
  then have c: "appends (\<lambda>c. \<not> locked_call c) w w2" by (rule appends_same)
  consider "w' = w" | "FailOver now srv w2 = (r, w')" | "w' = w2" | "deployNewPrimaryStatefulSet now srv w2 = (r, w')"
    using assms unfolding enforce_primary_count_def w1_def [symmetric] Let_def
    by (auto simp: f split: if_splits option.splits bool.splits)
  then show ?thesis
    using c by cases (auto intro: one_change_same one_change_unlocked one_change_after [OF c] FailOver_one_change deployNewPrimary_one_change)
qed

lemma Primary_one_change:
  assumes "PrimaryDbCountSpecEnforcer_Enforce now srv w = (r, w')"
  shows "one_change srv {OperationIdPrimaryDbCountSpecEnforcement} w r w'"
proof (cases "isStandbyEnabled w")
  case True
  with assms show ?thesis by (auto simp: PrimaryDbCountSpecEnforcer_Enforce_def intro: one_change_same)
next
  case False
  with assms have "and_then initialiseStatusEnforcedReplicas (enforce_primary_count now srv) w = (r, w')"
    by (simp add: PrimaryDbCountSpecEnforcer_Enforce_def)
  then show ?thesis
  proof (cases rule: and_then_cases)
    case first
    then show ?thesis using initialise_frame(1) by (intro one_change_same) (auto simp: initialise_frame)
  next
    case (second v)
    then show ?thesis
      by (intro one_change_after [OF _ enforce_primary_count_one_change]) (auto intro: appends_same simp: initialise_frame)
  qed
qed

interpretation primary_exclusive: exclusive_enforcer "PrimaryDbCountSpecEnforcer_Enforce now srv"
  "{OperationIdPrimaryDbCountSpecEnforcement}" srv for now srv
  by unfold_locales (simp_all add: operation_ids_not_idle [simplified] Primary_one_change)

lemma deployReplica_one_change:
  assumes "deployReplicaStatefulSet now srv w = (r, w')"
  shows "one_change srv {OperationIdReplicaDbCountSpecEnforcement} w r w'"
proof -
  let ?i = "int32 (GetLastCreatedInstanceIndex w + 1)"
  obtain r1 w1 where a: "ActivateOperationOnStatefulSet now OperationIdReplicaDbCountSpecEnforcement
      OperationStepIdReplicaDbDeploying ?i w = (r1, w1)" by fastforce
  note c = ActivateOnStatefulSet_frame(1) [OF a]
  show ?thesis
  proof (cases "r1 = Ok \<and> CreateReplicaStatefulSet srv ?i w1 \<noteq> None")
    case True
    then obtain s where "r1 = Ok" "CreateReplicaStatefulSet srv ?i w1 = Some s" by blast
    with assms a c ActivateOnStatefulSet_holds(1) show ?thesis
      by (intro one_change_single [of _ _ "CreateStatefulSet s"])
        (fastforce simp: deployReplicaStatefulSet_def client_write_def activeId_def Let_def split: option.splits)+
  next
    case False
    then have "w_calls w' = w_calls w"
      using assms a c by (cases r1) (auto simp: deployReplicaStatefulSet_def Let_def split: option.splits)
    then show ?thesis by (rule one_change_same)
  qed
qed

lemma undeployReplica_one_change:
  assumes "undeployReplicaStatefulSets now srv s w = (r, w')"
  shows "one_change srv {OperationIdReplicaDbCountSpecEnforcement} w r w'"
proof -
  obtain r1 w1 where a: "ActivateOperationOnStatefulSet now OperationIdReplicaDbCountSpecEnforcement
      OperationStepIdReplicaDbUndeploying (sw_InstanceIndex s) w = (r1, w1)" by fastforce
  note c = ActivateOnStatefulSet_frame(1) [OF a]
  show ?thesis
  proof (cases "r1 = Ok \<and> sts_Name (sw_StatefulSet s) \<noteq> ''''")
    case True
    with assms a c ActivateOnStatefulSet_holds(1) show ?thesis
      by (intro one_change_single [of _ _ "DeleteStatefulSet (sw_StatefulSet s)"])
        (fastforce simp: undeployReplicaStatefulSets_def deleteStatefulSet_def client_write_def activeId_def Let_def split: option.splits)+
  next
    case False
    then have "w_calls w' = w_calls w"
      using assms a c by (cases r1) (auto simp: undeployReplicaStatefulSets_def Let_def split: if_splits)
    then show ?thesis by (rule one_change_same)
  qed
qed

lemma enforce_replica_count_one_change:
  assumes "enforce_replica_count now srv w = (r, w')"
  shows "one_change srv {OperationIdReplicaDbCountSpecEnforcement} w r w'"
proof -
  define w1 where "w1 = (if replica_isManualFailoverRequested w then snd (resetInSpecManualFailover srv w) else w)"
  have c: "appends (\<lambda>c. \<not> locked_call c) w w1"
    by (auto simp: w1_def resetInSpecManualFailover_def client_update_Kubegres_def appends_def Let_def split: sum.splits)
  have adj: "one_change srv {OperationIdReplicaDbCountSpecEnforcement} v r w'" if "adjust_replicas now srv b v = (r, w')" for b v
    using that by (auto simp: adjust_replicas_def Let_def split: if_splits option.splits bool.splits
        intro: one_change_same deployReplica_one_change undeployReplica_one_change)
  consider "w' = w" | "w' = w1" | b where "adjust_replicas now srv b w1 = (r, w')"
    using assms unfolding enforce_replica_count_def w1_def [symmetric] Let_def by (auto split: if_splits)
  then show ?thesis
    using c by cases (auto intro: one_change_same one_change_unlocked one_change_after [OF c] adj)
qed

lemma Replica_one_change:
  assumes "ReplicaDbCountSpecEnforcer_Enforce now srv w = (r, w')"
  shows "one_change srv {OperationIdReplicaDbCountSpecEnforcement} w r w'"
proof -
  consider "w_calls w' = w_calls w" | "enforce_replica_count now srv w = (r, w')"
    | "enforce_replica_count now srv (InfoEvent ''KubegresReEnabled'' (RemoveActiveOperation w)) = (r, w')"
    using assms by (auto simp: ReplicaDbCountSpecEnforcer_Enforce_def logTimedOut_def split: if_splits)
  then show ?thesis
  proof cases
    case 3
    then show ?thesis by (rule one_change_after [OF appends_same enforce_replica_count_one_change, rotated]) simp
  qed (auto intro: one_change_same enforce_replica_count_one_change)
qed

interpretation replica_exclusive: exclusive_enforcer "ReplicaDbCountSpecEnforcer_Enforce now srv"
  "{OperationIdReplicaDbCountSpecEnforcement}" srv for now srv
  by unfold_locales (simp_all add: operation_ids_not_idle [simplified] Replica_one_change)

interpretation services_exclusive: exclusive_enforcer "Services_EnforceSpec srv" "{}" srv for srv
  by unfold_locales (auto dest!: Services_EnforceSpec_step simp: blocked_step_def intro: one_change_unlocked)

interpretation backup_exclusive: exclusive_enforcer "BackUpCronJob_EnforceSpec srv" "{}" srv for srv
  by unfold_locales (auto dest!: BackUpCronJob_EnforceSpec_step simp: blocked_step_def intro: one_change_unlocked)

lemma deletes_service_unlocked: "appends deletes_service w w' \<Longrightarrow> appends (\<lambda>c. \<not> locked_call c) w w'"
proof -
  have "deletes_service c \<Longrightarrow> \<not> locked_call c" for c by (cases c) simp_all
  then show "appends deletes_service w w' \<Longrightarrow> appends (\<lambda>c. \<not> locked_call c) w w'" by (auto simp: appends_def)
qed

lemma visit_all_one_change:
  assumes "visit_all addStatefulSetSpecEnforcers now srv ss w = (r, w')"
  shows "one_change srv {OperationIdStatefulSetSpecEnforcing} w r w'"
  using assms
proof (induction ss arbitrary: w)
  case Nil
  then show ?case by (auto intro: one_change_same)
next
  case (Cons s ss)
  obtain ro v where v: "visit addStatefulSetSpecEnforcers now srv s w = (ro, v)" by fastforce
  show ?case
  proof (cases ro)
    case None
    with Cons v visit_None(2) [OF v [unfolded None]] show ?thesis
      by (auto intro: one_change_after deletes_service_unlocked)
  next
    case (Some x)
    with Cons.prems v have "visit addStatefulSetSpecEnforcers now srv s w = (Some r, w')" by simp
    from visit_Some [OF this] show ?thesis
      by (auto simp: sends_one_def holds_after_def intro: one_change_single one_change_unlocked deletes_service_unlocked)
  qed
qed

interpretation spec_exclusive: exclusive_enforcer "AllStatefulSets_EnforceSpec addStatefulSetSpecEnforcers now srv"
  "{OperationIdStatefulSetSpecEnforcing}" srv for now srv
  by unfold_locales (auto simp: operation_ids_not_idle [simplified] AllStatefulSets_EnforceSpec_def blocked_different
      intro: one_change_same visit_all_one_change split: if_splits)

section \<open>The controller inherits it\<close>

lemma exclusive_run_all_Cons:
  "exclusive_enforcer f A srv \<Longrightarrow> exclusive_enforcer (run_all fs) B srv \<Longrightarrow> A \<inter> B = {} \<Longrightarrow>
   exclusive_enforcer (run_all (f # fs)) (A \<union> B) srv"
  using exclusive_and_then [of f A srv "run_all fs" B] by (simp add: exclusive_enforcer_def exclusive_enforcer_axioms_def count_enforcer_def)

lemma exclusive_run_all_Nil: "exclusive_enforcer (run_all []) {} srv"
  by unfold_locales (auto intro: one_change_same)

lemma all_operation_ids_distinct:
  "distinct [OperationIdBaseConfigCountSpecEnforcement, OperationIdPrimaryDbCountSpecEnforcement,
     OperationIdReplicaDbCountSpecEnforcement, OperationIdStatefulSetSpecEnforcing]"
  by (simp add: operation_id_defs)

lemma statefulset_exclusive:
  "exclusive_enforcer (StatefulSetCount_EnforceSpec now srv)
     ({OperationIdPrimaryDbCountSpecEnforcement} \<union> {OperationIdReplicaDbCountSpecEnforcement}) srv"
  unfolding StatefulSetCount_EnforceSpec_def
  by (rule exclusive_and_then [OF primary_exclusive.exclusive_enforcer_axioms replica_exclusive.exclusive_enforcer_axioms])
    (use all_operation_ids_distinct in auto)

interpretation controller: exclusive_enforcer "controller_enforceSpec clk srv"
  "{OperationIdBaseConfigCountSpecEnforcement, OperationIdPrimaryDbCountSpecEnforcement,
    OperationIdReplicaDbCountSpecEnforcement, OperationIdStatefulSetSpecEnforcing}" srv for clk srv
proof -
  let ?counts = "{OperationIdBaseConfigCountSpecEnforcement} \<union> (({OperationIdPrimaryDbCountSpecEnforcement} \<union>
    {OperationIdReplicaDbCountSpecEnforcement}) \<union> ({} \<union> ({} \<union> {})))"
  have "exclusive_enforcer (enforceResourcesCountSpec clk srv) ?counts srv"
    unfolding enforceResourcesCountSpec_def ResourcesCount_EnforceSpec_def addResourcesCountSpecEnforcers_def AddSpecEnforcer_def
      append.simps
    by (intro exclusive_run_all_Cons exclusive_run_all_Nil base_exclusive.exclusive_enforcer_axioms statefulset_exclusive
        services_exclusive.exclusive_enforcer_axioms backup_exclusive.exclusive_enforcer_axioms)
      (use all_operation_ids_distinct in auto)
  moreover have "exclusive_enforcer (enforceAllStatefulSetsSpec clk srv) {OperationIdStatefulSetSpecEnforcing} srv"
    unfolding enforceAllStatefulSetsSpec_def by (rule spec_exclusive.exclusive_enforcer_axioms)
  ultimately have "exclusive_enforcer (controller_enforceSpec clk srv) (?counts \<union> {OperationIdStatefulSetSpecEnforcing}) srv"
    unfolding controller_enforceSpec_def by (rule exclusive_and_then) (use all_operation_ids_distinct in auto)
  then show "exclusive_enforcer (controller_enforceSpec clk srv) {OperationIdBaseConfigCountSpecEnforcement,
      OperationIdPrimaryDbCountSpecEnforcement, OperationIdReplicaDbCountSpecEnforcement, OperationIdStatefulSetSpecEnforcing} srv"
    by (simp add: insert_commute)
qed

section \<open>One reconciliation\<close>

lemma UpdateStatus_appends: "UpdateStatusIfChanged srv w = (e, w') \<Longrightarrow> appends updates_Kubegres w w'"
  by (auto simp: UpdateStatusIfChanged_def appends_def Let_def split: option.splits sum.splits)

lemma returnn_appends: "returnn srv result err w = (r, w') \<Longrightarrow> appends updates_Kubegres w w'"
  by (auto simp: returnn_def dest: UpdateStatus_appends split: prod.splits option.splits)

lemma updates_not_locked: "updates_Kubegres c \<Longrightarrow> \<not> locked_call c"
  by (cases c) simp_all

lemma updates_Kubegres_unlocked: "appends updates_Kubegres w w' \<Longrightarrow> appends (\<lambda>c. \<not> locked_call c) w w'"
  by (auto simp: appends_def updates_not_locked)

lemma one_change_before:
  assumes "one_change srv A w r v" "appends (\<lambda>c. \<not> locked_call c) v w'"
  shows "\<exists>cs. w_calls w' = w_calls w @ cs \<and> length (accepted srv (w_calls w) cs) \<le> 1"
proof -
  obtain cs where "w_calls v = w_calls w @ cs" "length (accepted srv (w_calls w) cs) \<le> 1" using assms(1) by (auto simp: one_change_def)
  moreover obtain ds where "w_calls w' = w_calls v @ ds" "\<forall>c \<in> set ds. \<not> locked_call c" using assms(2) by (auto simp: appends_def)
  ultimately show ?thesis by (intro exI [of _ "cs @ ds"]) (simp add: accepted_append accepted_unlocked)
qed

lemma LoadActiveOperation_calls:
  "LoadActiveOperation t1 t2 t3 w = (n, w') \<Longrightarrow> w_calls w' = w_calls w \<and> w_spec w' = w_spec w \<and> w_states w' = w_states w \<and>
     w_configs w' = w_configs w"
  by (auto simp: LoadActiveOperation_def removeOperationIfNotActive_def isOperationCompletionConditionReached_def loadOperations_def Let_def
      split: if_splits prod.splits option.splits)

lemma CreateResourcesContext_calls:
  assumes "CreateResourcesContext srv k = (r, w)"
  shows "list_all updates_Kubegres (w_calls w)"
proof -
  let ?w0 = "CreateBlockingOperation (setReplicaFieldToZeroIfNil k)"
  have z: "w_calls ?w0 = []" by (simp add: CreateBlockingOperation_def)
  have load: "w_calls w1 = w_calls v" if "LoadResourcesStates srv v = (x, w1)" for x v w1
    using LoadResourcesStates_load_effect [of srv v] that by (cases x) (auto simp: load_effect_def failed_event_def)
  have add: "w_calls (addBlockingOperationConfigs srv v) = w_calls v" for v
    by (simp add: addBlockingOperationConfigs_def AddConfig_def Let_def)
  from assms have "\<exists>v. spec_step srv ?w0 v \<and> w_calls w = w_calls v"
    unfolding CreateResourcesContext_def
  proof (cases rule: and_then_cases)
    case first
    then show ?thesis using SetDefault_step by blast
  next
    case (second v)
    then have "w_calls w = w_calls v" by (auto simp: add split: prod.splits res.splits dest!: load)
    then show ?thesis using second SetDefault_step by blast
  qed
  then show ?thesis by (auto simp: spec_step_def appends_def z list_all_iff updates_object_Kubegres)
qed

text \<open>How a reconciliation ends: before the enforcers, or with them on a spec that was accepted.\<close>

lemma reconcile_context_cases:
  assumes "reconcile_context clk srv w = (r, w')"
  obtains (no_enforcement) "appends updates_Kubegres w w'"
  | (enforced) n w1 res w2 err w3 where
      "LoadActiveOperation (clk_timed_out clk) (clk_completed clk) (clk_left clk) w = (n, w1)" "n \<le> 0"
      "CheckSpec srv w1 = (Val res, w2)" "\<not> HasSpecFatalError res" "appends updates_Kubegres w w2"
      "controller_enforceSpec clk srv w2 = (err, w3)" "appends updates_Kubegres w3 w'"
proof (cases "load_panics clk srv w")
  case True
  with assms show ?thesis by (intro no_enforcement) (auto simp: reconcile_context_def)
next
  case False
  obtain n w1 where l: "LoadActiveOperation (clk_timed_out clk) (clk_completed clk) (clk_left clk) w = (n, w1)" by fastforce
  obtain x w2 where x: "CheckSpec srv w1 = (x, w2)" by fastforce
  obtain err w3 where e: "controller_enforceSpec clk srv w2 = (err, w3)" by fastforce
  have c1: "appends updates_Kubegres w w1" using LoadActiveOperation_calls [OF l] by (simp add: appends_same)
  then have c2: "appends updates_Kubegres w w2" using CheckSpec_step [OF x] by (auto simp: spec_step_def intro: appends_trans updates_object_appends)
  show ?thesis
  proof (cases "0 < n \<or> (\<forall>res. x = Val res \<longrightarrow> HasSpecFatalError res)")
    case True
    then have "appends updates_Kubegres w w'"
      using assms False l x c1 c2
      by (auto simp: reconcile_context_def split: if_splits res.splits dest!: returnn_appends intro: appends_trans)
    then show ?thesis by (rule no_enforcement)
  next
    case enf: False
    then obtain res where res: "x = Val res" "\<not> HasSpecFatalError res" by blast
    then have "appends updates_Kubegres w3 w'"
      using assms False enf l x e by (cases err) (auto simp: reconcile_context_def dest!: returnn_appends)
    with enf l x e res c2 show ?thesis by (intro enforced) auto
  qed
qed

lemma Reconcile_cases:
  assumes "Reconcile clk srv namespace name = (r, Some w')"
  obtains (not_created) "list_all updates_Kubegres (w_calls w')"
  | (created) k w where "srv_get_Kubegres srv namespace name = Inr k" "CreateResourcesContext srv k = (Ok, w)"
      "list_all updates_Kubegres (w_calls w)" "reconcile_context clk srv w = (r, w')"
proof -
  obtain k where k: "srv_get_Kubegres srv namespace name = Inr k"
    using assms by (auto simp: Reconcile_def getDeployedKubegresResource_def split: sum.splits)
  obtain x w where x: "CreateResourcesContext srv k = (x, w)" by fastforce
  show ?thesis
  proof (cases "x = Ok")
    case True
    with assms k x CreateResourcesContext_calls [OF x] show ?thesis
      by (intro created) (auto simp: Reconcile_def getDeployedKubegresResource_def split: prod.splits)
  next
    case False
    then have "w' = w" using assms k x by (cases x) (auto simp: Reconcile_def getDeployedKubegresResource_def)
    with CreateResourcesContext_calls [OF x] show ?thesis by (intro not_created) simp
  qed
qed

lemma accepted_updates: "list_all updates_Kubegres cs \<Longrightarrow> accepted srv sent cs = []"
  by (rule accepted_unlocked) (auto simp: list_all_iff updates_not_locked)

lemma Reconcile_accepted:
  assumes "Reconcile clk srv namespace name = (r, Some w')"
  shows "length (accepted srv [] (w_calls w')) \<le> 1"
  using assms
proof (cases rule: Reconcile_cases)
  case not_created
  then show ?thesis by (simp add: accepted_updates)
next
  case (created k w)
  have "\<exists>cs. w_calls w' = w_calls w @ cs \<and> length (accepted srv (w_calls w) cs) \<le> 1"
    using created(4)
  proof (cases rule: reconcile_context_cases)
    case no_enforcement
    then show ?thesis by (auto simp: appends_def accepted_unlocked updates_not_locked)
  next
    case (enforced n w1 res w2 err w3)
    note a = one_change_after [OF updates_Kubegres_unlocked [OF enforced(5)] controller.changes [OF enforced(6)]]
    from one_change_before [OF a updates_Kubegres_unlocked [OF enforced(7)]] show ?thesis .
  qed
  with created(3) show ?thesis by (auto simp: accepted_append accepted_updates)
qed

section \<open>The first reconciliation of a new cluster\<close>

text \<open>A new Kubegres resource in a cluster that has the storage class and nothing else.\<close>

definition fresh_server :: server where
  "fresh_server = sample_server\<lparr>srv_get_StorageClass := \<lambda>_ n. Inr (zero_StorageClass\<lparr>sc_Name := n\<rparr>),
     srv_update_Kubegres := \<lambda>_ k. Inr (k\<lparr>kg_Status := zero_Status\<rparr>)\<rparr>"

definition fresh_states :: ResourcesStates where
  "fresh_states = zero_ResourcesStates\<lparr>rs_DbStorageClass := \<lparr>dsc_IsDeployed = True, dsc_StorageClassName = ''standard''\<rparr>,
     rs_StatefulSets := zero_StatefulSetsStates\<lparr>sss_SpecExpectedNbreToDeploy := 3\<rparr>,
     rs_Config := \<lparr>cfs_IsBaseConfigDeployed = False, cfs_BaseConfigName = BaseConfigMapName, cfs_IsCustomConfigDeployed = False,
       cfs_CustomConfigName = BaseConfigMapName, cfs_ConfigLocations = base_locations\<rparr>\<rparr>"

definition fresh_world :: world where
  "fresh_world = addBlockingOperationConfigs fresh_server (CreateBlockingOperation sample_Kubegres\<lparr>w_states := fresh_states\<rparr>)"

lemma fresh_server_simps:
  "srv_write fresh_server cs c = None" "srv_get_StorageClass fresh_server cs n = Inr (zero_StorageClass\<lparr>sc_Name := n\<rparr>)"
  "srv_get_ConfigMap fresh_server cs a b = Inl ApiNotFound" "srv_get_CronJob fresh_server cs a b = Inl ApiNotFound"
  "srv_get_PersistentVolumeClaim fresh_server cs a b = Inl ApiNotFound" "srv_list_StatefulSets fresh_server cs a b = Inr []"
  "srv_list_Services fresh_server cs a b = Inr []" "srv_get_Kubegres fresh_server a b = Inr sample_Kubegres"
  by (simp_all add: fresh_server_def sample_server_def)

lemma sample_Kubegres_simps:
  "kg_Spec sample_Kubegres = sample_Spec" "spec_Replicas sample_Spec = Some 3" "defaults_set sample_Spec"
  "setReplicaFieldToZeroIfNil sample_Kubegres = sample_Kubegres" "spec_CustomConfig sample_Spec = BaseConfigMapName"
  "db_StorageClassName (spec_Database sample_Spec) = Some ''standard''"
  by (simp_all add: sample_Kubegres_def sample_Spec_def defaults_set_def isStorageClassNameUndefinedInSpec_def setReplicaFieldToZeroIfNil_def
      BaseConfigMapName_def)

lemma fresh_loads:
  assumes "kg_Spec k = sample_Spec" "srv = fresh_server\<lparr>srv_get_Kubegres := g, srv_update_Kubegres := u\<rparr>"
  shows "LoadResourcesStates srv (CreateBlockingOperation k) = (Val fresh_states, CreateBlockingOperation k)"
  by (simp add: assms LoadResourcesStates_def loadDbStorageClass_def GetStorageClass_def res_bind_def fresh_server_simps sample_Kubegres_simps
      CreateBlockingOperation_def loadConfigStates_def getDeployedConfigMap_def config_map_defs loadCustomConfigStates_def isBaseConfigAlsoCustomConfig_def
      isBaseConfigMap_def LoadStatefulSetsStates_def getDeployedStatefulSets_def loadServicesStates_def getDeployedServices_def
      loadBackUpStates_def getDeployedCronJob_def getDeployedPvc_def fresh_states_def zero_ResourcesStates_def
      zero_ConfigMap_def zero_CronJob_def zero_PersistentVolumeClaim_def zero_ObjectMeta_def BaseConfigMapName_def zero_StatefulSetsStates_def Let_def)

lemma fresh_context: "CreateResourcesContext fresh_server sample_Kubegres = (Ok, fresh_world)"
proof -
  have "w_kubegres (CreateBlockingOperation sample_Kubegres) = sample_Kubegres" by (simp add: CreateBlockingOperation_def)
  then show ?thesis using defaults_set_stable [of "CreateBlockingOperation sample_Kubegres" fresh_server]
    by (simp add: CreateResourcesContext_def sample_Kubegres_simps SetDefaultForUndefinedSpecValues_def fresh_world_def
        fresh_loads [of sample_Kubegres fresh_server "srv_update_Kubegres fresh_server" "srv_get_Kubegres fresh_server"])
qed

lemma fresh_world_fields:
  "w_kubegres fresh_world = sample_Kubegres" "w_states fresh_world = fresh_states" "w_calls fresh_world = []"
  by (simp_all add: fresh_world_def addBlockingOperationConfigs_def AddConfig_def CreateBlockingOperation_def Let_def)

lemma LoadActiveOperation_idle:
  assumes "status_BlockingOperation (w_status w) = zero_Operation"
  shows "LoadActiveOperation t1 t2 t3 w = (0, loadOperations w)" "\<not> load_panics clk srv w" "activeId (loadOperations w) = ''''"
proof -
  have a: "w_activeOperation (loadOperations w) = zero_Operation" using assms by (simp add: loadOperations_def status_defs)
  then show "LoadActiveOperation t1 t2 t3 w = (0, loadOperations w)"
    by (simp add: LoadActiveOperation_def removeOperationIfNotActive_def op_defs GetNbreSecondsLeftBeforeTimeOut_def zero_Operation_def)
  show "\<not> load_panics clk srv w" "activeId (loadOperations w) = ''''"
    using a by (simp_all add: load_panics_def op_defs activeId_def)
qed

lemma CheckSpec_accepts:
  assumes "\<not> pw_IsReady (sw_Pod (getPrimaryStatefulSet w))" "spec_ok w" "spec_Replicas (w_spec w) = Some n"
  shows "\<exists>r. CheckSpec srv w = (Val r, w) \<and> \<not> HasSpecFatalError r"
  using assms check_wellformed_flagged [OF assms(3)] by (auto simp: CheckSpec_def flagged_def)

lemma BaseConfigMap_deploys:
  assumes "activeId w = ''''" "\<not> isBaseConfigDeployed w" "\<forall>e \<in> set operation_table. registered_as w e"
    "srv_write srv (w_calls w) (CreateConfigMap (CreateBaseConfigMap (w_kubegres w))) = None"
  shows "\<exists>v. BaseConfigMap_EnforceSpec now srv w = (Ok, v) \<and> w_calls v = w_calls w @ [CreateConfigMap (CreateBaseConfigMap (w_kubegres w))]"
proof -
  let ?c = "CreateConfigMap (CreateBaseConfigMap (w_kubegres w))"
  have "fst (ActivateOperation now OperationIdBaseConfigCountSpecEnforcement OperationStepIdBaseConfigDeploying w) = Ok"
    using assms(1,3) by (auto simp: ActivateOperation_def activateOperation_Ok_iff activeId_def createOperationObj_def operation_table_def
        registered_as_def)
  then obtain w1 where 1: "ActivateOperation now OperationIdBaseConfigCountSpecEnforcement OperationStepIdBaseConfigDeploying w = (Ok, w1)"
    by (metis prod.collapse)
  then have "w_calls w1 = w_calls w" using activateOperation_frame(2) unfolding ActivateOperation_def by blast
  then show ?thesis using 1 assms
    by (simp add: BaseConfigMap_EnforceSpec_def op_defs activeId_def deployBaseConfigMap_def client_write_def operation_id_defs)
qed

text \<open>The first enforcer of the controller changes the cluster: no later one does.\<close>

lemma controller_first_change:
  assumes "BaseConfigMap_EnforceSpec (clk_enforce clk) srv w = (Ok, v)"
  shows "\<exists>r w' cs. controller_enforceSpec clk srv w = (r, w') \<and> w_calls w' = w_calls v @ cs"
proof -
  let ?rest = "[StatefulSetCount_EnforceSpec (clk_enforce clk) srv, Services_EnforceSpec srv, BackUpCronJob_EnforceSpec srv]"
  let ?R = "\<lambda>w w'. \<exists>cs. w_calls w' = w_calls w @ cs"
  obtain r w' where r: "and_then (run_all ?rest) (enforceAllStatefulSetsSpec clk srv) v = (r, w')" by fastforce
  have "controller_enforceSpec clk srv w = (r, w')"
    using r assms by (simp add: controller_enforceSpec_def enforceResourcesCountSpec_def ResourcesCount_EnforceSpec_def
        addResourcesCountSpecEnforcers_def AddSpecEnforcer_def and_then_def split: prod.splits outcome.splits)
  moreover have rest: "?R s t" if "run_all ?rest s = (x, t)" for s x t
    by (rule run_all_rel [of ?rest ?R, OF _ _ _ that])
      (auto dest!: exclusive_enforcer.changes [OF statefulset_exclusive] services_exclusive.changes backup_exclusive.changes simp: one_change_def)
  have "?R v w'"
    by (rule and_then_rel [of "run_all ?rest" ?R, OF rest _ _ r])
      (auto dest!: spec_exclusive.changes simp: one_change_def enforceAllStatefulSetsSpec_def)
  ultimately show ?thesis by blast
qed

definition noon :: clock where
  "noon = \<lparr>clk_timed_out = 1000, clk_completed = 1000, clk_left = 1000, clk_enforce = 1001\<rparr>"

lemma fresh_run:
  "\<exists>r w' cs. Reconcile noon fresh_server ''default'' ''mypostgres'' = (r, Some w') \<and>
     w_calls w' = CreateConfigMap (CreateBaseConfigMap sample_Kubegres) # cs"
proof -
  let ?v = "loadOperations fresh_world"
  have idle: "status_BlockingOperation (w_status fresh_world) = zero_Operation"
    by (simp add: fresh_world_fields sample_Kubegres_def zero_Status_def)
  note l = LoadActiveOperation_idle [OF idle]
  have v: "w_kubegres ?v = sample_Kubegres" "w_states ?v = fresh_states" "w_calls ?v = []"
    by (simp_all add: loadOperations_def fresh_world_fields)
  have "spec_ok ?v"
    by (simp add: spec_ok_def environment_ok_def instances_ok_def backup_ok_def volumes_ok_def v fresh_states_def
        sample_Kubegres_def sample_Spec_def BaseConfigMapName_def
        EnvVarNameOfPostgresSuperUserPsw_def EnvVarNameOfPostgresReplicationUserPsw_def)
  then obtain res where res: "CheckSpec fresh_server ?v = (Val res, ?v)" "\<not> HasSpecFatalError res"
    using CheckSpec_accepts [of ?v 3 fresh_server] by (auto simp: v sample_Kubegres_simps getPrimaryStatefulSet_def fresh_states_def
        zero_ResourcesStates_def zero_StatefulSetsStates_def zero_StatefulSetWrapper_def zero_PodWrapper_def)
  have "\<forall>e \<in> set operation_table. registered_as ?v e"
    using addBlockingOperationConfigs_registers [of _ fresh_server "CreateBlockingOperation sample_Kubegres\<lparr>w_states := fresh_states\<rparr>"]
    by (simp add: registered_as_def doesOperationHaveAssociatedConfig_def getConfig_def loadOperations_def fresh_world_def split: prod.splits)
  then obtain u where u: "BaseConfigMap_EnforceSpec 1001 fresh_server ?v = (Ok, u)"
    "w_calls u = [CreateConfigMap (CreateBaseConfigMap sample_Kubegres)]"
    using BaseConfigMap_deploys [OF l(3), of fresh_server 1001] by (auto simp: fresh_server_simps v isBaseConfigDeployed_def fresh_states_def)
  then obtain err w3 cs where e: "controller_enforceSpec noon fresh_server ?v = (err, w3)"
    "w_calls w3 = CreateConfigMap (CreateBaseConfigMap sample_Kubegres) # cs"
    using controller_first_change [of noon fresh_server ?v u] by (auto simp: noon_def)
  obtain r w' where c: "reconcile_context noon fresh_server fresh_world = (r, w')" by fastforce
  then have "\<exists>ds. w_calls w' = w_calls w3 @ ds"
    using l res e by (cases err) (auto simp: reconcile_context_def appends_def dest!: returnn_appends)
  with c e show ?thesis
    by (auto simp: Reconcile_def getDeployedKubegresResource_def fresh_server_simps fresh_context)
qed

section \<open>Properties\<close>

text \<open>
  C1: a reconciliation makes at most one change to the database cluster. Of all the requests
  to create the base configuration, to create, update or delete a StatefulSet, to delete a
  Pod or to resize a claim that one reconciliation sends, the API server accepts at most one,
  whatever the state of the cluster, the answers of the server and the outcome.
\<close>

theorem Reconcile_changes_at_most_once:
  assumes "Reconcile clk srv namespace name = (r, Some w')"
  shows "length (accepted srv [] (w_calls w')) \<le> 1"
  by (rule Reconcile_accepted [OF assms])

theorem Reconcile_changes_at_most_once_witness:
  "\<exists>r w' cs. Reconcile noon fresh_server ''default'' ''mypostgres'' = (r, Some w') \<and>
     w_calls w' = CreateConfigMap (CreateBaseConfigMap sample_Kubegres) # cs \<and> accepted fresh_server (take 1 (w_calls w')) cs = []"
proof -
  obtain r w' cs where w': "Reconcile noon fresh_server ''default'' ''mypostgres'' = (r, Some w')"
    "w_calls w' = CreateConfigMap (CreateBaseConfigMap sample_Kubegres) # cs" using fresh_run by blast
  from Reconcile_changes_at_most_once [OF w'(1)] w' show ?thesis by (auto simp: fresh_server_simps)
qed

text \<open>
  C17: nothing is enforced while an operation runs or while the spec is not acceptable. If a
  reconciliation sends anything but updates of the Kubegres resource, then the loaded
  operation left no time to wait for and the check of the spec found no error.
\<close>

theorem Reconcile_enforces_only_accepted_specs:
  assumes "Reconcile clk srv namespace name = (r, Some w')" "\<not> list_all updates_Kubegres (w_calls w')"
  shows "\<exists>k w n w1 res w2. srv_get_Kubegres srv namespace name = Inr k \<and> CreateResourcesContext srv k = (Ok, w) \<and>
    LoadActiveOperation (clk_timed_out clk) (clk_completed clk) (clk_left clk) w = (n, w1) \<and> n \<le> 0 \<and>
    CheckSpec srv w1 = (Val res, w2) \<and> \<not> HasSpecFatalError res"
  using assms(1)
proof (cases rule: Reconcile_cases)
  case not_created
  with assms(2) show ?thesis by simp
next
  case (created k w)
  from created(4) show ?thesis
  proof (cases rule: reconcile_context_cases)
    case no_enforcement
    with created(3) assms(2) show ?thesis by (auto simp: appends_def list_all_iff)
  next
    case (enforced n w1 res w2 err w3)
    with created show ?thesis by blast
  qed
qed

theorem Reconcile_enforces_only_accepted_specs_witness:
  "\<exists>w n w1 res w2. CreateResourcesContext fresh_server sample_Kubegres = (Ok, w) \<and>
     LoadActiveOperation 1000 1000 1000 w = (n, w1) \<and> n \<le> 0 \<and> CheckSpec fresh_server w1 = (Val res, w2) \<and> \<not> HasSpecFatalError res"
proof -
  obtain r w' cs where w': "Reconcile noon fresh_server ''default'' ''mypostgres'' = (r, Some w')"
    "w_calls w' = CreateConfigMap (CreateBaseConfigMap sample_Kubegres) # cs" using fresh_run by blast
  from Reconcile_enforces_only_accepted_specs [OF w'(1)] w'(2) show ?thesis by (auto simp: fresh_server_simps noon_def)
qed

end
