(* ===== verification/Steady_State.thy ===== *)
theory Steady_State
  imports One_Change
begin

text \<open>
  The two situations in which a reconciliation must leave the cluster alone: the spec is
  met, or an operation still has time.
\<close>

section \<open>A cluster that meets its spec\<close>

text \<open>
  Nothing runs, everything the spec asks for is there and ready, and no StatefulSet differs
  from the spec. The manual promotion has been reset, and the cluster is not a stand-by.
\<close>

definition primary_met :: "world \<Rightarrow> bool" where
  "primary_met w \<longleftrightarrow> \<not> isStandbyEnabled w \<and> failover_PromotePod (spec_Failover (w_spec w)) = '''' \<and>
     status_EnforcedReplicas (w_status w) > 0 \<and> isPrimaryDbDeployed w \<and> isPrimaryDbReady w"

definition instances_met :: "world \<Rightarrow> bool" where
  "instances_met w \<longleftrightarrow> primary_met w \<and>
     getNbreDeployedReplicas w = getExpectedNbreReplicasToDeploy w \<and> list_all sw_IsReady (getDeployedReplicas w)"

definition services_met :: "world \<Rightarrow> bool" where
  "services_met w \<longleftrightarrow> srw_IsDeployed (svs_Primary (rs_Services (w_states w))) \<and>
     (isThereReadyReplica w \<longrightarrow> srw_IsDeployed (svs_Replica (rs_Services (w_states w))))"

definition backup_met :: "world \<Rightarrow> bool" where
  "backup_met w \<longleftrightarrow> (if isCronJobDeployed w then backup_hasSpecChanged w = Some False else \<not> isBackUpConfigured w)"

definition specs_met :: "server \<Rightarrow> world \<Rightarrow> bool" where
  "specs_met srv w \<longleftrightarrow> list_all (\<lambda>s. collect_differences addStatefulSetSpecEnforcers srv w (sw_StatefulSet s) = Some [])
     (getAllReverseSortedByInstanceIndex w)"

definition converged :: "server \<Rightarrow> world \<Rightarrow> bool" where
  "converged srv w \<longleftrightarrow> isBaseConfigDeployed w \<and> instances_met w \<and> services_met w \<and> backup_met w \<and> specs_met srv w"

lemma BaseConfigMap_idle: "activeId w = '''' \<Longrightarrow> isBaseConfigDeployed w \<Longrightarrow> BaseConfigMap_EnforceSpec now srv w = (Ok, w)"
  by (simp add: BaseConfigMap_EnforceSpec_def op_defs activeId_def operation_id_defs)

lemma ShouldWeFailOver_idle:
  assumes "primary_met w"
  shows "ShouldWeFailOver w = (False, w)"
proof -
  have "isManualFailoverRequested w = (False, w)"
    using assms by (simp add: isManualFailoverRequested_def getInstanceIndexToManuallyPromote_def getPodToManuallyPromote_def
        primary_met_def)
  then show ?thesis
    using assms by (simp add: ShouldWeFailOver_def logFailoverCannotHappenAsNoReplicaDeployed_def isNewPrimaryRequired_def
        primary_met_def)
qed

lemma Primary_idle:
  assumes "activeId w = ''''" "primary_met w"
  shows "PrimaryDbCountSpecEnforcer_Enforce now srv w = (Ok, w)"
proof -
  have "initialiseStatusEnforcedReplicas w = (Ok, w)" "shouldWeDeployNewPrimaryDb w = Some False"
    using assms(2) by (simp_all add: initialiseStatusEnforcedReplicas_def shouldWeDeployNewPrimaryDb_def primary_met_def
        isPrimaryDbDeployed_def)
  with assms show ?thesis
    by (simp add: PrimaryDbCountSpecEnforcer_Enforce_def enforce_primary_count_def ShouldWeFailOver_idle op_defs activeId_def
        hasLastPrimaryCountSpecEnforcementAttemptTimedOut_def operation_id_defs) (simp add: primary_met_def)
qed

lemma Replica_idle:
  assumes "activeId w = ''''" "instances_met w"
  shows "ReplicaDbCountSpecEnforcer_Enforce now srv w = (Ok, w)"
proof -
  have "find (\<lambda>s. \<not> sw_IsReady s) (getDeployedReplicas w) = None"
    using assms(2) by (simp add: find_None_iff instances_met_def list_all_iff)
  then show ?thesis
    using assms by (simp add: ReplicaDbCountSpecEnforcer_Enforce_def enforce_replica_count_def adjust_replicas_def op_defs activeId_def
        hasLastAttemptTimedOut_def isReplicaOperationInProgress_def replica_isManualFailoverRequested_def instances_met_def
        primary_met_def operation_id_defs int32_id in_int32_def)
qed

lemma Services_idle: "services_met w \<Longrightarrow> Services_EnforceSpec srv w = (Ok, w)"
  by (auto simp: Services_EnforceSpec_def services_met_def and_then_def)

lemma BackUp_idle: "backup_met w \<Longrightarrow> BackUpCronJob_EnforceSpec srv w = (Ok, w)"
  by (simp add: BackUpCronJob_EnforceSpec_def backup_met_def create_backup_def split: if_splits)

lemma visit_all_idle:
  assumes "activeId w = ''''"
    and "list_all (\<lambda>s. collect_differences addStatefulSetSpecEnforcers srv w (sw_StatefulSet s) = Some []) ss"
  shows "visit_all addStatefulSetSpecEnforcers now srv ss w = (Ok, w)"
  using assms(2) by (induction ss) (simp_all add: visit_up_to_date [OF assms(1)])

lemma AllStatefulSets_idle:
  "activeId w = '''' \<Longrightarrow> specs_met srv w \<Longrightarrow> AllStatefulSets_EnforceSpec addStatefulSetSpecEnforcers now srv w = (Ok, w)"
  by (simp add: AllStatefulSets_EnforceSpec_def visit_all_idle specs_met_def op_defs activeId_def)

lemma controller_idle:
  assumes "activeId w = ''''" "converged srv w"
  shows "controller_enforceSpec clk srv w = (Ok, w)"
proof -
  have "primary_met w" using assms(2) by (simp add: converged_def instances_met_def)
  with assms show ?thesis
    by (simp add: controller_enforceSpec_def enforceResourcesCountSpec_def ResourcesCount_EnforceSpec_def addResourcesCountSpecEnforcers_def
      AddSpecEnforcer_def enforceAllStatefulSetsSpec_def StatefulSetCount_EnforceSpec_def converged_def
      BaseConfigMap_idle Primary_idle Replica_idle Services_idle BackUp_idle AllStatefulSets_idle)
qed

section \<open>The context of a reconciliation\<close>

definition context_of :: "server \<Rightarrow> Kubegres \<Rightarrow> ResourcesStates \<Rightarrow> world" where
  "context_of srv k rs = addBlockingOperationConfigs srv (CreateBlockingOperation k\<lparr>w_states := rs\<rparr>)"

lemma context_of_fields:
  "w_kubegres (context_of srv k rs) = k" "w_states (context_of srv k rs) = rs" "w_calls (context_of srv k rs) = []"
  "w_events (context_of srv k rs) = []" "w_statusFieldsToUpdate (context_of srv k rs) = None"
  by (simp_all add: context_of_def addBlockingOperationConfigs_def AddConfig_def CreateBlockingOperation_def Let_def)

lemma CreateResourcesContext_complete:
  assumes "spec_Replicas (kg_Spec k) = Some n" "defaults_set (kg_Spec k)"
    and "LoadResourcesStates srv (CreateBlockingOperation k) = (Val rs, w)"
  shows "CreateResourcesContext srv k = (Ok, context_of srv k rs)"
proof -
  have "w_kubegres (CreateBlockingOperation k) = k" by (simp add: CreateBlockingOperation_def)
  moreover have "w = CreateBlockingOperation k"
    using LoadResourcesStates_load_effect [of srv "CreateBlockingOperation k"] assms(3) by (simp add: load_effect_def failed_event_def)
  ultimately show ?thesis using assms defaults_set_stable [of "CreateBlockingOperation k" srv]
    by (simp add: CreateResourcesContext_def setReplicaFieldToZeroIfNil_def SetDefaultForUndefinedSpecValues_def context_of_def)
qed

lemma Reconcile_context:
  assumes "srv_get_Kubegres srv namespace name = Inr k" "spec_Replicas (kg_Spec k) = Some n" "defaults_set (kg_Spec k)"
    and "LoadResourcesStates srv (CreateBlockingOperation k) = (Val rs, w)"
    and "reconcile_context clk srv (context_of srv k rs) = (r, w')"
  shows "Reconcile clk srv namespace name = (r, Some w')"
  using assms CreateResourcesContext_complete [OF assms(2-4)]
  by (simp add: Reconcile_def getDeployedKubegresResource_def)

section \<open>A met spec is left alone\<close>

text \<open>What the check of the spec asks for, given a running primary.\<close>

definition checked_ok :: "server \<Rightarrow> world \<Rightarrow> bool" where
  "checked_ok srv w \<longleftrightarrow> spec_ok w \<and> (primary_ready w \<longrightarrow>
     matches_primary srv (w_spec w) (sw_StatefulSet (getPrimaryStatefulSet w)))"

lemma loadOperations_fields [simp]:
  "w_kubegres (loadOperations w) = w_kubegres w" "w_states (loadOperations w) = w_states w" "w_calls (loadOperations w) = w_calls w"
  "w_events (loadOperations w) = w_events w" "w_statusFieldsToUpdate (loadOperations w) = w_statusFieldsToUpdate w"
  by (simp_all add: loadOperations_def)

lemma converged_load: "converged srv (loadOperations w) = converged srv w"
proof -
  have "same_context w (loadOperations w)" by (simp add: same_context_def)
  then show ?thesis
    by (simp add: converged_def isBaseConfigDeployed_def instances_met_def primary_met_def services_met_def backup_met_def specs_met_def collect_cong
        isStandbyEnabled_def isPrimaryDbDeployed_def isPrimaryDbReady_def getNbreDeployedReplicas_def getExpectedNbreReplicasToDeploy_def
        getDeployedReplicas_def isThereReadyReplica_def isCronJobDeployed_def backup_hasSpecChanged_def isBackUpConfigured_def
        getAllReverseSortedByInstanceIndex_def all_isStandbyEnabled_def Let_def)
qed

lemma checked_load: "checked_ok srv (loadOperations w) = checked_ok srv w"
  by (simp add: checked_ok_def spec_ok_def environment_ok_def instances_ok_def backup_ok_def volumes_ok_def getPrimaryStatefulSet_def)

lemma CheckSpec_checked:
  assumes "keeps_spec srv" "spec_Replicas (w_spec w) = Some n" "defaults_set (w_spec w)" "checked_ok srv w"
    and "primary_ready w \<Longrightarrow> primary_shape (sw_StatefulSet (getPrimaryStatefulSet w)) m claim cls"
  shows "\<exists>r. CheckSpec srv w = (Val r, w) \<and> \<not> HasSpecFatalError r"
proof -
  obtain c where c: "db_StorageClassName (spec_Database (w_spec w)) = Some c"
    using assms(3) by (auto simp: defaults_set_def isStorageClassNameUndefinedInSpec_def split: option.splits)
  show ?thesis
    by (rule CheckSpec_cases [OF assms(1,2) c assms(5)]) (use assms(4) in \<open>auto simp: checked_ok_def\<close>)
qed

lemma reconcile_context_idle:
  assumes "status_BlockingOperation (w_status w) = zero_Operation" "w_statusFieldsToUpdate w = None" "converged srv w"
    and "keeps_spec srv" "spec_Replicas (w_spec w) = Some n" "defaults_set (w_spec w)" "checked_ok srv w"
    and "primary_ready w \<Longrightarrow> primary_shape (sw_StatefulSet (getPrimaryStatefulSet w)) m claim cls"
  shows "reconcile_context clk srv w = ((zero_Result, Ok), loadOperations w)"
proof -
  note l = LoadActiveOperation_idle [OF assms(1)]
  obtain r where "CheckSpec srv (loadOperations w) = (Val r, loadOperations w)" "\<not> HasSpecFatalError r"
    using CheckSpec_checked [of srv "loadOperations w" n m claim cls] assms(4-8) checked_load
    by (auto simp: getPrimaryStatefulSet_def)
  with l controller_idle [of "loadOperations w" srv clk] assms(2,3) show ?thesis
    by (simp add: reconcile_context_def converged_load returnn_def UpdateStatusIfChanged_def)
qed

text \<open>
  C3: A cluster that meets its spec is left alone. When the resource has its defaults, the
  spec passes the check, no operation is stored and everything is deployed, ready and
  without differences, a reconciliation sends no request at all, records no event, changes
  neither spec nor status and asks for no other run.
\<close>

theorem Reconcile_leaves_a_converged_cluster_alone:
  assumes "srv_get_Kubegres srv namespace name = Inr k" "spec_Replicas (kg_Spec k) = Some n" "defaults_set (kg_Spec k)"
    and "LoadResourcesStates srv (CreateBlockingOperation k) = (Val rs, w)"
    and "status_BlockingOperation (kg_Status k) = zero_Operation" "converged srv (context_of srv k rs)"
    and "keeps_spec srv" "checked_ok srv (context_of srv k rs)" "primary_shape (sw_StatefulSet (rs_Primary rs)) m claim cls"
  shows "\<exists>w'. Reconcile clk srv namespace name = ((\<lparr>Requeue = False, RequeueAfter = 0\<rparr>, Ok), Some w') \<and>
    w_calls w' = [] \<and> w_events w' = [] \<and> w_kubegres w' = k"
proof -
  let ?w = "context_of srv k rs"
  have "reconcile_context clk srv ?w = ((zero_Result, Ok), loadOperations ?w)"
    using assms(2,3,5-9) by (intro reconcile_context_idle) (auto simp: context_of_fields getPrimaryStatefulSet_def)
  from Reconcile_context [OF assms(1-4) this] show ?thesis by (simp add: context_of_fields zero_Result_def)
qed

section \<open>A running cluster of one instance\<close>

definition steady_Kubegres :: Kubegres where
  "steady_Kubegres = sample_Kubegres\<lparr>kg_Spec := sample_Spec\<lparr>spec_Replicas := Some 1\<rparr>,
     kg_Status := zero_Status\<lparr>status_EnforcedReplicas := 1, status_LastCreatedInstanceIndex := 1\<rparr>\<rparr>"

definition steady_container :: Container where
  "steady_container = sample_container\<lparr>ctr_VolumeMounts :=
     [\<lparr>vm_Name = ''postgres-db'', vm_MountPath = ''/var/lib/postgresql/data'', vm_SubPath = '''', vm_rest = KNull\<rparr>]\<rparr>"

definition steady_primary :: StatefulSet where
  "steady_primary = (sample_StatefulSet 1 ''primary'' 1)\<lparr>sts_Template := \<lparr>pt_Labels = [(''index'', Itoa 1), (''replicationRole'', ''primary'')],
        pt_Annotations = [], pt_Spec = zero_PodSpec\<lparr>ps_Containers := [steady_container], ps_Affinity := Some KNull\<rparr>\<rparr>,
      sts_VolumeClaimTemplates := [\<lparr>pvc_Name = ''postgres-db'', pvc_Namespace = '''', pvc_Spec = running_claim\<rparr>]\<rparr>"

definition steady_service :: Service where
  "steady_service = the (CreatePrimaryService steady_Kubegres)"

definition steady_server :: server where
  "steady_server = fresh_server\<lparr>srv_get_Kubegres := \<lambda>_ _. Inr steady_Kubegres,
     srv_get_ConfigMap := \<lambda>_ _ _. Inr (CreateBaseConfigMap steady_Kubegres), srv_list_StatefulSets := \<lambda>_ _ _. Inr [steady_primary],
     srv_list_Pods := \<lambda>_ _ _. Inr [sample_Pod 1 True], srv_list_Services := \<lambda>_ _ _. Inr [steady_service]\<rparr>"

definition steady_states :: ResourcesStates where
  "steady_states = fresh_states\<lparr>rs_StatefulSets := loaded 1 1 [wrap_pod (sample_Pod 1 True)] [steady_primary],
     rs_Config := (rs_Config fresh_states)\<lparr>cfs_IsBaseConfigDeployed := True\<rparr>,
     rs_Services := \<lparr>svs_Primary = \<lparr>srw_Name = GetServiceResourceName steady_Kubegres True, srw_IsDeployed = True,
         srw_Service = steady_service\<rparr>, svs_Replica = zero_ServiceWrapper\<rparr>\<rparr>"

lemma steady_Kubegres_simps:
  "kg_Spec steady_Kubegres = sample_Spec\<lparr>spec_Replicas := Some 1\<rparr>" "kg_meta steady_Kubegres = kg_meta sample_Kubegres"
  "status_BlockingOperation (kg_Status steady_Kubegres) = zero_Operation" "defaults_set (kg_Spec steady_Kubegres)"
  "status_EnforcedReplicas (kg_Status steady_Kubegres) = 1"
  using sample_Kubegres_simps(3)
  by (simp_all add: steady_Kubegres_def zero_Status_def defaults_set_def isStorageClassNameUndefinedInSpec_def)

lemma steady_service_primary: "service_isPrimary steady_service"
  using CreateService_Some(1) [of steady_Kubegres] by (auto simp: steady_service_def)

lemma steady_server_simps:
  "srv_get_Kubegres steady_server a b = Inr steady_Kubegres" "srv_get_ConfigMap steady_server cs a b = Inr (CreateBaseConfigMap steady_Kubegres)"
  "srv_list_StatefulSets steady_server cs a b = Inr [steady_primary]" "srv_list_Pods steady_server cs a b = Inr [sample_Pod 1 True]"
  "srv_list_Services steady_server cs a b = Inr [steady_service]" "srv_get_CronJob steady_server cs a b = Inl ApiNotFound"
  "srv_get_PersistentVolumeClaim steady_server cs a b = Inl ApiNotFound" "srv_quantity_string steady_server (Quantity q) = q"
  "srv_get_StorageClass steady_server cs n = Inr (zero_StorageClass\<lparr>sc_Name := n\<rparr>)" "keeps_spec steady_server"
  by (simp_all add: steady_server_def fresh_server_def sample_server_def keeps_spec_def)

lemma steady_primary_labels:
  "map_get (sts_TemplateLabels steady_primary) ''index'' = Itoa 1" "isPrimary steady_primary" "has_index steady_primary"
  "sts_ReadyReplicas steady_primary = 1"
  by (simp_all add: steady_primary_def map_get_def isPrimary_def PrimaryRoleName_def has_index_def ParseInt32_Itoa in_int32_def)

lemma steady_loads:
  "LoadResourcesStates steady_server (CreateBlockingOperation steady_Kubegres) = (Val steady_states, CreateBlockingOperation steady_Kubegres)"
proof -
  let ?w = "CreateBlockingOperation steady_Kubegres"
  have w: "w_kubegres ?w = steady_Kubegres" by (simp add: CreateBlockingOperation_def)
  have "LoadStatefulSetsStates steady_server ?w = (Val (loaded 1 1 [wrap_pod (sample_Pod 1 True)] [steady_primary]), ?w)"
    using LoadStatefulSetsStates_loaded [of steady_server ?w "[steady_primary]" "[sample_Pod 1 True]" 1]
    by (simp add: steady_server_simps w steady_Kubegres_simps steady_primary_labels)
  moreover have "cm_Name (CreateBaseConfigMap steady_Kubegres) = BaseConfigMapName"
    by (simp add: CreateBaseConfigMap_def LoadBaseConfigMap_def BaseConfigMapTemplate_def BaseConfigMapName_def)
  ultimately show ?thesis
    by (simp add: LoadResourcesStates_def loadDbStorageClass_def GetStorageClass_def res_bind_def steady_server_simps w steady_Kubegres_simps
      loadConfigStates_def getDeployedConfigMap_def config_map_defs loadCustomConfigStates_def isBaseConfigAlsoCustomConfig_def sample_Kubegres_simps
      isBaseConfigMap_def loadServicesStates_def getDeployedServices_def add_service_def steady_service_primary
      loadBackUpStates_def getDeployedCronJob_def getDeployedPvc_def steady_states_def fresh_states_def zero_ResourcesStates_def
      zero_CronJob_def zero_PersistentVolumeClaim_def zero_ObjectMeta_def Let_def)
qed

abbreviation steady_world :: world where
  "steady_world \<equiv> context_of steady_server steady_Kubegres steady_states"

lemma steady_fields:
  "w_states steady_world = steady_states" "w_kubegres steady_world = steady_Kubegres"
  "rs_Primary steady_states = wrap [wrap_pod (sample_Pod 1 True)] steady_primary" "rep_NbreDeployed (rs_Replicas steady_states) = 0"
  "rep_NbreReady (rs_Replicas steady_states) = 0" "sss_SpecExpectedNbreToDeploy (rs_StatefulSets steady_states) = 1"
  "GetAllSortedByInstanceIndex (rep_All (rs_Replicas steady_states)) = []"
  "GetAllReverseSortedByInstanceIndex (rep_All (rs_Replicas steady_states)) = []"
  "\<not> cfs_IsCustomConfigDeployed (rs_Config steady_states)" "cfs_ConfigLocations (rs_Config steady_states) = base_locations"
  by (simp_all add: context_of_fields steady_states_def loaded_def steady_primary_labels wrappers.build_def int32_id in_int32_def)
    (simp_all add: fresh_states_def zero_StatefulSetWrappers_def GetAllSortedByInstanceIndex_def GetAllReverseSortedByInstanceIndex_def)

lemma steady_primary_fields:
  "container0 steady_primary = Some steady_container" "init0 steady_primary = None"
  "sts_PodSpec steady_primary = zero_PodSpec\<lparr>ps_Containers := [steady_container], ps_Affinity := Some KNull\<rparr>"
  "md_Labels (sts_meta steady_primary) = []" "md_Annotations (sts_meta steady_primary) = []"
  by (simp_all add: steady_primary_def container0_def init0_def zero_PodSpec_def sample_StatefulSet_def zero_ObjectMeta_def)

lemma steady_primary_agrees:
  assumes "w_spec w = sample_Spec\<lparr>spec_Replicas := n\<rparr>" "kg_meta (w_kubegres w) = kg_meta sample_Kubegres"
    and "rs_Config (w_states w) = rs_Config steady_states"
  shows "\<forall>e \<in> set addStatefulSetSpecEnforcers. settled e srv w steady_primary"
  unfolding addStatefulSetSpecEnforcers_def simple_enforcer_def
  by (simp add: settled_def settled_iff assms steady_fields steady_primary_fields sample_Spec_def steady_container_def
      sample_container_def zero_PodSpec_def config_mounts_def config_key_defs
      config_settled_def mounts_ok_def zero_ResourceRequirements_def compareResources_def compareResourceLists_def compare_items_def
      getCurrentCustomVolumes_def custom_mounts_def metadata_equals_def getCustomMetadata_def extractCustom_def maps_Equal_def
      sample_Kubegres_def zero_ObjectMeta_def getCustomConfigMapVolume_def volume_ok_def IsReservedVolumeName_def
      DatabaseVolumeName_def)

lemma steady_primary_settled: "collect_differences addStatefulSetSpecEnforcers steady_server steady_world steady_primary = Some []"
  by (rule collect_differences_none, rule steady_primary_agrees) (simp_all add: steady_fields steady_Kubegres_simps)

lemma steady_converged: "converged steady_server steady_world"
proof -
  have "instances_met steady_world"
    by (simp add: instances_met_def primary_met_def isStandbyEnabled_def isPrimaryDbDeployed_def isPrimaryDbReady_def getNbreDeployedReplicas_def
        getExpectedNbreReplicasToDeploy_def getDeployedReplicas_def steady_fields steady_Kubegres_simps steady_primary_labels sample_Spec_def)
  moreover have "specs_met steady_server steady_world"
    using steady_primary_settled by (simp add: specs_met_def getAllReverseSortedByInstanceIndex_def all_isStandbyEnabled_def steady_fields
        steady_Kubegres_simps sample_Spec_def)
  moreover have "services_met steady_world" "backup_met steady_world" "isBaseConfigDeployed steady_world"
    by (simp_all add: services_met_def backup_met_def isBaseConfigDeployed_def isThereReadyReplica_def isCronJobDeployed_def
        isBackUpConfigured_def steady_fields steady_Kubegres_simps sample_Spec_def)
      (simp_all add: steady_states_def fresh_states_def zero_ResourcesStates_def)
  ultimately show ?thesis by (simp add: converged_def)
qed

lemma steady_shape: "primary_shape steady_primary ''/var/lib/postgresql/data'' running_claim ''standard''"
  by (simp add: primary_shape_def primary_VolumeMount_def primary_ClaimSpec_def steady_primary_def steady_container_def running_claim_def
      DatabaseVolumeName_def)

lemma steady_checked: "checked_ok steady_server steady_world"
proof -
  have "matches_primary steady_server (w_spec steady_world) steady_primary"
    using steady_shape by (simp add: matches_primary_def primary_shape_def steady_fields steady_Kubegres_simps sample_Spec_def
        steady_server_simps checked_world_simps(6))
      (simp add: claims_match_def steady_primary_def IsReservedVolumeName_def DatabaseVolumeName_def)
  moreover have "spec_ok steady_world"
    by (simp add: spec_ok_def environment_ok_def instances_ok_def backup_ok_def volumes_ok_def steady_fields steady_Kubegres_simps
        sample_Spec_def BaseConfigMapName_def EnvVarNameOfPostgresSuperUserPsw_def EnvVarNameOfPostgresReplicationUserPsw_def)
      (simp add: steady_states_def fresh_states_def)
  ultimately show ?thesis by (simp add: checked_ok_def getPrimaryStatefulSet_def steady_fields)
qed

theorem Reconcile_leaves_a_converged_cluster_alone_witness:
  "\<exists>w'. Reconcile noon steady_server ''default'' ''mypostgres'' = ((\<lparr>Requeue = False, RequeueAfter = 0\<rparr>, Ok), Some w') \<and>
     w_calls w' = [] \<and> w_events w' = [] \<and> w_kubegres w' = steady_Kubegres"
  using steady_shape
  by (intro Reconcile_leaves_a_converged_cluster_alone [OF steady_server_simps(1) _ steady_Kubegres_simps(4) steady_loads
      steady_Kubegres_simps(3) steady_converged steady_server_simps(10) steady_checked])
    (simp_all add: steady_Kubegres_simps steady_fields)

section \<open>A running operation\<close>

lemma LoadActiveOperation_running:
  assumes "op_OperationId (status_BlockingOperation (w_status w)) \<noteq> ''''"
    and "op_StepId (status_BlockingOperation (w_status w)) \<noteq> TransitionOperationStepId"
    and "\<not> hasOperationTimedOut t1 (loadOperations w)" "\<not> fst (isOperationCompletionConditionReached t2 (loadOperations w))"
  shows "\<exists>w1. LoadActiveOperation t1 t2 t3 w = (min 20 (GetNbreSecondsLeftBeforeTimeOut t3 w1), w1) \<and> same_but_events (loadOperations w) w1"
proof -
  obtain c w1 where c: "isOperationCompletionConditionReached t2 (loadOperations w) = (c, w1)" by fastforce
  then have "same_but_events (loadOperations w) w1"
    by (auto simp: isOperationCompletionConditionReached_def same_but_events_def record_events_def split: option.splits prod.splits)
  moreover have "LoadActiveOperation t1 t2 t3 w = (min 20 (GetNbreSecondsLeftBeforeTimeOut t3 w1), w1)"
    using assms c by (simp add: LoadActiveOperation_def removeOperationIfNotActive_def op_defs isOperationInTransition_def Let_def
        loadOperations_def status_defs min_def)
  ultimately show ?thesis by blast
qed

lemma reconcile_context_running:
  assumes "status_BlockingOperation (kg_Status k) = ope" "op_OperationId ope \<noteq> ''''" "op_StepId ope \<noteq> TransitionOperationStepId"
    and "clk_timed_out clk < op_TimeOutEpocInSeconds ope" "clk_left clk < op_TimeOutEpocInSeconds ope"
    and "0 \<le> clk_timed_out clk" "0 \<le> clk_left clk" "in_int64 (op_TimeOutEpocInSeconds ope)"
    and "\<not> load_panics clk srv (context_of srv k rs)"
    and "\<not> fst (isOperationCompletionConditionReached (clk_completed clk) (loadOperations (context_of srv k rs)))"
  shows "\<exists>w'. reconcile_context clk srv (context_of srv k rs) =
      ((\<lparr>Requeue = True, RequeueAfter = min 20 (op_TimeOutEpocInSeconds ope - clk_left clk) * 1000000000\<rparr>, Ok), w') \<and>
    w_calls w' = [] \<and> w_kubegres w' = k"
proof -
  let ?w = "context_of srv k rs" and ?left = "op_TimeOutEpocInSeconds ope - clk_left clk"
  have v: "w_activeOperation (loadOperations ?w) = ope"
    using assms(1) by (simp add: loadOperations_def status_defs context_of_fields)
  have "in_int64 (op_TimeOutEpocInSeconds ope - clk_timed_out clk)" "in_int64 ?left"
    using assms(4-8) by (auto simp: in_int64_def)
  then have i: "int64 (op_TimeOutEpocInSeconds ope - clk_timed_out clk) = op_TimeOutEpocInSeconds ope - clk_timed_out clk"
    "int64 ?left = ?left" by (simp_all add: int64_id)
  have running: "\<not> hasOperationTimedOut (clk_timed_out clk) (loadOperations ?w)"
    using assms(4) by (simp add: hasOperationTimedOut_def v i)
  obtain w1 where w1: "LoadActiveOperation (clk_timed_out clk) (clk_completed clk) (clk_left clk) ?w =
      (min 20 (GetNbreSecondsLeftBeforeTimeOut (clk_left clk) w1), w1)" "same_but_events (loadOperations ?w) w1"
    using LoadActiveOperation_running [OF _ _ running assms(10)] assms(1-3) by (auto simp: context_of_fields)
  have "GetNbreSecondsLeftBeforeTimeOut (clk_left clk) w1 = ?left"
    using w1(2) v assms(5,7) by (auto simp: GetNbreSecondsLeftBeforeTimeOut_def same_but_events_fields i)
  moreover have "int64 (min 20 ?left * 1000000000) = min 20 ?left * 1000000000"
    using assms(5) by (intro int64_id) (auto simp: in_int64_def min_def)
  ultimately have "reconcile_context clk srv ?w =
      ((\<lparr>Requeue = True, RequeueAfter = min 20 ?left * 1000000000\<rparr>, Ok), w1)"
    using w1 assms(5,9) by (simp add: reconcile_context_def returnn_def UpdateStatusIfChanged_def same_but_events_fields context_of_fields)
  then show ?thesis using w1(2) by (simp add: same_but_events_fields context_of_fields)
qed

text \<open>
  C4: The operator waits for a running operation and comes back in time. While the stored
  operation has not reached its deadline and is not completed, a reconciliation sends
  nothing, leaves spec and status alone, and asks to be run again after the time that
  is left, at most 20 seconds (in nanoseconds).
\<close>

theorem Reconcile_waits_for_a_running_operation:
  assumes "srv_get_Kubegres srv namespace name = Inr k" "spec_Replicas (kg_Spec k) = Some n" "defaults_set (kg_Spec k)"
    and "LoadResourcesStates srv (CreateBlockingOperation k) = (Val rs, w)"
    and "status_BlockingOperation (kg_Status k) = ope" "op_OperationId ope \<noteq> ''''" "op_StepId ope \<noteq> TransitionOperationStepId"
    and "clk_timed_out clk < op_TimeOutEpocInSeconds ope" "clk_left clk < op_TimeOutEpocInSeconds ope"
    and "0 \<le> clk_timed_out clk" "0 \<le> clk_left clk" "in_int64 (op_TimeOutEpocInSeconds ope)"
    and "\<not> load_panics clk srv (context_of srv k rs)"
    and "\<not> fst (isOperationCompletionConditionReached (clk_completed clk) (loadOperations (context_of srv k rs)))"
  shows "\<exists>w'. Reconcile clk srv namespace name =
      ((\<lparr>Requeue = True, RequeueAfter = min 20 (op_TimeOutEpocInSeconds ope - clk_left clk) * 1000000000\<rparr>, Ok), Some w') \<and>
    w_calls w' = [] \<and> w_kubegres w' = k"
proof -
  obtain w' where "reconcile_context clk srv (context_of srv k rs) =
      ((\<lparr>Requeue = True, RequeueAfter = min 20 (op_TimeOutEpocInSeconds ope - clk_left clk) * 1000000000\<rparr>, Ok), w')"
    "w_calls w' = []" "w_kubegres w' = k"
    using reconcile_context_running [OF assms(5-14)] by blast
  with Reconcile_context [OF assms(1-4)] show ?thesis by blast
qed

text \<open>The new cluster of theory \<open>One_Change\<close> three seconds after its base configuration was requested.\<close>

definition waiting_operation :: KubegresBlockingOperation where
  "waiting_operation = (createOperationObj OperationIdBaseConfigCountSpecEnforcement OperationStepIdBaseConfigDeploying)
     \<lparr>op_TimeOutEpocInSeconds := 1007\<rparr>"

definition waiting_Kubegres :: Kubegres where
  "waiting_Kubegres = sample_Kubegres\<lparr>kg_Status := zero_Status\<lparr>status_BlockingOperation := waiting_operation\<rparr>\<rparr>"

definition waiting_server :: server where
  "waiting_server = fresh_server\<lparr>srv_get_Kubegres := \<lambda>_ _. Inr waiting_Kubegres,
     srv_update_Kubegres := \<lambda>_ k. Inr (k\<lparr>kg_Status := kg_Status waiting_Kubegres\<rparr>)\<rparr>"

lemma waiting_operation_simps:
  "op_OperationId waiting_operation = OperationIdBaseConfigCountSpecEnforcement"
  "op_StepId waiting_operation = OperationStepIdBaseConfigDeploying" "op_TimeOutEpocInSeconds waiting_operation = 1007"
  by (simp_all add: waiting_operation_def createOperationObj_def)

lemma waiting_Kubegres_simps:
  "kg_Spec waiting_Kubegres = sample_Spec" "status_BlockingOperation (kg_Status waiting_Kubegres) = waiting_operation"
  by (simp_all add: waiting_Kubegres_def sample_Kubegres_def)

lemmas waiting_loads = fresh_loads [OF waiting_Kubegres_simps(1) waiting_server_def]

lemma waiting_not_completed:
  "\<not> fst (isOperationCompletionConditionReached 1000 (loadOperations (context_of waiting_server waiting_Kubegres fresh_states)))"
proof -
  let ?v = "loadOperations (context_of waiting_server waiting_Kubegres fresh_states)"
  have a: "w_activeOperation ?v = waiting_operation" by (simp add: loadOperations_def status_defs context_of_fields waiting_Kubegres_simps)
  have "getConfig waiting_operation ?v = CreateOperationConfig fresh_states"
    by (simp add: getConfig_def waiting_operation_simps loadOperations_def context_of_def addBlockingOperationConfigs_def Let_def
        w_configs_AddConfig config_defs config_id_neqs config_id_neqs_rev)
  moreover have "cfg_CompletionChecker (CreateOperationConfig fresh_states) = Some (\<lambda>_ _. (False, []))"
    by (simp add: CreateOperationConfig_def fresh_states_def)
  ultimately show ?thesis by (simp add: isOperationCompletionConditionReached_def a)
qed

theorem Reconcile_waits_for_a_running_operation_witness:
  "\<exists>w'. Reconcile noon waiting_server ''default'' ''mypostgres'' = ((\<lparr>Requeue = True, RequeueAfter = 7000000000\<rparr>, Ok), Some w') \<and>
     w_calls w' = [] \<and> w_kubegres w' = waiting_Kubegres"
proof -
  have "\<not> load_panics noon waiting_server (context_of waiting_server waiting_Kubegres fresh_states)"
    by (simp add: load_panics_def completion_checker_panics_def loadOperations_def status_defs context_of_fields waiting_Kubegres_simps
        waiting_operation_simps)
  then show ?thesis
    using Reconcile_waits_for_a_running_operation [of waiting_server "''default''" "''mypostgres''" waiting_Kubegres 3 fresh_states _
        waiting_operation noon, OF _ _ _ waiting_loads] waiting_not_completed
    by (simp add: waiting_server_def waiting_Kubegres_simps sample_Kubegres_simps waiting_operation_simps noon_def in_int64_def
        operation_id_defs)
qed

section \<open>The registered operations\<close>

lemma CreateResourcesContext_registers:
  assumes "CreateResourcesContext srv k = (Ok, w)" "e \<in> set operation_table"
  shows "registered_as w e"
proof -
  obtain v where "w = addBlockingOperationConfigs srv v"
    using assms(1) unfolding CreateResourcesContext_def
    by (cases rule: and_then_cases) (auto split: prod.splits res.splits)
  then show ?thesis using addBlockingOperationConfigs_registers [OF assms(2)] by simp
qed

text \<open>
  No enforcer asks for an operation that is unknown. After the context of a
  reconciliation has been created, each of the nine steps of the four operations is
  registered under its own identifier: while nothing else runs, its activation succeeds, the
  deadline is set by the time-out of that step, and the step ends as its configuration
  says.
\<close>

lemma context_registers_every_operation:
  assumes "CreateResourcesContext srv k = (Ok, w)" "activeId w = ''''" "(operationId, stepId, seconds, transition) \<in> set operation_table"
  shows "\<exists>w'. ActivateOperation now operationId stepId w = (Ok, w') \<and> op_OperationId (w_activeOperation w') = operationId \<and>
    op_StepId (w_activeOperation w') = stepId \<and> op_TimeOutEpocInSeconds (w_activeOperation w') = int64 (now + seconds) \<and>
    shouldOperationBeInTransition w' = transition"
proof -
  let ?ope = "createOperationObj operationId stepId"
  have r: "doesOperationHaveAssociatedConfig ?ope w" "cfg_TimeOutInSeconds (getConfig ?ope w) = seconds"
    "cfg_AfterCompletionMoveToTransitionStep (getConfig ?ope w) = transition"
    using CreateResourcesContext_registers [OF assms(1,3)] by (simp_all add: registered_as_def createOperationObj_def)
  then have "fst (activateOperation now ?ope w) = Ok" using assms(2) by (simp add: activateOperation_Ok_iff activeId_def)
  then obtain w' where w': "activateOperation now ?ope w = (Ok, w')" by (metis prod.collapse)
  have "getConfig (w_activeOperation w') w' = getConfig ?ope w"
    using activateOperation_frame(4) [OF w'] by (simp add: getConfig_def activateOperation_success(1) [OF w'])
  with w' r show ?thesis
    by (simp add: ActivateOperation_def activateOperation_success(1) [OF w'] shouldOperationBeInTransition_def createOperationObj_def)
qed

lemma context_registers_every_operation_witness:
  "\<exists>w'. ActivateOperation 1000 OperationIdReplicaDbCountSpecEnforcement OperationStepIdReplicaDbUndeploying fresh_world = (Ok, w') \<and>
     op_TimeOutEpocInSeconds (w_activeOperation w') = 1060"
proof -
  have "activeId fresh_world = ''''"
    by (simp add: fresh_world_def addBlockingOperationConfigs_def AddConfig_def CreateBlockingOperation_def activeId_def Let_def)
  from context_registers_every_operation [OF fresh_context this, of OperationIdReplicaDbCountSpecEnforcement
      OperationStepIdReplicaDbUndeploying 60 False 1000]
  show ?thesis by (auto simp: operation_table_def int64_id in_int64_def)
qed

end
