(* ===== verification/Operation_Lease.thy ===== *)
theory Operation_Lease
  imports Operation_Machine
begin

text \<open>
  The contract of \<open>src/controllers/operation/BlockingOperation.go\<close>, stated without the
  Kubegres object, its status and the registered configurations: a lease with a holder and a deadline. The
  functions of the code refine it.
\<close>

section \<open>The lease\<close>

text \<open>
  A lease is free, runs until a deadline, has run out while its holder is still waited
  for, or is kept for the holder's next step without a deadline.
\<close>

datatype lease =
    Free
  | Running string string int
  | Expired string string int
  | Kept string

fun lease_holder :: "lease \<Rightarrow> string option" where
  "lease_holder Free = None"
| "lease_holder (Running holder step deadline) = Some holder"
| "lease_holder (Expired holder step deadline) = Some holder"
| "lease_holder (Kept holder) = Some holder"

text \<open>A lease is given to whoever asks while it is free, and renewed for its holder.\<close>

definition acquire_lease :: "string \<Rightarrow> string \<Rightarrow> int \<Rightarrow> lease \<Rightarrow> lease option" where
  "acquire_lease holder step deadline l =
     (if lease_holder l = None \<or> lease_holder l = Some holder then Some (Running holder step deadline) else None)"

text \<open>
  What a look at the clock does. \<open>late\<close>: the deadline has passed; \<open>awaited\<close>: someone
  checks for completion, so that a late holder keeps the lease; \<open>completed\<close>: the check succeeded;
  \<open>keeps\<close>: the holder has another step to do.
\<close>

definition end_lease :: "bool \<Rightarrow> string \<Rightarrow> lease" where
  "end_lease keeps holder = (if keeps then Kept holder else Free)"

definition check_running :: "(int \<Rightarrow> bool) \<Rightarrow> bool \<Rightarrow> bool \<Rightarrow> bool \<Rightarrow> string \<Rightarrow> string \<Rightarrow> int \<Rightarrow> lease" where
  "check_running late awaited completed keeps holder step deadline =
     (if late deadline then (if awaited then Expired holder step deadline else end_lease keeps holder)
      else if completed then end_lease keeps holder
      else Running holder step deadline)"

fun check_lease :: "(int \<Rightarrow> bool) \<Rightarrow> bool \<Rightarrow> bool \<Rightarrow> bool \<Rightarrow> lease \<Rightarrow> lease" where
  "check_lease late awaited completed keeps (Running holder step deadline) =
     check_running late awaited completed keeps holder step deadline"
| "check_lease late awaited completed keeps (Expired holder step deadline) =
     check_running late awaited completed keeps holder step deadline"
| "check_lease late awaited completed keeps l = l"

section \<open>The abstraction\<close>

definition lease_of_operation :: "KubegresBlockingOperation \<Rightarrow> lease" where
  "lease_of_operation ope =
     (if op_OperationId ope = '''' then Free
      else if op_StepId ope = TransitionOperationStepId then Kept (op_OperationId ope)
      else if op_HasTimedOut ope then Expired (op_OperationId ope) (op_StepId ope) (op_TimeOutEpocInSeconds ope)
      else Running (op_OperationId ope) (op_StepId ope) (op_TimeOutEpocInSeconds ope))"

definition lease_of :: "world \<Rightarrow> lease" where
  "lease_of w = lease_of_operation (w_activeOperation w)"

definition persisted_lease :: "world \<Rightarrow> lease" where
  "persisted_lease w = lease_of_operation (status_BlockingOperation (w_status w))"

text \<open>The lease without the mark that its deadline has passed.\<close>

fun unmarked :: "lease \<Rightarrow> lease" where
  "unmarked (Expired holder step deadline) = Running holder step deadline"
| "unmarked l = l"

lemma lease_holder_of: "lease_holder (lease_of w) = (if activeId w = '''' then None else Some (activeId w))"
  by (simp add: lease_of_def lease_of_operation_def activeId_def)

text \<open>The timed-out mark makes no difference to the check: it is recomputed from the deadline.\<close>

lemma check_lease_mark:
  "check_lease late awaited completed keeps (lease_of_operation (ope\<lparr>op_HasTimedOut := b\<rparr>)) =
     check_lease late awaited completed keeps (lease_of_operation ope)"
  by (simp add: lease_of_operation_def)

lemma removeOperationIfNotActive_refines:
  "lease_of (removeOperationIfNotActive t1 t2 w) =
     check_lease (\<lambda>deadline. int64 (deadline - t1) \<le> 0) (hasCompletionChecker w)
       (fst (isOperationCompletionConditionReached t2 w)) (shouldOperationBeInTransition w)
       (lease_of_operation ((w_activeOperation w)\<lparr>op_HasTimedOut := False\<rparr>))"
  if "\<not> op_HasTimedOut (w_activeOperation w)"
proof -
  obtain c w1 where c: "isOperationCompletionConditionReached t2 w = (c, w1)" by fastforce
  then have "w_activeOperation w1 = w_activeOperation w" "w_configs w1 = w_configs w"
    by (auto simp: isOperationCompletionConditionReached_def split: option.splits prod.splits)
  then show ?thesis
    using c that
    by (simp add: removeOperationIfNotActive_def lease_of_def lease_of_operation_def end_lease_def check_running_def Let_def op_defs
        isOperationInTransition_def hasOperationTimedOut_def hasCompletionChecker_def shouldOperationBeInTransition_def getConfig_def)
qed

lemma removeOperationIfNotActive_persisted:
  assumes "\<not> op_HasTimedOut (w_activeOperation w)" "status_BlockingOperation (w_status w) = w_activeOperation w"
  shows "persisted_lease (removeOperationIfNotActive t1 t2 w) = unmarked (lease_of (removeOperationIfNotActive t1 t2 w))"
proof -
  obtain c w1 where c: "isOperationCompletionConditionReached t2 w = (c, w1)" by fastforce
  then have "w_activeOperation w1 = w_activeOperation w" "w_configs w1 = w_configs w" "w_kubegres w1 = w_kubegres w"
    by (auto simp: isOperationCompletionConditionReached_def split: option.splits prod.splits)
  then show ?thesis
    using c assms
    by (simp add: removeOperationIfNotActive_def lease_of_def persisted_lease_def lease_of_operation_def Let_def op_defs
        isOperationInTransition_def)
qed

lemma loaded_operation:
  "w_activeOperation (loadOperations w) = status_BlockingOperation (w_status w)" "w_status (loadOperations w) = w_status w"
  by (simp_all add: loadOperations_def status_defs)

lemma LoadActiveOperation_refines:
  assumes "\<not> op_HasTimedOut (status_BlockingOperation (w_status w))"
  defines "v \<equiv> loadOperations w"
  shows "lease_of (snd (LoadActiveOperation t1 t2 t3 w)) =
      check_lease (\<lambda>deadline. int64 (deadline - t1) \<le> 0) (hasCompletionChecker v)
        (fst (isOperationCompletionConditionReached t2 v)) (shouldOperationBeInTransition v) (persisted_lease w)"
    and "persisted_lease (snd (LoadActiveOperation t1 t2 t3 w)) = unmarked (lease_of (snd (LoadActiveOperation t1 t2 t3 w)))"
  using removeOperationIfNotActive_refines [of v t1 t2] removeOperationIfNotActive_persisted [of v t1 t2] assms(1)
  by (simp_all add: LoadActiveOperation_def Let_def v_def loaded_operation persisted_lease_def op_clear_timedOut_id)

lemma activateOperation_refines:
  assumes "op_OperationId ope \<noteq> ''''" "op_StepId ope \<noteq> TransitionOperationStepId" "\<not> op_HasTimedOut ope"
    and "doesOperationHaveAssociatedConfig ope w" "activateOperation now ope w = (r, w')"
  shows "case acquire_lease (op_OperationId ope) (op_StepId ope)
      (int64 (now + cfg_TimeOutInSeconds (getConfig ope w))) (lease_of w) of
     None \<Rightarrow> r \<noteq> Ok \<and> w' = w | Some l \<Rightarrow> r = Ok \<and> lease_of w' = l \<and> persisted_lease w' = l"
  using assms
  by (auto simp: acquire_lease_def lease_holder_of activeId_def activateOperation_def op_defs Let_def
      calculateTimeOutInEpochSeconds_def lease_of_def persisted_lease_def lease_of_operation_def split: if_splits)

lemma activateOperation_unregistered:
  "\<not> doesOperationHaveAssociatedConfig ope w \<Longrightarrow> \<exists>e. activateOperation now ope w = (Err e, w)"
  by (simp add: activateOperation_def)

section \<open>Refinement\<close>

text \<open>
  C2: The blocking operation implements the lease. For a resource whose persisted operation does not carry the
  timed-out mark, \<open>LoadActiveOperation\<close> checks the persisted lease, whatever the configurations registered
  and the readings of the clock, and leaves memory and status with the same lease, but for the mark, which is not
  persisted. In any state, the request of an enforcer (with an identifier, a step that is not the transition,
  and without the mark) succeeds exactly when a configuration is registered for its identifier
  and step and the lease can be acquired; then the lease, in memory and in the status, is the
  requested one with the deadline of the configuration; otherwise nothing changes. The removal
  frees the lease in memory and in the status.
\<close>

theorem blocking_operation_refines_lease:
  assumes "\<not> op_HasTimedOut (status_BlockingOperation (w_status w))"
    and "op_OperationId ope \<noteq> ''''" "op_StepId ope \<noteq> TransitionOperationStepId" "\<not> op_HasTimedOut ope"
  shows "(let v = loadOperations w; w' = snd (LoadActiveOperation t1 t2 t3 w) in
      lease_of w' = check_lease (\<lambda>deadline. int64 (deadline - t1) \<le> 0) (hasCompletionChecker v)
        (fst (isOperationCompletionConditionReached t2 v)) (shouldOperationBeInTransition v) (persisted_lease w) \<and>
      persisted_lease w' = unmarked (lease_of w')) \<and>
    (let (r, u') = activateOperation now ope u;
         l = acquire_lease (op_OperationId ope) (op_StepId ope) (int64 (now + cfg_TimeOutInSeconds (getConfig ope u))) (lease_of u) in
      if doesOperationHaveAssociatedConfig ope u \<and> l \<noteq> None then r = Ok \<and> Some (lease_of u') = l \<and> Some (persisted_lease u') = l
      else r \<noteq> Ok \<and> u' = u) \<and>
    lease_of (RemoveActiveOperation u) = Free \<and> persisted_lease (RemoveActiveOperation u) = Free"
proof (intro conjI)
  obtain r u' where a: "activateOperation now ope u = (r, u')" by fastforce
  show "let (r, u') = activateOperation now ope u;
         l = acquire_lease (op_OperationId ope) (op_StepId ope) (int64 (now + cfg_TimeOutInSeconds (getConfig ope u))) (lease_of u) in
      if doesOperationHaveAssociatedConfig ope u \<and> l \<noteq> None then r = Ok \<and> Some (lease_of u') = l \<and> Some (persisted_lease u') = l
      else r \<noteq> Ok \<and> u' = u"
    using activateOperation_refines [OF assms(2-4) _ a] activateOperation_unregistered [of ope u now] a
    by (cases "doesOperationHaveAssociatedConfig ope u") (auto simp: Let_def split: option.splits)
qed (use LoadActiveOperation_refines [OF assms(1)] in
      \<open>simp_all add: Let_def lease_of_def persisted_lease_def lease_of_operation_def zero_Operation_def\<close>)

theorem blocking_operation_refines_lease_witness:
  "lease_of demo_active = Running OperationIdPrimaryDbCountSpecEnforcement OperationStepIdPrimaryDbDeploying 1300 \<and>
   lease_of (snd (LoadActiveOperation 1400 1400 1400 demo_active)) =
     Expired OperationIdPrimaryDbCountSpecEnforcement OperationStepIdPrimaryDbDeploying 1300 \<and>
   persisted_lease (snd (activateOperation 1200 demo_request demo_active)) =
     Running OperationIdPrimaryDbCountSpecEnforcement OperationStepIdPrimaryDbDeploying 1500"
proof -
  have g: "w_configs demo_active = demo_configs"
    using activateOperation_frame(4) [OF demo_activates] by (simp add: demo_loaded_simps)
  then have c: "getConfig demo_request demo_active = demo_config" by (rule demo_getConfig) simp_all
  have l: "lease_of demo_active = Running OperationIdPrimaryDbCountSpecEnforcement OperationStepIdPrimaryDbDeploying 1300"
    "persisted_lease demo_active = lease_of demo_active"
    by (simp_all add: lease_of_def persisted_lease_def lease_of_operation_def demo_active_simps)
  have h: "hasCompletionChecker (loadOperations demo_active)"
    using g by (simp add: hasCompletionChecker_def loaded_operation demo_active_simps) (simp add: getConfig_def demo_configs_def loadOperations_def demo_config_def)
  have m: "\<not> op_HasTimedOut (status_BlockingOperation (w_status demo_active))" by (simp add: demo_active_simps)
  show ?thesis
    using blocking_operation_refines_lease [OF m, of demo_request 1400 1400 1400 1200 demo_active] c l h
    by (auto simp: doesOperationHaveAssociatedConfig_def demo_config_def acquire_lease_def check_running_def int64_id in_int64_def
        Let_def split: prod.splits)
qed

end
