(* ===== verification/Operation_Run.thy ===== *)
theory Operation_Run
  imports Steady_State Operation_Lease
begin

text \<open>
  The blocking operation over whole reconciliations: every enforcer and the check of the spec change
  it only through the functions of \<open>BlockingOperation\<close>, the setters of the status and the answers
  to updates of the Kubegres object. From this: what is persisted is well formed, whatever
  the number of reconciliations and the rejected writes, and what an operation that has timed out blocks.
\<close>

section \<open>Runs\<close>

text \<open>
  A step that leaves the operation alone: events, requests other than the update of the status, changes of the spec.
  The status may be replaced by the one in an answer of the server.
\<close>

fun sends_status :: "api_call \<Rightarrow> bool" where
  "sends_status (UpdateKubegresStatus _) = True"
| "sends_status _ = False"

definition plain_step :: "server \<Rightarrow> world \<Rightarrow> world \<Rightarrow> bool" where
  "plain_step srv w w' \<longleftrightarrow> w_activeOperation w' = w_activeOperation w \<and> w_previouslyActiveOperation w' = w_previouslyActiveOperation w \<and>
     w_statusFieldsToUpdate w' = w_statusFieldsToUpdate w \<and> status_from srv w w' \<and> appends (\<lambda>c. \<not> sends_status c) w w'"

text \<open>The states that the enforcers can reach from a state, by what they call.\<close>

inductive operation_run :: "server \<Rightarrow> world \<Rightarrow> world \<Rightarrow> bool" for srv w where
  start: "operation_run srv w w"
| plain: "operation_run srv w v \<Longrightarrow> plain_step srv v v' \<Longrightarrow> operation_run srv w v'"
| activate: "operation_run srv w v \<Longrightarrow> activateOperation now ope v = (Ok, v') \<Longrightarrow> op_OperationId ope \<noteq> '''' \<Longrightarrow>
    op_StepId ope \<noteq> TransitionOperationStepId \<Longrightarrow> \<not> op_HasTimedOut ope \<Longrightarrow> operation_run srv w v'"
| remove: "operation_run srv w v \<Longrightarrow> operation_run srv w (RemoveActiveOperation v)"
| enforced: "operation_run srv w v \<Longrightarrow> operation_run srv w (SetEnforcedReplicas n v)"
| created: "operation_run srv w v \<Longrightarrow> operation_run srv w (SetLastCreatedInstanceIndex n v)"

lemma operation_run_trans: "operation_run srv v w \<Longrightarrow> operation_run srv u v \<Longrightarrow> operation_run srv u w"
  by (induction rule: operation_run.induct) (blast intro: operation_run.intros)+

lemma operation_run_event [intro]:
  "operation_run srv w v \<Longrightarrow> operation_run srv w (InfoEvent r v)" "operation_run srv w v \<Longrightarrow> operation_run srv w (ErrorEvent r v)"
  "operation_run srv w v \<Longrightarrow> operation_run srv w (WarningEvent r v)" "operation_run srv w v \<Longrightarrow> operation_run srv w (record_events es v)"
  by (erule operation_run.plain, simp add: plain_step_def appends_same)+

lemma operation_run_write:
  "operation_run srv w v \<Longrightarrow> \<not> sends_status c \<Longrightarrow> operation_run srv w (v\<lparr>w_calls := w_calls v @ [c]\<rparr>)"
  by (erule operation_run.plain, simp add: plain_step_def appends_one)

lemma operation_run_states: "operation_run srv w v \<Longrightarrow> operation_run srv w (v\<lparr>w_states := rs\<rparr>)"
  by (erule operation_run.plain, simp add: plain_step_def appends_same)

lemma operation_run_same: "same_but_events v v' \<Longrightarrow> operation_run srv w v \<Longrightarrow> operation_run srv w v'"
  by (rule operation_run.plain, assumption) (simp add: plain_step_def same_but_events_fields appends_same)

lemma operation_run_spec_step: "spec_step srv w w' \<Longrightarrow> operation_run srv w w'"
proof -
  have "updates_object c \<Longrightarrow> \<not> sends_status c" for c by (cases c) simp_all
  then show "spec_step srv w w' \<Longrightarrow> operation_run srv w w'"
    by (intro operation_run.plain [OF operation_run.start]) (auto simp: plain_step_def spec_step_def appends_def)
qed

lemmas operation_run_intros = operation_run.start operation_run.remove operation_run.enforced operation_run.created operation_run_event
  operation_run_write operation_run_states

lemma operation_run_Activate:
  assumes "operation_run srv w v" "oid \<noteq> ''''" "step \<noteq> TransitionOperationStepId"
  shows "ActivateOperation now oid step v = (r, v') \<Longrightarrow> operation_run srv w v'"
    and "ActivateOperationOnStatefulSet now oid step i v = (r, v') \<Longrightarrow> operation_run srv w v'"
    and "ActivateOperationOnStatefulSetSpecUpdate now oid step i ds v = (r, v') \<Longrightarrow> operation_run srv w v'"
  unfolding ActivateOperation_def ActivateOperationOnStatefulSet_def ActivateOperationOnStatefulSetSpecUpdate_def
  by (cases "r = Ok"; use assms in \<open>auto simp: createOperationObj_def zero_Operation_def dest: activateOperation_fail intro: operation_run.activate\<close>)+

section \<open>The enforcers run\<close>

lemma client_write_run: "client_write srv c v = (e, v') \<Longrightarrow> \<not> sends_status c \<Longrightarrow> operation_run srv w v \<Longrightarrow> operation_run srv w v'"
  by (auto simp: client_write_def intro: operation_run_write)

lemma BaseConfigMap_run: "BaseConfigMap_EnforceSpec now srv w = (r, w') \<Longrightarrow> operation_run srv w w'"
  by (auto simp: BaseConfigMap_EnforceSpec_def deployBaseConfigMap_def intro!: operation_run_intros
      elim!: client_write_run operation_run_Activate(1) [rotated 3] split: if_splits prod.splits outcome.splits option.splits)

lemma deployNewPrimary_run: "deployNewPrimaryStatefulSet now srv w = (r, w') \<Longrightarrow> operation_run srv w w'"
  by (auto simp: deployNewPrimaryStatefulSet_def getInstanceIndexIfPrimaryNeedsToBeRecreatedAndThereIsNoReplicaSetUp_def Let_def
      intro!: operation_run_intros elim!: client_write_run operation_run_Activate(2) [rotated 3]
      split: if_splits prod.splits outcome.splits option.splits)

lemma promote_run: "promoteReplicaToPrimary now srv s w = (r, w') \<Longrightarrow> operation_run srv w w'"
  by (auto simp: promoteReplicaToPrimary_def Let_def
      intro!: operation_run_intros elim!: client_write_run operation_run_Activate(2) [rotated 3]
      split: if_splits prod.splits outcome.splits option.splits)

lemma wait_run: "waitBeforePromotingReplicaToPrimary now srv s w = (r, w') \<Longrightarrow> operation_run srv w w'"
proof -
  have "operation_run srv w (deletePrimaryStatefulSet srv w)"
    by (auto simp: deletePrimaryStatefulSet_def client_write_def intro!: operation_run_intros split: option.splits)
  then show "waitBeforePromotingReplicaToPrimary now srv s w = (r, w') \<Longrightarrow> operation_run srv w w'"
    by (auto simp: waitBeforePromotingReplicaToPrimary_def intro!: operation_run_intros elim!: operation_run_Activate(2) [rotated 3]
        split: prod.splits outcome.splits)
qed

lemma FailOver_run: "FailOver now srv w = (r, w') \<Longrightarrow> operation_run srv w w'"
proof -
  obtain x v where x: "selectReplicaToPromote w = (x, v)" by fastforce
  have v: "operation_run srv w v"
    using operation_run_same [OF selectReplicaToPromote_events operation_run.start] x by (metis snd_conv)
  show "FailOver now srv w = (r, w') \<Longrightarrow> operation_run srv w w'"
    using x v by (cases x) (auto simp: FailOver_def intro: operation_run_intros operation_run_trans [OF wait_run] operation_run_trans [OF promote_run]
        split: if_splits)
qed

lemma Primary_run: "PrimaryDbCountSpecEnforcer_Enforce now srv w = (r, w') \<Longrightarrow> operation_run srv w w'"
proof -
  have initial: "initialiseStatusEnforcedReplicas v = (x, v') \<Longrightarrow> operation_run srv v v'" for v x v'
    by (auto simp: initialiseStatusEnforcedReplicas_def intro!: operation_run_intros split: if_splits option.splits)
  have count: "enforce_primary_count now srv v = (x, v') \<Longrightarrow> operation_run srv v v'" for v x v'
  proof -
    define v1 where "v1 = (if isPrimaryDbReady v \<and> hasLastPrimaryCountSpecEnforcementAttemptTimedOut v
        then InfoEvent ''KubegresReEnabled'' (RemoveActiveOperation v) else v)"
    obtain b v2 where f: "ShouldWeFailOver v1 = (b, v2)" by fastforce
    have "operation_run srv v v1" by (auto simp: v1_def intro: operation_run_intros)
    then have v2: "operation_run srv v v2"
      using operation_run_same [OF ShouldWeFailOver_events [of v1]] f by (metis snd_conv)
    show "enforce_primary_count now srv v = (x, v') \<Longrightarrow> operation_run srv v v'"
      unfolding enforce_primary_count_def v1_def [symmetric] Let_def
      using v2 by (auto simp: f intro: operation_run_intros operation_run_trans [OF FailOver_run] operation_run_trans [OF deployNewPrimary_run]
          split: if_splits option.splits bool.splits)
  qed
  show "PrimaryDbCountSpecEnforcer_Enforce now srv w = (r, w') \<Longrightarrow> operation_run srv w w'"
    unfolding PrimaryDbCountSpecEnforcer_Enforce_def
    by (auto split: if_splits intro: operation_run_intros
        elim: and_then_rel [where R = "operation_run srv", rotated 3] dest: initial count operation_run_trans)
qed

lemma deployReplica_run: "deployReplicaStatefulSet now srv w = (r, w') \<Longrightarrow> operation_run srv w w'"
  by (auto simp: deployReplicaStatefulSet_def Let_def
      intro!: operation_run_intros elim!: client_write_run operation_run_Activate(2) [rotated 3]
      split: if_splits prod.splits outcome.splits option.splits)

lemma undeployReplica_run: "undeployReplicaStatefulSets now srv s w = (r, w') \<Longrightarrow> operation_run srv w w'"
  by (auto simp: undeployReplicaStatefulSets_def deleteStatefulSet_def Let_def
      intro!: operation_run_intros elim!: client_write_run operation_run_Activate(2) [rotated 3]
      split: if_splits prod.splits outcome.splits option.splits)

lemma enforce_replica_count_run: "enforce_replica_count now srv w = (r, w') \<Longrightarrow> operation_run srv w w'"
proof -
  define v where "v = (if replica_isManualFailoverRequested w then snd (resetInSpecManualFailover srv w) else w)"
  have v: "operation_run srv w v"
    by (auto simp: v_def resetInSpecManualFailover_def intro!: operation_run.start operation_run_spec_step client_update_step)
  show "enforce_replica_count now srv w = (r, w') \<Longrightarrow> operation_run srv w w'"
    unfolding enforce_replica_count_def v_def [symmetric] Let_def adjust_replicas_def
    using v by (auto intro: operation_run_intros operation_run_trans [OF deployReplica_run] operation_run_trans [OF undeployReplica_run]
        split: if_splits option.splits bool.splits)
qed

lemma Replica_run: "ReplicaDbCountSpecEnforcer_Enforce now srv w = (r, w') \<Longrightarrow> operation_run srv w w'"
proof -
  have "operation_run srv w (InfoEvent ''KubegresReEnabled'' (RemoveActiveOperation w))" by (intro operation_run_intros)
  then show "ReplicaDbCountSpecEnforcer_Enforce now srv w = (r, w') \<Longrightarrow> operation_run srv w w'"
    by (auto simp: ReplicaDbCountSpecEnforcer_Enforce_def logTimedOut_def dest!: enforce_replica_count_run
        intro: operation_run_intros operation_run_trans split: if_splits)
qed

lemma Services_run: "Services_EnforceSpec srv w = (r, w') \<Longrightarrow> operation_run srv w w'"
proof -
  have "deployService srv b v = (x, v') \<Longrightarrow> operation_run srv v v'" for b v x v'
    by (auto simp: deployService_def intro!: operation_run_intros elim!: client_write_run split: if_splits prod.splits option.splits)
  then show "Services_EnforceSpec srv w = (r, w') \<Longrightarrow> operation_run srv w w'"
    unfolding Services_EnforceSpec_def
    by (elim and_then_rel [where R = "operation_run srv", rotated 3])
      (auto intro: operation_run_intros dest: operation_run_trans split: if_splits)
qed

lemma BackUp_run: "BackUpCronJob_EnforceSpec srv w = (r, w') \<Longrightarrow> operation_run srv w w'"
proof -
  have d: "deleteCronJob srv v = (x, v') \<Longrightarrow> operation_run srv v v'" for v x v'
    by (auto simp: deleteCronJob_def intro!: operation_run_intros elim!: client_write_run split: prod.splits option.splits)
  have c: "create_backup srv v = (x, v') \<Longrightarrow> operation_run srv v v'" for v x v'
    by (auto simp: create_backup_def deployCronJob_def intro!: operation_run_intros elim!: client_write_run
        split: if_splits prod.splits option.splits)
  have "and_then (deleteCronJob srv) (create_backup srv) w = (r, w') \<Longrightarrow> operation_run srv w w'"
    by (elim and_then_rel [where R = "operation_run srv", rotated 3]) (auto intro: d c operation_run_trans)
  then show "BackUpCronJob_EnforceSpec srv w = (r, w') \<Longrightarrow> operation_run srv w w'"
    by (auto simp: BackUpCronJob_EnforceSpec_def intro: c operation_run.start split: if_splits option.splits bool.splits)
qed

lemma op_frame_run: "op_frame v v' \<Longrightarrow> appends (\<lambda>c. \<not> sends_status c) v v' \<Longrightarrow> operation_run srv w v \<Longrightarrow> operation_run srv w v'"
  by (rule operation_run.plain, assumption) (simp add: plain_step_def op_frame_def)

lemma deletes_service_run:
  assumes "op_frame v v'" "appends deletes_service v v'" "operation_run srv w v"
  shows "operation_run srv w v'"
proof (rule op_frame_run [OF assms(1) _ assms(3)])
  have "deletes_service c \<Longrightarrow> \<not> sends_status c" for c by (cases c) simp_all
  then show "appends (\<lambda>c. \<not> sends_status c) v v'" using assms(2) by (auto simp: appends_def)
qed

lemma enforceSpec_of_run:
  assumes "enforceSpec_of addStatefulSetSpecEnforcers now srv s index ds w = (r, w')"
  shows "operation_run srv w w'"
proof -
  obtain x w1 where x: "activateOperationStepStatefulSetSpecUpdating now index ds w = (x, w1)" by fastforce
  then have w1: "operation_run srv w w1"
    unfolding activateOperationStepStatefulSetSpecUpdating_def by (rule operation_run_Activate(3) [rotated 3]) (auto intro: operation_run.start)
  obtain y w2 where y: "StatefulSets_EnforceSpec addStatefulSetSpecEnforcers srv s w1 = (y, w2)" by fastforce
  have "operation_run srv w w2"
    using StatefulSets_EnforceSpec_effect [OF y] by (intro op_frame_run [OF _ _ w1]) (auto intro: appends_same appends_one)
  with assms x y w1 show ?thesis
    by (auto simp: enforceSpec_of_def intro!: operation_run_intros split: outcome.splits)
qed

lemma handle_run:
  "handleWhenStuckPod now srv p ds w = (r, w') \<Longrightarrow> operation_run srv w w'"
  "handleWhenPodSpecNotUpToDateOrNotReady now p ds w = (r, w') \<Longrightarrow> operation_run srv w w'"
  by (auto simp: handleWhenStuckPod_def handleWhenPodSpecNotUpToDateOrNotReady_def activateOperationStepWaitingUntilPodIsNotStuck_def
      activateOperationStepStatefulSetPodSpecUpdating_def intro!: operation_run_intros elim!: client_write_run operation_run_Activate(3) [rotated 3]
      split: prod.splits outcome.splits option.splits)

lemma verify_run:
  assumes "verifySpecEnforcementIsAppliedToPod addStatefulSetSpecEnforcers now srv s ds w = (b, w')"
  shows "operation_run srv w w'"
proof -
  have "operation_run srv w w'"
    if "Port_OnSpecEnforcedSuccessfully srv x (RemoveActiveOperation (InfoEvent ''PodSpecEnforcement'' w)) = (r, w')" for x r
    using Port_OnSpecEnforcedSuccessfully_effect [OF that] 
    by (elim conjE deletes_service_run) (assumption | intro operation_run_intros)+
  with assms show ?thesis
    by (auto simp: verifySpecEnforcementIsAppliedToPod_def OnSpecUpdatedSuccessfully_registry Let_def
        intro: operation_run.start handle_run split: option.splits if_splits prod.splits)
qed

lemma visit_run:
  assumes "visit addStatefulSetSpecEnforcers now srv s w = (ro, w')"
  shows "operation_run srv w w'"
proof -
  obtain x v where x: "CheckForSpecDifferences addStatefulSetSpecEnforcers srv (sw_StatefulSet s) w = (x, v)" by fastforce
  have v: "operation_run srv w v"
    using CheckForSpecDifferences_effect [OF x] by (intro op_frame_run [OF _ _ operation_run.start]) (auto intro: appends_same)
  then have u: "operation_run srv w (logKubegresFeaturesAreReEnabled (RemoveActiveOperation v))"
    unfolding logKubegresFeaturesAreReEnabled_def by (intro operation_run_intros)
  show ?thesis
    using assms v u unfolding visit_def Let_def x
    by (auto simp: logSpecEnforcementTimedOut_def intro: operation_run_intros dest!: enforceSpec_of_run verify_run
        split: res.splits if_splits prod.splits bool.splits outcome.splits elim: operation_run_trans)
qed

lemma visit_all_run: "visit_all addStatefulSetSpecEnforcers now srv ss w = (r, w') \<Longrightarrow> operation_run srv w w'"
proof (induction ss arbitrary: w)
  case (Cons s ss)
  obtain ro v where v: "visit addStatefulSetSpecEnforcers now srv s w = (ro, v)" by fastforce
  with Cons show ?case using visit_run [OF v] by (cases ro) (auto intro: operation_run_trans)
qed (auto intro: operation_run.start)

lemma controller_run:
  assumes "controller_enforceSpec clk srv w = (r, w')"
  shows "operation_run srv w w'"
proof -
  have stateful: "StatefulSetCount_EnforceSpec now srv v = (x, v') \<Longrightarrow> operation_run srv v v'" for now v x v'
    unfolding StatefulSetCount_EnforceSpec_def
    by (elim and_then_rel [where R = "operation_run srv", rotated 3]) (auto intro: Primary_run Replica_run operation_run_trans)
  have counts: "enforceResourcesCountSpec clk srv v = (x, v') \<Longrightarrow> operation_run srv v v'" for v x v'
    unfolding enforceResourcesCountSpec_def ResourcesCount_EnforceSpec_def
    by (elim run_all_rel [where R = "operation_run srv", rotated 3])
      (auto simp: addResourcesCountSpecEnforcers_def AddSpecEnforcer_def
        intro: BaseConfigMap_run stateful Services_run BackUp_run operation_run.start operation_run_trans)
  have specs: "enforceAllStatefulSetsSpec clk srv v = (x, v') \<Longrightarrow> operation_run srv v v'" for v x v'
    by (auto simp: enforceAllStatefulSetsSpec_def AllStatefulSets_EnforceSpec_def intro: operation_run.start visit_all_run split: if_splits)
  show ?thesis
    using assms unfolding controller_enforceSpec_def
    by (elim and_then_rel [where R = "operation_run srv", rotated 3]) (auto intro: counts specs operation_run_trans)
qed

section \<open>What is persisted\<close>

text \<open>The status that the last update of the status carried; without one, the status that was read.\<close>

fun sent_status :: "KubegresStatus \<Rightarrow> api_call list \<Rightarrow> KubegresStatus" where
  "sent_status st [] = st"
| "sent_status st (c # cs) = sent_status (case c of UpdateKubegresStatus k \<Rightarrow> kg_Status k | _ \<Rightarrow> st) cs"

lemma sent_status_append: "sent_status st (cs @ ds) = sent_status (sent_status st cs) ds"
  by (induction cs arbitrary: st) simp_all

lemma sent_status_none: "\<not> list_ex sends_status cs \<Longrightarrow> sent_status st cs = st"
proof (induction cs)
  case (Cons c cs)
  then show ?case by (cases c) simp_all
qed simp

text \<open>
  The status is a subresource: an update of the Kubegres object ignores the status it carries, and the
  object in the answer has the persisted status.
\<close>

definition keeps_status :: "server \<Rightarrow> KubegresStatus \<Rightarrow> bool" where
  "keeps_status srv st \<longleftrightarrow> (\<forall>cs k k'. srv_update_Kubegres srv cs k = Inr k' \<longrightarrow> kg_Status k' = st)"

text \<open>
  What holds during a reconciliation that has read the status \<open>st\<close>: the status in memory is well formed, and
  it is \<open>st\<close> unless it is going to be sent; as long as no update of the object was sent, the
  operations in memory are those of the status.
\<close>

definition status_kept :: "KubegresStatus \<Rightarrow> world \<Rightarrow> bool" where
  "status_kept st w \<longleftrightarrow> stored_ops_wf (w_status w) \<and> \<not> list_ex sends_status (w_calls w) \<and>
     (w_statusFieldsToUpdate w = None \<longrightarrow> w_status w = st)"

definition run_ok :: "KubegresStatus \<Rightarrow> world \<Rightarrow> bool" where
  "run_ok st w \<longleftrightarrow> status_kept st w \<and> (\<not> list_ex updates_object (w_calls w) \<longrightarrow> ops_wf w)"

lemma status_from_kept:
  assumes "status_from srv w w'" "keeps_status srv st" "stored_ops_wf st" "status_kept st w" "appends (\<lambda>c. \<not> sends_status c) w w'"
    "w_statusFieldsToUpdate w' = w_statusFieldsToUpdate w"
  shows "status_kept st w'"
  using assms by (auto simp: status_from_def status_kept_def keeps_status_def appends_def list_ex_iff)

lemma set_ops_wf [simp]:
  "ops_wf (SetEnforcedReplicas n w) = ops_wf w" "ops_wf (SetLastCreatedInstanceIndex n w) = ops_wf w"
  "stored_ops_wf (st\<lparr>status_EnforcedReplicas := n\<rparr>) = stored_ops_wf st"
  "stored_ops_wf (st\<lparr>status_LastCreatedInstanceIndex := n\<rparr>) = stored_ops_wf st"
  by (simp_all add: ops_wf_def stored_ops_wf_def status_defs op_defs isOperationInTransition_def)

lemma set_fields [simp]:
  "w_statusFieldsToUpdate (SetEnforcedReplicas n w) \<noteq> None" "w_statusFieldsToUpdate (SetLastCreatedInstanceIndex n w) \<noteq> None"
  "w_statusFieldsToUpdate (RemoveActiveOperation w) \<noteq> None" "w_statusFieldsToUpdate (removeActiveOperation b w) \<noteq> None"
  "w_statusFieldsToUpdate (setActiveOperationInTransition b w) \<noteq> None"
  by (simp_all add: status_defs RemoveActiveOperation_def removeActiveOperation_def setActiveOperationInTransition_def Let_def)

lemma operation_run_ok:
  assumes "operation_run srv w v" "keeps_status srv st" "stored_ops_wf st" "run_ok st w"
  shows "run_ok st v"
  using assms
proof (induction rule: operation_run.induct)
  case (plain v v')
  have "status_kept st v'" by (rule status_from_kept [of srv v]) (use plain in \<open>auto simp: plain_step_def run_ok_def\<close>)
  moreover have "ops_wf v'" if "\<not> list_ex updates_object (w_calls v')"
  proof -
    have "\<not> list_ex updates_object (w_calls v)" "w_status v' = w_status v"
      using that plain.hyps(2) by (auto simp: plain_step_def status_from_def appends_def)
    with plain show ?thesis by (simp add: run_ok_def ops_wf_def plain_step_def op_defs isOperationInTransition_def)
  qed
  ultimately show ?case by (simp add: run_ok_def)
next
  case (activate v now ope v')
  note f = activateOperation_frame [OF activate.hyps(2)] activateOperation_success [OF activate.hyps(2)]
  have "w_statusFieldsToUpdate v' \<noteq> None"
    using activate.hyps(2) by (auto simp: activateOperation_def status_defs Let_def split: if_splits)
  moreover have "stored_ops_wf (w_status v')" using activate.hyps f by (simp add: stored_ops_wf_def Let_def)
  moreover have "run_ok st v" using activate.IH activate.prems .
  moreover have "ops_wf v \<Longrightarrow> ops_wf v'" using activate.hyps by (blast intro: ops_wf_activateOperation)
  ultimately show ?case using f(2) by (auto simp: run_ok_def status_kept_def)
next
  case (remove v)
  have "stored_ops_wf (w_status (RemoveActiveOperation v))" by (simp add: stored_ops_wf_def Let_def)
  with remove ops_wf_removeActiveOperation [of v False, folded RemoveActiveOperation_def] show ?case
    by (auto simp: run_ok_def status_kept_def)
qed (auto simp: run_ok_def status_kept_def)

section \<open>One reconciliation\<close>

lemma CreateResourcesContext_kept:
  assumes "CreateResourcesContext srv k = (r, w)" "keeps_status srv (kg_Status k)" "stored_ops_wf (kg_Status k)"
  shows "status_kept (kg_Status k) w" "w_status w = kg_Status k"
proof -
  let ?w0 = "CreateBlockingOperation (setReplicaFieldToZeroIfNil k)"
  have kept: "status_kept (kg_Status k) v" if "spec_step srv ?w0 v" for v
  proof (rule status_from_kept [of srv ?w0])
    have "updates_object c \<Longrightarrow> \<not> sends_status c" for c by (cases c) simp_all
    then show "appends (\<lambda>c. \<not> sends_status c) ?w0 v" using that by (auto simp: spec_step_def appends_def)
    show "status_kept (kg_Status k) ?w0"
      using assms(3) by (simp add: status_kept_def CreateBlockingOperation_def setReplicaFieldToZeroIfNil_def)
  qed (use that assms in \<open>simp_all add: spec_step_def\<close>)
  have load: "w_kubegres v' = w_kubegres v \<and> w_calls v' = w_calls v \<and> w_statusFieldsToUpdate v' = w_statusFieldsToUpdate v"
    if "LoadResourcesStates srv v = (x, v')" for x v v'
    using LoadResourcesStates_load_effect [of srv v] that by (cases x) (auto simp: load_effect_def failed_event_def)
  have add: "status_kept st (addBlockingOperationConfigs srv v) = status_kept st v" for st v
    by (simp add: status_kept_def addBlockingOperationConfigs_def AddConfig_def Let_def)
  have fields: "w_statusFieldsToUpdate (addBlockingOperationConfigs srv v) = w_statusFieldsToUpdate v" for v
    by (simp add: addBlockingOperationConfigs_def AddConfig_def Let_def)
  have "\<exists>v. spec_step srv ?w0 v \<and> (status_kept (kg_Status k) v \<longrightarrow> status_kept (kg_Status k) w) \<and>
      w_statusFieldsToUpdate w = w_statusFieldsToUpdate v"
    using assms(1) unfolding CreateResourcesContext_def
  proof (cases rule: and_then_cases)
    case first
    then show ?thesis using SetDefault_step by blast
  next
    case (second v)
    then have "status_kept (kg_Status k) v \<longrightarrow> status_kept (kg_Status k) w"
      by (auto simp: add split: prod.splits res.splits dest!: load) (simp_all add: status_kept_def)
    moreover have "w_statusFieldsToUpdate w = w_statusFieldsToUpdate v"
      using second by (auto simp: fields split: prod.splits res.splits dest!: load)
    ultimately show ?thesis using second SetDefault_step by blast
  qed
  then obtain v where v: "spec_step srv ?w0 v" "status_kept (kg_Status k) v \<longrightarrow> status_kept (kg_Status k) w"
    "w_statusFieldsToUpdate w = w_statusFieldsToUpdate v" by blast
  then show w: "status_kept (kg_Status k) w" using kept by blast
  have "w_statusFieldsToUpdate w = None" using v by (simp add: spec_step_def CreateBlockingOperation_def)
  with w show "w_status w = kg_Status k" by (simp add: status_kept_def)
qed

lemma removeOperationIfNotActive_fields:
  "w_status (removeOperationIfNotActive t1 t2 w) = w_status w \<and>
     w_statusFieldsToUpdate (removeOperationIfNotActive t1 t2 w) = w_statusFieldsToUpdate w \<or>
   w_statusFieldsToUpdate (removeOperationIfNotActive t1 t2 w) \<noteq> None"
proof -
  obtain c w1 where c: "isOperationCompletionConditionReached t2 w = (c, w1)" by fastforce
  then have "w_kubegres w1 = w_kubegres w" "w_statusFieldsToUpdate w1 = w_statusFieldsToUpdate w"
    by (auto simp: isOperationCompletionConditionReached_def split: option.splits prod.splits)
  with c show ?thesis by (simp add: removeOperationIfNotActive_def Let_def del: not_None_eq)
qed

lemma loaded_fields: "w_statusFieldsToUpdate (loadOperations w) = w_statusFieldsToUpdate w"
  by (simp add: loadOperations_def)

lemma LoadActiveOperation_run_ok:
  assumes "status_kept st w" "LoadActiveOperation t1 t2 t3 w = (n, w')"
  shows "run_ok st w'"
proof -
  have "ops_wf w'" using LoadActiveOperation_ops_wf [of w t1 t2 t3] assms by (simp add: status_kept_def)
  moreover have "w_status w' = w_status w \<and> w_statusFieldsToUpdate w' = w_statusFieldsToUpdate w \<or> w_statusFieldsToUpdate w' \<noteq> None"
    using assms(2) removeOperationIfNotActive_fields [of t1 t2 "loadOperations w"]
    by (auto simp: LoadActiveOperation_def Let_def loaded_operation loaded_fields)
  ultimately show ?thesis
    using assms LoadActiveOperation_calls [OF assms(2)] by (auto simp: run_ok_def status_kept_def ops_wf_def)
qed

text \<open>How a reconciliation ends, once its context is created.\<close>

lemma reconcile_context_run:
  assumes "reconcile_context clk srv w = (r, w')"
  obtains (panics) "snd r = Panic" "w' = w"
  | (runs) n w1 v where "LoadActiveOperation (clk_timed_out clk) (clk_completed clk) (clk_left clk) w = (n, w1)" "operation_run srv w1 v"
      "snd r = Panic \<and> w' = v \<or> (\<exists>res err. returnn srv res err v = (r, w'))"
proof (cases "load_panics clk srv w")
  case True
  with assms show ?thesis by (intro panics) (auto simp: reconcile_context_def)
next
  case False
  obtain n w1 where l: "LoadActiveOperation (clk_timed_out clk) (clk_completed clk) (clk_left clk) w = (n, w1)" by fastforce
  obtain x w2 where x: "CheckSpec srv w1 = (x, w2)" by fastforce
  obtain err w3 where e: "controller_enforceSpec clk srv w2 = (err, w3)" by fastforce
  have 2: "operation_run srv w1 w2" using operation_run_spec_step [OF CheckSpec_step [OF x]] .
  then have 3: "operation_run srv w1 w3" using operation_run_trans [OF controller_run [OF e]] by blast
  have "\<exists>v. operation_run srv w1 v \<and> (snd r = Panic \<and> w' = v \<or> (\<exists>res err. returnn srv res err v = (r, w')))"
    using assms False 2 3
    by (auto simp: reconcile_context_def l x e split: if_splits res.splits outcome.splits intro: operation_run.start)
  then show ?thesis using runs l by blast
qed

lemma returnn_persists:
  assumes "returnn srv res err v = (r, w')" "run_ok st v"
  shows "stored_ops_wf (sent_status st (w_calls w'))"
    and "\<not> list_ex updates_object (w_calls w') \<Longrightarrow>
      (w_activeOperation w')\<lparr>op_HasTimedOut := False\<rparr> = status_BlockingOperation (sent_status st (w_calls w')) \<and>
      w_previouslyActiveOperation w' = status_PreviousBlockingOperation (sent_status st (w_calls w'))"
proof -
  have "sent_status st (w_calls v) = st" using assms(2) by (simp add: run_ok_def status_kept_def sent_status_none)
  then have s: "sent_status st (w_calls w') = w_status v" "w_activeOperation w' = w_activeOperation v"
    "w_previouslyActiveOperation w' = w_previouslyActiveOperation v" "appends updates_Kubegres v w'"
    using assms by (auto simp: returnn_def UpdateStatusIfChanged_def run_ok_def status_kept_def sent_status_append Let_def appends_def
        split: option.splits sum.splits)
  then show "stored_ops_wf (sent_status st (w_calls w'))" using assms(2) by (simp add: run_ok_def status_kept_def)
  show "(w_activeOperation w')\<lparr>op_HasTimedOut := False\<rparr> = status_BlockingOperation (sent_status st (w_calls w')) \<and>
      w_previouslyActiveOperation w' = status_PreviousBlockingOperation (sent_status st (w_calls w'))"
    if "\<not> list_ex updates_object (w_calls w')"
    using that s assms(2) by (auto simp: run_ok_def ops_wf_def appends_def)
qed

lemma reconcile_context_persists:
  assumes "reconcile_context clk srv w = (r, w')" "status_kept st w" "keeps_status srv st" "stored_ops_wf st"
  shows "stored_ops_wf (sent_status st (w_calls w'))"
    and "snd r \<noteq> Panic \<Longrightarrow> \<not> list_ex updates_object (w_calls w') \<Longrightarrow>
      (w_activeOperation w')\<lparr>op_HasTimedOut := False\<rparr> = status_BlockingOperation (sent_status st (w_calls w')) \<and>
      w_previouslyActiveOperation w' = status_PreviousBlockingOperation (sent_status st (w_calls w'))"
proof -
  have unsent: "status_kept st v \<Longrightarrow> sent_status st (w_calls v) = st" for v by (simp add: status_kept_def sent_status_none)
  have run: "run_ok st v" if "LoadActiveOperation t1 t2 t3 w = (n, w1)" "operation_run srv w1 v" for t1 t2 t3 n w1 v
    using operation_run_ok [OF that(2) assms(3,4) LoadActiveOperation_run_ok [OF assms(2) that(1)]] .
  show "stored_ops_wf (sent_status st (w_calls w'))"
    using assms(1)
  proof (cases rule: reconcile_context_run)
    case (runs n w1 v)
    then show ?thesis using run [OF runs(1,2)] returnn_persists(1) unsent assms(4) by (metis run_ok_def)
  qed (simp add: unsent [OF assms(2)] assms(4))
  show "snd r \<noteq> Panic \<Longrightarrow> \<not> list_ex updates_object (w_calls w') \<Longrightarrow>
      (w_activeOperation w')\<lparr>op_HasTimedOut := False\<rparr> = status_BlockingOperation (sent_status st (w_calls w')) \<and>
      w_previouslyActiveOperation w' = status_PreviousBlockingOperation (sent_status st (w_calls w'))"
    using assms(1)
  proof (cases rule: reconcile_context_run)
    case (runs n w1 v)
    assume "snd r \<noteq> Panic" "\<not> list_ex updates_object (w_calls w')"
    then show ?thesis using run [OF runs(1,2)] runs(3) returnn_persists(2) by blast
  qed simp
qed

lemma Reconcile_persists:
  assumes "Reconcile clk srv namespace name = (r, Some w')" "srv_get_Kubegres srv namespace name = Inr k"
    and "keeps_status srv (kg_Status k)" "stored_ops_wf (kg_Status k)"
  shows "stored_ops_wf (sent_status (kg_Status k) (w_calls w'))"
    and "snd r = Ok \<Longrightarrow> \<not> list_ex updates_object (w_calls w') \<Longrightarrow>
      (w_activeOperation w')\<lparr>op_HasTimedOut := False\<rparr> = status_BlockingOperation (sent_status (kg_Status k) (w_calls w')) \<and>
      w_previouslyActiveOperation w' = status_PreviousBlockingOperation (sent_status (kg_Status k) (w_calls w'))"
proof -
  obtain x w where x: "CreateResourcesContext srv k = (x, w)" by fastforce
  note kept = CreateResourcesContext_kept(1) [OF x assms(3,4)]
  have "x = Ok \<and> reconcile_context clk srv w = (r, w') \<or> x \<noteq> Ok \<and> snd r \<noteq> Ok \<and> w' = w"
    using assms(1,2) x by (cases x) (auto simp: Reconcile_def getDeployedKubegresResource_def split: prod.splits)
  moreover have "sent_status (kg_Status k) (w_calls w) = kg_Status k" using kept by (simp add: status_kept_def sent_status_none)
  ultimately show "stored_ops_wf (sent_status (kg_Status k) (w_calls w'))"
    and "snd r = Ok \<Longrightarrow> \<not> list_ex updates_object (w_calls w') \<Longrightarrow>
      (w_activeOperation w')\<lparr>op_HasTimedOut := False\<rparr> = status_BlockingOperation (sent_status (kg_Status k) (w_calls w')) \<and>
      w_previouslyActiveOperation w' = status_PreviousBlockingOperation (sent_status (kg_Status k) (w_calls w'))"
    using reconcile_context_persists [of clk srv w r w', OF _ kept assms(3,4)] assms(4) by auto
qed

section \<open>Any number of reconciliations\<close>

text \<open>
  The statuses that can be persisted: none at first, then what a reconciliation sends, for a server that keeps
  the status on updates of the object. When the server rejects the update of the status, the previous one stays. Anything else of the
  resource, the cluster and the answers may change between the reconciliations.
\<close>

inductive persisted_status :: "KubegresStatus \<Rightarrow> bool" where
  created: "persisted_status zero_Status"
| reconciled: "persisted_status (kg_Status k) \<Longrightarrow> srv_get_Kubegres srv namespace name = Inr k \<Longrightarrow> keeps_status srv (kg_Status k) \<Longrightarrow>
    Reconcile clk srv namespace name = (r, Some w') \<Longrightarrow> persisted_status (sent_status (kg_Status k) (w_calls w'))"

lemma persisted_wf: "persisted_status st \<Longrightarrow> stored_ops_wf st"
  by (induction rule: persisted_status.induct) (auto intro: Reconcile_persists(1))

section \<open>An operation that has timed out\<close>

text \<open>
  The operation timed out and what it waited for has not come: the base configuration is not
  deployed, the primary is not ready, or the replica exists and is not ready.
\<close>

definition held :: "world \<Rightarrow> bool" where
  "held w \<longleftrightarrow> op_HasTimedOut (w_activeOperation w) \<and>
     (activeId w = OperationIdBaseConfigCountSpecEnforcement \<and> \<not> isBaseConfigDeployed w \<or>
      activeId w = OperationIdPrimaryDbCountSpecEnforcement \<and> \<not> isPrimaryDbReady w \<or>
      activeId w = OperationIdReplicaDbCountSpecEnforcement \<and> \<not> isPreviouslyFailedAttemptOnReplicaDbFixed w)"

definition held_step :: "world \<Rightarrow> world \<Rightarrow> bool" where
  "held_step w w' \<longleftrightarrow> (held w \<longrightarrow> blocked_step w w' \<and> w_states w' = w_states w)"

lemma held_cong: "w_activeOperation w' = w_activeOperation w \<Longrightarrow> w_states w' = w_states w \<Longrightarrow> held w' = held w"
  by (simp add: held_def activeId_def isBaseConfigDeployed_def isPrimaryDbReady_def isPreviouslyFailedAttemptOnReplicaDbFixed_def)

lemma held_step_refl [simp]: "held_step w w"
  by (simp add: held_step_def)

lemma held_step_trans: "held_step u v \<Longrightarrow> held_step v w \<Longrightarrow> held_step u w"
  using held_cong [of v u] by (auto simp: held_step_def blocked_step_def intro: appends_trans)

definition untouched :: "world \<Rightarrow> world \<Rightarrow> bool" where
  "untouched w w' \<longleftrightarrow> w_activeOperation w' = w_activeOperation w \<and> w_calls w' = w_calls w \<and> w_states w' = w_states w"

lemma held_stepI: "(held w \<Longrightarrow> untouched w w') \<Longrightarrow> held_step w w'"
  by (auto simp: held_step_def untouched_def blocked_step_def appends_same)

lemma untouched_simps [simp]:
  "untouched w w" "untouched w (InfoEvent e v) \<longleftrightarrow> untouched w v" "untouched w (ErrorEvent e v) \<longleftrightarrow> untouched w v"
  by (simp_all add: untouched_def)

lemma BaseConfigMap_held: "BaseConfigMap_EnforceSpec now srv w = (r, w') \<Longrightarrow> held_step w w'"
  by (rule held_stepI) (auto simp: BaseConfigMap_EnforceSpec_def held_def activeId_def op_defs split: if_splits)

lemma Primary_held:
  assumes "PrimaryDbCountSpecEnforcer_Enforce now srv w = (r, w')"
  shows "held_step w w'"
proof (rule held_stepI)
  assume h: "held w"
  have count: "untouched v v'" if "enforce_primary_count now srv v = (x, v')" "held v" for v x v'
  proof (cases "activeId v = OperationIdPrimaryDbCountSpecEnforcement")
    case True
    obtain b v2 where f: "ShouldWeFailOver v = (b, v2)" by fastforce
    have v2: "untouched v v2" "hasLastPrimaryCountSpecEnforcementAttemptTimedOut v2" "\<not> IsActiveOperationIdDifferentOf OperationIdPrimaryDbCountSpecEnforcement v2"
      "hasLastFailOverAttemptTimedOut v2" "\<not> IsActiveOperationIdDifferentOf OperationIdPrimaryDbCountSpecEnforcement v" "\<not> isPrimaryDbReady v"
      using ShouldWeFailOver_events [of v] f True that(2)
      by (simp_all add: same_but_events_fields untouched_def held_def activeId_def op_defs hasLastPrimaryCountSpecEnforcementAttemptTimedOut_def
          hasLastFailOverAttemptTimedOut_def)
    with that(1) f show ?thesis
      by (auto simp: enforce_primary_count_def FailOver_def deployNewPrimaryStatefulSet_def split: if_splits option.splits bool.splits)
  next
    case False
    then have "IsActiveOperationIdDifferentOf OperationIdPrimaryDbCountSpecEnforcement v"
      using that(2) by (auto simp: held_def activeId_def op_defs)
    with that(1) show ?thesis by (simp add: enforce_primary_count_def)
  qed
  show "untouched w w'"
  proof (cases "isStandbyEnabled w")
    case True
    with assms show ?thesis by (auto simp: PrimaryDbCountSpecEnforcer_Enforce_def)
  next
    case False
    have initial: "untouched v v'" if "initialiseStatusEnforcedReplicas v = (x, v')" for v x v'
      using that by (auto simp: initialiseStatusEnforcedReplicas_def untouched_def split: if_splits option.splits)
    from False assms have "and_then initialiseStatusEnforcedReplicas (enforce_primary_count now srv) w = (r, w')"
      by (simp add: PrimaryDbCountSpecEnforcer_Enforce_def)
    then show ?thesis
    proof (cases rule: and_then_cases)
      case (second v)
      have "untouched w v" using second(1) by (rule initial)
      moreover from this have "held v" using h held_cong [of v w] by (simp add: untouched_def)
      ultimately show ?thesis using count [OF second(2)] by (simp add: untouched_def)
    qed (use initial in blast)
  qed
qed

lemma Replica_held: "ReplicaDbCountSpecEnforcer_Enforce now srv w = (r, w') \<Longrightarrow> held_step w w'"
  by (rule held_stepI) (auto simp: ReplicaDbCountSpecEnforcer_Enforce_def held_def activeId_def op_defs hasLastAttemptTimedOut_def logTimedOut_def
      split: if_splits)

lemma Services_held: "Services_EnforceSpec srv w = (r, w') \<Longrightarrow> held_step w w'"
proof -
  have "deployService srv b v = (x, v') \<Longrightarrow> w_states v' = w_states v" for b v x v'
    by (auto simp: deployService_def client_write_def split: option.splits if_splits)
  then have "Services_EnforceSpec srv w = (r, w') \<Longrightarrow> w_states w' = w_states w"
    unfolding Services_EnforceSpec_def by (elim and_then_rel [where R = "\<lambda>v v'. w_states v' = w_states v", rotated 3]) (auto split: if_splits)
  then show "Services_EnforceSpec srv w = (r, w') \<Longrightarrow> held_step w w'" using Services_EnforceSpec_step by (auto simp: held_step_def)
qed

lemma BackUp_held: "BackUpCronJob_EnforceSpec srv w = (r, w') \<Longrightarrow> held_step w w'"
proof -
  have s: "deleteCronJob srv v = (x, v') \<Longrightarrow> w_states v' = w_states v" "create_backup srv v = (x, v') \<Longrightarrow> w_states v' = w_states v" for v x v'
    by (auto simp: deleteCronJob_def create_backup_def deployCronJob_def client_write_def split: option.splits if_splits)
  have "and_then (deleteCronJob srv) (create_backup srv) w = (r, w') \<Longrightarrow> w_states w' = w_states w"
    by (elim and_then_rel [where R = "\<lambda>v v'. w_states v' = w_states v", rotated 3]) (auto intro: s)
  then have "BackUpCronJob_EnforceSpec srv w = (r, w') \<Longrightarrow> w_states w' = w_states w"
    by (auto simp: BackUpCronJob_EnforceSpec_def intro: s split: if_splits option.splits bool.splits)
  then show "BackUpCronJob_EnforceSpec srv w = (r, w') \<Longrightarrow> held_step w w'" using BackUpCronJob_EnforceSpec_step by (auto simp: held_step_def)
qed

lemma controller_held:
  assumes "controller_enforceSpec clk srv w = (r, w')"
  shows "held_step w w'"
proof -
  have stateful: "StatefulSetCount_EnforceSpec now srv v = (x, v') \<Longrightarrow> held_step v v'" for now v x v'
    unfolding StatefulSetCount_EnforceSpec_def
    by (elim and_then_rel [where R = held_step, rotated 3]) (auto intro: Primary_held Replica_held held_step_trans)
  have counts: "enforceResourcesCountSpec clk srv v = (x, v') \<Longrightarrow> held_step v v'" for v x v'
    unfolding enforceResourcesCountSpec_def ResourcesCount_EnforceSpec_def
    by (elim run_all_rel [where R = held_step, rotated 3])
      (auto simp: addResourcesCountSpecEnforcers_def AddSpecEnforcer_def
        intro: BaseConfigMap_held stateful Services_held BackUp_held held_step_trans)
  have specs: "enforceAllStatefulSetsSpec clk srv v = (x, v') \<Longrightarrow> held_step v v'" for v x v'
    by (rule held_stepI) (auto simp: enforceAllStatefulSetsSpec_def AllStatefulSets_EnforceSpec_def held_def activeId_def op_defs split: if_splits)
  show ?thesis
    using assms unfolding controller_enforceSpec_def
    by (elim and_then_rel [where R = held_step, rotated 3]) (auto intro: counts specs held_step_trans)
qed

text \<open>The steps with a completion checker that belong to one of the three count operations.\<close>

definition count_steps :: "(string \<times> string) list" where
  "count_steps =
     [(OperationIdBaseConfigCountSpecEnforcement, OperationStepIdBaseConfigDeploying),
      (OperationIdPrimaryDbCountSpecEnforcement, OperationStepIdPrimaryDbDeploying),
      (OperationIdPrimaryDbCountSpecEnforcement, OperationStepIdPrimaryDbFailingOver),
      (OperationIdReplicaDbCountSpecEnforcement, OperationStepIdReplicaDbDeploying),
      (OperationIdReplicaDbCountSpecEnforcement, OperationStepIdReplicaDbUndeploying)]"

lemma count_steps_checked:
  assumes "CreateResourcesContext srv k = (Ok, w)" "(op_OperationId ope, op_StepId ope) \<in> set count_steps"
  shows "cfg_CompletionChecker (getConfig ope w) \<noteq> None"
proof -
  obtain v where "w = addBlockingOperationConfigs srv v"
    using assms(1) unfolding CreateResourcesContext_def
    by (cases rule: and_then_cases) (auto split: prod.splits res.splits)
  then show ?thesis
    using assms(2) unfolding count_steps_def
    by (auto simp: getConfig_def addBlockingOperationConfigs_def Let_def w_configs_AddConfig config_defs config_id_neqs config_id_neqs_rev)
qed

lemma reconcile_context_held:
  assumes "reconcile_context clk srv w = (r, w')" "list_all updates_Kubegres (w_calls w)" "\<not> load_panics clk srv w"
    and "LoadActiveOperation (clk_timed_out clk) (clk_completed clk) (clk_left clk) w = (n, w1)" "held w1"
  shows "w_activeOperation w' = w_activeOperation w1 \<and> \<not> list_ex locked_call (w_calls w')"
proof -
  have un: "appends updates_Kubegres u v \<Longrightarrow> \<not> list_ex locked_call (w_calls u) \<Longrightarrow> \<not> list_ex locked_call (w_calls v)" for u v
    by (auto simp: appends_def list_ex_iff updates_not_locked)
  have c: "\<not> list_ex locked_call (w_calls w)" "\<not> list_ex locked_call (w_calls w1)"
    using assms(2) LoadActiveOperation_calls [OF assms(4)] by (auto simp: list_ex_iff list_all_iff dest: updates_not_locked)
  have ret: "returnn srv res err v = (x, v') \<Longrightarrow> \<not> list_ex locked_call (w_calls v) \<Longrightarrow>
      w_activeOperation v' = w_activeOperation v \<and> \<not> list_ex locked_call (w_calls v')" for res err v x v'
    using un [OF returnn_appends] by (auto simp: returnn_def UpdateStatusIfChanged_def Let_def split: option.splits sum.splits)
  obtain x w2 where x: "CheckSpec srv w1 = (x, w2)" by fastforce
  have 2: "w_activeOperation w2 = w_activeOperation w1" "held w2" "\<not> list_ex locked_call (w_calls w2)"
    using CheckSpec_step [OF x] held_cong [of w2 w1] assms(5) un [OF updates_object_appends c(2)] by (auto simp: spec_step_def)
  obtain err w3 where e: "controller_enforceSpec clk srv w2 = (err, w3)" by fastforce
  have 3: "w_activeOperation w3 = w_activeOperation w1" "\<not> list_ex locked_call (w_calls w3)"
    using controller_held [OF e] 2 by (auto simp: held_step_def blocked_step_def appends_def list_ex_iff)
  show ?thesis
    using assms(1,3) 2 3 c
    by (auto simp: reconcile_context_def assms(4) x e split: if_splits res.splits outcome.splits dest!: ret)
qed

section \<open>An answer that brings a removed operation back\<close>

text \<open>
  The reset of the manual fail-over request replaces the object in memory by the answer of the
  server. An operation that was removed earlier in the same reconciliation is then active in the status again (with the status as it was read),
  and since the removal has marked the status as changed, it is sent: the removal is lost.
\<close>

lemma reset_restores_removed_operation:
  assumes "keeps_status srv st" "resetInSpecManualFailover srv (RemoveActiveOperation w) = (None, w')"
  shows "activeId w' = ''''" "w_status w' = st"
    "\<exists>k. kg_Status k = st \<and> w_calls (snd (UpdateStatusIfChanged srv w')) = w_calls w' @ [UpdateKubegresStatus k]"
proof -
  have "\<exists>cs k. srv_update_Kubegres srv cs k = Inr (w_kubegres w') \<and> w_activeOperation w' = zero_Operation \<and>
      w_statusFieldsToUpdate w' = w_statusFieldsToUpdate (RemoveActiveOperation w)"
    using assms(2) by (auto simp: resetInSpecManualFailover_def client_update_Kubegres_def Let_def split: sum.splits) blast
  then show st: "activeId w' = ''''" "w_status w' = st"
    and "\<exists>k. kg_Status k = st \<and> w_calls (snd (UpdateStatusIfChanged srv w')) = w_calls w' @ [UpdateKubegresStatus k]"
    using assms(1) set_fields(3) [of w]
    by (auto simp: keeps_status_def activeId_def UpdateStatusIfChanged_def Let_def split: option.splits sum.splits)
qed

section \<open>Properties\<close>

text \<open>
  C18: the persisted operation is well formed, whatever the number of reconciliations. Starting with the empty
  status, after any sequence of reconciliations, with any specs, clusters and answers of a server
  that keeps the status on updates of the object, also rejected ones, the status that the next one leaves persisted never
  carries the timed-out mark, has no other field of an operation without an identifier, and has
  no deadline in the transition step. When that reconciliation ends without an error and sent no
  update of the Kubegres object (whose answer would replace the status in memory), the operation in
  memory, without the mark, and the previous operation are the persisted ones.
\<close>

theorem persisted_operation_wellformed:
  assumes "persisted_status (kg_Status k)" "srv_get_Kubegres srv namespace name = Inr k" "keeps_status srv (kg_Status k)"
    and "Reconcile clk srv namespace name = (r, Some w')"
  shows "let st = sent_status (kg_Status k) (w_calls w'); ope = status_BlockingOperation st in
    \<not> op_HasTimedOut ope \<and> (op_OperationId ope = '''' \<longrightarrow> ope = zero_Operation) \<and>
    (op_StepId ope = TransitionOperationStepId \<longrightarrow> op_TimeOutEpocInSeconds ope = 0) \<and>
    (snd r = Ok \<and> \<not> list_ex updates_object (w_calls w') \<longrightarrow>
       (w_activeOperation w')\<lparr>op_HasTimedOut := False\<rparr> = ope \<and> w_previouslyActiveOperation w' = status_PreviousBlockingOperation st)"
proof -
  note p = Reconcile_persists [OF assms(4,2,3) persisted_wf [OF assms(1)]]
  from p(1) have "let ope = status_BlockingOperation (sent_status (kg_Status k) (w_calls w')) in
    \<not> op_HasTimedOut ope \<and> (op_OperationId ope = '''' \<longrightarrow> ope = zero_Operation) \<and>
    (op_StepId ope = TransitionOperationStepId \<longrightarrow> op_TimeOutEpocInSeconds ope = 0)"
    unfolding stored_ops_wf_def Let_def by blast
  with p(2) show ?thesis unfolding Let_def by blast
qed

lemma fresh_server_keeps: "keeps_status fresh_server zero_Status"
  by (simp add: keeps_status_def fresh_server_def)

theorem persisted_operation_wellformed_witness:
  "\<exists>r w' cs. Reconcile noon fresh_server ''default'' ''mypostgres'' = (r, Some w') \<and>
     w_calls w' = CreateConfigMap (CreateBaseConfigMap sample_Kubegres) # cs \<and>
     \<not> op_HasTimedOut (status_BlockingOperation (sent_status zero_Status (w_calls w')))"
proof -
  obtain r w' cs where w': "Reconcile noon fresh_server ''default'' ''mypostgres'' = (r, Some w')"
    "w_calls w' = CreateConfigMap (CreateBaseConfigMap sample_Kubegres) # cs" using fresh_run by blast
  have z: "kg_Status sample_Kubegres = zero_Status" by (simp add: sample_Kubegres_def)
  show ?thesis
    using persisted_operation_wellformed [of sample_Kubegres fresh_server "''default''" "''mypostgres''" noon r w'] w'
    by (auto simp: z persisted_status.created fresh_server_keeps fresh_server_simps Let_def)
qed

text \<open>
  C19: a count operation that has timed out blocks the operator until its cause is gone. Let the persisted
  operation be the deployment of the base configuration, the deployment of or the fail-over to a
  primary, or the deployment or removal of a replica, with a deadline that has passed; and let the base
  configuration not be deployed, the primary not be ready, or the replica exist and not be ready, in
  the states that the reconciliation loads. Then whatever the spec and the answers of a server that
  keeps the status on updates of the object, the reconciliation sends no request to create the base configuration, to create, update or delete a
  StatefulSet, to delete a Pod or to resize a claim, and the operation stays active, marked as timed
  out. It also stays persisted, if the reconciliation ends without an error and sent no update of
  the Kubegres object, so the next one finds it again. In particular no fail-over happens while a timed-out
  deployment of the primary is persisted and the primary is not ready.
\<close>

theorem timed_out_operation_blocks:
  assumes "Reconcile clk srv namespace name = (r, Some w')" "srv_get_Kubegres srv namespace name = Inr k"
    and "CreateResourcesContext srv k = (Ok, w)" "keeps_status srv (kg_Status k)"
    and "ope = status_BlockingOperation (kg_Status k)" "\<not> op_HasTimedOut ope" "(op_OperationId ope, op_StepId ope) \<in> set count_steps"
    and "int64 (op_TimeOutEpocInSeconds ope - clk_timed_out clk) \<le> 0" "int64 (op_TimeOutEpocInSeconds ope - clk_left clk) \<le> 0"
    and "op_OperationId ope = OperationIdBaseConfigCountSpecEnforcement \<Longrightarrow> \<not> isBaseConfigDeployed w"
    and "op_OperationId ope = OperationIdPrimaryDbCountSpecEnforcement \<Longrightarrow> \<not> isPrimaryDbReady w"
    and "op_OperationId ope = OperationIdReplicaDbCountSpecEnforcement \<Longrightarrow>
      \<not> isPreviouslyFailedAttemptOnReplicaDbFixed (w\<lparr>w_activeOperation := ope\<rparr>)"
  shows "\<not> list_ex locked_call (w_calls w') \<and> w_activeOperation w' = ope\<lparr>op_HasTimedOut := True\<rparr> \<and>
    (snd r = Ok \<and> \<not> list_ex updates_object (w_calls w') \<longrightarrow>
       status_BlockingOperation (sent_status (kg_Status k) (w_calls w')) = ope)"
proof -
  have step: "op_OperationId ope \<noteq> ''''" "op_StepId ope \<noteq> TransitionOperationStepId"
    "op_OperationId ope \<in> {OperationIdBaseConfigCountSpecEnforcement, OperationIdPrimaryDbCountSpecEnforcement, OperationIdReplicaDbCountSpecEnforcement}"
    using assms(7) by (auto simp: count_steps_def)
  then have wf: "stored_ops_wf (kg_Status k)" using assms(5,6) by (simp add: stored_ops_wf_def Let_def)
  note st = CreateResourcesContext_kept(2) [OF assms(3,4) wf]
  let ?w1 = "InfoEvent ''BlockingOperationTimedOut'' ((loadOperations w)\<lparr>w_activeOperation := ope\<lparr>op_HasTimedOut := True\<rparr>\<rparr>)"
  have l: "LoadActiveOperation (clk_timed_out clk) (clk_completed clk) (clk_left clk) w = (0, ?w1)"
    by (rule timed_out_operation_stays_active)
      (use wf assms(5,8,9) st step count_steps_checked [OF assms(3,7)] in simp_all)
  have states: "w_states ?w1 = w_states w" by (simp add: loadOperations_def)
  have "held ?w1"
    using assms(10-12) step(3) states
    by (auto simp: held_def activeId_def isBaseConfigDeployed_def isPrimaryDbReady_def isPreviouslyFailedAttemptOnReplicaDbFixed_def)
  moreover have "\<not> load_panics clk srv w"
    using assms(5,8) st by (simp add: load_panics_def Let_def hasOperationTimedOut_def loaded_operation)
  moreover have "reconcile_context clk srv w = (r, w')"
    using assms(1-3) by (auto simp: Reconcile_def getDeployedKubegresResource_def split: prod.splits)
  ultimately have "w_activeOperation w' = ope\<lparr>op_HasTimedOut := True\<rparr> \<and> \<not> list_ex locked_call (w_calls w')"
    using reconcile_context_held [OF _ CreateResourcesContext_calls [OF assms(3)] _ l] by simp
  moreover from this have "(w_activeOperation w')\<lparr>op_HasTimedOut := False\<rparr> = ope" using assms(6) by simp
  ultimately show ?thesis using Reconcile_persists(2) [OF assms(1,2,4) wf] by simp
qed

text \<open>The new cluster of theory \<open>One_Change\<close> whose base configuration is still missing after the time-out.\<close>

definition late :: clock where
  "late = \<lparr>clk_timed_out = 1100, clk_completed = 1100, clk_left = 1100, clk_enforce = 1101\<rparr>"

theorem timed_out_operation_blocks_witness:
  "\<exists>r w'. Reconcile late waiting_server ''default'' ''mypostgres'' = (r, Some w') \<and> \<not> list_ex locked_call (w_calls w') \<and>
     w_activeOperation w' = waiting_operation\<lparr>op_HasTimedOut := True\<rparr>"
proof -
  let ?w = "context_of waiting_server waiting_Kubegres fresh_states"
  have c: "CreateResourcesContext waiting_server waiting_Kubegres = (Ok, ?w)"
    using CreateResourcesContext_complete [OF _ _ waiting_loads] by (simp add: waiting_Kubegres_simps sample_Kubegres_simps)
  have k: "srv_get_Kubegres waiting_server ''default'' ''mypostgres'' = Inr waiting_Kubegres" by (simp add: waiting_server_def)
  obtain r w' where r: "Reconcile late waiting_server ''default'' ''mypostgres'' = (r, Some w')"
    using c k by (cases "reconcile_context late waiting_server ?w") (simp add: Reconcile_def getDeployedKubegresResource_def)
  moreover have "keeps_status waiting_server (kg_Status waiting_Kubegres)" by (simp add: keeps_status_def waiting_server_def)
  moreover have "\<not> isBaseConfigDeployed ?w" by (simp add: isBaseConfigDeployed_def context_of_fields fresh_states_def)
  moreover have "\<not> op_HasTimedOut waiting_operation" by (simp add: waiting_operation_def createOperationObj_def zero_Operation_def)
  ultimately show ?thesis
    using timed_out_operation_blocks [OF r k c, of waiting_operation]
    by (auto simp: waiting_Kubegres_simps waiting_operation_simps count_steps_def late_def int64_id in_int64_def)
qed

end
