(* ===== verification/Scaling.thy ===== *)
theory Scaling
  imports Steady_State "HOL-Library.While_Combinator"
begin

text \<open>
  The operator in a closed loop with a cluster that carries out its requests: the number
  of replicas reaches the spec, in one reconciliation per replica, and then the operator is at rest.
\<close>

section \<open>One replica more, one replica less\<close>

text \<open>An API server that accepts what it is sent and stores a status as it is.\<close>

definition accepts :: "server \<Rightarrow> bool" where
  "accepts srv \<longleftrightarrow> (\<forall>cs c. srv_write srv cs c = None) \<and> (\<forall>cs k. srv_update_status srv cs k = Inr k) \<and> keeps_spec srv"

text \<open>An operation on the instance \<open>i\<close>, and that a step of the operator started it.\<close>

definition on_instance :: "string \<Rightarrow> string \<Rightarrow> int \<Rightarrow> int \<Rightarrow> KubegresBlockingOperation \<Rightarrow> bool" where
  "on_instance oid step i deadline ope \<longleftrightarrow> op_OperationId ope = oid \<and> op_StepId ope = step \<and>
     sop_InstanceIndex (op_StatefulSetOperation ope) = i \<and> \<not> op_HasTimedOut ope \<and> op_TimeOutEpocInSeconds ope = deadline"

definition begun :: "string \<Rightarrow> string \<Rightarrow> int \<Rightarrow> int \<Rightarrow> world \<Rightarrow> world \<Rightarrow> bool" where
  "begun oid step i deadline w w' \<longleftrightarrow> same_context w w' \<and> w_statusFieldsToUpdate w' \<noteq> None \<and>
     on_instance oid step i deadline (w_activeOperation w') \<and> status_BlockingOperation (w_status w') = w_activeOperation w'"

abbreviation replica_operation :: "string \<Rightarrow> int \<Rightarrow> int \<Rightarrow> KubegresBlockingOperation \<Rightarrow> bool" where
  "replica_operation \<equiv> on_instance OperationIdReplicaDbCountSpecEnforcement"

abbreviation started :: "string \<Rightarrow> int \<Rightarrow> int \<Rightarrow> world \<Rightarrow> world \<Rightarrow> bool" where
  "started \<equiv> begun OperationIdReplicaDbCountSpecEnforcement"

lemmas set_status_sends [simp] = set_status_marks [unfolded not_None_eq]

lemma Activate_begun:
  assumes "registered_as w (oid, step, secs, b)" "activeId w \<in> {'''', oid}"
  shows "\<exists>w1. ActivateOperationOnStatefulSet now oid step i w = (Ok, w1) \<and>
    begun oid step i (int64 (now + secs)) w w1 \<and> w_calls w1 = w_calls w \<and>
    status_EnforcedReplicas (w_status w1) = status_EnforcedReplicas (w_status w) \<and>
    status_LastCreatedInstanceIndex (w_status w1) = status_LastCreatedInstanceIndex (w_status w)"
proof -
  let ?ope = "(createOperationObj oid step)\<lparr>op_StatefulSetOperation := createStatefulSetOperationObj w i\<rparr>"
  have r: "doesOperationHaveAssociatedConfig ?ope w" "cfg_TimeOutInSeconds (getConfig ?ope w) = secs"
    using assms(1) by (simp_all add: registered_as_def createOperationObj_def)
  then have "fst (activateOperation now ?ope w) = Ok"
    using assms(2) by (auto simp: activateOperation_Ok_iff activeId_def createOperationObj_def)
  then obtain w1 where w1: "activateOperation now ?ope w = (Ok, w1)" by (metis prod.collapse)
  have "w_statusFieldsToUpdate w1 \<noteq> None" using w1 by (auto simp: activateOperation_def Let_def split: if_splits)
  then show ?thesis
    using w1 r activateOperation_success [OF w1] activateOperation_frame [OF w1]
    by (auto simp: ActivateOperationOnStatefulSet_def begun_def same_context_def on_instance_def createOperationObj_def
        createStatefulSetOperationObj_def zero_Operation_def)
qed

lemma deploy_starts:
  assumes "accepts srv" "srv_parse_quantity srv (db_Size (spec_Database (w_spec w))) \<noteq> None" "activeId w = ''''"
    and "registered_as w (OperationIdReplicaDbCountSpecEnforcement, OperationStepIdReplicaDbDeploying, 300, b)"
  defines "i \<equiv> int32 (GetLastCreatedInstanceIndex w + 1)"
  shows "\<exists>s w0 w1. same_context w w0 \<and> CreateReplicaStatefulSet srv i w0 = Some s \<and> deployReplicaStatefulSet now srv w = (Ok, w1) \<and>
    started OperationStepIdReplicaDbDeploying i (int64 (now + 300)) w w1 \<and> w_calls w1 = w_calls w @ [CreateStatefulSet s] \<and>
    status_EnforcedReplicas (w_status w1) = int32 (status_EnforcedReplicas (w_status w) + 1) \<and>
    status_LastCreatedInstanceIndex (w_status w1) = i"
proof -
  obtain w0 where w0: "ActivateOperationOnStatefulSet now OperationIdReplicaDbCountSpecEnforcement OperationStepIdReplicaDbDeploying i w = (Ok, w0)"
    "started OperationStepIdReplicaDbDeploying i (int64 (now + 300)) w w0" "w_calls w0 = w_calls w"
    "status_EnforcedReplicas (w_status w0) = status_EnforcedReplicas (w_status w)"
    using Activate_begun [OF assms(4), of now i] assms(3) by blast
  have c: "same_context w w0" using w0(2) by (simp add: begun_def)
  then obtain s where s: "CreateReplicaStatefulSet srv i w0 = Some s"
    using CreateStatefulSet_None [of srv i w0] assms(2) by (auto simp: same_context_fields)
  have "srv_write srv (w_calls w) (CreateStatefulSet s) = None" using assms(1) by (simp add: accepts_def)
  with w0 s have "deployReplicaStatefulSet now srv w = (Ok, InfoEvent ''ReplicaStatefulSetDeployment''
      (SetLastCreatedInstanceIndex i (SetEnforcedReplicas (int32 (status_EnforcedReplicas (w_status w0) + 1))
        (w0\<lparr>w_calls := w_calls w @ [CreateStatefulSet s]\<rparr>))))"
    by (simp add: deployReplicaStatefulSet_def client_write_def i_def [symmetric])
  with w0 s c show ?thesis
    by - (rule exI [of _ s], rule exI [of _ w0], simp add: begun_def same_context_def on_instance_def)
qed

lemma undeploy_starts:
  assumes "accepts srv" "sts_Name (sw_StatefulSet s) \<noteq> ''''" "activeId w = ''''"
    and "registered_as w (OperationIdReplicaDbCountSpecEnforcement, OperationStepIdReplicaDbUndeploying, 60, b)"
  shows "\<exists>w1. undeployReplicaStatefulSets now srv s w = (Ok, w1) \<and>
    started OperationStepIdReplicaDbUndeploying (sw_InstanceIndex s) (int64 (now + 60)) w w1 \<and>
    w_calls w1 = w_calls w @ [DeleteStatefulSet (sw_StatefulSet s)] \<and>
    status_EnforcedReplicas (w_status w1) = int32 (status_EnforcedReplicas (w_status w) - 1) \<and>
    status_LastCreatedInstanceIndex (w_status w1) = status_LastCreatedInstanceIndex (w_status w)"
proof -
  obtain w0 where w0: "ActivateOperationOnStatefulSet now OperationIdReplicaDbCountSpecEnforcement OperationStepIdReplicaDbUndeploying
      (sw_InstanceIndex s) w = (Ok, w0)"
    "started OperationStepIdReplicaDbUndeploying (sw_InstanceIndex s) (int64 (now + 60)) w w0" "w_calls w0 = w_calls w"
    "status_EnforcedReplicas (w_status w0) = status_EnforcedReplicas (w_status w)"
    "status_LastCreatedInstanceIndex (w_status w0) = status_LastCreatedInstanceIndex (w_status w)"
    using Activate_begun [OF assms(4)] assms(3) by blast
  have "srv_write srv (w_calls w) (DeleteStatefulSet (sw_StatefulSet s)) = None" using assms(1) by (simp add: accepts_def)
  with w0 assms(2) show ?thesis
    by (simp add: undeployReplicaStatefulSets_def deleteStatefulSet_def client_write_def begun_def same_context_def on_instance_def)
qed

section \<open>The enforcers around the replica enforcer\<close>

text \<open>
  The operation is free, or held by an operation that timed out: on a replica that is in order, or on the primary
  (which is ready where this is used).
\<close>

definition frees :: "world \<Rightarrow> world \<Rightarrow> bool" where
  "frees w v \<longleftrightarrow> activeId w = '''' \<and> status_BlockingOperation (w_status w) = zero_Operation \<and> v = w \<or>
     HasActiveOperationIdTimedOut OperationIdReplicaDbCountSpecEnforcement w \<and> isPreviouslyFailedAttemptOnReplicaDbFixed w \<and>
     v = InfoEvent ''KubegresReEnabled'' (RemoveActiveOperation w) \<or>
     HasActiveOperationIdTimedOut OperationIdPrimaryDbCountSpecEnforcement w \<and> v = InfoEvent ''KubegresReEnabled'' (RemoveActiveOperation w)"

lemma frees_fields:
  assumes "frees w v"
  shows "same_context w v" "activeId v = ''''" "w_configs v = w_configs w" "w_calls v = w_calls w"
    "status_EnforcedReplicas (w_status v) = status_EnforcedReplicas (w_status w)"
    "status_LastCreatedInstanceIndex (w_status v) = status_LastCreatedInstanceIndex (w_status w)"
    "status_BlockingOperation (w_status v) = zero_Operation"
  using assms by (auto simp: frees_def same_context_def activeId_def zero_Operation_def)

lemma primary_met_cong:
  assumes "same_context w v" "status_EnforcedReplicas (w_status v) = status_EnforcedReplicas (w_status w)"
  shows "primary_met v = primary_met w"
  using assms(2) by (simp add: primary_met_def isStandbyEnabled_def isPrimaryDbDeployed_def isPrimaryDbReady_def same_context_fields [OF assms(1)])

lemma StatefulSetCount_frees:
  assumes "primary_met w" "frees w v"
  shows "StatefulSetCount_EnforceSpec now srv w = adjust_replicas now srv False v"
proof -
  have m: "primary_met v" by (simp add: primary_met_cong [OF frees_fields(1,5) [OF assms(2)]] assms(1))
  have "enforce_replica_count now srv v = adjust_replicas now srv False v"
    using m frees_fields(2) [OF assms(2)]
    by (simp add: enforce_replica_count_def primary_met_def replica_isManualFailoverRequested_def isReplicaOperationInProgress_def
        activeId_def operation_id_defs)
  moreover have "PrimaryDbCountSpecEnforcer_Enforce now srv w = (Ok, w) \<and> ReplicaDbCountSpecEnforcer_Enforce now srv w = enforce_replica_count now srv v \<or>
      PrimaryDbCountSpecEnforcer_Enforce now srv w = (Ok, v) \<and> ReplicaDbCountSpecEnforcer_Enforce now srv v = enforce_replica_count now srv v"
    using assms(2) unfolding frees_def
  proof (elim disjE conjE)
    assume "activeId w = ''''" "v = w"
    then show ?thesis
      using Primary_idle [OF _ assms(1)] by (simp add: ReplicaDbCountSpecEnforcer_Enforce_def hasLastAttemptTimedOut_def op_defs activeId_def
          operation_id_defs)
  next
    assume "HasActiveOperationIdTimedOut OperationIdReplicaDbCountSpecEnforcement w" "isPreviouslyFailedAttemptOnReplicaDbFixed w"
      "v = InfoEvent ''KubegresReEnabled'' (RemoveActiveOperation w)"
    then show ?thesis
      using assms(1) by (auto simp: PrimaryDbCountSpecEnforcer_Enforce_def initialiseStatusEnforcedReplicas_def primary_met_def
          enforce_primary_count_def op_defs ReplicaDbCountSpecEnforcer_Enforce_def hasLastAttemptTimedOut_def operation_id_defs)
  next
    assume t: "HasActiveOperationIdTimedOut OperationIdPrimaryDbCountSpecEnforcement w" "v = InfoEvent ''KubegresReEnabled'' (RemoveActiveOperation w)"
    have "shouldWeDeployNewPrimaryDb v = Some False" using m by (simp add: shouldWeDeployNewPrimaryDb_def primary_met_def isPrimaryDbDeployed_def)
    then have "PrimaryDbCountSpecEnforcer_Enforce now srv w = (Ok, v)"
      using assms(1) t ShouldWeFailOver_idle [OF m] by (simp add: PrimaryDbCountSpecEnforcer_Enforce_def initialiseStatusEnforcedReplicas_def
          primary_met_def enforce_primary_count_def op_defs hasLastPrimaryCountSpecEnforcementAttemptTimedOut_def)
    moreover have "ReplicaDbCountSpecEnforcer_Enforce now srv v = enforce_replica_count now srv v"
      using frees_fields(2) [OF assms(2)] by (simp add: ReplicaDbCountSpecEnforcer_Enforce_def hasLastAttemptTimedOut_def op_defs activeId_def
          operation_id_defs)
    ultimately show ?thesis by blast
  qed
  ultimately show ?thesis by (auto simp: StatefulSetCount_EnforceSpec_def)
qed

lemma BaseConfigMap_frees:
  assumes "isBaseConfigDeployed w" "frees w v"
  shows "BaseConfigMap_EnforceSpec now srv w = (Ok, w)"
  using assms by (auto simp: frees_def BaseConfigMap_idle) (simp_all add: BaseConfigMap_EnforceSpec_def op_defs)

text \<open>The services may follow in the same reconciliation.\<close>

definition service_step :: "Service list \<Rightarrow> world \<Rightarrow> world \<Rightarrow> bool" where
  "service_step ss w w' \<longleftrightarrow> w' = w\<lparr>w_calls := w_calls w @ map CreateService ss, w_events := w_events w'\<rparr>"

lemma service_step_fields:
  assumes "service_step ss w w'"
  shows "w_kubegres w' = w_kubegres w" "w_states w' = w_states w" "w_configs w' = w_configs w" "w_activeOperation w' = w_activeOperation w"
    "w_calls w' = w_calls w @ map CreateService ss" "w_statusFieldsToUpdate w' = w_statusFieldsToUpdate w"
  using assms unfolding service_step_def by (cases w; cases w'; simp)+

lemma deployService_accepted:
  assumes "accepts srv"
  shows "\<exists>s w'. deployService srv b w = (Ok, w') \<and> service_step [s] w w' \<and> service_isPrimary s = b"
proof -
  obtain s where "(if b then CreatePrimaryService (w_kubegres w) else CreateReplicaService (w_kubegres w)) = Some s" "service_isPrimary s = b"
    using CreateService_Some [of "w_kubegres w"] by (cases b) auto
  with assms show ?thesis
    by (intro exI [of _ s]) (simp add: deployService_def client_write_def accepts_def service_step_def InfoEvent_def)
qed

lemma Services_accepted:
  assumes "accepts srv"
  shows "\<exists>ss w'. Services_EnforceSpec srv w = (Ok, w') \<and> service_step ss w w' \<and>
    (\<not> srw_IsDeployed (svs_Primary (rs_Services (w_states w))) \<and> isPrimaryDbReady w \<longrightarrow> (\<exists>s \<in> set ss. service_isPrimary s)) \<and>
    (\<not> srw_IsDeployed (svs_Replica (rs_Services (w_states w))) \<and> isThereReadyReplica w \<longrightarrow> (\<exists>s \<in> set ss. \<not> service_isPrimary s))"
proof -
  have *: "\<exists>ss w'. (if c then deployService srv b w else (Ok, w)) = (Ok, w') \<and> service_step ss w w' \<and>
      (c \<longrightarrow> (\<exists>s \<in> set ss. service_isPrimary s = b))" for b c w
  proof (cases c)
    case False
    then show ?thesis by (intro exI [of _ "[]"] exI [of _ w]) (simp add: service_step_def)
  next
    case True
    obtain s w' where "deployService srv b w = (Ok, w')" "service_step [s] w w'" "service_isPrimary s = b"
      using deployService_accepted [OF assms, of b w] by blast
    with True show ?thesis by (intro exI [of _ "[s]"] exI [of _ w']) simp
  qed
  have t: "service_step (ss @ ts) u w" if "service_step ss u v" "service_step ts v w" for ss ts u v w
    using that unfolding service_step_def by (cases u; cases v; cases w) simp
  obtain ss v where v: "(if \<not> srw_IsDeployed (svs_Primary (rs_Services (w_states w))) \<and> isPrimaryDbReady w
      then deployService srv True w else (Ok, w)) = (Ok, v)" "service_step ss w v"
    "\<not> srw_IsDeployed (svs_Primary (rs_Services (w_states w))) \<and> isPrimaryDbReady w \<longrightarrow> (\<exists>s \<in> set ss. service_isPrimary s = True)"
    using * by blast
  obtain ts w' where w': "(if \<not> srw_IsDeployed (svs_Replica (rs_Services (w_states v))) \<and> isThereReadyReplica v
      then deployService srv False v else (Ok, v)) = (Ok, w')" "service_step ts v w'"
    "\<not> srw_IsDeployed (svs_Replica (rs_Services (w_states v))) \<and> isThereReadyReplica v \<longrightarrow> (\<exists>s \<in> set ts. service_isPrimary s = False)"
    using * by blast
  have "Services_EnforceSpec srv w = (Ok, w')" unfolding Services_EnforceSpec_def and_then_def v(1) by (simp add: w'(1))
  then show ?thesis using t [OF v(2) w'(2)] v(3) w'(3)
    by (intro exI [of _ "ss @ ts"] exI [of _ w']) (auto simp: service_step_fields [OF v(2)] isThereReadyReplica_def)
qed

lemma backup_met_reading:
  assumes "w_spec v = w_spec w" "kg_meta (w_kubegres v) = kg_meta (w_kubegres w)"
    and "rs_BackUp (w_states v) = rs_BackUp (w_states w)" "rs_Config (w_states v) = rs_Config (w_states w)"
  shows "backup_met v = backup_met w"
proof -
  have "GetServiceResourceName (w_kubegres v) b = GetServiceResourceName (w_kubegres w) b" for b
    by (simp add: GetServiceResourceName_def assms)
  then have "backup_source (w_kubegres v) = backup_source (w_kubegres w)" by (simp add: backup_source_def assms cong: option.case_cong)
  then show ?thesis by (simp add: backup_met_def isCronJobDeployed_def isBackUpConfigured_def backup_hasSpecChanged_def assms)
qed

lemma backup_met_cong: "same_context w v \<Longrightarrow> backup_met v = backup_met w"
  by (rule backup_met_reading) (simp_all add: same_context_fields)

lemma controller_scales:
  assumes "accepts srv" "primary_met w" "isBaseConfigDeployed w" "backup_met w" "frees w v"
    and "adjust_replicas (clk_enforce clk) srv False v = (Ok, w1)" "started step i d v w1"
  shows "\<exists>ss w2. controller_enforceSpec clk srv w = (Ok, w2) \<and> service_step ss w1 w2"
proof -
  obtain ss w2 where s: "Services_EnforceSpec srv w1 = (Ok, w2)" "service_step ss w1 w2" using Services_accepted [OF assms(1)] by blast
  note f = service_step_fields [OF s(2)]
  have c: "w_states w2 = w_states w" "w_spec w2 = w_spec w" "kg_meta (w_kubegres w2) = kg_meta (w_kubegres w)"
    using assms(7) frees_fields(1) [OF assms(5)] by (simp_all add: f begun_def same_context_def)
  then have "backup_met w2" using assms(4) backup_met_cong [of w w2] by (simp add: same_context_def)
  moreover have "AllStatefulSets_EnforceSpec addStatefulSetSpecEnforcers (clk_enforce clk) srv w2 = (Ok, w2)"
    using assms(7) by (simp add: AllStatefulSets_EnforceSpec_def op_defs f begun_def on_instance_def)
  ultimately show ?thesis
    using s StatefulSetCount_frees [OF assms(2,5)] BaseConfigMap_frees [OF assms(3,5)] assms(6)
    by (intro exI [of _ ss] exI [of _ w2]) (simp add: controller_enforceSpec_def enforceResourcesCountSpec_def ResourcesCount_EnforceSpec_def addResourcesCountSpecEnforcers_def
        AddSpecEnforcer_def enforceAllStatefulSetsSpec_def BackUp_idle)
qed

section \<open>The operation of the previous reconciliation\<close>

text \<open>The stored operation is none, or the deployment of a replica that is ready, or the removal of one that is gone.\<close>

definition replica_settled :: "ResourcesStates \<Rightarrow> KubegresBlockingOperation \<Rightarrow> bool" where
  "replica_settled rs ope \<longleftrightarrow> ope = zero_Operation \<or> (\<exists>i d. 0 \<le> d \<and> d < 2 ^ 63 \<and>
     (replica_operation OperationStepIdReplicaDbDeploying i d ope \<and> fst (isReplicaDbReady rs ope) \<or>
      replica_operation OperationStepIdReplicaDbUndeploying i d ope \<and> fst (isReplicaDbUndeployed rs ope)))"

text \<open>The clock does not run backwards and is far from the end of 64-bit time.\<close>

definition clock_ok :: "clock \<Rightarrow> bool" where
  "clock_ok clk \<longleftrightarrow> 0 \<le> clk_timed_out clk \<and> clk_timed_out clk \<le> clk_left clk \<and> clk_left clk < 2 ^ 63 \<and>
     0 \<le> clk_enforce clk \<and> clk_enforce clk < 2 ^ 62"

lemma context_replica_config:
  assumes "op_OperationId ope = OperationIdReplicaDbCountSpecEnforcement"
  shows "op_StepId ope = OperationStepIdReplicaDbDeploying \<Longrightarrow>
      getConfig ope (context_of srv k rs) = CreateOperationConfigForReplicaDbDeploying rs"
    and "op_StepId ope = OperationStepIdReplicaDbUndeploying \<Longrightarrow>
      getConfig ope (context_of srv k rs) = CreateOperationConfigForReplicaDbUndeploying rs"
  using assms
  by (simp_all add: getConfig_def context_of_def addBlockingOperationConfigs_def Let_def w_configs_AddConfig config_defs
      config_id_neqs config_id_neqs_rev)

lemma settled_fixed:
  assumes "replica_settled rs ope" "ope \<noteq> zero_Operation"
    and "op_StatefulSetOperation (w_activeOperation w) = op_StatefulSetOperation ope" "w_states w = rs"
  shows "isPreviouslyFailedAttemptOnReplicaDbFixed w"
  using assms by (auto simp: replica_settled_def isPreviouslyFailedAttemptOnReplicaDbFixed_def isReplicaDbReady_def
      isReplicaDbUndeployed_def Let_def split: prod.splits option.splits)

lemma getConfig_cong:
  "w_configs v = w_configs w \<Longrightarrow> op_OperationId ope' = op_OperationId ope \<Longrightarrow> op_StepId ope' = op_StepId ope \<Longrightarrow>
   getConfig ope' v = getConfig ope w"
  by (simp add: getConfig_def)

lemma settled_checker:
  assumes "replica_settled rs ope" "ope \<noteq> zero_Operation"
  obtains checker where "cfg_CompletionChecker (getConfig ope (context_of srv k rs)) = Some checker" "\<And>t. fst (checker t ope)"
    "\<not> cfg_AfterCompletionMoveToTransitionStep (getConfig ope (context_of srv k rs))"
    "op_OperationId ope = OperationIdReplicaDbCountSpecEnforcement" "op_StepId ope \<noteq> TransitionOperationStepId"
    "0 \<le> op_TimeOutEpocInSeconds ope" "op_TimeOutEpocInSeconds ope < 2 ^ 63"
  using assms that unfolding replica_settled_def
  by (auto simp: on_instance_def context_replica_config CreateOperationConfigForReplicaDbDeploying_def
      CreateOperationConfigForReplicaDbUndeploying_def)

text \<open>What loading the operation keeps.\<close>

definition load_step :: "world \<Rightarrow> world \<Rightarrow> bool" where
  "load_step w w1 \<longleftrightarrow> same_context w w1 \<and> w_configs w1 = w_configs w \<and> w_calls w1 = w_calls w \<and>
     status_EnforcedReplicas (w_status w1) = status_EnforcedReplicas (w_status w) \<and>
     status_LastCreatedInstanceIndex (w_status w1) = status_LastCreatedInstanceIndex (w_status w) \<and>
     (w_statusFieldsToUpdate w1 = None \<longrightarrow> w_kubegres w1 = w_kubegres w)"

lemma removeActiveOperation_marks [simp]: "w_statusFieldsToUpdate (removeActiveOperation b w) \<noteq> None"
  by (simp add: removeActiveOperation_def Let_def)

lemma load_step_load: "load_step w (loadOperations w)"
  by (simp add: load_step_def same_context_def loadOperations_def)

lemma load_frees:
  fixes srv :: server
  assumes "replica_settled rs (status_BlockingOperation (kg_Status k))" "clock_ok clk"
  defines "w \<equiv> context_of srv k rs"
  shows "\<exists>n w1 v. LoadActiveOperation (clk_timed_out clk) (clk_completed clk) (clk_left clk) w = (n, w1) \<and> n \<le> 0 \<and>
    load_step w w1 \<and> frees w1 v \<and> \<not> load_panics clk srv w"
proof (cases "status_BlockingOperation (kg_Status k) = zero_Operation")
  case True
  then have z: "status_BlockingOperation (w_status w) = zero_Operation" by (simp add: w_def context_of_fields)
  from LoadActiveOperation_idle [OF z] z show ?thesis by (auto simp: frees_def load_step_load)
next
  case False
  let ?ope = "status_BlockingOperation (kg_Status k)" and ?u = "loadOperations w"
  obtain checker where c: "cfg_CompletionChecker (getConfig ?ope w) = Some checker" "\<And>t. fst (checker t ?ope)"
    "\<not> cfg_AfterCompletionMoveToTransitionStep (getConfig ?ope w)"
    and o: "op_OperationId ?ope = OperationIdReplicaDbCountSpecEnforcement" "op_StepId ?ope \<noteq> TransitionOperationStepId"
    "0 \<le> op_TimeOutEpocInSeconds ?ope" "op_TimeOutEpocInSeconds ?ope < 2 ^ 63"
    using settled_checker [OF assms(1) False] unfolding w_def by metis
  have u: "w_activeOperation ?u = ?ope" "w_configs ?u = w_configs w" by (simp_all add: loadOperations_def status_defs w_def context_of_fields)
  have np: "\<not> load_panics clk srv w" by (simp add: load_panics_def completion_checker_panics_def u o)
  have i64: "int64 (op_TimeOutEpocInSeconds ?ope - t) = op_TimeOutEpocInSeconds ?ope - t" if "0 \<le> t" "t < 2 ^ 63" for t
    using o(3,4) that by (intro int64_id) (auto simp: in_int64_def)
  note t = assms(2) [unfolded clock_ok_def]
  have active: "isThereActiveOperation ?u" "\<not> isOperationInTransition ?u"
    using o by (simp_all add: op_defs isOperationInTransition_def u operation_id_defs)
  show ?thesis
  proof (cases "hasOperationTimedOut (clk_timed_out clk) ?u")
    case True
    let ?w1 = "InfoEvent ''BlockingOperationTimedOut'' (?u\<lparr>w_activeOperation := ?ope\<lparr>op_HasTimedOut := True\<rparr>\<rparr>)"
    have "getConfig (?ope\<lparr>op_HasTimedOut := True\<rparr>) (?u\<lparr>w_activeOperation := ?ope\<lparr>op_HasTimedOut := True\<rparr>\<rparr>) = getConfig ?ope w"
      by (rule getConfig_cong) (simp_all add: u)
    then have "removeOperationIfNotActive (clk_timed_out clk) (clk_completed clk) ?u = ?w1"
      using True active c(1) by (simp add: removeOperationIfNotActive_def hasCompletionChecker_def u)
    moreover have "GetNbreSecondsLeftBeforeTimeOut (clk_left clk) ?w1 = 0"
      using True t i64 [of "clk_timed_out clk"] i64 [of "clk_left clk"]
      by (auto simp: GetNbreSecondsLeftBeforeTimeOut_def hasOperationTimedOut_def u)
    moreover have "isPreviouslyFailedAttemptOnReplicaDbFixed ?w1"
      by (rule settled_fixed [OF assms(1) False]) (simp_all add: w_def context_of_fields)
    then have "frees ?w1 (InfoEvent ''KubegresReEnabled'' (RemoveActiveOperation ?w1))" using o(1) by (simp add: frees_def op_defs)
    moreover have "load_step w ?w1" using load_step_load [of w] by (simp add: load_step_def same_context_def)
    ultimately show ?thesis using np by (auto simp: LoadActiveOperation_def)
  next
    case running: False
    obtain es where e: "isOperationCompletionConditionReached (clk_completed clk) ?u = (True, record_events es ?u)"
      using c(2) [of "GetNbreSecondsSinceOperationHasStarted (clk_completed clk) ?u"] c(1) getConfig_cong [OF u(2), of ?ope ?ope]
      by (cases "checker (GetNbreSecondsSinceOperationHasStarted (clk_completed clk) ?u) ?ope")
        (auto simp: isOperationCompletionConditionReached_def u)
    let ?w2 = "InfoEvent ''BlockingOperationCompleted'' (record_events es ?u)"
    have "getConfig ?ope ?w2 = getConfig ?ope w" by (rule getConfig_cong) (simp_all add: u)
    then have "removeOperationIfNotActive (clk_timed_out clk) (clk_completed clk) ?u = removeActiveOperation False ?w2"
      using running active e c(3) by (simp add: removeOperationIfNotActive_def shouldOperationBeInTransition_def u)
    moreover have "load_step w (removeActiveOperation False ?w2)"
      using load_step_load [of w] by (auto simp: load_step_def same_context_def)
    ultimately show ?thesis using np
      by (auto simp: LoadActiveOperation_def GetNbreSecondsLeftBeforeTimeOut_def zero_Operation_def frees_def activeId_def)
  qed
qed

text \<open>At the clock \<open>clk\<close> the reconciliation frees the stored operation and goes on.\<close>

definition releases :: "clock \<Rightarrow> server \<Rightarrow> Kubegres \<Rightarrow> ResourcesStates \<Rightarrow> bool" where
  "releases clk srv k rs \<longleftrightarrow>
     (\<exists>n w1 v. LoadActiveOperation (clk_timed_out clk) (clk_completed clk) (clk_left clk) (context_of srv k rs) = (n, w1) \<and> n \<le> 0 \<and>
        load_step (context_of srv k rs) w1 \<and> frees w1 v \<and> \<not> load_panics clk srv (context_of srv k rs))"

lemma settled_releases:
  "replica_settled rs (status_BlockingOperation (kg_Status k)) \<Longrightarrow> clock_ok clk \<Longrightarrow> releases clk srv k rs"
  unfolding releases_def by (rule load_frees)

section \<open>One reconciliation\<close>

lemma load_step_frees:
  assumes "load_step w w1" "frees w1 v"
  shows "load_step w v"
proof -
  have "w_statusFieldsToUpdate v = None \<Longrightarrow> v = w1"
    using assms(2) by (auto simp: frees_def RemoveActiveOperation_def)
  then show ?thesis using assms(1) frees_fields [OF assms(2)] by (auto simp: load_step_def same_context_def)
qed

lemma load_step_registers:
  assumes "load_step (context_of srv k rs) v" "e \<in> set operation_table"
  shows "registered_as v e"
proof -
  have "getConfig ope v = getConfig ope (context_of srv k rs)" for ope by (rule getConfig_cong) (use assms(1) in \<open>simp_all add: load_step_def\<close>)
  moreover have "registered_as (context_of srv k rs) e" unfolding context_of_def by (rule addBlockingOperationConfigs_registers [OF assms(2)])
  ultimately show ?thesis by (simp add: registered_as_def doesOperationHaveAssociatedConfig_def split: prod.splits)
qed

lemma spec_ok_cong: "same_context w v \<Longrightarrow> spec_ok v = spec_ok w"
  by (simp add: same_context_def spec_ok_def environment_ok_def instances_ok_def backup_ok_def volumes_ok_def)

text \<open>What a reconciliation needs to get to the replicas.\<close>

definition reconcilable :: "server \<Rightarrow> world \<Rightarrow> bool" where
  "reconcilable srv w \<longleftrightarrow> (\<exists>n. spec_Replicas (w_spec w) = Some n) \<and> defaults_set (w_spec w) \<and> spec_ok w \<and>
     matches_primary srv (w_spec w) (sw_StatefulSet (getPrimaryStatefulSet w)) \<and>
     (\<exists>m claim cls. primary_shape (sw_StatefulSet (getPrimaryStatefulSet w)) m claim cls) \<and>
     primary_met w \<and> isBaseConfigDeployed w \<and> backup_met w"

lemma reconcilable_cong:
  assumes "load_step w v"
  shows "reconcilable srv v = reconcilable srv w"
proof -
  have s: "same_context w v" "status_EnforcedReplicas (w_status v) = status_EnforcedReplicas (w_status w)"
    using assms by (simp_all add: load_step_def)
  show ?thesis
    by (simp add: reconcilable_def primary_met_cong [OF s] spec_ok_cong [OF s(1)] backup_met_cong [OF s(1)] same_context_fields [OF s(1)]
        isBaseConfigDeployed_def getPrimaryStatefulSet_def)
qed

lemma CheckSpec_reconcilable:
  assumes "keeps_spec srv" "reconcilable srv w"
  shows "\<exists>r. CheckSpec srv w = (Val r, w) \<and> \<not> HasSpecFatalError r"
  using assms CheckSpec_checked [OF assms(1)] unfolding reconcilable_def checked_ok_def by metis

lemma returnn_sends:
  assumes "accepts srv" "w_statusFieldsToUpdate w \<noteq> None"
  shows "\<exists>w'. returnn srv result Ok w = ((result, Ok), w') \<and> w_calls w' = w_calls w @ [UpdateKubegresStatus (w_kubegres w)] \<and>
    w_kubegres w' = w_kubegres w"
  using assms by (auto simp: returnn_def UpdateStatusIfChanged_def accepts_def)

lemma reconcile_context_frees:
  assumes "releases clk srv k rs" "accepts srv"
    and "reconcilable srv (context_of srv k rs)"
  obtains w v where "load_step (context_of srv k rs) w" "frees w v" "reconcilable srv w"
    and "\<And>w'. controller_enforceSpec clk srv w = (Ok, w') \<Longrightarrow> reconcile_context clk srv (context_of srv k rs) = returnn srv zero_Result Ok w'"
proof -
  let ?w = "context_of srv k rs"
  obtain n w0 v where l: "LoadActiveOperation (clk_timed_out clk) (clk_completed clk) (clk_left clk) ?w = (n, w0)" "n \<le> 0"
    "load_step ?w w0" "frees w0 v" "\<not> load_panics clk srv ?w"
    using assms(1) unfolding releases_def by blast
  have r: "reconcilable srv w0" using reconcilable_cong [OF l(3)] assms(3) by simp
  obtain chk where c: "CheckSpec srv w0 = (Val chk, w0)" "\<not> HasSpecFatalError chk"
    using CheckSpec_reconcilable [OF _ r] assms(2) by (auto simp: accepts_def)
  show thesis
    by (rule that [OF l(3,4) r]) (use l(1,2,5) c in \<open>simp add: reconcile_context_def\<close>)
qed

lemma reconcile_context_scales:
  assumes "releases clk srv k rs" "accepts srv"
    and "reconcilable srv (context_of srv k rs)"
  obtains v where "load_step (context_of srv k rs) v" "activeId v = ''''"
    and "\<And>w1 step i d. adjust_replicas (clk_enforce clk) srv False v = (Ok, w1) \<Longrightarrow> started step i d v w1 \<Longrightarrow>
      \<exists>ss w'. reconcile_context clk srv (context_of srv k rs) = ((zero_Result, Ok), w') \<and>
        w_calls w' = w_calls w1 @ map CreateService ss @ [UpdateKubegresStatus (w_kubegres w1)]"
proof -
  let ?w = "context_of srv k rs"
  obtain w0 v where l: "load_step ?w w0" "frees w0 v" "reconcilable srv w0"
    "\<And>w'. controller_enforceSpec clk srv w0 = (Ok, w') \<Longrightarrow> reconcile_context clk srv ?w = returnn srv zero_Result Ok w'"
    using reconcile_context_frees [OF assms] by metis
  show thesis
  proof (rule that [of v])
    show "load_step ?w v" by (rule load_step_frees [OF l(1,2)])
    show "activeId v = ''''" by (rule frees_fields(2) [OF l(2)])
    fix w1 step i d
    assume a: "adjust_replicas (clk_enforce clk) srv False v = (Ok, w1)" "started step i d v w1"
    obtain ss w2 where s: "controller_enforceSpec clk srv w0 = (Ok, w2)" "service_step ss w1 w2"
      using controller_scales [OF assms(2) _ _ _ l(2) a] l(3) by (auto simp: reconcilable_def)
    have "w_statusFieldsToUpdate w2 \<noteq> None" using a(2) by (simp add: begun_def service_step_fields [OF s(2)])
    then obtain w' where "returnn srv zero_Result Ok w2 = ((zero_Result, Ok), w')"
      "w_calls w' = w_calls w2 @ [UpdateKubegresStatus (w_kubegres w2)]"
      using returnn_sends [OF assms(2)] by blast
    with l(4) [OF s(1)] show "\<exists>ss w'. reconcile_context clk srv ?w = ((zero_Result, Ok), w') \<and>
        w_calls w' = w_calls w1 @ map CreateService ss @ [UpdateKubegresStatus (w_kubegres w1)]"
      by (intro exI [of _ ss] exI [of _ w']) (simp add: service_step_fields [OF s(2)])
  qed
qed

section \<open>The cluster\<close>

text \<open>
  What the API server stores of one Kubegres resource and what changes when it is scaled. The other
  resources, and the answers to all writes, are those of a server \<open>base\<close>; \<open>pod_of\<close> is the
  Pod that runs a StatefulSet.
\<close>

record cluster =
  cl_kubegres :: Kubegres
  cl_StatefulSets :: "StatefulSet list"
  cl_Services :: "Service list"

definition cluster_server :: "server \<Rightarrow> (StatefulSet \<Rightarrow> Pod) \<Rightarrow> cluster \<Rightarrow> server" where
  "cluster_server base pod_of c = base\<lparr>srv_get_Kubegres := \<lambda>_ _. Inr (cl_kubegres c),
     srv_list_StatefulSets := \<lambda>_ _ _. Inr (cl_StatefulSets c), srv_list_Pods := \<lambda>_ _ _. Inr (map pod_of (cl_StatefulSets c)),
     srv_list_Services := \<lambda>_ _ _. Inr (cl_Services c)\<rparr>"

text \<open>A request that is carried out: a created StatefulSet gets a ready Pod, a status replaces the stored one.\<close>

fun apply_request :: "api_call \<Rightarrow> cluster \<Rightarrow> cluster" where
  "apply_request (UpdateKubegres k) c = c\<lparr>cl_kubegres := (cl_kubegres c)\<lparr>kg_Spec := kg_Spec k\<rparr>\<rparr>"
| "apply_request (UpdateKubegresStatus k) c = c\<lparr>cl_kubegres := (cl_kubegres c)\<lparr>kg_Status := kg_Status k\<rparr>\<rparr>"
| "apply_request (CreateStatefulSet s) c = c\<lparr>cl_StatefulSets := cl_StatefulSets c @ [s\<lparr>sts_ReadyReplicas := 1\<rparr>]\<rparr>"
| "apply_request (UpdateStatefulSet s) c = c\<lparr>cl_StatefulSets := map (\<lambda>t. if sts_Name t = sts_Name s then s else t) (cl_StatefulSets c)\<rparr>"
| "apply_request (DeleteStatefulSet s) c = c\<lparr>cl_StatefulSets := filter (\<lambda>t. sts_Name t \<noteq> sts_Name s) (cl_StatefulSets c)\<rparr>"
| "apply_request (CreateService s) c = c\<lparr>cl_Services := cl_Services c @ [s]\<rparr>"
| "apply_request (DeleteService s) c = c\<lparr>cl_Services := filter (\<lambda>t. md_Name (svc_meta t) \<noteq> md_Name (svc_meta s)) (cl_Services c)\<rparr>"
| "apply_request _ c = c"

definition reconcile_round :: "server \<Rightarrow> (StatefulSet \<Rightarrow> Pod) \<Rightarrow> clock \<Rightarrow> cluster \<Rightarrow> cluster" where
  "reconcile_round base pod_of clk c =
     (case snd (Reconcile clk (cluster_server base pod_of c) (kg_Namespace (cl_kubegres c)) (kg_Name (cl_kubegres c))) of
        None \<Rightarrow> c
      | Some w \<Rightarrow> fold apply_request (w_calls w) c)"

lemma apply_services:
  "cl_kubegres (fold apply_request (map CreateService ss) c) = cl_kubegres c"
  "cl_StatefulSets (fold apply_request (map CreateService ss) c) = cl_StatefulSets c"
  "cl_Services (fold apply_request (map CreateService ss) c) = cl_Services c @ ss"
  by (induction ss arbitrary: c) simp_all

text \<open>The parts of the cluster that are read and do not change.\<close>

definition environment :: "server \<Rightarrow> KubegresSpec \<Rightarrow> ObjectMeta \<Rightarrow> DbStorageClassStates \<Rightarrow> ConfigStates \<Rightarrow> BackUpStates \<Rightarrow> bool" where
  "environment base spec meta dsc cfs bus \<longleftrightarrow>
     (\<forall>w. w_calls w = [] \<and> w_spec w = spec \<and> kg_meta (w_kubegres w) = meta \<longrightarrow>
        loadDbStorageClass base w = (Val dsc, w) \<and> loadConfigStates base w = (Val cfs, w) \<and> loadBackUpStates base w = (Val bus, w))"

definition cluster_states :: "(StatefulSet \<Rightarrow> Pod) \<Rightarrow> DbStorageClassStates \<Rightarrow> ConfigStates \<Rightarrow> BackUpStates \<Rightarrow> cluster \<Rightarrow> ResourcesStates" where
  "cluster_states pod_of dsc cfs bus c =
     \<lparr>rs_DbStorageClass = dsc,
      rs_StatefulSets = loaded (int (length (cl_StatefulSets c))) (the (spec_Replicas (kg_Spec (cl_kubegres c))))
        (map wrap_pod (map pod_of (cl_StatefulSets c))) (cl_StatefulSets c),
      rs_Services = fold (add_service (cl_kubegres c)) (cl_Services c)
        \<lparr>svs_Primary = zero_ServiceWrapper, svs_Replica = zero_ServiceWrapper\<rparr>,
      rs_Config = cfs, rs_BackUp = bus\<rparr>"

lemma cluster_server_loaders:
  "loadDbStorageClass (cluster_server base pod_of c) = loadDbStorageClass base"
  "loadConfigStates (cluster_server base pod_of c) = loadConfigStates base"
  "loadBackUpStates (cluster_server base pod_of c) = loadBackUpStates base"
proof -
  have g: "getDeployedConfigMap (cluster_server base pod_of c) = getDeployedConfigMap base"
    by (simp add: getDeployedConfigMap_def cluster_server_def fun_eq_iff cong: sum.case_cong go_error.case_cong)
  show "loadConfigStates (cluster_server base pod_of c) = loadConfigStates base"
    by (intro ext) (simp only: loadConfigStates_def loadCustomConfigStates_def config_map_defs g)
  have "GetStorageClass (cluster_server base pod_of c) = GetStorageClass base"
    by (simp add: GetStorageClass_def cluster_server_def fun_eq_iff cong: option.case_cong)
  then show "loadDbStorageClass (cluster_server base pod_of c) = loadDbStorageClass base" by (simp add: loadDbStorageClass_def)
  have b: "getDeployedCronJob (cluster_server base pod_of c) = getDeployedCronJob base"
    "getDeployedPvc (cluster_server base pod_of c) = getDeployedPvc base"
    by (simp_all add: getDeployedCronJob_def getDeployedPvc_def cluster_server_def fun_eq_iff)
  show "loadBackUpStates (cluster_server base pod_of c) = loadBackUpStates base" unfolding loadBackUpStates_def b by (rule refl)
qed

lemma cluster_loads:
  assumes "environment base (kg_Spec (cl_kubegres c)) (kg_meta (cl_kubegres c)) dsc cfs bus"
    and "spec_Replicas (kg_Spec (cl_kubegres c)) = Some n" "length (cl_StatefulSets c) < 2147483648"
    and "\<forall>s \<in> set (cl_StatefulSets c). has_index s" "length (filter isPrimary (cl_StatefulSets c)) \<le> 1"
  shows "LoadResourcesStates (cluster_server base pod_of c) (CreateBlockingOperation (cl_kubegres c)) =
    (Val (cluster_states pod_of dsc cfs bus c), CreateBlockingOperation (cl_kubegres c))"
proof -
  let ?srv = "cluster_server base pod_of c" and ?w = "CreateBlockingOperation (cl_kubegres c)"
  have w: "w_calls ?w = []" "w_kubegres ?w = cl_kubegres c" by (simp_all add: CreateBlockingOperation_def)
  have e: "loadDbStorageClass base ?w = (Val dsc, ?w)" "loadConfigStates base ?w = (Val cfs, ?w)" "loadBackUpStates base ?w = (Val bus, ?w)"
    using assms(1) w by (simp_all add: environment_def)
  have "LoadStatefulSetsStates ?srv ?w = (Val (rs_StatefulSets (cluster_states pod_of dsc cfs bus c)), ?w)"
    using LoadStatefulSetsStates_loaded [of ?srv ?w "cl_StatefulSets c" "map pod_of (cl_StatefulSets c)" n] assms(2-5) w
    by (simp add: cluster_server_def cluster_states_def)
  moreover have "loadServicesStates ?srv ?w = (Val (rs_Services (cluster_states pod_of dsc cfs bus c)), ?w)"
    by (simp add: loadServicesStates_def getDeployedServices_def res_bind_def cluster_server_def cluster_states_def w)
  ultimately show ?thesis
    using e by (simp add: LoadResourcesStates_def res_bind_def cluster_server_loaders) (simp add: cluster_states_def)
qed

section \<open>An operating cluster\<close>

definition index_of :: "StatefulSet \<Rightarrow> int" where
  "index_of s = fst (ParseInt32 (map_get (sts_TemplateLabels s) ''index''))"

lemma wrap_index [simp]: "sw_InstanceIndex (wrap pods t) = index_of t"
  by (simp add: wrap_def index_of_def Let_def)

text \<open>Named and numbered by the operator.\<close>

definition numbered :: "Kubegres \<Rightarrow> StatefulSet list \<Rightarrow> bool" where
  "numbered k ss \<longleftrightarrow> distinct (map index_of ss) \<and>
     (\<forall>s \<in> set ss. has_index s \<and> in_int32 (index_of s) \<and> sts_Name s = GetStatefulSetResourceName k (index_of s) \<and>
        index_of s \<le> status_LastCreatedInstanceIndex (kg_Status k))"

text \<open>
  One primary, all instances ready, named and numbered by the operator. The number of enforced replicas in the status
  may be too high (after a fail-over), which matters only when the automatic fail-over is disabled.
\<close>

definition instances_ready :: "Kubegres \<Rightarrow> StatefulSet list \<Rightarrow> bool" where
  "instances_ready k ss \<longleftrightarrow> (\<exists>p. filter isPrimary ss = [p]) \<and> distinct (map index_of ss) \<and>
     (\<forall>s \<in> set ss. has_index s \<and> 0 < sts_ReadyReplicas s \<and> in_int32 (index_of s) \<and>
        sts_Name s = GetStatefulSetResourceName k (index_of s) \<and> index_of s \<le> status_LastCreatedInstanceIndex (kg_Status k)) \<and>
     int (length ss) \<le> status_EnforcedReplicas (kg_Status k) \<and>
     (failover_IsDisabled (spec_Failover (kg_Spec k)) \<longrightarrow> status_EnforcedReplicas (kg_Status k) = int (length ss))"

text \<open>The indices and counts that scaling up uses fit into 32 bits.\<close>

definition capacity :: "cluster \<Rightarrow> int \<Rightarrow> bool" where
  "capacity c n \<longleftrightarrow> n < 2147483648 \<and> length (cl_StatefulSets c) < 2147483648 \<and>
     0 \<le> status_LastCreatedInstanceIndex (kg_Status (cl_kubegres c)) \<and>
     status_LastCreatedInstanceIndex (kg_Status (cl_kubegres c)) + max 0 (n - int (length (cl_StatefulSets c))) < 2147483648 \<and>
     status_EnforcedReplicas (kg_Status (cl_kubegres c)) + max 0 (n - int (length (cl_StatefulSets c))) < 2147483648"

definition cluster_context :: "server \<Rightarrow> (StatefulSet \<Rightarrow> Pod) \<Rightarrow> DbStorageClassStates \<Rightarrow> ConfigStates \<Rightarrow> BackUpStates \<Rightarrow> cluster \<Rightarrow> world" where
  "cluster_context base pod_of dsc cfs bus c =
     context_of (cluster_server base pod_of c) (cl_kubegres c) (cluster_states pod_of dsc cfs bus c)"

definition serving :: "server \<Rightarrow> (StatefulSet \<Rightarrow> Pod) \<Rightarrow> DbStorageClassStates \<Rightarrow> ConfigStates \<Rightarrow> BackUpStates \<Rightarrow> int \<Rightarrow> cluster \<Rightarrow> bool" where
  "serving base pod_of dsc cfs bus n c \<longleftrightarrow>
     accepts base \<and> environment base (kg_Spec (cl_kubegres c)) (kg_meta (cl_kubegres c)) dsc cfs bus \<and>
     srv_parse_quantity base (db_Size (spec_Database (kg_Spec (cl_kubegres c)))) \<noteq> None \<and>
     spec_Replicas (kg_Spec (cl_kubegres c)) = Some n \<and> capacity c n \<and>
     instances_ready (cl_kubegres c) (cl_StatefulSets c) \<and>
     reconcilable (cluster_server base pod_of c) (cluster_context base pod_of dsc cfs bus c)"

text \<open>No operation is in the way, at any time or at the clock \<open>clk\<close>.\<close>

definition operating :: "server \<Rightarrow> (StatefulSet \<Rightarrow> Pod) \<Rightarrow> DbStorageClassStates \<Rightarrow> ConfigStates \<Rightarrow> BackUpStates \<Rightarrow> int \<Rightarrow> cluster \<Rightarrow> bool" where
  "operating base pod_of dsc cfs bus n c \<longleftrightarrow> serving base pod_of dsc cfs bus n c \<and>
     replica_settled (cluster_states pod_of dsc cfs bus c) (status_BlockingOperation (kg_Status (cl_kubegres c)))"

definition free_at :: "server \<Rightarrow> (StatefulSet \<Rightarrow> Pod) \<Rightarrow> DbStorageClassStates \<Rightarrow> ConfigStates \<Rightarrow> BackUpStates \<Rightarrow> int \<Rightarrow> clock \<Rightarrow> cluster \<Rightarrow> bool" where
  "free_at base pod_of dsc cfs bus n clk c \<longleftrightarrow> serving base pod_of dsc cfs bus n c \<and> clock_ok clk \<and>
     releases clk (cluster_server base pod_of c) (cl_kubegres c) (cluster_states pod_of dsc cfs bus c)"

lemma operating_free: "operating base pod_of dsc cfs bus n c \<Longrightarrow> clock_ok clk \<Longrightarrow> free_at base pod_of dsc cfs bus n clk c"
  by (simp add: operating_def free_at_def settled_releases)

lemma free_at_serving:
  assumes "free_at base pod_of dsc cfs bus n clk c"
  shows "serving base pod_of dsc cfs bus n c" "clock_ok clk"
  using assms by (simp_all add: free_at_def)

lemma cluster_server_accepts: "accepts (cluster_server base pod_of c) = accepts base"
  by (simp add: accepts_def cluster_server_def keeps_spec_def)

lemma instances_ready_split:
  assumes "instances_ready k ss"
  shows "length (filter (\<lambda>s. \<not> isPrimary s) ss) = length ss - 1" "ss \<noteq> []"
proof -
  have "length (filter isPrimary ss) = 1" using assms by (auto simp: instances_ready_def)
  then show "length (filter (\<lambda>s. \<not> isPrimary s) ss) = length ss - 1" "ss \<noteq> []"
    using sum_length_filter_compl [of isPrimary ss] by auto
qed

text \<open>A reconciliation of the cluster is one of the context that is loaded from it.\<close>

lemma loaded_round:
  assumes "environment base (kg_Spec (cl_kubegres c)) (kg_meta (cl_kubegres c)) dsc cfs bus"
    and "spec_Replicas (kg_Spec (cl_kubegres c)) = Some n" "length (cl_StatefulSets c) < 2147483648"
    and "\<forall>s \<in> set (cl_StatefulSets c). has_index s" "length (filter isPrimary (cl_StatefulSets c)) \<le> 1"
    and "defaults_set (kg_Spec (cl_kubegres c))"
    and "reconcile_context clk (cluster_server base pod_of c) (cluster_context base pod_of dsc cfs bus c) = (r, w)"
  shows "reconcile_round base pod_of clk c = fold apply_request (w_calls w) c"
proof -
  let ?srv = "cluster_server base pod_of c" and ?k = "cl_kubegres c"
  have "Reconcile clk ?srv (kg_Namespace ?k) (kg_Name ?k) = (r, Some w)"
    by (rule Reconcile_context [OF _ assms(2,6) cluster_loads [OF assms(1-5)] assms(7) [unfolded cluster_context_def]])
      (simp add: cluster_server_def)
  then show ?thesis by (simp add: reconcile_round_def)
qed

lemma cluster_round:
  assumes "serving base pod_of dsc cfs bus n c"
    and "reconcile_context clk (cluster_server base pod_of c) (cluster_context base pod_of dsc cfs bus c) = (r, w)"
  shows "reconcile_round base pod_of clk c = fold apply_request (w_calls w) c"
proof -
  obtain p where "filter isPrimary (cl_StatefulSets c) = [p]" using assms(1) by (auto simp: serving_def instances_ready_def)
  then show ?thesis
    using assms(1) by (intro loaded_round [OF _ _ _ _ _ _ assms(2), where n = n])
      (auto simp: serving_def capacity_def instances_ready_def reconcilable_def cluster_context_def context_of_fields)
qed

lemma round_runs:
  assumes "free_at base pod_of dsc cfs bus n clk c"
  obtains v where "load_step (cluster_context base pod_of dsc cfs bus c) v" "activeId v = ''''"
    and "\<And>w1 step i d call. adjust_replicas (clk_enforce clk) (cluster_server base pod_of c) False v = (Ok, w1) \<Longrightarrow> started step i d v w1 \<Longrightarrow>
      w_calls w1 = w_calls v @ [call] \<Longrightarrow> cl_kubegres (apply_request call c) = cl_kubegres c \<Longrightarrow>
      cl_kubegres (reconcile_round base pod_of clk c) = (cl_kubegres c)\<lparr>kg_Status := w_status w1\<rparr> \<and>
      cl_StatefulSets (reconcile_round base pod_of clk c) = cl_StatefulSets (apply_request call c)"
proof -
  let ?srv = "cluster_server base pod_of c" and ?k = "cl_kubegres c" and ?rs = "cluster_states pod_of dsc cfs bus c"
  let ?w = "context_of ?srv ?k ?rs"
  note sv = free_at_serving(1) [OF assms]
  have ac: "accepts ?srv" using sv by (simp add: serving_def cluster_server_accepts)
  have re: "reconcilable ?srv ?w" using sv by (simp add: serving_def cluster_context_def)
  obtain v where v: "load_step ?w v" "activeId v = ''''"
    and run: "\<And>w1 step i d. adjust_replicas (clk_enforce clk) ?srv False v = (Ok, w1) \<Longrightarrow> started step i d v w1 \<Longrightarrow>
      \<exists>ss w'. reconcile_context clk ?srv ?w = ((zero_Result, Ok), w') \<and>
        w_calls w' = w_calls w1 @ map CreateService ss @ [UpdateKubegresStatus (w_kubegres w1)]"
    using reconcile_context_scales [OF _ ac re] assms unfolding free_at_def by metis
  have calls: "w_calls v = []" using v(1) by (simp add: load_step_def context_of_fields)
  show thesis
  proof (rule that [of v])
    show "load_step (cluster_context base pod_of dsc cfs bus c) v" using v(1) by (simp add: cluster_context_def)
    show "activeId v = ''''" by (rule v(2))
    fix w1 step i d call
    assume a: "adjust_replicas (clk_enforce clk) ?srv False v = (Ok, w1)" "started step i d v w1"
      "w_calls w1 = w_calls v @ [call]" "cl_kubegres (apply_request call c) = cl_kubegres c"
    obtain ss w' where w': "reconcile_context clk ?srv ?w = ((zero_Result, Ok), w')"
      "w_calls w' = w_calls w1 @ map CreateService ss @ [UpdateKubegresStatus (w_kubegres w1)]" using run [OF a(1,2)] by blast
    then show "cl_kubegres (reconcile_round base pod_of clk c) = ?k\<lparr>kg_Status := w_status w1\<rparr> \<and>
        cl_StatefulSets (reconcile_round base pod_of clk c) = cl_StatefulSets (apply_request call c)"
      by (simp add: cluster_round [OF sv w'(1) [folded cluster_context_def]] a(3,4) calls apply_services)
  qed
qed

lemma cluster_counts:
  assumes "serving base pod_of dsc cfs bus n c" "load_step (cluster_context base pod_of dsc cfs bus c) v"
  shows "1 \<le> n" "getNbreDeployedReplicas v = int (length (cl_StatefulSets c)) - 1" "getExpectedNbreReplicasToDeploy v = n - 1"
    and "isAutomaticFailoverDisabled v \<Longrightarrow> doesSpecRequireTheDeploymentOfAdditionalReplicas v = Some (int (length (cl_StatefulSets c)) < n)"
    and "status_EnforcedReplicas (w_status v) = status_EnforcedReplicas (kg_Status (cl_kubegres c))"
    and "GetLastCreatedInstanceIndex v = status_LastCreatedInstanceIndex (kg_Status (cl_kubegres c))"
    and "w_states v = cluster_states pod_of dsc cfs bus c" "w_spec v = kg_Spec (cl_kubegres c)" "w_calls v = []"
    and "kg_meta (w_kubegres v) = kg_meta (cl_kubegres c)"
proof -
  let ?ss = "cl_StatefulSets c"
  note o = assms(1) [unfolded serving_def]
  have k: "spec_Replicas (kg_Spec (cl_kubegres c)) = Some n" "capacity c n" "instances_ready (cl_kubegres c) ?ss"
    "reconcilable (cluster_server base pod_of c) (cluster_context base pod_of dsc cfs bus c)" using o by blast+
  have f: "w_spec (cluster_context base pod_of dsc cfs bus c) = kg_Spec (cl_kubegres c)" by (simp add: cluster_context_def context_of_fields)
  show n: "1 \<le> n" using k(1,4) by (auto simp: reconcilable_def spec_ok_def instances_ok_def f)
  show v: "w_states v = cluster_states pod_of dsc cfs bus c" "w_spec v = kg_Spec (cl_kubegres c)" "w_calls v = []"
    "kg_meta (w_kubegres v) = kg_meta (cl_kubegres c)"
    using assms(2) by (simp_all add: load_step_def same_context_def cluster_context_def context_of_fields)
  show "status_EnforcedReplicas (w_status v) = status_EnforcedReplicas (kg_Status (cl_kubegres c))"
    and "GetLastCreatedInstanceIndex v = status_LastCreatedInstanceIndex (kg_Status (cl_kubegres c))"
    using assms(2) k(3) by (simp_all add: load_step_def cluster_context_def context_of_fields instances_ready_def GetLastCreatedInstanceIndex_def)
  then show "isAutomaticFailoverDisabled v \<Longrightarrow> doesSpecRequireTheDeploymentOfAdditionalReplicas v = Some (int (length ?ss) < n)"
    using k(3) by (simp add: doesSpecRequireTheDeploymentOfAdditionalReplicas_def isAutomaticFailoverDisabled_def instances_ready_def v k(1))
  have len: "length (filter (\<lambda>s. \<not> isPrimary s) ?ss) = length ?ss - 1" "1 \<le> length ?ss"
    using instances_ready_split [OF k(3)] by (simp_all add: Suc_leI)
  then show "getNbreDeployedReplicas v = int (length ?ss) - 1"
    using k(2) by (simp add: getNbreDeployedReplicas_def v cluster_states_def loaded_def capacity_def int32_id in_int32_def)
  have "\<not> isStandbyEnabled v"
    using k(4) by (simp add: reconcilable_def primary_met_def isStandbyEnabled_def v f)
  moreover have "sss_SpecExpectedNbreToDeploy (rs_StatefulSets (w_states v)) = n"
    by (simp add: v(1) cluster_states_def loaded_def k(1) Let_def)
  ultimately show "getExpectedNbreReplicasToDeploy v = n - 1"
    using n k(2) by (simp add: getExpectedNbreReplicasToDeploy_def capacity_def int32_id in_int32_def)
qed

lemma adjust_up:
  assumes "getExpectedNbreReplicasToDeploy w > getNbreDeployedReplicas w" "0 \<le> getNbreDeployedReplicas w"
    and "getExpectedNbreReplicasToDeploy w < 2147483648"
    and "isAutomaticFailoverDisabled w \<Longrightarrow> doesSpecRequireTheDeploymentOfAdditionalReplicas w = Some True"
  shows "adjust_replicas now srv m w = deployReplicaStatefulSet now srv w"
  using assms by (auto simp: adjust_replicas_def int32_id in_int32_def)

lemma adjust_down:
  assumes "getExpectedNbreReplicasToDeploy w < getNbreDeployedReplicas w" "0 \<le> getExpectedNbreReplicasToDeploy w"
    and "getNbreDeployedReplicas w < 2147483648"
  shows "adjust_replicas now srv m w = undeployReplicaStatefulSets now srv (getReplicaToUndeploy w) w"
  using assms by (simp add: adjust_replicas_def int32_id in_int32_def)

text \<open>A reconciliation that adds a replica.\<close>

lemma round_up:
  assumes "free_at base pod_of dsc cfs bus n clk c" "int (length (cl_StatefulSets c)) < n"
  defines "i \<equiv> status_LastCreatedInstanceIndex (kg_Status (cl_kubegres c)) + 1"
  shows "\<exists>s w st d. same_context (cluster_context base pod_of dsc cfs bus c) w \<and>
    CreateReplicaStatefulSet (cluster_server base pod_of c) i w = Some s \<and>
    cl_StatefulSets (reconcile_round base pod_of clk c) = cl_StatefulSets c @ [s\<lparr>sts_ReadyReplicas := 1\<rparr>] \<and>
    cl_kubegres (reconcile_round base pod_of clk c) = (cl_kubegres c)\<lparr>kg_Status := st\<rparr> \<and>
    status_EnforcedReplicas st = status_EnforcedReplicas (kg_Status (cl_kubegres c)) + 1 \<and> status_LastCreatedInstanceIndex st = i \<and>
    replica_operation OperationStepIdReplicaDbDeploying i d (status_BlockingOperation st) \<and> 0 \<le> d \<and> d < 2 ^ 63"
proof -
  let ?srv = "cluster_server base pod_of c"
  obtain v where v: "load_step (cluster_context base pod_of dsc cfs bus c) v" "activeId v = ''''"
    and run: "\<And>w1 step i d call. adjust_replicas (clk_enforce clk) ?srv False v = (Ok, w1) \<Longrightarrow> started step i d v w1 \<Longrightarrow>
      w_calls w1 = w_calls v @ [call] \<Longrightarrow> cl_kubegres (apply_request call c) = cl_kubegres c \<Longrightarrow>
      cl_kubegres (reconcile_round base pod_of clk c) = (cl_kubegres c)\<lparr>kg_Status := w_status w1\<rparr> \<and>
      cl_StatefulSets (reconcile_round base pod_of clk c) = cl_StatefulSets (apply_request call c)"
    using round_runs [OF assms(1)] by metis
  note sv = free_at_serving [OF assms(1)]
  note q = cluster_counts [OF sv(1) v(1)]
  note o = sv(1) [unfolded serving_def capacity_def]
  have ac: "accepts ?srv" using o by (simp add: cluster_server_accepts)
  have pq: "srv_parse_quantity ?srv (db_Size (spec_Database (w_spec v))) \<noteq> None" using o q(8) by (simp add: cluster_server_def)
  have rg: "registered_as v (OperationIdReplicaDbCountSpecEnforcement, OperationStepIdReplicaDbDeploying, 300, False)"
    using v(1) by (intro load_step_registers) (auto simp: cluster_context_def operation_table_def)
  have i: "int32 (GetLastCreatedInstanceIndex v + 1) = i" using o assms(2) by (simp add: q(6) i_def int32_id in_int32_def)
  obtain s w0 w1 where d: "same_context v w0" "CreateReplicaStatefulSet ?srv i w0 = Some s"
    "deployReplicaStatefulSet (clk_enforce clk) ?srv v = (Ok, w1)"
    "started OperationStepIdReplicaDbDeploying i (int64 (clk_enforce clk + 300)) v w1" "w_calls w1 = w_calls v @ [CreateStatefulSet s]"
    "status_EnforcedReplicas (w_status w1) = int32 (status_EnforcedReplicas (w_status v) + 1)"
    "status_LastCreatedInstanceIndex (w_status w1) = i"
    using deploy_starts [OF ac pq v(2) rg] unfolding i by blast
  have "adjust_replicas (clk_enforce clk) ?srv False v = (Ok, w1)"
    using adjust_up [of v] o q assms(2) instances_ready_split(2) [of "cl_kubegres c" "cl_StatefulSets c"] d(3)
    by (simp add: Suc_leI)
  from run [OF this d(4,5)] have r: "cl_kubegres (reconcile_round base pod_of clk c) = (cl_kubegres c)\<lparr>kg_Status := w_status w1\<rparr>"
    "cl_StatefulSets (reconcile_round base pod_of clk c) = cl_StatefulSets c @ [s\<lparr>sts_ReadyReplicas := 1\<rparr>]" by simp_all
  have t: "int64 (clk_enforce clk + 300) = clk_enforce clk + 300" "0 \<le> clk_enforce clk + 300" "clk_enforce clk + 300 < 2 ^ 63"
    using sv(2) by (auto simp: clock_ok_def int64_id in_int64_def)
  have e: "int32 (status_EnforcedReplicas (w_status v) + 1) = status_EnforcedReplicas (kg_Status (cl_kubegres c)) + 1"
    using o assms(2) by (auto simp: q(5) int32_id in_int32_def instances_ready_def)
  have "same_context (cluster_context base pod_of dsc cfs bus c) w0"
    using d(1) v(1) by (auto simp: load_step_def intro: same_context_trans)
  then show ?thesis using d r t e
    by (intro exI [of _ s] exI [of _ w0] exI [of _ "w_status w1"] exI [of _ "clk_enforce clk + 300"]) (simp add: begun_def)
qed

text \<open>A reconciliation that removes the replica with the highest index.\<close>

lemma round_down:
  assumes "free_at base pod_of dsc cfs bus n clk c" "n < int (length (cl_StatefulSets c))"
  shows "\<exists>s \<in> set (cl_StatefulSets c). \<not> isPrimary s \<and> (\<forall>t \<in> set (cl_StatefulSets c). isPrimary t \<or> index_of t \<le> index_of s) \<and>
    (\<exists>st d. cl_StatefulSets (reconcile_round base pod_of clk c) = filter (\<lambda>t. sts_Name t \<noteq> sts_Name s) (cl_StatefulSets c) \<and>
      cl_kubegres (reconcile_round base pod_of clk c) = (cl_kubegres c)\<lparr>kg_Status := st\<rparr> \<and>
      status_EnforcedReplicas st = status_EnforcedReplicas (kg_Status (cl_kubegres c)) - 1 \<and>
      status_LastCreatedInstanceIndex st = status_LastCreatedInstanceIndex (kg_Status (cl_kubegres c)) \<and>
      replica_operation OperationStepIdReplicaDbUndeploying (index_of s) d (status_BlockingOperation st) \<and> 0 \<le> d \<and> d < 2 ^ 63)"
proof -
  let ?srv = "cluster_server base pod_of c" and ?ss = "cl_StatefulSets c"
  obtain v where v: "load_step (cluster_context base pod_of dsc cfs bus c) v" "activeId v = ''''"
    and run: "\<And>w1 step i d call. adjust_replicas (clk_enforce clk) ?srv False v = (Ok, w1) \<Longrightarrow> started step i d v w1 \<Longrightarrow>
      w_calls w1 = w_calls v @ [call] \<Longrightarrow> cl_kubegres (apply_request call c) = cl_kubegres c \<Longrightarrow>
      cl_kubegres (reconcile_round base pod_of clk c) = (cl_kubegres c)\<lparr>kg_Status := w_status w1\<rparr> \<and>
      cl_StatefulSets (reconcile_round base pod_of clk c) = cl_StatefulSets (apply_request call c)"
    using round_runs [OF assms(1)] by metis
  note sv = free_at_serving [OF assms(1)]
  note q = cluster_counts [OF sv(1) v(1)]
  note o = sv(1) [unfolded serving_def capacity_def]
  have ac: "accepts ?srv" using o by (simp add: cluster_server_accepts)
  have rg: "registered_as v (OperationIdReplicaDbCountSpecEnforcement, OperationStepIdReplicaDbUndeploying, 60, False)"
    using v(1) by (intro load_step_registers) (auto simp: cluster_context_def operation_table_def)
  let ?pods = "map wrap_pod (map pod_of ?ss)" and ?r = "getReplicaToUndeploy v"
  have ir: "instances_ready (cl_kubegres c) ?ss" using o by blast
  have "states_wf (rs_StatefulSets (w_states v))"
    using loaded_wf [of ?ss "the (spec_Replicas (kg_Spec (cl_kubegres c)))" ?pods] ir o
    by (auto simp: q(7) cluster_states_def instances_ready_def)
  moreover have reps: "set (getDeployedReplicas v) = wrap ?pods ` {t \<in> set ?ss. \<not> isPrimary t}"
    by (simp add: getDeployedReplicas_def q(7) cluster_states_def loaded_def Let_def build_wrap_orders(1))
  moreover have "getDeployedReplicas v \<noteq> []"
  proof -
    have "length (filter (\<lambda>t. \<not> isPrimary t) ?ss) \<noteq> 0" using instances_ready_split(1) [OF ir] assms(2) q(1) by linarith
    then show ?thesis using reps by (auto simp: filter_empty_conv)
  qed
  ultimately have u: "?r \<in> set (getDeployedReplicas v)"
    "\<And>t. t \<in> set (getDeployedReplicas v) \<Longrightarrow> sw_InstanceIndex t \<le> sw_InstanceIndex ?r"
    using getReplicaToUndeploy_greatest by blast+
  obtain s where s: "s \<in> set ?ss" "\<not> isPrimary s" "?r = wrap ?pods s" using u(1) reps by auto

  have top: "isPrimary t \<or> index_of t \<le> index_of s" if "t \<in> set ?ss" for t
    using u(2) [of "wrap ?pods t"] reps that by (auto simp: s(3))
  have "sts_Name s \<noteq> ''''" using ir s(1) by (auto simp: instances_ready_def GetStatefulSetResourceName_def)
  then obtain w1 where d: "undeployReplicaStatefulSets (clk_enforce clk) ?srv ?r v = (Ok, w1)"
    "started OperationStepIdReplicaDbUndeploying (index_of s) (int64 (clk_enforce clk + 60)) v w1"
    "w_calls w1 = w_calls v @ [DeleteStatefulSet s]"
    "status_EnforcedReplicas (w_status w1) = int32 (status_EnforcedReplicas (w_status v) - 1)"
    "status_LastCreatedInstanceIndex (w_status w1) = status_LastCreatedInstanceIndex (w_status v)"
    using undeploy_starts [OF ac _ v(2) rg, of ?r] by (auto simp: s(3))
  have "adjust_replicas (clk_enforce clk) ?srv False v = (Ok, w1)"
    using adjust_down [of v] o q assms(2) d(1) by simp
  from run [OF this d(2,3)] have r: "cl_kubegres (reconcile_round base pod_of clk c) = (cl_kubegres c)\<lparr>kg_Status := w_status w1\<rparr>"
    "cl_StatefulSets (reconcile_round base pod_of clk c) = filter (\<lambda>t. sts_Name t \<noteq> sts_Name s) ?ss" by simp_all
  have t: "int64 (clk_enforce clk + 60) = clk_enforce clk + 60" "0 \<le> clk_enforce clk + 60" "clk_enforce clk + 60 < 2 ^ 63"
    using sv(2) by (auto simp: clock_ok_def int64_id in_int64_def)
  have e: "int32 (status_EnforcedReplicas (w_status v) - 1) = status_EnforcedReplicas (kg_Status (cl_kubegres c)) - 1"
    using o assms(2) q(1) by (auto simp: q(5) int32_id in_int32_def instances_ready_def)
  show ?thesis using s(1,2) top d r t e q(6)
    by (intro bexI [OF _ s(1)] conjI exI [of _ "w_status w1"] exI [of _ "clk_enforce clk + 60"])
      (auto simp: begun_def GetLastCreatedInstanceIndex_def)
qed

section \<open>A cluster keeps operating\<close>

text \<open>By how much the number of enforced replicas in the status exceeds the number of instances.\<close>

definition drift :: "cluster \<Rightarrow> int" where
  "drift c = status_EnforcedReplicas (kg_Status (cl_kubegres c)) - int (length (cl_StatefulSets c))"

lemma cluster_primary:
  assumes "filter isPrimary (cl_StatefulSets c) = [p]"
  shows "rs_Primary (cluster_states pod_of dsc cfs bus c) = wrap (map wrap_pod (map pod_of (cl_StatefulSets c))) p"
  using assms by (simp add: cluster_states_def loaded_def Let_def)

lemma cluster_replicas:
  "set (GetAllSortedByInstanceIndex (rep_All (rs_Replicas (cluster_states pod_of dsc cfs bus c)))) =
     wrap (map wrap_pod (map pod_of (cl_StatefulSets c))) ` {t \<in> set (cl_StatefulSets c). \<not> isPrimary t}"
  by (simp add: cluster_states_def loaded_def Let_def build_wrap_orders(1))

lemma settled_deployed:
  assumes "s \<in> set (cl_StatefulSets c)" "\<not> isPrimary s" "index_of s = sop_InstanceIndex (op_StatefulSetOperation ope)"
    and "\<forall>t \<in> set (cl_StatefulSets c). 0 < sts_ReadyReplicas t"
  shows "fst (isReplicaDbReady (cluster_states pod_of dsc cfs bus c) ope)"
proof -
  let ?ws = "GetAllSortedByInstanceIndex (rep_All (rs_Replicas (cluster_states pod_of dsc cfs bus c)))"
  let ?find = "find (\<lambda>x. sop_InstanceIndex (op_StatefulSetOperation ope) = sw_InstanceIndex x) ?ws"
  have "\<exists>x \<in> set ?ws. sop_InstanceIndex (op_StatefulSetOperation ope) = sw_InstanceIndex x"
    unfolding cluster_replicas using assms(1-3) by auto
  then obtain x where x: "?find = Some x" by (cases ?find) (auto simp: find_None_iff)
  then have "x \<in> set ?ws" by (auto simp: find_Some_iff)
  then have "sw_IsReady x" unfolding cluster_replicas using assms(4) by auto
  with x show ?thesis by (simp add: isReplicaDbReady_def GetByInstanceIndex_def GetAllSortedByInstanceIndex_def)
qed

lemma settled_undeployed:
  assumes "\<forall>t \<in> set (cl_StatefulSets c). \<not> isPrimary t \<longrightarrow> index_of t \<noteq> sop_InstanceIndex (op_StatefulSetOperation ope)"
  shows "fst (isReplicaDbUndeployed (cluster_states pod_of dsc cfs bus c) ope)"
proof -
  let ?ws = "GetAllSortedByInstanceIndex (rep_All (rs_Replicas (cluster_states pod_of dsc cfs bus c)))"
  have "\<forall>x \<in> set ?ws. sop_InstanceIndex (op_StatefulSetOperation ope) \<noteq> sw_InstanceIndex x"
    unfolding cluster_replicas using assms by auto
  then have "find (\<lambda>x. sop_InstanceIndex (op_StatefulSetOperation ope) = sw_InstanceIndex x) ?ws = None"
    by (auto simp: find_None_iff)
  then show ?thesis by (simp add: isReplicaDbUndeployed_def GetByInstanceIndex_def GetAllSortedByInstanceIndex_def)
qed

lemma reconcilable_next:
  assumes "reconcilable (cluster_server base pod_of c) (cluster_context base pod_of dsc cfs bus c)"
    and "cl_kubegres c' = (cl_kubegres c)\<lparr>kg_Status := st\<rparr>" "status_EnforcedReplicas st > 0"
    and "filter isPrimary (cl_StatefulSets c) = [p]" "filter isPrimary (cl_StatefulSets c') = [p]"
  shows "reconcilable (cluster_server base pod_of c') (cluster_context base pod_of dsc cfs bus c')"
proof -
  let ?w = "cluster_context base pod_of dsc cfs bus c" and ?w' = "cluster_context base pod_of dsc cfs bus c'"
  have f: "w_spec ?w' = w_spec ?w" "kg_meta (w_kubegres ?w') = kg_meta (w_kubegres ?w)" "status_EnforcedReplicas (w_status ?w') > 0"
    using assms(2,3) by (simp_all add: cluster_context_def context_of_fields)
  have "rs_Primary (w_states ?w) = wrap (map wrap_pod (map pod_of (cl_StatefulSets c))) p"
    "rs_Primary (w_states ?w') = wrap (map wrap_pod (map pod_of (cl_StatefulSets c'))) p"
    using cluster_primary [OF assms(4)] cluster_primary [OF assms(5)] by (simp_all add: cluster_context_def context_of_fields)
  then have p: "sw_StatefulSet (rs_Primary (w_states ?w')) = sw_StatefulSet (rs_Primary (w_states ?w))"
    "sw_IsReady (rs_Primary (w_states ?w')) = sw_IsReady (rs_Primary (w_states ?w))"
    "sw_IsDeployed (rs_Primary (w_states ?w')) = sw_IsDeployed (rs_Primary (w_states ?w))" by simp_all
  have s: "rs_DbStorageClass (w_states ?w') = rs_DbStorageClass (w_states ?w)" "rs_Config (w_states ?w') = rs_Config (w_states ?w)"
    "rs_BackUp (w_states ?w') = rs_BackUp (w_states ?w)" by (simp_all add: cluster_context_def context_of_fields cluster_states_def)
  have m: "matches_primary (cluster_server base pod_of c') spec t = matches_primary (cluster_server base pod_of c) spec t" for spec t
    by (simp add: matches_primary_def cluster_server_def)
  have "backup_met ?w' = backup_met ?w" by (rule backup_met_reading) (simp_all add: f s)
  moreover have "spec_ok ?w' = spec_ok ?w"
    by (simp add: spec_ok_def environment_ok_def instances_ok_def backup_ok_def volumes_ok_def f s)
  moreover have "primary_met ?w \<Longrightarrow> primary_met ?w'"
    using f(3) by (simp add: primary_met_def isStandbyEnabled_def isPrimaryDbDeployed_def isPrimaryDbReady_def f p)
  ultimately show ?thesis
    using assms(1) by (simp add: reconcilable_def isBaseConfigDeployed_def getPrimaryStatefulSet_def m f s p)
qed

lemma operating_next:
  assumes "serving base pod_of dsc cfs bus n c" "cl_kubegres c' = (cl_kubegres c)\<lparr>kg_Status := st\<rparr>"
    and "instances_ready (cl_kubegres c') (cl_StatefulSets c')" "filter isPrimary (cl_StatefulSets c') = filter isPrimary (cl_StatefulSets c)"
    and "capacity c' n" "replica_settled (cluster_states pod_of dsc cfs bus c') (status_BlockingOperation st)"
  shows "operating base pod_of dsc cfs bus n c'"
proof -
  obtain p where p: "filter isPrimary (cl_StatefulSets c) = [p]" using assms(1) by (auto simp: serving_def instances_ready_def)
  have "status_EnforcedReplicas st > 0"
    using assms(2,3) instances_ready_split(2) [OF assms(3)] unfolding instances_ready_def by (cases "cl_StatefulSets c'") auto
  then have "reconcilable (cluster_server base pod_of c') (cluster_context base pod_of dsc cfs bus c')"
    using assms(1,4) p by (intro reconcilable_next [OF _ assms(2) _ p]) (auto simp: serving_def)
  with assms show ?thesis by (simp add: operating_def serving_def)
qed

lemma filter_key_remove1: "distinct (map f xs) \<Longrightarrow> x \<in> set xs \<Longrightarrow> filter (\<lambda>y. f y \<noteq> f x) xs = remove1 x xs"
proof (induction xs)
  case (Cons y ys)
  show ?case
  proof (cases "y = x")
    case True
    have "f x \<notin> f ` set ys" using Cons.prems(1) True by simp
    then have "\<forall>z \<in> set ys. f z \<noteq> f x" by (metis imageI)
    with True show ?thesis by (simp add: filter_id_conv)
  next
    case False
    with Cons have "f y \<noteq> f x" "filter (\<lambda>y. f y \<noteq> f x) ys = remove1 x ys" by auto
    with False show ?thesis by simp
  qed
qed simp

lemma ready_numbered: "instances_ready k ss \<Longrightarrow> numbered k ss"
  by (simp add: instances_ready_def numbered_def)

lemma names_distinct:
  assumes "numbered k ss"
  shows "distinct (map sts_Name ss)"
proof -
  have "index_of s = index_of t" if "s \<in> set ss" "t \<in> set ss" "sts_Name s = sts_Name t" for s t
  proof (rule Itoa_inject)
    show "in_int32 (index_of s)" "in_int32 (index_of t)" using assms that(1,2) unfolding numbered_def by blast+
    have "sts_Name s = GetStatefulSetResourceName k (index_of s)" "sts_Name t = GetStatefulSetResourceName k (index_of t)"
      using assms that(1,2) unfolding numbered_def by blast+
    then show "Itoa (index_of s) = Itoa (index_of t)" using that(3) by (simp add: GetStatefulSetResourceName_def)
  qed
  moreover have "distinct ss" "inj_on index_of (set ss)" using assms unfolding numbered_def distinct_map by blast+
  ultimately show ?thesis unfolding distinct_map inj_on_def by blast
qed

text \<open>One reconciliation brings the number of instances one step closer to the spec, and the cluster keeps operating.\<close>

lemma operating_up:
  assumes "free_at base pod_of dsc cfs bus n clk c" "int (length (cl_StatefulSets c)) < n"
  shows "operating base pod_of dsc cfs bus n (reconcile_round base pod_of clk c) \<and>
    length (cl_StatefulSets (reconcile_round base pod_of clk c)) = Suc (length (cl_StatefulSets c)) \<and>
    filter isPrimary (cl_StatefulSets (reconcile_round base pod_of clk c)) = filter isPrimary (cl_StatefulSets c) \<and>
    drift (reconcile_round base pod_of clk c) = drift c"
proof -
  let ?c = "reconcile_round base pod_of clk c" and ?k = "cl_kubegres c"
  define i where "i = status_LastCreatedInstanceIndex (kg_Status ?k) + 1"
  obtain s w st d where r: "same_context (cluster_context base pod_of dsc cfs bus c) w"
    "CreateReplicaStatefulSet (cluster_server base pod_of c) i w = Some s"
    "cl_StatefulSets ?c = cl_StatefulSets c @ [s\<lparr>sts_ReadyReplicas := 1\<rparr>]" "cl_kubegres ?c = ?k\<lparr>kg_Status := st\<rparr>"
    "status_EnforcedReplicas st = status_EnforcedReplicas (kg_Status ?k) + 1" "status_LastCreatedInstanceIndex st = i"
    "replica_operation OperationStepIdReplicaDbDeploying i d (status_BlockingOperation st)" "0 \<le> d" "d < 2 ^ 63"
    using round_up [OF assms] unfolding i_def by blast
  let ?s = "s\<lparr>sts_ReadyReplicas := 1\<rparr>"
  note sv = free_at_serving(1) [OF assms(1)]
  note o = sv [unfolded serving_def capacity_def]
  have ir: "instances_ready ?k (cl_StatefulSets c)" using o by blast
  have i32: "in_int32 i" using o assms(2) by (auto simp: i_def in_int32_def)
  note facts = CreateReplica_facts [OF r(2)]
  have "kg_meta (w_kubegres w) = kg_meta ?k" using r(1) by (simp add: same_context_def cluster_context_def context_of_fields)
  then have "sts_Name s = GetStatefulSetResourceName ?k i" using facts(2) GetStatefulSetResourceName_cong by metis
  then have s: "sts_Name ?s = GetStatefulSetResourceName ?k i" "index_of ?s = i" "has_index ?s" "\<not> isPrimary ?s" "0 < sts_ReadyReplicas ?s"
    using facts(1,5) ParseInt32_Itoa [OF i32] by (simp_all add: index_of_def has_index_def isPrimary_def)
  have rn: "GetStatefulSetResourceName (cl_kubegres ?c) j = GetStatefulSetResourceName ?k j" for j
    by (rule GetStatefulSetResourceName_cong) (simp add: r(4))
  have old: "t \<in> set (cl_StatefulSets c) \<Longrightarrow> index_of t < i" for t using ir by (force simp: instances_ready_def i_def)
  have new: "instances_ready (cl_kubegres ?c) (cl_StatefulSets ?c)"
    using ir s i32 old unfolding instances_ready_def rn by (force simp: r(3-6))
  have prim: "filter isPrimary (cl_StatefulSets ?c) = filter isPrimary (cl_StatefulSets c)" using s(4) by (simp add: r(3))
  have "fst (isReplicaDbReady (cluster_states pod_of dsc cfs bus ?c) (status_BlockingOperation st))"
    using r(7) s new by (intro settled_deployed [where s = ?s]) (auto simp: r(3) on_instance_def instances_ready_def)
  then have "replica_settled (cluster_states pod_of dsc cfs bus ?c) (status_BlockingOperation st)"
    using r(7-9) unfolding replica_settled_def by blast
  moreover have "capacity ?c n" using o assms(2) by (auto simp: capacity_def r(3-6) i_def)
  ultimately have "operating base pod_of dsc cfs bus n ?c" by (intro operating_next [OF sv r(4) new prim])
  then show ?thesis using prim by (simp add: r(3-5) drift_def)
qed

lemma operating_down:
  assumes "free_at base pod_of dsc cfs bus n clk c" "n < int (length (cl_StatefulSets c))"
  shows "operating base pod_of dsc cfs bus n (reconcile_round base pod_of clk c) \<and>
    Suc (length (cl_StatefulSets (reconcile_round base pod_of clk c))) = length (cl_StatefulSets c) \<and>
    filter isPrimary (cl_StatefulSets (reconcile_round base pod_of clk c)) = filter isPrimary (cl_StatefulSets c) \<and>
    drift (reconcile_round base pod_of clk c) = drift c"
proof -
  let ?c = "reconcile_round base pod_of clk c" and ?k = "cl_kubegres c" and ?ss = "cl_StatefulSets c"
  obtain s st d where r: "s \<in> set ?ss" "\<not> isPrimary s"
    "cl_StatefulSets ?c = filter (\<lambda>t. sts_Name t \<noteq> sts_Name s) ?ss" "cl_kubegres ?c = ?k\<lparr>kg_Status := st\<rparr>"
    "status_EnforcedReplicas st = status_EnforcedReplicas (kg_Status ?k) - 1" "status_LastCreatedInstanceIndex st = status_LastCreatedInstanceIndex (kg_Status ?k)"
    "replica_operation OperationStepIdReplicaDbUndeploying (index_of s) d (status_BlockingOperation st)" "0 \<le> d" "d < 2 ^ 63"
    using round_down [OF assms] by blast
  note sv = free_at_serving(1) [OF assms(1)]
  note o = sv [unfolded serving_def capacity_def]
  have ir: "instances_ready ?k ?ss" using o by blast
  note dn = names_distinct [OF ready_numbered [OF ir]]
  have gone: "cl_StatefulSets ?c = remove1 s ?ss" by (simp add: r(3) filter_key_remove1 [OF dn r(1)])
  have len: "Suc (length (cl_StatefulSets ?c)) = length ?ss"
    using r(1) by (simp add: gone length_remove1) (metis Suc_pred length_pos_if_in_set)
  have prim: "filter isPrimary (cl_StatefulSets ?c) = filter isPrimary ?ss"
  proof -
    have "sts_Name t \<noteq> sts_Name s" if "t \<in> set ?ss" "isPrimary t" for t
      using dn r(1,2) that by (auto simp: distinct_map inj_on_def)
    then show ?thesis unfolding r(3) filter_filter by (intro filter_cong refl) auto
  qed
  have rn: "GetStatefulSetResourceName (cl_kubegres ?c) j = GetStatefulSetResourceName ?k j" for j
    by (rule GetStatefulSetResourceName_cong) (simp add: r(4))
  have "distinct (map index_of (cl_StatefulSets ?c))" using ir by (simp add: r(3) instances_ready_def distinct_map_filter)
  then have new: "instances_ready (cl_kubegres ?c) (cl_StatefulSets ?c)"
    using ir len unfolding instances_ready_def rn prim by (auto simp: r(3-6))
  have "index_of t \<noteq> index_of s" if "t \<in> set (cl_StatefulSets ?c)" for t
    using ir r(1) that by (auto simp: r(3) instances_ready_def distinct_map inj_on_def)
  then have "fst (isReplicaDbUndeployed (cluster_states pod_of dsc cfs bus ?c) (status_BlockingOperation st))"
    using r(7) by (intro settled_undeployed) (auto simp: on_instance_def)
  then have "replica_settled (cluster_states pod_of dsc cfs bus ?c) (status_BlockingOperation st)"
    using r(7-9) unfolding replica_settled_def by blast
  moreover have "capacity ?c n" using o assms(2) len by (auto simp: capacity_def r(4-6))
  ultimately have "operating base pod_of dsc cfs bus n ?c" by (intro operating_next [OF sv r(4) new prim])
  then show ?thesis using len prim by (simp add: drift_def r(4,5))
qed

section \<open>Scaling terminates\<close>

text \<open>
  The loop: reconcile while the number of instances is not the one of the spec. The first component counts
  the reconciliations; \<open>clk t\<close> is the clock of the reconciliation number \<open>t\<close>.
\<close>

definition scaling_loop :: "server \<Rightarrow> (StatefulSet \<Rightarrow> Pod) \<Rightarrow> (nat \<Rightarrow> clock) \<Rightarrow> int \<Rightarrow> nat \<times> cluster \<Rightarrow> (nat \<times> cluster) option" where
  "scaling_loop base pod_of clk n =
     while_option (\<lambda>(t, c). int (length (cl_StatefulSets c)) \<noteq> n) (\<lambda>(t, c). (Suc t, reconcile_round base pod_of (clk t) c))"

lemma operating_step:
  assumes "free_at base pod_of dsc cfs bus n clk c" "int (length (cl_StatefulSets c)) \<noteq> n"
  shows "operating base pod_of dsc cfs bus n (reconcile_round base pod_of clk c) \<and>
    Suc (nat \<bar>n - int (length (cl_StatefulSets (reconcile_round base pod_of clk c)))\<bar>) = nat \<bar>n - int (length (cl_StatefulSets c))\<bar> \<and>
    filter isPrimary (cl_StatefulSets (reconcile_round base pod_of clk c)) = filter isPrimary (cl_StatefulSets c) \<and>
    drift (reconcile_round base pod_of clk c) = drift c"
  using assms(2) operating_up [OF assms(1)] operating_down [OF assms(1)] by (cases "int (length (cl_StatefulSets c)) < n") auto

lemma scaling_loop_from:
  assumes "operating base pod_of dsc cfs bus n c" "\<forall>t. clock_ok (clk t)"
  shows "\<exists>c'. scaling_loop base pod_of clk n (t, c) = Some (t + nat \<bar>n - int (length (cl_StatefulSets c))\<bar>, c') \<and>
    operating base pod_of dsc cfs bus n c' \<and> int (length (cl_StatefulSets c')) = n \<and>
    filter isPrimary (cl_StatefulSets c') = filter isPrimary (cl_StatefulSets c)"
  using assms(1)
proof (induction "nat \<bar>n - int (length (cl_StatefulSets c))\<bar>" arbitrary: t c)
  case 0
  then show ?case by (simp add: scaling_loop_def while_option_unfold)
next
  case (Suc d)
  let ?c = "reconcile_round base pod_of (clk t) c"
  have ne: "int (length (cl_StatefulSets c)) \<noteq> n" using Suc.hyps(2) by auto
  note s = operating_step [OF operating_free [OF Suc.prems spec [OF assms(2), of t]] ne]
  then have d: "d = nat \<bar>n - int (length (cl_StatefulSets ?c))\<bar>" using Suc.hyps(2) by simp
  have "scaling_loop base pod_of clk n (t, c) = scaling_loop base pod_of clk n (Suc t, ?c)"
    using ne by (simp add: scaling_loop_def while_option_unfold [of _ _ "(t, c)"])
  with Suc.hyps(1) [OF d, of "Suc t"] s Suc.hyps(2) d show ?case by auto
qed

text \<open>
  C13: Scaling terminates. In an operating cluster (one ready primary, ready replicas, a valid
  spec, no other work in progress) whose API server carries out what it is sent, the loop
  of reconciliations ends for every change of the number of replicas, up or down, after exactly
  one reconciliation per replica to add or remove. Then the number of instances is that of the spec, the
  cluster is still operating, and the primary is the same StatefulSet. It does not matter
  whether an operation times out before its reconciliation comes.
\<close>

theorem scaling_terminates:
  assumes "operating base pod_of dsc cfs bus n c" "\<forall>t. clock_ok (clk t)"
  shows "\<exists>c'. scaling_loop base pod_of clk n (0, c) = Some (nat \<bar>n - int (length (cl_StatefulSets c))\<bar>, c') \<and>
    operating base pod_of dsc cfs bus n c' \<and> int (length (cl_StatefulSets c')) = n \<and>
    filter isPrimary (cl_StatefulSets c') = filter isPrimary (cl_StatefulSets c)"
  using scaling_loop_from [OF assms, of 0] by simp

text \<open>The cluster of theory \<open>Steady_State\<close>, whose spec now asks for three instances.\<close>

definition growing_Kubegres :: Kubegres where
  "growing_Kubegres = steady_Kubegres\<lparr>kg_Spec := sample_Spec\<rparr>"

definition growing_cluster :: cluster where
  "growing_cluster = \<lparr>cl_kubegres = growing_Kubegres, cl_StatefulSets = [steady_primary], cl_Services = [steady_service]\<rparr>"

definition growing_pod :: "StatefulSet \<Rightarrow> Pod" where
  "growing_pod s = sample_Pod (index_of s) True"

lemma growing_simps:
  "kg_Spec growing_Kubegres = sample_Spec" "kg_meta growing_Kubegres = kg_meta sample_Kubegres"
  "status_BlockingOperation (kg_Status growing_Kubegres) = zero_Operation"
  "status_EnforcedReplicas (kg_Status growing_Kubegres) = 1" "status_LastCreatedInstanceIndex (kg_Status growing_Kubegres) = 1"
  "cl_kubegres growing_cluster = growing_Kubegres" "cl_StatefulSets growing_cluster = [steady_primary]"
  by (simp_all add: growing_Kubegres_def growing_cluster_def steady_Kubegres_def zero_Status_def)

lemma growing_environment:
  "environment steady_server sample_Spec (kg_meta sample_Kubegres) (rs_DbStorageClass steady_states) (rs_Config steady_states) (rs_BackUp steady_states)"
proof -
  have "cm_Name (CreateBaseConfigMap steady_Kubegres) = BaseConfigMapName"
    by (simp add: CreateBaseConfigMap_def LoadBaseConfigMap_def BaseConfigMapTemplate_def BaseConfigMapName_def)
  then show ?thesis
    by (simp add: environment_def loadDbStorageClass_def GetStorageClass_def res_bind_def steady_server_simps
        loadConfigStates_def getDeployedConfigMap_def config_map_defs loadCustomConfigStates_def isBaseConfigAlsoCustomConfig_def sample_Kubegres_simps
        isBaseConfigMap_def loadBackUpStates_def getDeployedCronJob_def getDeployedPvc_def steady_states_def fresh_states_def
        zero_ResourcesStates_def zero_CronJob_def zero_PersistentVolumeClaim_def zero_ObjectMeta_def Let_def)
qed

abbreviation growing_world :: world where
  "growing_world \<equiv> cluster_context steady_server growing_pod (rs_DbStorageClass steady_states) (rs_Config steady_states)
     (rs_BackUp steady_states) growing_cluster"

lemma growing_reconcilable: "reconcilable (cluster_server steady_server growing_pod growing_cluster) growing_world"
proof -
  let ?srv = "cluster_server steady_server growing_pod growing_cluster"
  have w: "w_kubegres growing_world = growing_Kubegres"
    "rs_Config (w_states growing_world) = rs_Config steady_states" "rs_DbStorageClass (w_states growing_world) = rs_DbStorageClass steady_states"
    "rs_BackUp (w_states growing_world) = rs_BackUp steady_states"
    by (simp_all add: cluster_context_def context_of_fields growing_simps cluster_states_def)
  have p: "rs_Primary (w_states growing_world) = wrap (map wrap_pod (map growing_pod [steady_primary])) steady_primary"
    using cluster_primary [of growing_cluster steady_primary]
    by (simp add: cluster_context_def context_of_fields growing_simps steady_primary_labels)
  have m: "matches_primary ?srv sample_Spec steady_primary"
    using steady_shape by (simp add: matches_primary_def primary_shape_def sample_Spec_def cluster_server_def
        steady_server_simps checked_world_simps(6))
      (simp add: claims_match_def steady_primary_def IsReservedVolumeName_def DatabaseVolumeName_def)
  have "spec_ok growing_world"
    by (simp add: spec_ok_def environment_ok_def instances_ok_def backup_ok_def volumes_ok_def w growing_simps
        sample_Spec_def BaseConfigMapName_def EnvVarNameOfPostgresSuperUserPsw_def EnvVarNameOfPostgresReplicationUserPsw_def)
      (simp add: steady_states_def fresh_states_def)
  moreover have "primary_met growing_world"
    by (simp add: primary_met_def isStandbyEnabled_def isPrimaryDbDeployed_def isPrimaryDbReady_def p w growing_simps steady_primary_labels)
      (simp add: sample_Spec_def)
  moreover have "backup_met growing_world" "isBaseConfigDeployed growing_world"
    by (simp_all add: backup_met_def isBaseConfigDeployed_def isCronJobDeployed_def isBackUpConfigured_def w growing_simps sample_Spec_def)
      (simp_all add: steady_states_def fresh_states_def zero_ResourcesStates_def)
  ultimately show ?thesis
    using m steady_shape sample_Kubegres_simps by (auto simp: reconcilable_def getPrimaryStatefulSet_def p w growing_simps)
qed

lemma growing_operating:
  "operating steady_server growing_pod (rs_DbStorageClass steady_states) (rs_Config steady_states) (rs_BackUp steady_states) 3 growing_cluster"
proof -
  have "instances_ready growing_Kubegres [steady_primary]"
    using steady_primary_labels by (simp add: instances_ready_def growing_simps index_of_def ParseInt32_Itoa in_int32_def)
      (simp add: steady_primary_def sample_StatefulSet_def GetStatefulSetResourceName_def growing_simps sample_Kubegres_def)
  moreover have "accepts steady_server"
    by (simp add: accepts_def steady_server_simps) (simp add: steady_server_def fresh_server_def sample_server_def)
  moreover have "srv_parse_quantity steady_server x \<noteq> None" for x by (simp add: steady_server_def fresh_server_def sample_server_def)
  ultimately show ?thesis
    using growing_environment growing_reconcilable
    by (simp add: operating_def serving_def growing_simps capacity_def replica_settled_def) (simp add: sample_Spec_def)
qed

theorem scaling_terminates_witness:
  "\<exists>c'. scaling_loop steady_server growing_pod (\<lambda>_. noon) 3 (0, growing_cluster) = Some (2, c') \<and> length (cl_StatefulSets c') = 3 \<and>
     filter isPrimary (cl_StatefulSets c') = [steady_primary]"
proof -
  have "clock_ok noon" by (simp add: clock_ok_def noon_def)
  then show ?thesis
    using scaling_terminates [OF growing_operating, of "\<lambda>_. noon"] by (auto simp: growing_simps steady_primary_labels)
qed

end
