(* ===== verification/Created_Spec.thy ===== *)
theory Created_Spec
  imports Spec_Registry Resources_Creator
begin

text \<open>
  Creation against enforcement: what the enforcers of \<open>statefulset_spec\<close> find when they look
  at a StatefulSet that \<open>ResourcesCreatorFromTemplate.go\<close> has just built.
\<close>

section \<open>The configuration touches only reserved mounts\<close>

definition mount_step :: "VolumeMount \<Rightarrow> VolumeMount \<Rightarrow> bool" where
  "mount_step m m' \<longleftrightarrow> m' = m \<or>
     IsReservedVolumeName (vm_Name m) \<and> IsReservedVolumeName (vm_Name m') \<and> vm_SubPath m' = vm_SubPath m"

definition mounts_step :: "Container \<Rightarrow> Container \<Rightarrow> bool" where
  "mounts_step c c' \<longleftrightarrow> list_all2 mount_step (ctr_VolumeMounts c) (ctr_VolumeMounts c')"

definition config_step :: "StatefulSet \<Rightarrow> StatefulSet \<Rightarrow> bool" where
  "config_step s s' \<longleftrightarrow> rel_option mounts_step (container0 s) (container0 s') \<and> rel_option mounts_step (init0 s) (init0 s')"

lemma mount_step_refl [simp]: "mount_step m m"
  by (simp add: mount_step_def)

lemma mounts_step_refl [simp]: "mounts_step c c"
  by (simp add: mounts_step_def list.rel_refl)

lemma mounts_step_trans: "mounts_step a b \<Longrightarrow> mounts_step b c \<Longrightarrow> mounts_step a c"
  unfolding mounts_step_def by (rule list_all2_trans [of mount_step mount_step mount_step]) (auto simp: mount_step_def)

lemma config_step_refl [simp]: "config_step s s"
  by (simp add: config_step_def option.rel_refl)

lemma config_step_trans: "config_step a b \<Longrightarrow> config_step b c \<Longrightarrow> config_step a c"
  unfolding config_step_def by (auto simp: option_rel_Some1 option_rel_Some2 intro: mounts_step_trans elim!: option.rel_cases)

text \<open>A mount at the place of a configuration file belongs to the operator.\<close>

definition config_reserved :: "string set \<Rightarrow> StatefulSet \<Rightarrow> bool" where
  "config_reserved keys s \<longleftrightarrow> (\<forall>c. container0 s = Some c \<or> init0 s = Some c \<longrightarrow>
     (\<forall>m \<in> set (ctr_VolumeMounts c). vm_SubPath m \<in> keys \<longrightarrow> IsReservedVolumeName (vm_Name m)))"

lemma config_reserved_subset: "config_reserved keys s \<Longrightarrow> keys' \<subseteq> keys \<Longrightarrow> config_reserved keys' s"
  unfolding config_reserved_def by blast

lemma config_reserved_step:
  assumes "config_step s s'" "config_reserved keys s"
  shows "config_reserved keys s'"
proof -
  have "\<forall>m' \<in> set (ctr_VolumeMounts c'). vm_SubPath m' \<in> keys \<longrightarrow> IsReservedVolumeName (vm_Name m')"
    if "mounts_step c c'" "\<forall>m \<in> set (ctr_VolumeMounts c). vm_SubPath m \<in> keys \<longrightarrow> IsReservedVolumeName (vm_Name m)" for c c'
  proof
    fix m'
    assume "m' \<in> set (ctr_VolumeMounts c')"
    then obtain i where "i < length (ctr_VolumeMounts c')" "m' = ctr_VolumeMounts c' ! i" by (auto simp: in_set_conv_nth)
    then have "mount_step (ctr_VolumeMounts c ! i) m'" "ctr_VolumeMounts c ! i \<in> set (ctr_VolumeMounts c)"
      using that(1) by (auto simp: mounts_step_def list_all2_conv_all_nth)
    then show "vm_SubPath m' \<in> keys \<longrightarrow> IsReservedVolumeName (vm_Name m')" using that(2) by (auto simp: mount_step_def)
  qed
  with assms show ?thesis
    unfolding config_step_def config_reserved_def by (auto simp: option_rel_Some2)
qed

lemma rename_step:
  assumes "IsReservedVolumeName loc" "\<forall>m \<in> set (ctr_VolumeMounts c). vm_SubPath m = key \<longrightarrow> IsReservedVolumeName (vm_Name m)"
  shows "mounts_step c (upd_mounts (rename_mounts loc key) c)"
  using assms by (auto simp: mounts_step_def upd_mounts_def rename_mounts_def list_all2_conv_all_nth mount_step_def)

lemma updateVolumeMount_step:
  assumes "updateVolumeMountNameIfChanged loc key s = Some (u, s')" "IsReservedVolumeName loc" "config_reserved {key} s"
  shows "config_step s s'"
  using assms
  by (auto simp: updateVolumeMountNameIfChanged_def config_step_def config_reserved_def container0_def init0_def Let_def
      intro!: rename_step split: list.splits)

lemma configure_mounts_step:
  assumes "configure_mounts ms acc s = Some (acc', s')" "\<forall>(loc, key) \<in> set ms. IsReservedVolumeName loc"
    and "config_reserved (snd ` set ms) s"
  shows "config_step s s'"
  using assms
proof (induction ms arbitrary: acc s)
  case (Cons m ms)
  obtain u s1 acc1 where u: "updateVolumeMountNameIfChanged (fst m) (snd m) s = Some (u, s1)"
    and r: "configure_mounts ms acc1 s1 = Some (acc', s')"
    using Cons.prems(1) by (rule configure_mounts_ConsE)
  have "config_step s s1"
    using Cons.prems(2) by (intro updateVolumeMount_step [OF u] config_reserved_subset [OF Cons.prems(3)]) auto
  moreover have "config_step s1 s'"
    using Cons.prems(2)
    by (intro Cons.IH [OF r] config_reserved_step [OF \<open>config_step s s1\<close>] config_reserved_subset [OF Cons.prems(3)]) auto
  ultimately show ?case by (rule config_step_trans)
qed simp

lemma custom_volumes_configured:
  "filter (\<lambda>v. \<not> IsReservedVolumeName (v_Name v)) (deleteCustomConfigMapVolumeIfExist vs) = filter (\<lambda>v. \<not> IsReservedVolumeName (v_Name v)) vs"
  "filter (\<lambda>v. \<not> IsReservedVolumeName (v_Name v)) (addNewConfigMapVolumeWithSpecValue w vs) = filter (\<lambda>v. \<not> IsReservedVolumeName (v_Name v)) vs"
proof -
  show "filter (\<lambda>v. \<not> IsReservedVolumeName (v_Name v)) (deleteCustomConfigMapVolumeIfExist vs) = filter (\<lambda>v. \<not> IsReservedVolumeName (v_Name v)) vs"
    by (induction vs) (auto simp: deleteCustomConfigMapVolumeIfExist_def)
qed (simp add: addNewConfigMapVolumeWithSpecValue_def createConfigMapVolume_def)

lemma ConfigureStatefulSet_step:
  assumes "ConfigureStatefulSet w s = Some (r, s')"
    and "\<forall>(loc, key) \<in> set (config_mounts (cfs_ConfigLocations (rs_Config (w_states w)))). IsReservedVolumeName loc"
    and "config_reserved (snd ` set (config_mounts base_locations)) s"
  shows "config_step s s'" and "getCurrentCustomVolumes s' = getCurrentCustomVolumes s"
proof -
  obtain acc s1 where
    m: "configure_mounts (config_mounts (cfs_ConfigLocations (rs_Config (w_states w)))) (False, '''') s = Some (acc, s1)"
    and v: "configure_volume w acc s1 = Some (r, s')"
    using assms(1) by (auto simp: ConfigureStatefulSet_def bind_eq_Some_conv)
  have "config_step s s1"
    using configure_mounts_step [OF m assms(2)] assms(3)
    by (simp only: config_keys [of "cfs_ConfigLocations (rs_Config (w_states w))" base_locations])
  then show "config_step s s'" by (simp add: config_step_def container0_def init0_def configure_volume_ok(2,3) [OF v])
  have "getCurrentCustomVolumes s' = getCurrentCustomVolumes s1"
    using v by (auto simp: configure_volume_def getCurrentCustomVolumes_def custom_volumes_configured Let_def split: option.splits if_splits)
  then show "getCurrentCustomVolumes s' = getCurrentCustomVolumes s"
    by (simp add: getCurrentCustomVolumes_def configure_mounts_volumes [OF m])
qed

lemma custom_filter_step:
  "list_all2 mount_step ms ms' \<Longrightarrow>
   filter (\<lambda>m. \<not> IsReservedVolumeName (vm_Name m)) ms' = filter (\<lambda>m. \<not> IsReservedVolumeName (vm_Name m)) ms"
  by (induction rule: list_all2_induct) (auto simp: mount_step_def)

lemma custom_mounts_step: "mounts_step c c' \<Longrightarrow> custom_mounts c' = custom_mounts c"
  unfolding mounts_step_def custom_mounts_def by (rule custom_filter_step)

section \<open>What creation writes\<close>

lemma configured_container_fields:
  assumes "no_mounts c' = no_mounts c"
  shows "ctr_Resources c' = ctr_Resources c" "ctr_LivenessProbe c' = ctr_LivenessProbe c" "ctr_ReadinessProbe c' = ctr_ReadinessProbe c"
proof -
  have "ctr_Resources (no_mounts c') = ctr_Resources (no_mounts c)" "ctr_LivenessProbe (no_mounts c') = ctr_LivenessProbe (no_mounts c)"
    "ctr_ReadinessProbe (no_mounts c') = ctr_ReadinessProbe (no_mounts c)" using assms by simp_all
  then show "ctr_Resources c' = ctr_Resources c" "ctr_LivenessProbe c' = ctr_LivenessProbe c" "ctr_ReadinessProbe c' = ctr_ReadinessProbe c"
    by (simp_all add: no_mounts_def)
qed

lemma configured_pod_fields:
  assumes "only_config s s'"
  shows "ps_Affinity (sts_PodSpec s') = ps_Affinity (sts_PodSpec s)" "ps_Tolerations (sts_PodSpec s') = ps_Tolerations (sts_PodSpec s)"
    "ps_SecurityContext (sts_PodSpec s') = ps_SecurityContext (sts_PodSpec s)"
    "ps_ServiceAccountName (sts_PodSpec s') = ps_ServiceAccountName (sts_PodSpec s)"
proof -
  note b = only_config_fields(6) [OF assms]
  show "ps_Affinity (sts_PodSpec s') = ps_Affinity (sts_PodSpec s)" "ps_Tolerations (sts_PodSpec s') = ps_Tolerations (sts_PodSpec s)"
    "ps_SecurityContext (sts_PodSpec s') = ps_SecurityContext (sts_PodSpec s)"
    "ps_ServiceAccountName (sts_PodSpec s') = ps_ServiceAccountName (sts_PodSpec s)"
    using arg_cong [OF b, of ps_Affinity] arg_cong [OF b, of ps_Tolerations] arg_cong [OF b, of ps_SecurityContext]
      arg_cong [OF b, of ps_ServiceAccountName] by (simp_all add: bare_def)
qed

text \<open>What the templates have in common: nothing that the spec leaves open, and only mounts and volumes of the operator.\<close>

definition operator_mounts :: "Container \<Rightarrow> bool" where
  "operator_mounts c \<longleftrightarrow> ctr_VolumeMounts c \<noteq> [] \<and> (\<forall>m \<in> set (ctr_VolumeMounts c). IsReservedVolumeName (vm_Name m))"

definition open_template :: "StatefulSet \<Rightarrow> bool" where
  "open_template t \<longleftrightarrow> (\<exists>c pt. ps_Containers (sts_PodSpec t) = [c] \<and> ctr_Ports c = [pt] \<and> operator_mounts c \<and>
       ctr_Resources c = zero_ResourceRequirements) \<and>
     list_all operator_mounts (ps_InitContainers (sts_PodSpec t)) \<and>
     list_all (\<lambda>v. IsReservedVolumeName (v_Name v)) (ps_Volumes (sts_PodSpec t)) \<and>
     ps_Affinity (sts_PodSpec t) = None \<and> ps_Tolerations (sts_PodSpec t) = [] \<and>
     ps_SecurityContext (sts_PodSpec t) = None \<and> ps_ServiceAccountName (sts_PodSpec t) = ''''"

lemma templates_open: "open_template LoadPrimaryStatefulSet" "open_template LoadReplicaStatefulSet"
  by (simp_all add: open_template_def operator_mounts_def template_defs zero_PodSpec_def IsReservedVolumeName_def
      DatabaseVolumeName_def BaseConfigMapVolumeName_def CustomConfigMapVolumeName_def)

text \<open>What the enforcers read of a StatefulSet, written for a spec.\<close>

definition follows_spec :: "KubegresSpec \<Rightarrow> StatefulSet \<Rightarrow> bool" where
  "follows_spec spec s \<longleftrightarrow> (\<exists>c. container0 s = Some c \<and> ctr_Image c = spec_Image spec \<and> get_nth 0 (ctr_Ports c) = Some (spec_Port spec) \<and>
       ctr_Resources c = (if rr_Requests (spec_Resources spec) \<noteq> [] \<or> rr_Limits (spec_Resources spec) \<noteq> []
                          then spec_Resources spec else zero_ResourceRequirements) \<and>
       probe_LivenessProbe (spec_Probe spec) \<in> {None, ctr_LivenessProbe c} \<and>
       probe_ReadinessProbe (spec_Probe spec) \<in> {None, ctr_ReadinessProbe c} \<and> custom_mounts c = vol_VolumeMounts (spec_Volume spec)) \<and>
     (\<forall>c. init0 s = Some c \<longrightarrow> custom_mounts c = vol_VolumeMounts (spec_Volume spec)) \<and>
     getCurrentCustomVolumes s = vol_Volumes (spec_Volume spec) \<and>
     ps_Affinity (sts_PodSpec s) = sched_Affinity (spec_Scheduler spec) \<and>
     ps_Tolerations (sts_PodSpec s) = sched_Tolerations (spec_Scheduler spec) \<and>
     ps_SecurityContext (sts_PodSpec s) = spec_SecurityContext spec \<and>
     ps_ServiceAccountName (sts_PodSpec s) = spec_ServiceAccountName spec"

lemma custom_mounts_append:
  "operator_mounts c \<Longrightarrow> ctr_VolumeMounts c' = ctr_VolumeMounts c @ ms \<Longrightarrow>
    \<forall>m \<in> set ms. \<not> IsReservedVolumeName (vm_Name m) \<Longrightarrow> custom_mounts c' = ms"
  by (simp add: operator_mounts_def custom_mounts_def)

lemma init_pod_written:
  assumes "init_pod spec name p = Some p'" "ps_Containers p = [c]" "ctr_Ports c = [pt]" "ctr_VolumeMounts c = m # ms"
  shows "\<exists>c'. ps_Containers p' = [c'] \<and> ctr_Image c' = spec_Image spec \<and> ctr_Ports c' = [spec_Port spec] \<and>
      ctr_Resources c' = (if rr_Requests (spec_Resources spec) \<noteq> [] \<or> rr_Limits (spec_Resources spec) \<noteq> []
                          then spec_Resources spec else ctr_Resources c) \<and>
      probe_LivenessProbe (spec_Probe spec) \<in> {None, ctr_LivenessProbe c'} \<and>
      probe_ReadinessProbe (spec_Probe spec) \<in> {None, ctr_ReadinessProbe c'} \<and>
      ctr_VolumeMounts c' = m\<lparr>vm_MountPath := db_VolumeMount (spec_Database spec)\<rparr> # ms @ vol_VolumeMounts (spec_Volume spec)"
    "ps_InitContainers p' = (case ps_InitContainers p of [] \<Rightarrow> []
       | i # is \<Rightarrow> i\<lparr>ctr_VolumeMounts := ctr_VolumeMounts i @ vol_VolumeMounts (spec_Volume spec)\<rparr> # is)"
    "ps_Volumes p' = ps_Volumes p @ vol_Volumes (spec_Volume spec)"
    "ps_Affinity p' = (case sched_Affinity (spec_Scheduler spec) of Some a \<Rightarrow> Some a | None \<Rightarrow> ps_Affinity p)"
    "ps_Tolerations p' = (if sched_Tolerations (spec_Scheduler spec) \<noteq> [] then sched_Tolerations (spec_Scheduler spec) else ps_Tolerations p)"
    "ps_SecurityContext p' = (case spec_SecurityContext spec of Some x \<Rightarrow> Some x | None \<Rightarrow> ps_SecurityContext p)"
    "ps_ServiceAccountName p' = (if spec_ServiceAccountName spec \<noteq> '''' then spec_ServiceAccountName spec else ps_ServiceAccountName p)"
proof -
  obtain d where d: "init_container spec name c = Some d" "ctr_Image d = spec_Image spec" "ctr_Ports d = [spec_Port spec]"
    "ctr_Resources d = ctr_Resources c" "ctr_VolumeMounts d = m\<lparr>vm_MountPath := db_VolumeMount (spec_Database spec)\<rparr> # ms"
    using assms(3,4) by (simp add: init_container_def)
  have p': "p' = p\<lparr>ps_ImagePullSecrets := ps_ImagePullSecrets p @ spec_ImagePullSecrets spec,
         ps_Containers := [init_container_options spec d],
         ps_Affinity := (case sched_Affinity (spec_Scheduler spec) of Some a \<Rightarrow> Some a | None \<Rightarrow> ps_Affinity p),
         ps_Tolerations := (if sched_Tolerations (spec_Scheduler spec) \<noteq> [] then sched_Tolerations (spec_Scheduler spec)
                            else ps_Tolerations p),
         ps_Volumes := ps_Volumes p @ vol_Volumes (spec_Volume spec),
         ps_InitContainers := (case ps_InitContainers p of
             [] \<Rightarrow> []
           | i # is \<Rightarrow> i\<lparr>ctr_VolumeMounts := ctr_VolumeMounts i @ vol_VolumeMounts (spec_Volume spec)\<rparr> # is),
         ps_SecurityContext := (case spec_SecurityContext spec of Some c \<Rightarrow> Some c | None \<Rightarrow> ps_SecurityContext p),
         ps_ServiceAccountName := (if spec_ServiceAccountName spec \<noteq> '''' then spec_ServiceAccountName spec
                                   else ps_ServiceAccountName p)\<rparr>"
    using assms(1) by (simp add: init_pod_def assms(2) d(1))
  show "\<exists>c'. ps_Containers p' = [c'] \<and> ctr_Image c' = spec_Image spec \<and> ctr_Ports c' = [spec_Port spec] \<and>
      ctr_Resources c' = (if rr_Requests (spec_Resources spec) \<noteq> [] \<or> rr_Limits (spec_Resources spec) \<noteq> []
                          then spec_Resources spec else ctr_Resources c) \<and>
      probe_LivenessProbe (spec_Probe spec) \<in> {None, ctr_LivenessProbe c'} \<and>
      probe_ReadinessProbe (spec_Probe spec) \<in> {None, ctr_ReadinessProbe c'} \<and>
      ctr_VolumeMounts c' = m\<lparr>vm_MountPath := db_VolumeMount (spec_Database spec)\<rparr> # ms @ vol_VolumeMounts (spec_Volume spec)"
    by (simp add: p' init_container_options_def d split: option.split)
  show "ps_InitContainers p' = (case ps_InitContainers p of [] \<Rightarrow> []
       | i # is \<Rightarrow> i\<lparr>ctr_VolumeMounts := ctr_VolumeMounts i @ vol_VolumeMounts (spec_Volume spec)\<rparr> # is)"
    "ps_Volumes p' = ps_Volumes p @ vol_Volumes (spec_Volume spec)"
    "ps_Affinity p' = (case sched_Affinity (spec_Scheduler spec) of Some a \<Rightarrow> Some a | None \<Rightarrow> ps_Affinity p)"
    "ps_Tolerations p' = (if sched_Tolerations (spec_Scheduler spec) \<noteq> [] then sched_Tolerations (spec_Scheduler spec) else ps_Tolerations p)"
    "ps_SecurityContext p' = (case spec_SecurityContext spec of Some x \<Rightarrow> Some x | None \<Rightarrow> ps_SecurityContext p)"
    "ps_ServiceAccountName p' = (if spec_ServiceAccountName spec \<noteq> '''' then spec_ServiceAccountName spec else ps_ServiceAccountName p)"
    by (simp_all add: p')
qed

lemma initStatefulSet_follows:
  assumes "open_template t" "template_ok t" "initStatefulSet srv k sn t i = Some s" "volumes_ok (kg_Spec k)"
  shows "follows_spec (kg_Spec k) s"
proof -
  let ?spec = "kg_Spec k" and ?p = "sts_PodSpec t"
  note t = assms(1) [unfolded open_template_def]
  obtain c pt where c: "ps_Containers ?p = [c]" "ctr_Ports c = [pt]" "operator_mounts c" "ctr_Resources c = zero_ResourceRequirements"
    using t by blast
  obtain m ms where m: "ctr_VolumeMounts c = m # ms" using c(3) by (cases "ctr_VolumeMounts c") (auto simp: operator_mounts_def)
  note w = init_pod_written [OF initStatefulSet_facts(9) [OF assms(2,3)] c(1,2) m]
  have ms: "\<forall>m \<in> set (vol_VolumeMounts (spec_Volume ?spec)). \<not> IsReservedVolumeName (vm_Name m)"
    "\<forall>v \<in> set (vol_Volumes (spec_Volume ?spec)). \<not> IsReservedVolumeName (v_Name v)"
    using assms(4) by (auto simp: volumes_ok_def)
  have main: "custom_mounts c' = vol_VolumeMounts (spec_Volume ?spec)"
    if "ctr_VolumeMounts c' = m\<lparr>vm_MountPath := x\<rparr> # ms @ vol_VolumeMounts (spec_Volume ?spec)" for c' x
    using that c(3) m ms(1) by (simp add: custom_mounts_def operator_mounts_def)
  have "\<exists>c'. container0 s = Some c' \<and> ctr_Image c' = spec_Image ?spec \<and> get_nth 0 (ctr_Ports c') = Some (spec_Port ?spec) \<and>
       ctr_Resources c' = (if rr_Requests (spec_Resources ?spec) \<noteq> [] \<or> rr_Limits (spec_Resources ?spec) \<noteq> []
                          then spec_Resources ?spec else zero_ResourceRequirements) \<and>
       probe_LivenessProbe (spec_Probe ?spec) \<in> {None, ctr_LivenessProbe c'} \<and>
       probe_ReadinessProbe (spec_Probe ?spec) \<in> {None, ctr_ReadinessProbe c'} \<and> custom_mounts c' = vol_VolumeMounts (spec_Volume ?spec)"
    using w(1) c(4) main by (auto simp: container0_def)
  moreover have "custom_mounts i' = vol_VolumeMounts (spec_Volume ?spec)" if "init0 s = Some i'" for i'
  proof (cases "ps_InitContainers ?p")
    case (Cons x xs)
    then have "operator_mounts x" using t by simp
    with Cons that w(2) ms(1) show ?thesis by (auto simp: init0_def intro!: custom_mounts_append)
  qed (use that w(2) in \<open>simp add: init0_def\<close>)
  moreover have "getCurrentCustomVolumes s = vol_Volumes (spec_Volume ?spec)"
    using t ms(2) by (simp add: getCurrentCustomVolumes_def w(3) list_all_iff)
  ultimately show ?thesis
    using t by (simp add: follows_spec_def w(4-7) split: option.split)
qed

section \<open>From the template to the created StatefulSet\<close>

definition first_init_mount_reserved :: "StatefulSet \<Rightarrow> bool" where
  "first_init_mount_reserved s \<longleftrightarrow>
     (\<forall>c. init0 s = Some c \<longrightarrow> (\<exists>m ms. ctr_VolumeMounts c = m # ms \<and> IsReservedVolumeName (vm_Name m)))"

lemma initStatefulSet_first_mount:
  assumes "open_template t" "template_ok t" "initStatefulSet srv k sn t i = Some s"
  shows "first_init_mount_reserved s" and "ps_InitContainers (sts_PodSpec t) = [] \<Longrightarrow> init0 s = None"
proof -
  note t = assms(1) [unfolded open_template_def]
  obtain c pt where c: "ps_Containers (sts_PodSpec t) = [c]" "ctr_Ports c = [pt]" "operator_mounts c" using t by blast
  obtain m ms where m: "ctr_VolumeMounts c = m # ms" using c(3) by (cases "ctr_VolumeMounts c") (auto simp: operator_mounts_def)
  note w = init_pod_written(2) [OF initStatefulSet_facts(9) [OF assms(2,3)] c(1,2) m]
  show "first_init_mount_reserved s"
  proof (cases "ps_InitContainers (sts_PodSpec t)")
    case (Cons x xs)
    moreover obtain y ys where "ctr_VolumeMounts x = y # ys" "IsReservedVolumeName (vm_Name y)"
      using Cons t by (cases "ctr_VolumeMounts x") (auto simp: operator_mounts_def)
    ultimately show ?thesis using w by (auto simp: first_init_mount_reserved_def init0_def)
  qed (use w in \<open>simp add: first_init_mount_reserved_def init0_def\<close>)
  show "ps_InitContainers (sts_PodSpec t) = [] \<Longrightarrow> init0 s = None" using w by (simp add: init0_def)
qed

lemma first_init_mount_step: "config_step s s' \<Longrightarrow> first_init_mount_reserved s \<Longrightarrow> first_init_mount_reserved s'"
  unfolding config_step_def first_init_mount_reserved_def mounts_step_def
  by (fastforce simp: option_rel_Some2 list_all2_Cons1 mount_step_def)

text \<open>The condition under which the configuration leaves the custom mounts alone.\<close>

definition custom_paths_free :: "KubegresSpec \<Rightarrow> bool" where
  "custom_paths_free spec \<longleftrightarrow>
     (\<forall>m \<in> set (vol_VolumeMounts (spec_Volume spec)). vm_SubPath m \<notin> snd ` set (config_mounts base_locations))"

lemma follows_spec_reserved:
  assumes "follows_spec spec s" "custom_paths_free spec"
  shows "config_reserved (snd ` set (config_mounts base_locations)) s"
proof -
  have "IsReservedVolumeName (vm_Name m)"
    if "custom_mounts c = vol_VolumeMounts (spec_Volume spec)" "m \<in> set (ctr_VolumeMounts c)"
      "vm_SubPath m \<in> snd ` set (config_mounts base_locations)" for c m
  proof (rule ccontr)
    assume "\<not> IsReservedVolumeName (vm_Name m)"
    then have "m \<in> set (custom_mounts c)" using that(2) by (simp add: custom_mounts_def)
    then show False using that(1,3) assms(2) by (auto simp: custom_paths_free_def)
  qed
  moreover have "custom_mounts c = vol_VolumeMounts (spec_Volume spec)" if "container0 s = Some c \<or> init0 s = Some c" for c
    using assms(1) that by (auto simp: follows_spec_def)
  ultimately show ?thesis unfolding config_reserved_def by blast
qed

lemma follows_spec_configured:
  assumes "follows_spec spec s" "only_config s s'" "config_step s s'" "getCurrentCustomVolumes s' = getCurrentCustomVolumes s"
  shows "follows_spec spec s'"
proof -
  obtain c where c: "container0 s = Some c" "custom_mounts c = vol_VolumeMounts (spec_Volume spec)"
    using assms(1) by (auto simp: follows_spec_def)
  obtain c' where c': "container0 s' = Some c'" "no_mounts c' = no_mounts c" "mounts_step c c'"
    using only_config_containers(1) [OF assms(2)] assms(3) c(1) by (auto simp: config_step_def option_rel_Some1)
  have "custom_mounts i' = vol_VolumeMounts (spec_Volume spec)" if i': "init0 s' = Some i'" for i'
  proof -
    obtain i where "init0 s = Some i" "mounts_step i i'" using assms(3) i' by (auto simp: config_step_def option_rel_Some2)
    then show ?thesis using assms(1) custom_mounts_step by (auto simp: follows_spec_def)
  qed
  then show ?thesis
    using assms(1,4) c c' no_mounts_fields [OF c'(2)] configured_container_fields [OF c'(2)] custom_mounts_step [OF c'(3)]
    by (simp add: follows_spec_def configured_pod_fields [OF assms(2)])
qed

text \<open>The rewriting of the first init container of a replica.\<close>

lemma replica_init_follows:
  assumes "follows_spec spec s" "first_init_mount_reserved s" "config_settled w s"
    and "upd_nth 0 (replica_init k h) (ps_InitContainers (sts_PodSpec s)) = Some inits"
  defines "s' \<equiv> upd_PodSpec (\<lambda>p. p\<lparr>ps_InitContainers := inits\<rparr>) s"
  shows "follows_spec spec s'" "config_settled w s'" "\<exists>i e. init0 s' = Some i \<and> get_nth 0 (ctr_Env i) = Some e \<and> env_Value e = h"
proof -
  obtain x xs i' where x: "ps_InitContainers (sts_PodSpec s) = x # xs" "inits = i' # xs" "replica_init k h x = Some i'"
    using assms(4) by (cases "ps_InitContainers (sts_PodSpec s)") (auto split: option.splits)
  obtain m ms where m: "ctr_VolumeMounts x = m # ms" "IsReservedVolumeName (vm_Name m)"
    using assms(2) x(1) by (auto simp: first_init_mount_reserved_def init0_def)
  have i': "ctr_VolumeMounts i' = m\<lparr>vm_MountPath := db_VolumeMount (spec_Database (kg_Spec k))\<rparr> # ms"
    "\<exists>e. get_nth 0 (ctr_Env i') = Some e \<and> env_Value e = h"
    using x(3) m(1) by (cases "ctr_Env x"; auto simp: replica_init_def bind_eq_Some_conv numeral_2_eq_2 split: list.splits)+
  have s': "container0 s' = container0 s" "init0 s' = Some i'" "ps_Volumes (sts_PodSpec s') = ps_Volumes (sts_PodSpec s)"
    by (simp_all add: s'_def container0_def init0_def x(2))
  have "custom_mounts i' = custom_mounts x" using m(2) by (simp add: custom_mounts_def i'(1) m(1))
  then show "follows_spec spec s'"
    using assms(1) x(1) s' by (simp add: follows_spec_def getCurrentCustomVolumes_def) (simp add: s'_def init0_def)
  have "mounts_ok loc key s \<longrightarrow> mounts_ok loc key s'" for loc key
    using s' m(1) i'(1) x(1) by (auto simp: mounts_ok_view init0_def)
  then show "config_settled w s'"
    using assms(3) s' by (auto simp: config_settled_def volume_ok_def) (auto simp: s'_def)
  show "\<exists>i e. init0 s' = Some i \<and> get_nth 0 (ctr_Env i) = Some e \<and> env_Value e = h" using s'(2) i'(2) by simp
qed

section \<open>Agreement with the enforcers\<close>

definition locations_reserved :: "world \<Rightarrow> bool" where
  "locations_reserved w \<longleftrightarrow>
     (\<forall>(loc, key) \<in> set (config_mounts (cfs_ConfigLocations (rs_Config (w_states w)))). IsReservedVolumeName loc)"

lemma configured_follows:
  assumes "open_template t" "template_ok t" "initStatefulSet srv (w_kubegres w) sn t i = Some s" "ConfigureStatefulSet w s = Some (r, s')"
    and "volumes_ok (w_spec w)" "custom_paths_free (w_spec w)" "locations_reserved w"
  shows "follows_spec (w_spec w) s'" "config_settled w s'" "first_init_mount_reserved s'" "config_step s s'"
proof -
  have f: "follows_spec (w_spec w) s" using initStatefulSet_follows [OF assms(1-3,5)] .
  note st = ConfigureStatefulSet_step [OF assms(4) assms(7) [unfolded locations_reserved_def] follows_spec_reserved [OF f assms(6)]]
  show "config_step s s'" by (rule st(1))
  show "follows_spec (w_spec w) s'"
    by (rule follows_spec_configured [OF f ConfigureStatefulSet_only_config [OF assms(4)] st])
  show "config_settled w s'" using ConfigureStatefulSet_ok [OF assms(4)] by (simp add: config_settled_def)
  show "first_init_mount_reserved s'" by (rule first_init_mount_step [OF st(1) initStatefulSet_first_mount(1) [OF assms(1-3)]])
qed

lemma created_cases [consumes 1, case_names primary replica]:
  assumes "CreatePrimaryStatefulSet srv i w = Some s \<or> CreateReplicaStatefulSet srv i w = Some s"
  obtains s1 r where "initStatefulSet srv (w_kubegres w) (GetServiceResourceName (w_kubegres w) True) LoadPrimaryStatefulSet i = Some s1"
      "ConfigureStatefulSet w s1 = Some (r, s)"
  | s1 r s2 inits where
      "initStatefulSet srv (w_kubegres w) (GetServiceResourceName (w_kubegres w) False) LoadReplicaStatefulSet i = Some s1"
      "ConfigureStatefulSet w s1 = Some (r, s2)"
      "upd_nth 0 (replica_init (w_kubegres w) (getExpectedPrimaryServiceName w)) (ps_InitContainers (sts_PodSpec s2)) = Some inits"
      "s = upd_PodSpec (\<lambda>p. p\<lparr>ps_InitContainers := inits\<rparr>) s2"
  using assms by (auto simp: CreatePrimaryStatefulSet_def CreateReplicaStatefulSet_def getExpectedPrimaryServiceName_def
      bind_eq_Some_conv Let_def)

lemma created_metadata:
  assumes "CreatePrimaryStatefulSet srv i w = Some s \<or> CreateReplicaStatefulSet srv i w = Some s"
  shows "extractCustom (md_Labels (sts_meta s)) = []"
    and "extractCustom (md_Annotations (sts_meta s)) = extractCustom (md_Annotations (kg_meta (w_kubegres w)))"
proof -
  obtain t sn s1 where t: "t = LoadPrimaryStatefulSet \<or> t = LoadReplicaStatefulSet"
    "initStatefulSet srv (w_kubegres w) sn t i = Some s1" "sts_meta s = sts_meta s1"
    using assms
  proof (cases rule: created_cases)
    case (primary s1 r)
    then show thesis using that only_config_fields(1) [OF ConfigureStatefulSet_only_config [OF primary(2)]] by blast
  next
    case (replica s1 r s2 inits)
    then have "sts_meta s = sts_meta s1" using only_config_fields(1) [OF ConfigureStatefulSet_only_config [OF replica(2)]] by simp
    with replica(1) that show thesis by blast
  qed
  then have m: "md_Labels (sts_meta s) = AList.update ''index'' (Itoa i) (AList.update ''app'' (kg_Name (w_kubegres w)) (md_Labels (sts_meta t)))"
    "md_Annotations (sts_meta s) = getCustomAnnotations (w_kubegres w)"
    using templates_ok by (auto simp: initStatefulSet_def bind_eq_Some_conv template_ok_def set_app_index_Some)
  show "extractCustom (md_Labels (sts_meta s)) = []"
    using t(1) by (auto simp: m extractCustom_def template_defs annotationPrefix_def)
  have "prefix annotationPrefix key \<Longrightarrow> key \<noteq> KubegresInternalAnnotationKey" for key
    by (auto simp: annotationPrefix_def KubegresInternalAnnotationKey_def)
  then show "extractCustom (md_Annotations (sts_meta s)) = extractCustom (md_Annotations (kg_meta (w_kubegres w)))"
    by (auto simp: m getCustomAnnotations_def extractCustom_def filter_filter intro!: filter_cong)
qed

lemma maps_Equal_refl: "distinct (map fst m) \<Longrightarrow> maps_Equal m m"
  by (auto simp: maps_Equal_def list_all_iff)

lemma maps_Equal_Nil: "maps_Equal [] m \<longleftrightarrow> m = []"
  by (auto simp: maps_Equal_def)

lemma created_metadata_settled:
  assumes "CreatePrimaryStatefulSet srv i w = Some s \<or> CreateReplicaStatefulSet srv i w = Some s"
    and "distinct (map fst (md_Annotations (kg_meta (w_kubegres w))))"
  shows "metadata_equals (getCustomMetadata (sts_meta s)) (getCustomMetadata (kg_meta (w_kubegres w))) \<longleftrightarrow>
    extractCustom (md_Labels (kg_meta (w_kubegres w))) = []"
proof -
  have "distinct (map fst (extractCustom (md_Annotations (kg_meta (w_kubegres w)))))"
    using assms(2) by (simp add: extractCustom_def distinct_map_filter)
  then show ?thesis
    by (simp add: metadata_equals_def getCustomMetadata_def created_metadata [OF assms(1)] maps_Equal_refl maps_Equal_Nil)
qed

lemma follows_spec_settled:
  assumes "follows_spec (w_spec w) s" "config_settled w s" "quantities_ok srv w s"
    and "\<forall>i. init0 s = Some i \<longrightarrow> (\<exists>e. get_nth 0 (ctr_Env i) = Some e \<and> env_Value e = getExpectedPrimaryServiceName w)"
    and "metadata_equals (getCustomMetadata (sts_meta s)) (getCustomMetadata (kg_meta (w_kubegres w)))"
  shows "\<forall>e \<in> set addStatefulSetSpecEnforcers. settled e srv w s"
proof -
  have q: "compareResources srv (spec_Resources (w_spec w)) (spec_Resources (w_spec w)) = Some True"
    using assms(3) by (rule compareResources_same)
  have z: "compareResources srv zero_ResourceRequirements r = Some True" if "rr_Requests r = []" "rr_Limits r = []" for r
    using that by (simp add: compareResources_def compareResourceLists_def zero_ResourceRequirements_def)
  have items': "compare_items xs xs" for xs :: "Volume list" by (auto simp: compare_items_def list_all_iff list_ex_iff)
  have items'': "compare_items xs xs" for xs :: "VolumeMount list" by (auto simp: compare_items_def list_all_iff list_ex_iff)
  show "\<forall>e \<in> set addStatefulSetSpecEnforcers. settled e srv w s"
    using assms(1,2,4,5) q z
    by (auto simp: registry_defs settled_iff follows_spec_def items' items'')
qed

lemma collect_differences_Nil:
  "collect_differences es srv w s = Some [] \<Longrightarrow> e \<in> set es \<Longrightarrow> CheckForSpecDifference e srv w s = Some d \<Longrightarrow> \<not> IsThereDifference d"
  by (induction es) (auto simp: bind_eq_Some_conv split: if_splits)

lemma created_follows:
  assumes "CreatePrimaryStatefulSet srv i w = Some s \<or> CreateReplicaStatefulSet srv i w = Some s"
    and "volumes_ok (w_spec w)" "custom_paths_free (w_spec w)" "locations_reserved w"
  shows "follows_spec (w_spec w) s \<and> config_settled w s \<and>
    (\<forall>i. init0 s = Some i \<longrightarrow> (\<exists>e. get_nth 0 (ctr_Env i) = Some e \<and> env_Value e = getExpectedPrimaryServiceName w))"
  using assms(1)
proof (cases rule: created_cases)
  case (primary s1 r)
  note c = configured_follows [OF templates_open(1) templates_ok(1) primary assms(2-4)]
  have "init0 s1 = None"
    using initStatefulSet_first_mount(2) [OF templates_open(1) templates_ok(1) primary(1)] by (simp add: template_defs)
  then have "init0 s = None" using c(4) by (simp add: config_step_def)
  with c show ?thesis by simp
next
  case (replica s1 r s2 inits)
  note c = configured_follows [OF templates_open(2) templates_ok(2) replica(1,2) assms(2-4)]
  from replica_init_follows [OF c(1,3,2) replica(3)] show ?thesis unfolding replica(4) by auto
qed

section \<open>Properties\<close>

text \<open>
  C33: What is created is what is enforced, but for labels. A StatefulSet that the operator has just built
  for the primary or a replica shows no difference from the spec to any of the fourteen
  enforcers exactly when the Kubegres resource has no custom label: creation copies the custom
  annotations, not the labels, so with a custom label every new StatefulSet is updated at once.
  The hypotheses say that the volumes of the spec passed the check, that no custom mount
  uses the sub-path of a configuration file, that configuration files are mounted from the operator's
  volumes, that quantities are printed and parsed back, and that a map has each key once.
\<close>

theorem created_StatefulSet_agrees_with_spec:
  assumes "CreatePrimaryStatefulSet srv i w = Some s \<or> CreateReplicaStatefulSet srv i w = Some s"
    and "volumes_ok (w_spec w)" "custom_paths_free (w_spec w)" "locations_reserved w" "quantities_ok srv w s"
    and "distinct (map fst (md_Annotations (kg_meta (w_kubegres w))))"
  shows "collect_differences addStatefulSetSpecEnforcers srv w s = Some [] \<longleftrightarrow>
    extractCustom (md_Labels (kg_meta (w_kubegres w))) = []"
proof
  assume "extractCustom (md_Labels (kg_meta (w_kubegres w))) = []"
  then show "collect_differences addStatefulSetSpecEnforcers srv w s = Some []"
    using created_follows [OF assms(1-4)] created_metadata_settled [OF assms(1,6)] assms(5)
    by (intro collect_differences_none follows_spec_settled) auto
next
  assume c: "collect_differences addStatefulSetSpecEnforcers srv w s = Some []"
  let ?e = "simple_enforcer ''CustomMetadata'' CustomMetadata_CheckForSpecDifference CustomMetadata_EnforceSpec"
  obtain d where d: "CheckForSpecDifference ?e srv w s = Some d"
    by (simp add: simple_enforcer_def CustomMetadata_CheckForSpecDifference_def Let_def)
  have "?e \<in> set addStatefulSetSpecEnforcers" by (simp add: addStatefulSetSpecEnforcers_def)
  from collect_differences_Nil [OF c this d]
  have "metadata_equals (getCustomMetadata (sts_meta s)) (getCustomMetadata (kg_meta (w_kubegres w)))"
    using d by (auto simp: simple_enforcer_def CustomMetadata_CheckForSpecDifference_def Let_def differ_def IsThereDifference_def split: if_splits)
  then show "extractCustom (md_Labels (kg_meta (w_kubegres w))) = []"
    by (simp add: created_metadata_settled [OF assms(1,6)])
qed

text \<open>The sample cluster, with its configuration in the base map, and the same resource with a custom label.\<close>

definition created_world :: "str_map \<Rightarrow> world" where
  "created_world labels = sample_world
     \<lparr>w_kubegres := sample_Kubegres\<lparr>kg_meta := (kg_meta sample_Kubegres)\<lparr>md_Labels := labels\<rparr>\<rparr>,
      w_states := zero_ResourcesStates\<lparr>rs_Config := (rs_Config zero_ResourcesStates)\<lparr>cfs_ConfigLocations := base_locations\<rparr>\<rparr>\<rparr>"

lemma created_world_ok:
  "volumes_ok (w_spec (created_world labels))" "custom_paths_free (w_spec (created_world labels))" "locations_reserved (created_world labels)"
  "quantities_ok sample_server (created_world labels) s" "distinct (map fst (md_Annotations (kg_meta (w_kubegres (created_world labels)))))"
  "md_Labels (kg_meta (w_kubegres (created_world labels))) = labels"
  by (simp_all add: created_world_def sample_Kubegres_def sample_Spec_def volumes_ok_def custom_paths_free_def locations_reserved_def
      config_mounts_def base_locations_def IsReservedVolumeName_def BaseConfigMapVolumeName_def quantities_ok_def sample_server_def
      zero_ResourceRequirements_def zero_ObjectMeta_def split: quantity.splits)

theorem created_StatefulSet_agrees_with_spec_witness:
  "\<exists>s s'. CreateReplicaStatefulSet sample_server 2 (created_world []) = Some s \<and>
     collect_differences addStatefulSetSpecEnforcers sample_server (created_world []) s = Some [] \<and>
     CreateReplicaStatefulSet sample_server 2 (created_world [(''kubegres.reactive-tech.io/team'', ''db'')]) = Some s' \<and>
     collect_differences addStatefulSetSpecEnforcers sample_server (created_world [(''kubegres.reactive-tech.io/team'', ''db'')]) s' \<noteq> Some []"
proof -
  have "\<exists>s. CreateReplicaStatefulSet sample_server 2 (created_world labels) = Some s \<and>
      (collect_differences addStatefulSetSpecEnforcers sample_server (created_world labels) s = Some [] \<longleftrightarrow> extractCustom labels = [])" for labels
  proof -
    obtain s where s: "CreateReplicaStatefulSet sample_server 2 (created_world labels) = Some s"
      using CreateStatefulSet_None [of sample_server 2 "created_world labels"] by (auto simp: sample_server_def)
    from created_StatefulSet_agrees_with_spec [OF disjI2 [OF s] created_world_ok(1-5)] s show ?thesis
      by (simp add: created_world_ok)
  qed
  from this [of "[]"] this [of "[(''kubegres.reactive-tech.io/team'', ''db'')]"] show ?thesis
    by (auto simp: extractCustom_def annotationPrefix_def)
qed

end
