(* ===== verification/At_Rest.thy ===== *)
theory At_Rest
  imports Scaling Created_Spec
begin

text \<open>
  After scaling: the StatefulSets that were created agree with the spec, the operation is
  released, the missing service is created, and from then on the operator changes nothing.
\<close>

section \<open>Agreement with the spec\<close>

definition agrees :: "server \<Rightarrow> world \<Rightarrow> StatefulSet \<Rightarrow> bool" where
  "agrees srv w s \<longleftrightarrow> (\<forall>e \<in> set addStatefulSetSpecEnforcers. settled e srv w s)"

lemma agrees_collect: "agrees srv w s \<Longrightarrow> collect_differences addStatefulSetSpecEnforcers srv w s = Some []"
  by (simp add: agrees_def collect_differences_none)

text \<open>The enforcers read the spec, the metadata and the configuration states, and compare quantities.\<close>

definition same_reading :: "server \<Rightarrow> world \<Rightarrow> server \<Rightarrow> world \<Rightarrow> bool" where
  "same_reading srv w srv' w' \<longleftrightarrow> w_spec w' = w_spec w \<and> kg_meta (w_kubegres w') = kg_meta (w_kubegres w) \<and>
     rs_Config (w_states w') = rs_Config (w_states w) \<and>
     srv_parse_quantity srv' = srv_parse_quantity srv \<and> srv_quantity_string srv' = srv_quantity_string srv"

lemma compareResources_reading:
  assumes "same_reading srv w srv' w'"
  shows "compareResources srv' a b = compareResources srv a b"
proof -
  have l: "compare_resources_loop srv' xs es = compare_resources_loop srv xs es" for xs es
    using assms by (induction es) (auto simp: same_reading_def cong: if_cong)
  then have "compareResourceLists srv' = compareResourceLists srv" by (simp add: compareResourceLists_def fun_eq_iff)
  then show ?thesis by (simp add: compareResources_def cong: if_cong)
qed

lemma config_settled_reading:
  assumes "same_reading srv w srv' w'"
  shows "config_settled w' s = config_settled w s"
  using assms by (simp add: config_settled_def volume_ok_def same_reading_def getSpecCustomConfig_def split: option.splits)

lemma agrees_reading:
  assumes "same_reading srv w srv' w'"
  shows "agrees srv' w' s = agrees srv w s"
proof -
  have f: "w_spec w' = w_spec w" "kg_meta (w_kubegres w') = kg_meta (w_kubegres w)" using assms by (simp_all add: same_reading_def)
  have "getExpectedPrimaryServiceName w' = getExpectedPrimaryServiceName w"
    by (simp add: getExpectedPrimaryServiceName_def GetServiceResourceName_def f)
  then show ?thesis
    by (simp add: agrees_def registry_defs settled_def settled_iff f compareResources_reading [OF assms] config_settled_reading [OF assms])
qed
text \<open>What a spec must be like for new StatefulSets to agree with it (theorem \<open>created_StatefulSet_agrees_with_spec\<close>).\<close>

definition replicable :: "server \<Rightarrow> KubegresSpec \<Rightarrow> ObjectMeta \<Rightarrow> ConfigStates \<Rightarrow> bool" where
  "replicable srv spec meta cfs \<longleftrightarrow> custom_paths_free spec \<and>
     (\<forall>(loc, key) \<in> set (config_mounts (cfs_ConfigLocations cfs)). IsReservedVolumeName loc) \<and>
     (\<forall>q. srv_parse_quantity srv (srv_quantity_string srv q) = Some q) \<and>
     distinct (map fst (rr_Limits (spec_Resources spec))) \<and> distinct (map fst (rr_Requests (spec_Resources spec))) \<and>
     distinct (map fst (md_Annotations meta)) \<and> extractCustom (md_Labels meta) = []"

lemma ready_parts:
  "container0 (s\<lparr>sts_ReadyReplicas := r\<rparr>) = container0 s" "init0 (s\<lparr>sts_ReadyReplicas := r\<rparr>) = init0 s"
  "getCurrentCustomVolumes (s\<lparr>sts_ReadyReplicas := r\<rparr>) = getCurrentCustomVolumes s"
  "mounts_ok loc key (s\<lparr>sts_ReadyReplicas := r\<rparr>) = mounts_ok loc key s" "volume_ok w (s\<lparr>sts_ReadyReplicas := r\<rparr>) = volume_ok w s"
  by (simp_all add: container0_def init0_def getCurrentCustomVolumes_def mounts_ok_def volume_ok_def)

lemma created_agrees:
  assumes "CreateReplicaStatefulSet srv i w = Some s" "volumes_ok (w_spec w)"
    and "replicable srv (w_spec w) (kg_meta (w_kubegres w)) (rs_Config (w_states w))"
  shows "agrees srv w (s\<lparr>sts_ReadyReplicas := r\<rparr>)"
proof -
  let ?s = "s\<lparr>sts_ReadyReplicas := r\<rparr>"
  note p = assms(3) [unfolded replicable_def]
  have "locations_reserved w" using p by (simp add: locations_reserved_def)
  with p created_follows [OF disjI2 [OF assms(1)] assms(2)]
  have f: "follows_spec (w_spec w) s" "config_settled w s"
    "\<forall>i. init0 s = Some i \<longrightarrow> (\<exists>e. get_nth 0 (ctr_Env i) = Some e \<and> env_Value e = getExpectedPrimaryServiceName w)" by blast+
  have "follows_spec (w_spec w) ?s" "config_settled w ?s"
    using f(1,2) by (simp_all add: follows_spec_def config_settled_def ready_parts)
  moreover have "quantities_ok srv w ?s" using p by (simp add: quantities_ok_def)
  moreover have "metadata_equals (getCustomMetadata (sts_meta ?s)) (getCustomMetadata (kg_meta (w_kubegres w)))"
    using p created_metadata_settled [OF disjI2 [OF assms(1)]] by simp
  ultimately show ?thesis unfolding agrees_def using f(3) by (intro follows_spec_settled) (simp_all add: ready_parts)
qed

section \<open>A round at the right number of instances\<close>

lemma adjust_level:
  assumes "getExpectedNbreReplicasToDeploy w = getNbreDeployedReplicas w" "\<forall>s \<in> set (getDeployedReplicas w). sw_IsReady s"
  shows "adjust_replicas now srv m w = (Ok, w)"
proof -
  have "find (\<lambda>s. \<not> sw_IsReady s) (getDeployedReplicas w) = None" using assms(2) by (simp add: find_None_iff)
  then show ?thesis using assms(1) by (simp add: adjust_replicas_def int32_id in_int32_def)
qed

lemma getAll_cong:
  assumes "same_context w v"
  shows "getAllReverseSortedByInstanceIndex v = getAllReverseSortedByInstanceIndex w"
  by (simp add: getAllReverseSortedByInstanceIndex_def all_isStandbyEnabled_def same_context_fields [OF assms] Let_def)

lemma controller_level:
  assumes "accepts srv" "primary_met w" "isBaseConfigDeployed w" "backup_met w" "frees w v"
    and "adjust_replicas (clk_enforce clk) srv False v = (Ok, v)"
    and "\<forall>s \<in> set (getAllReverseSortedByInstanceIndex w). agrees srv w (sw_StatefulSet s)"
  shows "\<exists>ss w2. controller_enforceSpec clk srv w = (Ok, w2) \<and> service_step ss v w2 \<and>
    (\<not> srw_IsDeployed (svs_Primary (rs_Services (w_states w))) \<longrightarrow> (\<exists>s \<in> set ss. service_isPrimary s)) \<and>
    (\<not> srw_IsDeployed (svs_Replica (rs_Services (w_states w))) \<and> isThereReadyReplica w \<longrightarrow> (\<exists>s \<in> set ss. \<not> service_isPrimary s))"
proof -
  have fv: "w_states v = w_states w" using frees_fields(1) [OF assms(5)] by (simp add: same_context_def)
  have rd: "isPrimaryDbReady v" using assms(2) by (simp add: isPrimaryDbReady_def fv primary_met_def)
  obtain ss w2 where s: "Services_EnforceSpec srv v = (Ok, w2)" "service_step ss v w2"
    "\<not> srw_IsDeployed (svs_Primary (rs_Services (w_states w))) \<longrightarrow> (\<exists>s \<in> set ss. service_isPrimary s)"
    "\<not> srw_IsDeployed (svs_Replica (rs_Services (w_states w))) \<and> isThereReadyReplica w \<longrightarrow> (\<exists>s \<in> set ss. \<not> service_isPrimary s)"
    using Services_accepted [OF assms(1), of v] rd by (auto simp: fv isThereReadyReplica_def)
  note f = service_step_fields [OF s(2)]
  have c: "same_context w w2" using frees_fields(1) [OF assms(5)] by (simp add: f same_context_def)
  have "same_reading srv w srv w2" using c by (simp add: same_reading_def same_context_def)
  then have ag: "agrees srv w2 t = agrees srv w t" for t by (rule agrees_reading)
  have "specs_met srv w2" using assms(7) getAll_cong [OF c] by (auto simp: specs_met_def list_all_iff ag intro!: agrees_collect)
  moreover have "activeId w2 = ''''" using frees_fields(2) [OF assms(5)] by (simp add: activeId_def f)
  ultimately have "AllStatefulSets_EnforceSpec addStatefulSetSpecEnforcers (clk_enforce clk) srv w2 = (Ok, w2)"
    by (intro AllStatefulSets_idle)
  moreover have "backup_met w2" using assms(4) backup_met_cong [OF c] by simp
  ultimately have "controller_enforceSpec clk srv w = (Ok, w2)"
    using s StatefulSetCount_frees [OF assms(2,5)] BaseConfigMap_frees [OF assms(3,5)] assms(6)
    by (simp add: controller_enforceSpec_def enforceResourcesCountSpec_def ResourcesCount_EnforceSpec_def addResourcesCountSpecEnforcers_def
        AddSpecEnforcer_def enforceAllStatefulSetsSpec_def BackUp_idle)
  then show ?thesis using s by blast
qed

lemma services_deployed:
  "srw_IsDeployed (svs_Primary (fold (add_service k) ss z)) \<longleftrightarrow> srw_IsDeployed (svs_Primary z) \<or> (\<exists>s \<in> set ss. service_isPrimary s)"
  "srw_IsDeployed (svs_Replica (fold (add_service k) ss z)) \<longleftrightarrow> srw_IsDeployed (svs_Replica z) \<or> (\<exists>s \<in> set ss. \<not> service_isPrimary s)"
  by (induction ss arbitrary: z) (auto simp: add_service_def)

definition cluster_agrees :: "server \<Rightarrow> (StatefulSet \<Rightarrow> Pod) \<Rightarrow> DbStorageClassStates \<Rightarrow> ConfigStates \<Rightarrow> BackUpStates \<Rightarrow> cluster \<Rightarrow> bool" where
  "cluster_agrees base pod_of dsc cfs bus c \<longleftrightarrow>
     (\<forall>s \<in> set (cl_StatefulSets c). agrees (cluster_server base pod_of c) (cluster_context base pod_of dsc cfs bus c) s)"

lemma cluster_ready:
  assumes "serving base pod_of dsc cfs bus n c" "load_step (cluster_context base pod_of dsc cfs bus c) v"
  shows "\<forall>s \<in> set (getDeployedReplicas v). sw_IsReady s"
proof -
  have "\<forall>s \<in> set (cl_StatefulSets c). 0 < sts_ReadyReplicas s" using assms(1) by (simp add: serving_def instances_ready_def)
  then show ?thesis unfolding getDeployedReplicas_def cluster_counts(7) [OF assms] cluster_replicas by auto
qed

lemma cluster_members:
  assumes "serving base pod_of dsc cfs bus n c" "s \<in> set (getAllReverseSortedByInstanceIndex (cluster_context base pod_of dsc cfs bus c))"
  shows "sw_StatefulSet s \<in> set (cl_StatefulSets c)"
proof -
  let ?w = "cluster_context base pod_of dsc cfs bus c"
  have w: "w_states ?w = cluster_states pod_of dsc cfs bus c" by (simp add: cluster_context_def context_of_fields)
  obtain p where p: "filter isPrimary (cl_StatefulSets c) = [p]" using assms(1) by (auto simp: serving_def instances_ready_def)
  then have "p \<in> set (filter isPrimary (cl_StatefulSets c))" by simp
  then have "p \<in> set (cl_StatefulSets c)" by simp
  moreover have "set (GetAllReverseSortedByInstanceIndex (rep_All (rs_Replicas (cluster_states pod_of dsc cfs bus c)))) =
      set (GetAllSortedByInstanceIndex (rep_All (rs_Replicas (cluster_states pod_of dsc cfs bus c))))"
    by (simp add: cluster_states_def loaded_def Let_def wrappers.build_set)
  ultimately show ?thesis
    using assms(2) cluster_replicas [of pod_of dsc cfs bus c] cluster_primary [OF p, of pod_of dsc cfs bus]
    by (auto simp: getAllReverseSortedByInstanceIndex_def w Let_def split: if_splits)
qed

lemma round_level:
  assumes "free_at base pod_of dsc cfs bus n clk c" "int (length (cl_StatefulSets c)) = n"
    and "cluster_agrees base pod_of dsc cfs bus c"
  shows "\<exists>ss st. cl_StatefulSets (reconcile_round base pod_of clk c) = cl_StatefulSets c \<and>
    cl_Services (reconcile_round base pod_of clk c) = cl_Services c @ ss \<and>
    cl_kubegres (reconcile_round base pod_of clk c) = (cl_kubegres c)\<lparr>kg_Status := st\<rparr> \<and>
    status_EnforcedReplicas st = status_EnforcedReplicas (kg_Status (cl_kubegres c)) \<and>
    status_LastCreatedInstanceIndex st = status_LastCreatedInstanceIndex (kg_Status (cl_kubegres c)) \<and>
    status_BlockingOperation st = zero_Operation \<and>
    (\<exists>s \<in> set (cl_Services c @ ss). service_isPrimary s) \<and>
    (isThereReadyReplica (cluster_context base pod_of dsc cfs bus c) \<longrightarrow> (\<exists>s \<in> set (cl_Services c @ ss). \<not> service_isPrimary s))"
proof -
  let ?srv = "cluster_server base pod_of c" and ?k = "cl_kubegres c" and ?rs = "cluster_states pod_of dsc cfs bus c"
  let ?w = "cluster_context base pod_of dsc cfs bus c"
  note se = free_at_serving(1) [OF assms(1)]
  note o = se [unfolded serving_def]
  have ac: "accepts ?srv" using o by (simp add: cluster_server_accepts)
  have re: "reconcilable ?srv (context_of ?srv ?k ?rs)" using o by (simp add: cluster_context_def)
  obtain w v where l: "load_step (context_of ?srv ?k ?rs) w" "frees w v" "reconcilable ?srv w"
    "\<And>w'. controller_enforceSpec clk ?srv w = (Ok, w') \<Longrightarrow> reconcile_context clk ?srv (context_of ?srv ?k ?rs) = returnn ?srv zero_Result Ok w'"
    using reconcile_context_frees [OF _ ac re] assms(1) unfolding free_at_def by metis
  have lw: "load_step ?w w" "load_step ?w v" using l(1) load_step_frees [OF l(1,2)] by (simp_all add: cluster_context_def)
  have sv: "w_states w = ?rs" using cluster_counts(7) [OF se lw(1)] .
  have "adjust_replicas (clk_enforce clk) ?srv False v = (Ok, v)"
    using cluster_counts [OF se lw(2)] cluster_ready [OF se lw(2)] assms(2) by (intro adjust_level) simp_all
  moreover have "\<forall>s \<in> set (getAllReverseSortedByInstanceIndex w). agrees ?srv w (sw_StatefulSet s)"
  proof
    fix s
    assume "s \<in> set (getAllReverseSortedByInstanceIndex w)"
    moreover have "same_context ?w w" using lw(1) by (simp add: load_step_def)
    ultimately have "s \<in> set (getAllReverseSortedByInstanceIndex ?w)" "same_reading ?srv ?w ?srv w"
      using getAll_cong by (simp_all add: same_context_fields same_reading_def)
    then show "agrees ?srv w (sw_StatefulSet s)"
      using cluster_members [OF se] assms(3) agrees_reading [of ?srv ?w ?srv w] by (simp add: cluster_agrees_def)
  qed
  ultimately obtain ss w2 where s: "controller_enforceSpec clk ?srv w = (Ok, w2)" "service_step ss v w2"
    "\<not> srw_IsDeployed (svs_Primary (rs_Services (w_states w))) \<longrightarrow> (\<exists>s \<in> set ss. service_isPrimary s)"
    "\<not> srw_IsDeployed (svs_Replica (rs_Services (w_states w))) \<and> isThereReadyReplica w \<longrightarrow> (\<exists>s \<in> set ss. \<not> service_isPrimary s)"
    using controller_level [OF ac _ _ _ l(2)] l(3) unfolding reconcilable_def by metis
  note f = service_step_fields [OF s(2)]
  have v: "w_calls v = []" "isThereReadyReplica w = isThereReadyReplica ?w"
    using cluster_counts(9) [OF se lw(2)] lw(1) by (simp_all add: isThereReadyReplica_def load_step_def same_context_def)
  have "\<exists>w'. returnn ?srv zero_Result Ok w2 = ((zero_Result, Ok), w') \<and>
      (w_calls w' = w_calls w2 @ [UpdateKubegresStatus (w_kubegres w2)] \<or> w_calls w' = w_calls w2 \<and> w_kubegres w2 = ?k)"
  proof (cases "w_statusFieldsToUpdate w2 = None")
    case True
    then have "w_kubegres w2 = ?k" using lw(2) by (simp add: f load_step_def cluster_context_def context_of_fields)
    with True show ?thesis by (auto simp: returnn_def UpdateStatusIfChanged_def)
  next
    case False
    then show ?thesis using returnn_sends [OF ac] by blast
  qed
  then obtain w' where w': "returnn ?srv zero_Result Ok w2 = ((zero_Result, Ok), w')"
    "w_calls w' = w_calls w2 @ [UpdateKubegresStatus (w_kubegres w2)] \<or> w_calls w' = w_calls w2 \<and> w_kubegres w2 = ?k" by blast
  have round: "reconcile_round base pod_of clk c = fold apply_request (w_calls w') c"
    using cluster_round [OF se] l(4) [OF s(1)] w'(1) by (simp add: cluster_context_def)
  have k2: "?k\<lparr>kg_Status := w_status w2\<rparr> = ?k" if "w_kubegres w2 = ?k" using that by simp
  have c': "cl_StatefulSets (reconcile_round base pod_of clk c) = cl_StatefulSets c"
    "cl_Services (reconcile_round base pod_of clk c) = cl_Services c @ ss"
    "cl_kubegres (reconcile_round base pod_of clk c) = ?k\<lparr>kg_Status := w_status w2\<rparr>"
    using w'(2) k2 by (auto simp: round f v apply_services)
  have st: "status_EnforcedReplicas (w_status w2) = status_EnforcedReplicas (kg_Status ?k)"
    "status_LastCreatedInstanceIndex (w_status w2) = status_LastCreatedInstanceIndex (kg_Status ?k)"
    "status_BlockingOperation (w_status w2) = zero_Operation"
    using lw(2) frees_fields(7) [OF l(2)] by (simp_all add: f load_step_def cluster_context_def context_of_fields)
  show ?thesis
    using c' st s(3,4) by (intro exI [of _ ss] exI [of _ "w_status w2"])
      (auto simp: sv v(2) cluster_states_def services_deployed zero_ServiceWrapper_def)
qed

section \<open>Rest\<close>

text \<open>No reconciliation, whenever it runs, sends anything or asks to be run again.\<close>

definition at_rest :: "server \<Rightarrow> (StatefulSet \<Rightarrow> Pod) \<Rightarrow> cluster \<Rightarrow> bool" where
  "at_rest base pod_of c \<longleftrightarrow> (\<forall>clk. \<exists>w.
     Reconcile clk (cluster_server base pod_of c) (kg_Namespace (cl_kubegres c)) (kg_Name (cl_kubegres c)) = ((zero_Result, Ok), Some w) \<and>
     w_calls w = [])"

lemma at_rest_round: "at_rest base pod_of c \<Longrightarrow> reconcile_round base pod_of clk c = c"
  unfolding at_rest_def reconcile_round_def by (erule allE [of _ clk]) auto

lemma cluster_reading:
  assumes "cl_kubegres c' = (cl_kubegres c)\<lparr>kg_Status := st\<rparr>"
  shows "same_reading (cluster_server base pod_of c) (cluster_context base pod_of dsc cfs bus c)
    (cluster_server base pod_of c') (cluster_context base pod_of dsc cfs bus c')"
  using assms by (simp add: same_reading_def cluster_context_def context_of_fields cluster_states_def cluster_server_def)

lemma converged_rest:
  assumes "serving base pod_of dsc cfs bus n c" "int (length (cl_StatefulSets c)) = n" "cluster_agrees base pod_of dsc cfs bus c"
    and "status_BlockingOperation (kg_Status (cl_kubegres c)) = zero_Operation"
    and "\<exists>s \<in> set (cl_Services c). service_isPrimary s"
    and "isThereReadyReplica (cluster_context base pod_of dsc cfs bus c) \<longrightarrow> (\<exists>s \<in> set (cl_Services c). \<not> service_isPrimary s)"
  shows "at_rest base pod_of c"
proof -
  let ?srv = "cluster_server base pod_of c" and ?k = "cl_kubegres c" and ?rs = "cluster_states pod_of dsc cfs bus c"
  let ?w = "cluster_context base pod_of dsc cfs bus c"
  note o = assms(1) [unfolded serving_def]
  have re: "reconcilable ?srv ?w" using o by blast
  have ls: "load_step ?w ?w" by (simp add: load_step_def)
  note q = cluster_counts [OF assms(1) ls]
  have "services_met ?w"
    using assms(5,6) by (auto simp: services_met_def q(7) cluster_states_def services_deployed)
  moreover have "specs_met ?srv ?w"
    using assms(3) cluster_members [OF assms(1)] by (auto simp: specs_met_def list_all_iff cluster_agrees_def intro: agrees_collect)
  moreover have "instances_met ?w"
    using re q cluster_ready [OF assms(1) ls] assms(2) by (simp add: instances_met_def reconcilable_def list_all_iff)
  ultimately have cv: "converged ?srv (context_of ?srv ?k ?rs)"
    using re by (simp add: converged_def reconcilable_def cluster_context_def)
  obtain p where p: "filter isPrimary (cl_StatefulSets c) = [p]" using o by (auto simp: instances_ready_def)
  have ld: "LoadResourcesStates ?srv (CreateBlockingOperation ?k) = (Val ?rs, CreateBlockingOperation ?k)"
    using o p by (intro cluster_loads [where n = n]) (auto simp: capacity_def instances_ready_def)
  have r: "defaults_set (kg_Spec ?k)" "checked_ok ?srv (context_of ?srv ?k ?rs)" using re q(8) by (simp_all add: reconcilable_def checked_ok_def cluster_context_def)
  obtain m claim cls where sh: "primary_shape (sw_StatefulSet (rs_Primary ?rs)) m claim cls"
    using re q(7) by (auto simp: reconcilable_def getPrimaryStatefulSet_def)
  have ks: "keeps_spec ?srv" using o by (simp add: accepts_def cluster_server_def keeps_spec_def)
  have g: "srv_get_Kubegres ?srv (kg_Namespace ?k) (kg_Name ?k) = Inr ?k" by (simp add: cluster_server_def)
  have n: "spec_Replicas (kg_Spec ?k) = Some n" using o by blast
  have "reconcile_context clk ?srv (context_of ?srv ?k ?rs) = ((zero_Result, Ok), loadOperations (context_of ?srv ?k ?rs))" for clk
    using assms(4) n r sh by (intro reconcile_context_idle [OF _ _ cv ks, where n = n and m = m and claim = claim and cls = cls])
      (simp_all add: context_of_fields getPrimaryStatefulSet_def)
  from Reconcile_context [OF g n r(1) ld this] show ?thesis by (simp add: at_rest_def context_of_fields)
qed

lemma level_round_rests:
  assumes "free_at base pod_of dsc cfs bus n clk c" "int (length (cl_StatefulSets c)) = n"
    and "cluster_agrees base pod_of dsc cfs bus c"
  shows "at_rest base pod_of (reconcile_round base pod_of clk c)"
    and "cl_StatefulSets (reconcile_round base pod_of clk c) = cl_StatefulSets c" "drift (reconcile_round base pod_of clk c) = drift c"
proof -
  let ?c = "reconcile_round base pod_of clk c"
  obtain ss st where r: "cl_StatefulSets ?c = cl_StatefulSets c" "cl_Services ?c = cl_Services c @ ss"
    "cl_kubegres ?c = (cl_kubegres c)\<lparr>kg_Status := st\<rparr>"
    "status_EnforcedReplicas st = status_EnforcedReplicas (kg_Status (cl_kubegres c))"
    "status_LastCreatedInstanceIndex st = status_LastCreatedInstanceIndex (kg_Status (cl_kubegres c))"
    "status_BlockingOperation st = zero_Operation" "\<exists>s \<in> set (cl_Services c @ ss). service_isPrimary s"
    "isThereReadyReplica (cluster_context base pod_of dsc cfs bus c) \<longrightarrow> (\<exists>s \<in> set (cl_Services c @ ss). \<not> service_isPrimary s)"
    using round_level [OF assms] by blast
  show "cl_StatefulSets ?c = cl_StatefulSets c" "drift ?c = drift c" by (simp_all add: r(1,3,4) drift_def)
  note se = free_at_serving(1) [OF assms(1)]
  note o = se [unfolded serving_def]
  have rn: "GetStatefulSetResourceName (cl_kubegres ?c) j = GetStatefulSetResourceName (cl_kubegres c) j" for j
    by (rule GetStatefulSetResourceName_cong) (simp add: r(3))
  have "operating base pod_of dsc cfs bus n ?c"
  proof (rule operating_next [OF se r(3)])
    show "instances_ready (cl_kubegres ?c) (cl_StatefulSets ?c)" using o by (simp add: instances_ready_def rn r(1)) (simp add: r(3-5))
    show "capacity ?c n" using o by (simp add: capacity_def r(1)) (simp add: r(3-5))
  qed (simp_all add: r(1,6) replica_settled_def)
  moreover have "cluster_agrees base pod_of dsc cfs bus ?c"
    using assms(3) agrees_reading [OF cluster_reading [OF r(3)]] by (simp add: cluster_agrees_def r(1))
  moreover have "isThereReadyReplica (cluster_context base pod_of dsc cfs bus ?c) = isThereReadyReplica (cluster_context base pod_of dsc cfs bus c)"
    by (simp add: isThereReadyReplica_def cluster_context_def context_of_fields cluster_states_def loaded_def r(1) Let_def)
  ultimately show "at_rest base pod_of ?c"
    using assms(2) r unfolding operating_def by (intro converged_rest [of base pod_of dsc cfs bus n]) simp_all
qed

section \<open>Agreement is kept while the cluster is scaled\<close>

lemma agrees_up:
  assumes "free_at base pod_of dsc cfs bus n clk c" "int (length (cl_StatefulSets c)) < n"
    and "replicable base (kg_Spec (cl_kubegres c)) (kg_meta (cl_kubegres c)) cfs" "cluster_agrees base pod_of dsc cfs bus c"
  shows "cluster_agrees base pod_of dsc cfs bus (reconcile_round base pod_of clk c) \<and>
    kg_Spec (cl_kubegres (reconcile_round base pod_of clk c)) = kg_Spec (cl_kubegres c) \<and>
    kg_meta (cl_kubegres (reconcile_round base pod_of clk c)) = kg_meta (cl_kubegres c)"
proof -
  let ?c = "reconcile_round base pod_of clk c" and ?i = "status_LastCreatedInstanceIndex (kg_Status (cl_kubegres c)) + 1"
  let ?srv = "cluster_server base pod_of c" and ?w = "cluster_context base pod_of dsc cfs bus c"
  obtain s w st where r: "same_context ?w w" "CreateReplicaStatefulSet ?srv ?i w = Some s"
    "cl_StatefulSets ?c = cl_StatefulSets c @ [s\<lparr>sts_ReadyReplicas := 1\<rparr>]" "cl_kubegres ?c = (cl_kubegres c)\<lparr>kg_Status := st\<rparr>"
    using round_up [OF assms(1-2)] by blast
  have w: "w_spec w = kg_Spec (cl_kubegres c)" "kg_meta (w_kubegres w) = kg_meta (cl_kubegres c)" "rs_Config (w_states w) = cfs"
    using r(1) by (simp_all add: same_context_def cluster_context_def context_of_fields cluster_states_def)
  have "volumes_ok (kg_Spec (cl_kubegres c))"
    using free_at_serving(1) [OF assms(1)] by (simp add: serving_def reconcilable_def spec_ok_def cluster_context_def context_of_fields)
  moreover have "replicable ?srv (kg_Spec (cl_kubegres c)) (kg_meta (cl_kubegres c)) cfs"
    using assms(3) by (simp add: replicable_def cluster_server_def)
  ultimately have "agrees ?srv w (s\<lparr>sts_ReadyReplicas := 1\<rparr>)" by (intro created_agrees [OF r(2)]) (simp_all add: w)
  moreover have "same_reading ?srv ?w ?srv w" using r(1) by (simp add: same_reading_def same_context_def)
  ultimately have "agrees ?srv ?w (s\<lparr>sts_ReadyReplicas := 1\<rparr>)" by (simp add: agrees_reading)
  then show ?thesis
    using assms(4) agrees_reading [OF cluster_reading [OF r(4)]] by (simp add: cluster_agrees_def r(3)) (simp add: r(4))
qed

lemma agrees_down:
  assumes "free_at base pod_of dsc cfs bus n clk c" "n < int (length (cl_StatefulSets c))"
    and "cluster_agrees base pod_of dsc cfs bus c"
  shows "cluster_agrees base pod_of dsc cfs bus (reconcile_round base pod_of clk c) \<and>
    kg_Spec (cl_kubegres (reconcile_round base pod_of clk c)) = kg_Spec (cl_kubegres c) \<and>
    kg_meta (cl_kubegres (reconcile_round base pod_of clk c)) = kg_meta (cl_kubegres c)"
proof -
  let ?c = "reconcile_round base pod_of clk c"
  obtain s st where r: "cl_StatefulSets ?c = filter (\<lambda>t. sts_Name t \<noteq> sts_Name s) (cl_StatefulSets c)"
    "cl_kubegres ?c = (cl_kubegres c)\<lparr>kg_Status := st\<rparr>"
    using round_down [OF assms(1-2)] by blast
  then show ?thesis
    using assms(3) agrees_reading [OF cluster_reading [OF r(2)]] by (simp add: cluster_agrees_def) 
qed

primrec rounds :: "server \<Rightarrow> (StatefulSet \<Rightarrow> Pod) \<Rightarrow> (nat \<Rightarrow> clock) \<Rightarrow> nat \<Rightarrow> cluster \<Rightarrow> cluster" where
  "rounds base pod_of clk 0 c = c"
| "rounds base pod_of clk (Suc t) c = reconcile_round base pod_of (clk t) (rounds base pod_of clk t c)"

lemma rounds_front:
  "rounds base pod_of clk (Suc t) c = rounds base pod_of (\<lambda>i. clk (Suc i)) t (reconcile_round base pod_of (clk 0) c)"
  by (induction t) simp_all

lemma at_rest_rounds: "at_rest base pod_of c \<Longrightarrow> rounds base pod_of clk t c = c"
  by (induction t) (simp_all add: at_rest_round)

text \<open>One reconciliation per replica to add or remove, and one more.\<close>

lemma free_rests:
  assumes "free_at base pod_of dsc cfs bus n (clk 0) c" "\<forall>i < t. clock_ok (clk i)"
    and "replicable base (kg_Spec (cl_kubegres c)) (kg_meta (cl_kubegres c)) cfs" "cluster_agrees base pod_of dsc cfs bus c"
    and "nat \<bar>n - int (length (cl_StatefulSets c))\<bar> < t"
  shows "at_rest base pod_of (rounds base pod_of clk t c) \<and> int (length (cl_StatefulSets (rounds base pod_of clk t c))) = n \<and>
    filter isPrimary (cl_StatefulSets (rounds base pod_of clk t c)) = filter isPrimary (cl_StatefulSets c) \<and>
    drift (rounds base pod_of clk t c) = drift c"
  using assms
proof (induction "nat \<bar>n - int (length (cl_StatefulSets c))\<bar>" arbitrary: c clk t)
  case 0
  then obtain u where t: "t = Suc u" by (cases t) auto
  have len: "int (length (cl_StatefulSets c)) = n" using 0 by simp
  note r = level_round_rests [OF 0(2) len 0(5)]
  show ?case unfolding t rounds_front at_rest_rounds [OF r(1)] using r len by simp
next
  case (Suc d)
  let ?c = "reconcile_round base pod_of (clk 0) c"
  obtain u where t: "t = Suc u" "d < u" using Suc(2,7) by (cases t) auto
  have ne: "int (length (cl_StatefulSets c)) \<noteq> n" using Suc(2) by auto
  note s = operating_step [OF Suc(3) ne]
  have k: "cluster_agrees base pod_of dsc cfs bus ?c" "kg_Spec (cl_kubegres ?c) = kg_Spec (cl_kubegres c)"
    "kg_meta (cl_kubegres ?c) = kg_meta (cl_kubegres c)"
    using agrees_up [OF Suc(3) _ Suc(5,6)] agrees_down [OF Suc(3) _ Suc(6)] ne
    by (cases "int (length (cl_StatefulSets c)) < n"; auto)+
  have "free_at base pod_of dsc cfs bus n (clk (Suc 0)) ?c" using s Suc(4) t by (simp add: operating_free)
  moreover have "d = nat \<bar>n - int (length (cl_StatefulSets ?c))\<bar>" using s Suc(2) by simp
  ultimately show ?case
    using Suc(1) [of ?c "\<lambda>i. clk (Suc i)" u] Suc(4,5) k s t unfolding t(1) rounds_front by auto
qed

text \<open>
  C12: Scaling ends at rest. When the StatefulSets of an operating cluster agree with the spec and the Kubegres
  resource has no custom label (and the spec meets the conditions under which a new
  StatefulSet agrees with it), then one reconciliation per replica to add or remove brings the
  number of instances to the spec, one more releases the operation and creates the missing service, and
  from then on the cluster is at rest: the number of instances is right, every reconciliation at any time sends nothing and
  asks for no other run, so the cluster stays as it is.
\<close>

theorem scaling_ends_at_rest:
  assumes "operating base pod_of dsc cfs bus n c" "\<forall>t. clock_ok (clk t)"
    and "replicable base (kg_Spec (cl_kubegres c)) (kg_meta (cl_kubegres c)) cfs" "cluster_agrees base pod_of dsc cfs bus c"
    and "nat \<bar>n - int (length (cl_StatefulSets c))\<bar> < t"
  shows "at_rest base pod_of (rounds base pod_of clk t c) \<and> int (length (cl_StatefulSets (rounds base pod_of clk t c))) = n"
  using free_rests [where clk = clk, OF operating_free [OF assms(1) spec [OF assms(2)]] _ assms(3-5)] assms(2) by blast

text \<open>The cluster of theory \<open>Scaling\<close> that grows from one instance to three.\<close>

lemma growing_agrees:
  "cluster_agrees steady_server growing_pod (rs_DbStorageClass steady_states) (rs_Config steady_states) (rs_BackUp steady_states) growing_cluster"
proof -
  have "sample_Spec = sample_Spec\<lparr>spec_Replicas := Some 3\<rparr>" by (simp add: sample_Spec_def)
  then show ?thesis
    unfolding cluster_agrees_def agrees_def growing_simps
    by (simp add: steady_primary_agrees [where n = "Some 3"] cluster_context_def context_of_fields cluster_states_def growing_simps)
qed

lemma growing_replicable: "replicable steady_server sample_Spec (kg_meta sample_Kubegres) (rs_Config steady_states)"
  by (simp add: replicable_def steady_fields custom_paths_free_def sample_Spec_def zero_ResourceRequirements_def sample_Kubegres_def
      zero_ObjectMeta_def extractCustom_def config_mounts_def base_locations_def IsReservedVolumeName_def BaseConfigMapVolumeName_def)
    (simp add: steady_server_def fresh_server_def sample_server_def split: quantity.splits)

theorem scaling_ends_at_rest_witness:
  "at_rest steady_server growing_pod (rounds steady_server growing_pod (\<lambda>_. noon) 3 growing_cluster) \<and>
     length (cl_StatefulSets (rounds steady_server growing_pod (\<lambda>_. noon) 3 growing_cluster)) = 3"
proof -
  have "clock_ok noon" by (simp add: clock_ok_def noon_def)
  then show ?thesis
    using scaling_ends_at_rest [OF growing_operating, of "\<lambda>_. noon" 3] growing_agrees growing_replicable by (simp add: growing_simps)
qed

end
