(* ===== verification/Recovery.thy ===== *)
theory Recovery
  imports At_Rest
begin

text \<open>
  Fail-over in the closed loop of theory \<open>Scaling\<close>: a cluster whose primary is not ready deletes it,
  waits, promotes the ready replica with the lowest index, replaces it by a new replica and is then at rest.
\<close>

section \<open>A reconciliation that fails over\<close>

text \<open>The primary is missing or not ready, a replica is ready, and the fail-over is neither disabled nor manual.\<close>

definition replaceable :: "world \<Rightarrow> bool" where
  "replaceable w \<longleftrightarrow> \<not> isStandbyEnabled w \<and> failover_PromotePod (spec_Failover (w_spec w)) = '''' \<and>
     \<not> isAutomaticFailoverDisabled w \<and> status_EnforcedReplicas (w_status w) > 0 \<and> isThereReadyReplica w \<and> isNewPrimaryRequired w"

lemma not_manual:
  "failover_PromotePod (spec_Failover (w_spec w)) = '''' \<Longrightarrow> isManualFailoverRequested w = (False, w)"
  by (simp add: isManualFailoverRequested_def getInstanceIndexToManuallyPromote_def getPodToManuallyPromote_def)

lemma replaceable_selects:
  assumes "replaceable w" "find sw_IsReady (GetAllSortedByInstanceIndex (rep_All (w_Replicas w))) = Some s"
  shows "selectReplicaToPromote w = (Val s, w)"
  using assms by (simp add: selectReplicaToPromote_def replaceable_def not_manual)

lemma Primary_fails_over:
  assumes "replaceable w" "activeId w \<in> {'''', OperationIdPrimaryDbCountSpecEnforcement}" "\<not> op_HasTimedOut (w_activeOperation w)"
  shows "PrimaryDbCountSpecEnforcer_Enforce now srv w = FailOver now srv w"
proof -
  have "ShouldWeFailOver w = (True, w)"
    using assms(1) by (simp add: ShouldWeFailOver_def replaceable_def hasPrimaryEverBeenDeployed_def not_manual)
  then show ?thesis
    using assms by (auto simp: PrimaryDbCountSpecEnforcer_Enforce_def initialiseStatusEnforcedReplicas_def replaceable_def
        enforce_primary_count_def op_defs activeId_def hasLastPrimaryCountSpecEnforcementAttemptTimedOut_def)
qed

lemma controller_fails_over:
  assumes "accepts srv" "replaceable w" "isBaseConfigDeployed w" "backup_met w1"
    and "activeId w \<in> {'''', OperationIdPrimaryDbCountSpecEnforcement}" "\<not> op_HasTimedOut (w_activeOperation w)"
    and "FailOver (clk_enforce clk) srv w = (Ok, w1)" "activeId w1 = OperationIdPrimaryDbCountSpecEnforcement"
  shows "\<exists>ss w2. controller_enforceSpec clk srv w = (Ok, w2) \<and> service_step ss w1 w2"
proof -
  obtain ss w2 where s: "Services_EnforceSpec srv w1 = (Ok, w2)" "service_step ss w1 w2" using Services_accepted [OF assms(1)] by blast
  note f = service_step_fields [OF s(2)]
  have "same_context w1 w2" by (simp add: f same_context_def)
  then have "BackUpCronJob_EnforceSpec srv w2 = (Ok, w2)" using assms(4) backup_met_cong by (intro BackUp_idle) blast
  moreover have "AllStatefulSets_EnforceSpec addStatefulSetSpecEnforcers (clk_enforce clk) srv w2 = (Ok, w2)"
    using assms(8) by (simp add: AllStatefulSets_EnforceSpec_def op_defs f activeId_def)
  moreover have "ReplicaDbCountSpecEnforcer_Enforce (clk_enforce clk) srv w1 = (Ok, w1)"
    using assms(8) by (simp add: ReplicaDbCountSpecEnforcer_Enforce_def op_defs activeId_def)
  moreover have "BaseConfigMap_EnforceSpec (clk_enforce clk) srv w = (Ok, w)"
    using assms(3,5) BaseConfigMap_idle by (auto simp: BaseConfigMap_EnforceSpec_def op_defs activeId_def)
  ultimately show ?thesis
    using s assms(7) Primary_fails_over [OF assms(2,5,6)]
    by (intro exI [of _ ss] exI [of _ w2]) (simp add: controller_enforceSpec_def enforceResourcesCountSpec_def
        ResourcesCount_EnforceSpec_def addResourcesCountSpecEnforcers_def AddSpecEnforcer_def enforceAllStatefulSetsSpec_def
        StatefulSetCount_EnforceSpec_def)
qed

text \<open>The first phase: the primary is deleted and the operator starts to wait.\<close>

lemma FailOver_waits:
  assumes "replaceable w" "find sw_IsReady (GetAllSortedByInstanceIndex (rep_All (w_Replicas w))) = Some s" "activeId w = ''''"
    and "registered_as w (OperationIdPrimaryDbCountSpecEnforcement, OperationStepIdPrimaryDbWaitingBeforeFailingOver, 10, b)"
  shows "\<exists>w1. FailOver now srv w = (Ok, w1) \<and>
    begun OperationIdPrimaryDbCountSpecEnforcement OperationStepIdPrimaryDbWaitingBeforeFailingOver (sw_InstanceIndex s) (int64 (now + 10)) w w1 \<and>
    w_calls w1 = w_calls w @ [DeleteStatefulSet (sw_StatefulSet (w_Primary w))] \<and>
    status_EnforcedReplicas (w_status w1) = status_EnforcedReplicas (w_status w) \<and>
    status_LastCreatedInstanceIndex (w_status w1) = status_LastCreatedInstanceIndex (w_status w)"
proof -
  let ?d = "deletePrimaryStatefulSet srv w"
  have g: "getConfig ope ?d = getConfig ope w" for ope by (rule getConfig_cong) simp_all
  have "registered_as ?d (OperationIdPrimaryDbCountSpecEnforcement, OperationStepIdPrimaryDbWaitingBeforeFailingOver, 10, b)"
    using assms(4) by (simp add: registered_as_def doesOperationHaveAssociatedConfig_def g)
  moreover have "activeId ?d \<in> {'''', OperationIdPrimaryDbCountSpecEnforcement}" using assms(3) by (simp add: activeId_def)
  ultimately obtain w1 where w1: "ActivateOperationOnStatefulSet now OperationIdPrimaryDbCountSpecEnforcement
      OperationStepIdPrimaryDbWaitingBeforeFailingOver (sw_InstanceIndex s) ?d = (Ok, w1)"
    "begun OperationIdPrimaryDbCountSpecEnforcement OperationStepIdPrimaryDbWaitingBeforeFailingOver (sw_InstanceIndex s) (int64 (now + 10)) ?d w1"
    "w_calls w1 = w_calls ?d" "status_EnforcedReplicas (w_status w1) = status_EnforcedReplicas (w_status ?d)"
    "status_LastCreatedInstanceIndex (w_status w1) = status_LastCreatedInstanceIndex (w_status ?d)"
    using Activate_begun by blast
  have "FailOver now srv w = (Ok, w1)"
    using assms(3) w1(1) replaceable_selects [OF assms(1,2)]
    by (simp add: FailOver_def op_defs activeId_def hasLastFailOverAttemptTimedOut_def isWaitingBeforeStartingFailOver_def
        waitBeforePromotingReplicaToPrimary_def operation_id_defs)
  then show ?thesis using w1(2-5) by (simp add: begun_def same_context_def)
qed

text \<open>The second phase: the ready replica with the lowest index becomes the primary.\<close>

lemma FailOver_promotes:
  assumes "accepts srv" "replaceable w" "find sw_IsReady (GetAllSortedByInstanceIndex (rep_All (w_Replicas w))) = Some s"
    and "isWaitingBeforeStartingFailOver w" "\<not> op_HasTimedOut (w_activeOperation w)"
    and "registered_as w (OperationIdPrimaryDbCountSpecEnforcement, OperationStepIdPrimaryDbFailingOver, 300, b)"
    and "promoted (cfs_ConfigLocations (rs_Config (w_states w))) (sw_StatefulSet s) = Some p"
  shows "\<exists>w0 w1. FailOver now srv w = (Ok, w1) \<and> w0 = w\<lparr>w_states := share s (s\<lparr>sw_StatefulSet := p\<rparr>) (w_states w)\<rparr> \<and>
    begun OperationIdPrimaryDbCountSpecEnforcement OperationStepIdPrimaryDbFailingOver (sw_InstanceIndex s) (int64 (now + 300)) w0 w1 \<and>
    w_calls w1 = w_calls w @ [UpdateStatefulSet p] \<and>
    status_EnforcedReplicas (w_status w1) = status_EnforcedReplicas (w_status w) \<and>
    status_LastCreatedInstanceIndex (w_status w1) = status_LastCreatedInstanceIndex (w_status w)"
proof -
  let ?w0 = "w\<lparr>w_states := share s (s\<lparr>sw_StatefulSet := p\<rparr>) (w_states w)\<rparr>"
  have a: "op_OperationId (w_activeOperation w) = OperationIdPrimaryDbCountSpecEnforcement"
    using assms(4) by (simp add: isWaitingBeforeStartingFailOver_def op_defs)
  have g: "getConfig ope ?w0 = getConfig ope w" for ope by (rule getConfig_cong) simp_all
  have "registered_as ?w0 (OperationIdPrimaryDbCountSpecEnforcement, OperationStepIdPrimaryDbFailingOver, 300, b)"
    using assms(6) by (simp add: registered_as_def doesOperationHaveAssociatedConfig_def g)
  moreover have "activeId ?w0 \<in> {'''', OperationIdPrimaryDbCountSpecEnforcement}" using a by (simp add: activeId_def)
  ultimately obtain w1 where w1: "ActivateOperationOnStatefulSet now OperationIdPrimaryDbCountSpecEnforcement
      OperationStepIdPrimaryDbFailingOver (sw_InstanceIndex s) ?w0 = (Ok, w1)"
    "begun OperationIdPrimaryDbCountSpecEnforcement OperationStepIdPrimaryDbFailingOver (sw_InstanceIndex s) (int64 (now + 300)) ?w0 w1"
    "w_calls w1 = w_calls ?w0" "status_EnforcedReplicas (w_status w1) = status_EnforcedReplicas (w_status ?w0)"
    "status_LastCreatedInstanceIndex (w_status w1) = status_LastCreatedInstanceIndex (w_status ?w0)"
    using Activate_begun by blast
  let ?w2 = "(InfoEvent ''FailOver'' w1)\<lparr>w_calls := w_calls w1 @ [UpdateStatefulSet p]\<rparr>"
  have "promoteReplicaToPrimary now srv s w = (Ok, ?w2)"
    using assms(1,7) w1(1) by (simp add: promoteReplicaToPrimary_def client_write_def accepts_def Let_def)
  then have "FailOver now srv w = (Ok, ?w2)"
    using assms(4,5) a replaceable_selects [OF assms(2,3)]
    by (simp add: FailOver_def op_defs hasLastFailOverAttemptTimedOut_def)
  then show ?thesis using w1(2-5) by (simp add: begun_def same_context_def)
qed

section \<open>Loading the operation of a fail-over\<close>

lemma context_primary_config:
  assumes "op_OperationId ope = OperationIdPrimaryDbCountSpecEnforcement"
  shows "op_StepId ope = OperationStepIdPrimaryDbWaitingBeforeFailingOver \<Longrightarrow>
      getConfig ope (context_of srv k rs) = CreateOperationConfigWaitingBeforeForFailingOver"
    and "op_StepId ope = OperationStepIdPrimaryDbFailingOver \<Longrightarrow>
      getConfig ope (context_of srv k rs) = CreateOperationConfigForFailingOver rs"
  using assms
  by (simp_all add: getConfig_def context_of_def addBlockingOperationConfigs_def Let_def w_configs_AddConfig config_defs
      config_id_neqs config_id_neqs_rev)

lemma transition_status [simp]:
  "status_EnforcedReplicas (w_status (setActiveOperationInTransition b w)) = status_EnforcedReplicas (w_status w)"
  "status_LastCreatedInstanceIndex (w_status (setActiveOperationInTransition b w)) = status_LastCreatedInstanceIndex (w_status w)"
  "kg_meta (w_kubegres (setActiveOperationInTransition b w)) = kg_meta (w_kubegres w)"
  "w_statusFieldsToUpdate (setActiveOperationInTransition b w) \<noteq> None"
  by (simp_all add: setActiveOperationInTransition_def Let_def)

text \<open>When the ten seconds are over, the operation is in the transition to the promotion.\<close>

lemma waiting_over:
  assumes "on_instance OperationIdPrimaryDbCountSpecEnforcement OperationStepIdPrimaryDbWaitingBeforeFailingOver i d
      (status_BlockingOperation (kg_Status k))"
    and "clock_ok clk" "0 \<le> d" "d \<le> clk_timed_out clk"
  shows "\<exists>v. LoadActiveOperation (clk_timed_out clk) (clk_completed clk) (clk_left clk) (context_of srv k rs) = (0, v) \<and>
    load_step (context_of srv k rs) v \<and> isWaitingBeforeStartingFailOver v \<and> \<not> op_HasTimedOut (w_activeOperation v) \<and>
    \<not> load_panics clk srv (context_of srv k rs)"
proof -
  let ?w = "context_of srv k rs" and ?ope = "status_BlockingOperation (kg_Status k)"
  let ?u = "loadOperations ?w"
  let ?m = "?u\<lparr>w_activeOperation := ?ope\<lparr>op_HasTimedOut := True\<rparr>\<rparr>"
  let ?v = "setActiveOperationInTransition True ?m"
  note o = assms(1) [unfolded on_instance_def]
  have u: "w_activeOperation ?u = ?ope" "w_configs ?u = w_configs ?w"
    by (simp_all add: loadOperations_def status_defs context_of_fields)
  have "int64 (d - clk_timed_out clk) = d - clk_timed_out clk"
    using assms(2-4) by (intro int64_id) (auto simp: in_int64_def clock_ok_def)
  then have out: "hasOperationTimedOut (clk_timed_out clk) ?u" using o assms(4) by (simp add: hasOperationTimedOut_def u)
  have "getConfig (?ope\<lparr>op_HasTimedOut := True\<rparr>) ?m = getConfig ?ope ?w" by (rule getConfig_cong) (simp_all add: u)
  then have cfg: "getConfig (?ope\<lparr>op_HasTimedOut := True\<rparr>) ?m = CreateOperationConfigWaitingBeforeForFailingOver"
    using context_primary_config(1) o by simp
  have "removeOperationIfNotActive (clk_timed_out clk) (clk_completed clk) ?u = ?v"
    using out cfg o by (simp add: removeOperationIfNotActive_def isThereActiveOperation_def isOperationInTransition_def u
        hasCompletionChecker_def shouldOperationBeInTransition_def CreateOperationConfigWaitingBeforeForFailingOver_def operation_id_defs)
  then have "LoadActiveOperation (clk_timed_out clk) (clk_completed clk) (clk_left clk) ?w = (0, ?v)"
    by (simp add: LoadActiveOperation_def GetNbreSecondsLeftBeforeTimeOut_def)
  moreover have "load_step ?w ?v" using load_step_load [of ?w] by (simp add: load_step_def same_context_def)
  moreover have "\<not> load_panics clk srv ?w" using out by (simp add: load_panics_def)
  ultimately show ?thesis using o by (intro exI [of _ ?v]) (simp add: isWaitingBeforeStartingFailOver_def op_defs)
qed

text \<open>After forty seconds a ready new primary completes the fail-over, and a time-out does not hold it back.\<close>

lemma failing_over_elapsed:
  assumes "on_instance OperationIdPrimaryDbCountSpecEnforcement OperationStepIdPrimaryDbFailingOver i d
      (status_BlockingOperation (kg_Status k))"
    and "0 < d" "d < 2 ^ 62 + 300" "0 \<le> t" "t < d"
  shows "isOperationCompletionConditionReached t (loadOperations (context_of srv k rs)) =
    (d \<le> t + 260 \<and> sw_IsReady (rs_Primary rs), loadOperations (context_of srv k rs))"
proof -
  let ?w = "context_of srv k rs" and ?ope = "status_BlockingOperation (kg_Status k)"
  let ?u = "loadOperations ?w"
  note o = assms(1) [unfolded on_instance_def]
  have u: "w_activeOperation ?u = ?ope" "w_configs ?u = w_configs ?w"
    by (simp_all add: loadOperations_def status_defs context_of_fields)
  have cfg: "getConfig ?ope ?u = CreateOperationConfigForFailingOver rs"
    using getConfig_cong [OF u(2), of ?ope ?ope] context_primary_config(2) o by simp
  have "int64 (d - t) = d - t" using assms(2-5) by (intro int64_id) (auto simp: in_int64_def)
  then have "GetNbreSecondsLeftBeforeTimeOut t ?u = d - t"
    using o assms(2,5) by (simp add: GetNbreSecondsLeftBeforeTimeOut_def u)
  moreover have "int64 (300 - (d - t)) = 300 - (d - t)" using assms(2-5) by (intro int64_id) (auto simp: in_int64_def)
  ultimately have "GetNbreSecondsSinceOperationHasStarted t ?u = 300 - (d - t)"
    using cfg by (simp add: GetNbreSecondsSinceOperationHasStarted_def u CreateOperationConfigForFailingOver_def)
  then show ?thesis
    using cfg by (auto simp: isOperationCompletionConditionReached_def u CreateOperationConfigForFailingOver_def isFailOverCompleted_def
        record_events_def)
qed

lemma failover_over:
  assumes "on_instance OperationIdPrimaryDbCountSpecEnforcement OperationStepIdPrimaryDbFailingOver i d
      (status_BlockingOperation (kg_Status k))"
    and "clock_ok clk" "clk_completed clk = clk_timed_out clk" "0 < d" "d < 2 ^ 62 + 300" "d \<le> clk_timed_out clk + 260"
    and "sw_IsReady (rs_Primary rs)"
  shows "releases clk srv k rs"
proof -
  let ?w = "context_of srv k rs" and ?ope = "status_BlockingOperation (kg_Status k)"
  let ?u = "loadOperations ?w"
  note o = assms(1) [unfolded on_instance_def] and t = assms(2) [unfolded clock_ok_def]
  have u: "w_activeOperation ?u = ?ope" "w_configs ?u = w_configs ?w"
    by (simp_all add: loadOperations_def status_defs context_of_fields)
  have cfg: "getConfig ope v = CreateOperationConfigForFailingOver rs"
    if "w_configs v = w_configs ?w" "op_OperationId ope = op_OperationId ?ope" "op_StepId ope = op_StepId ?ope" for ope v
    using getConfig_cong [OF that] context_primary_config(2) o by simp
  have np: "\<not> load_panics clk srv ?w" using o by (simp add: load_panics_def completion_checker_panics_def u)
  have i64: "int64 (d - t) = d - t" if "0 \<le> t" "t < 2 ^ 63" for t
    using assms(4,5) that by (intro int64_id) (auto simp: in_int64_def)
  have out: "hasOperationTimedOut (clk_timed_out clk) ?u \<longleftrightarrow> d \<le> clk_timed_out clk"
    using o t i64 [of "clk_timed_out clk"] by (simp add: hasOperationTimedOut_def u)
  show ?thesis
  proof (cases "d \<le> clk_timed_out clk")
    case True
    let ?m = "?u\<lparr>w_activeOperation := ?ope\<lparr>op_HasTimedOut := True\<rparr>\<rparr>"
    let ?w1 = "InfoEvent ''BlockingOperationTimedOut'' ?m"
    have "removeOperationIfNotActive (clk_timed_out clk) (clk_completed clk) ?u = ?w1"
      using True out o cfg [of ?m "?ope\<lparr>op_HasTimedOut := True\<rparr>"] u
      by (simp add: removeOperationIfNotActive_def isThereActiveOperation_def isOperationInTransition_def hasCompletionChecker_def
          CreateOperationConfigForFailingOver_def operation_id_defs)
    moreover have "GetNbreSecondsLeftBeforeTimeOut (clk_left clk) ?w1 = 0"
      using True o t i64 [of "clk_left clk"] by (auto simp: GetNbreSecondsLeftBeforeTimeOut_def u)
    moreover have "frees ?w1 (InfoEvent ''KubegresReEnabled'' (RemoveActiveOperation ?w1))" using o by (simp add: frees_def op_defs)
    moreover have "load_step ?w ?w1" using load_step_load [of ?w] by (simp add: load_step_def same_context_def)
    ultimately show ?thesis using np by (auto simp: releases_def LoadActiveOperation_def)
  next
    case False
    then have "isOperationCompletionConditionReached (clk_completed clk) ?u = (True, ?u)"
      using failing_over_elapsed [OF assms(1,4,5)] t assms(3,6,7) by simp
    then have "removeOperationIfNotActive (clk_timed_out clk) (clk_completed clk) ?u =
        removeActiveOperation False (InfoEvent ''BlockingOperationCompleted'' ?u)"
      using False out o cfg [of "InfoEvent ''BlockingOperationCompleted'' ?u" ?ope] u
      by (simp add: removeOperationIfNotActive_def isThereActiveOperation_def isOperationInTransition_def
          shouldOperationBeInTransition_def CreateOperationConfigForFailingOver_def operation_id_defs)
    moreover have "load_step ?w (removeActiveOperation False (InfoEvent ''BlockingOperationCompleted'' ?u))"
      using load_step_load [of ?w] by (auto simp: load_step_def same_context_def)
    ultimately show ?thesis using np
      by (auto simp: releases_def LoadActiveOperation_def GetNbreSecondsLeftBeforeTimeOut_def zero_Operation_def frees_def activeId_def)
  qed
qed

text \<open>Until then nothing happens.\<close>

lemma failover_pending:
  assumes "on_instance OperationIdPrimaryDbCountSpecEnforcement step i d (status_BlockingOperation (kg_Status k))"
    and "clock_ok clk" "clk_completed clk = clk_timed_out clk" "clk_left clk = clk_timed_out clk" "d < 2 ^ 62 + 300"
    and "step = OperationStepIdPrimaryDbWaitingBeforeFailingOver \<and> clk_timed_out clk < d \<or>
      step = OperationStepIdPrimaryDbFailingOver \<and> clk_timed_out clk + 260 < d"
  shows "\<exists>r w. reconcile_context clk srv (context_of srv k rs) = (r, w) \<and> w_calls w = []"
proof -
  let ?w = "context_of srv k rs" and ?ope = "status_BlockingOperation (kg_Status k)"
  let ?u = "loadOperations ?w"
  note o = assms(1) [unfolded on_instance_def] and t = assms(2) [unfolded clock_ok_def]
  have u: "w_activeOperation ?u = ?ope" "w_configs ?u = w_configs ?w"
    by (simp_all add: loadOperations_def status_defs context_of_fields)
  have "\<not> fst (isOperationCompletionConditionReached (clk_completed clk) ?u)"
    using assms(6)
  proof
    assume s: "step = OperationStepIdPrimaryDbWaitingBeforeFailingOver \<and> clk_timed_out clk < d"
    then have "getConfig ?ope ?u = CreateOperationConfigWaitingBeforeForFailingOver"
      using getConfig_cong [OF u(2), of ?ope ?ope] context_primary_config(1) o by simp
    then show ?thesis by (simp add: isOperationCompletionConditionReached_def u CreateOperationConfigWaitingBeforeForFailingOver_def)
  next
    assume s: "step = OperationStepIdPrimaryDbFailingOver \<and> clk_timed_out clk + 260 < d"
    then show ?thesis using failing_over_elapsed [of i d k "clk_completed clk"] assms(1,3,5) t by simp
  qed
  moreover have "\<not> load_panics clk srv ?w" using o by (simp add: load_panics_def completion_checker_panics_def u)
  moreover have "in_int64 d" using assms(5,6) t by (auto simp: in_int64_def)
  moreover have "step \<noteq> TransitionOperationStepId" "clk_timed_out clk < d" using assms(6) by auto
  ultimately show ?thesis
    using reconcile_context_running [of k ?ope clk srv rs] o t assms(4) by (auto simp: operation_id_defs)
qed

lemma reconcile_fails_over:
  assumes "accepts srv" "\<not> load_panics clk srv w"
    and "LoadActiveOperation (clk_timed_out clk) (clk_completed clk) (clk_left clk) w = (0, v)"
    and "CheckSpec srv v = (Val r, v)" "\<not> HasSpecFatalError r"
    and "controller_enforceSpec clk srv v = (Ok, w2)" "service_step ss w1 w2" "w_statusFieldsToUpdate w1 \<noteq> None"
  shows "\<exists>w'. reconcile_context clk srv w = ((zero_Result, Ok), w') \<and>
    w_calls w' = w_calls w1 @ map CreateService ss @ [UpdateKubegresStatus (w_kubegres w1)]"
proof -
  note f = service_step_fields [OF assms(7)]
  obtain w' where "returnn srv zero_Result Ok w2 = ((zero_Result, Ok), w')" "w_calls w' = w_calls w2 @ [UpdateKubegresStatus (w_kubegres w2)]"
    using returnn_sends [OF assms(1)] assms(8) f(6) by metis
  then show ?thesis using assms(2-6) by (simp add: reconcile_context_def f)
qed

section \<open>The promoted StatefulSet\<close>

lemma promoted_cases:
  assumes "promoted locs s = Some p"
  obtains i rest where "ps_InitContainers (sts_PodSpec s) = i # rest" "md_Labels (sts_meta s) \<noteq> []" "sts_TemplateLabels s \<noteq> []"
    and "p = s\<lparr>sts_meta := (sts_meta s)\<lparr>md_Labels := AList.update ''replicationRole'' PrimaryRoleName (md_Labels (sts_meta s))\<rparr>,
      sts_Template := (sts_Template s)\<lparr>pt_Labels := AList.update ''replicationRole'' PrimaryRoleName (sts_TemplateLabels s),
        pt_Spec := (sts_PodSpec s)\<lparr>ps_InitContainers := i\<lparr>
           ctr_VolumeMounts := ctr_VolumeMounts i @ [\<lparr>vm_Name = loc_PromoteReplica locs, vm_MountPath = ''/tmp/promote_replica_to_primary.sh'',
             vm_SubPath = ConfigMapDataKeyPromoteReplica, vm_rest = KNull\<rparr>],
           ctr_Command := [''sh'', ''-c'', ''/tmp/promote_replica_to_primary.sh'']\<rparr> # rest\<rparr>\<rparr>\<rparr>"
  using assms that by (cases "ps_InitContainers (sts_PodSpec s)")
    (auto simp: promoted_def bind_eq_Some_conv map_set_def split: if_splits)

lemma extractCustom_role: "extractCustom (AList.update ''replicationRole'' v m) = extractCustom m"
  by (induction m) (auto simp: extractCustom_def annotationPrefix_def)

text \<open>Only the role, and the mounts and the command of the first init container change.\<close>

lemma promoted_keeps:
  assumes "promoted locs s = Some p"
  shows "sts_ReadyReplicas p = sts_ReadyReplicas s" "index_of p = index_of s" "has_index p = has_index s"
    "sts_VolumeClaimTemplates p = sts_VolumeClaimTemplates s" "ps_Containers (sts_PodSpec p) = ps_Containers (sts_PodSpec s)"
    "getCustomMetadata (sts_meta p) = getCustomMetadata (sts_meta s)"
  using assms promoted_names [OF assms]
  by (auto simp: index_of_def has_index_def getCustomMetadata_def extractCustom_role elim!: promoted_cases)

lemma promoted_matches:
  assumes "promoted locs s = Some p"
  shows "matches_primary srv spec p = matches_primary srv spec s" "primary_shape p m claim cls = primary_shape s m claim cls"
  by (simp_all add: matches_primary_def primary_shape_def primary_VolumeMount_def primary_ClaimSpec_def claims_match_def
      promoted_keeps [OF assms])

lemma promoted_config_settled:
  assumes "promoted locs s = Some p" "config_settled w s"
  shows "config_settled w p"
proof -
  have "mounts_ok loc key p" if "mounts_ok loc key s" "(loc, key) \<in> set (config_mounts l)" for loc key l
  proof -
    have "key \<noteq> ConfigMapDataKeyPromoteReplica"
      using that(2) by (auto simp: config_mounts_def ConfigMapDataKeyPromoteReplica_def ConfigMapDataKeyPostgresConf_def
          ConfigMapDataKeyPrimaryInitScript_def ConfigMapDataKeyPgHbaConf_def ConfigMapDataKeyCopyPrimaryDataToReplica_def
          ConfigMapDataKeyPrimaryCreateReplicaRole_def)
    with that(1) assms(1) show ?thesis by (fastforce simp: mounts_ok_def elim!: promoted_cases)
  qed
  moreover have "volume_ok w p = volume_ok w s" using assms(1) by (auto simp: volume_ok_def elim!: promoted_cases)
  ultimately show ?thesis using assms(2) promoted_keeps(5) [OF assms(1)] by (auto simp: config_settled_def)
qed

lemma promoted_agrees:
  assumes "promoted locs s = Some p" "agrees srv w s" "IsReservedVolumeName (loc_PromoteReplica locs)"
  shows "agrees srv w p"
proof -
  obtain i where i: "init0 s = Some i"
    "init0 p = Some (i\<lparr>ctr_VolumeMounts := ctr_VolumeMounts i @ [\<lparr>vm_Name = loc_PromoteReplica locs,
        vm_MountPath = ''/tmp/promote_replica_to_primary.sh'', vm_SubPath = ConfigMapDataKeyPromoteReplica, vm_rest = KNull\<rparr>],
       ctr_Command := [''sh'', ''-c'', ''/tmp/promote_replica_to_primary.sh'']\<rparr>)"
    using assms(1) by (auto simp: init0_def elim!: promoted_cases)
  have k: "ps_Affinity (sts_PodSpec p) = ps_Affinity (sts_PodSpec s)" "ps_Tolerations (sts_PodSpec p) = ps_Tolerations (sts_PodSpec s)"
    "ps_SecurityContext (sts_PodSpec p) = ps_SecurityContext (sts_PodSpec s)"
    "ps_ServiceAccountName (sts_PodSpec p) = ps_ServiceAccountName (sts_PodSpec s)" "ps_Volumes (sts_PodSpec p) = ps_Volumes (sts_PodSpec s)"
    using assms(1) by (auto elim!: promoted_cases)
  have c: "container0 p = container0 s" by (simp add: container0_def promoted_keeps [OF assms(1)])
  have v: "getCurrentCustomVolumes p = getCurrentCustomVolumes s" by (simp add: getCurrentCustomVolumes_def k)
  have m: "getCustomMetadata (sts_meta p) = getCustomMetadata (sts_meta s)" by (rule promoted_keeps(6) [OF assms(1)])
  have "config_settled w s" using assms(2) by (simp add: agrees_def registry_defs settled_iff)
  then have "config_settled w p" by (rule promoted_config_settled [OF assms(1)])
  with assms(2,3) show ?thesis
    by (simp add: agrees_def registry_defs settled_iff c v m i k custom_mounts_def)
qed

section \<open>A cluster without a ready primary\<close>

text \<open>The parts of the resource and of its environment that fail-over relies on and that no reconciliation here changes.\<close>

definition sound :: "server \<Rightarrow> (StatefulSet \<Rightarrow> Pod) \<Rightarrow> DbStorageClassStates \<Rightarrow> ConfigStates \<Rightarrow> BackUpStates \<Rightarrow> int \<Rightarrow> cluster \<Rightarrow> bool" where
  "sound base pod_of dsc cfs bus n c \<longleftrightarrow> (let spec = kg_Spec (cl_kubegres c); w = cluster_context base pod_of dsc cfs bus c in
     accepts base \<and> environment base spec (kg_meta (cl_kubegres c)) dsc cfs bus \<and>
     srv_parse_quantity base (db_Size (spec_Database spec)) \<noteq> None \<and> spec_Replicas spec = Some n \<and> defaults_set spec \<and>
     \<not> standby_Enabled (spec_Standby spec) \<and> failover_PromotePod (spec_Failover spec) = '''' \<and> \<not> failover_IsDisabled (spec_Failover spec) \<and>
     spec_ok w \<and> isBaseConfigDeployed w \<and> backup_met w)"

text \<open>A ready replica that the operator can turn into the primary.\<close>

definition promotable :: "server \<Rightarrow> KubegresSpec \<Rightarrow> ConfigLocations \<Rightarrow> StatefulSet \<Rightarrow> bool" where
  "promotable base spec locs s \<longleftrightarrow> 0 < sts_ReadyReplicas s \<and> matches_primary base spec s \<and>
     (\<exists>m claim cls. primary_shape s m claim cls) \<and> promoted locs s \<noteq> None"

abbreviation replica_sets :: "cluster \<Rightarrow> StatefulSet list" where
  "replica_sets c \<equiv> filter (\<lambda>s. \<not> isPrimary s) (cl_StatefulSets c)"

definition leaderless :: "server \<Rightarrow> (StatefulSet \<Rightarrow> Pod) \<Rightarrow> DbStorageClassStates \<Rightarrow> ConfigStates \<Rightarrow> BackUpStates \<Rightarrow> int \<Rightarrow> cluster \<Rightarrow> bool" where
  "leaderless base pod_of dsc cfs bus n c \<longleftrightarrow> sound base pod_of dsc cfs bus n c \<and>
     numbered (cl_kubegres c) (replica_sets c) \<and> replica_sets c \<noteq> [] \<and>
     (\<forall>s \<in> set (replica_sets c). promotable base (kg_Spec (cl_kubegres c)) (cfs_ConfigLocations cfs) s) \<and>
     capacity (c\<lparr>cl_StatefulSets := replica_sets c\<rparr>) n \<and>
     int (length (replica_sets c)) \<le> status_EnforcedReplicas (kg_Status (cl_kubegres c))"

text \<open>
  The primary is not ready, no operation is stored. Then, after the first reconciliation, the primary
  is gone and the operator waits until \<open>deadline\<close>.
\<close>

definition failing :: "server \<Rightarrow> (StatefulSet \<Rightarrow> Pod) \<Rightarrow> DbStorageClassStates \<Rightarrow> ConfigStates \<Rightarrow> BackUpStates \<Rightarrow> int \<Rightarrow> cluster \<Rightarrow> bool" where
  "failing base pod_of dsc cfs bus n c \<longleftrightarrow> leaderless base pod_of dsc cfs bus n c \<and> length (cl_StatefulSets c) < 2147483648 \<and>
     status_BlockingOperation (kg_Status (cl_kubegres c)) = zero_Operation \<and>
     (\<exists>p. filter isPrimary (cl_StatefulSets c) = [p] \<and> \<not> 0 < sts_ReadyReplicas p \<and> has_index p \<and> sts_Name p \<notin> sts_Name ` set (replica_sets c) \<and>
        matches_primary base (kg_Spec (cl_kubegres c)) p \<and> (\<exists>m claim cls. primary_shape p m claim cls))"

definition waiting :: "server \<Rightarrow> (StatefulSet \<Rightarrow> Pod) \<Rightarrow> DbStorageClassStates \<Rightarrow> ConfigStates \<Rightarrow> BackUpStates \<Rightarrow> int \<Rightarrow> int \<Rightarrow> cluster \<Rightarrow> bool" where
  "waiting base pod_of dsc cfs bus n deadline c \<longleftrightarrow> leaderless base pod_of dsc cfs bus n c \<and> filter isPrimary (cl_StatefulSets c) = [] \<and>
     (\<exists>i. on_instance OperationIdPrimaryDbCountSpecEnforcement OperationStepIdPrimaryDbWaitingBeforeFailingOver i deadline
        (status_BlockingOperation (kg_Status (cl_kubegres c))))"

lemma sound_next:
  assumes "sound base pod_of dsc cfs bus n c" "cl_kubegres c' = (cl_kubegres c)\<lparr>kg_Status := st\<rparr>"
  shows "sound base pod_of dsc cfs bus n c'"
proof -
  let ?w = "cluster_context base pod_of dsc cfs bus c" and ?w' = "cluster_context base pod_of dsc cfs bus c'"
  have s: "w_spec ?w' = w_spec ?w" "kg_meta (w_kubegres ?w') = kg_meta (w_kubegres ?w)"
    "rs_DbStorageClass (w_states ?w') = rs_DbStorageClass (w_states ?w)" "rs_Config (w_states ?w') = rs_Config (w_states ?w)"
    "rs_BackUp (w_states ?w') = rs_BackUp (w_states ?w)"
    by (simp_all add: cluster_context_def context_of_fields cluster_states_def assms(2))
  have "spec_ok ?w' = spec_ok ?w" by (simp add: spec_ok_def environment_ok_def instances_ok_def backup_ok_def volumes_ok_def s)
  moreover have "backup_met ?w' = backup_met ?w" using s by (intro backup_met_reading)
  ultimately show ?thesis using assms(1) by (simp add: sound_def Let_def isBaseConfigDeployed_def s assms(2))
qed

lemma leaderless_next:
  assumes "leaderless base pod_of dsc cfs bus n c" "cl_kubegres c' = (cl_kubegres c)\<lparr>kg_Status := st\<rparr>" "replica_sets c' = replica_sets c"
    and "status_EnforcedReplicas st = status_EnforcedReplicas (kg_Status (cl_kubegres c))"
    and "status_LastCreatedInstanceIndex st = status_LastCreatedInstanceIndex (kg_Status (cl_kubegres c))"
  shows "leaderless base pod_of dsc cfs bus n c'"
proof -
  have rn: "GetStatefulSetResourceName (cl_kubegres c') j = GetStatefulSetResourceName (cl_kubegres c) j" for j
    by (rule GetStatefulSetResourceName_cong) (simp add: assms(2))
  show ?thesis
    using assms(1) sound_next [OF _ assms(2)] unfolding leaderless_def assms(3) numbered_def rn
    by (simp add: assms(2,4,5) capacity_def)
qed

section \<open>The two reconciliations of a fail-over\<close>

lemma leaderless_world:
  assumes "leaderless base pod_of dsc cfs bus n c" "load_step (cluster_context base pod_of dsc cfs bus c) v"
    and "\<not> isPrimaryDbReady v" "length (filter isPrimary (cl_StatefulSets c)) \<le> 1" "length (cl_StatefulSets c) < 2147483648"
  obtains s where "replaceable v" "s \<in> set (replica_sets c)" "\<forall>t \<in> set (replica_sets c). index_of s \<le> index_of t"
    and "find sw_IsReady (GetAllSortedByInstanceIndex (rep_All (w_Replicas v))) = Some (wrap (map wrap_pod (map pod_of (cl_StatefulSets c))) s)"
proof -
  let ?ss = "cl_StatefulSets c"
  let ?pods = "map wrap_pod (map pod_of ?ss)" and ?reps = "GetAllSortedByInstanceIndex (rep_All (w_Replicas v))"
  note l = assms(1) [unfolded leaderless_def]
  have st: "w_states v = cluster_states pod_of dsc cfs bus c" "w_spec v = kg_Spec (cl_kubegres c)"
    "status_EnforcedReplicas (w_status v) = status_EnforcedReplicas (kg_Status (cl_kubegres c))"
    using assms(2) by (simp_all add: load_step_def same_context_def cluster_context_def context_of_fields)
  have ready: "\<forall>s \<in> set (replica_sets c). 0 < sts_ReadyReplicas s" using l by (simp add: promotable_def)
  have "filter (\<lambda>s. 0 < sts_ReadyReplicas s) (replica_sets c) = replica_sets c" using ready unfolding filter_id_conv .
  then have "isThereReadyReplica v"
    using l by (simp del: filter_filter add: isThereReadyReplica_def st(1) cluster_states_def loaded_def Let_def capacity_def int32_id in_int32_def)
  then have "replaceable v"
    using l assms(3) by (cases "replica_sets c") (auto simp: replaceable_def isStandbyEnabled_def isAutomaticFailoverDisabled_def st sound_def Let_def
        isNewPrimaryRequired_def)
  moreover have reps: "set ?reps = wrap ?pods ` set (replica_sets c)"
    using cluster_replicas [of pod_of dsc cfs bus c] by (simp add: st(1))
  have "\<exists>x \<in> set ?reps. sw_IsReady x" using reps ready l by (cases "replica_sets c") auto
  then obtain x where x: "find sw_IsReady ?reps = Some x" by (cases "find sw_IsReady ?reps") (auto simp: find_None_iff)
  then obtain s where s: "s \<in> set (replica_sets c)" "x = wrap ?pods s" using reps find_SomeD [OF x] by blast
  have "states_wf (rs_StatefulSets (w_states v))"
    using loaded_wf [of ?ss "the (spec_Replicas (kg_Spec (cl_kubegres c)))" ?pods] assms(4,5) by (simp add: st(1) cluster_states_def)
  then have sorted: "sorted (map sw_InstanceIndex ?reps)" by (simp add: states_wf_def Let_def)
  have "index_of s \<le> index_of t" if "t \<in> set (replica_sets c)" for t
    using first_ready_least [OF x sorted, of "wrap ?pods t"] reps ready that by (simp add: s(2))
  ultimately show thesis using that s x by blast
qed

text \<open>What such a reconciliation does to the cluster.\<close>

lemma failover_round:
  fixes base :: server
  assumes "sound base pod_of dsc cfs bus n c" "length (cl_StatefulSets c) < 2147483648"
    and "\<forall>s \<in> set (cl_StatefulSets c). has_index s" "length (filter isPrimary (cl_StatefulSets c)) \<le> 1"
  defines "srv \<equiv> cluster_server base pod_of c" and "w \<equiv> cluster_context base pod_of dsc cfs bus c"
  assumes "\<not> load_panics clk srv w" "load_step w v"
    and "LoadActiveOperation (clk_timed_out clk) (clk_completed clk) (clk_left clk) w = (0, v)"
    and "primary_ready v \<Longrightarrow> matches_primary srv (w_spec v) (sw_StatefulSet (getPrimaryStatefulSet v)) \<and>
      (\<exists>m claim cls. primary_shape (sw_StatefulSet (getPrimaryStatefulSet v)) m claim cls)"
    and "replaceable v" "activeId v \<in> {'''', OperationIdPrimaryDbCountSpecEnforcement}" "\<not> op_HasTimedOut (w_activeOperation v)"
    and "FailOver (clk_enforce clk) srv v = (Ok, w1)" "begun OperationIdPrimaryDbCountSpecEnforcement step i d w0 w1"
    and "same_reading srv v srv w0" "rs_BackUp (w_states w0) = rs_BackUp (w_states v)"
    and "w_calls w1 = [call]" "cl_kubegres (apply_request call c) = cl_kubegres c"
  shows "cl_kubegres (reconcile_round base pod_of clk c) = (cl_kubegres c)\<lparr>kg_Status := w_status w1\<rparr> \<and>
    cl_StatefulSets (reconcile_round base pod_of clk c) = cl_StatefulSets (apply_request call c)"
proof -
  note so = assms(1) [unfolded sound_def Let_def, folded w_def]
  have ac: "accepts srv" using so by (simp add: srv_def cluster_server_accepts)
  have c: "same_context w v" using assms(8) by (simp add: load_step_def)
  have v: "w_spec v = kg_Spec (cl_kubegres c)" "spec_ok v" "isBaseConfigDeployed v"
    using so spec_ok_cong [OF c] by (simp_all add: isBaseConfigDeployed_def same_context_fields [OF c] w_def cluster_context_def context_of_fields)
  have ch: "checked_ok srv v" using v(2) assms(10) by (auto simp: checked_ok_def)
  have "\<exists>r. CheckSpec srv v = (Val r, v) \<and> \<not> HasSpecFatalError r"
  proof (cases "primary_ready v")
    case True
    then show ?thesis using CheckSpec_checked [OF _ _ _ ch] assms(10) ac so v(1) unfolding accepts_def by metis
  next
    case False
    then show ?thesis using CheckSpec_checked [OF _ _ _ ch] ac so v(1) unfolding accepts_def by metis
  qed
  then obtain r where r: "CheckSpec srv v = (Val r, v)" "\<not> HasSpecFatalError r" by blast
  have b: "same_context w0 w1" "w_statusFieldsToUpdate w1 \<noteq> None" "activeId w1 = OperationIdPrimaryDbCountSpecEnforcement"
    using assms(15) by (simp_all add: begun_def on_instance_def activeId_def)
  have "backup_met w1 = backup_met v"
    using assms(16,17) same_context_fields [OF b(1)] by (intro backup_met_reading) (simp_all add: same_reading_def)
  then have "backup_met w1" using so backup_met_cong [OF c] by simp
  then obtain ss w2 where w2: "controller_enforceSpec clk srv v = (Ok, w2)" "service_step ss w1 w2"
    using controller_fails_over [OF ac assms(11) v(3) _ assms(12,13,14) b(3)] by blast
  obtain w' where w': "reconcile_context clk srv w = ((zero_Result, Ok), w')"
    "w_calls w' = w_calls w1 @ map CreateService ss @ [UpdateKubegresStatus (w_kubegres w1)]"
    using reconcile_fails_over [OF ac assms(7,9) r w2 b(2)] by blast
  have "reconcile_round base pod_of clk c = fold apply_request (w_calls w') c"
    using so assms(2-4) w'(1) unfolding srv_def w_def by (intro loaded_round [where n = n and dsc = dsc and cfs = cfs and bus = bus]) auto
  then show ?thesis by (simp add: w'(2) assms(18,19) apply_services)
qed

text \<open>The failing primary is deleted, and the operator waits for ten seconds.\<close>

lemma round_deletes:
  assumes "failing base pod_of dsc cfs bus n c" "clock_ok clk"
  shows "waiting base pod_of dsc cfs bus n (clk_enforce clk + 10) (reconcile_round base pod_of clk c) \<and>
    cl_StatefulSets (reconcile_round base pod_of clk c) = replica_sets c \<and>
    (\<exists>st. cl_kubegres (reconcile_round base pod_of clk c) = (cl_kubegres c)\<lparr>kg_Status := st\<rparr> \<and>
      status_EnforcedReplicas st = status_EnforcedReplicas (kg_Status (cl_kubegres c)))"
proof -
  let ?srv = "cluster_server base pod_of c" and ?w = "cluster_context base pod_of dsc cfs bus c" and ?c = "reconcile_round base pod_of clk c"
  let ?v = "loadOperations ?w"
  note fa = assms(1) [unfolded failing_def]
  have ll: "leaderless base pod_of dsc cfs bus n c" "sound base pod_of dsc cfs bus n c" using fa by (auto simp: leaderless_def)
  obtain p where p: "filter isPrimary (cl_StatefulSets c) = [p]" "\<not> 0 < sts_ReadyReplicas p" "has_index p"
    "sts_Name p \<notin> sts_Name ` set (replica_sets c)" "matches_primary base (kg_Spec (cl_kubegres c)) p" "\<exists>m claim cls. primary_shape p m claim cls"
    using fa by blast
  have wf: "w_kubegres ?w = cl_kubegres c" "w_states ?w = cluster_states pod_of dsc cfs bus c" "w_calls ?w = []"
    by (simp_all add: cluster_context_def context_of_fields)
  have z: "status_BlockingOperation (w_status ?w) = zero_Operation" using fa by (simp add: wf)
  note load = LoadActiveOperation_idle [OF z]
  have id: "activeId ?v = ''''" "\<not> op_HasTimedOut (w_activeOperation ?v)"
    using z by (simp_all add: activeId_def loadOperations_def status_defs zero_Operation_def)
  have ls: "load_step ?w ?v" by (rule load_step_load)
  note prim = cluster_primary [OF p(1), of pod_of dsc cfs bus]
  have ix: "\<forall>s \<in> set (cl_StatefulSets c). has_index s"
  proof
    fix s
    assume s: "s \<in> set (cl_StatefulSets c)"
    show "has_index s"
    proof (cases "isPrimary s")
      case True
      with s have "s \<in> set (filter isPrimary (cl_StatefulSets c))" by simp
      with p(1,3) show ?thesis by simp
    qed (use s ll in \<open>simp add: leaderless_def numbered_def\<close>)
  qed
  have nr: "\<not> isPrimaryDbReady ?v" using p(2) by (simp add: isPrimaryDbReady_def wf prim)
  obtain s where s: "replaceable ?v" "find sw_IsReady (GetAllSortedByInstanceIndex (rep_All (w_Replicas ?v))) = Some s"
    by (rule leaderless_world [OF ll(1) ls nr]) (use p(1) fa in simp_all)
  have "registered_as ?v (OperationIdPrimaryDbCountSpecEnforcement, OperationStepIdPrimaryDbWaitingBeforeFailingOver, 10, True)"
    using ls unfolding cluster_context_def by (intro load_step_registers) (auto simp: operation_table_def)
  from FailOver_waits [OF s id(1) this, of "clk_enforce clk" ?srv] obtain w1 where w1: "FailOver (clk_enforce clk) ?srv ?v = (Ok, w1)"
    "begun OperationIdPrimaryDbCountSpecEnforcement OperationStepIdPrimaryDbWaitingBeforeFailingOver (sw_InstanceIndex s)
       (int64 (clk_enforce clk + 10)) ?v w1" "w_calls w1 = [DeleteStatefulSet p]"
    "status_EnforcedReplicas (w_status w1) = status_EnforcedReplicas (kg_Status (cl_kubegres c))"
    "status_LastCreatedInstanceIndex (w_status w1) = status_LastCreatedInstanceIndex (kg_Status (cl_kubegres c))"
    by (auto simp: wf prim)
  have t: "int64 (clk_enforce clk + 10) = clk_enforce clk + 10"
    using assms(2) by (intro int64_id) (auto simp: in_int64_def clock_ok_def)
  have np: "\<not> load_panics clk ?srv ?w" using id(1) by (simp add: load_panics_def isThereActiveOperation_def activeId_def)
  have m: "matches_primary ?srv (kg_Spec (cl_kubegres c)) p" using p(5) by (simp add: matches_primary_def cluster_server_def)
  have r: "cl_kubegres ?c = (cl_kubegres c)\<lparr>kg_Status := w_status w1\<rparr> \<and> cl_StatefulSets ?c = cl_StatefulSets (apply_request (DeleteStatefulSet p) c)"
    using p(1,6) m fa id load s(1) by (intro failover_round [OF ll(2) _ ix _ np ls _ _ _ _ _ w1(1,2) _ _ w1(3)])
      (simp_all add: getPrimaryStatefulSet_def prim wf same_reading_def)
  have del: "filter (\<lambda>t. sts_Name t \<noteq> sts_Name p) (cl_StatefulSets c) = replica_sets c"
  proof (intro filter_cong refl)
    fix s
    assume "s \<in> set (cl_StatefulSets c)"
    then have "isPrimary s \<Longrightarrow> s \<in> set (filter isPrimary (cl_StatefulSets c))" "\<not> isPrimary s \<Longrightarrow> s \<in> set (replica_sets c)" by simp_all
    then show "(sts_Name s \<noteq> sts_Name p) = (\<not> isPrimary s)" using p(1,4) by (cases "isPrimary s") (auto simp: image_iff)
  qed
  have ss: "cl_StatefulSets ?c = replica_sets c" using r by (simp add: del)
  have "leaderless base pod_of dsc cfs bus n ?c"
    by (rule leaderless_next [OF ll(1), of _ "w_status w1"]) (use conjunct1 [OF r] w1(4,5) in \<open>simp_all add: ss\<close>)
  moreover have "status_BlockingOperation (w_status w1) = w_activeOperation w1" using w1(2) by (simp add: begun_def)
  moreover have "filter isPrimary (cl_StatefulSets ?c) = []" unfolding ss filter_filter by simp
  ultimately show ?thesis
    using conjunct1 [OF r] ss w1(2,4) unfolding waiting_def begun_def t by auto
qed

text \<open>After the ten seconds the ready replica with the lowest index is promoted.\<close>

lemma round_promotes:
  assumes "waiting base pod_of dsc cfs bus n d c" "clock_ok clk" "0 \<le> d" "d \<le> clk_timed_out clk"
  obtains s p st i where "s \<in> set (replica_sets c)" "\<forall>t \<in> set (replica_sets c). index_of s \<le> index_of t"
    and "promoted (cfs_ConfigLocations cfs) s = Some p"
    and "cl_StatefulSets (reconcile_round base pod_of clk c) = map (\<lambda>t. if sts_Name t = sts_Name s then p else t) (cl_StatefulSets c)"
    and "cl_kubegres (reconcile_round base pod_of clk c) = (cl_kubegres c)\<lparr>kg_Status := st\<rparr>"
    and "status_EnforcedReplicas st = status_EnforcedReplicas (kg_Status (cl_kubegres c))"
    and "status_LastCreatedInstanceIndex st = status_LastCreatedInstanceIndex (kg_Status (cl_kubegres c))"
    and "on_instance OperationIdPrimaryDbCountSpecEnforcement OperationStepIdPrimaryDbFailingOver i (clk_enforce clk + 300)
      (status_BlockingOperation st)"
proof -
  let ?srv = "cluster_server base pod_of c" and ?w = "cluster_context base pod_of dsc cfs bus c" and ?c = "reconcile_round base pod_of clk c"
  let ?pods = "map wrap_pod (map pod_of (cl_StatefulSets c))"
  note wa = assms(1) [unfolded waiting_def]
  have ll: "leaderless base pod_of dsc cfs bus n c" "sound base pod_of dsc cfs bus n c" using wa by (auto simp: leaderless_def)
  have none: "filter isPrimary (cl_StatefulSets c) = []" using wa by blast
  then have all: "replica_sets c = cl_StatefulSets c" by (simp add: filter_empty_conv filter_id_conv)
  have ac: "accepts ?srv" using ll(2) by (simp add: sound_def Let_def cluster_server_accepts)
  have len: "length (cl_StatefulSets c) < 2147483648" using ll(1) by (simp add: leaderless_def capacity_def all)
  obtain v where v: "LoadActiveOperation (clk_timed_out clk) (clk_completed clk) (clk_left clk) ?w = (0, v)" "load_step ?w v"
    "isWaitingBeforeStartingFailOver v" "\<not> op_HasTimedOut (w_activeOperation v)" "\<not> load_panics clk ?srv ?w"
    using wa waiting_over [OF _ assms(2-4)] unfolding cluster_context_def by blast
  have vf: "w_states v = cluster_states pod_of dsc cfs bus c" "w_calls v = []" "w_spec v = kg_Spec (cl_kubegres c)"
    "status_EnforcedReplicas (w_status v) = status_EnforcedReplicas (kg_Status (cl_kubegres c))"
    "status_LastCreatedInstanceIndex (w_status v) = status_LastCreatedInstanceIndex (kg_Status (cl_kubegres c))"
    using v(2) by (simp_all add: load_step_def same_context_def cluster_context_def context_of_fields)
  have prim: "rs_Primary (cluster_states pod_of dsc cfs bus c) = zero_StatefulSetWrapper" by (simp add: cluster_states_def loaded_def none Let_def)
  have nr: "\<not> isPrimaryDbReady v" by (simp add: isPrimaryDbReady_def vf prim zero_StatefulSetWrapper_def)
  obtain s where s: "replaceable v" "s \<in> set (replica_sets c)" "\<forall>t \<in> set (replica_sets c). index_of s \<le> index_of t"
    "find sw_IsReady (GetAllSortedByInstanceIndex (rep_All (w_Replicas v))) = Some (wrap ?pods s)"
    by (rule leaderless_world [OF ll(1) v(2) nr]) (use none len in simp_all)
  obtain p where p: "promoted (cfs_ConfigLocations cfs) s = Some p" using ll(1) s(2) by (auto simp: leaderless_def promotable_def)
  have "registered_as v (OperationIdPrimaryDbCountSpecEnforcement, OperationStepIdPrimaryDbFailingOver, 300, False)"
    using v(2) unfolding cluster_context_def by (intro load_step_registers) (auto simp: operation_table_def)
  moreover have "promoted (cfs_ConfigLocations (rs_Config (w_states v))) (sw_StatefulSet (wrap ?pods s)) = Some p"
    by (simp add: vf cluster_states_def p)
  ultimately obtain w0 w1 where w1: "FailOver (clk_enforce clk) ?srv v = (Ok, w1)"
    "w0 = v\<lparr>w_states := share (wrap ?pods s) ((wrap ?pods s)\<lparr>sw_StatefulSet := p\<rparr>) (w_states v)\<rparr>"
    "begun OperationIdPrimaryDbCountSpecEnforcement OperationStepIdPrimaryDbFailingOver (index_of s) (int64 (clk_enforce clk + 300)) w0 w1"
    "w_calls w1 = [UpdateStatefulSet p]" "status_EnforcedReplicas (w_status w1) = status_EnforcedReplicas (w_status v)"
    "status_LastCreatedInstanceIndex (w_status w1) = status_LastCreatedInstanceIndex (w_status v)"
    using FailOver_promotes [OF ac s(1,4) v(3,4)] vf(2) by fastforce
  have t: "int64 (clk_enforce clk + 300) = clk_enforce clk + 300"
    using assms(2) by (intro int64_id) (auto simp: in_int64_def clock_ok_def)
  have id: "activeId v \<in> {'''', OperationIdPrimaryDbCountSpecEnforcement}"
    using v(3) by (simp add: isWaitingBeforeStartingFailOver_def op_defs activeId_def)
  have ix: "\<forall>s \<in> set (cl_StatefulSets c). has_index s" using ll(1) by (auto simp: leaderless_def numbered_def all)
  have "cl_kubegres ?c = (cl_kubegres c)\<lparr>kg_Status := w_status w1\<rparr> \<and> cl_StatefulSets ?c = cl_StatefulSets (apply_request (UpdateStatefulSet p) c)"
    using len none s(1) by (intro failover_round [OF ll(2) _ ix _ v(5,2,1) _ _ id v(4) w1(1,3) _ _ w1(4)])
      (simp_all add: w1(2) getPrimaryStatefulSet_def vf prim zero_StatefulSetWrapper_def zero_PodWrapper_def same_reading_def share_def Let_def)
  moreover have "on_instance OperationIdPrimaryDbCountSpecEnforcement OperationStepIdPrimaryDbFailingOver (index_of s)
      (clk_enforce clk + 300) (status_BlockingOperation (w_status w1))"
    using w1(3) by (simp add: begun_def t)
  ultimately show thesis
    using s(2,3) p w1(5,6) vf promoted_names [OF p] by (intro that [of s p "w_status w1" "index_of s"]) simp_all
qed

section \<open>The cluster after the promotion\<close>

lemma map_one_filter:
  assumes "distinct (map f xs)" "s \<in> set xs" "\<forall>x \<in> set xs. \<not> P x" "P p"
  shows "filter P (map (\<lambda>x. if f x = f s then p else x) xs) = [p]"
proof -
  obtain ys zs where xs: "xs = ys @ s # zs" using assms(2) by (auto simp: in_set_conv_decomp)
  then have "filter P (map (\<lambda>x. if f x = f s then p else x) ys) = []" "filter P (map (\<lambda>x. if f x = f s then p else x) zs) = []"
    using assms(1,3) by (auto simp: filter_empty_conv image_iff)
  then show ?thesis using assms(4) by (simp add: xs)
qed

lemma promoted_serving:
  assumes "leaderless base pod_of dsc cfs bus n c" "filter isPrimary (cl_StatefulSets c) = []"
    and "s \<in> set (replica_sets c)" "promoted (cfs_ConfigLocations cfs) s = Some p"
    and "cl_StatefulSets c' = map (\<lambda>t. if sts_Name t = sts_Name s then p else t) (cl_StatefulSets c)"
    and "cl_kubegres c' = (cl_kubegres c)\<lparr>kg_Status := st\<rparr>" "status_EnforcedReplicas st = status_EnforcedReplicas (kg_Status (cl_kubegres c))"
    and "status_LastCreatedInstanceIndex st = status_LastCreatedInstanceIndex (kg_Status (cl_kubegres c))"
  shows "serving base pod_of dsc cfs bus n c'" "filter isPrimary (cl_StatefulSets c') = [p]" "drift c' = drift c"
proof -
  let ?w = "cluster_context base pod_of dsc cfs bus c'"
  have all: "replica_sets c = cl_StatefulSets c" using assms(2) by (simp add: filter_empty_conv filter_id_conv)
  note l = assms(1) [unfolded leaderless_def all]
  have dn: "distinct (map sts_Name (cl_StatefulSets c))" using l names_distinct by blast
  then have same: "t = s" if "t \<in> set (cl_StatefulSets c)" "sts_Name t = sts_Name s" for t
    using that assms(3) by (auto simp: distinct_map inj_on_def)
  note k = promoted_keeps [OF assms(4)] promoted_names [OF assms(4)]
  show prim: "filter isPrimary (cl_StatefulSets c') = [p]"
    unfolding assms(5) using dn assms(2,3) promoted_isPrimary [OF assms(4)] by (intro map_one_filter) (auto simp: filter_empty_conv)
  show "drift c' = drift c" by (simp add: drift_def assms(5-7))
  have rn: "GetStatefulSetResourceName (cl_kubegres c') j = GetStatefulSetResourceName (cl_kubegres c) j" for j
    by (rule GetStatefulSetResourceName_cong) (simp add: assms(6))
  have idx: "map index_of (cl_StatefulSets c') = map index_of (cl_StatefulSets c)"
    using same k by (auto simp: assms(5))

  have ready: "\<forall>t \<in> set (cl_StatefulSets c). 0 < sts_ReadyReplicas t" using l by (simp add: promotable_def)
  have ir: "instances_ready (cl_kubegres c') (cl_StatefulSets c')"
    unfolding instances_ready_def idx rn
  proof (intro conjI ballI)
    show "\<exists>p. filter isPrimary (cl_StatefulSets c') = [p]" using prim by blast
    show "distinct (map index_of (cl_StatefulSets c))" using l by (simp add: numbered_def)
    show "int (length (cl_StatefulSets c')) \<le> status_EnforcedReplicas (kg_Status (cl_kubegres c'))" using l by (simp add: assms(5-7))
    show "failover_IsDisabled (spec_Failover (kg_Spec (cl_kubegres c'))) \<longrightarrow>
        status_EnforcedReplicas (kg_Status (cl_kubegres c')) = int (length (cl_StatefulSets c'))"
      using l by (simp add: assms(6) sound_def Let_def)
    fix t
    assume t: "t \<in> set (cl_StatefulSets c')"
    then have "t = p \<or> t \<in> set (cl_StatefulSets c)" by (auto simp: assms(5) split: if_splits)
    then show "has_index t" "in_int32 (index_of t)" "sts_Name t = GetStatefulSetResourceName (cl_kubegres c) (index_of t)"
      "index_of t \<le> status_LastCreatedInstanceIndex (kg_Status (cl_kubegres c'))" "0 < sts_ReadyReplicas t"
      using l assms(3) ready by (auto simp: k numbered_def assms(6,8))
  qed
  have so: "sound base pod_of dsc cfs bus n c'" using l by (intro sound_next [OF _ assms(6)]) blast
  have pr: "w_states ?w = cluster_states pod_of dsc cfs bus c'" "w_kubegres ?w = cl_kubegres c'"
    by (simp_all add: cluster_context_def context_of_fields)
  note cp = cluster_primary [OF prim, of pod_of dsc cfs bus]
  have "promotable base (kg_Spec (cl_kubegres c)) (cfs_ConfigLocations cfs) s" using l assms(3) by simp
  then have m: "matches_primary (cluster_server base pod_of c') (kg_Spec (cl_kubegres c')) p" "\<exists>m claim cls. primary_shape p m claim cls"
    "0 < sts_ReadyReplicas p"
    by (simp_all add: promotable_def promoted_matches [OF assms(4)] k assms(6)) (simp add: matches_primary_def cluster_server_def)
  have "status_EnforcedReplicas (kg_Status (cl_kubegres c')) > 0" using l by (cases "cl_StatefulSets c") (auto simp: assms(6,7))
  then have "primary_met ?w"
    using so m(3) by (simp add: primary_met_def isStandbyEnabled_def isPrimaryDbDeployed_def isPrimaryDbReady_def pr cp sound_def Let_def)
  then have "reconcilable (cluster_server base pod_of c') ?w"
    using so m(1,2) by (simp add: reconcilable_def sound_def Let_def getPrimaryStatefulSet_def pr cp)
  moreover have "capacity c' n" using l by (simp add: capacity_def assms(5-8))
  ultimately show "serving base pod_of dsc cfs bus n c'" using so ir by (simp add: serving_def sound_def Let_def)
qed

section \<open>Recovery\<close>

text \<open>
  The clocks of \<open>t\<close> reconciliations that are at least a second apart; loading the operation takes less than a second.
\<close>

definition ticking :: "(nat \<Rightarrow> clock) \<Rightarrow> nat \<Rightarrow> bool" where
  "ticking clk t \<longleftrightarrow> (\<forall>i < t. clock_ok (clk i) \<and> clk_completed (clk i) = clk_timed_out (clk i) \<and> clk_left (clk i) = clk_timed_out (clk i) \<and>
       clk_timed_out (clk i) \<le> clk_enforce (clk i)) \<and>
     (\<forall>i. Suc i < t \<longrightarrow> clk_enforce (clk i) < clk_timed_out (clk (Suc i)))"

lemma ticking_shift: "ticking clk (a + t) \<Longrightarrow> ticking (\<lambda>i. clk (a + i)) t"
  by (simp add: ticking_def)

lemma ticking_next: "ticking clk t \<Longrightarrow> Suc i < t \<Longrightarrow> clk_enforce (clk i) < clk_timed_out (clk (Suc i))"
  by (simp add: ticking_def)

lemma ticking_elapsed: "ticking clk t \<Longrightarrow> Suc i < t \<Longrightarrow> clk_enforce (clk 0) + 1 + int i \<le> clk_timed_out (clk (Suc i))"
proof (induction i)
  case (Suc i)
  then have "clk_timed_out (clk (Suc i)) \<le> clk_enforce (clk (Suc i))" "clk_enforce (clk (Suc i)) < clk_timed_out (clk (Suc (Suc i)))"
    by (simp_all add: ticking_def)
  with Suc show ?case by simp
qed (auto simp: ticking_def)

lemma rounds_add: "rounds base pod_of clk (a + b) c = rounds base pod_of (\<lambda>i. clk (a + i)) b (rounds base pod_of clk a c)"
  by (induction b) simp_all

lemma idle_until:
  assumes "\<forall>i \<le> m. \<not> P (clk i) \<longrightarrow> reconcile_round base pod_of (clk i) c = c" "P (clk m)"
  obtains k where "k \<le> m" "P (clk k)" "rounds base pod_of clk k c = c"
proof -
  let ?k = "LEAST i. P (clk i)"
  have k: "P (clk ?k)" "?k \<le> m" using assms(2) by (auto intro: LeastI Least_le)
  have "rounds base pod_of clk j c = c" if "j \<le> ?k" for j
    using that
  proof (induction j)
    case (Suc j)
    then have "\<not> P (clk j)" using not_less_Least [of j "\<lambda>i. P (clk i)"] by simp
    with Suc assms(1) k(2) show ?case by simp
  qed simp
  with k that show thesis by blast
qed

lemma waiting_idle:
  assumes "waiting base pod_of dsc cfs bus n d c" "clock_ok clk" "clk_completed clk = clk_timed_out clk" "clk_left clk = clk_timed_out clk"
    and "d < 2 ^ 62 + 300" "clk_timed_out clk < d"
  shows "reconcile_round base pod_of clk c = c"
proof -
  note wa = assms(1) [unfolded waiting_def leaderless_def sound_def Let_def]
  have all: "replica_sets c = cl_StatefulSets c" using wa by (simp add: filter_empty_conv filter_id_conv)
  obtain i where "on_instance OperationIdPrimaryDbCountSpecEnforcement OperationStepIdPrimaryDbWaitingBeforeFailingOver i d
      (status_BlockingOperation (kg_Status (cl_kubegres c)))" using wa by blast
  from failover_pending [OF this assms(2-5)] assms(6) obtain r w where
    "reconcile_context clk (cluster_server base pod_of c) (cluster_context base pod_of dsc cfs bus c) = (r, w)" "w_calls w = []"
    unfolding cluster_context_def by blast
  moreover from this(1) have "reconcile_round base pod_of clk c = fold apply_request (w_calls w) c"
    using wa all by (intro loaded_round [where n = n]) (auto simp: numbered_def capacity_def)
  ultimately show ?thesis by simp
qed

lemma promoted_idle:
  assumes "serving base pod_of dsc cfs bus n c" "clock_ok clk" "clk_completed clk = clk_timed_out clk" "clk_left clk = clk_timed_out clk"
    and "on_instance OperationIdPrimaryDbCountSpecEnforcement OperationStepIdPrimaryDbFailingOver i d
      (status_BlockingOperation (kg_Status (cl_kubegres c)))"
    and "d < 2 ^ 62 + 300" "clk_timed_out clk + 260 < d"
  shows "reconcile_round base pod_of clk c = c"
proof -
  obtain r w where r: "reconcile_context clk (cluster_server base pod_of c) (cluster_context base pod_of dsc cfs bus c) = (r, w)" "w_calls w = []"
    using failover_pending [OF assms(5,2-4,6)] assms(7) unfolding cluster_context_def by blast
  then show ?thesis using cluster_round [OF assms(1) r(1)] by simp
qed

text \<open>From the promotion on.\<close>

lemma promoted_recovers:
  assumes "serving base pod_of dsc cfs bus n c" "cluster_agrees base pod_of dsc cfs bus c"
    and "replicable base (kg_Spec (cl_kubegres c)) (kg_meta (cl_kubegres c)) cfs"
    and "on_instance OperationIdPrimaryDbCountSpecEnforcement OperationStepIdPrimaryDbFailingOver i d
      (status_BlockingOperation (kg_Status (cl_kubegres c)))"
    and "ticking clk t" "0 < d" "d < 2 ^ 62 + 300" "d \<le> clk_timed_out (clk 0) + 299" "nat \<bar>n - int (length (cl_StatefulSets c))\<bar> + 39 < t"
  shows "at_rest base pod_of (rounds base pod_of clk t c) \<and> int (length (cl_StatefulSets (rounds base pod_of clk t c))) = n \<and>
    filter isPrimary (cl_StatefulSets (rounds base pod_of clk t c)) = filter isPrimary (cl_StatefulSets c) \<and>
    drift (rounds base pod_of clk t c) = drift c"
proof -
  have tk: "clock_ok (clk i)" "clk_completed (clk i) = clk_timed_out (clk i)" "clk_left (clk i) = clk_timed_out (clk i)" if "i < t" for i
    using assms(5) that by (simp_all add: ticking_def)
  have "clk_timed_out (clk 0) \<le> clk_enforce (clk 0)" using assms(5,9) by (simp add: ticking_def)
  then have due: "d \<le> clk_timed_out (clk 39) + 260"
    using ticking_elapsed [OF assms(5), of 38] assms(8,9) by (simp add: eval_nat_numeral)
  obtain k where k: "k \<le> 39" "d \<le> clk_timed_out (clk k) + 260" "rounds base pod_of clk k c = c"
  proof (rule idle_until [of 39 "\<lambda>clk. d \<le> clk_timed_out clk + 260" clk base pod_of c])
    show "\<forall>i \<le> 39. \<not> d \<le> clk_timed_out (clk i) + 260 \<longrightarrow> reconcile_round base pod_of (clk i) c = c"
      using promoted_idle [OF assms(1) tk assms(4,7)] assms(9) by auto
  qed (use due in auto)
  obtain u where u: "t = k + u" "nat \<bar>n - int (length (cl_StatefulSets c))\<bar> < u"
    using k(1) assms(9) by (intro that [of "t - k"]) auto
  have "\<exists>p. filter isPrimary (cl_StatefulSets c) = [p] \<and> 0 < sts_ReadyReplicas p"
  proof -
    obtain p where p: "filter isPrimary (cl_StatefulSets c) = [p]" using assms(1) by (auto simp: serving_def instances_ready_def)
    then have "p \<in> set (filter isPrimary (cl_StatefulSets c))" by simp
    then have "p \<in> set (cl_StatefulSets c)" by simp
    with p show ?thesis using assms(1) by (simp add: serving_def instances_ready_def)
  qed
  then have "sw_IsReady (rs_Primary (cluster_states pod_of dsc cfs bus c))" using cluster_primary by fastforce
  then have "free_at base pod_of dsc cfs bus n (clk (k + 0)) c"
    using assms(1) failover_over [OF assms(4) tk(1,2) assms(6,7) k(2)] tk(1) [of k] k(1) assms(9) by (simp add: free_at_def)
  then show ?thesis
    unfolding u(1) rounds_add k(3) using u(2) assms(2,3) tk
    by (intro free_rests [where clk = "\<lambda>i. clk (k + i)" and dsc = dsc and cfs = cfs and bus = bus]) (auto simp: u(1))
qed

text \<open>From the deletion of the failing primary on.\<close>

lemma waiting_recovers:
  assumes "waiting base pod_of dsc cfs bus n d c" "cluster_agrees base pod_of dsc cfs bus c"
    and "replicable base (kg_Spec (cl_kubegres c)) (kg_meta (cl_kubegres c)) cfs" "IsReservedVolumeName (loc_PromoteReplica (cfs_ConfigLocations cfs))"
    and "ticking clk t" "0 \<le> d" "d < 2 ^ 62 + 300" "d \<le> clk_timed_out (clk 0) + 9" "nat \<bar>n - int (length (cl_StatefulSets c))\<bar> + 49 < t"
  shows "\<exists>s p. s \<in> set (cl_StatefulSets c) \<and> (\<forall>r \<in> set (cl_StatefulSets c). index_of s \<le> index_of r) \<and>
    promoted (cfs_ConfigLocations cfs) s = Some p \<and> at_rest base pod_of (rounds base pod_of clk t c) \<and>
    int (length (cl_StatefulSets (rounds base pod_of clk t c))) = n \<and>
    filter isPrimary (cl_StatefulSets (rounds base pod_of clk t c)) = [p] \<and> drift (rounds base pod_of clk t c) = drift c"
proof -
  have tk: "clock_ok (clk i)" "clk_completed (clk i) = clk_timed_out (clk i)" "clk_left (clk i) = clk_timed_out (clk i)" if "i < t" for i
    using assms(5) that by (simp_all add: ticking_def)
  have wa: "leaderless base pod_of dsc cfs bus n c" "filter isPrimary (cl_StatefulSets c) = []" using assms(1) by (auto simp: waiting_def)
  have all: "replica_sets c = cl_StatefulSets c" using wa(2) by (simp add: filter_empty_conv filter_id_conv)
  have "clk_timed_out (clk 0) \<le> clk_enforce (clk 0)" using assms(5,9) by (simp add: ticking_def)
  then have due: "d \<le> clk_timed_out (clk 9)"
    using ticking_elapsed [OF assms(5), of 8] assms(8,9) by (simp add: eval_nat_numeral)
  obtain k where k: "k \<le> 9" "d \<le> clk_timed_out (clk k)" "rounds base pod_of clk k c = c"
  proof (rule idle_until [of 9 "\<lambda>clk. d \<le> clk_timed_out clk" clk base pod_of c])
    show "\<forall>i \<le> 9. \<not> d \<le> clk_timed_out (clk i) \<longrightarrow> reconcile_round base pod_of (clk i) c = c"
      using waiting_idle [OF assms(1) tk assms(7)] assms(9) by auto
  qed (use due in auto)
  obtain u where u: "t = k + Suc u" "nat \<bar>n - int (length (cl_StatefulSets c))\<bar> + 39 < u"
    using k(1) assms(9) by (intro that [of "t - k - 1"]) auto
  have ok: "clock_ok (clk k)" using tk(1) u(1) by simp
  let ?c = "reconcile_round base pod_of (clk k) c" and ?clk = "\<lambda>i. clk (k + Suc i)"
  obtain s p st i where r: "s \<in> set (replica_sets c)" "\<forall>r \<in> set (replica_sets c). index_of s \<le> index_of r"
    "promoted (cfs_ConfigLocations cfs) s = Some p"
    "cl_StatefulSets ?c = map (\<lambda>t. if sts_Name t = sts_Name s then p else t) (cl_StatefulSets c)"
    "cl_kubegres ?c = (cl_kubegres c)\<lparr>kg_Status := st\<rparr>" "status_EnforcedReplicas st = status_EnforcedReplicas (kg_Status (cl_kubegres c))"
    "status_LastCreatedInstanceIndex st = status_LastCreatedInstanceIndex (kg_Status (cl_kubegres c))"
    "on_instance OperationIdPrimaryDbCountSpecEnforcement OperationStepIdPrimaryDbFailingOver i (clk_enforce (clk k) + 300) (status_BlockingOperation st)"
    by (rule round_promotes [OF assms(1) ok assms(6) k(2)])
  note ps = promoted_serving [OF wa r(1,3-7)]
  have "cluster_agrees base pod_of dsc cfs bus ?c"
    using assms(2) r(1) promoted_agrees [OF r(3) _ assms(4)] by (auto simp: cluster_agrees_def r(4) agrees_reading [OF cluster_reading [OF r(5)]])
  moreover have "ticking ?clk u" using ticking_shift [of clk "k + 1" u] assms(5) by (simp add: u(1))
  moreover have "clk_enforce (clk k) + 300 \<le> clk_timed_out (?clk 0) + 299" using ticking_next [OF assms(5), of k] u by simp
  moreover have "0 < clk_enforce (clk k) + 300" "clk_enforce (clk k) + 300 < 2 ^ 62 + 300" using ok by (simp_all add: clock_ok_def)
  ultimately have "at_rest base pod_of (rounds base pod_of ?clk u ?c) \<and> int (length (cl_StatefulSets (rounds base pod_of ?clk u ?c))) = n \<and>
      filter isPrimary (cl_StatefulSets (rounds base pod_of ?clk u ?c)) = filter isPrimary (cl_StatefulSets ?c) \<and>
      drift (rounds base pod_of ?clk u ?c) = drift ?c"
    using assms(3) r(8) u(2) by (intro promoted_recovers [OF ps(1), of _ "clk_enforce (clk k) + 300"]) (simp_all add: r(4,5))
  moreover have "rounds base pod_of clk t c = rounds base pod_of ?clk u ?c"
    using rounds_add [of base pod_of clk k "Suc u" c] rounds_front [of base pod_of "\<lambda>i. clk (k + i)" u c] by (simp add: u(1) k(3) del: rounds.simps)
  ultimately show ?thesis using r(1-3) ps(2,3) unfolding all by auto
qed

text \<open>
  C11: Recovery after the failure of the primary, for a cluster that meets these conditions.
  The cluster: exactly one primary, not ready; at least one replica, and every replica is ready, is up to date for
  every enforcer, and has labels and an init container, which a promotion rewrites; the primary and the replicas have the
  volume mount, storage class, size and volume claims of the spec; the replicas have the names and indices the operator gives, pairwise
  distinct, not above the last index of the status, and the name of the primary is none of theirs; the enforced replicas of
  the status are at least the number of replicas; no operation is persisted; the numbers fit in an int32.
  The spec: it passes the check and has its defaults, its size is a quantity, no standby, automatic fail-over enabled, no manual fail-over request,
  the base configuration deployed and the backup as configured.
  What a new replica needs to agree with the spec at once: the Kubegres resource has no custom label and no duplicate
  annotation, no custom mount uses the sub-path of a configuration file, the configuration and promotion scripts are at reserved
  volume names, the resource limits and requests have no duplicate key, and parsing a printed quantity gives it back.
  The environment is idealised: the API server accepts and carries out every request at once, an instance that is
  deployed or promoted is ready, and the storage class, configuration and backup resources stay as they are; the clock moves by at least a second between reconciliations.
  Then the reconciliations bring the cluster to rest: after 51 of them and one for each instance that is missing
  or in surplus once the failed primary is gone, the failing primary is gone, the replica with the lowest index is
  the only primary, the number of instances is that of the spec, and no later reconciliation sends anything.
  On the way the number of enforced replicas in the status grows by one more than the number of
  instances: the instance that was lost is never subtracted.
\<close>

theorem failover_recovers:
  assumes "failing base pod_of dsc cfs bus n c" "replicable base (kg_Spec (cl_kubegres c)) (kg_meta (cl_kubegres c)) cfs"
    and "IsReservedVolumeName (loc_PromoteReplica (cfs_ConfigLocations cfs))"
    and "\<forall>s \<in> set (replica_sets c). agrees (cluster_server base pod_of c) (cluster_context base pod_of dsc cfs bus c) s"
    and "ticking clk t" "nat \<bar>n + 1 - int (length (cl_StatefulSets c))\<bar> + 50 < t"
  shows "\<exists>s p. s \<in> set (replica_sets c) \<and> (\<forall>r \<in> set (replica_sets c). index_of s \<le> index_of r) \<and>
    promoted (cfs_ConfigLocations cfs) s = Some p \<and> at_rest base pod_of (rounds base pod_of clk t c) \<and>
    int (length (cl_StatefulSets (rounds base pod_of clk t c))) = n \<and>
    filter isPrimary (cl_StatefulSets (rounds base pod_of clk t c)) = [p] \<and> drift (rounds base pod_of clk t c) = drift c + 1"
proof -
  let ?c = "reconcile_round base pod_of (clk 0) c" and ?clk = "\<lambda>i. clk (Suc i)"
  obtain u where u: "t = Suc u" using assms(6) by (cases t) auto
  have ok: "clock_ok (clk 0)" using assms(5) u by (simp add: ticking_def)
  obtain st where r: "waiting base pod_of dsc cfs bus n (clk_enforce (clk 0) + 10) ?c" "cl_StatefulSets ?c = replica_sets c"
    "cl_kubegres ?c = (cl_kubegres c)\<lparr>kg_Status := st\<rparr>" "status_EnforcedReplicas st = status_EnforcedReplicas (kg_Status (cl_kubegres c))"
    using round_deletes [OF assms(1) ok] by blast
  obtain q where "filter isPrimary (cl_StatefulSets c) = [q]" using assms(1) by (auto simp: failing_def)
  then have len: "int (length (replica_sets c)) = int (length (cl_StatefulSets c)) - 1"
    using sum_length_filter_compl [of isPrimary "cl_StatefulSets c"] by simp
  have "cluster_agrees base pod_of dsc cfs bus ?c"
    using assms(4) by (simp add: cluster_agrees_def r(2) agrees_reading [OF cluster_reading [OF r(3)]])
  moreover have "ticking ?clk u" using ticking_shift [of clk 1 u] assms(5) by (simp add: u)
  moreover have "clk_enforce (clk 0) + 10 \<le> clk_timed_out (?clk 0) + 9" using ticking_next [OF assms(5), of 0] assms(6) u by simp
  moreover have "0 \<le> clk_enforce (clk 0) + 10" "clk_enforce (clk 0) + 10 < 2 ^ 62 + 300" using ok by (simp_all add: clock_ok_def)
  moreover have "nat \<bar>n - int (length (cl_StatefulSets ?c))\<bar> + 49 < u" using assms(6) u len by (simp add: r(2))
  moreover have "drift ?c = drift c + 1" using len by (simp add: drift_def r(2-4))
  ultimately show ?thesis
    using waiting_recovers [OF r(1), of ?clk u] assms(2,3) unfolding u rounds_front r(2) by (simp add: r(3))
qed

text \<open>What the drift costs: with the automatic fail-over disabled, a spec up to the enforced number gets no replica.\<close>

lemma drift_blocks_scaling:
  assumes "getNbreDeployedReplicas w < getExpectedNbreReplicasToDeploy w" "0 \<le> getNbreDeployedReplicas w"
    and "getExpectedNbreReplicasToDeploy w < 2147483648" "isAutomaticFailoverDisabled w"
    and "spec_Replicas (w_spec w) = Some n" "n \<le> status_EnforcedReplicas (w_status w)"
  shows "adjust_replicas now srv False w = (Ok, InfoEvent ''AutomaticFailoverIsDisabled'' w)"
  using assms by (simp add: adjust_replicas_def int32_id in_int32_def doesSpecRequireTheDeploymentOfAdditionalReplicas_def)

text \<open>The cluster of theory \<open>Scaling\<close> with a replica, after its primary has failed: three instances are asked for, two are deployed.\<close>

lemma serving_sound:
  assumes "serving base pod_of dsc cfs bus n c" "\<not> failover_IsDisabled (spec_Failover (kg_Spec (cl_kubegres c)))"
  shows "sound base pod_of dsc cfs bus n c"
  using assms by (simp add: serving_def sound_def reconcilable_def primary_met_def isStandbyEnabled_def cluster_context_def context_of_fields Let_def)

definition ready_replica :: StatefulSet where
  "ready_replica = steady_primary\<lparr>
     sts_meta := zero_ObjectMeta\<lparr>md_Name := GetStatefulSetResourceName sample_Kubegres 2, md_Namespace := ''default'', md_Labels := [(''replicationRole'', ''replica'')]\<rparr>,
     sts_Template := \<lparr>pt_Labels = [(''index'', Itoa 2), (''replicationRole'', ''replica'')], pt_Annotations = [],
       pt_Spec = (sts_PodSpec steady_primary)\<lparr>ps_InitContainers := [replica_init_container
         \<lparr>ctr_Env := [template_env ''PRIMARY_HOST_NAME'' (GetServiceResourceName sample_Kubegres True) None]\<rparr>]\<rparr>\<rparr>\<rparr>"

definition failed_primary :: StatefulSet where
  "failed_primary = steady_primary\<lparr>sts_ReadyReplicas := 0\<rparr>"

definition failing_cluster :: cluster where
  "failing_cluster = \<lparr>cl_kubegres = growing_Kubegres\<lparr>kg_Status := zero_Status\<lparr>status_EnforcedReplicas := 2, status_LastCreatedInstanceIndex := 2\<rparr>\<rparr>,
     cl_StatefulSets = [failed_primary, ready_replica], cl_Services = [steady_service]\<rparr>"

definition seconds :: "nat \<Rightarrow> clock" where
  "seconds t = \<lparr>clk_timed_out = 1000 + int t, clk_completed = 1000 + int t, clk_left = 1000 + int t, clk_enforce = 1000 + int t\<rparr>"

abbreviation failing_context :: world where
  "failing_context \<equiv> cluster_context steady_server growing_pod (rs_DbStorageClass steady_states) (rs_Config steady_states)
     (rs_BackUp steady_states) failing_cluster"

lemma ready_replica_simps:
  "\<not> isPrimary ready_replica" "has_index ready_replica" "index_of ready_replica = 2" "sts_ReadyReplicas ready_replica = 1"
  "sts_Name ready_replica = GetStatefulSetResourceName sample_Kubegres 2" "promoted locs ready_replica \<noteq> None"
  "container0 ready_replica = Some steady_container"
  "init0 ready_replica = Some (replica_init_container
     \<lparr>ctr_Env := [template_env ''PRIMARY_HOST_NAME'' (GetServiceResourceName sample_Kubegres True) None]\<rparr>)"
  "sts_PodSpec ready_replica = (sts_PodSpec steady_primary)\<lparr>ps_InitContainers := [replica_init_container
     \<lparr>ctr_Env := [template_env ''PRIMARY_HOST_NAME'' (GetServiceResourceName sample_Kubegres True) None]\<rparr>]\<rparr>"
  "md_Labels (sts_meta ready_replica) = [(''replicationRole'', ''replica'')]" "md_Annotations (sts_meta ready_replica) = []"
  by (simp_all add: ready_replica_def steady_primary_def isPrimary_def map_get_def PrimaryRoleName_def has_index_def index_of_def
      ParseInt32_Itoa in_int32_def promoted_def map_set_def container0_def init0_def zero_ObjectMeta_def)

lemma failed_primary_simps:
  "isPrimary failed_primary" "has_index failed_primary" "sts_ReadyReplicas failed_primary = 0" "sts_Name failed_primary = GetStatefulSetResourceName sample_Kubegres 1"
  using steady_primary_labels by (simp_all add: failed_primary_def isPrimary_def has_index_def)
    (simp add: steady_primary_def)

lemma names_differ: "GetStatefulSetResourceName sample_Kubegres 1 \<noteq> GetStatefulSetResourceName sample_Kubegres 2"
  using Itoa_inject [of 1 2] by (auto simp: GetStatefulSetResourceName_def in_int32_def)

lemma failing_cluster_simps:
  "kg_Spec (cl_kubegres failing_cluster) = sample_Spec" "kg_meta (cl_kubegres failing_cluster) = kg_meta sample_Kubegres"
  "status_EnforcedReplicas (kg_Status (cl_kubegres failing_cluster)) = 2"
  "status_LastCreatedInstanceIndex (kg_Status (cl_kubegres failing_cluster)) = 2"
  "status_BlockingOperation (kg_Status (cl_kubegres failing_cluster)) = zero_Operation"
  "cl_StatefulSets failing_cluster = [failed_primary, ready_replica]"
  by (simp_all add: failing_cluster_def growing_simps zero_Status_def)

lemma same_claims:
  "primary_shape ready_replica m claim cls = primary_shape steady_primary m claim cls"
  "primary_shape failed_primary m claim cls = primary_shape steady_primary m claim cls"
  "matches_primary srv spec ready_replica = matches_primary srv spec steady_primary"
  "matches_primary srv spec failed_primary = matches_primary srv spec steady_primary"
  by (simp_all add: primary_shape_def matches_primary_def primary_VolumeMount_def primary_ClaimSpec_def claims_match_def ready_replica_def
      failed_primary_def)

lemma steady_matches: "matches_primary steady_server sample_Spec steady_primary"
  using steady_shape by (simp add: matches_primary_def primary_shape_def sample_Spec_def steady_server_simps checked_world_simps(6))
    (simp add: claims_match_def steady_primary_def IsReservedVolumeName_def DatabaseVolumeName_def)

lemma ready_replica_agrees: "agrees srv failing_context ready_replica"
proof -
  have w: "w_spec failing_context = sample_Spec" "kg_meta (w_kubegres failing_context) = kg_meta sample_Kubegres"
    "rs_Config (w_states failing_context) = rs_Config steady_states"
    by (simp_all add: cluster_context_def context_of_fields cluster_states_def failing_cluster_simps)
  have g: "getExpectedPrimaryServiceName failing_context = GetServiceResourceName sample_Kubegres True"
    by (simp add: getExpectedPrimaryServiceName_def GetServiceResourceName_def w) (simp add: sample_Spec_def)
  show ?thesis
    unfolding agrees_def addStatefulSetSpecEnforcers_def simple_enforcer_def
    by (simp add: settled_def settled_iff w g steady_fields ready_replica_simps sample_Spec_def steady_container_def
        sample_container_def zero_PodSpec_def config_mounts_def config_key_defs steady_primary_fields
        config_settled_def mounts_ok_def zero_ResourceRequirements_def compareResources_def compareResourceLists_def compare_items_def
        getCurrentCustomVolumes_def custom_mounts_def metadata_equals_def getCustomMetadata_def extractCustom_def maps_Equal_def
        sample_Kubegres_def zero_ObjectMeta_def getCustomConfigMapVolume_def volume_ok_def IsReservedVolumeName_def
        DatabaseVolumeName_def replica_init_container_def template_env_def template_mount_def base_locations_def annotationPrefix_def
        BaseConfigMapVolumeName_def)
qed

lemma failing_cluster_failing:
  "failing steady_server growing_pod (rs_DbStorageClass steady_states) (rs_Config steady_states) (rs_BackUp steady_states) 3 failing_cluster"
proof -
  have "sound steady_server growing_pod (rs_DbStorageClass steady_states) (rs_Config steady_states) (rs_BackUp steady_states) 3 growing_cluster"
    using growing_operating by (intro serving_sound) (auto simp: operating_def growing_simps sample_Spec_def)
  then have "sound steady_server growing_pod (rs_DbStorageClass steady_states) (rs_Config steady_states) (rs_BackUp steady_states) 3 failing_cluster"
    by (rule sound_next) (simp add: failing_cluster_def growing_simps)
  moreover have "numbered (cl_kubegres failing_cluster) [ready_replica]"
    by (simp add: numbered_def ready_replica_simps failing_cluster_simps in_int32_def)
      (rule GetStatefulSetResourceName_cong, simp add: failing_cluster_simps)
  moreover have "promotable steady_server sample_Spec locs ready_replica" for locs
    using ready_replica_simps steady_matches steady_shape by (auto simp: promotable_def same_claims)
  moreover have "\<exists>m claim cls. primary_shape failed_primary m claim cls" unfolding same_claims using steady_shape by blast
  ultimately show ?thesis
    using steady_matches
    by (auto simp: failing_def leaderless_def failing_cluster_simps ready_replica_simps failed_primary_simps same_claims(3,4) names_differ capacity_def)
qed

theorem failover_recovers_witness:
  "\<exists>p. promoted base_locations ready_replica = Some p \<and> at_rest steady_server growing_pod (rounds steady_server growing_pod seconds 53 failing_cluster) \<and>
     length (cl_StatefulSets (rounds steady_server growing_pod seconds 53 failing_cluster)) = 3 \<and>
     filter isPrimary (cl_StatefulSets (rounds steady_server growing_pod seconds 53 failing_cluster)) = [p] \<and>
     drift (rounds steady_server growing_pod seconds 53 failing_cluster) = 1"
proof -
  have "ticking seconds 53" by (simp add: ticking_def seconds_def clock_ok_def)
  moreover have "replicable steady_server (kg_Spec (cl_kubegres failing_cluster)) (kg_meta (cl_kubegres failing_cluster)) (rs_Config steady_states)"
    using growing_replicable by (simp add: failing_cluster_simps)
  moreover have "IsReservedVolumeName (loc_PromoteReplica base_locations)"
    by (simp add: base_locations_def IsReservedVolumeName_def BaseConfigMapVolumeName_def)
  ultimately show ?thesis
    using failover_recovers [OF failing_cluster_failing, of seconds 53]
    by (simp add: failing_cluster_simps ready_replica_simps failed_primary_simps ready_replica_agrees steady_fields drift_def)
qed

end
