(* ===== verification/Logging.thy ===== *)
theory Logging
  imports StatefulSet_States Blocking_Operation
begin

text \<open>
  The text of the events (\<open>src/controllers/ctx/log\<close>) and what the two loggers of a
  reconciliation report (\<open>src/controllers/operation/log/BlockingOperationLogger.go\<close>,
  \<open>src/controllers/states/log/ResourcesStatesLogger.go\<close>).
\<close>

section \<open>Go values of type \<open>interface{}\<close>\<close>

text \<open>
  An integer carries the name of its Go type. A slice may be nil (None). A value of another
  type is represented by the text that the verb \<open>%v\<close> prints for it.
\<close>

datatype go_any =
    AnyNil
  | AnyString string
  | AnyInt string int
  | AnyBool bool
  | AnySlice "go_any list option"
  | AnyOther string string

definition bool_text :: "bool \<Rightarrow> string" where
  "bool_text b = (if b then ''true'' else ''false'')"

fun spaced :: "string list \<Rightarrow> string" where
  "spaced [] = ''''"
| "spaced [x] = x"
| "spaced (x # xs) = x @ '' '' @ spaced xs"

text \<open>\<open>fmt.Sprintf("%v", value)\<close>.\<close>

fun sprintf_v :: "go_any \<Rightarrow> string" where
  "sprintf_v AnyNil = ''<nil>''"
| "sprintf_v (AnyString s) = s"
| "sprintf_v (AnyInt t i) = Itoa i"
| "sprintf_v (AnyBool b) = bool_text b"
| "sprintf_v (AnySlice None) = ''[]''"
| "sprintf_v (AnySlice (Some xs)) = ''['' @ spaced (map sprintf_v xs) @ '']''"
| "sprintf_v (AnyOther t s) = s"

text \<open>\<open>fmt.Sprintf("'%s'", key)\<close>: the verb accepts strings and marks other values.\<close>

fun sprintf_s :: "go_any \<Rightarrow> string" where
  "sprintf_s AnyNil = ''%!s(<nil>)''"
| "sprintf_s (AnyString s) = s"
| "sprintf_s (AnyInt t i) = ''%!s('' @ t @ ''='' @ Itoa i @ '')''"
| "sprintf_s (AnyBool b) = ''%!s(bool='' @ bool_text b @ '')''"
| "sprintf_s (AnySlice None) = ''[]''"
| "sprintf_s (AnySlice (Some xs)) = ''['' @ spaced (map sprintf_s xs) @ '']''"
| "sprintf_s (AnyOther t s) = s"

section \<open>InterfaceArrayUtil\<close>

text \<open>One round of the loop takes a key and the value after it; the value of a last key without one is nil.\<close>

fun pairs_loop :: "string \<Rightarrow> string \<Rightarrow> go_any list \<Rightarrow> string" where
  "pairs_loop acc comma [] = acc"
| "pairs_loop acc comma [key] =
     acc @ comma @ [CHR 0x27] @ sprintf_s key @ [CHR 0x27] @ '': '' @ sprintf_v AnyNil"
| "pairs_loop acc comma (key # val # rest) =
     pairs_loop (acc @ comma @ [CHR 0x27] @ sprintf_s key @ [CHR 0x27] @ '': '' @ sprintf_v val) '', '' rest"

definition interfaceToStr :: "go_any \<Rightarrow> string" where
  "interfaceToStr keyAndValue =
     (case keyAndValue of
        AnySlice xs \<Rightarrow> pairs_loop '''' '''' (case xs of None \<Rightarrow> [] | Some ys \<Rightarrow> ys)
      | _ \<Rightarrow> '''')"

fun keyValues_loop :: "string \<Rightarrow> string \<Rightarrow> go_any list \<Rightarrow> string" where
  "keyValues_loop acc comma [] = acc"
| "keyValues_loop acc comma (x # xs) = keyValues_loop (acc @ comma @ interfaceToStr x) '', '' xs"

definition keyValuesPairsToStr :: "go_any list \<Rightarrow> string" where
  "keyValuesPairsToStr keysAndValues = keyValues_loop '''' '''' keysAndValues"

text \<open>\<open>reflect.Value.IsNil\<close> panics (None) for a value that can never be nil.\<close>

fun reflect_IsNil :: "go_any \<Rightarrow> bool option" where
  "reflect_IsNil (AnySlice xs) = Some (xs = None)"
| "reflect_IsNil _ = None"

definition InterfacesToStr :: "go_any list \<Rightarrow> string option" where
  "InterfacesToStr keysAndValues =
     (case keysAndValues of
        [] \<Rightarrow> Some ''''
      | [x] \<Rightarrow> map_option (\<lambda>nil. if nil then '''' else keyValuesPairsToStr keysAndValues) (reflect_IsNil x)
      | _ \<Rightarrow> Some (keyValuesPairsToStr keysAndValues))"

section \<open>LogWrapper\<close>

definition constructFullMsg :: "string \<Rightarrow> go_any list \<Rightarrow> string option" where
  "constructFullMsg msg keysAndValues =
     (if msg = '''' then Some ''''
      else map_option (\<lambda>keysAndValuesStr. if keysAndValuesStr \<noteq> '''' then msg @ '' '' @ keysAndValuesStr else msg)
             (InterfacesToStr keysAndValues))"

definition constructFullErrMsg :: "string \<Rightarrow> string \<Rightarrow> go_any list \<Rightarrow> string option" where
  "constructFullErrMsg msgFromErr msg keysAndValues =
     map_option (\<lambda>customErrMsg.
       let (msgToReturn, separator) = (if customErrMsg \<noteq> '''' then (customErrMsg, '' - '') else ('''', ''''))
       in if msgFromErr \<noteq> '''' then msgToReturn @ separator @ msgFromErr else msgToReturn)
     (constructFullMsg msg keysAndValues)"

text \<open>
  The message that \<open>InfoEvent\<close> and \<open>WarningEvent\<close> hand to the recorder, and that of
  \<open>ErrorEvent\<close>. The variadic arguments arrive as one slice, which is nil when there are
  none, and are passed on as a single value.
\<close>

definition variadic :: "go_any list \<Rightarrow> go_any" where
  "variadic args = AnySlice (if args = [] then None else Some args)"

definition event_message :: "string \<Rightarrow> go_any list \<Rightarrow> string option" where
  "event_message msg keysAndValues = constructFullMsg msg [variadic keysAndValues]"

definition error_event_message :: "string \<Rightarrow> string \<Rightarrow> go_any list \<Rightarrow> string option" where
  "error_event_message err msg keysAndValues = constructFullErrMsg err msg [variadic keysAndValues]"

text \<open>
  The wrapper keeps a logger of the library \<open>logr\<close>: the record \<open>logr\<close> has what the library makes of it. The
  lines it writes, each with the logger it goes to, and the events handed to the recorder (type, reason, format
  string) are collected. \<open>None\<close>: a panic while the text is built.
\<close>

datatype log_line = LogInfo string "go_any list" | LogError string string "go_any list"

record 'l logr =
  lg_WithValues :: "go_any list \<Rightarrow> 'l \<Rightarrow> 'l"
  lg_WithName :: "string \<Rightarrow> 'l \<Rightarrow> 'l"

record 'l LogWrapper =
  lw_Logger :: 'l
  lw_lines :: "('l \<times> log_line) list"
  lw_Recorder :: "(event_type \<times> string \<times> string) list"

definition WithValues :: "'l logr \<Rightarrow> go_any list \<Rightarrow> 'l LogWrapper \<Rightarrow> 'l LogWrapper" where
  "WithValues lib keysAndValues r = r\<lparr>lw_Logger := lg_WithValues lib keysAndValues (lw_Logger r)\<rparr>"

definition WithName :: "'l logr \<Rightarrow> string \<Rightarrow> 'l LogWrapper \<Rightarrow> 'l LogWrapper" where
  "WithName lib name r = r\<lparr>lw_Logger := lg_WithName lib name (lw_Logger r)\<rparr>"

definition Info :: "string \<Rightarrow> go_any list \<Rightarrow> 'l LogWrapper \<Rightarrow> 'l LogWrapper" where
  "Info msg keysAndValues r = r\<lparr>lw_lines := lw_lines r @ [(lw_Logger r, LogInfo msg keysAndValues)]\<rparr>"

definition Error_log :: "string \<Rightarrow> string \<Rightarrow> go_any list \<Rightarrow> 'l LogWrapper \<Rightarrow> 'l LogWrapper" where
  "Error_log err msg keysAndValues r = r\<lparr>lw_lines := lw_lines r @ [(lw_Logger r, LogError err msg keysAndValues)]\<rparr>"

definition Warning :: "string \<Rightarrow> go_any list \<Rightarrow> 'l LogWrapper \<Rightarrow> 'l LogWrapper" where
  "Warning msg keysAndValues r =
     r\<lparr>lw_lines := lw_lines r @ [(lw_Logger r, LogInfo (''Warning: '' @ msg) keysAndValues)]\<rparr>"

definition Eventf :: "event_type \<Rightarrow> string \<Rightarrow> string option \<Rightarrow> 'l LogWrapper \<Rightarrow> 'l LogWrapper option" where
  "Eventf eventType eventReason text r = map_option (\<lambda>t. r\<lparr>lw_Recorder := lw_Recorder r @ [(eventType, eventReason, t)]\<rparr>) text"

definition LogWrapper_InfoEvent :: "string \<Rightarrow> string \<Rightarrow> go_any list \<Rightarrow> 'l LogWrapper \<Rightarrow> 'l LogWrapper option" where
  "LogWrapper_InfoEvent eventReason msg keysAndValues r =
     Eventf EventTypeNormal eventReason (event_message msg keysAndValues) (Info msg keysAndValues r)"

definition LogWrapper_ErrorEvent :: "string \<Rightarrow> string \<Rightarrow> string \<Rightarrow> go_any list \<Rightarrow> 'l LogWrapper \<Rightarrow> 'l LogWrapper option" where
  "LogWrapper_ErrorEvent eventReason err msg keysAndValues r =
     Eventf EventTypeWarning eventReason (error_event_message err msg keysAndValues) (Error_log err msg keysAndValues r)"

definition LogWrapper_WarningEvent :: "string \<Rightarrow> string \<Rightarrow> go_any list \<Rightarrow> 'l LogWrapper \<Rightarrow> 'l LogWrapper option" where
  "LogWrapper_WarningEvent eventReason msg keysAndValues r =
     Eventf EventTypeWarning eventReason (event_message msg keysAndValues) (Warning msg keysAndValues r)"

text \<open>The text of the error that a refused activation is reported with.\<close>

fun BlockingOperationError_Error :: "go_error \<Rightarrow> string option" where
  "BlockingOperationError_Error (OperationError _ _ errorType) = Some (''Cannot active a blocking operation. Reason: '' @ errorType)"
| "BlockingOperationError_Error _ = None"

section \<open>The text as a whole\<close>

text \<open>The reference: the pairs, each rendered on its own, separated by commas.\<close>

fun to_pairs :: "go_any list \<Rightarrow> (go_any \<times> go_any) list" where
  "to_pairs [] = []"
| "to_pairs [k] = [(k, AnyNil)]"
| "to_pairs (k # v # rest) = (k, v) # to_pairs rest"

fun separated :: "string list \<Rightarrow> string" where
  "separated [] = ''''"
| "separated [x] = x"
| "separated (x # xs) = x @ '', '' @ separated xs"

definition pair_text :: "go_any \<times> go_any \<Rightarrow> string" where
  "pair_text p = [CHR 0x27] @ sprintf_s (fst p) @ [CHR 0x27] @ '': '' @ sprintf_v (snd p)"

definition pairs_text :: "go_any list \<Rightarrow> string" where
  "pairs_text args = separated (map pair_text (to_pairs args))"

lemma pairs_loop_separated:
  "pairs_loop acc '', '' args = acc @ concat (map (\<lambda>p. '', '' @ pair_text p) (to_pairs args))"
  by (induction acc "'', ''" args rule: pairs_loop.induct) (simp_all add: pair_text_def)

lemma separated_Cons: "separated (x # xs) = x @ concat (map (\<lambda>y. '', '' @ y) xs)"
  by (induction xs arbitrary: x) simp_all

lemma pairs_loop_text: "pairs_loop '''' '''' args = pairs_text args"
  by (cases args rule: to_pairs.cases)
    (simp_all add: pairs_text_def pairs_loop_separated separated_Cons pair_text_def comp_def)

lemma pairs_text_nonempty: "args \<noteq> [] \<Longrightarrow> pairs_text args \<noteq> ''''"
  by (cases args rule: to_pairs.cases) (simp_all add: pairs_text_def separated_Cons pair_text_def)

lemma InterfacesToStr_variadic: "InterfacesToStr [variadic args] = Some (pairs_text args)"
  by (cases "args = []")
    (simp_all add: InterfacesToStr_def variadic_def keyValuesPairsToStr_def interfaceToStr_def pairs_loop_text pairs_text_def)

section \<open>BlockingOperationLogger\<close>

definition logOperation :: "KubegresBlockingOperation \<Rightarrow> go_any list" where
  "logOperation operation =
     [AnyString ''OperationId'', AnyString (op_OperationId operation), AnyString ''StepId'', AnyString (op_StepId operation),
      AnyString ''HasTimedOut'', AnyBool (op_HasTimedOut operation)] @
     (let i = sop_InstanceIndex (op_StatefulSetOperation operation) in
      if i \<noteq> 0 then [AnyString ''StatefulSetInstanceIndex'', AnyInt ''int32'' i] else []) @
     (let d = suop_SpecDifferences (op_StatefulSetSpecUpdateOperation operation) in
      if d \<noteq> '''' then [AnyString ''StatefulSetSpecDifferences'', AnyString d] else [])"

definition logActiveOperation :: "int \<Rightarrow> world \<Rightarrow> log_line list" where
  "logActiveOperation now w =
     (let activeOperation = GetActiveOperation w;
          keyAndValuesToLog = logOperation activeOperation @
            [AnyString ''NbreSecondsLeftBeforeTimeOut'', AnyInt ''int64'' (GetNbreSecondsLeftBeforeTimeOut now w)]
      in if op_OperationId activeOperation = '''' then [LogInfo ''Active Blocking-Operation: None'' []]
         else [LogInfo ''Active Blocking-Operation '' keyAndValuesToLog])"

definition logPreviouslyActiveOperation :: "world \<Rightarrow> log_line list" where
  "logPreviouslyActiveOperation w =
     (let previousActiveOperation = GetPreviouslyActiveOperation w in
      if op_OperationId previousActiveOperation = '''' then [LogInfo ''Previous Blocking-Operation: None'' []]
      else [LogInfo ''Previous Blocking-Operation '' (logOperation previousActiveOperation)])"

definition BlockingOperation_Log :: "int \<Rightarrow> world \<Rightarrow> log_line list" where
  "BlockingOperation_Log now w = logActiveOperation now w @ logPreviouslyActiveOperation w"

section \<open>ResourcesStatesLogger\<close>

definition logDbStorageClassStates :: "ResourcesStates \<Rightarrow> log_line list" where
  "logDbStorageClassStates rs =
     [LogInfo ''Database StorageClass states.''
        [AnyString ''IsDeployed'', AnyBool (dsc_IsDeployed (rs_DbStorageClass rs)),
         AnyString ''name'', AnyString (dsc_StorageClassName (rs_DbStorageClass rs))]]"

definition logConfigStates :: "ResourcesStates \<Rightarrow> log_line list" where
  "logConfigStates rs =
     LogInfo ''Base Config states''
       [AnyString ''IsDeployed'', AnyBool (cfs_IsBaseConfigDeployed (rs_Config rs)),
        AnyString ''name'', AnyString (cfs_BaseConfigName (rs_Config rs))] #
     (if cfs_BaseConfigName (rs_Config rs) \<noteq> cfs_CustomConfigName (rs_Config rs) then
        [LogInfo ''Custom Config states''
           [AnyString ''IsDeployed'', AnyBool (cfs_IsCustomConfigDeployed (rs_Config rs)),
            AnyString ''name'', AnyString (cfs_CustomConfigName (rs_Config rs))]]
      else [])"

definition logStatefulSetWrapper :: "string \<Rightarrow> StatefulSetWrapper \<Rightarrow> log_line" where
  "logStatefulSetWrapper logLabel s =
     LogInfo (logLabel @ '': '')
       (if \<not> sw_IsDeployed s then [AnyString ''IsDeployed'', AnyBool (sw_IsDeployed s)]
        else [AnyString ''IsDeployed'', AnyBool (sw_IsDeployed s),
              AnyString ''Name'', AnyString (sts_Name (sw_StatefulSet s)),
              AnyString ''IsReady'', AnyBool (sw_IsReady s),
              AnyString ''Pod Name'', AnyString (pod_Name (pw_Pod (sw_Pod s))),
              AnyString ''Pod IsDeployed'', AnyBool (pw_IsDeployed (sw_Pod s)),
              AnyString ''Pod IsReady'', AnyBool (pw_IsReady (sw_Pod s)),
              AnyString ''Pod IsStuck'', AnyBool (pw_IsStuck (sw_Pod s))])"

definition logStatefulSetsStates :: "ResourcesStates \<Rightarrow> log_line list" where
  "logStatefulSetsStates rs =
     (let statefulSets = rs_StatefulSets rs in
      [LogInfo ''All StatefulSets deployment states: ''
         [AnyString ''Spec expected to deploy'', AnyInt ''int32'' (sss_SpecExpectedNbreToDeploy statefulSets),
          AnyString ''Nbre Deployed'', AnyInt ''int32'' (sss_NbreDeployed statefulSets)],
       logStatefulSetWrapper ''Primary states'' (sss_Primary statefulSets)] @
      map (logStatefulSetWrapper ''Replica states'')
        (GetAllSortedByInstanceIndex (rep_All (sss_Replicas statefulSets))))"

definition logServiceWrapper :: "string \<Rightarrow> ServiceWrapper \<Rightarrow> log_line" where
  "logServiceWrapper logLabel s =
     LogInfo (logLabel @ '': '')
       (if \<not> srw_IsDeployed s then [AnyString ''IsDeployed'', AnyBool (srw_IsDeployed s)]
        else [AnyString ''IsDeployed'', AnyBool (srw_IsDeployed s), AnyString ''name'', AnyString (srw_Name s)])"

definition logServicesStates :: "ResourcesStates \<Rightarrow> log_line list" where
  "logServicesStates rs =
     [logServiceWrapper ''Primary Service states'' (svs_Primary (rs_Services rs)),
      logServiceWrapper ''Replica Service states'' (svs_Replica (rs_Services rs))]"

definition logBackUpStates :: "ResourcesStates \<Rightarrow> log_line list" where
  "logBackUpStates rs =
     [LogInfo ''BackUp states.''
        [AnyString ''IsCronJobDeployed'', AnyBool (bus_IsCronJobDeployed (rs_BackUp rs)),
         AnyString ''IsPvcDeployed'', AnyBool (bus_IsPvcDeployed (rs_BackUp rs)),
         AnyString ''ConfigMap'', AnyString (bus_ConfigMap (rs_BackUp rs)),
         AnyString ''CronJobLastScheduleTime'', AnyString (bus_CronJobLastScheduleTime (rs_BackUp rs))]]"

definition ResourcesStates_Log :: "ResourcesStates \<Rightarrow> log_line list" where
  "ResourcesStates_Log rs = logDbStorageClassStates rs @ logConfigStates rs @ logStatefulSetsStates rs @
     logServicesStates rs @ logBackUpStates rs"

section \<open>Properties\<close>

lemma constructFull_variadic:
  "event_message msg args = Some (if msg = '''' then '''' else if args = [] then msg else msg @ '' '' @ pairs_text args)"
  by (cases "args = []") (simp_all add: event_message_def constructFullMsg_def InterfacesToStr_variadic pairs_text_nonempty,
      simp add: pairs_text_def)

lemma constructFullErr_variadic:
  "error_event_message err msg args =
     Some (if msg = '''' then err else the (event_message msg args) @ (if err = '''' then '''' else '' - '' @ err))"
  by (auto simp: constructFull_variadic error_event_message_def constructFullErrMsg_def event_message_def [symmetric])

text \<open>
  What the operations on \<open>world\<close> keep of an event is what the recorder receives: an event with a message never
  panics, writes one line and records one event, of the type and reason that \<open>InfoEvent\<close>, \<open>ErrorEvent\<close> and
  \<open>WarningEvent\<close> of theory \<open>Operator_State\<close> add to the world.
\<close>

definition recorded :: "'l LogWrapper \<Rightarrow> event list" where
  "recorded r = map (\<lambda>(t, reason, text). Event t reason) (lw_Recorder r)"

lemma event_message_total: "event_message msg args \<noteq> None" "error_event_message err msg args \<noteq> None"
  by (simp_all add: constructFull_variadic constructFullErr_variadic)

lemma LogWrapper_records:
  assumes "recorded r = w_events w"
  shows "\<exists>r'. LogWrapper_InfoEvent reason msg args r = Some r' \<and> recorded r' = w_events (InfoEvent reason w) \<and>
      lw_lines r' = lw_lines r @ [(lw_Logger r, LogInfo msg args)]"
    and "\<exists>r'. LogWrapper_ErrorEvent reason err msg args r = Some r' \<and> recorded r' = w_events (ErrorEvent reason w) \<and>
      lw_lines r' = lw_lines r @ [(lw_Logger r, LogError err msg args)]"
    and "\<exists>r'. LogWrapper_WarningEvent reason msg args r = Some r' \<and> recorded r' = w_events (WarningEvent reason w) \<and>
      lw_lines r' = lw_lines r @ [(lw_Logger r, LogInfo (''Warning: '' @ msg) args)]"
  using assms event_message_total(1) [of msg args] event_message_total(2) [of err msg args]
  by (auto simp: LogWrapper_InfoEvent_def LogWrapper_ErrorEvent_def LogWrapper_WarningEvent_def Eventf_def Info_def Error_log_def Warning_def
      recorded_def event_defs)

text \<open>A refused activation is reported with the reason and the identifier of the operation that was asked for.\<close>

lemma refused_activation_text:
  assumes "activateOperation now ope w = (Err e, w')"
  shows "\<exists>reason. BlockingOperationError_Error e = Some (''Cannot active a blocking operation. Reason: OperationId: '' @ [CHR 0x27] @
      op_OperationId ope @ [CHR 0x27] @ '' - '' @ reason)"
  using assms by (auto simp: activateOperation_def CreateBlockingOperationError_def Let_def split: if_splits)

text \<open>
  C40: the three kinds of events are built and recorded without a panic, for any message and any number of
  arguments, an odd one included. Each writes one line to the logger and hands one event to the
  recorder, with the given reason; its type is normal for \<open>InfoEvent\<close> and warning for the other two. Its text is
  empty for an empty message and otherwise the message followed by the key-value pairs, each rendered on its
  own and separated by commas, a last key without a value with \<open>nil\<close>; the text of an error event continues with the error. So the two
  nested loops over the arguments agree with this reference.
\<close>

theorem events_are_recorded:
  "let text = (if msg = '''' then '''' else if args = [] then msg
      else msg @ '' '' @ separated (map (\<lambda>(key, val). [CHR 0x27] @ sprintf_s key @ [CHR 0x27] @ '': '' @ sprintf_v val) (to_pairs args))) in
    LogWrapper_InfoEvent reason msg args r = Some (r\<lparr>lw_lines := lw_lines r @ [(lw_Logger r, LogInfo msg args)],
      lw_Recorder := lw_Recorder r @ [(EventTypeNormal, reason, text)]\<rparr>) \<and>
    LogWrapper_WarningEvent reason msg args r = Some (r\<lparr>lw_lines := lw_lines r @ [(lw_Logger r, LogInfo (''Warning: '' @ msg) args)],
      lw_Recorder := lw_Recorder r @ [(EventTypeWarning, reason, text)]\<rparr>) \<and>
    LogWrapper_ErrorEvent reason err msg args r = Some (r\<lparr>lw_lines := lw_lines r @ [(lw_Logger r, LogError err msg args)],
      lw_Recorder := lw_Recorder r @ [(EventTypeWarning, reason,
        if msg = '''' then err else text @ (if err = '''' then '''' else '' - '' @ err))]\<rparr>)"
proof -
  have "pairs_text args = separated (map (\<lambda>(key, val). [CHR 0x27] @ sprintf_s key @ [CHR 0x27] @ '': '' @ sprintf_v val) (to_pairs args))"
    by (simp add: pairs_text_def pair_text_def case_prod_unfold cong: map_cong)
  then show ?thesis
    by (simp add: Let_def constructFull_variadic LogWrapper_InfoEvent_def LogWrapper_ErrorEvent_def LogWrapper_WarningEvent_def Eventf_def Info_def Error_log_def Warning_def
        constructFullErr_variadic)
qed

end
