(* ===== verification/Template_Loader.thy ===== *)
theory Template_Loader
  imports Templates Logging
begin

text \<open>
  \<open>src/controllers/spec/template/ResourceTemplateLoader.go\<close> with the decoder of the Kubernetes library as a
  parameter: the error paths, the type assertions, and that with a decoder that reads the
  YAML constants the loader returns the values that theory \<open>Templates\<close> gives to the creator.
\<close>

section \<open>Definitions\<close>

text \<open>A decoded object, by its Go type; the decoder returns it or the text of an error.\<close>

datatype runtime_Object =
    Obj_ConfigMap ConfigMap
  | Obj_Service Service
  | Obj_StatefulSet StatefulSet
  | Obj_CronJob CronJob
  | Obj_other string

type_synonym decoder = "string \<Rightarrow> string + runtime_Object"

text \<open>The text of a constant of \<open>yaml/Templates.go\<close>.\<close>

datatype yaml_constant = Base_Config_Map | Primary_Service | Replica_Service | Primary_StatefulSet | Replica_StatefulSet | BackUp_CronJob

type_synonym yaml_texts = "yaml_constant \<Rightarrow> string"

text \<open>What a method of the loader returns: a value or an error; \<open>None\<close>: a failed type assertion, which panics.\<close>

type_synonym 'a loaded_template = "(string + 'a) option"

definition decodeYaml :: "decoder \<Rightarrow> string \<Rightarrow> 'l LogWrapper \<Rightarrow> (string + runtime_Object) \<times> 'l LogWrapper" where
  "decodeYaml decode yamlContents r =
     (case decode yamlContents of
        Inl err \<Rightarrow> (Inl err, Error_log err ''Error in decode: '' [AnyString ''obj'', AnyNil] r)
      | Inr obj \<Rightarrow> (Inr obj, r))"

text \<open>The common part: decode, log the error, assert the type.\<close>

definition load_yaml :: "(runtime_Object \<Rightarrow> 'a option) \<Rightarrow> string \<Rightarrow> decoder \<Rightarrow> string \<Rightarrow> 'l LogWrapper \<Rightarrow> 'a loaded_template \<times> 'l LogWrapper" where
  "load_yaml as_type msg decode yamlContents r =
     (case decodeYaml decode yamlContents r of
        (Inl err, r1) \<Rightarrow> (Some (Inl err), Error_log err msg [] r1)
      | (Inr obj, r1) \<Rightarrow> (map_option Inr (as_type obj), r1))"

fun as_ConfigMap :: "runtime_Object \<Rightarrow> ConfigMap option" where
  "as_ConfigMap (Obj_ConfigMap x) = Some x" | "as_ConfigMap _ = None"

fun as_Service :: "runtime_Object \<Rightarrow> Service option" where
  "as_Service (Obj_Service x) = Some x" | "as_Service _ = None"

fun as_StatefulSet :: "runtime_Object \<Rightarrow> StatefulSet option" where
  "as_StatefulSet (Obj_StatefulSet x) = Some x" | "as_StatefulSet _ = None"

fun as_CronJob :: "runtime_Object \<Rightarrow> CronJob option" where
  "as_CronJob (Obj_CronJob x) = Some x" | "as_CronJob _ = None"

definition loadService :: "decoder \<Rightarrow> string \<Rightarrow> 'l LogWrapper \<Rightarrow> Service loaded_template \<times> 'l LogWrapper" where
  "loadService = load_yaml as_Service ''Unable to decode Kubegres Service. Given error: ''"

definition loadStatefulSet :: "decoder \<Rightarrow> string \<Rightarrow> 'l LogWrapper \<Rightarrow> StatefulSet loaded_template \<times> 'l LogWrapper" where
  "loadStatefulSet = load_yaml as_StatefulSet ''Unable to decode Kubegres StatefulSet. Given error: ''"

definition loader_BaseConfigMap :: "decoder \<Rightarrow> yaml_texts \<Rightarrow> 'l LogWrapper \<Rightarrow> ConfigMap loaded_template \<times> 'l LogWrapper" where
  "loader_BaseConfigMap decode yaml =
     load_yaml as_ConfigMap ''Unable to load Kubegres CustomConfig. Given error:'' decode (yaml Base_Config_Map)"

definition loader_PrimaryService :: "decoder \<Rightarrow> yaml_texts \<Rightarrow> 'l LogWrapper \<Rightarrow> Service loaded_template \<times> 'l LogWrapper" where
  "loader_PrimaryService decode yaml = loadService decode (yaml Primary_Service)"

definition loader_ReplicaService :: "decoder \<Rightarrow> yaml_texts \<Rightarrow> 'l LogWrapper \<Rightarrow> Service loaded_template \<times> 'l LogWrapper" where
  "loader_ReplicaService decode yaml = loadService decode (yaml Replica_Service)"

definition loader_PrimaryStatefulSet :: "decoder \<Rightarrow> yaml_texts \<Rightarrow> 'l LogWrapper \<Rightarrow> StatefulSet loaded_template \<times> 'l LogWrapper" where
  "loader_PrimaryStatefulSet decode yaml = loadStatefulSet decode (yaml Primary_StatefulSet)"

definition loader_ReplicaStatefulSet :: "decoder \<Rightarrow> yaml_texts \<Rightarrow> 'l LogWrapper \<Rightarrow> StatefulSet loaded_template \<times> 'l LogWrapper" where
  "loader_ReplicaStatefulSet decode yaml = loadStatefulSet decode (yaml Replica_StatefulSet)"

definition loader_BackUpCronJob :: "decoder \<Rightarrow> yaml_texts \<Rightarrow> 'l LogWrapper \<Rightarrow> CronJob loaded_template \<times> 'l LogWrapper" where
  "loader_BackUpCronJob decode yaml =
     load_yaml as_CronJob ''Unable to load Kubegres BackUp CronJob. Given error:'' decode (yaml BackUp_CronJob)"

lemmas loader_defs = loader_BaseConfigMap_def loader_PrimaryService_def loader_ReplicaService_def loader_PrimaryStatefulSet_def
  loader_ReplicaStatefulSet_def loader_BackUpCronJob_def loadService_def loadStatefulSet_def

section \<open>What the loader returns\<close>

text \<open>The decoder reads the constants: each text is the object that theory \<open>Templates\<close> has for it.\<close>

fun template_object :: "yaml_constant \<Rightarrow> runtime_Object" where
  "template_object Base_Config_Map = Obj_ConfigMap BaseConfigMapTemplate"
| "template_object Primary_Service = Obj_Service PrimaryServiceTemplate"
| "template_object Replica_Service = Obj_Service ReplicaServiceTemplate"
| "template_object Primary_StatefulSet = Obj_StatefulSet PrimaryStatefulSetTemplate"
| "template_object Replica_StatefulSet = Obj_StatefulSet ReplicaStatefulSetTemplate"
| "template_object BackUp_CronJob = Obj_CronJob BackUpCronJobTemplate"

definition reads_templates :: "decoder \<Rightarrow> yaml_texts \<Rightarrow> bool" where
  "reads_templates decode yaml \<longleftrightarrow> (\<forall>c. decode (yaml c) = Inr (template_object c))"

text \<open>Then every template is loaded as the creator uses it, and nothing is logged.\<close>

lemma loader_loads_templates:
  assumes "reads_templates decode yaml"
  shows "loader_BaseConfigMap decode yaml r = (Some (Inr LoadBaseConfigMap), r)"
    and "loader_PrimaryService decode yaml r = (Some (Inr LoadPrimaryService), r)"
    and "loader_ReplicaService decode yaml r = (Some (Inr LoadReplicaService), r)"
    and "loader_PrimaryStatefulSet decode yaml r = (Some (Inr LoadPrimaryStatefulSet), r)"
    and "loader_ReplicaStatefulSet decode yaml r = (Some (Inr LoadReplicaStatefulSet), r)"
    and "loader_BackUpCronJob decode yaml r = (Some (Inr LoadBackUpCronJob), r)"
  using assms by (simp_all add: loader_defs load_yaml_def decodeYaml_def reads_templates_def LoadBaseConfigMap_def LoadPrimaryService_def
      LoadReplicaService_def LoadPrimaryStatefulSet_def LoadReplicaStatefulSet_def LoadBackUpCronJob_def)

text \<open>A text that cannot be decoded is an error for the caller and two lines of the log, one from the decoding.\<close>

lemma load_yaml_error:
  assumes "decode text = Inl err"
  shows "\<exists>r'. load_yaml as_type msg decode text r = (Some (Inl err), r') \<and> lw_Recorder r' = lw_Recorder r \<and>
    lw_lines r' = lw_lines r @ [(lw_Logger r, LogError err ''Error in decode: '' [AnyString ''obj'', AnyNil]), (lw_Logger r, LogError err msg [])]"
  using assms by (simp add: load_yaml_def decodeYaml_def Error_log_def)

text \<open>The loader panics exactly when the text is decoded to an object of another type.\<close>

lemma load_yaml_panics_iff:
  "fst (load_yaml as_type msg decode text r) = None \<longleftrightarrow> (\<exists>obj. decode text = Inr obj \<and> as_type obj = None)"
  by (simp add: load_yaml_def decodeYaml_def split: sum.splits)

text \<open>A decoder and texts for which this holds.\<close>

fun named_texts :: yaml_texts where
  "named_texts Base_Config_Map = ''BaseConfigMap''"
| "named_texts Primary_Service = ''PrimaryService''"
| "named_texts Replica_Service = ''ReplicaService''"
| "named_texts Primary_StatefulSet = ''PrimaryStatefulSet''"
| "named_texts Replica_StatefulSet = ''ReplicaStatefulSet''"
| "named_texts BackUp_CronJob = ''BackUpCronJob''"

definition table_decoder :: decoder where
  "table_decoder text = (case find (\<lambda>c. named_texts c = text) [Base_Config_Map, Primary_Service, Replica_Service, Primary_StatefulSet,
     Replica_StatefulSet, BackUp_CronJob] of None \<Rightarrow> Inl ''no kind is registered'' | Some c \<Rightarrow> Inr (template_object c))"

lemma table_decoder_reads: "reads_templates table_decoder named_texts"
  unfolding reads_templates_def
proof
  fix c
  show "table_decoder (named_texts c) = Inr (template_object c)" by (cases c) (simp_all add: table_decoder_def)
qed

end
