(* ===== verification/Setup.thy ===== *)
theory Setup
  imports Count_Enforcers
begin

text \<open>
  What happens before the first reconciliation: the index by which the operator finds its
  own objects (\<open>src/controllers/ctx/CreateOwnerKeyIndexation.go\<close>), the registration with
  the manager (\<open>SetupWithManager\<close> in \<open>src/controllers/kubegres_controller.go\<close>), the program
  \<open>src/main.go\<close>, and the script that turns the YAML templates into Go constants
  (\<open>src/scripts/WriteYamlTemplatesInGoFile.go\<close>).
\<close>

section \<open>The owner index\<close>

definition DeploymentOwnerKey :: string where
  "DeploymentOwnerKey = ''.metadata.controller''"

text \<open>\<open>postgresV1.GroupVersion\<close>.\<close>

record GroupVersion =
  gv_Group :: string
  gv_Version :: string

definition kubegres_GroupVersion :: GroupVersion where
  "kubegres_GroupVersion = \<lparr>gv_Group = ''kubegres.reactive-tech.io'', gv_Version = ''v1''\<rparr>"

text \<open>
  The function that is registered, the same for the four kinds; the parameters are
  \<open>metav1.GetControllerOf\<close> and \<open>GroupVersion.String\<close>.
\<close>

definition index_by_owner :: 
    "(ObjectMeta \<Rightarrow> OwnerReference option) \<Rightarrow> (GroupVersion \<Rightarrow> string) \<Rightarrow> ObjectMeta \<Rightarrow> string list" where
  "index_by_owner GetControllerOf GroupVersion_String meta =
     (case GetControllerOf meta of
        None \<Rightarrow> []
      | Some owner \<Rightarrow>
          if own_APIVersion owner \<noteq> GroupVersion_String kubegres_GroupVersion \<or> own_Kind owner \<noteq> KindKubegres then []
          else [own_Name owner])"

section \<open>Registration with the manager\<close>

datatype setup_call =
    IndexField string string
  | CompleteController string "string list"
  | AddHealthzCheck string
  | AddReadyzCheck string
  | StartManager

text \<open>
  \<open>CompleteController\<close> stands for the builder's \<open>For\<close>, \<open>Owns\<close> and \<open>Complete\<close>, with the
  kind that is reconciled and the kinds whose changes trigger its owner.
\<close>

text \<open>The manager answers each call with an error or nil.\<close>

type_synonym manager = "setup_call list \<Rightarrow> setup_call \<Rightarrow> go_error option"

definition call_manager :: "manager \<Rightarrow> setup_call \<Rightarrow> setup_call list \<Rightarrow> outcome \<times> setup_call list" where
  "call_manager mgr c done = (case mgr done c of None \<Rightarrow> Ok | Some err \<Rightarrow> Err err, done @ [c])"

definition CreateOwnerKeyIndexation :: "manager \<Rightarrow> setup_call list \<Rightarrow> outcome \<times> setup_call list" where
  "CreateOwnerKeyIndexation mgr =
     run_all (map (\<lambda>kind. call_manager mgr (IndexField kind DeploymentOwnerKey))
       [''StatefulSet'', ''Service'', ''ConfigMap'', ''Pod''])"

definition kubegres_controller :: setup_call where
  "kubegres_controller = CompleteController ''Kubegres'' [''StatefulSet'', ''Service'']"

definition SetupWithManager :: "manager \<Rightarrow> setup_call list \<Rightarrow> outcome \<times> setup_call list" where
  "SetupWithManager mgr = and_then (CreateOwnerKeyIndexation mgr) (call_manager mgr kubegres_controller)"

section \<open>The program\<close>

record Options =
  MetricsBindAddress :: string
  Port :: int
  HealthProbeBindAddress :: string
  LeaderElection :: bool
  LeaderElectionID :: string

text \<open>The values of the three flags; None: not given on the command line.\<close>

definition main_options :: "string option \<Rightarrow> string option \<Rightarrow> bool option \<Rightarrow> Options" where
  "main_options metricsAddr probeAddr enableLeaderElection =
     \<lparr>MetricsBindAddress = (case metricsAddr of None \<Rightarrow> '':8080'' | Some a \<Rightarrow> a), Port = 9443,
      HealthProbeBindAddress = (case probeAddr of None \<Rightarrow> '':8081'' | Some a \<Rightarrow> a),
      LeaderElection = (case enableLeaderElection of None \<Rightarrow> False | Some b \<Rightarrow> b),
      LeaderElectionID = ''d5ccd92e.reactive-tech.io''\<rparr>"

definition start_program :: "manager \<Rightarrow> setup_call list \<Rightarrow> outcome \<times> setup_call list" where
  "start_program mgr =
     run_all [SetupWithManager mgr, call_manager mgr (AddHealthzCheck ''healthz''), call_manager mgr (AddReadyzCheck ''readyz''),
       call_manager mgr StartManager]"

text \<open>The exit status and the calls; \<open>NewManager\<close> is the parameter that builds the manager.\<close>

definition main_program :: "(Options \<Rightarrow> go_error + manager) \<Rightarrow> Options \<Rightarrow> int \<times> setup_call list" where
  "main_program NewManager opts =
     (case NewManager opts of
        Inl err \<Rightarrow> (1, [])
      | Inr mgr \<Rightarrow>
          (case start_program mgr [] of
             (Ok, calls) \<Rightarrow> (0, calls)
           | (_, calls) \<Rightarrow> (1, calls)))"

section \<open>A sequence of calls stops at the first error\<close>

lemma and_then_assoc: "and_then (and_then f g) h = and_then f (and_then g h)"
  by (auto simp: fun_eq_iff and_then_def split: prod.splits outcome.splits)

lemma run_all_Cons: "run_all (f # fs) = and_then f (run_all fs)"
  by (rule ext) simp

lemma call_manager_then:
  "and_then (call_manager mgr c) g sent = (case mgr sent c of None \<Rightarrow> g (sent @ [c]) | Some err \<Rightarrow> (Err err, sent @ [c]))"
  by (simp add: call_manager_def and_then_def split: option.split)

lemma run_all_append: "run_all (fs @ gs) = and_then (run_all fs) (run_all gs)"
proof (induction fs)
  case Nil
  show ?case by (simp add: fun_eq_iff and_then_def)
next
  case (Cons f fs)
  then show ?case by (simp add: run_all_Cons and_then_assoc)
qed

definition all_setup_calls :: "setup_call list" where
  "all_setup_calls = map (\<lambda>kind. IndexField kind DeploymentOwnerKey) [''StatefulSet'', ''Service'', ''ConfigMap'', ''Pod''] @
     [kubegres_controller, AddHealthzCheck ''healthz'', AddReadyzCheck ''readyz'', StartManager]"

lemma start_program_calls: "start_program mgr = run_all (map (call_manager mgr) all_setup_calls)"
proof -
  have one: "run_all [f] = f" for f :: "setup_call list \<Rightarrow> outcome \<times> setup_call list"
    by (auto simp: fun_eq_iff and_then_def split: prod.splits outcome.splits)
  have "map (call_manager mgr) all_setup_calls =
     (map (\<lambda>kind. call_manager mgr (IndexField kind DeploymentOwnerKey)) [''StatefulSet'', ''Service'', ''ConfigMap'', ''Pod''] @
       [call_manager mgr kubegres_controller]) @ [call_manager mgr (AddHealthzCheck ''healthz''),
       call_manager mgr (AddReadyzCheck ''readyz''), call_manager mgr StartManager]"
    by (simp add: all_setup_calls_def)
  then show ?thesis
    unfolding start_program_def SetupWithManager_def CreateOwnerKeyIndexation_def
    by (simp only: run_all_append one run_all_Cons [of "and_then _ _"])
qed

text \<open>The calls \<open>cs\<close> are all answered with nil when they follow the calls \<open>sent\<close>.\<close>

fun answered :: "manager \<Rightarrow> setup_call list \<Rightarrow> setup_call list \<Rightarrow> bool" where
  "answered mgr sent [] \<longleftrightarrow> True"
| "answered mgr sent (c # cs) \<longleftrightarrow> mgr sent c = None \<and> answered mgr (sent @ [c]) cs"

lemma run_calls_answered:
  "answered mgr sent cs \<Longrightarrow> run_all (map (call_manager mgr) cs) sent = (Ok, sent @ cs)"
  by (induction cs arbitrary: sent) (simp_all add: call_manager_then)

lemma run_calls_rejected:
  assumes "\<not> answered mgr sent cs"
  shows "\<exists>before c after err. cs = before @ c # after \<and> answered mgr sent before \<and> mgr (sent @ before) c = Some err \<and>
    run_all (map (call_manager mgr) cs) sent = (Err err, sent @ before @ [c])"
  using assms
proof (induction cs arbitrary: sent)
  case (Cons c cs)
  show ?case
  proof (cases "mgr sent c")
    case None
    then have "\<not> answered mgr (sent @ [c]) cs" using Cons.prems by simp
    from Cons.IH [OF this] obtain before d after err where
      "cs = before @ d # after" "answered mgr (sent @ [c]) before" "mgr (sent @ c # before) d = Some err"
      "run_all (map (call_manager mgr) cs) (sent @ [c]) = (Err err, sent @ c # before @ [d])" by auto
    with None show ?thesis
      by (intro exI [of _ "c # before"] exI [of _ d] exI [of _ after] exI [of _ err]) (simp add: call_manager_then)
  next
    case (Some err)
    then show ?thesis
      by (intro exI [of _ "[]"] exI [of _ c] exI [of _ cs] exI [of _ err]) (simp add: call_manager_then)
  qed
qed simp

text \<open>
  The exit status of the operator says what happened. It is 0 exactly when the manager
  could be built and answered every call of the start-up sequence with nil: the four
  owner indexes, the controller for Kubegres with the two kinds it owns, the two
  probes and the manager's own run. Otherwise it is 1 and the program stopped right at the
  call that was refused, so that the manager is never run half registered.
\<close>

lemma main_program_exit_status:
  "case NewManager opts of
     Inl err \<Rightarrow> main_program NewManager opts = (1, [])
   | Inr mgr \<Rightarrow>
       if answered mgr [] all_setup_calls then main_program NewManager opts = (0, all_setup_calls)
       else (\<exists>before c after err. all_setup_calls = before @ c # after \<and> answered mgr [] before \<and>
         mgr before c = Some err \<and> main_program NewManager opts = (1, before @ [c]))"
proof (cases "NewManager opts")
  case (Inr mgr)
  then show ?thesis
    using run_calls_answered [of mgr "[]" all_setup_calls] run_calls_rejected [of mgr "[]" all_setup_calls]
    by (fastforce simp: main_program_def start_program_calls)
qed (simp add: main_program_def)

section \<open>What is created can be found again\<close>

lemma service_owner:
  assumes "CreatePrimaryService k = Some s \<or> CreateReplicaService k = Some s"
  shows "md_OwnerReferences (svc_meta s) = getOwnerReference k"
  using assms
  by (auto simp: CreatePrimaryService_def CreateReplicaService_def initService_def set_service_name_def bind_eq_Some_conv)

text \<open>
  Every StatefulSet and Service that the operator creates is indexed under the name of
  its Kubegres resource, the key with which \<open>StatefulSetsStates\<close> and \<open>ServicesStates\<close> list
  them, and under no other key. The hypotheses are the contracts of the two library
  functions: the controller is the first owner reference whose \<open>controller\<close> field is true,
  and a group version is printed as group, slash, version.
\<close>

lemma created_resources_are_indexed:
  assumes "\<And>m. GetControllerOf m = find (\<lambda>ref. own_Controller ref = Some True) (md_OwnerReferences m)"
    and "\<And>g v. g \<noteq> '''' \<Longrightarrow> GroupVersion_String \<lparr>gv_Group = g, gv_Version = v\<rparr> = g @ ''/'' @ v"
    and "CreatePrimaryStatefulSet srv i w = Some sts \<or> CreateReplicaStatefulSet srv i w = Some sts"
    and "CreatePrimaryService (w_kubegres w) = Some svc \<or> CreateReplicaService (w_kubegres w) = Some svc"
  shows "index_by_owner GetControllerOf GroupVersion_String (sts_meta sts) = [kg_Name (w_kubegres w)] \<and>
    index_by_owner GetControllerOf GroupVersion_String (svc_meta svc) = [kg_Name (w_kubegres w)]"
proof -
  have indexed: "index_by_owner GetControllerOf GroupVersion_String m = [kg_Name (w_kubegres w)]"
    if "md_OwnerReferences m = getOwnerReference (w_kubegres w)" for m
    using that assms(1,2) by (simp add: index_by_owner_def getOwnerReference_def kubegres_GroupVersion_def)
  show ?thesis
    using assms(3) CreatePrimary_facts(4) CreateReplica_facts(4) service_owner [OF assms(4)] by (blast intro: indexed)
qed

definition first_controller :: "ObjectMeta \<Rightarrow> OwnerReference option" where
  "first_controller m = find (\<lambda>ref. own_Controller ref = Some True) (md_OwnerReferences m)"

definition group_slash_version :: "GroupVersion \<Rightarrow> string" where
  "group_slash_version gv = gv_Group gv @ ''/'' @ gv_Version gv"

lemma created_resources_are_indexed_witness:
  "\<exists>p s. CreatePrimaryStatefulSet sample_server 4 sample_world = Some p \<and> CreateReplicaService (w_kubegres sample_world) = Some s \<and>
     index_by_owner first_controller group_slash_version (sts_meta p) = [kg_Name (w_kubegres sample_world)] \<and>
     index_by_owner first_controller group_slash_version (svc_meta s) = [kg_Name (w_kubegres sample_world)]"
proof -
  have "srv_parse_quantity sample_server (db_Size (spec_Database (w_spec sample_world))) \<noteq> None"
    by (simp add: sample_server_def)
  then obtain p where p: "CreatePrimaryStatefulSet sample_server 4 sample_world = Some p"
    using CreateStatefulSet_None [of sample_server 4 sample_world] by auto
  obtain s where s: "CreateReplicaService (w_kubegres sample_world) = Some s"
    using CreateService_Some(2) by blast
  from p s show ?thesis
    using created_resources_are_indexed [of first_controller group_slash_version sample_server 4 sample_world p s]
    by (simp add: first_controller_def group_slash_version_def)
qed

section \<open>The script that generates the templates\<close>

definition HasSuffix :: "string \<Rightarrow> string \<Rightarrow> bool" where
  "HasSuffix s x \<longleftrightarrow> length x \<le> length s \<and> drop (length s - length x) s = x"

definition TrimSuffix :: "string \<Rightarrow> string \<Rightarrow> string" where
  "TrimSuffix s x = (if HasSuffix s x then take (length s - length x) s else s)"

definition templates_header :: string where
  "templates_header = ''package yaml '' @
     [CHR 0x0A, CHR 0x0A] @ '' // This file is auto generated by the script in '' @ [CHR 0x27] @
     ''WriteYamlTemplatesInGoFile.go'' @ [CHR 0x27] @ ''. '' @
     [CHR 0x0A] @ '' // Any manual modification to this file will be lost during next compilation. '' @
     [CHR 0x0A, CHR 0x0A] @ ''const ('' @ [CHR 0x0A]"

text \<open>
  The directory is a list of file names with their contents, in the order of \<open>ReadDir\<close>; a file
  that cannot be opened has no content and nothing is copied, because the errors are ignored.
\<close>

definition write_template :: "string \<times> string option \<Rightarrow> string" where
  "write_template f =
     (if HasSuffix (fst f) ''.yaml''
      then TrimSuffix (fst f) ''.yaml'' @ '' = '' @ [CHR 0x60] @
           (case snd f of None \<Rightarrow> [] | Some content \<Rightarrow> content) @ [CHR 0x60, CHR 0x0A]
      else [])"

definition WriteYamlTemplatesInGoFile :: "(string \<times> string option) list \<Rightarrow> string" where
  "WriteYamlTemplatesInGoFile fs = templates_header @ concat (map write_template fs) @ '')'' @ [CHR 0x0A]"

text \<open>
  What the Go compiler reads from the constant block: identifiers with raw string literals,
  from whose value carriage returns are discarded.
\<close>

function read_constants :: "string \<Rightarrow> (string \<times> string) list option" where
  "read_constants s =
     (if s = '')'' @ [CHR 0x0A] then Some []
      else
        let name = takeWhile (\<lambda>c. c \<noteq> CHR '' '') s; rest = dropWhile (\<lambda>c. c \<noteq> CHR '' '') s;
            body = takeWhile (\<lambda>c. c \<noteq> CHR 0x60) (drop 4 rest); next = dropWhile (\<lambda>c. c \<noteq> CHR 0x60) (drop 4 rest)
        in if take 4 rest = '' = '' @ [CHR 0x60] \<and> take 2 next = [CHR 0x60, CHR 0x0A]
           then map_option ((#) (name, filter (\<lambda>c. c \<noteq> CHR 0x0D) body)) (read_constants (drop 2 next))
           else None)"
  by pat_completeness simp_all
termination
proof (relation "measure length", goal_cases)
  case (2 s name rest body "next")
  have len: "length (dropWhile P xs) \<le> length xs" for P :: "char \<Rightarrow> bool" and xs by (rule length_dropWhile_le)
  have "take 4 rest = '' = '' @ [CHR 0x60]" using 2(6) by simp
  then have "length (take 4 rest) = 4" by simp
  then have "4 \<le> length rest" by simp
  moreover have "length rest \<le> length s" using len 2(3) by simp
  moreover have "length next \<le> length rest - 4" using len [of _ "drop 4 rest"] 2(5) by simp
  ultimately show ?case by simp
qed simp

declare read_constants.simps [simp del]

text \<open>The constants one expects for a directory.\<close>

definition yaml_constants :: "(string \<times> string option) list \<Rightarrow> (string \<times> string) list" where
  "yaml_constants fs =
     map (\<lambda>(name, content). (TrimSuffix name ''.yaml'', filter (\<lambda>c. c \<noteq> CHR 0x0D) (case content of None \<Rightarrow> [] | Some t \<Rightarrow> t)))
       (filter (\<lambda>(name, content). HasSuffix name ''.yaml'') fs)"

lemma write_template_pair:
  "write_template (name, content) =
     (if HasSuffix name ''.yaml''
      then TrimSuffix name ''.yaml'' @ '' = '' @ [CHR 0x60] @ (case content of None \<Rightarrow> [] | Some t \<Rightarrow> t) @ [CHR 0x60, CHR 0x0A]
      else [])"
  by (simp add: write_template_def)

lemma read_constants_entry:
  assumes "CHR '' '' \<notin> set name" "CHR '')'' \<notin> set name" "CHR 0x60 \<notin> set content"
  shows "read_constants (name @ '' = '' @ [CHR 0x60] @ content @ [CHR 0x60, CHR 0x0A] @ s) =
    map_option ((#) (name, filter (\<lambda>c. c \<noteq> CHR 0x0D) content)) (read_constants s)"
proof -
  let ?s = "name @ '' = '' @ [CHR 0x60] @ content @ [CHR 0x60, CHR 0x0A] @ s"
  have "?s \<noteq> '')'' @ [CHR 0x0A]"
  proof (cases name)
    case (Cons c cs)
    then show ?thesis using assms(2) by auto
  qed simp
  moreover have "takeWhile (\<lambda>c. c \<noteq> CHR '' '') ?s = name"
    "dropWhile (\<lambda>c. c \<noteq> CHR '' '') ?s = '' = '' @ [CHR 0x60] @ content @ [CHR 0x60, CHR 0x0A] @ s"
    using assms(1) by (auto simp: takeWhile_append dropWhile_append)
  moreover have "takeWhile (\<lambda>c. c \<noteq> CHR 0x60) (content @ CHR 0x60 # x) = content"
    "dropWhile (\<lambda>c. c \<noteq> CHR 0x60) (content @ CHR 0x60 # x) = CHR 0x60 # x" for x
    using assms(3) by (auto simp: takeWhile_append dropWhile_append)
  ultimately show ?thesis by (subst read_constants.simps) (simp add: Let_def)
qed

text \<open>
  C39: Compiling the generated file gives the templates back: the constants of the block are
  the \<open>.yaml\<close> files of the directory in its order, each under its name without the suffix and with the
  content of the file (an unreadable file gives an empty constant, and carriage returns do
  not survive), provided that the names are identifiers and that no content has a back quote, which would
  end the literal.
\<close>

theorem generated_templates_read_back:
  assumes "\<And>name content. (name, content) \<in> set fs \<Longrightarrow> CHR '' '' \<notin> set name \<and> CHR '')'' \<notin> set name"
    and "\<And>name content. (name, Some content) \<in> set fs \<Longrightarrow> CHR 0x60 \<notin> set content"
  shows "\<exists>block. WriteYamlTemplatesInGoFile fs = templates_header @ block \<and>
    read_constants block = Some (yaml_constants fs)"
proof -
  have "read_constants (concat (map write_template fs) @ '')'' @ [CHR 0x0A]) = Some (yaml_constants fs)"
    using assms
  proof (induction fs)
    case Nil
    show ?case by (subst read_constants.simps) (simp add: yaml_constants_def)
  next
    case (Cons f fs)
    obtain name content where f: "f = (name, content)" by (cases f)
    have "CHR '' '' \<notin> set (TrimSuffix name ''.yaml'')" "CHR '')'' \<notin> set (TrimSuffix name ''.yaml'')"
      using Cons.prems(1) [of name content] f by (auto simp: TrimSuffix_def dest: in_set_takeD)
    moreover have "CHR 0x60 \<notin> set (case content of None \<Rightarrow> [] | Some t \<Rightarrow> t)"
      using Cons.prems(2) f by (auto split: option.split)
    moreover have "read_constants (concat (map write_template fs) @ '')'' @ [CHR 0x0A]) = Some (yaml_constants fs)"
      by (rule Cons.IH) (use Cons.prems in auto)
    ultimately show ?case
      using read_constants_entry [of "TrimSuffix name ''.yaml''" "case content of None \<Rightarrow> [] | Some t \<Rightarrow> t"]
      by (simp add: f write_template_pair yaml_constants_def)
  qed
  then show ?thesis by (auto simp: WriteYamlTemplatesInGoFile_def)
qed

theorem generated_templates_read_back_witness:
  "\<exists>block. WriteYamlTemplatesInGoFile [(''A.yaml'', Some ''kind: Service''), (''README'', None), (''B.yaml'', None)] =
      templates_header @ block \<and>
    read_constants block = Some [(''A'', ''kind: Service''), (''B'', '''')]"
proof -
  have "CHR '' '' \<notin> set name \<and> CHR '')'' \<notin> set name"
    if "(name, content) \<in> set [(''A.yaml'', Some ''kind: Service''), (''README'', None), (''B.yaml'', None)]" for name content
    using that by auto
  moreover have "CHR 0x60 \<notin> set content"
    if "(name, Some content) \<in> set [(''A.yaml'', Some ''kind: Service''), (''README'', None), (''B.yaml'', None)]" for name content
    using that by auto
  ultimately show ?thesis
    using generated_templates_read_back [of "[(''A.yaml'', Some ''kind: Service''), (''README'', None), (''B.yaml'', None)]"]
    by (simp add: HasSuffix_def TrimSuffix_def yaml_constants_def)
qed

end
