(* ===== verification/Go_Memory.thy ===== *)
theory Go_Memory
  imports Kubegres_Types "HOL-Library.Sublist"
begin

text \<open>
  A Go memory with explicit addresses, for the code that is about aliasing: the deep
  copies. A memory is the list of its cells, an address is an index, and allocation appends.
  The contract of a copy (locale \<open>copier\<close>) is kept by the constructions the copies are made of.
\<close>

type_synonym addr = nat

lemma prefix_cell: "prefix m n \<Longrightarrow> a < length m \<Longrightarrow> a < length n \<and> n ! a = m ! a"
  by (auto simp: prefix_def nth_append)

section \<open>The contract of a deep copy\<close>

text \<open>
  \<open>refs\<close> are the addresses reachable from a value, \<open>read\<close> is what the value stands for, and \<open>valid\<close> says that
  its references point to cells of the right type. A copy keeps the old cells, stands for the same and reaches
  only new cells; reading depends on the reachable cells only.
\<close>

locale copier =
  fixes copy :: "'c list \<Rightarrow> 'a \<Rightarrow> 'a \<times> 'c list"
    and refs :: "'c list \<Rightarrow> 'a \<Rightarrow> addr set"
    and read :: "'c list \<Rightarrow> 'a \<Rightarrow> 'v"
    and valid :: "'c list \<Rightarrow> 'a \<Rightarrow> bool"
  assumes copies: "valid m x \<Longrightarrow> copy m x = (y, m') \<Longrightarrow>
      prefix m m' \<and> valid m' y \<and> read m' y = read m x \<and> (\<forall>a \<in> refs m' y. length m \<le> a)"
    and bounded: "valid m x \<Longrightarrow> a \<in> refs m x \<Longrightarrow> a < length m"
    and footprint: "valid m x \<Longrightarrow> \<forall>a \<in> refs m x. a < length n \<and> n ! a = m ! a \<Longrightarrow>
      valid n x \<and> read n x = read m x \<and> refs n x = refs m x"
begin

lemma later:
  assumes "valid m x" "prefix m n"
  shows "valid n x" "read n x = read m x" "refs n x = refs m x"
proof -
  have "\<forall>a \<in> refs m x. a < length n \<and> n ! a = m ! a"
    using bounded [OF assms(1)] prefix_cell [OF assms(2)] by blast
  from footprint [OF assms(1) this] show "valid n x" "read n x = read m x" "refs n x = refs m x" by blast+
qed

text \<open>Original and copy are independent: a write to a cell of the one is not seen by the other.\<close>

lemma independent:
  assumes "valid m x" "copy m x = (y, m')"
  shows "a \<in> refs m' y \<Longrightarrow> read (m'[a := c]) x = read m x"
    and "a \<in> refs m x \<Longrightarrow> read (m'[a := c]) y = read m x"
proof -
  have c: "prefix m m'" "valid m' y" "read m' y = read m x" "\<And>b. b \<in> refs m' y \<Longrightarrow> length m \<le> b"
    using copies [OF assms] by blast+
  note x = later [OF assms(1) c(1)]
  have ne: "b \<in> refs m x \<Longrightarrow> d \<in> refs m' y \<Longrightarrow> b \<noteq> d" for b d using bounded [OF assms(1)] c(4) by fastforce
  show "read (m'[a := c]) x = read m x" if "a \<in> refs m' y"
  proof -
    have "\<forall>b \<in> refs m' x. b < length (m'[a := c]) \<and> m'[a := c] ! b = m' ! b"
      using bounded [OF x(1)] ne [OF _ that] x(3) by (metis length_list_update nth_list_update_neq)
    from footprint [OF x(1) this] show ?thesis by (simp add: x(2))
  qed
  show "read (m'[a := c]) y = read m x" if "a \<in> refs m x"
  proof -
    have "\<forall>b \<in> refs m' y. b < length (m'[a := c]) \<and> m'[a := c] ! b = m' ! b"
      using bounded [OF c(2)] ne [OF that] by (metis length_list_update nth_list_update_neq)
    from footprint [OF c(2) this] show ?thesis by (simp add: c(3))
  qed
qed

lemma deep_copy:
  assumes "valid m x" "copy m x = (y, m')"
  shows "prefix m m' \<and> valid m' y \<and> read m' y = read m x \<and> (\<forall>a \<in> refs m' y. length m \<le> a) \<and>
    (\<forall>a \<in> refs m' y. \<forall>c. read (m'[a := c]) x = read m x) \<and> (\<forall>a \<in> refs m x. \<forall>c. read (m'[a := c]) y = read m x)"
  using copies [OF assms] independent [OF assms] by blast

end

section \<open>The parts of a deep copy\<close>

text \<open>A struct without references is copied by the assignment \<open>*out = *in\<close>.\<close>

definition flat_copy :: "'c list \<Rightarrow> 'a \<Rightarrow> 'a \<times> 'c list" where
  "flat_copy m x = (x, m)"

interpretation flat: copier flat_copy "\<lambda>_ _. {}" "\<lambda>_ x. x" "\<lambda>_ _. True"
  by unfold_locales (simp_all add: flat_copy_def)

text \<open>\<open>if in.f != nil\<close>: a nil reference stays nil.\<close>

definition option_copy :: "('c list \<Rightarrow> 'a \<Rightarrow> 'a \<times> 'c list) \<Rightarrow> 'c list \<Rightarrow> 'a option \<Rightarrow> 'a option \<times> 'c list" where
  "option_copy c m xo = (case xo of None \<Rightarrow> (None, m) | Some x \<Rightarrow> (let (y, m') = c m x in (Some y, m')))"

definition option_refs :: "('c list \<Rightarrow> 'a \<Rightarrow> addr set) \<Rightarrow> 'c list \<Rightarrow> 'a option \<Rightarrow> addr set" where
  "option_refs r m xo = (case xo of None \<Rightarrow> {} | Some x \<Rightarrow> r m x)"

text \<open>One field after the other.\<close>

definition pair_copy :: "('c list \<Rightarrow> 'a \<Rightarrow> 'a \<times> 'c list) \<Rightarrow> ('c list \<Rightarrow> 'b \<Rightarrow> 'b \<times> 'c list)
    \<Rightarrow> 'c list \<Rightarrow> 'a \<times> 'b \<Rightarrow> ('a \<times> 'b) \<times> 'c list" where
  "pair_copy c d m p = (let (x, m1) = c m (fst p); (y, m2) = d m1 (snd p) in ((x, y), m2))"

text \<open>The loop over a slice.\<close>

fun list_copy :: "('c list \<Rightarrow> 'a \<Rightarrow> 'a \<times> 'c list) \<Rightarrow> 'c list \<Rightarrow> 'a list \<Rightarrow> 'a list \<times> 'c list" where
  "list_copy c m [] = ([], m)"
| "list_copy c m (x # xs) = (let (y, m1) = c m x; (ys, m2) = list_copy c m1 xs in (y # ys, m2))"

text \<open>
  \<open>new\<close> or \<open>make\<close>: a new cell with a copy of the contents of the old one. \<open>dec\<close> and \<open>enc\<close> are the type of the cell.
\<close>

definition cell_copy :: "('c \<Rightarrow> 'a option) \<Rightarrow> ('a \<Rightarrow> 'c) \<Rightarrow> ('c list \<Rightarrow> 'a \<Rightarrow> 'a \<times> 'c list) \<Rightarrow> 'c list \<Rightarrow> addr \<Rightarrow> addr \<times> 'c list" where
  "cell_copy dec enc c m a = (let (y, m1) = c m (the (dec (m ! a))) in (length m1, m1 @ [enc y]))"

definition cell_refs :: "('c \<Rightarrow> 'a option) \<Rightarrow> ('c list \<Rightarrow> 'a \<Rightarrow> addr set) \<Rightarrow> 'c list \<Rightarrow> addr \<Rightarrow> addr set" where
  "cell_refs dec r m a = insert a (r m (the (dec (m ! a))))"

definition cell_read :: "('c \<Rightarrow> 'a option) \<Rightarrow> ('c list \<Rightarrow> 'a \<Rightarrow> 'v) \<Rightarrow> 'c list \<Rightarrow> addr \<Rightarrow> 'v" where
  "cell_read dec v m a = v m (the (dec (m ! a)))"

definition cell_valid :: "('c \<Rightarrow> 'a option) \<Rightarrow> ('c list \<Rightarrow> 'a \<Rightarrow> bool) \<Rightarrow> 'c list \<Rightarrow> addr \<Rightarrow> bool" where
  "cell_valid dec w m a \<longleftrightarrow> a < length m \<and> dec (m ! a) \<noteq> None \<and> w m (the (dec (m ! a)))"

section \<open>They keep the contract\<close>

lemma copier_option:
  assumes "copier c r v w"
  shows "copier (option_copy c) (option_refs r) (\<lambda>m. map_option (v m)) (\<lambda>m. pred_option (w m))"
proof (unfold_locales, goal_cases)
  case (1 m x y m')
  then show ?case using copier.copies [OF assms]
    by (auto simp: option_copy_def option_refs_def split: option.splits prod.splits)
next
  case (2 m x a)
  then show ?case using copier.bounded [OF assms] by (auto simp: option_refs_def split: option.splits)
next
  case (3 m x n)
  have "w n y \<and> v n y = v m y \<and> r n y = r m y" if "x = Some y" for y
    using copier.footprint [OF assms, of m y n] 3 that unfolding option_refs_def by simp
  then show ?case using 3(1) by (cases x) (simp_all add: option_refs_def)
qed

lemma copier_pair:
  assumes "copier c r v w" "copier d s u z"
  shows "copier (pair_copy c d) (\<lambda>m p. r m (fst p) \<union> s m (snd p)) (\<lambda>m p. (v m (fst p), u m (snd p)))
    (\<lambda>m p. w m (fst p) \<and> z m (snd p))"
proof (unfold_locales, goal_cases)
  case (1 m p q m')
  obtain x m1 y where c: "c m (fst p) = (x, m1)" "d m1 (snd p) = (y, m')" "q = (x, y)"
    using 1(2) by (auto simp: pair_copy_def split: prod.splits)
  have x: "prefix m m1" "w m1 x" "v m1 x = v m (fst p)" "\<forall>a \<in> r m1 x. length m \<le> a"
    using copier.copies [OF assms(1) _ c(1)] 1(1) by simp_all
  note p = copier.later [OF assms(2) _ x(1)]
  have y: "prefix m1 m'" "z m' y" "u m' y = u m (snd p)" "\<forall>a \<in> s m' y. length m1 \<le> a"
    using copier.copies [OF assms(2) _ c(2)] p(1,2) 1(1) by simp_all
  note x' = copier.later [OF assms(1) x(2) y(1)]
  have "length m \<le> length m1" using x(1) by (rule prefix_length_le)
  then show ?case using x y x' c(3) by (auto intro: prefix_order.trans)
next
  case (2 m p a)
  then show ?case using copier.bounded [OF assms(1)] copier.bounded [OF assms(2)] by auto
next
  case (3 m p n)
  then have "w n (fst p) \<and> v n (fst p) = v m (fst p) \<and> r n (fst p) = r m (fst p)"
    "z n (snd p) \<and> u n (snd p) = u m (snd p) \<and> s n (snd p) = s m (snd p)"
    using copier.footprint [OF assms(1), of m "fst p" n] copier.footprint [OF assms(2), of m "snd p" n] by blast+
  then show ?case by simp
qed

lemma copier_struct:
  assumes "copier c r v w" "\<And>x b. get (put x b) = x" "\<And>x b. view (put x b) = view b"
  shows "copier (\<lambda>m b. let (y, m') = c m (get b) in (put y b, m')) (\<lambda>m b. r m (get b)) (\<lambda>m b. view b (v m (get b))) (\<lambda>m b. w m (get b))"
proof (unfold_locales, goal_cases)
  case (1 m x y m')
  then show ?case using copier.copies [OF assms(1)] by (auto simp: assms(2,3) split: prod.splits)
next
  case (2 m x a)
  then show ?case using copier.bounded [OF assms(1)] by auto
next
  case (3 m x n)
  then show ?case using copier.footprint [OF assms(1), of m "get x" n] by metis
qed

lemma list_copy_copies:
  assumes "copier c r v w" "list_all (w m) xs" "list_copy c m xs = (ys, m')"
  shows "prefix m m' \<and> list_all (w m') ys \<and> map (v m') ys = map (v m) xs \<and> (\<forall>y \<in> set ys. \<forall>a \<in> r m' y. length m \<le> a)"
  using assms(2,3)
proof (induction xs arbitrary: m ys)
  case (Cons x xs)
  obtain y m1 zs where c: "c m x = (y, m1)" "list_copy c m1 xs = (zs, m')" "ys = y # zs"
    using Cons.prems(2) by (auto split: prod.splits)
  have y: "prefix m m1" "w m1 y" "v m1 y = v m x" "\<forall>a \<in> r m1 y. length m \<le> a"
    using copier.copies [OF assms(1) _ c(1)] Cons.prems(1) by simp_all
  have "list_all (w m1) xs" "map (v m1) xs = map (v m) xs"
    using Cons.prems(1) copier.later [OF assms(1) _ y(1)] by (simp_all add: list_all_iff)
  with Cons.IH [OF _ c(2)]
  have z: "prefix m1 m'" "list_all (w m') zs" "map (v m') zs = map (v m) xs" "\<forall>y \<in> set zs. \<forall>a \<in> r m' y. length m1 \<le> a" by simp_all
  note y' = copier.later [OF assms(1) y(2) z(1)]
  have "length m \<le> length m1" using y(1) by (rule prefix_length_le)
  with z(4) have "\<forall>y \<in> set zs. \<forall>a \<in> r m' y. length m \<le> a" by (meson order_trans)
  with y z y' c(3) show ?case by (auto intro: prefix_order.trans)
qed simp

lemma copier_list:
  assumes "copier c r v w"
  shows "copier (list_copy c) (\<lambda>m xs. \<Union>x \<in> set xs. r m x) (\<lambda>m. map (v m)) (\<lambda>m. list_all (w m))"
proof (unfold_locales, goal_cases)
  case (1 m xs ys m')
  then show ?case using list_copy_copies [OF assms] by blast
next
  case (2 m xs a)
  then show ?case using copier.bounded [OF assms] by (auto simp: list_all_iff dest!: bspec)
next
  case (3 m xs n)
  then have "w n x \<and> v n x = v m x \<and> r n x = r m x" if "x \<in> set xs" for x
    using copier.footprint [OF assms, of m x n] that by (auto simp: list_all_iff)
  then show ?case by (auto simp: list_all_iff)
qed

lemma copier_cell:
  assumes "copier c r v w" "\<And>x. dec (enc x) = Some x"
  shows "copier (cell_copy dec enc c) (cell_refs dec r) (cell_read dec v) (cell_valid dec w)"
proof (unfold_locales, goal_cases)
  case (1 m a b m')
  obtain y m1 where c: "c m (the (dec (m ! a))) = (y, m1)" "b = length m1" "m' = m1 @ [enc y]"
    using 1(2) by (auto simp: cell_copy_def split: prod.splits)
  have y: "prefix m m1" "w m1 y" "v m1 y = v m (the (dec (m ! a)))" "\<forall>a \<in> r m1 y. length m \<le> a"
    using copier.copies [OF assms(1) _ c(1)] 1(1) by (simp_all add: cell_valid_def)
  have "prefix m1 m'" by (simp add: c(3))
  note y' = copier.later [OF assms(1) y(2) this]
  have "length m \<le> length m1" using y(1) by (rule prefix_length_le)
  then show ?case using y y' c by (auto simp: cell_valid_def cell_read_def cell_refs_def assms(2) intro: prefix_order.trans)
next
  case (2 m a b)
  then show ?case using copier.bounded [OF assms(1)] by (auto simp: cell_valid_def cell_refs_def)
next
  case (3 m a n)
  then show ?case using copier.footprint [OF assms(1), of m "the (dec (m ! a))" n]
    by (auto simp: cell_valid_def cell_refs_def cell_read_def)
qed

text \<open>The contract is about what the functions return.\<close>

lemma copier_cong:
  assumes "copier c r v w" "\<And>m x. c' m x = c m x" "\<And>m x. r' m x = r m x" "\<And>m x. v' m x = v m x" "\<And>m x. w' m x = w m x"
  shows "copier c' r' v' w'"
proof -
  have "c' = c" "r' = r" "v' = v" "w' = w" using assms(2-5) by (auto simp: fun_eq_iff)
  with assms(1) show ?thesis by simp
qed

text \<open>The result of a reading may be read further.\<close>

lemma copier_view:
  assumes "copier c r v w"
  shows "copier c r (\<lambda>m x. f (v m x)) w"
proof (unfold_locales, goal_cases)
  case (1 m x y m')
  then show ?case using copier.copies [OF assms] by fastforce
next
  case (2 m x a)
  then show ?case by (rule copier.bounded [OF assms])
next
  case (3 m x n)
  then show ?case using copier.footprint [OF assms, of m x n] by metis
qed

end
