(* ===== verification/Deep_Copy.thy ===== *)
theory Deep_Copy
  imports Go_Memory Sample_Cluster
begin

text \<open>
  \<open>src/api/v1/zz_generated.deepcopy.go\<close> on the memory of theory \<open>Go_Memory\<close>: the structs of
  \<open>kubegres_types.go\<close> with their pointers and slices as addresses. The copies of the Kubernetes structs
  inside them are library code: \<open>lib\<close> copies the memory block of such a struct.
\<close>

section \<open>Structs with addresses\<close>

text \<open>\<open>None\<close> is nil. A struct of the Kubernetes libraries is one block of memory, given by its address.\<close>

record KubegresDatabase_mem =
  mdb_Size :: string
  mdb_VolumeMount :: string
  mdb_StorageClassName :: "addr option"

record KubegresScheduler_mem =
  msched_Affinity :: "addr option"
  msched_Tolerations :: "addr option"

record VolumeClaimTemplate_mem =
  mvct_Name :: string
  mvct_Spec :: addr

record Volume_mem =
  mvol_VolumeMounts :: "addr option"
  mvol_Volumes :: "addr option"
  mvol_VolumeClaimTemplates :: "addr option"

record Probe_mem =
  mprobe_LivenessProbe :: "addr option"
  mprobe_ReadinessProbe :: "addr option"

record KubegresSpec_mem =
  mspec_Replicas :: "addr option"
  mspec_Image :: string
  mspec_Port :: int
  mspec_ImagePullSecrets :: "addr option"
  mspec_CustomConfig :: string
  mspec_Database :: KubegresDatabase_mem
  mspec_Failover :: KubegresFailover
  mspec_Backup :: KubegresBackUp
  mspec_Env :: "addr option"
  mspec_Scheduler :: KubegresScheduler_mem
  mspec_Resources :: addr
  mspec_Volume :: Volume_mem
  mspec_SecurityContext :: "addr option"
  mspec_Probe :: Probe_mem
  mspec_ServiceAccountName :: string
  mspec_Standby :: Standby

record Kubegres_mem =
  mkg_TypeMeta :: "string \<times> string"
  mkg_ObjectMeta :: addr
  mkg_Spec :: KubegresSpec_mem
  mkg_Status :: KubegresStatus

record KubegresList_mem =
  mlist_TypeMeta :: "string \<times> string"
  mlist_ListMeta :: addr
  mlist_Items :: "addr option"

text \<open>The cells: scalars behind pointers, backing arrays of slices, structs of this package, and the blocks of library structs.\<close>

datatype cell =
    IntCell int
  | StringCell string
  | SecretsCell "string list"
  | BlocksCell "addr list"
  | ClaimsCell "VolumeClaimTemplate_mem list"
  | ItemsCell "Kubegres_mem list"
  | KubegresCell Kubegres_mem
  | KubegresBackUpCell KubegresBackUp
  | KubegresBlockingOperationCell KubegresBlockingOperation
  | KubegresDatabaseCell KubegresDatabase_mem
  | KubegresFailoverCell KubegresFailover
  | KubegresListCell KubegresList_mem
  | KubegresSchedulerCell KubegresScheduler_mem
  | KubegresSpecCell KubegresSpec_mem
  | KubegresStatefulSetOperationCell KubegresStatefulSetOperation
  | KubegresStatefulSetSpecUpdateOperationCell KubegresStatefulSetSpecUpdateOperation
  | KubegresStatusCell KubegresStatus
  | ProbeCell Probe_mem
  | StandbyCell Standby
  | VolumeCell Volume_mem
  | VolumeClaimTemplateCell VolumeClaimTemplate_mem
  | ValueBlock k8s_value
  | EnvBlock EnvVar
  | MountBlock VolumeMount
  | VolumeBlock Volume
  | ClaimSpecBlock PersistentVolumeClaimSpec
  | ResourcesBlock ResourceRequirements
  | MetaBlock ObjectMeta

type_synonym memory = "cell list"

definition as_int :: "cell \<Rightarrow> int option" where "as_int c = (case c of IntCell i \<Rightarrow> Some i | _ \<Rightarrow> None)"
definition as_string :: "cell \<Rightarrow> string option" where "as_string c = (case c of StringCell s \<Rightarrow> Some s | _ \<Rightarrow> None)"
definition as_secrets :: "cell \<Rightarrow> string list option" where "as_secrets c = (case c of SecretsCell s \<Rightarrow> Some s | _ \<Rightarrow> None)"
definition as_blocks :: "cell \<Rightarrow> addr list option" where "as_blocks c = (case c of BlocksCell s \<Rightarrow> Some s | _ \<Rightarrow> None)"
definition as_claims :: "cell \<Rightarrow> VolumeClaimTemplate_mem list option" where "as_claims c = (case c of ClaimsCell s \<Rightarrow> Some s | _ \<Rightarrow> None)"
definition as_items :: "cell \<Rightarrow> Kubegres_mem list option" where "as_items c = (case c of ItemsCell s \<Rightarrow> Some s | _ \<Rightarrow> None)"
definition as_value :: "cell \<Rightarrow> k8s_value option" where "as_value c = (case c of ValueBlock v \<Rightarrow> Some v | _ \<Rightarrow> None)"
definition as_env :: "cell \<Rightarrow> EnvVar option" where "as_env c = (case c of EnvBlock v \<Rightarrow> Some v | _ \<Rightarrow> None)"
definition as_mount :: "cell \<Rightarrow> VolumeMount option" where "as_mount c = (case c of MountBlock v \<Rightarrow> Some v | _ \<Rightarrow> None)"
definition as_volume :: "cell \<Rightarrow> Volume option" where "as_volume c = (case c of VolumeBlock v \<Rightarrow> Some v | _ \<Rightarrow> None)"
definition as_claim_spec :: "cell \<Rightarrow> PersistentVolumeClaimSpec option" where
  "as_claim_spec c = (case c of ClaimSpecBlock v \<Rightarrow> Some v | _ \<Rightarrow> None)"
definition as_resources :: "cell \<Rightarrow> ResourceRequirements option" where "as_resources c = (case c of ResourcesBlock v \<Rightarrow> Some v | _ \<Rightarrow> None)"
definition as_meta :: "cell \<Rightarrow> ObjectMeta option" where "as_meta c = (case c of MetaBlock v \<Rightarrow> Some v | _ \<Rightarrow> None)"
definition as_Kubegres :: "cell \<Rightarrow> Kubegres_mem option" where
  "as_Kubegres c = (case c of KubegresCell x \<Rightarrow> Some x | _ \<Rightarrow> None)"
definition as_KubegresBackUp :: "cell \<Rightarrow> KubegresBackUp option" where
  "as_KubegresBackUp c = (case c of KubegresBackUpCell x \<Rightarrow> Some x | _ \<Rightarrow> None)"
definition as_KubegresBlockingOperation :: "cell \<Rightarrow> KubegresBlockingOperation option" where
  "as_KubegresBlockingOperation c = (case c of KubegresBlockingOperationCell x \<Rightarrow> Some x | _ \<Rightarrow> None)"
definition as_KubegresDatabase :: "cell \<Rightarrow> KubegresDatabase_mem option" where
  "as_KubegresDatabase c = (case c of KubegresDatabaseCell x \<Rightarrow> Some x | _ \<Rightarrow> None)"
definition as_KubegresFailover :: "cell \<Rightarrow> KubegresFailover option" where
  "as_KubegresFailover c = (case c of KubegresFailoverCell x \<Rightarrow> Some x | _ \<Rightarrow> None)"
definition as_KubegresList :: "cell \<Rightarrow> KubegresList_mem option" where
  "as_KubegresList c = (case c of KubegresListCell x \<Rightarrow> Some x | _ \<Rightarrow> None)"
definition as_KubegresScheduler :: "cell \<Rightarrow> KubegresScheduler_mem option" where
  "as_KubegresScheduler c = (case c of KubegresSchedulerCell x \<Rightarrow> Some x | _ \<Rightarrow> None)"
definition as_KubegresSpec :: "cell \<Rightarrow> KubegresSpec_mem option" where
  "as_KubegresSpec c = (case c of KubegresSpecCell x \<Rightarrow> Some x | _ \<Rightarrow> None)"
definition as_KubegresStatefulSetOperation :: "cell \<Rightarrow> KubegresStatefulSetOperation option" where
  "as_KubegresStatefulSetOperation c = (case c of KubegresStatefulSetOperationCell x \<Rightarrow> Some x | _ \<Rightarrow> None)"
definition as_KubegresStatefulSetSpecUpdateOperation :: "cell \<Rightarrow> KubegresStatefulSetSpecUpdateOperation option" where
  "as_KubegresStatefulSetSpecUpdateOperation c = (case c of KubegresStatefulSetSpecUpdateOperationCell x \<Rightarrow> Some x | _ \<Rightarrow> None)"
definition as_KubegresStatus :: "cell \<Rightarrow> KubegresStatus option" where
  "as_KubegresStatus c = (case c of KubegresStatusCell x \<Rightarrow> Some x | _ \<Rightarrow> None)"
definition as_Probe :: "cell \<Rightarrow> Probe_mem option" where
  "as_Probe c = (case c of ProbeCell x \<Rightarrow> Some x | _ \<Rightarrow> None)"
definition as_Standby :: "cell \<Rightarrow> Standby option" where
  "as_Standby c = (case c of StandbyCell x \<Rightarrow> Some x | _ \<Rightarrow> None)"
definition as_Volume :: "cell \<Rightarrow> Volume_mem option" where
  "as_Volume c = (case c of VolumeCell x \<Rightarrow> Some x | _ \<Rightarrow> None)"
definition as_VolumeClaimTemplate :: "cell \<Rightarrow> VolumeClaimTemplate_mem option" where
  "as_VolumeClaimTemplate c = (case c of VolumeClaimTemplateCell x \<Rightarrow> Some x | _ \<Rightarrow> None)"

lemmas cell_decs = as_int_def as_string_def as_secrets_def as_blocks_def as_claims_def as_items_def as_value_def as_env_def as_mount_def
  as_volume_def as_claim_spec_def as_resources_def as_meta_def
  as_Kubegres_def as_KubegresBackUp_def as_KubegresBlockingOperation_def as_KubegresDatabase_def
  as_KubegresFailover_def as_KubegresList_def as_KubegresScheduler_def as_KubegresSpec_def
  as_KubegresStatefulSetOperation_def as_KubegresStatefulSetSpecUpdateOperation_def as_KubegresStatus_def as_Probe_def
  as_Standby_def as_Volume_def as_VolumeClaimTemplate_def

fun is_block :: "cell \<Rightarrow> bool" where
  "is_block (IntCell _) = False"
| "is_block (StringCell _) = False"
| "is_block (SecretsCell _) = False"
| "is_block (BlocksCell _) = False"
| "is_block (ClaimsCell _) = False"
| "is_block (ItemsCell _) = False"
| "is_block (KubegresCell _) = False"
| "is_block (KubegresBackUpCell _) = False"
| "is_block (KubegresBlockingOperationCell _) = False"
| "is_block (KubegresDatabaseCell _) = False"
| "is_block (KubegresFailoverCell _) = False"
| "is_block (KubegresListCell _) = False"
| "is_block (KubegresSchedulerCell _) = False"
| "is_block (KubegresSpecCell _) = False"
| "is_block (KubegresStatefulSetOperationCell _) = False"
| "is_block (KubegresStatefulSetSpecUpdateOperationCell _) = False"
| "is_block (KubegresStatusCell _) = False"
| "is_block (ProbeCell _) = False"
| "is_block (StandbyCell _) = False"
| "is_block (VolumeCell _) = False"
| "is_block (VolumeClaimTemplateCell _) = False"
| "is_block _ = True"

section \<open>The generated functions\<close>

type_synonym 'a copy = "memory \<Rightarrow> 'a \<Rightarrow> 'a \<times> memory"

text \<open>Pointers to scalars, \<open>copy\<close> of a slice of flat structs, and slices of library structs.\<close>

definition int_copy :: "addr copy" where
  "int_copy = cell_copy as_int IntCell flat_copy"

definition string_copy :: "addr copy" where
  "string_copy = cell_copy as_string StringCell flat_copy"

definition secrets_copy :: "addr copy" where
  "secrets_copy = cell_copy as_secrets SecretsCell flat_copy"

definition blocks_copy :: "addr copy \<Rightarrow> addr copy" where
  "blocks_copy lib = cell_copy as_blocks BlocksCell (list_copy lib)"

definition KubegresBackUp_DeepCopyInto :: "KubegresBackUp copy" where
  "KubegresBackUp_DeepCopyInto m x = (x, m)"

definition KubegresBlockingOperation_DeepCopyInto :: "KubegresBlockingOperation copy" where
  "KubegresBlockingOperation_DeepCopyInto m x =
     (x\<lparr>op_StatefulSetOperation := op_StatefulSetOperation x,
        op_StatefulSetSpecUpdateOperation := op_StatefulSetSpecUpdateOperation x\<rparr>, m)"

definition KubegresDatabase_DeepCopyInto :: "KubegresDatabase_mem copy" where
  "KubegresDatabase_DeepCopyInto m x =
     (let (storageClassName, m1) = option_copy string_copy m (mdb_StorageClassName x)
      in (x\<lparr>mdb_StorageClassName := storageClassName\<rparr>, m1))"

definition KubegresFailover_DeepCopyInto :: "KubegresFailover copy" where
  "KubegresFailover_DeepCopyInto m x = (x, m)"

definition KubegresScheduler_DeepCopyInto :: "addr copy \<Rightarrow> KubegresScheduler_mem copy" where
  "KubegresScheduler_DeepCopyInto lib m x =
     (let (affinity, m1) = option_copy lib m (msched_Affinity x);
          (tolerations, m2) = option_copy (blocks_copy lib) m1 (msched_Tolerations x)
      in (x\<lparr>msched_Affinity := affinity, msched_Tolerations := tolerations\<rparr>, m2))"

definition VolumeClaimTemplate_DeepCopyInto :: "addr copy \<Rightarrow> VolumeClaimTemplate_mem copy" where
  "VolumeClaimTemplate_DeepCopyInto lib m x =
     (let (spec, m1) = lib m (mvct_Spec x) in (x\<lparr>mvct_Spec := spec\<rparr>, m1))"

definition Volume_DeepCopyInto :: "addr copy \<Rightarrow> Volume_mem copy" where
  "Volume_DeepCopyInto lib m x =
     (let (mounts, m1) = option_copy (blocks_copy lib) m (mvol_VolumeMounts x);
          (volumes, m2) = option_copy (blocks_copy lib) m1 (mvol_Volumes x);
          (claims, m3) = option_copy (cell_copy as_claims ClaimsCell (list_copy (VolumeClaimTemplate_DeepCopyInto lib))) m2
            (mvol_VolumeClaimTemplates x)
      in (x\<lparr>mvol_VolumeMounts := mounts, mvol_Volumes := volumes, mvol_VolumeClaimTemplates := claims\<rparr>, m3))"

definition Probe_DeepCopyInto :: "addr copy \<Rightarrow> Probe_mem copy" where
  "Probe_DeepCopyInto lib m x =
     (let (liveness, m1) = option_copy lib m (mprobe_LivenessProbe x);
          (readiness, m2) = option_copy lib m1 (mprobe_ReadinessProbe x)
      in (x\<lparr>mprobe_LivenessProbe := liveness, mprobe_ReadinessProbe := readiness\<rparr>, m2))"

definition Standby_DeepCopyInto :: "Standby copy" where
  "Standby_DeepCopyInto m x = (x, m)"

definition KubegresSpec_DeepCopyInto :: "addr copy \<Rightarrow> KubegresSpec_mem copy" where
  "KubegresSpec_DeepCopyInto lib m x =
     (let (replicas, m1) = option_copy int_copy m (mspec_Replicas x);
          (secrets, m2) = option_copy secrets_copy m1 (mspec_ImagePullSecrets x);
          (database, m3) = KubegresDatabase_DeepCopyInto m2 (mspec_Database x);
          (env, m4) = option_copy (blocks_copy lib) m3 (mspec_Env x);
          (scheduler, m5) = KubegresScheduler_DeepCopyInto lib m4 (mspec_Scheduler x);
          (resources, m6) = lib m5 (mspec_Resources x);
          (volume, m7) = Volume_DeepCopyInto lib m6 (mspec_Volume x);
          (securityContext, m8) = option_copy lib m7 (mspec_SecurityContext x);
          (probe, m9) = Probe_DeepCopyInto lib m8 (mspec_Probe x)
      in (x\<lparr>mspec_Replicas := replicas, mspec_ImagePullSecrets := secrets, mspec_Database := database,
            mspec_Failover := mspec_Failover x, mspec_Backup := mspec_Backup x, mspec_Env := env, mspec_Scheduler := scheduler,
            mspec_Resources := resources, mspec_Volume := volume, mspec_SecurityContext := securityContext, mspec_Probe := probe,
            mspec_Standby := mspec_Standby x\<rparr>, m9))"

definition KubegresStatefulSetOperation_DeepCopyInto :: "KubegresStatefulSetOperation copy" where
  "KubegresStatefulSetOperation_DeepCopyInto m x = (x, m)"

definition KubegresStatefulSetSpecUpdateOperation_DeepCopyInto :: "KubegresStatefulSetSpecUpdateOperation copy" where
  "KubegresStatefulSetSpecUpdateOperation_DeepCopyInto m x = (x, m)"

definition KubegresStatus_DeepCopyInto :: "KubegresStatus copy" where
  "KubegresStatus_DeepCopyInto m x =
     (x\<lparr>status_BlockingOperation := status_BlockingOperation x,
        status_PreviousBlockingOperation := status_PreviousBlockingOperation x\<rparr>, m)"

definition Kubegres_DeepCopyInto :: "addr copy \<Rightarrow> Kubegres_mem copy" where
  "Kubegres_DeepCopyInto lib m x =
     (let (objectMeta, m1) = lib m (mkg_ObjectMeta x);
          (spec, m2) = KubegresSpec_DeepCopyInto lib m1 (mkg_Spec x)
      in (x\<lparr>mkg_TypeMeta := mkg_TypeMeta x, mkg_ObjectMeta := objectMeta, mkg_Spec := spec, mkg_Status := mkg_Status x\<rparr>, m2))"

definition KubegresList_DeepCopyInto :: "addr copy \<Rightarrow> KubegresList_mem copy" where
  "KubegresList_DeepCopyInto lib m x =
     (let (listMeta, m1) = lib m (mlist_ListMeta x);
          (items, m2) = option_copy (cell_copy as_items ItemsCell (list_copy (Kubegres_DeepCopyInto lib))) m1 (mlist_Items x)
      in (x\<lparr>mlist_TypeMeta := mlist_TypeMeta x, mlist_ListMeta := listMeta, mlist_Items := items\<rparr>, m2))"

text \<open>
  \<open>DeepCopy\<close>: nil for nil, otherwise a new struct that the matching \<open>DeepCopyInto\<close> fills. The new struct takes the
  address after the cells of its parts.
\<close>

definition Kubegres_DeepCopy :: "addr copy \<Rightarrow> addr option copy" where
  "Kubegres_DeepCopy lib = option_copy (cell_copy as_Kubegres KubegresCell (Kubegres_DeepCopyInto lib))"

definition KubegresBackUp_DeepCopy :: "addr option copy" where
  "KubegresBackUp_DeepCopy = option_copy (cell_copy as_KubegresBackUp KubegresBackUpCell KubegresBackUp_DeepCopyInto)"

definition KubegresBlockingOperation_DeepCopy :: "addr option copy" where
  "KubegresBlockingOperation_DeepCopy = option_copy (cell_copy as_KubegresBlockingOperation KubegresBlockingOperationCell KubegresBlockingOperation_DeepCopyInto)"

definition KubegresDatabase_DeepCopy :: "addr option copy" where
  "KubegresDatabase_DeepCopy = option_copy (cell_copy as_KubegresDatabase KubegresDatabaseCell KubegresDatabase_DeepCopyInto)"

definition KubegresFailover_DeepCopy :: "addr option copy" where
  "KubegresFailover_DeepCopy = option_copy (cell_copy as_KubegresFailover KubegresFailoverCell KubegresFailover_DeepCopyInto)"

definition KubegresList_DeepCopy :: "addr copy \<Rightarrow> addr option copy" where
  "KubegresList_DeepCopy lib = option_copy (cell_copy as_KubegresList KubegresListCell (KubegresList_DeepCopyInto lib))"

definition KubegresScheduler_DeepCopy :: "addr copy \<Rightarrow> addr option copy" where
  "KubegresScheduler_DeepCopy lib = option_copy (cell_copy as_KubegresScheduler KubegresSchedulerCell (KubegresScheduler_DeepCopyInto lib))"

definition KubegresSpec_DeepCopy :: "addr copy \<Rightarrow> addr option copy" where
  "KubegresSpec_DeepCopy lib = option_copy (cell_copy as_KubegresSpec KubegresSpecCell (KubegresSpec_DeepCopyInto lib))"

definition KubegresStatefulSetOperation_DeepCopy :: "addr option copy" where
  "KubegresStatefulSetOperation_DeepCopy = option_copy (cell_copy as_KubegresStatefulSetOperation KubegresStatefulSetOperationCell KubegresStatefulSetOperation_DeepCopyInto)"

definition KubegresStatefulSetSpecUpdateOperation_DeepCopy :: "addr option copy" where
  "KubegresStatefulSetSpecUpdateOperation_DeepCopy = option_copy (cell_copy as_KubegresStatefulSetSpecUpdateOperation KubegresStatefulSetSpecUpdateOperationCell KubegresStatefulSetSpecUpdateOperation_DeepCopyInto)"

definition KubegresStatus_DeepCopy :: "addr option copy" where
  "KubegresStatus_DeepCopy = option_copy (cell_copy as_KubegresStatus KubegresStatusCell KubegresStatus_DeepCopyInto)"

definition Probe_DeepCopy :: "addr copy \<Rightarrow> addr option copy" where
  "Probe_DeepCopy lib = option_copy (cell_copy as_Probe ProbeCell (Probe_DeepCopyInto lib))"

definition Standby_DeepCopy :: "addr option copy" where
  "Standby_DeepCopy = option_copy (cell_copy as_Standby StandbyCell Standby_DeepCopyInto)"

definition Volume_DeepCopy :: "addr copy \<Rightarrow> addr option copy" where
  "Volume_DeepCopy lib = option_copy (cell_copy as_Volume VolumeCell (Volume_DeepCopyInto lib))"

definition VolumeClaimTemplate_DeepCopy :: "addr copy \<Rightarrow> addr option copy" where
  "VolumeClaimTemplate_DeepCopy lib = option_copy (cell_copy as_VolumeClaimTemplate VolumeClaimTemplateCell (VolumeClaimTemplate_DeepCopyInto lib))"

text \<open>A value of the interface \<open>runtime.Object\<close> that is not nil holds one of the two registered pointer types; the pointer may be nil.\<close>

datatype runtime_Object = KubegresObject "addr option" | KubegresListObject "addr option"

definition Kubegres_DeepCopyObject :: "addr copy \<Rightarrow> memory \<Rightarrow> addr option \<Rightarrow> runtime_Object option \<times> memory" where
  "Kubegres_DeepCopyObject lib m x =
     (let (c, m') = Kubegres_DeepCopy lib m x
      in if c \<noteq> None then (Some (KubegresObject c), m') else (None, m'))"

definition KubegresList_DeepCopyObject :: "addr copy \<Rightarrow> memory \<Rightarrow> addr option \<Rightarrow> runtime_Object option \<times> memory" where
  "KubegresList_DeepCopyObject lib m x =
     (let (c, m') = KubegresList_DeepCopy lib m x
      in if c \<noteq> None then (Some (KubegresListObject c), m') else (None, m'))"

text \<open>The call of the method on an interface value.\<close>

fun DeepCopyObject :: "addr copy \<Rightarrow> memory \<Rightarrow> runtime_Object \<Rightarrow> runtime_Object option \<times> memory" where
  "DeepCopyObject lib m (KubegresObject x) = Kubegres_DeepCopyObject lib m x"
| "DeepCopyObject lib m (KubegresListObject x) = KubegresList_DeepCopyObject lib m x"

section \<open>What a value in memory stands for\<close>

text \<open>
  The references of a struct are the cells it reaches, its reading is the record of theory \<open>Kubegres_Types\<close>
  (a nil slice reads as the empty list), and it is valid if its references point to cells of their types.
\<close>

definition block_read :: "(cell \<Rightarrow> 'v option) \<Rightarrow> memory \<Rightarrow> addr \<Rightarrow> 'v" where
  "block_read dec m a = the (dec (m ! a))"

definition block_valid :: "(cell \<Rightarrow> 'v option) \<Rightarrow> memory \<Rightarrow> addr \<Rightarrow> bool" where
  "block_valid dec m a \<longleftrightarrow> a < length m \<and> dec (m ! a) \<noteq> None"

abbreviation block_refs :: "memory \<Rightarrow> addr \<Rightarrow> addr set" where
  "block_refs \<equiv> \<lambda>_ a. {a}"

abbreviation blocks_refs :: "memory \<Rightarrow> addr option \<Rightarrow> addr set" where
  "blocks_refs \<equiv> option_refs (cell_refs as_blocks (\<lambda>m xs. \<Union>x \<in> set xs. block_refs m x))"

definition slice :: "'v list option \<Rightarrow> 'v list" where
  "slice xo = (case xo of None \<Rightarrow> [] | Some xs \<Rightarrow> xs)"

abbreviation blocks_read :: "(cell \<Rightarrow> 'v option) \<Rightarrow> memory \<Rightarrow> addr option \<Rightarrow> 'v list" where
  "blocks_read dec \<equiv> \<lambda>m xo. slice (map_option (cell_read as_blocks (\<lambda>m. map (block_read dec m)) m) xo)"

abbreviation blocks_valid :: "(cell \<Rightarrow> 'v option) \<Rightarrow> memory \<Rightarrow> addr option \<Rightarrow> bool" where
  "blocks_valid dec \<equiv> \<lambda>m. pred_option (cell_valid as_blocks (\<lambda>m. list_all (block_valid dec m)) m)"

definition KubegresDatabase_refs :: "memory \<Rightarrow> KubegresDatabase_mem \<Rightarrow> addr set" where
  "KubegresDatabase_refs m x = option_refs (cell_refs as_string (\<lambda>_ _. {})) m (mdb_StorageClassName x)"

definition KubegresDatabase_read :: "memory \<Rightarrow> KubegresDatabase_mem \<Rightarrow> KubegresDatabase" where
  "KubegresDatabase_read m x = \<lparr>db_Size = mdb_Size x, db_VolumeMount = mdb_VolumeMount x,
     db_StorageClassName = map_option (cell_read as_string (\<lambda>_ s. s) m) (mdb_StorageClassName x)\<rparr>"

definition KubegresDatabase_valid :: "memory \<Rightarrow> KubegresDatabase_mem \<Rightarrow> bool" where
  "KubegresDatabase_valid m x \<longleftrightarrow> pred_option (cell_valid as_string (\<lambda>_ _. True) m) (mdb_StorageClassName x)"

definition KubegresScheduler_refs :: "memory \<Rightarrow> KubegresScheduler_mem \<Rightarrow> addr set" where
  "KubegresScheduler_refs m x = option_refs block_refs m (msched_Affinity x) \<union> blocks_refs m (msched_Tolerations x)"

definition KubegresScheduler_read :: "memory \<Rightarrow> KubegresScheduler_mem \<Rightarrow> KubegresScheduler" where
  "KubegresScheduler_read m x = \<lparr>sched_Affinity = map_option (block_read as_value m) (msched_Affinity x),
     sched_Tolerations = blocks_read as_value m (msched_Tolerations x)\<rparr>"

definition KubegresScheduler_valid :: "memory \<Rightarrow> KubegresScheduler_mem \<Rightarrow> bool" where
  "KubegresScheduler_valid m x \<longleftrightarrow>
     pred_option (block_valid as_value m) (msched_Affinity x) \<and> blocks_valid as_value m (msched_Tolerations x)"

definition VolumeClaimTemplate_read :: "memory \<Rightarrow> VolumeClaimTemplate_mem \<Rightarrow> VolumeClaimTemplate" where
  "VolumeClaimTemplate_read m x = \<lparr>vct_Name = mvct_Name x, vct_Spec = block_read as_claim_spec m (mvct_Spec x)\<rparr>"

abbreviation claims_refs :: "memory \<Rightarrow> addr option \<Rightarrow> addr set" where
  "claims_refs \<equiv> option_refs (cell_refs as_claims (\<lambda>m xs. \<Union>x \<in> set xs. block_refs m (mvct_Spec x)))"

abbreviation claims_read :: "memory \<Rightarrow> addr option \<Rightarrow> VolumeClaimTemplate list" where
  "claims_read \<equiv> \<lambda>m xo. slice (map_option (cell_read as_claims (\<lambda>m. map (VolumeClaimTemplate_read m)) m) xo)"

abbreviation claims_valid :: "memory \<Rightarrow> addr option \<Rightarrow> bool" where
  "claims_valid \<equiv> \<lambda>m. pred_option (cell_valid as_claims (\<lambda>m. list_all (\<lambda>x. block_valid as_claim_spec m (mvct_Spec x))) m)"

definition Volume_refs :: "memory \<Rightarrow> Volume_mem \<Rightarrow> addr set" where
  "Volume_refs m x = blocks_refs m (mvol_VolumeMounts x) \<union> (blocks_refs m (mvol_Volumes x) \<union> claims_refs m (mvol_VolumeClaimTemplates x))"

definition Volume_read :: "memory \<Rightarrow> Volume_mem \<Rightarrow> VolumeSpec" where
  "Volume_read m x = \<lparr>vol_VolumeMounts = blocks_read as_mount m (mvol_VolumeMounts x), vol_Volumes = blocks_read as_volume m (mvol_Volumes x),
     vol_VolumeClaimTemplates = claims_read m (mvol_VolumeClaimTemplates x)\<rparr>"

definition Volume_valid :: "memory \<Rightarrow> Volume_mem \<Rightarrow> bool" where
  "Volume_valid m x \<longleftrightarrow> blocks_valid as_mount m (mvol_VolumeMounts x) \<and> blocks_valid as_volume m (mvol_Volumes x) \<and>
     claims_valid m (mvol_VolumeClaimTemplates x)"

definition Probe_refs :: "memory \<Rightarrow> Probe_mem \<Rightarrow> addr set" where
  "Probe_refs m x = option_refs block_refs m (mprobe_LivenessProbe x) \<union> option_refs block_refs m (mprobe_ReadinessProbe x)"

definition Probe_read :: "memory \<Rightarrow> Probe_mem \<Rightarrow> ProbeSpec" where
  "Probe_read m x = \<lparr>probe_LivenessProbe = map_option (block_read as_value m) (mprobe_LivenessProbe x),
     probe_ReadinessProbe = map_option (block_read as_value m) (mprobe_ReadinessProbe x)\<rparr>"

definition Probe_valid :: "memory \<Rightarrow> Probe_mem \<Rightarrow> bool" where
  "Probe_valid m x \<longleftrightarrow> pred_option (block_valid as_value m) (mprobe_LivenessProbe x) \<and>
     pred_option (block_valid as_value m) (mprobe_ReadinessProbe x)"

definition KubegresSpec_refs :: "memory \<Rightarrow> KubegresSpec_mem \<Rightarrow> addr set" where
  "KubegresSpec_refs m x =
     option_refs (cell_refs as_int (\<lambda>_ _. {})) m (mspec_Replicas x) \<union>
     (option_refs (cell_refs as_secrets (\<lambda>_ _. {})) m (mspec_ImagePullSecrets x) \<union>
     (KubegresDatabase_refs m (mspec_Database x) \<union> (blocks_refs m (mspec_Env x) \<union> (KubegresScheduler_refs m (mspec_Scheduler x) \<union>
     (block_refs m (mspec_Resources x) \<union> (Volume_refs m (mspec_Volume x) \<union>
     (option_refs block_refs m (mspec_SecurityContext x) \<union> Probe_refs m (mspec_Probe x))))))))"

definition KubegresSpec_read :: "memory \<Rightarrow> KubegresSpec_mem \<Rightarrow> KubegresSpec" where
  "KubegresSpec_read m x =
     \<lparr>spec_Replicas = map_option (cell_read as_int (\<lambda>_ i. i) m) (mspec_Replicas x), spec_Image = mspec_Image x, spec_Port = mspec_Port x,
      spec_ImagePullSecrets = slice (map_option (cell_read as_secrets (\<lambda>_ s. s) m) (mspec_ImagePullSecrets x)),
      spec_CustomConfig = mspec_CustomConfig x, spec_Database = KubegresDatabase_read m (mspec_Database x),
      spec_Failover = mspec_Failover x, spec_Backup = mspec_Backup x, spec_Env = blocks_read as_env m (mspec_Env x),
      spec_Scheduler = KubegresScheduler_read m (mspec_Scheduler x), spec_Resources = block_read as_resources m (mspec_Resources x),
      spec_Volume = Volume_read m (mspec_Volume x),
      spec_SecurityContext = map_option (block_read as_value m) (mspec_SecurityContext x),
      spec_Probe = Probe_read m (mspec_Probe x), spec_ServiceAccountName = mspec_ServiceAccountName x, spec_Standby = mspec_Standby x\<rparr>"

definition KubegresSpec_valid :: "memory \<Rightarrow> KubegresSpec_mem \<Rightarrow> bool" where
  "KubegresSpec_valid m x \<longleftrightarrow>
     pred_option (cell_valid as_int (\<lambda>_ _. True) m) (mspec_Replicas x) \<and>
     pred_option (cell_valid as_secrets (\<lambda>_ _. True) m) (mspec_ImagePullSecrets x) \<and>
     KubegresDatabase_valid m (mspec_Database x) \<and> blocks_valid as_env m (mspec_Env x) \<and> KubegresScheduler_valid m (mspec_Scheduler x) \<and>
     block_valid as_resources m (mspec_Resources x) \<and> Volume_valid m (mspec_Volume x) \<and>
     pred_option (block_valid as_value m) (mspec_SecurityContext x) \<and> Probe_valid m (mspec_Probe x)"

definition Kubegres_refs :: "memory \<Rightarrow> Kubegres_mem \<Rightarrow> addr set" where
  "Kubegres_refs m x = block_refs m (mkg_ObjectMeta x) \<union> KubegresSpec_refs m (mkg_Spec x)"

text \<open>The model's resource has no type meta data, so the reading keeps them beside it.\<close>

definition Kubegres_read :: "memory \<Rightarrow> Kubegres_mem \<Rightarrow> (string \<times> string) \<times> Kubegres" where
  "Kubegres_read m x = (mkg_TypeMeta x, \<lparr>kg_meta = block_read as_meta m (mkg_ObjectMeta x),
     kg_Spec = KubegresSpec_read m (mkg_Spec x), kg_Status = mkg_Status x\<rparr>)"

definition Kubegres_valid :: "memory \<Rightarrow> Kubegres_mem \<Rightarrow> bool" where
  "Kubegres_valid m x \<longleftrightarrow> block_valid as_meta m (mkg_ObjectMeta x) \<and> KubegresSpec_valid m (mkg_Spec x)"

definition KubegresList_refs :: "memory \<Rightarrow> KubegresList_mem \<Rightarrow> addr set" where
  "KubegresList_refs m x = block_refs m (mlist_ListMeta x) \<union>
     option_refs (cell_refs as_items (\<lambda>m xs. \<Union>x \<in> set xs. Kubegres_refs m x)) m (mlist_Items x)"

definition KubegresList_read :: "memory \<Rightarrow> KubegresList_mem \<Rightarrow> (string \<times> string) \<times> k8s_value \<times> ((string \<times> string) \<times> Kubegres) list option" where
  "KubegresList_read m x = (mlist_TypeMeta x, block_read as_value m (mlist_ListMeta x),
     map_option (cell_read as_items (\<lambda>m. map (Kubegres_read m)) m) (mlist_Items x))"

definition KubegresList_valid :: "memory \<Rightarrow> KubegresList_mem \<Rightarrow> bool" where
  "KubegresList_valid m x \<longleftrightarrow> block_valid as_value m (mlist_ListMeta x) \<and>
     pred_option (cell_valid as_items (\<lambda>m. list_all (Kubegres_valid m)) m) (mlist_Items x)"

section \<open>The copies keep the contract\<close>

text \<open>What the \<open>DeepCopyInto\<close> methods of the Kubernetes structs promise: a new block with the contents of the old one.\<close>

definition library_copies :: "addr copy \<Rightarrow> bool" where
  "library_copies lib \<longleftrightarrow> copier lib block_refs (\<lambda>m a. m ! a) (\<lambda>m a. a < length m \<and> is_block (m ! a))"

definition block_type :: "(cell \<Rightarrow> 'v option) \<Rightarrow> bool" where
  "block_type dec \<longleftrightarrow> (\<forall>c. dec c \<noteq> None \<longrightarrow> is_block c)"

lemma block_types:
  "block_type as_value" "block_type as_env" "block_type as_mount" "block_type as_volume" "block_type as_claim_spec"
  "block_type as_resources" "block_type as_meta"
  by (auto simp: block_type_def cell_decs split: cell.splits)

lemma copier_block:
  assumes "library_copies lib" "block_type dec"
  shows "copier lib block_refs (block_read dec) (block_valid dec)"
proof -
  have lib: "copier lib block_refs (\<lambda>m a. m ! a) (\<lambda>m a. a < length m \<and> is_block (m ! a))" using assms(1) by (simp add: library_copies_def)
  show ?thesis
  proof (unfold_locales, goal_cases)
    case (1 m x y m')
    have "is_block (m ! x)" using 1(1) assms(2) by (auto simp: block_valid_def block_type_def)
    with copier.copies [OF lib _ 1(2)] 1(1) show ?case by (simp add: block_valid_def block_read_def)
  next
    case (2 m x a)
    then show ?case by (simp add: block_valid_def)
  next
    case (3 m x n)
    then show ?case by (simp add: block_valid_def block_read_def)
  qed
qed

lemma copier_blocks:
  assumes "library_copies lib" "block_type dec"
  shows "copier (option_copy (blocks_copy lib)) blocks_refs (blocks_read dec) (blocks_valid dec)"
  unfolding blocks_copy_def
  by (rule copier_view [OF copier_option [OF copier_cell [OF copier_list [OF copier_block [OF assms]]]]]) (simp add: as_blocks_def)

lemma copier_scalars:
  "copier int_copy (cell_refs as_int (\<lambda>_ _. {})) (cell_read as_int (\<lambda>_ i. i)) (cell_valid as_int (\<lambda>_ _. True))"
  "copier string_copy (cell_refs as_string (\<lambda>_ _. {})) (cell_read as_string (\<lambda>_ s. s)) (cell_valid as_string (\<lambda>_ _. True))"
  "copier secrets_copy (cell_refs as_secrets (\<lambda>_ _. {})) (cell_read as_secrets (\<lambda>_ s. s)) (cell_valid as_secrets (\<lambda>_ _. True))"
  unfolding int_copy_def string_copy_def secrets_copy_def
  by (rule copier_cell [OF flat.copier_axioms]; simp add: cell_decs)+

text \<open>The structs without references.\<close>

lemma flat_DeepCopyInto:
  "KubegresBackUp_DeepCopyInto = flat_copy" "KubegresBlockingOperation_DeepCopyInto = flat_copy" "KubegresFailover_DeepCopyInto = flat_copy"
  "Standby_DeepCopyInto = flat_copy" "KubegresStatefulSetOperation_DeepCopyInto = flat_copy"
  "KubegresStatefulSetSpecUpdateOperation_DeepCopyInto = flat_copy" "KubegresStatus_DeepCopyInto = flat_copy"
  by (simp_all add: fun_eq_iff flat_copy_def KubegresBackUp_DeepCopyInto_def KubegresBlockingOperation_DeepCopyInto_def
    KubegresFailover_DeepCopyInto_def Standby_DeepCopyInto_def KubegresStatefulSetOperation_DeepCopyInto_def
    KubegresStatefulSetSpecUpdateOperation_DeepCopyInto_def KubegresStatus_DeepCopyInto_def)

interpretation status: copier KubegresStatus_DeepCopyInto "\<lambda>_ _. {}" "\<lambda>_ x. x" "\<lambda>_ _. True"
  unfolding flat_DeepCopyInto by (rule flat.copier_axioms)

interpretation database: copier KubegresDatabase_DeepCopyInto KubegresDatabase_refs KubegresDatabase_read KubegresDatabase_valid
  by (rule copier_cong [OF copier_struct [OF copier_option [OF copier_scalars(2)], of mdb_StorageClassName
      "\<lambda>y x. x\<lparr>mdb_StorageClassName := y\<rparr>" "\<lambda>x s. \<lparr>db_Size = mdb_Size x, db_VolumeMount = mdb_VolumeMount x, db_StorageClassName = s\<rparr>"]])
    (simp_all add: KubegresDatabase_DeepCopyInto_def KubegresDatabase_refs_def KubegresDatabase_read_def KubegresDatabase_valid_def)

lemma copier_KubegresScheduler:
  assumes "library_copies lib"
  shows "copier (KubegresScheduler_DeepCopyInto lib) KubegresScheduler_refs KubegresScheduler_read KubegresScheduler_valid"
  by (rule copier_cong [OF copier_struct [OF copier_pair [OF copier_option [OF copier_block [OF assms block_types(1)]]
        copier_blocks [OF assms block_types(1)]],
      of "\<lambda>x. (msched_Affinity x, msched_Tolerations x)" "\<lambda>(a, t) x. x\<lparr>msched_Affinity := a, msched_Tolerations := t\<rparr>"
        "\<lambda>x (a, t). \<lparr>sched_Affinity = a, sched_Tolerations = t\<rparr>"]])
    (simp_all add: KubegresScheduler_DeepCopyInto_def KubegresScheduler_refs_def KubegresScheduler_read_def KubegresScheduler_valid_def
      pair_copy_def split_def Let_def)

lemma copier_VolumeClaimTemplate:
  assumes "library_copies lib"
  shows "copier (VolumeClaimTemplate_DeepCopyInto lib) (\<lambda>m x. block_refs m (mvct_Spec x)) VolumeClaimTemplate_read
    (\<lambda>m x. block_valid as_claim_spec m (mvct_Spec x))"
  by (rule copier_cong [OF copier_struct [OF copier_block [OF assms block_types(5)], of mvct_Spec "\<lambda>s x. x\<lparr>mvct_Spec := s\<rparr>"
        "\<lambda>x s. \<lparr>vct_Name = mvct_Name x, vct_Spec = s\<rparr>"]])
    (simp_all add: VolumeClaimTemplate_DeepCopyInto_def VolumeClaimTemplate_read_def)

lemma copier_claims:
  assumes "library_copies lib"
  shows "copier (option_copy (cell_copy as_claims ClaimsCell (list_copy (VolumeClaimTemplate_DeepCopyInto lib))))
    claims_refs claims_read claims_valid"
  by (rule copier_view [OF copier_option [OF copier_cell [OF copier_list [OF copier_VolumeClaimTemplate [OF assms]]]]])
    (simp add: as_claims_def)

lemma copier_Volume:
  assumes "library_copies lib"
  shows "copier (Volume_DeepCopyInto lib) Volume_refs Volume_read Volume_valid"
  by (rule copier_cong [OF copier_struct [OF copier_pair [OF copier_blocks [OF assms block_types(3)]
        copier_pair [OF copier_blocks [OF assms block_types(4)] copier_claims [OF assms]]],
      of "\<lambda>x. (mvol_VolumeMounts x, mvol_Volumes x, mvol_VolumeClaimTemplates x)"
        "\<lambda>(a, b, c) x. x\<lparr>mvol_VolumeMounts := a, mvol_Volumes := b, mvol_VolumeClaimTemplates := c\<rparr>"
        "\<lambda>x (a, b, c). \<lparr>vol_VolumeMounts = a, vol_Volumes = b, vol_VolumeClaimTemplates = c\<rparr>"]])
    (simp_all add: Volume_DeepCopyInto_def Volume_refs_def Volume_read_def Volume_valid_def pair_copy_def split_def Let_def)

lemma copier_Probe:
  assumes "library_copies lib"
  shows "copier (Probe_DeepCopyInto lib) Probe_refs Probe_read Probe_valid"
  by (rule copier_cong [OF copier_struct [OF copier_pair [OF copier_option [OF copier_block [OF assms block_types(1)]]
        copier_option [OF copier_block [OF assms block_types(1)]]],
      of "\<lambda>x. (mprobe_LivenessProbe x, mprobe_ReadinessProbe x)"
        "\<lambda>(a, b) x. x\<lparr>mprobe_LivenessProbe := a, mprobe_ReadinessProbe := b\<rparr>"
        "\<lambda>x (a, b). \<lparr>probe_LivenessProbe = a, probe_ReadinessProbe = b\<rparr>"]])
    (simp_all add: Probe_DeepCopyInto_def Probe_refs_def Probe_read_def Probe_valid_def pair_copy_def split_def Let_def)

text \<open>The fields of the spec that hold references, in the order in which they are copied.\<close>

lemmas copier_spec_fields =
  copier_pair [OF copier_option [OF copier_scalars(1)]
  copier_pair [OF copier_view [OF copier_option [OF copier_scalars(3)], of slice]
  copier_pair [OF database.copier_axioms
  copier_pair [OF copier_blocks [OF _ block_types(2)]
  copier_pair [OF copier_KubegresScheduler
  copier_pair [OF copier_block [OF _ block_types(6)]
  copier_pair [OF copier_Volume
  copier_pair [OF copier_option [OF copier_block [OF _ block_types(1)]] copier_Probe]]]]]]]]

lemma copier_KubegresSpec:
  assumes "library_copies lib"
  shows "copier (KubegresSpec_DeepCopyInto lib) KubegresSpec_refs KubegresSpec_read KubegresSpec_valid"
  by (rule copier_cong [OF copier_struct [OF copier_spec_fields [OF assms assms assms assms assms assms],
      of "\<lambda>x. (mspec_Replicas x, mspec_ImagePullSecrets x, mspec_Database x, mspec_Env x, mspec_Scheduler x, mspec_Resources x,
            mspec_Volume x, mspec_SecurityContext x, mspec_Probe x)"
        "\<lambda>(r, i, d, e, s, rs, v, sc, p) x. x\<lparr>mspec_Replicas := r, mspec_ImagePullSecrets := i, mspec_Database := d, mspec_Env := e,
            mspec_Scheduler := s, mspec_Resources := rs, mspec_Volume := v, mspec_SecurityContext := sc, mspec_Probe := p\<rparr>"
        "\<lambda>x (r, i, d, e, s, rs, v, sc, p). \<lparr>spec_Replicas = r, spec_Image = mspec_Image x, spec_Port = mspec_Port x,
            spec_ImagePullSecrets = i, spec_CustomConfig = mspec_CustomConfig x, spec_Database = d, spec_Failover = mspec_Failover x,
            spec_Backup = mspec_Backup x, spec_Env = e, spec_Scheduler = s, spec_Resources = rs, spec_Volume = v,
            spec_SecurityContext = sc, spec_Probe = p, spec_ServiceAccountName = mspec_ServiceAccountName x,
            spec_Standby = mspec_Standby x\<rparr>"]])
    (simp_all add: KubegresSpec_DeepCopyInto_def KubegresSpec_refs_def KubegresSpec_read_def KubegresSpec_valid_def
      pair_copy_def split_def Let_def)

lemma copier_Kubegres:
  assumes "library_copies lib"
  shows "copier (Kubegres_DeepCopyInto lib) Kubegres_refs Kubegres_read Kubegres_valid"
  by (rule copier_cong [OF copier_struct [OF copier_pair [OF copier_block [OF assms block_types(7)] copier_KubegresSpec [OF assms]],
      of "\<lambda>x. (mkg_ObjectMeta x, mkg_Spec x)" "\<lambda>(om, s) x. x\<lparr>mkg_ObjectMeta := om, mkg_Spec := s\<rparr>"
        "\<lambda>x (om, s). (mkg_TypeMeta x, \<lparr>kg_meta = om, kg_Spec = s, kg_Status = mkg_Status x\<rparr>)"]])
    (simp_all add: Kubegres_DeepCopyInto_def Kubegres_refs_def Kubegres_read_def Kubegres_valid_def pair_copy_def split_def Let_def)

lemma copier_items:
  assumes "library_copies lib"
  shows "copier (option_copy (cell_copy as_items ItemsCell (list_copy (Kubegres_DeepCopyInto lib))))
    (option_refs (cell_refs as_items (\<lambda>m xs. \<Union>x \<in> set xs. Kubegres_refs m x)))
    (\<lambda>m. map_option (cell_read as_items (\<lambda>m. map (Kubegres_read m)) m))
    (\<lambda>m. pred_option (cell_valid as_items (\<lambda>m. list_all (Kubegres_valid m)) m))"
  by (rule copier_option [OF copier_cell [OF copier_list [OF copier_Kubegres [OF assms]]]]) (simp add: as_items_def)

lemma copier_KubegresList:
  assumes "library_copies lib"
  shows "copier (KubegresList_DeepCopyInto lib) KubegresList_refs KubegresList_read KubegresList_valid"
  by (rule copier_cong [OF copier_struct [OF copier_pair [OF copier_block [OF assms block_types(1)] copier_items [OF assms]],
      of "\<lambda>x. (mlist_ListMeta x, mlist_Items x)" "\<lambda>(om, s) x. x\<lparr>mlist_ListMeta := om, mlist_Items := s\<rparr>"
        "\<lambda>x (om, s). (mlist_TypeMeta x, om, s)"]])
    (simp_all add: KubegresList_DeepCopyInto_def KubegresList_refs_def KubegresList_read_def KubegresList_valid_def
      pair_copy_def split_def Let_def)

section \<open>Copies of objects are independent\<close>

lemma copier_Kubegres_DeepCopy:
  assumes "library_copies lib"
  shows "copier (Kubegres_DeepCopy lib) (option_refs (cell_refs as_Kubegres Kubegres_refs))
    (\<lambda>m. map_option (cell_read as_Kubegres Kubegres_read m)) (\<lambda>m. pred_option (cell_valid as_Kubegres Kubegres_valid m))"
  unfolding Kubegres_DeepCopy_def
  by (rule copier_option [OF copier_cell [OF copier_Kubegres [OF assms]]]) (simp add: as_Kubegres_def)

lemma copier_KubegresList_DeepCopy:
  assumes "library_copies lib"
  shows "copier (KubegresList_DeepCopy lib) (option_refs (cell_refs as_KubegresList KubegresList_refs))
    (\<lambda>m. map_option (cell_read as_KubegresList KubegresList_read m)) (\<lambda>m. pred_option (cell_valid as_KubegresList KubegresList_valid m))"
  unfolding KubegresList_DeepCopy_def
  by (rule copier_option [OF copier_cell [OF copier_KubegresList [OF assms]]]) (simp add: as_KubegresList_def)

fun object_refs :: "memory \<Rightarrow> runtime_Object \<Rightarrow> addr set" where
  "object_refs m (KubegresObject p) = option_refs (cell_refs as_Kubegres Kubegres_refs) m p"
| "object_refs m (KubegresListObject p) = option_refs (cell_refs as_KubegresList KubegresList_refs) m p"

text \<open>An object stands for a resource or for a list of resources, or for a nil pointer to one of them.\<close>

fun object_read where
  "object_read m (KubegresObject p) = Inl (map_option (cell_read as_Kubegres Kubegres_read m) p)"
| "object_read m (KubegresListObject p) = Inr (map_option (cell_read as_KubegresList KubegresList_read m) p)"

fun object_valid :: "memory \<Rightarrow> runtime_Object \<Rightarrow> bool" where
  "object_valid m (KubegresObject p) = pred_option (cell_valid as_Kubegres Kubegres_valid m) p"
| "object_valid m (KubegresListObject p) = pred_option (cell_valid as_KubegresList KubegresList_valid m) p"

fun is_nil :: "runtime_Object \<Rightarrow> bool" where
  "is_nil (KubegresObject p) \<longleftrightarrow> p = None"
| "is_nil (KubegresListObject p) \<longleftrightarrow> p = None"

lemma option_copy_nil: "option_copy c m x = (y, m') \<Longrightarrow> y = None \<longleftrightarrow> x = None"
  by (auto simp: option_copy_def split: option.splits prod.splits)

lemma DeepCopyObject_cases:
  assumes "DeepCopyObject lib m obj = (r, m')"
  obtains (Kubegres) p q where "obj = KubegresObject p" "Kubegres_DeepCopy lib m p = (q, m')"
      "r = (if q = None then None else Some (KubegresObject q))" "q = None \<longleftrightarrow> p = None"
  | (List) p q where "obj = KubegresListObject p" "KubegresList_DeepCopy lib m p = (q, m')"
      "r = (if q = None then None else Some (KubegresListObject q))" "q = None \<longleftrightarrow> p = None"
proof (cases obj)
  case (KubegresObject p)
  obtain q n where q: "Kubegres_DeepCopy lib m p = (q, n)" by fastforce
  with assms KubegresObject have "n = m'" "r = (if q = None then None else Some (KubegresObject q))"
    by (auto simp: Kubegres_DeepCopyObject_def split: if_splits)
  with q show ?thesis using Kubegres [OF KubegresObject] option_copy_nil [of _ m p] by (simp add: Kubegres_DeepCopy_def)
next
  case (KubegresListObject p)
  obtain q n where q: "KubegresList_DeepCopy lib m p = (q, n)" by fastforce
  with assms KubegresListObject have "n = m'" "r = (if q = None then None else Some (KubegresListObject q))"
    by (auto simp: KubegresList_DeepCopyObject_def split: if_splits)
  with q show ?thesis using List [OF KubegresListObject] option_copy_nil [of _ m p] by (simp add: KubegresList_DeepCopy_def)
qed

text \<open>
  C30: deep copies of objects (\<open>zz_generated.deepcopy.go\<close>). On every valid object, and given that the deep copies of the
  Kubernetes structs copy their block, \<open>DeepCopyObject\<close> returns nil exactly for a nil pointer and otherwise an object
  that stands for the same resource or list of resources, leaves the memory there was unchanged, and shares
  no cell with the original: it reaches only new cells, and a later write to any cell of the one leaves what the other stands for as it was.
\<close>

theorem DeepCopyObject_is_independent:
  assumes "library_copies lib" "object_valid m obj" "DeepCopyObject lib m obj = (r, m')"
  shows "prefix m m' \<and> (r = None \<longleftrightarrow> is_nil obj) \<and>
    (\<forall>copy. r = Some copy \<longrightarrow> object_valid m' copy \<and> object_read m' copy = object_read m obj \<and>
      (\<forall>a \<in> object_refs m' copy. length m \<le> a) \<and>
      (\<forall>a \<in> object_refs m' copy. \<forall>c. object_read (m'[a := c]) obj = object_read m obj) \<and>
      (\<forall>a \<in> object_refs m obj. \<forall>c. object_read (m'[a := c]) copy = object_read m obj))"
  using assms(3)
proof (cases rule: DeepCopyObject_cases)
  case (Kubegres p q)
  then show ?thesis using assms(2) copier.deep_copy [OF copier_Kubegres_DeepCopy [OF assms(1)] _ Kubegres(2)] by auto
next
  case (List p q)
  then show ?thesis using assms(2) copier.deep_copy [OF copier_KubegresList_DeepCopy [OF assms(1)] _ List(2)] by auto
qed

definition sample_lib :: "addr copy" where
  "sample_lib m a = (length m, m @ [m ! a])"

lemma sample_lib_copies: "library_copies sample_lib"
  unfolding library_copies_def by unfold_locales (auto simp: sample_lib_def)

definition sample_object :: Kubegres_mem where
  "sample_object = \<lparr>mkg_TypeMeta = (''Kubegres'', ''kubegres.reactive-tech.io/v1''), mkg_ObjectMeta = 7,
     mkg_Spec = \<lparr>mspec_Replicas = Some 0, mspec_Image = ''postgres:14.1'', mspec_Port = 5432, mspec_ImagePullSecrets = None,
       mspec_CustomConfig = ''base-kubegres-config'',
       mspec_Database = \<lparr>mdb_Size = ''200Mi'', mdb_VolumeMount = ''/var/lib/postgresql/data'', mdb_StorageClassName = Some 1\<rparr>,
       mspec_Failover = spec_Failover sample_Spec, mspec_Backup = spec_Backup sample_Spec, mspec_Env = Some 4,
       mspec_Scheduler = \<lparr>msched_Affinity = Some 5, msched_Tolerations = None\<rparr>, mspec_Resources = 6,
       mspec_Volume = \<lparr>mvol_VolumeMounts = None, mvol_Volumes = None, mvol_VolumeClaimTemplates = None\<rparr>,
       mspec_SecurityContext = None, mspec_Probe = \<lparr>mprobe_LivenessProbe = None, mprobe_ReadinessProbe = None\<rparr>,
       mspec_ServiceAccountName = '''', mspec_Standby = spec_Standby sample_Spec\<rparr>,
     mkg_Status = zero_Status\<rparr>"

definition sample_memory :: memory where
  "sample_memory = [IntCell 3, StringCell ''standard'', EnvBlock (spec_Env sample_Spec ! 0), EnvBlock (spec_Env sample_Spec ! 1),
     BlocksCell [2, 3], ValueBlock KNull, ResourcesBlock zero_ResourceRequirements, MetaBlock (kg_meta sample_Kubegres),
     KubegresCell sample_object]"

lemmas object_defs = cell_decs cell_valid_def cell_read_def cell_refs_def block_valid_def block_read_def slice_def option_refs_def
  Kubegres_valid_def KubegresSpec_valid_def KubegresDatabase_valid_def KubegresScheduler_valid_def Volume_valid_def Probe_valid_def
  Kubegres_read_def KubegresSpec_read_def KubegresDatabase_read_def KubegresScheduler_read_def Volume_read_def Probe_read_def

lemma sample_object_valid: "object_valid sample_memory (KubegresObject (Some 8))"
  by (simp add: sample_memory_def sample_object_def object_defs)

lemma sample_object_read:
  "object_read sample_memory (KubegresObject (Some 8)) = Inl (Some ((''Kubegres'', ''kubegres.reactive-tech.io/v1''), sample_Kubegres))"
  by (simp add: sample_memory_def sample_object_def object_defs sample_Kubegres_def sample_Spec_def)

lemma sample_object_replicas: "0 \<in> object_refs sample_memory (KubegresObject (Some 8))"
  by (simp add: sample_memory_def sample_object_def object_defs Kubegres_refs_def KubegresSpec_refs_def)

theorem DeepCopyObject_is_independent_witness:
  "library_copies sample_lib \<and> object_valid sample_memory (KubegresObject (Some 8)) \<and>
   (\<exists>copy m'. DeepCopyObject sample_lib sample_memory (KubegresObject (Some 8)) = (Some copy, m') \<and>
     object_read (m'[0 := IntCell 5]) copy = Inl (Some ((''Kubegres'', ''kubegres.reactive-tech.io/v1''), sample_Kubegres)))"
proof -
  obtain r m' where c: "DeepCopyObject sample_lib sample_memory (KubegresObject (Some 8)) = (r, m')" by fastforce
  note t = DeepCopyObject_is_independent [OF sample_lib_copies sample_object_valid c]
  then obtain copy where "r = Some copy" by fastforce
  then show ?thesis
    using t c sample_lib_copies sample_object_valid sample_object_replicas sample_object_read by fastforce
qed

end
