(* ===== verification/Wrapper_Sorting.thy ===== *)
theory Wrapper_Sorting
  imports StatefulSet_States Sample_Cluster
begin

text \<open>
  \<open>src/controllers/states/statefulset/StatefulSetWrappersSorting.go\<close>: the methods through which \<open>sort.Sort\<close>
  sorts the collections. The library promises an ascending result, not a stable one, and not by which
  algorithm: here it is any sequence of calls of \<open>Swap\<close> after which \<open>Less\<close> finds no neighbours in the wrong order. This is
  compared with the stable sort that \<open>Add\<close> uses.
\<close>

section \<open>The methods\<close>

text \<open>\<open>None\<close> is the panic of an index out of range.\<close>

definition Sort_Len :: "StatefulSetWrapper list \<Rightarrow> nat" where
  "Sort_Len f = length f"

definition Sort_Less :: "StatefulSetWrapper list \<Rightarrow> nat \<Rightarrow> nat \<Rightarrow> bool option" where
  "Sort_Less f i j =
     (if i < length f \<and> j < length f then Some (getInstanceIndex (f ! i) < getInstanceIndex (f ! j)) else None)"

definition Sort_Swap :: "StatefulSetWrapper list \<Rightarrow> nat \<Rightarrow> nat \<Rightarrow> StatefulSetWrapper list option" where
  "Sort_Swap f i j = (if i < length f \<and> j < length f then Some (f[i := f ! j, j := f ! i]) else None)"

definition Reverse_Len :: "StatefulSetWrapper list \<Rightarrow> nat" where
  "Reverse_Len f = length f"

definition Reverse_Less :: "StatefulSetWrapper list \<Rightarrow> nat \<Rightarrow> nat \<Rightarrow> bool option" where
  "Reverse_Less f i j =
     (if i < length f \<and> j < length f then Some (getInstanceIndex (f ! i) > getInstanceIndex (f ! j)) else None)"

definition Reverse_Swap :: "StatefulSetWrapper list \<Rightarrow> nat \<Rightarrow> nat \<Rightarrow> StatefulSetWrapper list option" where
  "Reverse_Swap f i j = (if i < length f \<and> j < length f then Some (f[i := f ! j, j := f ! i]) else None)"

section \<open>\<open>sort.Sort\<close>\<close>

inductive swapped :: "('a list \<Rightarrow> nat \<Rightarrow> nat \<Rightarrow> 'a list option) \<Rightarrow> 'a list \<Rightarrow> 'a list \<Rightarrow> bool"
  for Swap where
  no_swap: "swapped Swap xs xs"
| swap: "swapped Swap xs ys \<Longrightarrow> Swap ys i j = Some zs \<Longrightarrow> swapped Swap xs zs"

definition sort_Sort :: "('a list \<Rightarrow> nat) \<Rightarrow> ('a list \<Rightarrow> nat \<Rightarrow> nat \<Rightarrow> bool option) \<Rightarrow> ('a list \<Rightarrow> nat \<Rightarrow> nat \<Rightarrow> 'a list option)
    \<Rightarrow> 'a list \<Rightarrow> 'a list \<Rightarrow> bool" where
  "sort_Sort Len Less Swap xs ys \<longleftrightarrow> swapped Swap xs ys \<and> (\<forall>i \<in> {..<Len ys - 1}. Less ys (Suc i) i = Some False)"

text \<open>What \<open>sort.Sort\<close> asks of the methods: \<open>Less\<close> compares a key, \<open>Swap\<close> exchanges two elements.\<close>

locale sort_methods =
  fixes Len :: "'a list \<Rightarrow> nat"
    and Less :: "'a list \<Rightarrow> nat \<Rightarrow> nat \<Rightarrow> bool option"
    and Swap :: "'a list \<Rightarrow> nat \<Rightarrow> nat \<Rightarrow> 'a list option"
    and key :: "'a \<Rightarrow> int"
  assumes len: "Len xs = length xs"
    and less: "Less xs i j = (if i < length xs \<and> j < length xs then Some (key (xs ! i) < key (xs ! j)) else None)"
    and swap: "Swap xs i j = (if i < length xs \<and> j < length xs then Some (xs[i := xs ! j, j := xs ! i]) else None)"
begin

lemma swapped_mset: "swapped Swap xs ys \<Longrightarrow> mset ys = mset xs"
  by (induction rule: swapped.induct) (auto simp: swap mset_swap split: if_splits)

lemma swapped_step:
  assumes "swapped Swap xs (zs @ ys)" "y \<in> set ys"
  obtains us where "swapped Swap xs (zs @ y # us)" "mset ys = add_mset y (mset us)"
proof -
  obtain k where k: "k < length ys" "ys ! k = y" using assms(2) by (auto simp: in_set_conv_nth)
  let ?ys = "ys[0 := ys ! k, k := ys ! 0]"
  have ys: "?ys = y # tl ?ys" using k by (cases ys; cases k) auto
  have m: "mset ?ys = mset ys" using k by (intro mset_swap) auto
  have "Swap (zs @ ys) (length zs) (length zs + k) = Some (zs @ ?ys)"
    using k by (auto simp: swap list_update_append nth_append)
  with assms(1) have "swapped Swap xs (zs @ ?ys)" by (rule swapped.swap)
  with ys m show thesis using that [of "tl ?ys"] by (metis mset.simps(2))
qed

lemma swapped_perm: "swapped Swap xs (zs @ us) \<Longrightarrow> mset us = mset ys \<Longrightarrow> swapped Swap xs (zs @ ys)"
proof (induction ys arbitrary: zs us)
  case (Cons y ys)
  have "y \<in> set us" using Cons.prems(2) by (metis list.set_intros(1) set_mset_mset)
  from swapped_step [OF Cons.prems(1) this] obtain vs
    where v: "swapped Swap xs (zs @ y # vs)" "mset us = add_mset y (mset vs)" .
  with Cons.IH [of "zs @ [y]" vs] Cons.prems(2) show ?case by simp
qed simp

lemma sorted_result: "sort_Sort Len Less Swap xs ys \<longleftrightarrow> mset ys = mset xs \<and> sorted (map key ys)"
proof -
  have "Less ys (Suc i) i = Some False \<longleftrightarrow> key (ys ! i) \<le> key (ys ! Suc i)" if "Suc i < length ys" for i
    using that by (simp only: less) (simp add: not_less)
  then have "(\<forall>i \<in> {..<Len ys - 1}. Less ys (Suc i) i = Some False) \<longleftrightarrow> sorted (map key ys)"
    unfolding len sorted_iff_nth_Suc by (simp add: Ball_def less_diff_conv)
  moreover have "swapped Swap xs ys \<longleftrightarrow> mset ys = mset xs"
    using swapped_mset [of xs ys] swapped_perm [of xs "[]" xs ys] swapped.no_swap [of Swap xs] by (metis append_Nil)
  ultimately show ?thesis by (simp add: sort_Sort_def)
qed

lemma result_keys:
  assumes "sort_Sort Len Less Swap xs ys"
  shows "map key ys = map key (sort_key key xs)"
proof -
  have "mset (map key ys) = mset (map key (sort_key key xs))" "sorted (map key ys)"
    using assms by (simp_all add: sorted_result)
  then have "sort (map key (sort_key key xs)) = map key ys" by (intro properties_for_sort)
  then show ?thesis by (simp add: sorted_sort_id)
qed

lemma result_unique: "sort_Sort Len Less Swap xs ys \<Longrightarrow> distinct (map key xs) \<Longrightarrow> ys = sort_key key xs"
  using sorted_perm_unique [of ys "sort_key key xs" key]
  by (simp add: sorted_result) (metis mset_eq_imp_distinct_iff mset_map)

lemma result_exists: "sort_Sort Len Less Swap xs (sort_key key xs)"
  by (simp add: sorted_result)

end

interpretation forward: sort_methods Sort_Len Sort_Less Sort_Swap getInstanceIndex
  by unfold_locales (simp_all add: Sort_Len_def Sort_Less_def Sort_Swap_def)

interpretation backward: sort_methods Reverse_Len Reverse_Less Reverse_Swap "\<lambda>s. - getInstanceIndex s"
  by unfold_locales (simp_all add: Reverse_Len_def Reverse_Less_def Reverse_Swap_def)

section \<open>The collections do not depend on the algorithm\<close>

text \<open>
  C24: the order of the collections (\<open>StatefulSetWrappersSorting.go\<close>, \<open>StatefulSetWrapper.go\<close>). The two lists of \<open>Add\<close> are possible
  results of \<open>sort.Sort\<close> through the methods of the two slice types, and whatever else \<open>sort.Sort\<close> may return has the same
  sequence of instance indices. When the indices differ it can return nothing else, so that which
  algorithm sorts, and that it is not stable, is not seen by the operator.
\<close>

theorem Add_agrees_with_sort_Sort:
  "sort_Sort Sort_Len Sort_Less Sort_Swap (GetAllSortedByInstanceIndex r @ [s]) (GetAllSortedByInstanceIndex (Add s r)) \<and>
    sort_Sort Reverse_Len Reverse_Less Reverse_Swap (GetAllReverseSortedByInstanceIndex r @ [s]) (GetAllReverseSortedByInstanceIndex (Add s r)) \<and>
    (\<forall>ys. sort_Sort Sort_Len Sort_Less Sort_Swap (GetAllSortedByInstanceIndex r @ [s]) ys \<longrightarrow>
       map getInstanceIndex ys = map getInstanceIndex (GetAllSortedByInstanceIndex (Add s r)) \<and>
       (distinct (map getInstanceIndex (GetAllSortedByInstanceIndex r @ [s])) \<longrightarrow> ys = GetAllSortedByInstanceIndex (Add s r))) \<and>
    (\<forall>ys. sort_Sort Reverse_Len Reverse_Less Reverse_Swap (GetAllReverseSortedByInstanceIndex r @ [s]) ys \<longrightarrow>
       map getInstanceIndex ys = map getInstanceIndex (GetAllReverseSortedByInstanceIndex (Add s r)) \<and>
       (distinct (map getInstanceIndex (GetAllReverseSortedByInstanceIndex r @ [s])) \<longrightarrow> ys = GetAllReverseSortedByInstanceIndex (Add s r)))"
proof -
  have a: "GetAllSortedByInstanceIndex (Add s r) = sort_key getInstanceIndex (GetAllSortedByInstanceIndex r @ [s])"
    "GetAllReverseSortedByInstanceIndex (Add s r) = sort_key (\<lambda>x. - getInstanceIndex x) (GetAllReverseSortedByInstanceIndex r @ [s])"
    by (simp_all add: Add_def GetAllSortedByInstanceIndex_def GetAllReverseSortedByInstanceIndex_def)
  have d: "distinct (map (\<lambda>x. - getInstanceIndex x) xs) = distinct (map getInstanceIndex xs)" for xs
    by (auto simp: distinct_map inj_on_def)
  have m: "map (\<lambda>x. - getInstanceIndex x) xs = map (\<lambda>x. - getInstanceIndex x) ys \<Longrightarrow> map getInstanceIndex xs = map getInstanceIndex ys"
    for xs ys by (metis (no_types, lifting) list.map_comp list.map_cong0 o_apply minus_minus)
  show ?thesis unfolding a
    using forward.result_exists backward.result_exists forward.result_keys m [OF backward.result_keys]
      forward.result_unique backward.result_unique [unfolded d] by blast
qed

definition sample_wrapper :: "int \<Rightarrow> StatefulSetWrapper" where
  "sample_wrapper i = zero_StatefulSetWrapper\<lparr>sw_InstanceIndex := i, sw_StatefulSet := sample_StatefulSet i ''replica'' 1\<rparr>"

lemma sample_wrapper_index: "getInstanceIndex (sample_wrapper 1) = 1" "getInstanceIndex (sample_wrapper 2) = 2"
  by code_simp+

theorem Add_agrees_with_sort_Sort_witness:
  "sort_Sort Sort_Len Sort_Less Sort_Swap [sample_wrapper 2, sample_wrapper 1] [sample_wrapper 1, sample_wrapper 2] \<and>
   GetAllSortedByInstanceIndex (Add (sample_wrapper 1) (Add (sample_wrapper 2) zero_StatefulSetWrappers)) = [sample_wrapper 1, sample_wrapper 2]"
proof -
  let ?r = "Add (sample_wrapper 2) zero_StatefulSetWrappers"
  have r: "GetAllSortedByInstanceIndex ?r @ [sample_wrapper 1] = [sample_wrapper 2, sample_wrapper 1]"
    by (simp add: Add_def GetAllSortedByInstanceIndex_def zero_StatefulSetWrappers_def)
  have s: "sort_Sort Sort_Len Sort_Less Sort_Swap [sample_wrapper 2, sample_wrapper 1] [sample_wrapper 1, sample_wrapper 2]"
    by (simp add: forward.sorted_result sample_wrapper_index)
  with Add_agrees_with_sort_Sort [of ?r "sample_wrapper 1"] r show ?thesis
    by (simp add: sample_wrapper_index)
qed

end
