(* ===== verification/Go_Slices.thy ===== *)
theory Go_Slices
  imports Kubegres_Prelude
begin

text \<open>
  Go slices with their backing arrays, for the code whose result depends on the sharing of arrays: a slice
  is a window of an array, \<open>append\<close> writes into the array as long as the capacity lasts, and two slices may be windows of
  the same array.
\<close>

section \<open>Slices and their operations\<close>

record slice =
  sl_array :: nat
  sl_offset :: nat
  sl_len :: nat
  sl_cap :: nat

type_synonym 'a arrays = "'a list list"

definition nil_slice :: slice where
  "nil_slice = \<lparr>sl_array = 0, sl_offset = 0, sl_len = 0, sl_cap = 0\<rparr>"

definition elements :: "'a arrays \<Rightarrow> slice \<Rightarrow> 'a list" where
  "elements m s = take (sl_len s) (drop (sl_offset s) (m ! sl_array s))"

definition slice_valid :: "'a arrays \<Rightarrow> slice \<Rightarrow> bool" where
  "slice_valid m s \<longleftrightarrow> sl_len s \<le> sl_cap s \<and>
     (0 < sl_cap s \<longrightarrow> sl_array s < length m \<and> sl_offset s + sl_cap s \<le> length (m ! sl_array s))"

text \<open>\<open>s[i]\<close>, \<open>s[:i]\<close> and \<open>s[i:]\<close>; \<open>None\<close> is a panic.\<close>

definition slice_nth :: "'a arrays \<Rightarrow> slice \<Rightarrow> nat \<Rightarrow> 'a option" where
  "slice_nth m s i = (if i < sl_len s then Some (m ! sl_array s ! (sl_offset s + i)) else None)"

definition slice_to :: "slice \<Rightarrow> nat \<Rightarrow> slice option" where
  "slice_to s i = (if i \<le> sl_cap s then Some (s\<lparr>sl_len := i\<rparr>) else None)"

definition slice_from :: "slice \<Rightarrow> nat \<Rightarrow> slice option" where
  "slice_from s i = (if i \<le> sl_len s
     then Some (s\<lparr>sl_offset := sl_offset s + i, sl_len := sl_len s - i, sl_cap := sl_cap s - i\<rparr>) else None)"

definition store :: "'a arrays \<Rightarrow> nat \<Rightarrow> nat \<Rightarrow> 'a list \<Rightarrow> 'a arrays" where
  "store m a k xs = m[a := take k (m ! a) @ xs @ drop (k + length xs) (m ! a)]"

text \<open>
  \<open>append(s, xs...)\<close>: in place if the capacity suffices, otherwise in a new array. By how much the new array
  is larger is up to the compiler: \<open>spare n\<close> are the unused cells of a new array for \<open>n\<close> elements.
\<close>

definition go_append :: "(nat \<Rightarrow> 'a list) \<Rightarrow> 'a arrays \<Rightarrow> slice \<Rightarrow> 'a list \<Rightarrow> slice \<times> 'a arrays" where
  "go_append spare m s xs =
     (let n = sl_len s + length xs
      in if n \<le> sl_cap s then (s\<lparr>sl_len := n\<rparr>, store m (sl_array s) (sl_offset s + sl_len s) xs)
         else (\<lparr>sl_array = length m, sl_offset = 0, sl_len = n, sl_cap = n + length (spare n)\<rparr>, m @ [elements m s @ xs @ spare n]))"

text \<open>\<open>make([]T, n)\<close> with the zero value of the type, and \<open>copy(dst, src)\<close>.\<close>

definition go_make :: "'a \<Rightarrow> 'a arrays \<Rightarrow> nat \<Rightarrow> slice \<times> 'a arrays" where
  "go_make z m n = (\<lparr>sl_array = length m, sl_offset = 0, sl_len = n, sl_cap = n\<rparr>, m @ [replicate n z])"

definition go_copy :: "'a arrays \<Rightarrow> slice \<Rightarrow> slice \<Rightarrow> 'a arrays" where
  "go_copy m dst src = store m (sl_array dst) (sl_offset dst) (take (sl_len dst) (elements m src))"

section \<open>What they do\<close>

lemma elements_length [simp]: "slice_valid m s \<Longrightarrow> length (elements m s) = sl_len s"
  by (cases "sl_cap s = 0") (auto simp: elements_def slice_valid_def)

lemma slice_nth_elements: "slice_valid m s \<Longrightarrow> i < sl_len s \<Longrightarrow> slice_nth m s i = Some (elements m s ! i)"
  by (auto simp: slice_nth_def elements_def slice_valid_def)

lemma elements_nil [simp]: "elements m nil_slice = []" "slice_valid m nil_slice" "sl_len nil_slice = 0"
  by (simp_all add: elements_def slice_valid_def nil_slice_def)

lemma store_nothing [simp]: "store m a k [] = m"
  by (simp add: store_def)

lemma store_other: "b \<noteq> a \<Longrightarrow> store m a k xs ! b = m ! b"
  by (simp add: store_def)

lemma store_same: "a < length m \<Longrightarrow> store m a k xs ! a = take k (m ! a) @ xs @ drop (k + length xs) (m ! a)"
  by (simp add: store_def)

lemma length_store [simp]: "length (store m a k xs) = length m"
  by (simp add: store_def)

lemma store_array_length:
  "a < length m \<Longrightarrow> k + length xs \<le> length (m ! a) \<Longrightarrow> length (store m a k xs ! a) = length (m ! a)"
  by (simp add: store_same)

text \<open>A slice keeps its elements if its array keeps them.\<close>

lemma elements_cong:
  assumes "slice_valid m s" "0 < sl_cap s \<Longrightarrow> sl_array s < length n \<and> n ! sl_array s = m ! sl_array s"
  shows "slice_valid n s" "elements n s = elements m s"
  using assms by (cases "sl_cap s"; simp add: slice_valid_def elements_def)+

text \<open>Writing behind the elements of a slice.\<close>

lemma store_before:
  assumes "slice_valid m u" "a < length m" "k + length xs \<le> length (m ! a)" "sl_array u = a \<Longrightarrow> sl_offset u + sl_len u \<le> k"
  shows "slice_valid (store m a k xs) u" "elements (store m a k xs) u = elements m u"
proof -
  have l: "length (store m a k xs ! b) = length (m ! b)" for b
    using store_array_length [OF assms(2,3)] by (cases "b = a") (simp_all add: store_other)
  show "slice_valid (store m a k xs) u" using assms(1) by (simp add: slice_valid_def l)
  show "elements (store m a k xs) u = elements m u"
  proof (cases "sl_array u = a")
    case True
    with assms(2-4) show ?thesis by (simp add: elements_def store_same drop_append take_drop min_def)
  qed (simp add: elements_def store_other)
qed

lemma store_at_end:
  assumes "slice_valid m s" "sl_len s + length xs \<le> sl_cap s"
  shows "elements (store m (sl_array s) (sl_offset s + sl_len s) xs) (s\<lparr>sl_len := sl_len s + length xs\<rparr>) = elements m s @ xs"
proof (cases "xs = []")
  case False
  with assms have "sl_array s < length m" "sl_offset s + (sl_len s + length xs) \<le> length (m ! sl_array s)"
    by (auto simp: slice_valid_def)
  then show ?thesis by (simp add: elements_def store_same drop_take)
qed simp

lemma go_append_elements:
  assumes "slice_valid m s" "go_append spare m s xs = (t, n)"
  shows "slice_valid n t" "elements n t = elements m s @ xs"
  using assms store_at_end [OF assms(1), of xs]
  by (auto simp: go_append_def Let_def slice_valid_def elements_def store_array_length nth_append split: if_splits)

text \<open>\<open>append\<close> is seen by no slice of another array, nor by one of the same array that ends where the slice ends or before.\<close>

lemma go_append_others:
  assumes "slice_valid m s" "go_append spare m s xs = (t, n)" "slice_valid m u"
    "0 < sl_cap s \<Longrightarrow> sl_array u = sl_array s \<Longrightarrow> sl_offset u + sl_len u \<le> sl_offset s + sl_len s"
  shows "slice_valid n u \<and> elements n u = elements m u"
proof (cases "sl_len s + length xs \<le> sl_cap s \<and> xs \<noteq> []")
  case True
  with assms(1) have "sl_array s < length m" "sl_offset s + sl_len s + length xs \<le> length (m ! sl_array s)"
    by (auto simp: slice_valid_def)
  moreover have "0 < sl_cap s" using True by (cases xs) auto
  ultimately show ?thesis
    using store_before [OF assms(3) _ _ assms(4), where a = "sl_array s" and xs = xs] True assms(2) by (auto simp: go_append_def Let_def)
next
  case False
  with assms(2,3) show ?thesis
    using elements_cong [OF assms(3), of n] by (auto simp: go_append_def Let_def slice_valid_def nth_append split: if_splits)
qed

lemma go_append_array: "go_append spare m s xs = (t, n) \<Longrightarrow> (sl_array t = sl_array s \<or> sl_array t = length m) \<and> length m \<le> length n"
  by (auto simp: go_append_def Let_def split: if_splits)

text \<open>\<open>make\<close> and \<open>copy\<close> together: a slice with an array of its own.\<close>

lemma go_make_copy:
  assumes "slice_valid m s" "go_make z m (sl_len s) = (c, m1)"
  shows "slice_valid (go_copy m1 c s) c" "elements (go_copy m1 c s) c = elements m s" "sl_array c = length m" "sl_len c = sl_len s"
    "length (go_copy m1 c s) = Suc (length m)" "\<And>a. a < length m \<Longrightarrow> go_copy m1 c s ! a = m ! a"
proof -
  have c: "c = \<lparr>sl_array = length m, sl_offset = 0, sl_len = sl_len s, sl_cap = sl_len s\<rparr>" "m1 = m @ [replicate (sl_len s) z]"
    using assms(2) by (simp_all add: go_make_def)
  have e: "elements m1 s = elements m s"
    by (rule elements_cong(2) [OF assms(1)]) (use assms(1) in \<open>auto simp: c slice_valid_def nth_append\<close>)
  then have "length (elements m1 s) = sl_len s" using assms(1) by simp
  then have n: "go_copy m1 c s = m @ [elements m s]"
    by (simp add: go_copy_def store_def c e flip: e)
  show "slice_valid (go_copy m1 c s) c" "elements (go_copy m1 c s) c = elements m s" "sl_array c = length m" "sl_len c = sl_len s"
    "length (go_copy m1 c s) = Suc (length m)" "\<And>a. a < length m \<Longrightarrow> go_copy m1 c s ! a = m ! a"
    using assms(1) unfolding n by (auto simp: c slice_valid_def elements_def nth_append)
qed

text \<open>\<open>append(s[:i], s[i+1:]...)\<close>: the elements behind \<open>i\<close> move one place to the front, in the same array.\<close>

lemma go_delete:
  assumes "slice_valid m s" "i < sl_len s"
  shows "\<exists>a b t n. slice_to s i = Some a \<and> slice_from s (Suc i) = Some b \<and> go_append spare m a (elements m b) = (t, n) \<and>
    slice_valid n t \<and> elements n t = take i (elements m s) @ drop (Suc i) (elements m s) \<and> sl_array t = sl_array s \<and>
    length n = length m \<and> (\<forall>k. k \<noteq> sl_array s \<longrightarrow> n ! k = m ! k)"
proof -
  let ?a = "s\<lparr>sl_len := i\<rparr>" and ?b = "s\<lparr>sl_offset := sl_offset s + Suc i, sl_len := sl_len s - Suc i, sl_cap := sl_cap s - Suc i\<rparr>"
  have ab: "slice_to s i = Some ?a" "slice_from s (Suc i) = Some ?b"
    using assms by (auto simp: slice_to_def slice_from_def slice_valid_def)
  have v: "slice_valid m ?a" using assms by (auto simp: slice_valid_def)
  have e: "elements m ?a = take i (elements m s)" "elements m ?b = drop (Suc i) (elements m s)"
    using assms(2) by (simp_all add: elements_def drop_take min_def ac_simps)
  obtain t n where t: "go_append spare m ?a (elements m ?b) = (t, n)" by fastforce
  have "length (elements m ?b) = sl_len s - Suc i" unfolding e(2) using assms(1) by simp
  then have "i + length (elements m ?b) \<le> sl_cap s" using assms by (simp only: slice_valid_def) linarith
  with t have "sl_array t = sl_array s" "n = store m (sl_array s) (sl_offset s + i) (elements m ?b)"
    by (auto simp: go_append_def)
  with go_append_elements [OF v t] ab t e show ?thesis by (auto simp: store_other)
qed

text \<open>Memory that was there before is kept by what works on arrays allocated since.\<close>

definition grown :: "'a arrays \<Rightarrow> 'a arrays \<Rightarrow> bool" where
  "grown m n \<longleftrightarrow> length m \<le> length n \<and> (\<forall>a < length m. n ! a = m ! a)"

definition fresh :: "'a arrays \<Rightarrow> slice \<Rightarrow> bool" where
  "fresh m s \<longleftrightarrow> (0 < sl_cap s \<longrightarrow> length m \<le> sl_array s)"

lemma grown_refl [simp]: "grown m m"
  by (simp add: grown_def)

lemma fresh_nil [simp]: "fresh m nil_slice"
  by (simp add: fresh_def nil_slice_def)

lemma grown_elements:
  assumes "grown m n" "slice_valid m s"
  shows "slice_valid n s" "elements n s = elements m s"
  using elements_cong [OF assms(2), of n] assms by (auto simp: grown_def slice_valid_def)

lemma go_append_fresh:
  assumes "slice_valid m s" "grown m0 m" "fresh m0 s" "go_append spare m s xs = (t, n)"
  shows "grown m0 n" "fresh m0 t"
proof -
  have "n ! a = m ! a" if "a < length m0" for a
  proof (cases "sl_cap s = 0")
    case True
    with assms(1,2,4) that show ?thesis by (auto simp: go_append_def grown_def slice_valid_def nth_append Let_def split: if_splits)
  next
    case False
    with assms(2-4) that show ?thesis by (auto simp: go_append_def grown_def fresh_def nth_append store_other Let_def split: if_splits)
  qed
  with assms(2,4) show "grown m0 n" by (auto simp: grown_def go_append_def Let_def split: if_splits)
  show "fresh m0 t" using assms(2-4) by (auto simp: fresh_def grown_def go_append_def Let_def split: if_splits)
qed

end
