(* ===== verification/Shared_Slices.thy ===== *)
theory Shared_Slices
  imports Go_Slices All_StatefulSets_Enforcer Sample_Cluster
begin

text \<open>
  The code of the operator that changes slices in place, on the slices of theory \<open>Go_Slices\<close>: the removal of
  custom volumes and mounts (\<open>VolumeSpecEnforcer.go\<close>) and the accessors of the sorted collections
  (\<open>StatefulSetWrapper.go\<close>). The other theories use lists for it; the theorems here say that they may.
\<close>

section \<open>Removal of custom volumes\<close>

text \<open>The loop of \<open>getCurrentCustomVolumes\<close> and of its two siblings: \<open>for _, x := range src { if P x { custom = append(custom, x) } }\<close>.\<close>

fun collect_loop :: "('a \<Rightarrow> bool) \<Rightarrow> (nat \<Rightarrow> 'a list) \<Rightarrow> slice \<Rightarrow> nat list \<Rightarrow> 'a arrays \<Rightarrow> slice \<Rightarrow> (slice \<times> 'a arrays) option" where
  "collect_loop P spare src [] m custom = Some (custom, m)"
| "collect_loop P spare src (i # is) m custom = do {
     x \<leftarrow> slice_nth m src i;
     if P x then (case go_append spare m custom [x] of (custom', m') \<Rightarrow> collect_loop P spare src is m' custom')
     else collect_loop P spare src is m custom
   }"

definition collect_custom :: "('a \<Rightarrow> bool) \<Rightarrow> (nat \<Rightarrow> 'a list) \<Rightarrow> 'a arrays \<Rightarrow> slice \<Rightarrow> (slice \<times> 'a arrays) option" where
  "collect_custom P spare m src = collect_loop P spare src [0..<sl_len src] m nil_slice"

fun index_loop :: "'a \<Rightarrow> 'a list \<Rightarrow> int \<Rightarrow> int" where
  "index_loop x [] index = -1"
| "index_loop x (y # ys) index = (if y = x then index else index_loop x ys (index + 1))"

definition getIndexOfVolume :: "Volume \<Rightarrow> Volume list \<Rightarrow> int" where
  "getIndexOfVolume volumeToSearch volumes = index_loop volumeToSearch volumes 0"

definition getIndexOfVolumeMount :: "VolumeMount \<Rightarrow> VolumeMount list \<Rightarrow> int" where
  "getIndexOfVolumeMount volumeMountToSearch volumeMounts = index_loop volumeMountToSearch volumeMounts 0"

text \<open>The loop over the copy of the custom items; each element is read from memory when it is reached.\<close>

fun remove_loop :: "('a \<Rightarrow> 'a list \<Rightarrow> int) \<Rightarrow> (nat \<Rightarrow> 'a list) \<Rightarrow> slice \<Rightarrow> nat list \<Rightarrow> 'a arrays \<Rightarrow> slice \<Rightarrow> (slice \<times> 'a arrays) option" where
  "remove_loop getIndex spare copied [] m s = Some (s, m)"
| "remove_loop getIndex spare copied (i # is) m s = do {
     x \<leftarrow> slice_nth m copied i;
     let index = getIndex x (elements m s);
     if index \<ge> 0 then do {
       a \<leftarrow> slice_to s (nat index);
       b \<leftarrow> slice_from s (nat (index + 1));
       case go_append spare m a (elements m b) of (s', m') \<Rightarrow> remove_loop getIndex spare copied is m' s'
     } else remove_loop getIndex spare copied is m s
   }"

definition remove_slices ::
    "('a \<Rightarrow> bool) \<Rightarrow> ('a \<Rightarrow> 'a list \<Rightarrow> int) \<Rightarrow> 'a \<Rightarrow> (nat \<Rightarrow> 'a list) \<Rightarrow> 'a arrays \<Rightarrow> slice \<Rightarrow> (slice \<times> 'a arrays) option" where
  "remove_slices P getIndex z spare m s = do {
     (custom, m1) \<leftarrow> collect_custom P spare m s;
     if sl_len custom = 0 then Some (s, m1)
     else (case go_make z m1 (sl_len custom) of (copied, m2) \<Rightarrow>
       remove_loop getIndex spare copied [0..<sl_len copied] (go_copy m2 copied custom) s)
   }"

definition removeCustomVolumes_slices :: "Volume \<Rightarrow> (nat \<Rightarrow> Volume list) \<Rightarrow> Volume arrays \<Rightarrow> slice \<Rightarrow> (slice \<times> Volume arrays) option" where
  "removeCustomVolumes_slices = remove_slices (\<lambda>v. \<not> IsReservedVolumeName (v_Name v)) getIndexOfVolume"

definition removeCustomVolumeMounts_slices ::
    "VolumeMount \<Rightarrow> (nat \<Rightarrow> VolumeMount list) \<Rightarrow> VolumeMount arrays \<Rightarrow> slice \<Rightarrow> (slice \<times> VolumeMount arrays) option" where
  "removeCustomVolumeMounts_slices = remove_slices (\<lambda>v. \<not> IsReservedVolumeName (vm_Name v)) getIndexOfVolumeMount"

section \<open>The sorted collections\<close>

text \<open>\<open>copy(toCopy, copyAll)\<close> has the new slice as its source.\<close>

definition StatefulSetWrappers_copy :: "StatefulSetWrapper arrays \<Rightarrow> slice \<Rightarrow> slice \<times> StatefulSetWrapper arrays" where
  "StatefulSetWrappers_copy m toCopy = (let copyAll = nil_slice in (toCopy, go_copy m toCopy copyAll))"

definition getAllReverseSorted_slices :: "(nat \<Rightarrow> StatefulSetWrapper list) \<Rightarrow> world \<Rightarrow> StatefulSetWrapper arrays \<Rightarrow> slice
    \<Rightarrow> slice \<times> StatefulSetWrapper arrays" where
  "getAllReverseSorted_slices spare w m collection =
     (let (replicas, m1) = StatefulSetWrappers_copy m collection
      in if all_isStandbyEnabled w then (replicas, m1) else go_append spare m1 replicas [rs_Primary (w_states w)])"

section \<open>The lists they stand for\<close>

lemma collect_loop_elements:
  assumes "slice_valid m0 src" "set is \<subseteq> {..<sl_len src}" "grown m0 m" "slice_valid m custom" "fresh m0 custom"
  shows "\<exists>c n. collect_loop P spare src is m custom = Some (c, n) \<and> grown m0 n \<and> slice_valid n c \<and> fresh m0 c \<and>
    elements n c = elements m custom @ filter P (map ((!) (elements m0 src)) is)"
  using assms(2-)
proof (induction "is" arbitrary: m custom)
  case (Cons i "is")
  have x: "slice_nth m src i = Some (elements m0 src ! i)"
    using slice_nth_elements [OF grown_elements(1) [OF Cons.prems(2) assms(1)], of i] grown_elements(2) [OF Cons.prems(2) assms(1)]
      Cons.prems(1) by simp
  show ?case
  proof (cases "P (elements m0 src ! i)")
    case True
    obtain c n where c: "go_append spare m custom [elements m0 src ! i] = (c, n)" by fastforce
    note e = go_append_elements [OF Cons.prems(3) c] go_append_fresh [OF Cons.prems(3,2,4) c]
    show ?thesis using Cons.IH [OF _ e(3,1,4)] Cons.prems(1) by (simp add: x True c e(2))
  next
    case False
    then show ?thesis using Cons.IH [OF _ Cons.prems(2-4)] Cons.prems(1) by (simp add: x)
  qed
qed simp

lemma collect_custom_elements:
  assumes "slice_valid m s"
  shows "\<exists>c n. collect_custom P spare m s = Some (c, n) \<and> grown m n \<and> slice_valid n c \<and> elements n c = filter P (elements m s)"
proof -
  have "map ((!) (elements m s)) [0..<sl_len s] = elements m s" using assms map_nth [of "elements m s"] by simp
  then show ?thesis
    using collect_loop_elements [OF assms, of "[0..<sl_len s]" m nil_slice P spare] by (auto simp: collect_custom_def lessThan_atLeast0)
qed

lemma index_loop_absent: "x \<notin> set xs \<Longrightarrow> index_loop x xs k = -1"
  by (induction xs arbitrary: k) auto

lemma index_loop_present:
  "x \<in> set xs \<Longrightarrow> \<exists>i < length xs. index_loop x xs k = k + int i \<and> take i xs @ drop (Suc i) xs = remove1 x xs"
proof (induction xs arbitrary: k)
  case (Cons y ys)
  show ?case
  proof (cases "y = x")
    case False
    with Cons obtain i where "i < length ys" "index_loop x ys (k + 1) = k + 1 + int i" "take i ys @ drop (Suc i) ys = remove1 x ys"
      by fastforce
    with False show ?thesis by (intro exI [of _ "Suc i"]) simp
  qed (intro exI [of _ 0], simp)
qed simp

lemma remove_loop_elements:
  assumes "slice_valid m s" "slice_valid m c" "sl_array c \<noteq> sl_array s" "set is \<subseteq> {..<sl_len c}"
    and getIndex: "\<And>x xs. getIndex x xs = index_loop x xs 0"
  shows "\<exists>t n. remove_loop getIndex spare c is m s = Some (t, n) \<and> slice_valid n t \<and> sl_array t = sl_array s \<and>
    elements n t = remove_items (elements m s) (map ((!) (elements m c)) is) \<and> length n = length m \<and> (\<forall>a. a \<noteq> sl_array s \<longrightarrow> n ! a = m ! a)"
  using assms(1-4)
proof (induction "is" arbitrary: m s)
  case (Cons i "is")
  let ?x = "elements m c ! i"
  have x: "slice_nth m c i = Some ?x" using Cons.prems(2,4) by (simp add: slice_nth_elements)
  show ?case
  proof (cases "?x \<in> set (elements m s)")
    case True
    then obtain k where k: "k < length (elements m s)" "getIndex ?x (elements m s) = int k"
      "take k (elements m s) @ drop (Suc k) (elements m s) = remove1 ?x (elements m s)"
      using index_loop_present [of ?x "elements m s" 0] by (auto simp: getIndex)
    from k(1) have "k < sl_len s" using Cons.prems(1) by simp
    then obtain a b t n where d: "slice_to s k = Some a" "slice_from s (Suc k) = Some b" "go_append spare m a (elements m b) = (t, n)"
      "slice_valid n t" "elements n t = remove1 ?x (elements m s)" "sl_array t = sl_array s" "length n = length m"
      "\<forall>j. j \<noteq> sl_array s \<longrightarrow> n ! j = m ! j"
      using go_delete [OF Cons.prems(1), of k spare] unfolding k(3) by blast
    have c: "slice_valid n c" "elements n c = elements m c"
      using elements_cong [OF Cons.prems(2), of n] Cons.prems(2,3) d(7,8) by (auto simp: slice_valid_def)
    have "nat (int k + 1) = Suc k" by simp
    then have step: "remove_loop getIndex spare c (i # is) m s = remove_loop getIndex spare c is n t"
      by (simp add: x k(2) d(1-3) Let_def)
    show ?thesis
      unfolding step using Cons.IH [OF d(4) c(1)] Cons.prems(3,4) d(5-8) by (auto simp: c(2) remove_items_def)
  next
    case False
    then have "getIndex ?x (elements m s) = -1" by (simp add: getIndex index_loop_absent)
    moreover have "remove1 ?x (elements m s) = elements m s" using False by (rule remove1_idem)
    ultimately show ?thesis using Cons.IH [OF Cons.prems(1-3)] Cons.prems(4) by (simp add: x remove_items_def)
  qed
qed (simp add: remove_items_def)

text \<open>The copy has an array of its own, so that the loop removes what was collected, and nothing panics.\<close>

lemma remove_slices_elements:
  assumes "slice_valid m s" and getIndex: "\<And>x xs. getIndex x xs = index_loop x xs 0"
  shows "\<exists>t n. remove_slices P getIndex z spare m s = Some (t, n) \<and> slice_valid n t \<and> sl_array t = sl_array s \<and>
    elements n t = remove_items (elements m s) (filter P (elements m s)) \<and> (\<forall>a < length m. a \<noteq> sl_array s \<longrightarrow> n ! a = m ! a)"
proof -
  obtain custom m1 where c: "collect_custom P spare m s = Some (custom, m1)" "grown m m1" "slice_valid m1 custom"
    "elements m1 custom = filter P (elements m s)"
    using collect_custom_elements [OF assms(1)] by blast
  note s1 = grown_elements [OF c(2) assms(1)]
  show ?thesis
  proof (cases "sl_len custom = 0")
    case True
    with elements_length [OF c(3)] have "filter P (elements m s) = []" by (simp add: c(4))
    with True c s1 show ?thesis by (auto simp: remove_slices_def remove_items_def grown_def)
  next
    case False
    obtain cp m2 where m2: "go_make z m1 (sl_len custom) = (cp, m2)" by fastforce
    let ?n = "go_copy m2 cp custom"
    note k = go_make_copy [OF c(3) m2]
    have "grown m1 ?n" using k(5,6) by (simp add: grown_def)
    note s2 = grown_elements [OF this s1(1)]
    have "sl_len s \<noteq> 0"
    proof
      assume "sl_len s = 0"
      then have "filter P (elements m s) = []" by (simp add: elements_def)
      with elements_length [OF c(3)] False show False by (simp add: c(4))
    qed
    then have "sl_array s < length m" using assms(1) by (auto simp: slice_valid_def)
    then have "sl_array cp \<noteq> sl_array s" using c(2) k(3) by (simp add: grown_def)
    moreover have "map ((!) (elements ?n cp)) [0..<sl_len cp] = filter P (elements m s)"
      using map_nth [of "elements ?n cp"] elements_length [OF k(1)] k(2) c(4) by simp
    ultimately obtain t n where "remove_loop getIndex spare cp [0..<sl_len cp] ?n s = Some (t, n)" "slice_valid n t" "sl_array t = sl_array s"
      "elements n t = remove_items (elements m s) (filter P (elements m s))" "\<forall>a. a \<noteq> sl_array s \<longrightarrow> n ! a = ?n ! a"
      using remove_loop_elements [OF s2(1) k(1), of "[0..<sl_len cp]" getIndex spare, OF _ _ getIndex] s1(2) s2(2)
      by (auto simp: lessThan_atLeast0)
    then show ?thesis using False c(1,2) m2 k(6) by (auto simp: remove_slices_def grown_def)
  qed
qed

text \<open>
  C29: custom volumes and mounts are removed in place as the list functions say (\<open>VolumeSpecEnforcer.go\<close>). On the slices of the code,
  where collecting appends to a growing array, the collected items are copied and each removal shifts the rest of the shared
  array, the functions never panic, and the slice they leave holds the elements that \<open>removeCustomVolumes\<close> and
  \<open>remove_custom_mounts\<close> compute on lists. Only the array of the slice itself is changed.
\<close>

theorem removal_in_place_refines_lists:
  "(slice_valid m s \<and> elements m s = ps_Volumes (sts_PodSpec st) \<longrightarrow>
     (\<exists>t n. removeCustomVolumes_slices z spare m s = Some (t, n) \<and> slice_valid n t \<and>
       elements n t = ps_Volumes (sts_PodSpec (removeCustomVolumes st)) \<and>
       sl_array t = sl_array s \<and> (\<forall>a < length m. a \<noteq> sl_array s \<longrightarrow> n ! a = m ! a))) \<and>
   (slice_valid m' s' \<and> elements m' s' = ctr_VolumeMounts c \<longrightarrow>
     (\<exists>t n. removeCustomVolumeMounts_slices z' spare' m' s' = Some (t, n) \<and> slice_valid n t \<and>
       elements n t = ctr_VolumeMounts (remove_custom_mounts c) \<and>
       sl_array t = sl_array s' \<and> (\<forall>a < length m'. a \<noteq> sl_array s' \<longrightarrow> n ! a = m' ! a)))"
proof -
  let ?P = "\<lambda>v. \<not> IsReservedVolumeName (v_Name v)" and ?Q = "\<lambda>v. \<not> IsReservedVolumeName (vm_Name v)"
  have v: "ps_Volumes (sts_PodSpec (removeCustomVolumes st)) = remove_items (ps_Volumes (sts_PodSpec st)) (filter ?P (ps_Volumes (sts_PodSpec st)))"
    by (simp add: removeCustomVolumes_def getCurrentCustomVolumes_def)
  have w: "ctr_VolumeMounts (remove_custom_mounts c) = remove_items (ctr_VolumeMounts c) (filter ?Q (ctr_VolumeMounts c))"
    by (simp add: remove_custom_mounts_def custom_mounts_def)
  show ?thesis
    unfolding v w removeCustomVolumes_slices_def removeCustomVolumeMounts_slices_def
    using remove_slices_elements [of m s getIndexOfVolume ?P z spare, OF _ getIndexOfVolume_def]
      remove_slices_elements [of m' s' getIndexOfVolumeMount ?Q z' spare', OF _ getIndexOfVolumeMount_def] by metis
qed

text \<open>
  \<open>copy\<close> returns its argument: nothing is copied, and a write through the returned slice is a write to
  the collection.
\<close>

theorem GetAll_shares_the_collection:
  assumes "slice_valid m s" "i < sl_len s"
  shows "StatefulSetWrappers_copy m s = (s, m) \<and>
    elements (store m (sl_array s) (sl_offset s + i) [x]) s = (elements m s)[i := x]"
proof -
  have a: "sl_array s < length m" "sl_offset s + i < length (m ! sl_array s)" using assms by (auto simp: slice_valid_def)
  have "take k xs @ x # drop (Suc k) xs = xs[k := x]" if "k < length xs" for k and xs :: "StatefulSetWrapper list"
    using that by (simp add: upd_conv_take_nth_drop)
  with a show ?thesis
    by (simp add: StatefulSetWrappers_copy_def go_copy_def elements_def store_same drop_update_swap take_update_swap)
qed

text \<open>
  The only caller that goes on to change the slice appends the primary behind the end of the collection, which the
  collection does not see, whether or not its array has room.
\<close>

theorem append_keeps_the_collection:
  assumes "slice_valid m s" "elements m s = GetAllReverseSortedByInstanceIndex (rep_All (rs_Replicas (w_states w)))"
    "getAllReverseSorted_slices spare w m s = (t, n)"
  shows "elements n t = getAllReverseSortedByInstanceIndex w \<and> elements n s = elements m s"
proof (cases "all_isStandbyEnabled w")
  case True
  with assms show ?thesis
    by (simp add: getAllReverseSorted_slices_def StatefulSetWrappers_copy_def go_copy_def getAllReverseSortedByInstanceIndex_def)
next
  case False
  with assms(3) have t: "go_append spare m s [rs_Primary (w_states w)] = (t, n)"
    by (simp add: getAllReverseSorted_slices_def StatefulSetWrappers_copy_def go_copy_def)
  show ?thesis
    using go_append_elements(2) [OF assms(1) t] go_append_others [OF assms(1) t assms(1)] False assms(2)
    by (simp add: getAllReverseSortedByInstanceIndex_def)
qed

definition sample_volumes :: "Volume list" where
  "sample_volumes = [template_config_volume ''data'' ''a'', template_config_volume ''base-config'' ''b'', template_config_volume ''more'' ''c'']"

definition sample_mounts :: "VolumeMount list" where
  "sample_mounts = [template_mount ''postgres-db'' ''/d'' '''', template_mount ''data'' ''/e'' '''']"

theorem removal_in_place_refines_lists_witness:
  "(\<exists>t n. removeCustomVolumes_slices (hd sample_volumes) (\<lambda>_. []) [sample_volumes]
       \<lparr>sl_array = 0, sl_offset = 0, sl_len = 3, sl_cap = 3\<rparr> = Some (t, n) \<and>
     elements n t = [template_config_volume ''base-config'' ''b'']) \<and>
   (\<exists>t n. removeCustomVolumeMounts_slices (hd sample_mounts) (\<lambda>_. []) [sample_mounts]
       \<lparr>sl_array = 0, sl_offset = 0, sl_len = 2, sl_cap = 2\<rparr> = Some (t, n) \<and>
     elements n t = [template_mount ''postgres-db'' ''/d'' ''''])"
proof -
  let ?st = "upd_PodSpec (\<lambda>p. p\<lparr>ps_Volumes := sample_volumes\<rparr>) zero_StatefulSet" and ?c = "sample_container\<lparr>ctr_VolumeMounts := sample_mounts\<rparr>"
  have v: "ps_Volumes (sts_PodSpec (removeCustomVolumes ?st)) = [template_config_volume ''base-config'' ''b'']" by code_simp
  have w: "ctr_VolumeMounts (remove_custom_mounts ?c) = [template_mount ''postgres-db'' ''/d'' '''']" by code_simp
  show ?thesis
    using removal_in_place_refines_lists [of "[sample_volumes]" "\<lparr>sl_array = 0, sl_offset = 0, sl_len = 3, sl_cap = 3\<rparr>" ?st
        "hd sample_volumes" "\<lambda>_. []" "[sample_mounts]" "\<lparr>sl_array = 0, sl_offset = 0, sl_len = 2, sl_cap = 2\<rparr>" ?c
        "hd sample_mounts" "\<lambda>_. []"]
    unfolding v w by (auto simp: slice_valid_def elements_def sample_volumes_def sample_mounts_def)
qed

end
