(* ===== verification/Spec2Isabelle.thy ===== *)
theory Spec2Isabelle
  imports Operation_Run Recovery Template_Loader Logging Setup Deep_Copy Wrapper_Sorting Shared_Slices
begin

text \<open>
  Verification of the Kubegres operator, a Kubernetes controller in Go that runs a
  PostgreSQL cluster: one StatefulSet with one Pod per instance, one primary and replicas
  that follow it, two services, a shared configuration, and an optional backup job.

  \<^bold>\<open>The program.\<close> \<open>src/main.go\<close> builds a controller manager and registers the reconciler. For
  each Kubegres resource the manager calls \<open>Reconcile\<close> (\<open>src/controllers/kubegres_controller.go\<close>),
  which creates a context (\<open>src/controllers/ctx/resources/ResourcesContext.go\<close>): defaults are filled
  in, the state of the cluster is read, the long-running operations are registered. Then it
  loads the blocking operation from the status. If this still has time, the reconciliation
  ends and asks to be run again; otherwise the spec is checked, the count enforcers create and
  delete resources, the StatefulSet enforcers roll out the rest of the spec, and the
  status is sent. The blocking operation (\<open>src/controllers/operation\<close>) is the lock through which the
  enforcers exclude each other over many reconciliations.

  \<^bold>\<open>State and effects.\<close> Record \<open>world\<close> (theory \<open>Operator_State\<close>) is what the objects of one
  reconciliation share through pointers: the Kubegres object with its status, the status
  fields marked for update, the loaded states, the registered operation configurations, the
  active and the previous operation, the requests sent so far and the events recorded. Each
  method is a function that returns its result and the new world. Errors are values
  of \<open>outcome\<close> (nil, an error, a panic) or \<open>res\<close> (a value, an error, a panic); nil
  dereferences and indices out of range are branches of the model. The API server is the record
  \<open>server\<close> of functions that answer reads and writes and may depend on all the requests
  sent before; nothing is assumed of it unless a theorem says so. Parsing, printing and comparing
  of Kubernetes quantities and opaque values are fields of the same record. 32-bit and 64-bit
  integers are HOL integers with the wrap-around of \<open>int32\<close> and \<open>int64\<close> written out.
\<close>

text \<open>
  \<^bold>\<open>Theories.\<close>
  \<^item> \<open>Kubegres_Prelude\<close>: errors, sequencing, Go strings, \<open>strconv\<close>, integers at their width,
    maps as association lists, generic lemmas.
  \<^item> \<open>K8s_Types\<close>, \<open>Kubegres_Types\<close>, \<open>States_Types\<close>: the Kubernetes structs as far as the code
    reads them, \<open>src/api/v1/kubegres_types.go\<close>, and the structs of \<open>src/controllers/states\<close>.
  \<^item> \<open>Operator_State\<close>: \<open>world\<close>, \<open>server\<close>, events, \<open>KubegresContext.go\<close>,
    \<open>KubegresStatusWrapper.go\<close>. \<open>Sample_Cluster\<close>: closed inputs for the witnesses.
  \<^item> \<open>Blocking_Operation\<close>, \<open>Operation_Machine\<close>, \<open>Operation_Lease\<close>: \<open>src/controllers/operation\<close>. The
    locale \<open>operation_lock\<close> is what the enforcers use of it; the functions
    refine an abstract lease with a deadline, in memory and in the status.
  \<^item> \<open>StatefulSet_States\<close>, \<open>Resources_States\<close>: \<open>src/controllers/states\<close>. The locale
    \<open>indexed_collection\<close> is the contract of the sorted collections. Loading succeeds exactly on
    well-labelled lists, and the loaded states are sorted and counted. \<open>Wrapper_Sorting\<close> has the methods that
    \<open>sort.Sort\<close> calls (locale \<open>sort_methods\<close>).
  \<^item> \<open>Templates\<close>, \<open>Base_Config\<close>, \<open>Custom_Config\<close>, \<open>Resources_Creator\<close>: \<open>src/controllers/spec/template\<close>.
    Creation panics only on an unparsable size, what is created is recognised by the loader,
    configuring is idempotent. \<open>Template_Loader\<close> has the loader of the templates with the decoder as a parameter.
  \<^item> \<open>Failover\<close>, \<open>Primary_Enforcer\<close>, \<open>Replica_Enforcer\<close>, \<open>Count_Enforcers\<close>:
    \<open>src/controllers/spec/enforcer/resources_count_spec\<close>. What each sends and when; the locale
    \<open>count_enforcer\<close> states that an enforcer does nothing while another operation is active, and
    is interpreted for every one of them.
  \<^item> \<open>Default_Spec\<close>, \<open>Spec_Checker\<close>: \<open>src/controllers/spec/defaultspec\<close> and \<open>checker\<close>. The defaults fill exactly
    the undefined fields, the check decides exactly the acceptable specs and rolls back the rest.
  \<^item> \<open>Spec_Enforcers\<close>, \<open>Spec_Registry\<close>, \<open>All_StatefulSets_Enforcer\<close>: \<open>statefulset_spec\<close> and
    \<open>comparator\<close>. The locale \<open>spec_enforcer\<close> is the contract of one enforcer: after its change it
    finds no difference. One pass over the registry removes every difference, and the roll-out moves from one
    StatefulSet to the next only when the Pod of the first runs the spec.
  \<^item> \<open>Created_Spec\<close>: the creator against the enforcers. A StatefulSet just created differs
    from the spec only by custom labels.
  \<^item> \<open>Resources_Context\<close>, \<open>Controller\<close>, \<open>One_Change\<close>, \<open>Steady_State\<close>: the reconciliation as
    a whole. The locale \<open>exclusive_enforcer\<close> extends \<open>count_enforcer\<close>; its interpretations compose to the
    theorem that one reconciliation makes at most one accepted change. A cluster that meets its
    spec is left alone, and a running operation is waited for.
  \<^item> \<open>Operation_Run\<close>: the blocking operation over whole reconciliations. The relation \<open>operation_run\<close> has what the code calls to
    change the operation and the status, the answers to updates of the Kubegres object included, and is derived for the check of
    the spec and for every enforcer. From it follow the invariant of the persisted operation over any number of reconciliations
    (\<open>persisted_status\<close>) and what an operation that has timed out blocks (\<open>held\<close>).
  \<^item> \<open>Scaling\<close>, \<open>At_Rest\<close>: the reconciliation in a closed loop with a cluster that carries out the
    requests (\<open>cluster\<close>, \<open>apply_request\<close>, \<open>reconcile_round\<close>). After a change of the number of replicas the
    loop ends after one reconciliation per replica, and one later the operator is at rest.
  \<^item> \<open>Recovery\<close>: fail-over in the same loop. From a failing primary the reconciliations pass through the deletion, the waiting
    step (\<open>waiting\<close>), the promotion and the scaling to rest, within a number of reconciliations that is computed from the
    time-outs. On the way the status counts one instance too many (\<open>drift\<close>).
  \<^item> \<open>Logging\<close>: \<open>src/controllers/ctx/log\<close>, \<open>operation/log\<close> and \<open>states/log\<close>.
  \<^item> \<open>Setup\<close>: \<open>CreateOwnerKeyIndexation.go\<close>, \<open>SetupWithManager\<close>, \<open>src/main.go\<close> and the script
    that generates the template constants.
  \<^item> \<open>Go_Memory\<close>, \<open>Deep_Copy\<close>: \<open>src/api/v1/zz_generated.deepcopy.go\<close> on an explicit memory, where pointers and slices
    are addresses. The locale \<open>copier\<close> is the contract of a deep copy; the constructions the generated functions are
    made of keep it, so that a copied object stands for the same resource and shares no cell with the original. Outside
    these theories and the next two a value is immutable and a copy is the value itself.
  \<^item> \<open>Go_Slices\<close>, \<open>Shared_Slices\<close>: slices with their backing arrays, and the code that changes slices in place or shares them:
    the removal of custom volumes and mounts, and the accessors of the sorted collections. It computes
    what the list functions of the other theories do, and the collections survive the sharing.
\<close>

text \<open>
  \<^bold>\<open>Conventions and bounds.\<close>
  \<^item> A Go map is an association list; the empty list stands for the nil map, and writing into it
    is a panic. Where the code compares maps with \<open>reflect.DeepEqual\<close>, the order of the list does not count (\<open>maps_DeepEqual\<close>). The order in which Go ranges over a map is the order of the list, so that the text of
    custom metadata differences is one of the possible ones.
  \<^item> \<open>sort.Sort\<close> is a stable sort in \<open>Add\<close>; theory \<open>Wrapper_Sorting\<close> shows that any algorithm gives the same collections as
    long as the instance indices of a cluster differ, and the same sequence of indices otherwise.
  \<^item> The clock is read when the code reads it while the operation is loaded, and once for the enforcers.
  \<^item> A completion checker returns a boolean and events. Whether it would panic is computed beside it
    (\<open>completion_checker_panics\<close>), and \<open>reconcile_context\<close> consults that first.
  \<^item> In \<open>Deep_Copy\<close> a struct of the Kubernetes libraries is one block of memory and its deep copy is a parameter, of which
    \<open>library_copies\<close> says that it makes a new block with the same contents.
  \<^item> An event keeps its type and its reason in \<open>world\<close>; the texts are modelled in
    theory \<open>Logging\<close>.
  \<^item> The templates are the parsed values of the YAML constants. That the loader returns them is a lemma of \<open>Template_Loader\<close>, under the
    hypothesis that the decoder reads the constants; elsewhere the creator uses the values themselves.
  \<^item> Nothing has fuel: every loop of the program runs over a finite list, and all functions are total. The
    loop over reconciliations in \<open>Scaling\<close> is a \<open>while_option\<close>, and that it ends is a theorem.
  \<^item> In \<open>persisted_status\<close> a reconciliation reads a status that an earlier one has sent, not necessarily the last one, since the update may
    be rejected; the only hypothesis on the server is that an update of the Kubegres object leaves the status alone
    (\<open>keeps_status\<close>), since the status is a subresource. The environment of the closed loop in \<open>Scaling\<close> is idealised: requests are carried out at once, a created StatefulSet is ready at the next reconciliation, an updated one keeps its readiness, and a deleted one is gone.
  \<^item> In \<open>Recovery\<close> two reconciliations are at least a second apart and the three readings of the clock while the operation is loaded
    are the same second (\<open>ticking\<close>).

  \<^bold>\<open>Not modelled.\<close> The controller manager, the client with its cache, the log sink and the
    event recorder are libraries. Constructors that only fill in a struct have no definition of
    their own; their fields are arguments. The registration of the API types with the scheme, the flags of
    the logger and the pause of one second before the resource is read have no effect on what is proved here.
    The acceptance tests under \<open>src/test\<close> are not part of the operator.
\<close>

end
